(* ===== verification/Prelude.thy ===== *)
theory Prelude
  imports Main "HOL-Library.Word"
begin

text \<open>
  Shared vocabulary of the development: the widths of the C integers, byte buffers and
  little-endian fields, a bounded loop combinator with the rules the loop proofs use, the
  return codes of \<^verbatim>\<open>include/libethercat/error_codes.h\<close>, and the interface of libosal
  (a library of its own, not part of the repository), which is a parameter of the model.
\<close>

unbundle bit_operations_syntax

named_theorems buf_simps \<open>reading and writing byte buffers\<close>
named_theorems loop_rules \<open>results of bounded loops\<close>

section \<open>Machine integers\<close>

type_synonym u8 = "8 word"
type_synonym u16 = "16 word"
type_synonym u32 = "32 word"
type_synonym u64 = "64 word"
type_synonym bytes = "8 word list"

lemma unat_lt: "unat (w :: 'a::len word) < 2 ^ LENGTH('a)"
  by (rule unsigned_less)

section \<open>Byte buffers\<close>

text \<open>\<open>memcpy(&buf[off], xs, length xs)\<close> and reading \<open>n\<close> bytes at an offset.\<close>

definition put_at :: "nat \<Rightarrow> 'a list \<Rightarrow> 'a list \<Rightarrow> 'a list" where
  "put_at off xs buf = take off buf @ xs @ drop (off + length xs) buf"

definition slice :: "nat \<Rightarrow> nat \<Rightarrow> 'a list \<Rightarrow> 'a list" where
  "slice off n buf = take n (drop off buf)"

lemma length_put_at [buf_simps]:
  "off + length xs \<le> length buf \<Longrightarrow> length (put_at off xs buf) = length buf"
  by (simp add: put_at_def)

lemma length_slice [buf_simps]: "off + n \<le> length buf \<Longrightarrow> length (slice off n buf) = n"
  by (simp add: slice_def)

lemma slice_put_at_same [buf_simps]:
  "off + length xs \<le> length buf \<Longrightarrow> n = length xs \<Longrightarrow> slice off n (put_at off xs buf) = xs"
  by (simp add: put_at_def slice_def)

lemma slice_put_at_before [buf_simps]:
  "p + n \<le> off \<Longrightarrow> off \<le> length buf \<Longrightarrow> slice p n (put_at off xs buf) = slice p n buf"
  by (simp add: put_at_def slice_def drop_take min_absorb1)

lemma slice_put_at_after [buf_simps]:
  assumes "off + length xs \<le> p" "off + length xs \<le> length buf"
  shows "slice p n (put_at off xs buf) = slice p n buf"
  using assms by (simp add: put_at_def slice_def)

lemma nth_put_at [buf_simps]:
  assumes "off + length xs \<le> length buf" "i < length buf"
  shows "put_at off xs buf ! i =
           (if i < off then buf ! i else if i < off + length xs then xs ! (i - off) else buf ! i)"
  using assms by (auto simp: put_at_def nth_append min_def)

lemma nth_slice [buf_simps]: "off + n \<le> length buf \<Longrightarrow> i < n \<Longrightarrow> slice off n buf ! i = buf ! (off + i)"
  by (simp add: slice_def)

lemma slice_slice [buf_simps]:
  assumes "p + m \<le> n"
  shows "slice p m (slice off n buf) = slice (off + p) m buf"
proof -
  have "drop p (take n (drop off buf)) = take (n - p) (drop (off + p) buf)"
    by (simp add: drop_take add.commute)
  then show ?thesis using assms by (simp add: slice_def min_absorb1)
qed

lemma slice_append_left [buf_simps]: "p + n \<le> length xs \<Longrightarrow> slice p n (xs @ ys) = slice p n xs"
  by (simp add: slice_def)

lemma slice_append_right [buf_simps]:
  "length xs \<le> p \<Longrightarrow> slice p n (xs @ ys) = slice (p - length xs) n ys"
  by (simp add: slice_def)

lemma slice_0_all: "slice 0 (length xs) xs = xs"
  by (simp add: slice_def)

section \<open>Little-endian fields\<close>

fun to_le :: "nat \<Rightarrow> nat \<Rightarrow> bytes" where
  "to_le 0 x = []"
| "to_le (Suc n) x = of_nat x # to_le n (x div 256)"

fun of_le :: "bytes \<Rightarrow> nat" where
  "of_le [] = 0"
| "of_le (b # bs) = unat b + 256 * of_le bs"

lemma to_le_numeral [simp]:
  "to_le (numeral k) x = of_nat x # to_le (pred_numeral k) (x div 256)"
  by (simp only: numeral_eq_Suc[of k] to_le.simps)

lemma length_to_le [simp]: "length (to_le n x) = n"
  by (induction n arbitrary: x) auto

lemma of_le_to_le: "of_le (to_le n x) = x mod 256 ^ n"
proof (induction n arbitrary: x)
  case 0
  then show ?case by simp
next
  case (Suc n)
  have "unat (of_nat x :: u8) = x mod 256"
    by (simp add: unat_of_nat)
  then show ?case
    using Suc by (simp add: mod_mult2_eq)
qed

lemma of_le_less: "of_le bs < 256 ^ length bs"
proof (induction bs)
  case Nil
  then show ?case by simp
next
  case (Cons b bs)
  have "unat b < 256" using unat_lt[of b] by simp
  with Cons show ?case by simp
qed

lemma to_le_of_le: "n = length bs \<Longrightarrow> to_le n (of_le bs) = bs"
proof (induction bs arbitrary: n)
  case Nil
  then show ?case by simp
next
  case (Cons b bs)
  have b: "unat b < 256" using unat_lt[of b] by simp
  have "(of_nat (256 * of_le bs) :: u8) = of_nat 256 * of_nat (of_le bs)"
    by (rule of_nat_mult)
  also have "(of_nat 256 :: u8) = 0" by (rule word_unat_eq_iff[THEN iffD2]) (simp add: unat_of_nat)
  finally have "(of_nat (unat b + 256 * of_le bs) :: u8) = b" by simp
  with Cons b show ?case by simp
qed

definition le16 :: "u16 \<Rightarrow> bytes" where "le16 w = to_le 2 (unat w)"
definition le32 :: "u32 \<Rightarrow> bytes" where "le32 w = to_le 4 (unat w)"
definition le64 :: "u64 \<Rightarrow> bytes" where "le64 w = to_le 8 (unat w)"

lemma length_le [simp]: "length (le16 a) = 2" "length (le32 b) = 4" "length (le64 c) = 8"
  by (simp_all add: le16_def le32_def le64_def)

lemma of_le_le16 [simp]: "of_le (le16 w) = unat w"
  using unat_lt[of w] by (simp add: le16_def of_le_to_le del: to_le_numeral)

lemma of_le_le32 [simp]: "of_le (le32 w) = unat w"
  using unat_lt[of w] by (simp add: le32_def of_le_to_le del: to_le_numeral)

lemma of_le_le64 [simp]: "of_le (le64 w) = unat w"
  using unat_lt[of w] by (simp add: le64_def of_le_to_le del: to_le_numeral)

definition u16_of :: "bytes \<Rightarrow> u16" where "u16_of bs = of_nat (of_le bs)"
definition u32_of :: "bytes \<Rightarrow> u32" where "u32_of bs = of_nat (of_le bs)"
definition u64_of :: "bytes \<Rightarrow> u64" where "u64_of bs = of_nat (of_le bs)"

lemma uint_of_le [simp]: "u16_of (le16 w) = w" "u32_of (le32 x) = x" "u64_of (le64 y) = y"
  by (simp_all add: u16_of_def u32_of_def u64_of_def)

lemma le_u16_of: "length bs = 2 \<Longrightarrow> le16 (u16_of bs) = bs"
  using of_le_less[of bs] to_le_of_le[of 2 bs]
  by (simp add: le16_def u16_of_def unat_of_nat del: to_le_numeral)

lemma le_u32_of: "length bs = 4 \<Longrightarrow> le32 (u32_of bs) = bs"
  using of_le_less[of bs] to_le_of_le[of 4 bs]
  by (simp add: le32_def u32_of_def unat_of_nat del: to_le_numeral)

section \<open>Bounded loops\<close>

text \<open>
  A C loop is its body as a function from the loop state to the next state (\<open>Inl\<close>) or to
  the result of the loop (\<open>Inr\<close>: the exit condition, a \<open>break\<close>, a \<open>return\<close>).
  \<open>loop n\<close> runs at most \<open>n\<close> rounds; \<^term>\<open>None\<close> says that \<open>n\<close> rounds were not enough.
\<close>

fun loop :: "nat \<Rightarrow> ('s \<Rightarrow> 's + 'r) \<Rightarrow> 's \<Rightarrow> 'r option" where
  "loop 0 body s = None"
| "loop (Suc n) body s = (case body s of Inl s' \<Rightarrow> loop n body s' | Inr r \<Rightarrow> Some r)"

lemma loop_numeral [simp]:
  "loop (numeral k) body s =
     (case body s of Inl s' \<Rightarrow> loop (pred_numeral k) body s' | Inr r \<Rightarrow> Some r)"
  by (simp only: numeral_eq_Suc[of k] loop.simps)

lemma loop_more_fuel: "loop n body s = Some r \<Longrightarrow> loop (n + k) body s = Some r"
  by (induction n body s rule: loop.induct) (auto split: sum.splits)

lemma loop_mono: "loop n body s = Some r \<Longrightarrow> n \<le> m \<Longrightarrow> loop m body s = Some r"
  using loop_more_fuel[of n body s r "m - n"] by simp

lemma loop_invariant [consumes 1, case_names step exit init]:
  assumes "loop n body s = Some r"
    and "\<And>s s'. I s \<Longrightarrow> body s = Inl s' \<Longrightarrow> I s'"
    and "\<And>s r. I s \<Longrightarrow> body s = Inr r \<Longrightarrow> Q r"
    and "I s"
  shows "Q r"
  using assms(1,4)
proof (induction n arbitrary: s)
  case 0
  then show ?case by simp
next
  case (Suc n)
  then show ?case
    by (cases "body s") (auto intro: assms(2,3))
qed

lemma loop_terminates [case_names step init fuel]:
  assumes "\<And>s s'. I s \<Longrightarrow> body s = Inl s' \<Longrightarrow> I s' \<and> m s' < (m s :: nat)"
    and "I s" and "m s < n"
  shows "\<exists>r. loop n body s = Some r"
  using assms(2,3)
proof (induction n arbitrary: s)
  case 0
  then show ?case by simp
next
  case (Suc n)
  show ?case
  proof (cases "body s")
    case (Inl s')
    with assms(1)[OF Suc.prems(1)] Suc.prems(2) have "I s'" "m s' < n" by auto
    with Suc.IH Inl show ?thesis by simp
  qed simp
qed

lemma loop_once [loop_rules]: "body s = Inr r \<Longrightarrow> 0 < n \<Longrightarrow> loop n body s = Some r"
  by (cases n) simp_all

section \<open>Lists used as queues\<close>

lemma map_nth_take: "n \<le> length xs \<Longrightarrow> map (\<lambda>i. xs ! i) [0..<n] = take n xs"
  by (rule nth_equalityI) simp_all

lemma list_all2_set2: "list_all2 P xs ys \<Longrightarrow> y \<in> set ys \<Longrightarrow> \<exists>x\<in>set xs. P x y"
  by (induction rule: list_all2_induct) auto

section \<open>Return codes\<close>

text \<open>\<^verbatim>\<open>include/libethercat/error_codes.h\<close>: the value every operation returns.\<close>

definition EC_OK :: int where [simp]: "EC_OK = 0"
definition EC_ERROR_OUT_OF_MEMORY :: int where [simp]: "EC_ERROR_OUT_OF_MEMORY = 0x00010001"
definition EC_ERROR_OUT_OF_INDICES :: int where [simp]: "EC_ERROR_OUT_OF_INDICES = 0x00010010"
definition EC_ERROR_OUT_OF_DATAGRAMS :: int where [simp]: "EC_ERROR_OUT_OF_DATAGRAMS = 0x00010020"
definition EC_ERROR_TIMEOUT :: int where [simp]: "EC_ERROR_TIMEOUT = 0x00010040"
definition EC_ERROR_UNAVAILABLE :: int where [simp]: "EC_ERROR_UNAVAILABLE = 0x00010080"
definition EC_ERROR_HW_SEND :: int where [simp]: "EC_ERROR_HW_SEND = 0x00010100"
definition EC_ERROR_CYCLIC_LOOP :: int where [simp]: "EC_ERROR_CYCLIC_LOOP = 0x00010200"
definition EC_ERROR_SLAVE_STATE_SWITCH :: int where
  [simp]: "EC_ERROR_SLAVE_STATE_SWITCH = 0x00020001"
definition EC_ERROR_SLAVE_NOT_RESPONDING :: int where
  [simp]: "EC_ERROR_SLAVE_NOT_RESPONDING = 0x00020002"
definition EC_ERROR_SLAVE_NOT_FOUND :: int where [simp]: "EC_ERROR_SLAVE_NOT_FOUND = 0x00020008"
definition EC_ERROR_EEPROM_READ_ERROR :: int where
  [simp]: "EC_ERROR_EEPROM_READ_ERROR = 0x00040001"
definition EC_ERROR_EEPROM_WRITE_ERROR :: int where
  [simp]: "EC_ERROR_EEPROM_WRITE_ERROR = 0x00040002"
definition EC_ERROR_EEPROM_CHECKSUM :: int where [simp]: "EC_ERROR_EEPROM_CHECKSUM = 0x00040008"
definition EC_ERROR_EEPROM_WRITE_IN_PROGRESS :: int where
  [simp]: "EC_ERROR_EEPROM_WRITE_IN_PROGRESS = 0x00040010"
definition EC_ERROR_EEPROM_WRITE_ENABLE :: int where
  [simp]: "EC_ERROR_EEPROM_WRITE_ENABLE = 0x00040020"
definition EC_ERROR_EEPROM_CONTROL_TO_EC :: int where
  [simp]: "EC_ERROR_EEPROM_CONTROL_TO_EC = 0x00040100"
definition EC_ERROR_EEPROM_CONTROL_TO_PDI :: int where
  [simp]: "EC_ERROR_EEPROM_CONTROL_TO_PDI = 0x00040200"
definition EC_ERROR_MAILBOX_MASK :: int where [simp]: "EC_ERROR_MAILBOX_MASK = 0x00100000"
definition EC_ERROR_MAILBOX_NOT_SUPPORTED_EOE :: int where
  [simp]: "EC_ERROR_MAILBOX_NOT_SUPPORTED_EOE = 0x00100002"
definition EC_ERROR_MAILBOX_NOT_SUPPORTED_COE :: int where
  [simp]: "EC_ERROR_MAILBOX_NOT_SUPPORTED_COE = 0x00100003"
definition EC_ERROR_MAILBOX_NOT_SUPPORTED_FOE :: int where
  [simp]: "EC_ERROR_MAILBOX_NOT_SUPPORTED_FOE = 0x00100004"
definition EC_ERROR_MAILBOX_NOT_SUPPORTED_SOE :: int where
  [simp]: "EC_ERROR_MAILBOX_NOT_SUPPORTED_SOE = 0x00100005"
definition EC_ERROR_MAILBOX_READ_EMPTY :: int where
  [simp]: "EC_ERROR_MAILBOX_READ_EMPTY = 0x00100100"
definition EC_ERROR_MAILBOX_TIMEOUT :: int where [simp]: "EC_ERROR_MAILBOX_TIMEOUT = 0x00101000"
definition EC_ERROR_MAILBOX_ABORT :: int where [simp]: "EC_ERROR_MAILBOX_ABORT = 0x00102000"
definition EC_ERROR_MAILBOX_READ :: int where [simp]: "EC_ERROR_MAILBOX_READ = 0x00104000"
definition EC_ERROR_MAILBOX_OUT_OF_SEND_BUFFERS :: int where
  [simp]: "EC_ERROR_MAILBOX_OUT_OF_SEND_BUFFERS = 0x00110000"
definition EC_ERROR_MAILBOX_OUT_OF_WRITE_BUFFERS :: int where
  [simp]: "EC_ERROR_MAILBOX_OUT_OF_WRITE_BUFFERS = 0x00120000"
definition EC_ERROR_MAILBOX_BUFFER_TOO_SMALL :: int where
  [simp]: "EC_ERROR_MAILBOX_BUFFER_TOO_SMALL = 0x00140000"
definition EC_ERROR_MAILBOX_COE_INDEX_NOT_FOUND :: int where
  [simp]: "EC_ERROR_MAILBOX_COE_INDEX_NOT_FOUND = 0x00200001"
definition EC_ERROR_MAILBOX_COE_SUBINDEX_NOT_FOUND :: int where
  [simp]: "EC_ERROR_MAILBOX_COE_SUBINDEX_NOT_FOUND = 0x00200002"
definition EC_ERROR_MAILBOX_FOE_ERROR_REQ :: int where
  [simp]: "EC_ERROR_MAILBOX_FOE_ERROR_REQ = 0x00800001"
definition EC_ERROR_MAILBOX_FOE_NO_ACK :: int where
  [simp]: "EC_ERROR_MAILBOX_FOE_NO_ACK = 0x00800002"
definition EC_ERROR_MAILBOX_FOE_AGAIN :: int where
  [simp]: "EC_ERROR_MAILBOX_FOE_AGAIN = 0x00800004"

section \<open>The interface of libosal\<close>

text \<open>
  What the sources compare an \<^verbatim>\<open>osal_retval_t\<close> with: \<^verbatim>\<open>OSAL_OK\<close>,
  \<^verbatim>\<open>OSAL_ERR_TIMEOUT\<close>, anything else.
\<close>

datatype osal_retval = OSAL_OK | OSAL_ERR_TIMEOUT | OSAL_ERR_OTHER

text \<open>
  The semaphore operations, each from the value of the semaphore to its next value (a counting
  semaphore is a number, a binary one whether it is signalled); a timed wait also gets the
  timer and returns its result.
\<close>

record osal =
  osal_semaphore_init :: "nat \<Rightarrow> nat"
  osal_semaphore_post :: "nat \<Rightarrow> nat"
  osal_semaphore_timedwait :: "nat \<Rightarrow> nat \<Rightarrow> osal_retval \<times> nat"
  osal_binary_semaphore_init :: bool
  osal_binary_semaphore_post :: "bool \<Rightarrow> bool"
  osal_binary_semaphore_trywait :: "bool \<Rightarrow> bool"
  osal_binary_semaphore_timedwait :: "nat \<Rightarrow> bool \<Rightarrow> osal_retval \<times> bool"

text \<open>The documented behaviour of a counting and of a binary semaphore.\<close>

definition semaphore_laws :: "osal \<Rightarrow> bool" where
  "semaphore_laws os \<longleftrightarrow>
     (\<forall>n. osal_semaphore_init os n = n) \<and>
     (\<forall>n. osal_semaphore_post os n = Suc n) \<and>
     (\<forall>t n. osal_semaphore_timedwait os t (Suc n) = (OSAL_OK, n)) \<and>
     (\<forall>t. fst (osal_semaphore_timedwait os t 0) \<noteq> OSAL_OK \<and>
          snd (osal_semaphore_timedwait os t 0) = 0)"

definition binary_semaphore_laws :: "osal \<Rightarrow> bool" where
  "binary_semaphore_laws os \<longleftrightarrow>
     \<not> osal_binary_semaphore_init os \<and>
     (\<forall>b. osal_binary_semaphore_post os b) \<and>
     (\<forall>b. \<not> osal_binary_semaphore_trywait os b) \<and>
     (\<forall>t. osal_binary_semaphore_timedwait os t True = (OSAL_OK, False)) \<and>
     (\<forall>t. fst (osal_binary_semaphore_timedwait os t False) \<noteq> OSAL_OK \<and>
          \<not> snd (osal_binary_semaphore_timedwait os t False))"

lemma semaphore_wait_0:
  assumes "semaphore_laws os"
  shows "\<exists>r. r \<noteq> OSAL_OK \<and> osal_semaphore_timedwait os t 0 = (r, 0)"
proof -
  have "fst (osal_semaphore_timedwait os t 0) \<noteq> OSAL_OK"
    and "snd (osal_semaphore_timedwait os t 0) = 0"
    using assms by (simp_all add: semaphore_laws_def)
  then show ?thesis by (cases "osal_semaphore_timedwait os t 0") simp
qed

lemma binary_semaphore_wait_unsignalled:
  assumes "binary_semaphore_laws os"
  shows "\<exists>r. r \<noteq> OSAL_OK \<and> osal_binary_semaphore_timedwait os t False = (r, False)"
proof -
  have "fst (osal_binary_semaphore_timedwait os t False) \<noteq> OSAL_OK"
    and "snd (osal_binary_semaphore_timedwait os t False) = False"
    using assms by (simp_all add: binary_semaphore_laws_def)
  then show ?thesis by (cases "osal_binary_semaphore_timedwait os t False") simp
qed

text \<open>A concrete libosal for the witnesses: a wait on an empty semaphore times out.\<close>

definition posix_osal :: osal where
  "posix_osal = \<lparr>
     osal_semaphore_init = (\<lambda>n. n),
     osal_semaphore_post = Suc,
     osal_semaphore_timedwait =
       (\<lambda>t n. if n = 0 then (OSAL_ERR_TIMEOUT, 0) else (OSAL_OK, n - 1)),
     osal_binary_semaphore_init = False,
     osal_binary_semaphore_post = (\<lambda>_. True),
     osal_binary_semaphore_trywait = (\<lambda>_. False),
     osal_binary_semaphore_timedwait =
       (\<lambda>t b. if b then (OSAL_OK, False) else (OSAL_ERR_TIMEOUT, False)) \<rparr>"

lemma posix_osal_laws [simp]: "semaphore_laws posix_osal" "binary_semaphore_laws posix_osal"
  by (simp_all add: semaphore_laws_def binary_semaphore_laws_def posix_osal_def)

lemma semaphore_lawsD [simp]:
  assumes "semaphore_laws os"
  shows "osal_semaphore_init os n = n" "osal_semaphore_post os n = Suc n"
    "osal_semaphore_timedwait os t (Suc n) = (OSAL_OK, n)"
  using assms by (simp_all add: semaphore_laws_def)

lemma semaphore_wait_value:
  assumes "semaphore_laws os" "osal_semaphore_timedwait os t n = (r, c)"
  shows "if r = OSAL_OK then n = Suc c else n = 0 \<and> c = 0"
  using assms semaphore_wait_0[of os t] by (cases n) auto

lemma binary_semaphore_lawsD [simp]:
  assumes "binary_semaphore_laws os"
  shows "osal_binary_semaphore_init os = False" "osal_binary_semaphore_post os b = True"
    "osal_binary_semaphore_trywait os b = False"
    "osal_binary_semaphore_timedwait os t True = (OSAL_OK, False)"
  using assms by (simp_all add: binary_semaphore_laws_def)

end
