(* ===== verification/Regs.thy ===== *)
theory Regs
  imports Prelude
begin

text \<open>
  The protocol's constants: EtherCAT states and slave state transitions
  (\<^verbatim>\<open>include/libethercat/common.h\<close>, \<^verbatim>\<open>slave.h\<close>), commands and registers
  (\<^verbatim>\<open>regs.h\<close>), and the functions that turn codes into strings for the log.
\<close>

section \<open>States\<close>

definition EC_STATE_UNKNOWN :: u16 where [simp]: "EC_STATE_UNKNOWN = 0x0"
definition EC_STATE_INIT :: u16 where [simp]: "EC_STATE_INIT = 0x1"
definition EC_STATE_PREOP :: u16 where [simp]: "EC_STATE_PREOP = 0x2"
definition EC_STATE_BOOT :: u16 where [simp]: "EC_STATE_BOOT = 0x3"
definition EC_STATE_SAFEOP :: u16 where [simp]: "EC_STATE_SAFEOP = 0x4"
definition EC_STATE_OP :: u16 where [simp]: "EC_STATE_OP = 0x8"
definition EC_STATE_MASK :: u16 where [simp]: "EC_STATE_MASK = 0xf"
definition EC_STATE_ERROR :: u16 where [simp]: "EC_STATE_ERROR = 0x10"
definition EC_STATE_RESET :: u16 where [simp]: "EC_STATE_RESET = 0x10"

section \<open>Registers\<close>

definition EC_REG_TYPE :: nat where [simp]: "EC_REG_TYPE = 0x0"
definition EC_REG_SM_FFMU_CH :: nat where [simp]: "EC_REG_SM_FFMU_CH = 0x4"
definition EC_REG_FMMU_CH :: nat where [simp]: "EC_REG_FMMU_CH = 0x4"
definition EC_REG_SM_CH :: nat where [simp]: "EC_REG_SM_CH = 0x5"
definition EC_REG_RAM_SIZE :: nat where [simp]: "EC_REG_RAM_SIZE = 0x6"
definition EC_REG_PORTDES :: nat where [simp]: "EC_REG_PORTDES = 0x7"
definition EC_REG_ESCSUP :: nat where [simp]: "EC_REG_ESCSUP = 0x8"
definition EC_REG_ESCSUP__FMMU_BIT_OP_NOT_SUPP :: nat where [simp]: "EC_REG_ESCSUP__FMMU_BIT_OP_NOT_SUPP = 0x1"
definition EC_REG_ESCSUP__NO_SUPP_RESERVED_REG :: nat where [simp]: "EC_REG_ESCSUP__NO_SUPP_RESERVED_REG = 0x2"
definition EC_REG_ESCSUP__DC_SUPP :: nat where [simp]: "EC_REG_ESCSUP__DC_SUPP = 0x4"
definition EC_REG_ESCSUP__DC_RANGE :: nat where [simp]: "EC_REG_ESCSUP__DC_RANGE = 0x8"
definition EC_REG_ESCSUP__LOW_J_EBUS :: nat where [simp]: "EC_REG_ESCSUP__LOW_J_EBUS = 0x10"
definition EC_REG_ESCSUP__ENH_LD_EBUS :: nat where [simp]: "EC_REG_ESCSUP__ENH_LD_EBUS = 0x20"
definition EC_REG_ESCSUP__ENH_LD_MII :: nat where [simp]: "EC_REG_ESCSUP__ENH_LD_MII = 0x40"
definition EC_REG_ESCSUP__FCS_S_ERR :: nat where [simp]: "EC_REG_ESCSUP__FCS_S_ERR = 0x80"
definition EC_REG_ESCSUP__ENHANCED_DC_SYNC_ACT :: nat where [simp]: "EC_REG_ESCSUP__ENHANCED_DC_SYNC_ACT = 0x100"
definition EC_REG_ESCSUP__NOT_SUPP_LRW :: nat where [simp]: "EC_REG_ESCSUP__NOT_SUPP_LRW = 0x200"
definition EC_REG_ESCSUP__NOT_SUPP_BAFRW :: nat where [simp]: "EC_REG_ESCSUP__NOT_SUPP_BAFRW = 0x400"
definition EC_REG_ESCSUP__S_FMMU_SYMC :: nat where [simp]: "EC_REG_ESCSUP__S_FMMU_SYMC = 0x800"
definition EC_REG_STADR :: nat where [simp]: "EC_REG_STADR = 0x10"
definition EC_REG_ALIAS :: nat where [simp]: "EC_REG_ALIAS = 0x12"
definition EC_REG_DLCTL :: nat where [simp]: "EC_REG_DLCTL = 0x100"
definition EC_REG_DLPORT :: nat where [simp]: "EC_REG_DLPORT = 0x101"
definition EC_REG_DLALIAS :: nat where [simp]: "EC_REG_DLALIAS = 0x103"
definition EC_REG_DLSTAT :: nat where [simp]: "EC_REG_DLSTAT = 0x110"
definition EC_REG_ALCTL :: nat where [simp]: "EC_REG_ALCTL = 0x120"
definition EC_REG_ALSTAT :: nat where [simp]: "EC_REG_ALSTAT = 0x130"
definition EC_REG_ALSTATCODE :: nat where [simp]: "EC_REG_ALSTATCODE = 0x134"
definition EC_REG_PDICTL :: nat where [simp]: "EC_REG_PDICTL = 0x140"
definition EC_REG_IRQMASK :: nat where [simp]: "EC_REG_IRQMASK = 0x200"
definition EC_REG_RXERR :: nat where [simp]: "EC_REG_RXERR = 0x300"
definition EC_REG_EEPCFG :: nat where [simp]: "EC_REG_EEPCFG = 0x500"
definition EC_REG_EEPCTL :: nat where [simp]: "EC_REG_EEPCTL = 0x502"
definition EC_REG_EEPSTAT :: nat where [simp]: "EC_REG_EEPSTAT = 0x502"
definition EC_REG_EEPADR :: nat where [simp]: "EC_REG_EEPADR = 0x504"
definition EC_REG_EEPDAT :: nat where [simp]: "EC_REG_EEPDAT = 0x508"
definition EC_REG_MII_CTRLSTAT :: nat where [simp]: "EC_REG_MII_CTRLSTAT = 0x510"
definition EC_REG_MII_PHY_ADR :: nat where [simp]: "EC_REG_MII_PHY_ADR = 0x512"
definition EC_REG_MII_PHY_REG :: nat where [simp]: "EC_REG_MII_PHY_REG = 0x513"
definition EC_REG_MII_PHY_DATA :: nat where [simp]: "EC_REG_MII_PHY_DATA = 0x514"
definition EC_REG_MII_ECAT_ACC :: nat where [simp]: "EC_REG_MII_ECAT_ACC = 0x516"
definition EC_REG_MII_PDI_ACC :: nat where [simp]: "EC_REG_MII_PDI_ACC = 0x517"
definition EC_REG_MII_PHY0_ST :: nat where [simp]: "EC_REG_MII_PHY0_ST = 0x518"
definition EC_REG_MII_PHY1_ST :: nat where [simp]: "EC_REG_MII_PHY1_ST = 0x519"
definition EC_REG_MII_PHY2_ST :: nat where [simp]: "EC_REG_MII_PHY2_ST = 0x51a"
definition EC_REG_MII_PHY3_ST :: nat where [simp]: "EC_REG_MII_PHY3_ST = 0x51b"
definition EC_REG_FMMU0 :: nat where [simp]: "EC_REG_FMMU0 = 0x600"
definition EC_REG_FMMU1 :: nat where [simp]: "EC_REG_FMMU1 = EC_REG_FMMU0 + 0x10"
definition EC_REG_FMMU2 :: nat where [simp]: "EC_REG_FMMU2 = EC_REG_FMMU1 + 0x10"
definition EC_REG_FMMU3 :: nat where [simp]: "EC_REG_FMMU3 = EC_REG_FMMU2 + 0x10"
definition EC_REG_SM0 :: nat where [simp]: "EC_REG_SM0 = 0x800"
definition EC_REG_SM1 :: nat where [simp]: "EC_REG_SM1 = EC_REG_SM0 + 0x8"
definition EC_REG_SM2 :: nat where [simp]: "EC_REG_SM2 = EC_REG_SM1 + 0x8"
definition EC_REG_SM3 :: nat where [simp]: "EC_REG_SM3 = EC_REG_SM2 + 0x8"
definition EC_REG_SM0STAT :: nat where [simp]: "EC_REG_SM0STAT = EC_REG_SM0 + 0x5"
definition EC_REG_SM0ACT :: nat where [simp]: "EC_REG_SM0ACT = EC_REG_SM0 + 0x6"
definition EC_REG_SM0CONTR :: nat where [simp]: "EC_REG_SM0CONTR = EC_REG_SM0 + 0x7"
definition EC_REG_SM1STAT :: nat where [simp]: "EC_REG_SM1STAT = EC_REG_SM1 + 0x5"
definition EC_REG_SM1ACT :: nat where [simp]: "EC_REG_SM1ACT = EC_REG_SM1 + 0x6"
definition EC_REG_SM1CONTR :: nat where [simp]: "EC_REG_SM1CONTR = EC_REG_SM1 + 0x7"
definition EC_REG_DCTIME0 :: nat where [simp]: "EC_REG_DCTIME0 = 0x900"
definition EC_REG_DCTIME1 :: nat where [simp]: "EC_REG_DCTIME1 = 0x904"
definition EC_REG_DCTIME2 :: nat where [simp]: "EC_REG_DCTIME2 = 0x908"
definition EC_REG_DCTIME3 :: nat where [simp]: "EC_REG_DCTIME3 = 0x90c"
definition EC_REG_DCSYSTIME :: nat where [simp]: "EC_REG_DCSYSTIME = 0x910"
definition EC_REG_DCSOF :: nat where [simp]: "EC_REG_DCSOF = 0x918"
definition EC_REG_DCSYSOFFSET :: nat where [simp]: "EC_REG_DCSYSOFFSET = 0x920"
definition EC_REG_DCSYSDELAY :: nat where [simp]: "EC_REG_DCSYSDELAY = 0x928"
definition EC_REG_DCSYSDIFF :: nat where [simp]: "EC_REG_DCSYSDIFF = 0x92c"
definition EC_REG_DCSPEEDCNT :: nat where [simp]: "EC_REG_DCSPEEDCNT = 0x930"
definition EC_REG_DCTIMEFILT :: nat where [simp]: "EC_REG_DCTIMEFILT = 0x934"
definition EC_REG_DCCUC :: nat where [simp]: "EC_REG_DCCUC = 0x980"
definition EC_REG_DCSYNCACT :: nat where [simp]: "EC_REG_DCSYNCACT = 0x981"
definition EC_REG_DCSTART0 :: nat where [simp]: "EC_REG_DCSTART0 = 0x990"
definition EC_REG_DCCYCLE0 :: nat where [simp]: "EC_REG_DCCYCLE0 = 0x9a0"
definition EC_REG_DCCYCLE1 :: nat where [simp]: "EC_REG_DCCYCLE1 = 0x9a4"

section \<open>Commands\<close>

definition EC_CMD_NOP :: u8 where [simp]: "EC_CMD_NOP = 0x00"
definition EC_CMD_APRD :: u8 where [simp]: "EC_CMD_APRD = 0x01"
definition EC_CMD_APWR :: u8 where [simp]: "EC_CMD_APWR = 0x02"
definition EC_CMD_APRW :: u8 where [simp]: "EC_CMD_APRW = 0x03"
definition EC_CMD_FPRD :: u8 where [simp]: "EC_CMD_FPRD = 0x04"
definition EC_CMD_FPWR :: u8 where [simp]: "EC_CMD_FPWR = 0x05"
definition EC_CMD_FPRW :: u8 where [simp]: "EC_CMD_FPRW = 0x06"
definition EC_CMD_BRD :: u8 where [simp]: "EC_CMD_BRD = 0x07"
definition EC_CMD_BWR :: u8 where [simp]: "EC_CMD_BWR = 0x08"
definition EC_CMD_BRW :: u8 where [simp]: "EC_CMD_BRW = 0x09"
definition EC_CMD_LRD :: u8 where [simp]: "EC_CMD_LRD = 0x0A"
definition EC_CMD_LWR :: u8 where [simp]: "EC_CMD_LWR = 0x0B"
definition EC_CMD_LRW :: u8 where [simp]: "EC_CMD_LRW = 0x0C"
definition EC_CMD_ARMW :: u8 where [simp]: "EC_CMD_ARMW = 0x0D"
definition EC_CMD_FRMW :: u8 where [simp]: "EC_CMD_FRMW = 0x0E"

definition ec_datagram_cmd_to_string :: "u8 \<Rightarrow> string" where
  "ec_datagram_cmd_to_string cmd =
     (if cmd = EC_CMD_NOP then ''NOP'' else
     (if cmd = EC_CMD_APRD then ''APRD'' else
     (if cmd = EC_CMD_APWR then ''APWR'' else
     (if cmd = EC_CMD_APRW then ''APRW'' else
     (if cmd = EC_CMD_FPRD then ''FPRD'' else
     (if cmd = EC_CMD_FPWR then ''FPWR'' else
     (if cmd = EC_CMD_FPRW then ''FPRW'' else
     (if cmd = EC_CMD_BRD then ''BRD'' else
     (if cmd = EC_CMD_BWR then ''BWR'' else
     (if cmd = EC_CMD_BRW then ''BRW'' else
     (if cmd = EC_CMD_LRD then ''LRD'' else
     (if cmd = EC_CMD_LWR then ''LWR'' else
     (if cmd = EC_CMD_LRW then ''LRW'' else
     (if cmd = EC_CMD_ARMW then ''ARMW'' else
     (if cmd = EC_CMD_FRMW then ''FRMW'' else
      ''UNKNOWN'')))))))))))))))"

section \<open>State transitions\<close>

definition BOOT_2_BOOT :: u16 where [simp]: "BOOT_2_BOOT = 0x0303"
definition BOOT_2_INIT :: u16 where [simp]: "BOOT_2_INIT = 0x0301"
definition BOOT_2_PREOP :: u16 where [simp]: "BOOT_2_PREOP = 0x0302"
definition BOOT_2_SAFEOP :: u16 where [simp]: "BOOT_2_SAFEOP = 0x0304"
definition BOOT_2_OP :: u16 where [simp]: "BOOT_2_OP = 0x0308"
definition UNKNOWN_2_BOOT :: u16 where [simp]: "UNKNOWN_2_BOOT = 0x0003"
definition UNKNOWN_2_INIT :: u16 where [simp]: "UNKNOWN_2_INIT = 0x0001"
definition UNKNOWN_2_PREOP :: u16 where [simp]: "UNKNOWN_2_PREOP = 0x0002"
definition UNKNOWN_2_SAFEOP :: u16 where [simp]: "UNKNOWN_2_SAFEOP = 0x0004"
definition UNKNOWN_2_OP :: u16 where [simp]: "UNKNOWN_2_OP = 0x0008"
definition INIT_2_BOOT :: u16 where [simp]: "INIT_2_BOOT = 0x0103"
definition INIT_2_INIT :: u16 where [simp]: "INIT_2_INIT = 0x0101"
definition INIT_2_PREOP :: u16 where [simp]: "INIT_2_PREOP = 0x0102"
definition INIT_2_SAFEOP :: u16 where [simp]: "INIT_2_SAFEOP = 0x0104"
definition INIT_2_OP :: u16 where [simp]: "INIT_2_OP = 0x0108"
definition PREOP_2_BOOT :: u16 where [simp]: "PREOP_2_BOOT = 0x0203"
definition PREOP_2_INIT :: u16 where [simp]: "PREOP_2_INIT = 0x0201"
definition PREOP_2_PREOP :: u16 where [simp]: "PREOP_2_PREOP = 0x0202"
definition PREOP_2_SAFEOP :: u16 where [simp]: "PREOP_2_SAFEOP = 0x0204"
definition PREOP_2_OP :: u16 where [simp]: "PREOP_2_OP = 0x0208"
definition SAFEOP_2_BOOT :: u16 where [simp]: "SAFEOP_2_BOOT = 0x0403"
definition SAFEOP_2_INIT :: u16 where [simp]: "SAFEOP_2_INIT = 0x0401"
definition SAFEOP_2_PREOP :: u16 where [simp]: "SAFEOP_2_PREOP = 0x0402"
definition SAFEOP_2_SAFEOP :: u16 where [simp]: "SAFEOP_2_SAFEOP = 0x0404"
definition SAFEOP_2_OP :: u16 where [simp]: "SAFEOP_2_OP = 0x0408"
definition OP_2_BOOT :: u16 where [simp]: "OP_2_BOOT = 0x0803"
definition OP_2_INIT :: u16 where [simp]: "OP_2_INIT = 0x0801"
definition OP_2_PREOP :: u16 where [simp]: "OP_2_PREOP = 0x0802"
definition OP_2_SAFEOP :: u16 where [simp]: "OP_2_SAFEOP = 0x0804"
definition OP_2_OP :: u16 where [simp]: "OP_2_OP = 0x0808"

definition get_transition_string :: "u16 \<Rightarrow> string" where
  "get_transition_string transition =
     (if transition = BOOT_2_INIT then ''BOOT_2_INIT'' else
     (if transition = INIT_2_BOOT then ''INIT_2_BOOT'' else
     (if transition = INIT_2_INIT then ''INIT_2_INIT'' else
     (if transition = INIT_2_PREOP then ''INIT_2_PREOP'' else
     (if transition = INIT_2_SAFEOP then ''INIT_2_SAFEOP'' else
     (if transition = INIT_2_OP then ''INIT_2_OP'' else
     (if transition = PREOP_2_INIT then ''PREOP_2_INIT'' else
     (if transition = PREOP_2_PREOP then ''PREOP_2_PREOP'' else
     (if transition = PREOP_2_SAFEOP then ''PREOP_2_SAFEOP'' else
     (if transition = PREOP_2_OP then ''PREOP_2_OP'' else
     (if transition = SAFEOP_2_INIT then ''SAFEOP_2_INIT'' else
     (if transition = SAFEOP_2_PREOP then ''SAFEOP_2_PREOP'' else
     (if transition = SAFEOP_2_SAFEOP then ''SAFEOP_2_SAFEOP'' else
     (if transition = SAFEOP_2_OP then ''SAFEOP_2_OP'' else
     (if transition = OP_2_INIT then ''OP_2_INIT'' else
     (if transition = OP_2_PREOP then ''OP_2_PREOP'' else
     (if transition = OP_2_SAFEOP then ''OP_2_SAFEOP'' else
     (if transition = OP_2_OP then ''OP_2_OP'' else
      ''UNKNOWN''))))))))))))))))))"

section \<open>AL status codes\<close>

definition al_status_codes :: "(int \<times> string) list" where
  "al_status_codes = [
     (0x0000, ''no error''),
     (0x0001, ''unspecified error''),
     (0x0002, ''no memory''),
     (0x0006, ''firmware sii not match''),
     (0x0007, ''firmware update failed''),
     (0x0011, ''invalid al control''),
     (0x0012, ''unknown al control''),
     (0x0013, ''boot not supported''),
     (0x0014, ''no valid firmware''),
     (0x0015, ''invalid mailbox config in boot''),
     (0x0016, ''invalid mailbox config in prepop''),
     (0x0017, ''invalid sync manager config''),
     (0x0018, ''invalid inputs''),
     (0x0019, ''invalid outputs''),
     (0x001A, ''sync error''),
     (0x001B, ''sync manager watchdog''),
     (0x001C, ''sync types not compatible''),
     (0x001D, ''invalid sync manager out config''),
     (0x001E, ''invalid sync manager in config''),
     (0x001F, ''invalid watchdog config''),
     (0x0020, ''wait for cold start''),
     (0x0021, ''wait for init''),
     (0x0022, ''wait for preop''),
     (0x0023, ''wait for safeop''),
     (0x0024, ''invalid input mapping''),
     (0x0025, ''invalid output mapping''),
     (0x0026, ''inconsistent settings''),
     (0x0027, ''freerun not supported''),
     (0x0028, ''synchron not supported''),
     (0x0029, ''freerun needs 3 buffer mode''),
     (0x002A, ''background watchdog''),
     (0x002B, ''no valid inputs and outputs''),
     (0x002C, ''fatal sync error''),
     (0x002D, ''no sync error''),
     (0x002E, ''cycletime too small''),
     (0x0030, ''dc invalid sync config''),
     (0x0031, ''dc invalid latch config''),
     (0x0032, ''dc pll sync error''),
     (0x0033, ''dc sync io error''),
     (0x0034, ''dc sync missed error''),
     (0x0035, ''dc invalid sync cycletime''),
     (0x0036, ''dc sync0 cycletime''),
     (0x0037, ''dc sync1 cycletime''),
     (0x0041, ''mailbox aoe''),
     (0x0042, ''mailbox eoe''),
     (0x0043, ''mailbox coe''),
     (0x0044, ''mailbox foe''),
     (0x0045, ''mailbox soe''),
     (0x004F, ''mailbox voe''),
     (0x0050, ''ee no access''),
     (0x0051, ''ee error''),
     (0x0052, ''ext hardware not ready'')]"

definition al_status_code_2_string :: "int \<Rightarrow> string" where
  "al_status_code_2_string code =
     (case map_of al_status_codes code of Some s \<Rightarrow> s | None \<Rightarrow> ''unknown'')"

end
