(* ===== verification/Bus.thy ===== *)
theory Bus
  imports Regs
begin

text \<open>
  The interface between \<^verbatim>\<open>ec_transceive\<close> and the code that talks to the registers of the
  slaves: the access macros of \<^verbatim>\<open>include/libethercat/ec.h\<close> on one side, the laws every
  transaction obeys on the other. The time a client sees (\<^verbatim>\<open>osal_timer_init\<close>,
  \<^verbatim>\<open>osal_timer_expired\<close>, \<^verbatim>\<open>osal_sleep\<close>) belongs to libosal and is part of the
  interface.
\<close>

section \<open>The record of operations\<close>

text \<open>
  \<open>b_xcv cmd adr data wkc s\<close>: the data buffer and the working counter are the contents of the
  caller's variables before the call, and the result holds them after it.
\<close>

record 's bus =
  b_xcv :: "u8 \<Rightarrow> u32 \<Rightarrow> bytes \<Rightarrow> u16 \<Rightarrow> 's \<Rightarrow> int \<times> bytes \<times> u16 \<times> 's"
  b_timer_init :: "nat \<Rightarrow> 's \<Rightarrow> nat \<times> 's"
  b_timer_expired :: "nat \<Rightarrow> 's \<Rightarrow> bool \<times> 's"
  b_sleep :: "nat \<Rightarrow> 's \<Rightarrow> 's"

definition reg_adr :: "u16 \<Rightarrow> nat \<Rightarrow> u32" where
  "reg_adr adp ado = push_bit 16 (of_nat ado) OR (ucast adp AND 0xFFFF)"

definition ec_brd :: "'s bus \<Rightarrow> nat \<Rightarrow> bytes \<Rightarrow> u16 \<Rightarrow> 's \<Rightarrow> int \<times> bytes \<times> u16 \<times> 's" where
  "ec_brd b ado data wkc = b_xcv b EC_CMD_BRD (push_bit 16 (of_nat ado)) data wkc"
definition ec_bwr :: "'s bus \<Rightarrow> nat \<Rightarrow> bytes \<Rightarrow> u16 \<Rightarrow> 's \<Rightarrow> int \<times> bytes \<times> u16 \<times> 's" where
  "ec_bwr b ado data wkc = b_xcv b EC_CMD_BWR (push_bit 16 (of_nat ado)) data wkc"
definition ec_brw :: "'s bus \<Rightarrow> nat \<Rightarrow> bytes \<Rightarrow> u16 \<Rightarrow> 's \<Rightarrow> int \<times> bytes \<times> u16 \<times> 's" where
  "ec_brw b ado data wkc = b_xcv b EC_CMD_BRW (push_bit 16 (of_nat ado)) data wkc"
definition ec_aprd :: "'s bus \<Rightarrow> u16 \<Rightarrow> nat \<Rightarrow> bytes \<Rightarrow> u16 \<Rightarrow> 's \<Rightarrow> int \<times> bytes \<times> u16 \<times> 's" where
  "ec_aprd b adp ado data wkc = b_xcv b EC_CMD_APRD (reg_adr adp ado) data wkc"
definition ec_apwr :: "'s bus \<Rightarrow> u16 \<Rightarrow> nat \<Rightarrow> bytes \<Rightarrow> u16 \<Rightarrow> 's \<Rightarrow> int \<times> bytes \<times> u16 \<times> 's" where
  "ec_apwr b adp ado data wkc = b_xcv b EC_CMD_APWR (reg_adr adp ado) data wkc"
definition ec_aprw :: "'s bus \<Rightarrow> u16 \<Rightarrow> nat \<Rightarrow> bytes \<Rightarrow> u16 \<Rightarrow> 's \<Rightarrow> int \<times> bytes \<times> u16 \<times> 's" where
  "ec_aprw b adp ado data wkc = b_xcv b EC_CMD_APRW (reg_adr adp ado) data wkc"
definition ec_fprd :: "'s bus \<Rightarrow> u16 \<Rightarrow> nat \<Rightarrow> bytes \<Rightarrow> u16 \<Rightarrow> 's \<Rightarrow> int \<times> bytes \<times> u16 \<times> 's" where
  "ec_fprd b adp ado data wkc = b_xcv b EC_CMD_FPRD (reg_adr adp ado) data wkc"
definition ec_fpwr :: "'s bus \<Rightarrow> u16 \<Rightarrow> nat \<Rightarrow> bytes \<Rightarrow> u16 \<Rightarrow> 's \<Rightarrow> int \<times> bytes \<times> u16 \<times> 's" where
  "ec_fpwr b adp ado data wkc = b_xcv b EC_CMD_FPWR (reg_adr adp ado) data wkc"
definition ec_fprw :: "'s bus \<Rightarrow> u16 \<Rightarrow> nat \<Rightarrow> bytes \<Rightarrow> u16 \<Rightarrow> 's \<Rightarrow> int \<times> bytes \<times> u16 \<times> 's" where
  "ec_fprw b adp ado data wkc = b_xcv b EC_CMD_FPRW (reg_adr adp ado) data wkc"
definition ec_frmw :: "'s bus \<Rightarrow> u16 \<Rightarrow> nat \<Rightarrow> bytes \<Rightarrow> u16 \<Rightarrow> 's \<Rightarrow> int \<times> bytes \<times> u16 \<times> 's" where
  "ec_frmw b adp ado data wkc = b_xcv b EC_CMD_FRMW (reg_adr adp ado) data wkc"

lemmas access_defs = ec_brd_def ec_bwr_def ec_brw_def ec_aprd_def ec_apwr_def ec_aprw_def
  ec_fprd_def ec_fpwr_def ec_fprw_def ec_frmw_def

section \<open>The laws of a transaction\<close>

text \<open>
  Without an answer of a slave (an error, or a working counter of zero) the caller's buffer is
  as it was; a buffer keeps its length; a timeout reads as a working counter of zero, and an
  error before anything was sent leaves the working counter alone.
\<close>

locale register_bus =
  fixes b :: "'s bus"
  assumes xcv_length: "b_xcv b c a d w s = (ret, d', w', s') \<Longrightarrow> length d' = length d"
    and xcv_error: "b_xcv b c a d w s = (ret, d', w', s') \<Longrightarrow> ret \<noteq> EC_OK \<Longrightarrow> d' = d"
    and xcv_no_slave: "b_xcv b c a d w s = (ret, d', w', s') \<Longrightarrow> w' = 0 \<Longrightarrow> d' = d"
    and xcv_timeout: "b_xcv b c a d w s = (ret, d', w', s') \<Longrightarrow> ret = EC_ERROR_TIMEOUT \<Longrightarrow> w' = 0"
    and xcv_not_sent: "b_xcv b c a d w s = (ret, d', w', s') \<Longrightarrow> ret \<noteq> EC_OK \<Longrightarrow>
      ret \<noteq> EC_ERROR_TIMEOUT \<Longrightarrow> w' = w"
begin

lemma access_length:
  "ec_fprd b p o' d w s = (ret, d', w', s') \<Longrightarrow> length d' = length d"
  "ec_fpwr b p o' d w s = (ret, d', w', s') \<Longrightarrow> length d' = length d"
  "ec_fprw b p o' d w s = (ret, d', w', s') \<Longrightarrow> length d' = length d"
  "ec_frmw b p o' d w s = (ret, d', w', s') \<Longrightarrow> length d' = length d"
  "ec_brd b o' d w s = (ret, d', w', s') \<Longrightarrow> length d' = length d"
  by (auto simp: access_defs dest: xcv_length)

lemma access_answered:
  "ec_fprd b p o' d 0 s = (ret, d', w', s') \<Longrightarrow> w' \<noteq> 0 \<Longrightarrow> ret = EC_OK"
  "ec_fpwr b p o' d 0 s = (ret, d', w', s') \<Longrightarrow> w' \<noteq> 0 \<Longrightarrow> ret = EC_OK"
  by (auto simp: access_defs dest: xcv_timeout xcv_not_sent simp del: EC_ERROR_TIMEOUT_def EC_OK_def)

end

end
