(* ===== verification/Eeprom.thy ===== *)
theory Eeprom
  imports Bus "HOL-Library.Monad_Syntax"
begin

text \<open>
  The EEPROM access of \<^verbatim>\<open>src/eeprom.c\<close> and the PHY access of \<^verbatim>\<open>src/mii.c\<close>, over
  the interface of \<^verbatim>\<open>Bus\<close>. The slaves are the list of their fixed addresses. A loop that
  polls a register until a timer expires runs on fuel: \<^term>\<open>None\<close> says that \<open>n\<close> rounds were
  not enough. Logging is left out.
\<close>

section \<open>Register access with a return value\<close>

text \<open>
  The variables of a sequence of accesses: \<open>ret\<close>, the register buffer, \<open>wkc\<close>, the bus.
\<close>

record 's regs =
  r_ret :: int
  r_buf :: bytes
  r_wkc :: u16
  r_bus :: 's

definition reg_rd :: "'s bus \<Rightarrow> u16 \<Rightarrow> nat \<Rightarrow> 's regs \<Rightarrow> 's regs" where
  "reg_rd b fixed ado st =
     (let (ret, d, w, s) = ec_fprd b fixed ado (r_buf st) (r_wkc st) (r_bus st)
      in \<lparr>r_ret = ret, r_buf = d, r_wkc = w, r_bus = s\<rparr>)"

text \<open>A write of \<open>val\<close>: the bus may change the caller's variable, which is the result.\<close>

definition reg_wr :: "'s bus \<Rightarrow> u16 \<Rightarrow> nat \<Rightarrow> bytes \<Rightarrow> 's regs \<Rightarrow> bytes \<times> 's regs" where
  "reg_wr b fixed ado val st =
     (let (ret, d, w, s) = ec_fpwr b fixed ado val (r_wkc st) (r_bus st)
      in (d, st\<lparr>r_ret := ret, r_wkc := w, r_bus := s\<rparr>))"

definition if_ok :: "('s regs \<Rightarrow> 's regs option) \<Rightarrow> 's regs \<Rightarrow> 's regs option" where
  "if_ok f st = (if r_ret st = EC_OK then f st else Some st)"

definition set_err :: "bool \<Rightarrow> int \<Rightarrow> 's regs \<Rightarrow> 's regs" where
  "set_err c err st = (if c then st\<lparr>r_ret := err\<rparr> else st)"

text \<open>
  \<open>do { access; if (timer expired) ret = err; } while (again && ret == EC_OK)\<close>, the timer
  started before the loop.
\<close>

definition poll ::
  "'s bus \<Rightarrow> nat \<Rightarrow> nat \<Rightarrow> ('s regs \<Rightarrow> 's regs) \<Rightarrow> ('s regs \<Rightarrow> bool) \<Rightarrow> int \<Rightarrow> 's regs \<Rightarrow> 's regs option" where
  "poll b n timeout access again err st =
     (let (t, s) = b_timer_init b timeout (r_bus st)
      in loop n (\<lambda>st.
           (let st = access st; (ex, s) = b_timer_expired b t (r_bus st);
                st = set_err ex err (st\<lparr>r_bus := s\<rparr>)
            in if again st \<and> r_ret st = EC_OK then Inl st else Inr st)) (st\<lparr>r_bus := s\<rparr>))"

definition csr_bits :: "u16 \<Rightarrow> 's regs \<Rightarrow> bool" where
  "csr_bits m st \<longleftrightarrow> u16_of (r_buf st) AND m \<noteq> 0"

text \<open>\<open>SII_REG\<close> with its counter: one more argument than rounds are left.\<close>

fun sii_reg ::
  "('v \<Rightarrow> u16 \<Rightarrow> 's \<Rightarrow> int \<times> 'v \<times> u16 \<times> 's) \<Rightarrow> nat \<Rightarrow> 'v \<Rightarrow> u16 \<Rightarrow> 's \<Rightarrow> int \<times> nat \<times> 'v \<times> u16 \<times> 's" where
  "sii_reg acc 0 v wkc s = (EC_OK, 0, v, wkc, s)"
| "sii_reg acc (Suc cnt) v wkc s =
     (let (ret, v, wkc, s) = acc v wkc s
      in if cnt > 0 \<and> wkc \<noteq> 1 \<and> ret = EC_OK then sii_reg acc cnt v wkc s else (ret, cnt, v, wkc, s))"

section \<open>EEPROM ownership\<close>

definition ec_eeprom_to_pdi :: "'s bus \<Rightarrow> u16 list \<Rightarrow> nat \<Rightarrow> u16 \<Rightarrow> 's \<Rightarrow> int \<times> 's" where
  "ec_eeprom_to_pdi b slaves slave wkc s =
     (if slave \<ge> length slaves then (EC_ERROR_SLAVE_NOT_FOUND, s)
      else (let (ret, cnt, v, wkc, s) = sii_reg (ec_fpwr b (slaves ! slave) EC_REG_EEPCFG) 100 [1] wkc s
            in (if ret \<noteq> EC_OK \<or> cnt = 0 then EC_ERROR_EEPROM_CONTROL_TO_PDI else ret, s)))"

definition ec_has_control :: "bytes \<Rightarrow> bool" where
  "ec_has_control stat \<longleftrightarrow> u16_of stat AND 0x0001 = 0 \<and> u16_of stat AND 0x0100 = 0"

definition to_ec_wait_body ::
  "'s bus \<Rightarrow> u16 \<Rightarrow> nat \<Rightarrow> bytes \<times> u16 \<times> 's \<Rightarrow> (bytes \<times> u16 \<times> 's) + (int \<times> 's)" where
  "to_ec_wait_body b fixed t = (\<lambda>(stat, wkc, s).
     (let (ret, cnt, stat, wkc, s) = sii_reg (ec_fprd b fixed EC_REG_EEPCFG) 100 stat wkc s;
          failed = (ret \<noteq> EC_OK \<or> cnt = 0);
          ret = (if failed then EC_ERROR_EEPROM_CONTROL_TO_EC else ret)
      in if \<not> failed \<and> ec_has_control stat then Inr (EC_OK, s)
         else (let s = b_sleep b 1000000 s; (ex, s) = b_timer_expired b t s
               in if ex then Inr (ret, s) else Inl (stat, wkc, s))))"

definition ec_eeprom_to_ec :: "nat \<Rightarrow> 's bus \<Rightarrow> u16 list \<Rightarrow> nat \<Rightarrow> u16 \<Rightarrow> 's \<Rightarrow> (int \<times> 's) option" where
  "ec_eeprom_to_ec n b slaves slave wkc s =
     (if slave \<ge> length slaves then Some (EC_ERROR_SLAVE_NOT_FOUND, s)
      else (let fixed = slaves ! slave;
                (ret, cnt, stat, wkc, s) = sii_reg (ec_fprd b fixed EC_REG_EEPCFG) 100 (le16 2) wkc s;
                ret = (if ret \<noteq> EC_OK \<or> cnt = 0 then EC_ERROR_EEPROM_CONTROL_TO_EC else ret);
                (ret, wkc, s) =
                  (if ret = EC_OK \<and> \<not> ec_has_control stat
                   then (let (ret, cnt, v, wkc, s) = sii_reg (ec_fpwr b fixed EC_REG_EEPCFG) 100 [0] wkc s
                         in (if ret \<noteq> EC_OK \<or> cnt = 0 then EC_ERROR_EEPROM_CONTROL_TO_EC else ret, wkc, s))
                   else (ret, wkc, s))
            in if ret = EC_OK
               then (let (t, s) = b_timer_init b 100000000 s
                     in loop n (to_ec_wait_body b fixed t) (stat, wkc, s))
               else Some (ret, s)))"

section \<open>Reading a word\<close>

text \<open>Step 8 of both sequences: the error bits of the status register; writing ignores the checksum.\<close>

definition eepcsr_error :: "bool \<Rightarrow> u16 \<Rightarrow> int" where
  "eepcsr_error write csr =
     (if csr AND 0x0100 \<noteq> 0 then EC_ERROR_EEPROM_WRITE_IN_PROGRESS
      else if csr AND 0x4000 \<noteq> 0 then EC_ERROR_EEPROM_WRITE_ENABLE
      else if csr AND 0x2000 \<noteq> 0
        then (if write then EC_ERROR_EEPROM_WRITE_ERROR else EC_ERROR_EEPROM_READ_ERROR)
      else if csr AND 0x0800 \<noteq> 0 \<and> \<not> write then EC_ERROR_EEPROM_CHECKSUM
      else EC_OK)"

definition one_write :: "'s bus \<Rightarrow> u16 \<Rightarrow> nat \<Rightarrow> bytes \<Rightarrow> int \<Rightarrow> 's regs \<Rightarrow> 's regs option" where
  "one_write b fixed ado val err st =
     (let (_, st) = reg_wr b fixed ado val st
      in Some (set_err (r_ret st = EC_OK \<and> r_wkc st \<noteq> 1) err st))"

text \<open>The contents of \<^verbatim>\<open>*data\<close> go in and come out.\<close>

definition ec_eepromread ::
  "nat \<Rightarrow> 's bus \<Rightarrow> u16 list \<Rightarrow> nat \<Rightarrow> u32 \<Rightarrow> bytes \<Rightarrow> 's \<Rightarrow> (int \<times> bytes \<times> 's) option" where
  "ec_eepromread n b slaves slave eepadr data s =
     (if slave \<ge> length slaves then Some (EC_ERROR_SLAVE_NOT_FOUND, data, s)
      else (let fixed = slaves ! slave; zero = le16 0 in
        do {
          (ret, s) \<leftarrow> ec_eeprom_to_ec n b slaves slave 0 s;
          let st = \<lparr>r_ret = ret, r_buf = le16 0x0100, r_wkc = 0, r_bus = s\<rparr>;
          st \<leftarrow> if_ok (poll b n 100000000 (\<lambda>st. reg_rd b fixed EC_REG_EEPCTL (st\<lparr>r_buf := zero\<rparr>))
                        (csr_bits 0x0100) EC_ERROR_EEPROM_READ_ERROR) st;
          st \<leftarrow> if_ok (one_write b fixed EC_REG_EEPADR (le32 eepadr) EC_ERROR_EEPROM_READ_ERROR) st;
          st \<leftarrow> if_ok (one_write b fixed EC_REG_EEPCTL (le16 0x0100) EC_ERROR_EEPROM_READ_ERROR) st;
          st \<leftarrow> if_ok (poll b n 100000000 (\<lambda>st. reg_rd b fixed EC_REG_EEPCTL (st\<lparr>r_buf := zero\<rparr>))
                        (\<lambda>st. r_wkc st = 0 \<or> csr_bits 0x8000 st) EC_ERROR_EEPROM_READ_ERROR) st;
          let csr = u16_of (r_buf st);
          let (data, st) =
            (if r_ret st = EC_OK
             then (let st = reg_rd b fixed EC_REG_EEPDAT (st\<lparr>r_buf := le32 0\<rparr>)
                   in (r_buf st, set_err (r_ret st = EC_OK \<and> r_wkc st \<noteq> 1) EC_ERROR_EEPROM_READ_ERROR st))
             else (data, st));
          let ret = (if r_ret st = EC_OK then eepcsr_error False csr else r_ret st);
          (if ret = EC_OK
           then (let (ret, s) = ec_eeprom_to_pdi b slaves slave (r_wkc st) (r_bus st) in Some (ret, data, s))
           else Some (ret, data, r_bus st))
        }))"

section \<open>Writing a word\<close>

text \<open>Step 2: the loop that clears the error bits, with the inner loop that repeats the write.\<close>

definition clear_errors_body ::
  "nat \<Rightarrow> 's bus \<Rightarrow> u16 \<Rightarrow> 's regs \<Rightarrow> 's regs + 's regs option" where
  "clear_errors_body n b fixed st =
     (if r_wkc st = 0 \<or> csr_bits 0x6000 st
      then (case loop n (\<lambda>st. (let (v, st) = reg_wr b fixed EC_REG_EEPCTL (r_buf st) st;
                                  st = st\<lparr>r_buf := v\<rparr>
                              in if r_ret st = EC_OK \<and> r_wkc st = 0 then Inl st else Inr st))
                        (st\<lparr>r_buf := le16 0\<rparr>) of
              None \<Rightarrow> Inr None
            | Some st \<Rightarrow> Inl (if r_ret st = EC_OK then reg_rd b fixed EC_REG_EEPCTL st else st))
      else Inr (Some st))"

definition clear_errors :: "nat \<Rightarrow> 's bus \<Rightarrow> u16 \<Rightarrow> 's regs \<Rightarrow> 's regs option" where
  "clear_errors n b fixed st = Option.bind (loop n (clear_errors_body n b fixed) st) id"

text \<open>Steps 3, 4 and 5: a write that is repeated until a slave has taken it; the variable is \<open>r_buf\<close>.\<close>

definition poll_write :: "'s bus \<Rightarrow> nat \<Rightarrow> u16 \<Rightarrow> nat \<Rightarrow> bytes \<Rightarrow> int \<Rightarrow> 's regs \<Rightarrow> 's regs option" where
  "poll_write b n fixed ado val err st =
     poll b n 100000000
       (\<lambda>st. let (v, st) = reg_wr b fixed ado (r_buf st) st in st\<lparr>r_buf := v\<rparr>)
       (\<lambda>st. r_wkc st = 0) err (st\<lparr>r_buf := val\<rparr>)"

definition ec_eepromwrite ::
  "nat \<Rightarrow> 's bus \<Rightarrow> u16 list \<Rightarrow> nat \<Rightarrow> u32 \<Rightarrow> bytes \<Rightarrow> 's \<Rightarrow> (int \<times> 's) option" where
  "ec_eepromwrite n b slaves slave eepadr data s =
     (if slave \<ge> length slaves then Some (EC_ERROR_SLAVE_NOT_FOUND, s)
      else (let fixed = slaves ! slave;
                busy = poll b n 100000000 (\<lambda>st. reg_rd b fixed EC_REG_EEPCTL (st\<lparr>r_buf := le16 0\<rparr>))
                         (\<lambda>st. r_wkc st = 0 \<or> csr_bits 0x8000 st) EC_ERROR_EEPROM_WRITE_ERROR in
        do {
          (ret, s) \<leftarrow> ec_eeprom_to_ec n b slaves slave 0 s;
          let st = \<lparr>r_ret = ret, r_buf = le16 0x0100, r_wkc = 0, r_bus = s\<rparr>;
          st \<leftarrow> if_ok busy st;
          st \<leftarrow> if_ok (clear_errors n b fixed) st;
          st \<leftarrow> if_ok (poll_write b n fixed EC_REG_EEPADR (le32 eepadr) EC_ERROR_EEPROM_WRITE_IN_PROGRESS) st;
          st \<leftarrow> if_ok (poll_write b n fixed EC_REG_EEPDAT data EC_ERROR_EEPROM_WRITE_ERROR) st;
          st \<leftarrow> if_ok (poll_write b n fixed EC_REG_EEPCTL (le16 0x0201) EC_ERROR_EEPROM_WRITE_ERROR) st;
          st \<leftarrow> if_ok busy st;
          let ret = (if r_ret st = EC_OK then eepcsr_error True (u16_of (r_buf st)) else r_ret st);
          (if ret = EC_OK then Some (ec_eeprom_to_pdi b slaves slave (r_wkc st) (r_bus st))
           else Some (ret, r_bus st))
        }))"

section \<open>Bursts\<close>

text \<open>
  \<^verbatim>\<open>ec_eepromread_len\<close>: one word of four bytes per round; the last one may be used in part.
  \<open>uninit\<close> is the content of the local buffer before the first read.
\<close>

definition read_len_body ::
  "nat \<Rightarrow> 's bus \<Rightarrow> u16 list \<Rightarrow> nat \<Rightarrow> u32 \<Rightarrow> bytes \<Rightarrow> nat \<times> int \<times> bytes \<times> 's \<Rightarrow>
   (nat \<times> int \<times> bytes \<times> 's) + (int \<times> bytes \<times> 's) option" where
  "read_len_body n b slaves slave eepadr uninit = (\<lambda>(offset, ret, buf, s).
     if offset < length buf
     then (case ec_eepromread n b slaves slave (eepadr + of_nat (offset div 2)) uninit s of
             None \<Rightarrow> Inr None
           | Some (ret, val, s) \<Rightarrow>
               if ret \<noteq> EC_OK then Inr (Some (ret, buf, s))
               else (let k = min 4 (length buf - offset)
                     in Inl (offset + k, ret, put_at offset (take k val) buf, s)))
     else Inr (Some (ret, buf, s)))"

definition ec_eepromread_len ::
  "nat \<Rightarrow> 's bus \<Rightarrow> u16 list \<Rightarrow> nat \<Rightarrow> bytes \<Rightarrow> u32 \<Rightarrow> bytes \<Rightarrow> 's \<Rightarrow> (int \<times> bytes \<times> 's) option" where
  "ec_eepromread_len n b slaves slave uninit eepadr buf s =
     (if slave \<ge> length slaves then Some (EC_ERROR_SLAVE_NOT_FOUND, buf, s)
      else Option.bind (loop (Suc (length buf)) (read_len_body n b slaves slave eepadr uninit) (0, EC_OK, buf, s)) id)"

text \<open>\<^verbatim>\<open>ec_eepromwrite_len\<close> repeats every word until it has been written.\<close>

definition write_word_body ::
  "nat \<Rightarrow> 's bus \<Rightarrow> u16 list \<Rightarrow> nat \<Rightarrow> u32 \<Rightarrow> bytes \<Rightarrow> 's \<Rightarrow> 's + (int \<times> 's) option" where
  "write_word_body n b slaves slave eepadr val s =
     (case ec_eepromwrite n b slaves slave eepadr val s of
        None \<Rightarrow> Inr None
      | Some (ret, s) \<Rightarrow> if ret \<noteq> EC_OK then Inl s else Inr (Some (ret, s)))"

fun write_len_loop ::
  "nat \<Rightarrow> 's bus \<Rightarrow> u16 list \<Rightarrow> nat \<Rightarrow> u32 \<Rightarrow> bytes \<Rightarrow> nat \<Rightarrow> int \<Rightarrow> 's \<Rightarrow> nat \<Rightarrow> (int \<times> 's) option" where
  "write_len_loop n b slaves slave eepadr buf offset ret s 0 = Some (ret, s)"
| "write_len_loop n b slaves slave eepadr buf offset ret s (Suc k) =
     (case loop n (write_word_body n b slaves slave (eepadr + of_nat offset) (slice (2 * offset) 2 buf)) s of
        Some (Some (ret, s)) \<Rightarrow> write_len_loop n b slaves slave eepadr buf (offset + 1) ret s k
      | _ \<Rightarrow> None)"

definition ec_eepromwrite_len ::
  "nat \<Rightarrow> 's bus \<Rightarrow> u16 list \<Rightarrow> nat \<Rightarrow> u32 \<Rightarrow> bytes \<Rightarrow> 's \<Rightarrow> (int \<times> 's) option" where
  "ec_eepromwrite_len n b slaves slave eepadr buf s =
     (if slave \<ge> length slaves then Some (EC_ERROR_SLAVE_NOT_FOUND, s)
      else write_len_loop n b slaves slave eepadr buf 0 EC_OK s (length buf div 2))"

section \<open>MII\<close>

text \<open>
  The polling loop of \<^verbatim>\<open>src/mii.c\<close>: the timer is looked at only after a successful access.
\<close>

definition mii_poll :: "'s bus \<Rightarrow> nat \<Rightarrow> nat \<Rightarrow> u16 \<Rightarrow> 's regs \<Rightarrow> 's regs option" where
  "mii_poll b n timeout fixed st =
     (let (t, s) = b_timer_init b timeout (r_bus st)
      in loop n (\<lambda>st.
           (let st = reg_rd b fixed EC_REG_MII_CTRLSTAT st;
                (ex, s) = (if r_ret st = EC_OK then b_timer_expired b t (r_bus st) else (False, r_bus st));
                st = set_err ex EC_ERROR_TIMEOUT (st\<lparr>r_bus := s\<rparr>)
            in if csr_bits 0x8000 st \<and> r_ret st = EC_OK then Inl st else Inr st)) (st\<lparr>r_bus := s\<rparr>))"

text \<open>The accesses wrapped in \<^verbatim>\<open>check_ec_fpwr\<close> and \<^verbatim>\<open>check_ec_fprd\<close> only log a failure.\<close>

definition mii_command :: "'s bus \<Rightarrow> u16 \<Rightarrow> u16 \<Rightarrow> 's regs \<Rightarrow> 's regs" where
  "mii_command b fixed cmd st =
     (let st = reg_rd b fixed EC_REG_MII_CTRLSTAT (st\<lparr>r_buf := le16 0\<rparr>);
          stat = (u16_of (r_buf st) AND NOT 0x0300) OR cmd;
          (v, st) = reg_wr b fixed EC_REG_MII_CTRLSTAT (le16 stat) st
      in st\<lparr>r_buf := v\<rparr>)"

definition ec_miiread ::
  "nat \<Rightarrow> 's bus \<Rightarrow> u16 list \<Rightarrow> nat \<Rightarrow> u8 \<Rightarrow> u16 \<Rightarrow> bytes \<Rightarrow> u16 \<Rightarrow> 's \<Rightarrow> (int \<times> bytes \<times> 's) option" where
  "ec_miiread n b slaves slave phy_adr phy_reg data wkc s =
     (if slave \<ge> length slaves then Some (EC_ERROR_SLAVE_NOT_FOUND, data, s)
      else (let fixed = slaves ! slave;
                adr_reg = ucast phy_adr OR push_bit 8 phy_reg;
                st = \<lparr>r_ret = EC_OK, r_buf = le16 0, r_wkc = wkc, r_bus = s\<rparr>;
                (_, st) = reg_wr b fixed EC_REG_MII_PHY_ADR (le16 adr_reg) st;
                st = mii_command b fixed 0x0100 st
            in do {
              st \<leftarrow> mii_poll b n 10000000000 fixed st;
              let st = reg_rd b fixed EC_REG_MII_PHY_DATA (st\<lparr>r_buf := data\<rparr>);
              Some (r_ret st, r_buf st, r_bus st)
            }))"

definition ec_miiwrite ::
  "nat \<Rightarrow> 's bus \<Rightarrow> u16 list \<Rightarrow> nat \<Rightarrow> u8 \<Rightarrow> u16 \<Rightarrow> bytes \<Rightarrow> u16 \<Rightarrow> 's \<Rightarrow> (int \<times> bytes \<times> 's) option" where
  "ec_miiwrite n b slaves slave phy_adr phy_reg data wkc s =
     (if slave \<ge> length slaves then Some (EC_ERROR_SLAVE_NOT_FOUND, data, s)
      else (let fixed = slaves ! slave;
                adr_reg = ucast phy_adr OR push_bit 8 phy_reg;
                st = \<lparr>r_ret = EC_OK, r_buf = le16 0, r_wkc = wkc, r_bus = s\<rparr>;
                (_, st) = reg_wr b fixed EC_REG_MII_PHY_ADR (le16 adr_reg) st;
                (data, st) = reg_wr b fixed EC_REG_MII_PHY_DATA data st;
                st = mii_command b fixed 0x0201 st
            in do {
              st \<leftarrow> mii_poll b n 100000000 fixed st;
              Some (r_ret st, data, r_bus st)
            }))"

end
