(* ===== verification/Eeprom_Correct.thy ===== *)
theory Eeprom_Correct
  imports Eeprom
begin

text \<open>
  What the EEPROM access delivers: against an EtherCAT slave controller that behaves as
  documented, a burst is the corresponding part of the EEPROM image; and the loop that clears
  the error bits before a write never ends once the slave is gone.
\<close>

section \<open>A slave controller with an EEPROM\<close>

text \<open>
  The documented behaviour of the registers 0x0500 to 0x050B of an idle controller whose EEPROM
  has the contents \<open>img\<close>: \<open>adr\<close> is the address register, the interface belongs to EtherCAT and
  is not busy, and a read loads the data register with the four bytes from the word address on.
  Nothing takes so long that a timer expires.
\<close>

definition esc_eeprom :: "'s bus \<Rightarrow> u16 \<Rightarrow> bytes \<Rightarrow> ('s \<Rightarrow> u32) \<Rightarrow> bool" where
  "esc_eeprom b fixed img adr \<longleftrightarrow>
     (\<forall>d w s. \<exists>s'. ec_fprd b fixed EC_REG_EEPCFG d w s = (EC_OK, [0, 0], 1, s') \<and> adr s' = adr s) \<and>
     (\<forall>d w s. \<exists>s'. ec_fpwr b fixed EC_REG_EEPCFG d w s = (EC_OK, d, 1, s') \<and> adr s' = adr s) \<and>
     (\<forall>d w s. \<exists>s'. ec_fprd b fixed EC_REG_EEPCTL d w s = (EC_OK, [0, 0], 1, s') \<and> adr s' = adr s) \<and>
     (\<forall>d w s. \<exists>s'. ec_fpwr b fixed EC_REG_EEPCTL d w s = (EC_OK, d, 1, s') \<and> adr s' = adr s) \<and>
     (\<forall>d w s. \<exists>s'. ec_fpwr b fixed EC_REG_EEPADR d w s = (EC_OK, d, 1, s') \<and> adr s' = u32_of d) \<and>
     (\<forall>d w s. \<exists>s'. ec_fprd b fixed EC_REG_EEPDAT d w s = (EC_OK, slice (2 * unat (adr s)) 4 img, 1, s') \<and>
        adr s' = adr s) \<and>
     (\<forall>t s. \<exists>d s'. b_timer_init b t s = (d, s') \<and> adr s' = adr s) \<and>
     (\<forall>d s. \<exists>s'. b_timer_expired b d s = (False, s') \<and> adr s' = adr s)"

lemma esc_accesses:
  assumes "esc_eeprom b fixed img adr"
  shows "\<exists>s'. ec_fprd b fixed EC_REG_EEPCFG d w s = (EC_OK, [0, 0], 1, s') \<and> adr s' = adr s"
    "\<exists>s'. ec_fpwr b fixed EC_REG_EEPCFG d w s = (EC_OK, d, 1, s') \<and> adr s' = adr s"
    "\<exists>s'. ec_fprd b fixed EC_REG_EEPCTL d w s = (EC_OK, [0, 0], 1, s') \<and> adr s' = adr s"
    "\<exists>s'. ec_fpwr b fixed EC_REG_EEPCTL d w s = (EC_OK, d, 1, s') \<and> adr s' = adr s"
    "\<exists>s'. ec_fpwr b fixed EC_REG_EEPADR d w s = (EC_OK, d, 1, s') \<and> adr s' = u32_of d"
    "\<exists>s'. ec_fprd b fixed EC_REG_EEPDAT d w s = (EC_OK, slice (2 * unat (adr s)) 4 img, 1, s') \<and> adr s' = adr s"
    "\<exists>t s'. b_timer_init b k s = (t, s') \<and> adr s' = adr s"
    "\<exists>s'. b_timer_expired b t s = (False, s') \<and> adr s' = adr s"
  using assms[unfolded esc_eeprom_def] by - (elim conjE, erule allE, fast)+

lemma u16_of_zero: "u16_of [0, 0] = 0"
  by (simp add: u16_of_def)

lemma esc_to_ec:
  assumes "esc_eeprom b (slaves ! slave) img adr" "slave < length slaves" "0 < n"
  shows "\<exists>s'. ec_eeprom_to_ec n b slaves slave w s = Some (EC_OK, s') \<and> adr s' = adr s"
proof -
  note a = esc_accesses[OF assms(1)]
  have hc: "ec_has_control [0, 0]" by (simp add: ec_has_control_def u16_of_zero)
  have rd: "\<exists>s'. sii_reg (ec_fprd b (slaves ! slave) EC_REG_EEPCFG) 100 v w s = (EC_OK, 99, [0, 0], 1, s') \<and> adr s' = adr s"
    for v w s
    using a(1)[of v w s] by (auto simp: numeral_eq_Suc)
  obtain s1 where s1: "sii_reg (ec_fprd b (slaves ! slave) EC_REG_EEPCFG) 100 (le16 2) w s = (EC_OK, 99, [0, 0], 1, s1)"
      "adr s1 = adr s"
    using rd by blast
  obtain t s2 where s2: "b_timer_init b 100000000 s1 = (t, s2)" "adr s2 = adr s1" using a(7) by blast
  obtain s3 where s3: "sii_reg (ec_fprd b (slaves ! slave) EC_REG_EEPCFG) 100 [0, 0] 1 s2 = (EC_OK, 99, [0, 0], 1, s3)"
      "adr s3 = adr s2"
    using rd by blast
  have "to_ec_wait_body b (slaves ! slave) t ([0, 0], 1, s2) = Inr (EC_OK, s3)"
    using s3(1) hc by (simp add: to_ec_wait_body_def)
  then have "loop n (to_ec_wait_body b (slaves ! slave) t) ([0, 0], 1, s2) = Some (EC_OK, s3)"
    using assms(3) by (rule loop_once)
  then show ?thesis
    using assms(2) s1 s2 s3(2) hc by (simp add: ec_eeprom_to_ec_def)
qed

lemma esc_to_pdi:
  assumes "esc_eeprom b (slaves ! slave) img adr" "slave < length slaves"
  shows "\<exists>s'. ec_eeprom_to_pdi b slaves slave w s = (EC_OK, s') \<and> adr s' = adr s"
proof -
  obtain s' where "sii_reg (ec_fpwr b (slaves ! slave) EC_REG_EEPCFG) 100 [1] w s = (EC_OK, 99, [1], 1, s')"
      "adr s' = adr s"
    using esc_accesses(2)[OF assms(1), of "[1]" w s] by (auto simp: numeral_eq_Suc)
  then show ?thesis using assms(2) by (simp add: ec_eeprom_to_pdi_def)
qed

text \<open>Polling the status register ends after the first round.\<close>

lemma esc_poll:
  assumes "esc_eeprom b fixed img adr" "0 < n"
    and "\<And>st. r_wkc st = 1 \<Longrightarrow> r_buf st = [0, 0] \<Longrightarrow> \<not> again st"
  shows "\<exists>s'. poll b n k (\<lambda>st. reg_rd b fixed EC_REG_EEPCTL (st\<lparr>r_buf := z\<rparr>)) again err st
      = Some \<lparr>r_ret = EC_OK, r_buf = [0, 0], r_wkc = 1, r_bus = s'\<rparr> \<and> adr s' = adr (r_bus st)"
proof -
  obtain t s1 where s1: "b_timer_init b k (r_bus st) = (t, s1)" "adr s1 = adr (r_bus st)"
    using esc_accesses(7)[OF assms(1)] by blast
  obtain s2 where s2: "ec_fprd b fixed EC_REG_EEPCTL z (r_wkc st) s1 = (EC_OK, [0, 0], 1, s2)" "adr s2 = adr s1"
    using esc_accesses(3)[OF assms(1)] by blast
  obtain s3 where s3: "b_timer_expired b t s2 = (False, s3)" "adr s3 = adr s2"
    using esc_accesses(8)[OF assms(1)] by blast
  let ?st = "\<lparr>r_ret = EC_OK, r_buf = [0, 0], r_wkc = 1, r_bus = s3\<rparr>"
  have "\<not> again ?st" by (rule assms(3)) simp_all
  then show ?thesis
    using s1 s2 s3 assms(2)
    by (auto simp: poll_def reg_rd_def set_err_def intro!: loop_once)
qed

lemma esc_write:
  assumes "ec_fpwr b fixed ado val (r_wkc st) (r_bus st) = (EC_OK, val, 1, s')"
  shows "one_write b fixed ado val err st = Some (st\<lparr>r_ret := EC_OK, r_wkc := 1, r_bus := s'\<rparr>)"
  using assms by (simp add: one_write_def reg_wr_def set_err_def)

lemma esc_read_word:
  assumes "esc_eeprom b (slaves ! slave) img adr" "slave < length slaves" "0 < n"
  shows "\<exists>s'. ec_eepromread n b slaves slave eepadr data s
      = Some (EC_OK, slice (2 * unat eepadr) 4 img, s') \<and> adr s' = eepadr"
proof -
  let ?f = "slaves ! slave"
  note a = esc_accesses[OF assms(1)]
  obtain s1 where s1: "ec_eeprom_to_ec n b slaves slave 0 s = Some (EC_OK, s1)" using esc_to_ec[OF assms] by blast
  let ?st1 = "\<lparr>r_ret = EC_OK, r_buf = le16 0x0100, r_wkc = 0, r_bus = s1\<rparr>"
  let ?rd = "\<lambda>st. reg_rd b ?f EC_REG_EEPCTL (st\<lparr>r_buf := le16 0\<rparr>)"
  obtain s2 where s2: "poll b n 100000000 ?rd (csr_bits 0x0100) EC_ERROR_EEPROM_READ_ERROR ?st1
      = Some \<lparr>r_ret = EC_OK, r_buf = [0, 0], r_wkc = 1, r_bus = s2\<rparr>"
    using esc_poll[OF assms(1,3), of "csr_bits 0x0100" 100000000 "le16 0" EC_ERROR_EEPROM_READ_ERROR ?st1]
    by (auto simp: csr_bits_def u16_of_zero)
  obtain s3 where s3: "ec_fpwr b ?f EC_REG_EEPADR (le32 eepadr) 1 s2 = (EC_OK, le32 eepadr, 1, s3)" "adr s3 = eepadr"
    using a(5)[of "le32 eepadr" 1 s2] by auto
  obtain s4 where s4: "ec_fpwr b ?f EC_REG_EEPCTL (le16 0x0100) 1 s3 = (EC_OK, le16 0x0100, 1, s4)" "adr s4 = adr s3"
    using a(4)[of "le16 0x0100" 1 s3] by auto
  let ?again = "\<lambda>st. r_wkc st = 0 \<or> csr_bits 0x8000 st"
  let ?st4 = "\<lparr>r_ret = EC_OK, r_buf = [0, 0], r_wkc = 1, r_bus = s4\<rparr>"
  obtain s5 where s5: "poll b n 100000000 ?rd ?again EC_ERROR_EEPROM_READ_ERROR ?st4
      = Some \<lparr>r_ret = EC_OK, r_buf = [0, 0], r_wkc = 1, r_bus = s5\<rparr>" "adr s5 = adr s4"
    using esc_poll[OF assms(1,3), of ?again 100000000 "le16 0" EC_ERROR_EEPROM_READ_ERROR ?st4]
    by (auto simp: csr_bits_def u16_of_zero)
  obtain s6 where s6: "ec_fprd b ?f EC_REG_EEPDAT (le32 0) 1 s5 = (EC_OK, slice (2 * unat (adr s5)) 4 img, 1, s6)"
      "adr s6 = adr s5"
    using a(6) by blast
  obtain s7 where s7: "ec_eeprom_to_pdi b slaves slave 1 s6 = (EC_OK, s7)" "adr s7 = adr s6"
    using esc_to_pdi[OF assms(1,2)] by blast
  have err: "eepcsr_error False 0 = EC_OK" by (simp add: eepcsr_error_def)
  show ?thesis
    using assms(2) s1 s2 s3 s4 s5 s6 s7
    by (simp add: ec_eepromread_def Let_def if_ok_def one_write_def reg_wr_def set_err_def reg_rd_def
          u16_of_zero err del: EC_REG_EEPADR_def EC_REG_EEPCTL_def EC_REG_EEPDAT_def EC_REG_EEPCFG_def)
qed

section \<open>A burst\<close>

lemma slice_split: "slice off (m + k) xs = slice off m xs @ slice (off + m) k xs"
  unfolding slice_def take_add by (simp add: add.commute)

lemma read_len_loop:
  assumes "esc_eeprom b (slaves ! slave) img adr" "slave < length slaves" "0 < n"
    and "2 * unat eepadr + len \<le> length img" "unat eepadr + len < 2 ^ 32"
    and "offset \<le> len" "even offset" "len - offset < m" "length rest = len - offset"
  shows "\<exists>s'. loop m (read_len_body n b slaves slave eepadr u)
        (offset, EC_OK, slice (2 * unat eepadr) offset img @ rest, s)
      = Some (Some (EC_OK, slice (2 * unat eepadr) len img, s'))"
  using assms(6-9)
proof (induction m arbitrary: offset rest s)
  case 0
  then show ?case by simp
next
  case (Suc m)
  let ?buf = "slice (2 * unat eepadr) offset img"
  have lb: "length ?buf = offset" using Suc.prems(1) assms(4) by (simp add: buf_simps)
  show ?case
  proof (cases "offset < len")
    case False
    then show ?thesis using Suc.prems lb by (simp add: read_len_body_def)
  next
    case True
    let ?a = "eepadr + of_nat (offset div 2)"
    have "unat (of_nat (offset div 2) :: u32) = offset div 2"
      using True assms(5) by (simp add: unat_of_nat)
    then have ua: "2 * unat ?a = 2 * unat eepadr + offset"
      using True assms(5) Suc.prems(2) by (simp add: unat_word_ariths)
    obtain s1 where s1: "ec_eepromread n b slaves slave ?a u s = Some (EC_OK, slice (2 * unat ?a) 4 img, s1)"
      using esc_read_word[OF assms(1-3)] by blast
    let ?k = "min 4 (len - offset)"
    have lr: "length (?buf @ rest) = len" using lb Suc.prems(1,4) by simp
    have tk: "take ?k (slice (2 * unat ?a) 4 img) = slice (2 * unat eepadr + offset) ?k img"
      by (simp add: ua slice_def)
    have lk: "length (slice (2 * unat eepadr + offset) ?k img) = ?k"
      using assms(4) True by (simp add: slice_def)
    have put: "put_at offset (slice (2 * unat eepadr + offset) ?k img) (?buf @ rest)
        = slice (2 * unat eepadr) (offset + ?k) img @ drop ?k rest"
      using lb lk by (simp add: put_at_def slice_split[of _ offset ?k])
    have body: "read_len_body n b slaves slave eepadr u (offset, EC_OK, ?buf @ rest, s)
        = Inl (offset + ?k, EC_OK, slice (2 * unat eepadr) (offset + ?k) img @ drop ?k rest, s1)"
      using True lr by (simp add: read_len_body_def s1 Let_def tk put)
    show ?thesis
    proof (cases "4 \<le> len - offset")
      case True
      then have "even (offset + ?k)" using Suc.prems(2) by simp
      from Suc.IH[OF _ this, of "drop ?k rest" s1] Suc.prems True show ?thesis
        unfolding loop.simps body sum.case by (simp del: even_add)
    next
      case False
      then have k: "offset + ?k = len" "0 < m" using True Suc.prems(3) by simp_all
      then obtain m' where "m = Suc m'" by (cases m) auto
      with k Suc.prems(4) show ?thesis
        unfolding loop.simps body sum.case using assms(4) by (simp add: read_len_body_def buf_simps)
    qed
  qed
qed

text \<open>
  C14: \<^verbatim>\<open>ec_eepromread_len\<close> on a slave controller with an idle EEPROM delivers the part of the
  EEPROM contents that starts at the word address, whatever the length of the buffer.
\<close>

theorem eepromread_len_image:
  assumes "esc_eeprom b (slaves ! slave) img adr" "slave < length slaves" "0 < n"
    and "2 * unat eepadr + length buf \<le> length img" "unat eepadr + length buf < 2 ^ 32"
  shows "\<exists>s'. ec_eepromread_len n b slaves slave u eepadr buf s
      = Some (EC_OK, slice (2 * unat eepadr) (length buf) img, s')"
proof -
  have "slice (2 * unat eepadr) 0 img = []" by (simp add: slice_def)
  with read_len_loop[OF assms(1-5), of 0 "Suc (length buf)" buf u s] assms(2)
  show ?thesis by (auto simp: ec_eepromread_len_def simp del: loop.simps)
qed

text \<open>A controller for the examples: its state is the address register.\<close>

definition demo_img :: bytes where
  "demo_img = map of_nat [0..<16]"

definition demo_xcv :: "u8 \<Rightarrow> u32 \<Rightarrow> bytes \<Rightarrow> u16 \<Rightarrow> u32 \<Rightarrow> int \<times> bytes \<times> u16 \<times> u32" where
  "demo_xcv cmd adr d w s =
     (if cmd = EC_CMD_FPRD
      then (if adr = reg_adr 1001 EC_REG_EEPDAT then (EC_OK, slice (2 * unat s) 4 demo_img, 1, s)
            else (EC_OK, [0, 0], 1, s))
      else (if adr = reg_adr 1001 EC_REG_EEPADR then (EC_OK, d, 1, u32_of d) else (EC_OK, d, 1, s)))"

definition demo_bus :: "u32 bus" where
  "demo_bus = \<lparr>b_xcv = demo_xcv, b_timer_init = (\<lambda>t s. (t, s)), b_timer_expired = (\<lambda>t s. (False, s)),
               b_sleep = (\<lambda>t s. s)\<rparr>"

lemma reg_adr_1001:
  "reg_adr 1001 EC_REG_EEPDAT = 0x050803E9" "reg_adr 1001 EC_REG_EEPADR = 0x050403E9"
  "reg_adr 1001 EC_REG_EEPCTL = 0x050203E9" "reg_adr 1001 EC_REG_EEPCFG = 0x050003E9"
  by (simp_all add: reg_adr_def)

lemma demo_bus_eeprom: "esc_eeprom demo_bus 1001 demo_img id"
  unfolding esc_eeprom_def ec_fprd_def ec_fpwr_def demo_bus_def demo_xcv_def bus.select_convs reg_adr_1001
  by simp

theorem eepromread_len_image_witness:
  "\<exists>s'. ec_eepromread_len 1 demo_bus [1001] 0 [] 3 [0, 0, 0, 0, 0, 0] 0 = Some (EC_OK, [6, 7, 8, 9, 10, 11], s')"
proof -
  have "esc_eeprom demo_bus ([1001] ! 0) demo_img id" using demo_bus_eeprom by simp
  from eepromread_len_image[OF this, of 1 3 "[0, 0, 0, 0, 0, 0]" "[]" 0] show ?thesis
    by (simp add: demo_img_def slice_def upt_rec)
qed

section \<open>A write to a slave that is gone\<close>

text \<open>
  the loop that clears the error bits of the status register before an EEPROM write has no
  way out when the slave no longer answers: every access times out with a working counter of
  zero, which is the condition of the loop, and the error is not looked at.
\<close>

theorem clear_errors_never_ends:
  assumes "\<forall>c a d w s. \<exists>s'. b_xcv b c a d w s = (EC_ERROR_TIMEOUT, d, 0, s')"
    and "r_wkc st = 0 \<or> csr_bits 0x6000 st"
  shows "clear_errors n b fixed st = None"
proof -
  have wr: "\<exists>s'. reg_wr b fixed EC_REG_EEPCTL v st = (v, st\<lparr>r_ret := EC_ERROR_TIMEOUT, r_wkc := 0, r_bus := s'\<rparr>)"
    for v st
  proof -
    obtain s' where "b_xcv b EC_CMD_FPWR (reg_adr fixed EC_REG_EEPCTL) v (r_wkc st) (r_bus st)
        = (EC_ERROR_TIMEOUT, v, 0, s')"
      using assms(1) by blast
    then show ?thesis by (intro exI[of _ s']) (simp add: reg_wr_def ec_fpwr_def)
  qed
  have body: "clear_errors_body k b fixed st = Inr None \<or>
      (\<exists>st'. clear_errors_body k b fixed st = Inl st' \<and> r_wkc st' = 0)"
    if "r_wkc st = 0 \<or> csr_bits 0x6000 st" for k st
  proof (cases k)
    case 0
    then show ?thesis using that by (simp add: clear_errors_body_def)
  next
    case (Suc k')
    obtain s' where "reg_wr b fixed EC_REG_EEPCTL (le16 0) (st\<lparr>r_buf := le16 0\<rparr>)
        = (le16 0, st\<lparr>r_buf := le16 0, r_ret := EC_ERROR_TIMEOUT, r_wkc := 0, r_bus := s'\<rparr>)"
      using wr by blast
    then show ?thesis using that Suc by (simp add: clear_errors_body_def)
  qed
  have "loop m (clear_errors_body k b fixed) st \<in> {None, Some None}" if "r_wkc st = 0 \<or> csr_bits 0x6000 st" for m k st
    using that
  proof (induction m arbitrary: st)
    case (Suc m)
    from body[OF Suc.prems, of k] Suc.IH show ?case by fastforce
  qed simp
  from this[OF assms(2), of n n] show ?thesis by (auto simp: clear_errors_def)
qed

theorem clear_errors_never_ends_witness:
  "clear_errors 1000
     \<lparr>b_xcv = (\<lambda>c a d w s. (EC_ERROR_TIMEOUT, d, 0, s)), b_timer_init = (\<lambda>t s. (t, s)),
      b_timer_expired = (\<lambda>t s. (True, s)), b_sleep = (\<lambda>t s. s)\<rparr> 1001
     \<lparr>r_ret = EC_OK, r_buf = le16 0x2000, r_wkc = 1, r_bus = ()\<rparr> = None"
  by (rule clear_errors_never_ends) (simp_all add: csr_bits_def)

end
