(* ===== verification/Queue_Interface.thy ===== *)
theory Queue_Interface
  imports Prelude "HOL-Library.Multiset"
begin

text \<open>
  The contract that the datagram pools (\<^verbatim>\<open>src/pool.c\<close>), the index queue
  (\<^verbatim>\<open>src/idx.c\<close>) and the message queues of the asynchronous loop
  (\<^verbatim>\<open>src/async_loop.c\<close>) share: a first-in-first-out queue of resources that clients take
  out, own for a while, and put back. What clients rely on is proved once here: order, and
  that a resource is never handed out twice while somebody owns it.
\<close>

section \<open>Clients of a queue\<close>

fun deq_n :: "('q \<Rightarrow> 'e option \<times> 'q) \<Rightarrow> nat \<Rightarrow> 'q \<Rightarrow> 'e option list \<times> 'q" where
  "deq_n deq 0 q = ([], q)"
| "deq_n deq (Suc n) q =
     (let (e, q1) = deq q; (es, q2) = deq_n deq n q1 in (e # es, q2))"

fun enq_all :: "('e \<Rightarrow> 'q \<Rightarrow> 'q) \<Rightarrow> 'e list \<Rightarrow> 'q \<Rightarrow> 'q" where
  "enq_all enq [] q = q"
| "enq_all enq (e # es) q = enq_all enq es (enq e q)"

text \<open>
  A step of the clients: one takes a resource out of the queue, or gives one back that it
  owns. \<open>H\<close> is the set of the resources that are out.
\<close>

inductive own_step ::
  "('q \<Rightarrow> 'e option \<times> 'q) \<Rightarrow> ('e \<Rightarrow> 'q \<Rightarrow> 'q) \<Rightarrow> 'q \<times> 'e set \<Rightarrow> 'q \<times> 'e set \<Rightarrow> bool"
  for deq enq where
  acquire: "deq q = (Some e, q') \<Longrightarrow> own_step deq enq (q, H) (q', insert e H)"
| give_back: "e \<in> H \<Longrightarrow> own_step deq enq (q, H) (enq e q, H - {e})"

inductive own_reach ::
  "('q \<Rightarrow> 'e option \<times> 'q) \<Rightarrow> ('e \<Rightarrow> 'q \<Rightarrow> 'q) \<Rightarrow> 'q \<Rightarrow> 'q \<times> 'e set \<Rightarrow> bool"
  for deq enq q0 where
  start: "own_reach deq enq q0 (q0, {})"
| step: "own_reach deq enq q0 s \<Longrightarrow> own_step deq enq s t \<Longrightarrow> own_reach deq enq q0 t"

inductive_cases own_stepE: "own_step deq enq (q, H) t"

section \<open>The contract\<close>

locale fifo_queue =
  fixes deq :: "'q \<Rightarrow> 'e option \<times> 'q"
    and enq :: "'e \<Rightarrow> 'q \<Rightarrow> 'q"
    and items :: "'q \<Rightarrow> 'e list"
  assumes deq_empty: "items q = [] \<Longrightarrow> deq q = (None, q)"
    and deq_first: "items q = e # es \<Longrightarrow> \<exists>q'. deq q = (Some e, q') \<and> items q' = es"
    and enq_last: "items (enq e q) = items q @ [e]"
begin

lemma deq_Some:
  assumes "deq q = (Some e, q')"
  shows "items q = e # items q'"
proof (cases "items q")
  case Nil
  then show ?thesis using assms deq_empty by simp
next
  case (Cons a as)
  then show ?thesis using assms deq_first[OF Cons] by auto
qed

lemma deq_None: "deq q = (None, q') \<Longrightarrow> items q = [] \<and> q' = q"
  by (cases "items q") (auto dest: deq_empty deq_first)

lemma items_enq_all: "items (enq_all enq es q) = items q @ es"
  by (induction es arbitrary: q) (auto simp: enq_last)

lemma fifo_order:
  assumes "items q = es @ rest"
  shows "\<exists>q'. deq_n deq (length es) q = (map Some es, q') \<and> items q' = rest"
  using assms
proof (induction es arbitrary: q)
  case Nil
  then show ?case by simp
next
  case (Cons e es)
  then obtain q1 where q1: "deq q = (Some e, q1)" "items q1 = es @ rest"
    using deq_first[of q e "es @ rest"] by auto
  with Cons.IH[of q1] show ?case by auto
qed

lemma enq_all_deq_n:
  assumes "items q = []"
  shows "\<exists>q'. deq_n deq (length es) (enq_all enq es q) = (map Some es, q') \<and> items q' = []"
  using assms by (intro fifo_order) (simp add: items_enq_all)

lemma ownership:
  assumes "own_reach deq enq q0 (q, H)" and "distinct (items q0)"
  shows "distinct (items q) \<and> set (items q) \<inter> H = {} \<and> set (items q) \<union> H = set (items q0)"
  using assms
proof (induction "(q, H)" arbitrary: q H rule: own_reach.induct)
  case start
  then show ?case by simp
next
  case (step s)
  obtain r J where s: "s = (r, J)" by (cases s)
  note IH = step.hyps(2)[OF s step.prems]
  from step.hyps(3) show ?case unfolding s
    using IH by (elim own_stepE) (auto simp: enq_last dest!: deq_Some)
qed

lemma not_handed_out_twice:
  assumes "own_reach deq enq q0 (q, H)" "distinct (items q0)" "deq q = (Some e, q')"
  shows "e \<notin> H"
  using ownership[OF assms(1,2)] deq_Some[OF assms(3)] by auto

end

end
