(* ===== verification/Pool.thy ===== *)
theory Pool
  imports Queue_Interface
begin

text \<open>
  \<^verbatim>\<open>src/pool.c\<close>: a pool of buffers. \<open>'e\<close> is the type of a pointer to a
  \<^verbatim>\<open>pool_entry_t\<close>; the tail queue of the C code is the list of the entries linked in it,
  and the semaphore is its value. Every operation does its list update inside
  \<^verbatim>\<open>_pool_lock\<close>, so it is one atomic step; the wait on the semaphore in
  \<^verbatim>\<open>pool_get\<close> is outside the lock and is a step of its own.
\<close>

section \<open>State and operations\<close>

text \<open>The size of the data of an entry.\<close>

definition LEC_MAX_POOL_DATA_SIZE :: nat where [simp]: "LEC_MAX_POOL_DATA_SIZE = 1600"

record 'e pool =
  avail :: "'e list"
  avail_cnt :: nat

definition pool_open :: "osal \<Rightarrow> nat \<Rightarrow> 'e list \<Rightarrow> int \<times> 'e pool" where
  "pool_open os cnt entries =
     (EC_OK, \<lparr> avail = fold (\<lambda>i q. q @ [entries ! i]) [0..<cnt] [],
               avail_cnt = osal_semaphore_init os cnt \<rparr>)"

text \<open>\<^verbatim>\<open>pool_close\<close> unlinks the first entry until the queue is empty.\<close>

fun pool_close_loop :: "'e list \<Rightarrow> 'e list" where
  "pool_close_loop [] = []"
| "pool_close_loop (e # es) = pool_close_loop (remove1 e (e # es))"

definition pool_close :: "'e pool \<Rightarrow> int \<times> 'e pool" where
  "pool_close pp = (EC_OK, pp\<lparr>avail := pool_close_loop (avail pp)\<rparr>)"

text \<open>The critical section of \<^verbatim>\<open>pool_get\<close>.\<close>

definition pool_take :: "'e pool \<Rightarrow> int \<times> 'e option \<times> 'e pool" where
  "pool_take pp =
     (case avail pp of
        [] \<Rightarrow> (EC_ERROR_UNAVAILABLE, None, pp)
      | e # es \<Rightarrow> (EC_OK, Some e, pp\<lparr>avail := es\<rparr>))"

definition pool_get :: "osal \<Rightarrow> 'e pool \<Rightarrow> nat option \<Rightarrow> int \<times> 'e option \<times> 'e pool" where
  "pool_get os pp timeout =
     (case timeout of
        None \<Rightarrow> pool_take pp
      | Some t \<Rightarrow>
          (let (local_ret, c) = osal_semaphore_timedwait os t (avail_cnt pp);
               pp' = pp\<lparr>avail_cnt := c\<rparr>
           in if local_ret \<noteq> OSAL_OK
              then (if local_ret = OSAL_ERR_TIMEOUT then EC_ERROR_TIMEOUT else EC_ERROR_UNAVAILABLE,
                    None, pp')
              else pool_take pp'))"

text \<open>
  \<^verbatim>\<open>TAILQ_REMOVE\<close> of an entry that is not linked in this queue writes through the stale
  link pointers of the entry; what the queue is afterwards is the parameter \<open>stale\<close>.
\<close>

definition pool_remove :: "('e \<Rightarrow> 'e list \<Rightarrow> 'e list) \<Rightarrow> 'e pool \<Rightarrow> 'e \<Rightarrow> 'e pool" where
  "pool_remove stale pp e =
     pp\<lparr>avail := (if e \<in> set (avail pp) then remove1 e (avail pp) else stale e (avail pp))\<rparr>"

definition pool_peek :: "'e pool \<Rightarrow> int \<times> 'e option" where
  "pool_peek pp =
     (case avail pp of [] \<Rightarrow> (EC_ERROR_UNAVAILABLE, None) | e # _ \<Rightarrow> (EC_OK, Some e))"

definition pool_put :: "osal \<Rightarrow> 'e pool \<Rightarrow> 'e \<Rightarrow> 'e pool" where
  "pool_put os pp e =
     pp\<lparr>avail := avail pp @ [e], avail_cnt := osal_semaphore_post os (avail_cnt pp)\<rparr>"

definition pool_put_head :: "osal \<Rightarrow> 'e pool \<Rightarrow> 'e \<Rightarrow> 'e pool" where
  "pool_put_head os pp e =
     pp\<lparr>avail := e # avail pp, avail_cnt := osal_semaphore_post os (avail_cnt pp)\<rparr>"

section \<open>Functional behaviour\<close>

lemma fold_snoc_nth: "fold (\<lambda>i q. q @ [xs ! i]) is q0 = q0 @ map (\<lambda>i. xs ! i) is"
  by (induction "is" arbitrary: q0) auto

lemma pool_open_avail:
  "cnt \<le> length entries \<Longrightarrow> avail (snd (pool_open os cnt entries)) = take cnt entries"
  by (simp add: pool_open_def fold_snoc_nth map_nth_take)

lemma pool_close_loop_Nil [simp]: "pool_close_loop es = []"
  by (induction es) auto

lemma pool_take_simps [simp]:
  "avail pp = [] \<Longrightarrow> pool_take pp = (EC_ERROR_UNAVAILABLE, None, pp)"
  "avail pp = e # es \<Longrightarrow> pool_take pp = (EC_OK, Some e, pp\<lparr>avail := es\<rparr>)"
  by (simp_all add: pool_take_def)

lemma pool_put_simps [simp]:
  "avail (pool_put os pp e) = avail pp @ [e]"
  "avail_cnt (pool_put os pp e) = osal_semaphore_post os (avail_cnt pp)"
  "avail (pool_put_head os pp e) = e # avail pp"
  "avail_cnt (pool_put_head os pp e) = osal_semaphore_post os (avail_cnt pp)"
  by (simp_all add: pool_put_def pool_put_head_def)

lemma pool_get_None [simp]: "pool_get os pp None = pool_take pp"
  by (simp add: pool_get_def)

lemma pool_get_timed:
  assumes "semaphore_laws os"
  shows "pool_get os pp (Some t) =
     (case avail_cnt pp of
        0 \<Rightarrow> (if fst (osal_semaphore_timedwait os t 0) = OSAL_ERR_TIMEOUT
               then EC_ERROR_TIMEOUT else EC_ERROR_UNAVAILABLE, None, pp)
      | Suc n \<Rightarrow> pool_take (pp\<lparr>avail_cnt := n\<rparr>))"
proof (cases "avail_cnt pp")
  case 0
  obtain r where r: "osal_semaphore_timedwait os t 0 = (r, 0)" "r \<noteq> OSAL_OK"
    using semaphore_wait_0[OF assms] by blast
  have "pp\<lparr>avail_cnt := 0\<rparr> = pp" using 0 by simp
  with r 0 show ?thesis by (simp add: pool_get_def)
next
  case (Suc n)
  then show ?thesis using assms by (simp add: pool_get_def)
qed

section \<open>The pool is a queue\<close>

definition pool_deq :: "'e pool \<Rightarrow> 'e option \<times> 'e pool" where
  "pool_deq pp = snd (pool_take pp)"

interpretation pq: fifo_queue pool_deq "\<lambda>e pp. pool_put os pp e" avail for os
  by unfold_locales (auto simp: pool_deq_def)

text \<open>C17: buffers come out of a pool in the order in which they were put into it.\<close>

theorem pool_fifo:
  assumes "avail pp = []"
  shows "\<exists>pp'. deq_n pool_deq (length es) (enq_all (\<lambda>e pp. pool_put os pp e) es pp)
                 = (map Some es, pp') \<and> avail pp' = []"
  using assms by (rule pq.enq_all_deq_n)

theorem pool_fifo_witness:
  "\<exists>pp'. deq_n pool_deq (length [7, 8, 9 :: nat])
           (enq_all (\<lambda>e pp. pool_put posix_osal pp e) [7, 8, 9]
              (snd (pool_open posix_osal 0 [])))
           = (map Some [7, 8, 9 :: nat], pp') \<and> avail pp' = []"
  using pool_fifo[of "snd (pool_open posix_osal 0 [])" "[7, 8, 9 :: nat]" posix_osal]
  by (simp only: pool_open_def) simp

section \<open>The semaphore and the queue\<close>









text \<open>
  A pool whose users pass no timeout (the datagram pool, the free and the send pools of the
  mailboxes) never waits on the semaphore, but every \<^verbatim>\<open>pool_put\<close> posts it.
\<close>

fun get_put_cycles :: "osal \<Rightarrow> nat \<Rightarrow> 'e pool \<Rightarrow> 'e pool" where
  "get_put_cycles os 0 pp = pp"
| "get_put_cycles os (Suc n) pp =
     (case pool_get os pp None of
        (ret, Some e, pp') \<Rightarrow> get_put_cycles os n (pool_put os pp' e)
      | (ret, None, pp') \<Rightarrow> get_put_cycles os n pp')"

text \<open>
  after \<open>n\<close> rounds of taking a buffer without a timeout and putting it back, the pool holds
  the same buffers, but its semaphore, documented as the number of available buffers, has
  grown by \<open>n\<close>.
\<close>

theorem untimed_get_drifts:
  assumes "semaphore_laws os" "avail pp \<noteq> []"
  shows "mset (avail (get_put_cycles os n pp)) = mset (avail pp) \<and>
         avail_cnt (get_put_cycles os n pp) = avail_cnt pp + n"
  using assms(2)
proof (induction n arbitrary: pp)
  case 0
  then show ?case by simp
next
  case (Suc n)
  then obtain e es where pp: "avail pp = e # es" by (cases "avail pp") auto
  with Suc.IH[of "pool_put os (pp\<lparr>avail := es\<rparr>) e"] assms(1) show ?case by simp
qed

theorem untimed_get_drifts_witness:
  "mset (avail (get_put_cycles posix_osal 100 (snd (pool_open posix_osal 2 [3, 4 :: nat]))))
     = mset (avail (snd (pool_open posix_osal 2 [3, 4 :: nat]))) \<and>
   avail_cnt (get_put_cycles posix_osal 100 (snd (pool_open posix_osal 2 [3, 4 :: nat])))
     = avail_cnt (snd (pool_open posix_osal 2 [3, 4 :: nat])) + 100"
  by (rule untimed_get_drifts) (simp_all add: pool_open_avail)

end
