(* ===== verification/Idx.thy ===== *)
theory Idx
  imports Queue_Interface
begin

text \<open>
  \<^verbatim>\<open>src/idx.c\<close>: the 256 datagram indices. A pointer to an \<^verbatim>\<open>idx_entry_t\<close> is its
  position in the array \<^verbatim>\<open>entries\<close>; the tail queue is the list of the positions linked in
  it. The \<^verbatim>\<open>waiter\<close> of an entry is the binary semaphore on which the thread that owns the
  index waits for the reply.
\<close>

section \<open>State and operations\<close>

definition LEC_MAX_INDEX :: nat where [simp]: "LEC_MAX_INDEX = 256"

record idx_entry =
  ie_idx :: u8
  ie_waiter :: bool

record idx_queue =
  iq_entries :: "idx_entry list"
  iq_q :: "nat list"

text \<open>The waiter of slot \<open>i\<close> through \<open>f\<close>.\<close>

definition idx_waiter_upd :: "(bool \<Rightarrow> bool) \<Rightarrow> nat \<Rightarrow> idx_queue \<Rightarrow> idx_queue" where
  "idx_waiter_upd f i iq =
     iq\<lparr>iq_entries := (iq_entries iq)[i := (iq_entries iq ! i)\<lparr>ie_waiter := f (ie_waiter (iq_entries iq ! i))\<rparr>]\<rparr>"

definition ec_index_get :: "osal \<Rightarrow> idx_queue \<Rightarrow> int \<times> nat option \<times> idx_queue" where
  "ec_index_get os iq =
     (case iq_q iq of
        [] \<Rightarrow> (EC_ERROR_OUT_OF_INDICES, None, iq)
      | e # es \<Rightarrow>
          (EC_OK, Some e, idx_waiter_upd (osal_binary_semaphore_trywait os) e (iq\<lparr>iq_q := es\<rparr>)))"

definition ec_index_put :: "nat \<Rightarrow> idx_queue \<Rightarrow> idx_queue" where
  "ec_index_put e iq = iq\<lparr>iq_q := iq_q iq @ [e]\<rparr>"

text \<open>One round of the loop of \<^verbatim>\<open>ec_index_init\<close>.\<close>

definition ec_index_init_entry :: "osal \<Rightarrow> nat \<Rightarrow> idx_queue \<Rightarrow> idx_queue" where
  "ec_index_init_entry os i iq =
     ec_index_put i (iq\<lparr>iq_entries := (iq_entries iq)[i :=
       \<lparr>ie_idx = of_nat i, ie_waiter = osal_binary_semaphore_init os\<rparr>]\<rparr>)"

definition ec_index_init :: "osal \<Rightarrow> idx_queue \<Rightarrow> int \<times> idx_queue" where
  "ec_index_init os iq = (EC_OK, fold (ec_index_init_entry os) [0..<LEC_MAX_INDEX] (iq\<lparr>iq_q := []\<rparr>))"

fun ec_index_deinit_loop :: "nat list \<Rightarrow> nat list" where
  "ec_index_deinit_loop [] = []"
| "ec_index_deinit_loop (e # es) = ec_index_deinit_loop (remove1 e (e # es))"

definition ec_index_deinit :: "idx_queue \<Rightarrow> idx_queue" where
  "ec_index_deinit iq = iq\<lparr>iq_q := ec_index_deinit_loop (iq_q iq)\<rparr>"

section \<open>The index queue is a queue\<close>

definition idx_deq :: "osal \<Rightarrow> idx_queue \<Rightarrow> nat option \<times> idx_queue" where
  "idx_deq os iq = snd (ec_index_get os iq)"

lemma iq_q_waiter_upd [simp]: "iq_q (idx_waiter_upd f i iq) = iq_q iq"
  by (simp add: idx_waiter_upd_def)

interpretation iqq: fifo_queue "idx_deq os" ec_index_put iq_q for os
  by unfold_locales (auto simp: idx_deq_def ec_index_get_def ec_index_put_def)

lemma ec_index_deinit_empty: "iq_q (ec_index_deinit iq) = []"
proof -
  have "ec_index_deinit_loop es = []" for es by (induction es) auto
  then show ?thesis by (simp add: ec_index_deinit_def)
qed

section \<open>Initialisation\<close>

lemma ec_index_init_fold:
  assumes "length (iq_entries iq) = LEC_MAX_INDEX" "iq_q iq = []" "n \<le> LEC_MAX_INDEX"
  shows "iq_q (fold (ec_index_init_entry os) [0..<n] iq) = [0..<n] \<and>
         length (iq_entries (fold (ec_index_init_entry os) [0..<n] iq)) = LEC_MAX_INDEX \<and>
         (\<forall>i<n. iq_entries (fold (ec_index_init_entry os) [0..<n] iq) ! i
                  = \<lparr>ie_idx = of_nat i, ie_waiter = osal_binary_semaphore_init os\<rparr>)"
  using assms(3)
proof (induction n)
  case 0
  then show ?case using assms by simp
next
  case (Suc n)
  then have "n < LEC_MAX_INDEX" "n \<le> LEC_MAX_INDEX" by simp_all
  with Suc.IH show ?case
    by (auto simp: ec_index_init_entry_def ec_index_put_def nth_list_update less_Suc_eq
             simp del: LEC_MAX_INDEX_def)
qed

lemma ec_index_init_q:
  assumes "length (iq_entries iq) = LEC_MAX_INDEX"
  shows "iq_q (snd (ec_index_init os iq)) = [0..<LEC_MAX_INDEX]"
  using ec_index_init_fold[of "iq\<lparr>iq_q := []\<rparr>" LEC_MAX_INDEX os] assms
  by (simp add: ec_index_init_def del: LEC_MAX_INDEX_def upt_rec_numeral)

lemma ec_index_init_entries:
  assumes "length (iq_entries iq) = LEC_MAX_INDEX" "i < LEC_MAX_INDEX"
  shows "iq_entries (snd (ec_index_init os iq)) ! i
           = \<lparr>ie_idx = of_nat i, ie_waiter = osal_binary_semaphore_init os\<rparr>"
  using ec_index_init_fold[of "iq\<lparr>iq_q := []\<rparr>" LEC_MAX_INDEX os] assms
  by (simp add: ec_index_init_def del: LEC_MAX_INDEX_def upt_rec_numeral)

text \<open>An operation of the queue leaves the index byte of every slot alone.\<close>

lemma ec_index_get_idx:
  "map ie_idx (iq_entries (snd (snd (ec_index_get os iq)))) = map ie_idx (iq_entries iq)"
proof (cases "iq_q iq")
  case (Cons e es)
  have "(map ie_idx (iq_entries iq))[e := ie_idx (iq_entries iq ! e)] = map ie_idx (iq_entries iq)"
    by (cases "e < length (iq_entries iq)") (simp_all add: list_update_same_conv list_update_beyond)
  with Cons show ?thesis by (simp add: ec_index_get_def idx_waiter_upd_def map_update)
qed (simp add: ec_index_get_def)

lemma idx_reach_idx:
  assumes "own_reach (idx_deq os) ec_index_put iq0 (iq, H)"
  shows "map ie_idx (iq_entries iq) = map ie_idx (iq_entries iq0)"
  using assms
proof (induction "(iq, H)" arbitrary: iq H rule: own_reach.induct)
  case start
  then show ?case by simp
next
  case (step s)
  obtain r J where s: "s = (r, J)" by (cases s)
  from step.hyps(3) show ?case unfolding s
    by (elim own_stepE)
       (use step.hyps(2)[OF s] ec_index_get_idx[of os r] in
         \<open>auto simp: ec_index_put_def idx_deq_def\<close>)
qed

text \<open>
  C15: whatever the clients take and give back, an index that is handed out has a datagram index
  byte different from that of every index somebody still owns, and its waiter is not signalled:
  a reply to an earlier datagram cannot be taken for the reply to the new one.
\<close>

theorem ec_index_get_unique:
  assumes "binary_semaphore_laws os" "length (iq_entries iq0) = LEC_MAX_INDEX"
    and "own_reach (idx_deq os) ec_index_put (snd (ec_index_init os iq0)) (iq, H)"
    and "ec_index_get os iq = (ret, Some e, iq')"
  shows "e < LEC_MAX_INDEX \<and>
         (\<forall>h\<in>H. ie_idx (iq_entries iq' ! e) \<noteq> ie_idx (iq_entries iq' ! h)) \<and>
         \<not> ie_waiter (iq_entries iq' ! e)"
proof -
  let ?iq1 = "snd (ec_index_init os iq0)"
  have q1: "iq_q ?iq1 = [0..<LEC_MAX_INDEX]" by (rule ec_index_init_q[OF assms(2)])
  have deq: "idx_deq os iq = (Some e, iq')" using assms(4) by (simp add: idx_deq_def)
  from iqq.ownership[OF assms(3)] q1
  have own: "set (iq_q iq) \<inter> H = {}" "set (iq_q iq) \<union> H = {0..<LEC_MAX_INDEX}"
    by (auto simp del: LEC_MAX_INDEX_def upt_rec_numeral)
  have e: "e \<in> set (iq_q iq)" using iqq.deq_Some[OF deq] by simp
  have len: "length (iq_entries ?iq1) = LEC_MAX_INDEX"
    using ec_index_init_fold[of "iq0\<lparr>iq_q := []\<rparr>" LEC_MAX_INDEX os] assms(2)
    by (simp add: ec_index_init_def del: LEC_MAX_INDEX_def upt_rec_numeral)
  have "map ie_idx (iq_entries iq') = map ie_idx (iq_entries ?iq1)"
    using idx_reach_idx[OF assms(3)] ec_index_get_idx[of os iq] assms(4) by simp
  then have idx: "ie_idx (iq_entries iq' ! i) = of_nat i" "length (iq_entries iq') = LEC_MAX_INDEX"
    if "i < LEC_MAX_INDEX" for i
    using ec_index_init_entries[OF assms(2) that, of os] len that
      nth_map[of i "iq_entries iq'" ie_idx] nth_map[of i "iq_entries ?iq1" ie_idx]
      map_eq_imp_length_eq[of ie_idx "iq_entries iq'" ie_idx "iq_entries ?iq1"]
    by (simp_all del: LEC_MAX_INDEX_def nth_map)
  have inj: "(of_nat i :: u8) \<noteq> of_nat j" if "i < LEC_MAX_INDEX" "j < LEC_MAX_INDEX" "i \<noteq> j" for i j
    using that by (simp add: word_unat_eq_iff unat_of_nat)
  have lt: "e < LEC_MAX_INDEX" and H: "\<And>h. h \<in> H \<Longrightarrow> h < LEC_MAX_INDEX \<and> h \<noteq> e"
    using own e by (auto simp del: LEC_MAX_INDEX_def)
  have "length (iq_entries iq) = LEC_MAX_INDEX"
    using idx_reach_idx[OF assms(3)] len by (metis length_map)
  then have "\<not> ie_waiter (iq_entries iq' ! e)"
    using assms(1,4) lt by (auto simp: ec_index_get_def idx_waiter_upd_def split: list.splits)
  with lt H idx inj show ?thesis by (metis (no_types, lifting))
qed

theorem ec_index_get_unique_witness:
  "\<exists>e iq'. ec_index_get posix_osal
      (snd (ec_index_init posix_osal \<lparr>iq_entries = replicate 256 \<lparr>ie_idx = 0, ie_waiter = True\<rparr>, iq_q = []\<rparr>))
      = (EC_OK, Some e, iq') \<and> \<not> ie_waiter (iq_entries iq' ! e)"
proof -
  let ?raw = "\<lparr>iq_entries = replicate 256 \<lparr>ie_idx = 0, ie_waiter = True\<rparr>, iq_q = []\<rparr>"
  let ?iq = "snd (ec_index_init posix_osal ?raw)"
  have len: "length (iq_entries ?raw) = LEC_MAX_INDEX"
    by (simp only: idx_queue.select_convs length_replicate LEC_MAX_INDEX_def)
  have q: "iq_q ?iq = 0 # [Suc 0..<LEC_MAX_INDEX]"
    using ec_index_init_q[OF len, of posix_osal] upt_conv_Cons[of 0 LEC_MAX_INDEX]
    by (simp del: upt_rec_numeral)
  obtain iq' where get: "ec_index_get posix_osal ?iq = (EC_OK, Some 0, iq')"
    unfolding ec_index_get_def q by simp
  from ec_index_get_unique[OF posix_osal_laws(2) len own_reach.start this] get show ?thesis by blast
qed

end
