(* ===== verification/Datagram.thy ===== *)
theory Datagram
  imports Prelude
begin

text \<open>
  \<^verbatim>\<open>include/libethercat/datagram.h\<close> and \<^verbatim>\<open>src/datagram.c\<close>: EtherCAT frames and
  datagrams as they lie in memory. A pointer into a buffer is an offset, a packed struct is read
  and written at the offsets of its fields, a bit field at its bits of the little-endian 16-bit
  unit that holds it. An access outside the buffer is \<^term>\<open>None\<close> in the operations that walk
  one.
\<close>

section \<open>struct ec\_datagram\<close>

text \<open>
  \<open>cmd\<close> at 0, \<open>idx\<close> at 1, \<open>adr\<close> at 2, \<open>len:11, reserved:4, next:1\<close> at 6, \<open>irq\<close> at 8; the
  payload from 10, the working counter behind it.
\<close>

definition ec_datagram_hdr_length :: nat where [simp]: "ec_datagram_hdr_length = 10"
definition EC_WKC_SIZE :: nat where [simp]: "EC_WKC_SIZE = 2"

definition dg_cmd :: "bytes \<Rightarrow> nat \<Rightarrow> u8" where "dg_cmd buf d = buf ! d"
definition dg_idx :: "bytes \<Rightarrow> nat \<Rightarrow> u8" where "dg_idx buf d = buf ! (d + 1)"
definition dg_adr :: "bytes \<Rightarrow> nat \<Rightarrow> u32" where "dg_adr buf d = of_nat (of_le (slice (d + 2) 4 buf))"
definition dg_len :: "bytes \<Rightarrow> nat \<Rightarrow> nat" where
  "dg_len buf d = unat (buf ! (d + 6)) + 256 * unat (buf ! (d + 7) AND 7)"
definition dg_next :: "bytes \<Rightarrow> nat \<Rightarrow> bool" where "dg_next buf d = bit (buf ! (d + 7)) 7"

definition ec_datagram_length :: "bytes \<Rightarrow> nat \<Rightarrow> nat" where
  "ec_datagram_length buf d = ec_datagram_hdr_length + dg_len buf d + EC_WKC_SIZE"

definition ec_datagram_next :: "bytes \<Rightarrow> nat \<Rightarrow> nat" where
  "ec_datagram_next buf d = d + ec_datagram_length buf d"

definition ec_datagram_payload :: "bytes \<Rightarrow> nat \<Rightarrow> nat" where
  "ec_datagram_payload buf d = d + ec_datagram_hdr_length"

definition ec_datagram_wkc :: "bytes \<Rightarrow> nat \<Rightarrow> u16" where
  "ec_datagram_wkc buf d = of_nat (of_le (slice (d + (ec_datagram_length buf d - 2)) 2 buf))"

definition dg_set_next :: "bool \<Rightarrow> nat \<Rightarrow> bytes \<Rightarrow> bytes" where
  "dg_set_next b d buf = buf[d + 7 := (if b then set_bit 7 (buf ! (d + 7)) else unset_bit 7 (buf ! (d + 7)))]"

definition ec_datagram_mark_next :: "nat \<Rightarrow> bytes \<Rightarrow> bytes" where
  "ec_datagram_mark_next d buf = dg_set_next True d buf"

definition dg_set_len :: "nat \<Rightarrow> nat \<Rightarrow> bytes \<Rightarrow> bytes" where
  "dg_set_len n d buf =
     buf[d + 6 := of_nat n, d + 7 := ((buf ! (d + 7)) AND 0xF8) OR of_nat (n div 256 mod 8)]"

section \<open>struct ec\_frame\<close>

text \<open>
  Two MAC addresses, \<open>ethertype\<close> at 12, \<open>len:11, reserved:1, type:4\<close> at 14. Unlike the length
  that EtherCAT puts on the wire, \<open>len\<close> counts the whole frame with its headers.
\<close>

definition ec_frame_hdr_length :: nat where [simp]: "ec_frame_hdr_length = 16"

definition fr_ethertype :: "bytes \<Rightarrow> bytes" where "fr_ethertype buf = slice 12 2 buf"
definition ec_frame_length :: "bytes \<Rightarrow> nat" where
  "ec_frame_length buf = unat (buf ! 14) + 256 * unat (buf ! 15 AND 7)"
definition fr_set_len :: "nat \<Rightarrow> bytes \<Rightarrow> bytes" where
  "fr_set_len n buf = buf[14 := of_nat n, 15 := ((buf ! 15) AND 0xF8) OR of_nat (n div 256 mod 8)]"
definition fr_set_type :: "nat \<Rightarrow> bytes \<Rightarrow> bytes" where
  "fr_set_type t buf = buf[15 := ((buf ! 15) AND 0x0F) OR of_nat (t mod 16 * 16)]"

definition ec_datagram_first :: "bytes \<Rightarrow> nat" where "ec_datagram_first buf = ec_frame_hdr_length"
definition ec_frame_end :: "bytes \<Rightarrow> nat" where "ec_frame_end buf = ec_frame_length buf"

text \<open>Stores in host byte order: on the little-endian hosts of the library, \<open>A4 88\<close>.\<close>

definition ec_frame_init :: "bytes \<Rightarrow> int \<times> bytes" where
  "ec_frame_init buf =
     (let b = put_at 0 (replicate 1518 0) buf;
          b = put_at 0 (replicate 6 0xFF) b;
          b = put_at 6 (map of_nat [0..<6]) b;
          b = put_at 12 (le16 0x88A4) b
      in (EC_OK, fr_set_type 4 (fr_set_len ec_frame_hdr_length b)))"

text \<open>
  The loop of \<^verbatim>\<open>ec_frame_add_datagram_log\<close>: the last datagram, \<^term>\<open>None\<close> when it
  runs out of the buffer. A datagram has at least 12 bytes, so the length of the buffer is
  enough fuel.
\<close>

definition frame_last_body :: "bytes \<Rightarrow> nat \<Rightarrow> nat + nat option" where
  "frame_last_body buf d =
     (if d + ec_datagram_hdr_length \<le> length buf
      then if d < ec_frame_length buf \<and> dg_next buf d then Inl (ec_datagram_next buf d) else Inr (Some d)
      else Inr None)"

definition ec_frame_add_datagram_log ::
  "bytes \<Rightarrow> u8 \<Rightarrow> u8 \<Rightarrow> u32 \<Rightarrow> bytes \<Rightarrow> bytes option" where
  "ec_frame_add_datagram_log buf cmd idx adr payload =
     (case loop (Suc (length buf)) (frame_last_body buf) (ec_datagram_first buf) of
        Some (Some d) \<Rightarrow>
          (let b = dg_set_next True d buf;
               d = ec_datagram_next b d
           in if d + ec_datagram_hdr_length + length payload \<le> length b
              then (let b = b[d := cmd, d + 1 := idx];
                        b = put_at (d + 2) (le32 adr) b;
                        b = put_at (d + ec_datagram_hdr_length) payload b;
                        b = dg_set_len (length payload) d b
                    in Some (fr_set_len (ec_frame_length b + ec_datagram_length b d) b))
              else None)
      | _ \<Rightarrow> None)"

text \<open>The address operand is \<open>(ado << 16) || adp\<close>, a logical or.\<close>

definition ec_frame_add_datagram_phys ::
  "bytes \<Rightarrow> u8 \<Rightarrow> u8 \<Rightarrow> u16 \<Rightarrow> u16 \<Rightarrow> bytes \<Rightarrow> bytes option" where
  "ec_frame_add_datagram_phys buf cmd idx adp ado payload =
     ec_frame_add_datagram_log buf cmd idx
       (if push_bit 16 (ucast ado :: u32) \<noteq> 0 \<or> (ucast adp :: u32) \<noteq> 0 then 1 else 0) payload"

section \<open>Fields and updates\<close>

lemma unat_and_7: "unat ((b :: u8) AND 7) < 8"
proof -
  have "b AND 7 \<le> 7" by (rule word_and_le1)
  then have "unat (b AND 7) \<le> 7" by (simp add: word_le_nat_alt)
  then show ?thesis by simp
qed

lemma dg_len_less: "dg_len buf d < 2048"
  using unat_lt[of "buf ! (d + 6)"] unat_and_7[of "buf ! (d + 7)"] by (simp add: dg_len_def)

lemma ec_frame_length_less: "ec_frame_length buf < 2048"
  using unat_lt[of "buf ! 14"] unat_and_7[of "buf ! 15"] by (simp add: ec_frame_length_def)

lemma set_bit_7_and_7 [simp]:
  "set_bit 7 b AND 7 = (b :: u8) AND 7" "unset_bit 7 b AND 7 = (b :: u8) AND 7"
proof -
  have m: "(7 :: u8) = mask 3" by (simp add: mask_eq_exp_minus_1)
  show "set_bit 7 b AND 7 = b AND 7" "unset_bit 7 b AND 7 = b AND 7"
    unfolding m by (auto intro!: bit_word_eqI simp: bit_simps)
qed

lemma length_dg_set_next [buf_simps]: "length (dg_set_next b d buf) = length buf"
  by (simp add: dg_set_next_def)

lemma dg_set_next_nth [buf_simps]: "i \<noteq> d + 7 \<Longrightarrow> dg_set_next b d buf ! i = buf ! i"
  by (simp add: dg_set_next_def)

lemma dg_len_set_next [buf_simps]:
  "d + 7 < length buf \<Longrightarrow> dg_len (dg_set_next b d buf) d = dg_len buf d"
  by (simp add: dg_len_def dg_set_next_def)

lemma dg_next_set_next [buf_simps]:
  "d + 7 < length buf \<Longrightarrow> dg_next (dg_set_next b d buf) d = b"
  by (simp add: dg_next_def dg_set_next_def bit_simps)

lemma and_F8_or: "((b :: u8) AND 0xF8 OR of_nat (m mod 8)) AND 7 = of_nat (m mod 8)"
proof -
  have F8: "(0xF8 :: u8) = NOT (mask 3)" by (simp add: mask_eq_exp_minus_1)
  have m: "(7 :: u8) = mask 3" by (simp add: mask_eq_exp_minus_1)
  have "m mod 8 = take_bit 3 m" by (simp add: take_bit_eq_mod)
  then show ?thesis unfolding F8 m by (auto intro!: bit_word_eqI simp: bit_simps)
qed

lemma byte_pair: "n < 2048 \<Longrightarrow> unat (of_nat n :: u8) + 256 * unat (of_nat (n div 256 mod 8) :: u8) = n"
  by (simp add: unat_of_nat)

lemma dg_len_set_len [buf_simps]:
  "d + 7 < length buf \<Longrightarrow> n < 2048 \<Longrightarrow> dg_len (dg_set_len n d buf) d = n"
  using byte_pair[of n] and_F8_or[of _ "n div 256"] by (simp add: dg_len_def dg_set_len_def)

lemma length_fr_set_len [buf_simps]: "length (fr_set_len n buf) = length buf"
  by (simp add: fr_set_len_def)

lemma ec_frame_length_set_len [buf_simps]:
  "15 < length buf \<Longrightarrow> n < 2048 \<Longrightarrow> ec_frame_length (fr_set_len n buf) = n"
  using byte_pair[of n] and_F8_or[of _ "n div 256"] by (simp add: ec_frame_length_def fr_set_len_def)

lemma fr_set_len_nth [buf_simps]: "i \<noteq> 14 \<Longrightarrow> i \<noteq> 15 \<Longrightarrow> fr_set_len n buf ! i = buf ! i"
  by (simp add: fr_set_len_def)

end
