(* ===== verification/Hw.thy ===== *)
theory Hw
  imports Pool Idx Datagram
begin

text \<open>
  \<^verbatim>\<open>src/hw.c\<close>: the hardware-independent layer that packs the queued datagrams into
  frames and hands the datagrams of a received frame to their owners, and the raw-socket device
  of \<^verbatim>\<open>src/hw_sock_raw.c\<close>. A pointer to a \<^verbatim>\<open>pool_entry_t\<close> is a number, its
  contents are in \<open>hw_entries\<close>; \<open>'c\<close> is the type of the callbacks. The operations of a device
  are a record of functions on the state \<open>'w\<close> of the device. Left out: logging, the send
  timestamps, the cycle timer and the measured durations, which no operation of the model reads.
\<close>

section \<open>State\<close>

datatype pooltype = POOL_HIGH | POOL_LOW


record 'c pool_entry =
  pe_user_cb :: "'c option"
  pe_user_arg :: nat
  pe_p_idx :: nat
  pe_send_idx :: u64
  pe_data :: bytes

record 'c hw_common =
  hw_mtu_size :: nat
  hw_tx_high :: "nat pool"
  hw_tx_low :: "nat pool"
  hw_tx_send :: "u8 \<Rightarrow> nat option"
  hw_frame_idx :: u64
  hw_lost_datagrams :: u64
  hw_entries :: "nat \<Rightarrow> 'c pool_entry"

record 'w hw_device =
  dev_get_tx_buffer :: "'w \<Rightarrow> int \<times> bytes \<times> 'w"
  dev_send :: "bytes \<Rightarrow> pooltype \<Rightarrow> 'w \<Rightarrow> int \<times> 'w"
  dev_send_finished :: "'w \<Rightarrow> 'w"
  dev_close :: "('w \<Rightarrow> 'w) option"

definition ETH_P_ECAT :: bytes where "ETH_P_ECAT = [0x88, 0xA4]"

section \<open>Opening, closing, enqueueing\<close>

definition hw_open :: "osal \<Rightarrow> 'c hw_common \<Rightarrow> int \<times> 'c hw_common" where
  "hw_open os hw =
     (EC_OK, hw\<lparr>hw_frame_idx := 0, hw_tx_high := snd (pool_open os 0 []),
                hw_tx_low := snd (pool_open os 0 [])\<rparr>)"

definition hw_close :: "'w hw_device \<Rightarrow> 'c hw_common \<times> 'w \<Rightarrow> int \<times> 'c hw_common \<times> 'w" where
  "hw_close dev = (\<lambda>(hw, w).
     (0, hw\<lparr>hw_tx_high := snd (pool_close (hw_tx_high hw)),
            hw_tx_low := snd (pool_close (hw_tx_low hw))\<rparr>,
      case dev_close dev of None \<Rightarrow> w | Some f \<Rightarrow> f w))"

definition hw_pool :: "pooltype \<Rightarrow> 'c hw_common \<Rightarrow> nat pool" where
  "hw_pool t hw = (case t of POOL_HIGH \<Rightarrow> hw_tx_high hw | POOL_LOW \<Rightarrow> hw_tx_low hw)"

definition hw_pool_upd :: "pooltype \<Rightarrow> nat pool \<Rightarrow> 'c hw_common \<Rightarrow> 'c hw_common" where
  "hw_pool_upd t p hw =
     (case t of POOL_HIGH \<Rightarrow> hw\<lparr>hw_tx_high := p\<rparr> | POOL_LOW \<Rightarrow> hw\<lparr>hw_tx_low := p\<rparr>)"

definition hw_enqueue :: "osal \<Rightarrow> idx_queue \<Rightarrow> nat \<Rightarrow> pooltype \<Rightarrow> 'c hw_common \<Rightarrow> 'c hw_common" where
  "hw_enqueue os iq p_entry pool_type hw =
     (let i = ie_idx (iq_entries iq ! pe_p_idx (hw_entries hw p_entry));
          hw = (if hw_tx_send hw i \<noteq> None
                then hw\<lparr>hw_tx_send := (hw_tx_send hw)(i := None),
                        hw_lost_datagrams := hw_lost_datagrams hw + 1\<rparr>
                else hw)
      in hw_pool_upd pool_type (pool_put os (hw_pool pool_type hw) p_entry) hw)"

section \<open>Receiving\<close>

text \<open>
  A round of the loop of \<^verbatim>\<open>hw_process_rx_frame\<close> at the datagram at offset \<open>d\<close>. A callback
  gets the frame from the datagram on. A header outside the buffer is \<open>Inr None\<close>.
\<close>

definition rx_deliver ::
  "('c \<Rightarrow> nat \<Rightarrow> bytes \<Rightarrow> 'c hw_common \<times> 'w \<Rightarrow> 'c hw_common \<times> 'w) \<Rightarrow> bytes \<Rightarrow>
   bool \<times> 'c hw_common \<times> 'w \<Rightarrow> bool \<times> 'c hw_common \<times> 'w" where
  "rx_deliver cb dgs = (\<lambda>(success, hw, w).
     (let i = dg_idx dgs 0; entry = hw_tx_send hw i;
          hw = hw\<lparr>hw_tx_send := (hw_tx_send hw)(i := None)\<rparr>
      in case entry of
           None \<Rightarrow> (success, hw, w)
         | Some p \<Rightarrow>
             (case pe_user_cb (hw_entries hw p) of
                None \<Rightarrow> (True, hw, w)
              | Some c \<Rightarrow> (True, cb c p dgs (hw, w)))))"

definition rx_body ::
  "('c \<Rightarrow> nat \<Rightarrow> bytes \<Rightarrow> 'c hw_common \<times> 'w \<Rightarrow> 'c hw_common \<times> 'w) \<Rightarrow> bytes \<Rightarrow>
   nat \<times> bool \<times> 'c hw_common \<times> 'w \<Rightarrow>
   (nat \<times> bool \<times> 'c hw_common \<times> 'w) + (bool \<times> 'c hw_common \<times> 'w) option" where
  "rx_body cb buf = (\<lambda>(d, st).
     if d < ec_frame_end buf
     then (if d + ec_datagram_hdr_length \<le> length buf
           then Inl (ec_datagram_next buf d, rx_deliver cb (drop d buf) st)
           else Inr None)
     else Inr (Some st))"

definition hw_process_rx_frame ::
  "('c \<Rightarrow> nat \<Rightarrow> bytes \<Rightarrow> 'c hw_common \<times> 'w \<Rightarrow> 'c hw_common \<times> 'w) \<Rightarrow> bytes \<Rightarrow>
   'c hw_common \<times> 'w \<Rightarrow> (bool \<times> 'c hw_common \<times> 'w) option" where
  "hw_process_rx_frame cb buf s =
     (if fr_ethertype buf \<noteq> ETH_P_ECAT then Some (False, s)
      else Option.bind (loop (Suc (length buf)) (rx_body cb buf) (ec_datagram_first buf, False, s)) id)"

section \<open>Sending\<close>

text \<open>
  The loop state of \<^verbatim>\<open>hw_tx_pool\<close>: the hardware layer, the device, the frame being filled
  (its buffer, \<open>pdg\<close> and \<open>pdg_prev\<close>), and whether a frame was sent.
\<close>

record ('c, 'w) tx_loop =
  tl_hw :: "'c hw_common"
  tl_dev :: 'w
  tl_pframe :: "bytes option"
  tl_pdg :: nat
  tl_pdg_prev :: "nat option"
  tl_sent :: bool

text \<open>Sends the frame when there is nothing more to send or the next datagram does not fit.\<close>

definition tx_flush ::
  "'w hw_device \<Rightarrow> pooltype \<Rightarrow> nat \<Rightarrow> ('c, 'w) tx_loop \<Rightarrow> ('c, 'w) tx_loop" where
  "tx_flush dev pool_type len st =
     (case tl_pframe st of
        None \<Rightarrow> st
      | Some pframe \<Rightarrow>
          if len = 0 \<or> ec_frame_length pframe + len > hw_mtu_size (tl_hw st)
          then st\<lparr>tl_dev := snd (dev_send dev pframe pool_type (tl_dev st)),
                  tl_pframe := None, tl_pdg_prev := None,
                  tl_hw := (tl_hw st)\<lparr>hw_frame_idx := hw_frame_idx (tl_hw st) + 1\<rparr>,
                  tl_sent := True\<rparr>
          else st)"

text \<open>Copies the datagram of \<open>p_entry\<close> behind the others; \<^term>\<open>None\<close>: out of a buffer.\<close>

definition tx_append :: "nat \<Rightarrow> nat \<Rightarrow> bytes \<Rightarrow> ('c, 'w) tx_loop \<Rightarrow> ('c, 'w) tx_loop option" where
  "tx_append p_entry len pframe st =
     (let hw = tl_hw st;
          pdg = tl_pdg st;
          pframe = (case tl_pdg_prev st of None \<Rightarrow> pframe | Some d \<Rightarrow> ec_datagram_mark_next d pframe);
          pe = hw_entries hw p_entry;
          dg = dg_set_next False 0 (pe_data pe)
      in if len \<le> length dg \<and> pdg + len \<le> length pframe
         then (let pframe = put_at pdg (take len dg) pframe;
                   pframe = fr_set_len (ec_frame_length pframe + len) pframe
               in Some (st\<lparr>tl_pframe := Some pframe, tl_pdg_prev := Some pdg,
                           tl_pdg := ec_datagram_next pframe pdg,
                           tl_hw := hw\<lparr>hw_tx_send := (hw_tx_send hw)(dg_idx dg 0 := Some p_entry),
                                       hw_entries := (hw_entries hw)(p_entry :=
                                         pe\<lparr>pe_data := dg, pe_send_idx := hw_frame_idx hw\<rparr>)\<rparr>\<rparr>))
         else None)"

definition tx_body ::
  "osal \<Rightarrow> 'w hw_device \<Rightarrow> pooltype \<Rightarrow> ('c, 'w) tx_loop \<Rightarrow>
   ('c, 'w) tx_loop + (bool \<times> 'c hw_common \<times> 'w) option" where
  "tx_body os dev pool_type st =
     (let (ret, e, pool) = pool_get os (hw_pool pool_type (tl_hw st)) None;
          st = st\<lparr>tl_hw := hw_pool_upd pool_type pool (tl_hw st)\<rparr>
      in case e of
           None \<Rightarrow>
             (let st = tx_flush dev pool_type 0 st in Inr (Some (tl_sent st, tl_hw st, tl_dev st)))
         | Some p_entry \<Rightarrow>
             (let len = ec_datagram_length (pe_data (hw_entries (tl_hw st) p_entry)) 0;
                  st = tx_flush dev pool_type len st
              in case tl_pframe st of
                   Some pframe \<Rightarrow>
                     (case tx_append p_entry len pframe st of None \<Rightarrow> Inr None | Some st' \<Rightarrow> Inl st')
                 | None \<Rightarrow>
                     (let (ret, pframe, w) = dev_get_tx_buffer dev (tl_dev st)
                      in if ret \<noteq> EC_OK then Inr (Some (tl_sent st, tl_hw st, w))
                         else (case tx_append p_entry len pframe
                                      (st\<lparr>tl_dev := w, tl_pdg := ec_datagram_first pframe\<rparr>) of
                                 None \<Rightarrow> Inr None | Some st' \<Rightarrow> Inl st'))))"

text \<open>Every round takes an entry out of the pool: one round more than it has entries is enough.\<close>

definition hw_tx_pool ::
  "osal \<Rightarrow> 'w hw_device \<Rightarrow> pooltype \<Rightarrow> 'c hw_common \<times> 'w \<Rightarrow> (bool \<times> 'c hw_common \<times> 'w) option" where
  "hw_tx_pool os dev pool_type = (\<lambda>(hw, w).
     Option.bind
       (loop (Suc (length (avail (hw_pool pool_type hw)))) (tx_body os dev pool_type)
          \<lparr>tl_hw = hw, tl_dev = w, tl_pframe = None, tl_pdg = 0, tl_pdg_prev = None, tl_sent = False\<rparr>)
       id)"

definition hw_tx_high_pool ::
  "osal \<Rightarrow> 'w hw_device \<Rightarrow> 'c hw_common \<times> 'w \<Rightarrow> (bool \<times> 'c hw_common \<times> 'w) option" where
  "hw_tx_high_pool os dev s = hw_tx_pool os dev POOL_HIGH s"

definition hw_tx_low_pool ::
  "osal \<Rightarrow> 'w hw_device \<Rightarrow> 'c hw_common \<times> 'w \<Rightarrow> (bool \<times> 'c hw_common \<times> 'w) option" where
  "hw_tx_low_pool os dev s = hw_tx_pool os dev POOL_LOW s"

definition hw_tx ::
  "osal \<Rightarrow> 'w hw_device \<Rightarrow> 'c hw_common \<times> 'w \<Rightarrow> (bool \<times> 'c hw_common \<times> 'w) option" where
  "hw_tx os dev s =
     Option.bind (hw_tx_pool os dev POOL_HIGH s) (\<lambda>(sent, s).
       Option.bind (hw_tx_pool os dev POOL_LOW s) (\<lambda>(sent', s). Some (sent \<or> sent', s)))"

definition hw_rx :: "'w hw_device \<Rightarrow> 'c hw_common \<times> 'w \<Rightarrow> int \<times> 'c hw_common \<times> 'w" where
  "hw_rx dev = (\<lambda>(hw, w). (EC_OK, hw, dev_send_finished dev w))"

section \<open>The raw-socket device\<close>

text \<open>
  \<^verbatim>\<open>src/hw_sock_raw.c\<close>: one send buffer, and the frames that were given to the socket; the
  answer of \<^verbatim>\<open>send(2)\<close> is the parameter \<open>ksend\<close>.
\<close>

record sock_raw =
  sr_send_frame :: bytes
  sr_wire :: "bytes list"

definition hw_device_sock_raw_get_tx_buffer :: "sock_raw \<Rightarrow> int \<times> bytes \<times> sock_raw" where
  "hw_device_sock_raw_get_tx_buffer w =
     (let b = put_at 0 [0xFF, 0xFF, 0xFF, 0xFF, 0xFF, 0xFF] (sr_send_frame w);
          b = put_at 6 [0x00, 0x30, 0x64, 0x0F, 0x83, 0x35] b;
          b = put_at 12 ETH_P_ECAT b;
          b = fr_set_len ec_frame_hdr_length (fr_set_type 1 b)
      in (EC_OK, b, w\<lparr>sr_send_frame := b\<rparr>))"

definition hw_device_sock_raw_send ::
  "(bytes \<Rightarrow> int) \<Rightarrow> bytes \<Rightarrow> pooltype \<Rightarrow> sock_raw \<Rightarrow> int \<times> sock_raw" where
  "hw_device_sock_raw_send ksend pframe pool_type w =
     (let f = take (ec_frame_length pframe) pframe; bytestx = ksend f
      in (if int (ec_frame_length pframe) \<noteq> bytestx then EC_ERROR_HW_SEND else EC_OK,
          w\<lparr>sr_send_frame := pframe, sr_wire := sr_wire w @ [f]\<rparr>))"

definition sock_raw_device :: "(bytes \<Rightarrow> int) \<Rightarrow> sock_raw hw_device" where
  "sock_raw_device ksend =
     \<lparr>dev_get_tx_buffer = hw_device_sock_raw_get_tx_buffer,
      dev_send = hw_device_sock_raw_send ksend,
      dev_send_finished = id,
      dev_close = Some id\<rparr>"

text \<open>\<^verbatim>\<open>hw_device_sock_raw_recv\<close>: the answer of \<^verbatim>\<open>recv(2)\<close> and what it left in the buffer.\<close>

definition hw_device_sock_raw_recv ::
  "('c \<Rightarrow> nat \<Rightarrow> bytes \<Rightarrow> 'c hw_common \<times> 'w \<Rightarrow> 'c hw_common \<times> 'w) \<Rightarrow> int \<Rightarrow> bytes \<Rightarrow>
   'c hw_common \<times> 'w \<Rightarrow> (int \<times> 'c hw_common \<times> 'w) option" where
  "hw_device_sock_raw_recv cb bytesrx recv_frame s =
     (if bytesrx > 0
      then (case hw_process_rx_frame cb recv_frame s of
              None \<Rightarrow> None | Some (_, s') \<Rightarrow> Some (EC_OK, s'))
      else Some (EC_OK, s))"

end
