(* ===== verification/Hw_Frames.thy ===== *)
theory Hw_Frames
  imports Hw
begin

text \<open>
  What \<^verbatim>\<open>src/hw.c\<close> promises: the queued datagrams leave in order, packed greedily into
  frames of at most the MTU, with the \<open>next\<close> flags of the chain right; a frame that comes back
  is cut into the same datagrams, and each reaches the entry that sent it.
\<close>

section \<open>The abstract packing\<close>

text \<open>\<open>pack mtu cur ds\<close>: the frames for \<open>ds\<close> when \<open>cur\<close> is in the frame being filled.\<close>

fun pack :: "nat \<Rightarrow> bytes list \<Rightarrow> bytes list \<Rightarrow> bytes list list" where
  "pack mtu cur [] = (if cur = [] then [] else [cur])"
| "pack mtu cur (d # ds) =
     (if cur \<noteq> [] \<and> 16 + length (concat cur) + length d > mtu
      then cur # pack mtu [d] ds
      else pack mtu (cur @ [d]) ds)"

text \<open>The content of a frame: every datagram but the last says that another one follows.\<close>

definition chain :: "bytes list \<Rightarrow> bytes" where
  "chain ds = concat (map (dg_set_next True 0) (butlast ds)) @ dg_set_next False 0 (last ds)"

definition wf_dg :: "bytes \<Rightarrow> bool" where
  "wf_dg d \<longleftrightarrow> 12 \<le> length d \<and> ec_datagram_length d 0 = length d"

definition frame_of :: "bytes list \<Rightarrow> bytes \<Rightarrow> bool" where
  "frame_of ds f \<longleftrightarrow> (\<exists>hdr. f = hdr @ chain ds \<and> length hdr = 16 \<and> fr_ethertype hdr = ETH_P_ECAT \<and>
     ec_frame_length hdr = length f)"

lemma concat_pack: "concat (pack mtu cur ds) = cur @ ds"
  by (induction mtu cur ds rule: pack.induct) auto

lemma pack_fits:
  assumes "\<forall>d\<in>set ds. 16 + length d \<le> mtu" "16 + length (concat cur) \<le> mtu"
  shows "\<forall>c\<in>set (pack mtu cur ds). c \<noteq> [] \<and> 16 + length (concat c) \<le> mtu"
  using assms by (induction mtu cur ds rule: pack.induct) auto

lemma length_dg_set_next_concat [simp]:
  "length (concat (map (dg_set_next b d) ds)) = length (concat ds)"
  by (induction ds) (auto simp: buf_simps)

lemma length_chain: "ds \<noteq> [] \<Longrightarrow> length (chain ds) = length (concat ds)"
  by (induction ds rule: rev_induct) (auto simp: chain_def buf_simps)

lemma chain_single: "chain [d] = dg_set_next False 0 d"
  by (simp add: chain_def)

lemma dg_set_next_twice [simp]: "dg_set_next a d (dg_set_next b d buf) = dg_set_next a d buf"
proof (cases "d + 7 < length buf")
  case True
  have "set_bit 7 (set_bit 7 x) = set_bit 7 x" "set_bit 7 (unset_bit 7 x) = set_bit 7 x"
    "unset_bit 7 (set_bit 7 x) = unset_bit 7 x" "unset_bit 7 (unset_bit 7 x) = unset_bit 7 x"
    for x :: u8
    by (auto intro!: bit_word_eqI simp: bit_simps)
  with True show ?thesis by (simp add: dg_set_next_def)
qed (simp add: dg_set_next_def list_update_beyond)

lemma dg_set_next_append:
  "8 \<le> length d \<Longrightarrow> dg_set_next b (length xs) (xs @ d @ ys) = xs @ dg_set_next b 0 d @ ys"
  by (simp add: dg_set_next_def list_update_append nth_append)

lemma chain_snoc:
  assumes "cur \<noteq> []" "8 \<le> length (last cur)" "length hdr = 16"
  shows "dg_set_next True (16 + length (concat (butlast cur))) (hdr @ chain cur @ rest) @ dg_set_next False 0 d
           = hdr @ concat (map (dg_set_next True 0) cur) @ rest @ dg_set_next False 0 d"
proof -
  let ?xs = "hdr @ concat (map (dg_set_next True 0) (butlast cur))"
  have "map (dg_set_next True 0) cur
      = map (dg_set_next True 0) (butlast cur) @ [dg_set_next True 0 (last cur)]"
    using assms(1) by (metis append_butlast_last_id list.map(1,2) map_append)
  then have c: "concat (map (dg_set_next True 0) cur)
      = concat (map (dg_set_next True 0) (butlast cur)) @ dg_set_next True 0 (last cur)"
    by simp
  have "dg_set_next True (length ?xs) (?xs @ dg_set_next False 0 (last cur) @ rest)
      = ?xs @ dg_set_next True 0 (dg_set_next False 0 (last cur)) @ rest"
    by (rule dg_set_next_append) (simp add: buf_simps assms(2))
  then show ?thesis using assms(3) by (simp add: chain_def c)
qed

lemma chain_append: "cur \<noteq> [] \<Longrightarrow>
  chain (cur @ [d]) = concat (map (dg_set_next True 0) cur) @ dg_set_next False 0 d"
  by (simp add: chain_def)

section \<open>Frame headers\<close>

lemma fr_set_len_append: "16 \<le> length hdr \<Longrightarrow> fr_set_len n (hdr @ xs) = fr_set_len n hdr @ xs"
  by (simp add: fr_set_len_def list_update_append nth_append)

lemma ec_frame_length_append: "16 \<le> length hdr \<Longrightarrow> ec_frame_length (hdr @ xs) = ec_frame_length hdr"
  by (simp add: ec_frame_length_def nth_append)

lemma fr_ethertype_append: "16 \<le> length hdr \<Longrightarrow> fr_ethertype (hdr @ xs) = fr_ethertype hdr"
  by (simp add: fr_ethertype_def slice_append_left)

lemma fr_ethertype_set_len [simp]: "fr_ethertype (fr_set_len n buf) = fr_ethertype buf"
  by (simp add: fr_ethertype_def fr_set_len_def slice_def take_update_cancel drop_update_swap)

lemma ec_datagram_length_append:
  "length xs = d \<Longrightarrow> 8 \<le> length y \<Longrightarrow> ec_datagram_length (xs @ y @ ys) d = ec_datagram_length y 0"
  by (simp add: ec_datagram_length_def dg_len_def nth_append)

lemma ec_datagram_length_take:
  "8 \<le> n \<Longrightarrow> 8 \<le> length buf \<Longrightarrow> ec_datagram_length (take n buf) 0 = ec_datagram_length buf 0"
  by (simp add: ec_datagram_length_def dg_len_def)

lemma ec_datagram_length_set_next [simp]:
  "8 \<le> length buf \<Longrightarrow> ec_datagram_length (dg_set_next b 0 buf) 0 = ec_datagram_length buf 0"
  by (simp add: ec_datagram_length_def buf_simps)

lemma dg_set_next_take: "8 \<le> n \<Longrightarrow> take n (dg_set_next b 0 buf) = dg_set_next b 0 (take n buf)"
  by (cases "7 < length buf") (simp_all add: dg_set_next_def take_update_swap list_update_beyond)

lemma put_at_append:
  "length xs = d \<Longrightarrow> length y \<le> length ys \<Longrightarrow> put_at d y (xs @ ys) = xs @ y @ drop (length y) ys"
  by (simp add: put_at_def)

section \<open>Entries and pools\<close>

text \<open>The datagram of an entry: the first bytes of its data.\<close>

definition dg_of :: "'c hw_common \<Rightarrow> nat \<Rightarrow> bytes" where
  "dg_of hw p = take (ec_datagram_length (pe_data (hw_entries hw p)) 0) (pe_data (hw_entries hw p))"

definition sendable :: "'c hw_common \<Rightarrow> nat \<Rightarrow> bool" where
  "sendable hw p \<longleftrightarrow>
     ec_datagram_length (pe_data (hw_entries hw p)) 0 \<le> length (pe_data (hw_entries hw p)) \<and>
     16 + ec_datagram_length (pe_data (hw_entries hw p)) 0 \<le> hw_mtu_size hw"

definition mark_sent :: "'c hw_common \<Rightarrow> nat list \<Rightarrow> u8 \<Rightarrow> nat option" where
  "mark_sent hw ps = fold (\<lambda>p m. m(dg_idx (dg_of hw p) 0 := Some p)) ps (hw_tx_send hw)"

lemma hw_pool_upd_simps [simp]:
  "hw_pool t (hw_pool_upd t p hw) = p"
  "hw_mtu_size (hw_pool_upd t p hw) = hw_mtu_size hw"
  "hw_entries (hw_pool_upd t p hw) = hw_entries hw"
  "hw_tx_send (hw_pool_upd t p hw) = hw_tx_send hw"
  "hw_pool t (hw\<lparr>hw_frame_idx := k\<rparr>) = hw_pool t hw"
  "hw_pool t (hw\<lparr>hw_tx_send := m\<rparr>) = hw_pool t hw"
  "hw_pool t (hw\<lparr>hw_entries := h\<rparr>) = hw_pool t hw"
  by (simp_all add: hw_pool_def hw_pool_upd_def split: pooltype.splits)

lemma ec_datagram_length_ge: "12 \<le> ec_datagram_length buf d"
  by (simp add: ec_datagram_length_def)

lemma dg_of_props:
  assumes "sendable hw p"
  shows "length (dg_of hw p) = ec_datagram_length (pe_data (hw_entries hw p)) 0"
    "12 \<le> length (dg_of hw p)" "16 + length (dg_of hw p) \<le> hw_mtu_size hw" "wf_dg (dg_of hw p)"
  using assms ec_datagram_length_ge[of "pe_data (hw_entries hw p)" 0]
  by (auto simp: sendable_def dg_of_def wf_dg_def min_absorb2 ec_datagram_length_take)

section \<open>Filling a frame\<close>

definition filling :: "nat \<Rightarrow> ('c, 'w) tx_loop \<Rightarrow> bytes list \<Rightarrow> bool" where
  "filling cap st cur \<longleftrightarrow>
     (if cur = [] then tl_pframe st = None \<and> tl_pdg_prev st = None
      else (\<exists>hdr rest. tl_pframe st = Some (hdr @ chain cur @ rest) \<and>
              length hdr = 16 \<and> length (hdr @ chain cur @ rest) = cap \<and>
              fr_ethertype hdr = ETH_P_ECAT \<and>
              ec_frame_length hdr = 16 + length (concat cur) \<and>
              tl_pdg st = 16 + length (concat cur) \<and>
              tl_pdg_prev st = Some (16 + length (concat (butlast cur))) \<and>
              8 \<le> length (last cur)))"

lemma fillingI:
  assumes "cur \<noteq> []" "tl_pframe st = Some (hdr @ chain cur @ rest)" "length hdr = 16"
    "length (hdr @ chain cur @ rest) = cap" "fr_ethertype hdr = ETH_P_ECAT"
    "ec_frame_length hdr = 16 + length (concat cur)" "tl_pdg st = 16 + length (concat cur)"
    "tl_pdg_prev st = Some (16 + length (concat (butlast cur)))" "8 \<le> length (last cur)"
  shows "filling cap st cur"
  unfolding filling_def if_not_P[OF assms(1)]
  by (intro exI[of _ hdr] exI[of _ rest] conjI assms)

definition tx_put :: "'c hw_common \<Rightarrow> nat \<Rightarrow> 'c hw_common" where
  "tx_put hw p =
     (let pe = hw_entries hw p; dg = dg_set_next False 0 (pe_data pe)
      in hw\<lparr>hw_tx_send := (hw_tx_send hw)(dg_idx dg 0 := Some p),
            hw_entries := (hw_entries hw)(p := pe\<lparr>pe_data := dg, pe_send_idx := hw_frame_idx hw\<rparr>)\<rparr>)"

lemma tx_append_first:
  assumes "sendable (tl_hw st) p" "len = length (dg_of (tl_hw st) p)"
    and "length pframe = cap" "hw_mtu_size (tl_hw st) \<le> cap" "hw_mtu_size (tl_hw st) < 2048"
    and "ec_frame_length pframe = 16" "fr_ethertype pframe = ETH_P_ECAT"
    and "tl_pdg_prev st = None" "tl_pdg st = 16"
  shows "\<exists>st'. tx_append p len pframe st = Some st' \<and> filling cap st' [dg_of (tl_hw st) p] \<and>
           tl_hw st' = tx_put (tl_hw st) p \<and> tl_dev st' = tl_dev st \<and> tl_sent st' = tl_sent st"
proof -
  let ?hw = "tl_hw st"
  let ?data = "pe_data (hw_entries ?hw p)"
  let ?dg = "dg_set_next False 0 ?data"
  note dgp = dg_of_props[OF assms(1)]
  have ld: "len \<le> length ?dg" "12 \<le> len" "16 + len \<le> cap"
    using assms(1,2,4) dgp by (auto simp: buf_simps sendable_def)
  have small: "16 + len < 2048" using assms(2,5) dgp(3) by simp
  have tk: "take len ?dg = dg_set_next False 0 (dg_of ?hw p)"
    using ld dgp assms(2) by (simp add: dg_set_next_take dg_of_def)
  obtain hdr rest where pf: "pframe = hdr @ rest" "length hdr = 16"
    using assms(3) ld append_take_drop_id[of 16 pframe] by (metis length_take min.absorb2 add_leD1)
  have rest: "len \<le> length rest" using pf assms(3) ld by simp
  have lh: "ec_frame_length hdr = 16" "fr_ethertype hdr = ETH_P_ECAT"
    using assms(6,7) pf by (simp_all add: ec_frame_length_append fr_ethertype_append)
  let ?hdr = "fr_set_len (16 + len) hdr"
  have put: "put_at 16 (take len ?dg) pframe = hdr @ dg_set_next False 0 (dg_of ?hw p) @ drop len rest"
    unfolding tk pf(1)
    using put_at_append[of hdr 16 "dg_set_next False 0 (dg_of ?hw p)" rest] pf(2) rest assms(2)
    by (simp add: length_dg_set_next)
  have fin: "fr_set_len (ec_frame_length (put_at 16 (take len ?dg) pframe) + len) (put_at 16 (take len ?dg) pframe)
      = ?hdr @ chain [dg_of ?hw p] @ drop len rest"
    unfolding put using pf lh by (simp add: fr_set_len_append ec_frame_length_append chain_single)
  have hlen: "ec_frame_length ?hdr = 16 + len" "length ?hdr = 16"
    using pf small by (simp_all add: buf_simps)
  have dl: "ec_datagram_length (?hdr @ chain [dg_of ?hw p] @ drop len rest) 16 = len"
    using dgp assms(2) hlen
    by (subst ec_datagram_length_append) (simp_all add: chain_single buf_simps wf_dg_def)
  have cond: "len \<le> length ?dg \<and> 16 + len \<le> length pframe" using ld assms(3) by simp
  have app: "tx_append p len pframe st = Some (st\<lparr>tl_pframe := Some (?hdr @ chain [dg_of ?hw p] @ drop len rest),
      tl_pdg_prev := Some 16, tl_pdg := 16 + len, tl_hw := tx_put ?hw p\<rparr>)"
    by (simp only: tx_append_def Let_def assms(8,9) option.case fin ec_datagram_next_def dl cond simp_thms if_True tx_put_def)
  have "length (?hdr @ chain [dg_of ?hw p] @ drop len rest) = cap"
    using hlen rest pf assms(2,3) by (simp add: length_chain)
  then have "filling cap (st\<lparr>tl_pframe := Some (?hdr @ chain [dg_of ?hw p] @ drop len rest),
      tl_pdg_prev := Some 16, tl_pdg := 16 + len, tl_hw := tx_put ?hw p\<rparr>) [dg_of ?hw p]"
    by (rule fillingI[where hdr = ?hdr and rest = "drop len rest", rotated 3])
       (use hlen lh dgp(2) assms(2) in simp_all)
  with app show ?thesis by auto
qed

lemma tx_append_next:
  assumes "sendable (tl_hw st) p" "len = length (dg_of (tl_hw st) p)"
    and "filling cap st cur" "cur \<noteq> []" "tl_pframe st = Some pframe"
    and "16 + length (concat cur) + len \<le> hw_mtu_size (tl_hw st)"
    and "hw_mtu_size (tl_hw st) \<le> cap" "hw_mtu_size (tl_hw st) < 2048"
  shows "\<exists>st'. tx_append p len pframe st = Some st' \<and>
           filling cap st' (cur @ [dg_of (tl_hw st) p]) \<and>
           tl_hw st' = tx_put (tl_hw st) p \<and> tl_dev st' = tl_dev st \<and> tl_sent st' = tl_sent st"
proof -
  let ?hw = "tl_hw st"
  let ?d = "dg_of ?hw p"
  let ?dg = "dg_set_next False 0 (pe_data (hw_entries ?hw p))"
  let ?pdg = "16 + length (concat cur)"
  note dgp = dg_of_props[OF assms(1)]
  have ld: "len \<le> length ?dg" "12 \<le> len" "?pdg + len \<le> cap"
    using assms(1,2,6,7) dgp by (auto simp: buf_simps sendable_def)
  have tk: "take len ?dg = dg_set_next False 0 ?d"
    using ld dgp assms(2) by (simp add: dg_set_next_take dg_of_def)
  obtain hdr rest where pf: "pframe = hdr @ chain cur @ rest" "length hdr = 16"
      "length (hdr @ chain cur @ rest) = cap" "fr_ethertype hdr = ETH_P_ECAT"
      "ec_frame_length hdr = ?pdg" "tl_pdg st = ?pdg"
      "tl_pdg_prev st = Some (16 + length (concat (butlast cur)))" "8 \<le> length (last cur)"
    using assms(3,4,5) by (auto simp: filling_def)
  let ?xs = "hdr @ concat (map (dg_set_next True 0) cur)"
  let ?hdr = "fr_set_len (?pdg + len) hdr"
  have xs: "length ?xs = ?pdg" using pf by simp
  have rest: "len \<le> length rest"
    using pf(2,3) ld assms(4) by (simp add: length_chain)
  have mk: "ec_datagram_mark_next (16 + length (concat (butlast cur))) pframe = ?xs @ rest"
    using chain_snoc[OF assms(4) pf(8,2), of rest "[]"] pf(1)
    by (simp add: ec_datagram_mark_next_def dg_set_next_def)
  have put: "put_at ?pdg (take len ?dg) (?xs @ rest)
      = hdr @ chain (cur @ [?d]) @ drop len rest"
    unfolding tk chain_append[OF assms(4)]
    using put_at_append[of ?xs ?pdg "dg_set_next False 0 ?d" rest] xs rest assms(2)
    by (simp add: length_dg_set_next)
  have fin: "fr_set_len (ec_frame_length (put_at ?pdg (take len ?dg) (?xs @ rest)) + len)
        (put_at ?pdg (take len ?dg) (?xs @ rest)) = ?hdr @ chain (cur @ [?d]) @ drop len rest"
    unfolding put using pf(2,5) by (simp add: fr_set_len_append ec_frame_length_append)
  have hlen: "ec_frame_length ?hdr = ?pdg + len" "length ?hdr = 16"
    using pf(2) assms(6,8) by (simp_all add: buf_simps)
  have "ec_datagram_length ((?hdr @ concat (map (dg_set_next True 0) cur)) @ dg_set_next False 0 ?d @ drop len rest) ?pdg
      = ec_datagram_length (dg_set_next False 0 ?d) 0"
    using dgp ld hlen by (intro ec_datagram_length_append) (simp_all add: buf_simps)
  then have dl: "ec_datagram_length (?hdr @ chain (cur @ [?d]) @ drop len rest) ?pdg = len"
    using dgp assms(2) by (simp add: chain_append[OF assms(4)] wf_dg_def)
  have cond: "len \<le> length ?dg \<and> ?pdg + len \<le> length (?xs @ rest)"
    using ld pf(3) assms(4) by (simp add: length_chain)
  let ?st = "st\<lparr>tl_pframe := Some (?hdr @ chain (cur @ [?d]) @ drop len rest),
      tl_pdg_prev := Some ?pdg, tl_pdg := ?pdg + len, tl_hw := tx_put ?hw p\<rparr>"
  have app: "tx_append p len pframe st = Some ?st"
    by (simp only: tx_append_def Let_def pf(6,7) mk option.case fin ec_datagram_next_def dl cond simp_thms if_True tx_put_def)
  have "length (?hdr @ chain (cur @ [?d]) @ drop len rest) = cap"
    using hlen rest pf(2,3) assms(2,4) by (simp add: length_chain)
  then have "filling cap ?st (cur @ [?d])"
    by (rule fillingI[where hdr = ?hdr and rest = "drop len rest", rotated 3])
       (use hlen pf(4) dgp(2) assms(2) in simp_all)
  with app show ?thesis by auto
qed

lemma filling_upd_hw [simp]: "filling cap (st\<lparr>tl_hw := h\<rparr>) cur = filling cap st cur"
  by (simp add: filling_def)

text \<open>What sending leaves alone in an entry.\<close>

definition pe_owner :: "'c pool_entry \<Rightarrow> 'c option \<times> nat \<times> nat \<times> nat" where
  "pe_owner pe = (pe_user_cb pe, pe_user_arg pe, pe_p_idx pe, length (pe_data pe))"

definition kept :: "nat \<Rightarrow> 'c hw_common \<Rightarrow> 'c hw_common \<Rightarrow> bool" where
  "kept p hw hw' \<longleftrightarrow> hw_mtu_size hw' = hw_mtu_size hw \<and>
     (\<forall>q. q \<noteq> p \<longrightarrow> hw_entries hw' q = hw_entries hw q) \<and>
     (\<forall>q. pe_owner (hw_entries hw' q) = pe_owner (hw_entries hw q))"

section \<open>What a device promises\<close>

text \<open>
  \<^verbatim>\<open>get_tx_buffer\<close> gives an empty frame of \<open>cap\<close> bytes, and \<^verbatim>\<open>send\<close> puts the first
  \<^verbatim>\<open>pframe->len\<close> bytes on the wire, if these are at most \<open>lim\<close>. \<open>ok\<close> is the device's own
  invariant, which is \<open>ready\<close> while it has a buffer given out.
\<close>

locale tx_device =
  fixes dev :: "'w hw_device" and ok ready :: "'w \<Rightarrow> bool" and wire :: "'w \<Rightarrow> bytes list" and cap lim :: nat
  assumes get_tx_buffer: "ok w \<Longrightarrow> \<exists>buf w'. dev_get_tx_buffer dev w = (EC_OK, buf, w') \<and> ready w' \<and>
      wire w' = wire w \<and> length buf = cap \<and> ec_frame_length buf = 16 \<and> fr_ethertype buf = ETH_P_ECAT"
    and ready_ok: "ready w \<Longrightarrow> ok w"
    and send_ok: "ready w \<Longrightarrow> length buf = cap \<Longrightarrow> ec_frame_length buf \<le> lim \<Longrightarrow> ok (snd (dev_send dev buf t w))"
    and send_wire: "ready w \<Longrightarrow> length buf = cap \<Longrightarrow> ec_frame_length buf \<le> lim \<Longrightarrow>
      wire (snd (dev_send dev buf t w)) = wire w @ [take (ec_frame_length buf) buf]"
begin

lemma flush_frame:
  assumes "filling cap st cur" "cur \<noteq> []" "ready (tl_dev st)"
    and "len = 0 \<or> 16 + length (concat cur) + len > hw_mtu_size (tl_hw st)" and lim: "16 + length (concat cur) \<le> lim"
  shows "\<exists>w' f. ok w' \<and> wire w' = wire (tl_dev st) @ [f] \<and> frame_of cur f \<and>
           tx_flush dev t len st = st\<lparr>tl_dev := w', tl_pframe := None, tl_pdg_prev := None,
             tl_hw := (tl_hw st)\<lparr>hw_frame_idx := hw_frame_idx (tl_hw st) + 1\<rparr>, tl_sent := True\<rparr>"
proof -
  obtain hdr rest where pf: "tl_pframe st = Some (hdr @ chain cur @ rest)" "length hdr = 16"
      "length (hdr @ chain cur @ rest) = cap" "fr_ethertype hdr = ETH_P_ECAT"
      "ec_frame_length hdr = 16 + length (concat cur)"
    using assms(1,2) by (auto simp: filling_def)
  let ?buf = "hdr @ chain cur @ rest"
  let ?w = "snd (dev_send dev ?buf t (tl_dev st))"
  have len: "ec_frame_length ?buf = 16 + length (concat cur)"
    using pf by (simp add: ec_frame_length_append)
  have tk: "take (16 + length (concat cur)) ?buf = hdr @ chain cur"
    using pf(2) assms(2) by (simp add: length_chain)
  have "frame_of cur (hdr @ chain cur)"
    using pf assms(2) by (auto simp: frame_of_def length_chain)
  moreover have "ok ?w" using assms(3) pf(3) by (rule send_ok) (simp only: len lim)
  moreover have "wire ?w = wire (tl_dev st) @ [hdr @ chain cur]"
    using send_wire[OF assms(3) pf(3)] lim by (simp only: len tk)
  moreover have "tx_flush dev t len st = st\<lparr>tl_dev := ?w, tl_pframe := None, tl_pdg_prev := None,
             tl_hw := (tl_hw st)\<lparr>hw_frame_idx := hw_frame_idx (tl_hw st) + 1\<rparr>, tl_sent := True\<rparr>"
    unfolding tx_flush_def pf(1) option.case len using assms(4) by auto
  ultimately show ?thesis by blast
qed

lemma flush_none:
  assumes "filling cap st cur"
    and "cur = [] \<or> len \<noteq> 0 \<and> 16 + length (concat cur) + len \<le> hw_mtu_size (tl_hw st)"
  shows "tx_flush dev t len st = st"
  using assms
  by (auto simp: filling_def tx_flush_def ec_frame_length_append split: if_splits)

text \<open>One round: the next datagram goes into the frame, or into a fresh one.\<close>

lemma tx_round:
  assumes "filling cap st cur" "(if cur = [] then ok else ready) (tl_dev st)" "avail (hw_pool t (tl_hw st)) = p # ps"
    and "sendable (tl_hw st) p" "hw_mtu_size (tl_hw st) \<le> cap" "hw_mtu_size (tl_hw st) < 2048"
    and lim: "cur = [] \<or> 16 + length (concat cur) \<le> lim"
  shows "\<exists>st' fs fl. tx_body os dev t st = Inl st' \<and>
     fl = (cur \<noteq> [] \<and> 16 + length (concat cur) + length (dg_of (tl_hw st) p) > hw_mtu_size (tl_hw st)) \<and>
     filling cap st' (if fl then [dg_of (tl_hw st) p] else cur @ [dg_of (tl_hw st) p]) \<and>
     ready (tl_dev st') \<and> wire (tl_dev st') = wire (tl_dev st) @ fs \<and>
     list_all2 frame_of (if fl then [cur] else []) fs \<and>
     avail (hw_pool t (tl_hw st')) = ps \<and> kept p (tl_hw st) (tl_hw st') \<and>
     hw_tx_send (tl_hw st') = (hw_tx_send (tl_hw st))(dg_idx (dg_of (tl_hw st) p) 0 := Some p)"
proof -
  let ?pool = "(hw_pool t (tl_hw st))\<lparr>avail := ps\<rparr>"
  define st1 where "st1 = st\<lparr>tl_hw := hw_pool_upd t ?pool (tl_hw st)\<rparr>"
  let ?d = "dg_of (tl_hw st) p"
  let ?len = "ec_datagram_length (pe_data (hw_entries (tl_hw st) p)) 0"
  note dgp = dg_of_props[OF assms(4)]
  have s1: "sendable (tl_hw st1) p" "dg_of (tl_hw st1) p = ?d" "tl_dev st1 = tl_dev st"
      "hw_mtu_size (tl_hw st1) = hw_mtu_size (tl_hw st)" "hw_entries (tl_hw st1) = hw_entries (tl_hw st)"
      "filling cap st1 cur" "avail (hw_pool t (tl_hw st1)) = ps" "hw_tx_send (tl_hw st1) = hw_tx_send (tl_hw st)"
    using assms by (simp_all add: st1_def sendable_def dg_of_def)
  have idx: "dg_idx (dg_set_next False 0 (pe_data (hw_entries (tl_hw st) p))) 0 = dg_idx ?d 0"
    using dgp(2) by (simp add: dg_idx_def buf_simps dg_of_def)
  have putp: "kept p (tl_hw st) hw'" "avail (hw_pool t hw') = ps"
      "hw_tx_send hw' = (hw_tx_send (tl_hw st))(dg_idx ?d 0 := Some p)"
    if "hw' = tx_put ((tl_hw st1)\<lparr>hw_frame_idx := k\<rparr>) p" for hw' k
    using that s1 idx by (auto simp: kept_def tx_put_def Let_def pe_owner_def buf_simps)
  have body: "tx_body os dev t st = (let st = tx_flush dev t ?len st1 in
      case tl_pframe st of
        Some pframe \<Rightarrow> (case tx_append p ?len pframe st of None \<Rightarrow> Inr None | Some st' \<Rightarrow> Inl st')
      | None \<Rightarrow> (let (ret, pframe, w) = dev_get_tx_buffer dev (tl_dev st)
                 in if ret \<noteq> EC_OK then Inr (Some (tl_sent st, tl_hw st, w))
                    else (case tx_append p ?len pframe (st\<lparr>tl_dev := w, tl_pdg := ec_datagram_first pframe\<rparr>)
                          of None \<Rightarrow> Inr None | Some st' \<Rightarrow> Inl st')))"
    by (simp add: tx_body_def assms(3) st1_def Let_def split: option.split)
  have fresh: ?thesis
    if st2: "tx_flush dev t ?len st1 = st2" "tl_pframe st2 = None" "tl_pdg_prev st2 = None" "ok (tl_dev st2)"
      "tl_hw st2 = (tl_hw st1)\<lparr>hw_frame_idx := k\<rparr>" "wire (tl_dev st2) = wire (tl_dev st) @ fs"
      "list_all2 frame_of (if fl then [cur] else []) fs" "fl \<longleftrightarrow> cur \<noteq> []"
      "fl = (cur \<noteq> [] \<and> 16 + length (concat cur) + length ?d > hw_mtu_size (tl_hw st))" for st2 k fs fl
  proof -
    obtain buf w where g: "dev_get_tx_buffer dev (tl_dev st2) = (EC_OK, buf, w)" "ready w"
        "wire w = wire (tl_dev st2)" "length buf = cap" "ec_frame_length buf = 16"
        "fr_ethertype buf = ETH_P_ECAT"
      using get_tx_buffer[OF st2(4)] by blast
    let ?st3 = "st2\<lparr>tl_dev := w, tl_pdg := ec_datagram_first buf\<rparr>"
    have d3: "dg_of (tl_hw ?st3) p = ?d" "sendable (tl_hw ?st3) p"
        "hw_mtu_size (tl_hw ?st3) = hw_mtu_size (tl_hw st)"
      using st2(5) s1 by (simp_all add: dg_of_def sendable_def)
    obtain st' where a: "tx_append p ?len buf ?st3 = Some st'" "filling cap st' [?d]"
        "tl_hw st' = tx_put (tl_hw ?st3) p" "tl_dev st' = w"
      using tx_append_first[of ?st3 p ?len buf cap] d3 g dgp assms(5,6) st2(3)
      by (auto simp: ec_datagram_first_def)
    have "tx_body os dev t st = Inl st'"
      unfolding body Let_def st2(1) st2(2) using g(1) a(1) by simp
    moreover have "filling cap st' (if fl then [?d] else cur @ [?d])"
      using a(2) st2(8) by auto
    moreover note putp[of "tl_hw st'" k]
    ultimately show ?thesis using a g st2(5,6,7,9) by (intro exI[of _ st'] exI[of _ fs] exI[of _ fl]) simp
  qed
  show ?thesis
  proof (cases "cur = []")
    case True
    have "tx_flush dev t ?len st1 = st1" using s1(6) True by (intro flush_none[where cur = cur]) simp_all
    with fresh[of st1 "hw_frame_idx (tl_hw st1)" "[]" False] True s1 assms(2) show ?thesis
      by (simp add: filling_def)
  next
    case ne: False
    show ?thesis
    proof (cases "16 + length (concat cur) + length ?d > hw_mtu_size (tl_hw st)")
      case True
      obtain w f where f: "ok w" "wire w = wire (tl_dev st1) @ [f]" "frame_of cur f"
          "tx_flush dev t ?len st1 = st1\<lparr>tl_dev := w, tl_pframe := None, tl_pdg_prev := None,
             tl_hw := (tl_hw st1)\<lparr>hw_frame_idx := hw_frame_idx (tl_hw st1) + 1\<rparr>, tl_sent := True\<rparr>"
        using flush_frame[OF s1(6) ne, of ?len t] s1 assms(2) True dgp(1) lim ne by auto
      show ?thesis
        by (rule fresh[OF f(4), of "hw_frame_idx (tl_hw st1) + 1" "[f]" True])
           (use f s1 ne True in simp_all)
    next
      case False
      have fl: "tx_flush dev t ?len st1 = st1"
        using s1 False dgp ec_datagram_length_ge[of "pe_data (hw_entries (tl_hw st) p)" 0]
        by (intro flush_none[of _ cur]) auto
      obtain pframe where pf: "tl_pframe st1 = Some pframe" using s1(6) ne by (auto simp: filling_def)
      obtain st' where a: "tx_append p ?len pframe st1 = Some st'" "filling cap st' (cur @ [?d])"
          "tl_hw st' = tx_put (tl_hw st1) p" "tl_dev st' = tl_dev st1"
        using tx_append_next[OF s1(1) _ s1(6) ne pf, of ?len] s1 dgp False assms(5,6) by auto
      have "tx_body os dev t st = Inl st'"
        unfolding body Let_def fl pf option.case a(1) by simp
      then show ?thesis
        using a s1 putp[of "tl_hw st'" "hw_frame_idx (tl_hw st1)"] assms(2) False ne
        by (intro exI[of _ st'] exI[of _ "[]"] exI[of _ False]) simp
    qed
  qed
qed

text \<open>Nothing left in the pool: the frame being filled is sent.\<close>

lemma tx_last_round:
  assumes "filling cap st cur" "(if cur = [] then ok else ready) (tl_dev st)" "avail (hw_pool t (tl_hw st)) = []"
    and lim: "cur = [] \<or> 16 + length (concat cur) \<le> lim"
  shows "\<exists>sent hw' w' fs. tx_body os dev t st = Inr (Some (sent, hw', w')) \<and> ok w' \<and>
     wire w' = wire (tl_dev st) @ fs \<and> list_all2 frame_of (if cur = [] then [] else [cur]) fs \<and>
     avail (hw_pool t hw') = [] \<and> hw_tx_send hw' = hw_tx_send (tl_hw st) \<and>
     hw_entries hw' = hw_entries (tl_hw st)"
proof -
  let ?st = "st\<lparr>tl_hw := hw_pool_upd t (hw_pool t (tl_hw st)) (tl_hw st)\<rparr>"
  have fill: "filling cap ?st cur" using assms(1) by simp
  have body: "tx_body os dev t st = (let st = tx_flush dev t 0 ?st in Inr (Some (tl_sent st, tl_hw st, tl_dev st)))"
    by (simp add: tx_body_def assms(3))
  show ?thesis
  proof (cases "cur = []")
    case True
    then have "tx_flush dev t 0 ?st = ?st" using fill by (intro flush_none[where cur = cur]) simp_all
    then show ?thesis using True assms(2,3) unfolding body Let_def by simp
  next
    case False
    from flush_frame[OF fill this, of 0 t] assms(2) lim False obtain w' f where "ok w'"
        "wire w' = wire (tl_dev st) @ [f]" "frame_of cur f"
        "tx_flush dev t 0 ?st = ?st\<lparr>tl_dev := w', tl_pframe := None, tl_pdg_prev := None,
             tl_hw := (tl_hw ?st)\<lparr>hw_frame_idx := hw_frame_idx (tl_hw ?st) + 1\<rparr>, tl_sent := True\<rparr>"
      by auto
    then show ?thesis using False assms(3) unfolding body Let_def
      by (intro exI[of _ True]) simp
  qed
qed

lemma tx_loop:
  assumes "filling cap st cur" "(if cur = [] then ok else ready) (tl_dev st)" "avail (hw_pool t (tl_hw st)) = ps"
    and "distinct ps" "\<forall>p\<in>set ps. sendable (tl_hw st) p" "hw_mtu_size (tl_hw st) \<le> cap" "hw_mtu_size (tl_hw st) < 2048"
    and "hw_mtu_size (tl_hw st) \<le> lim" "cur = [] \<or> 16 + length (concat cur) \<le> lim"
  shows "\<exists>sent hw' w' fs. loop (Suc (length ps)) (tx_body os dev t) st = Some (Some (sent, hw', w')) \<and>
     ok w' \<and> wire w' = wire (tl_dev st) @ fs \<and>
     list_all2 frame_of (pack (hw_mtu_size (tl_hw st)) cur (map (dg_of (tl_hw st)) ps)) fs \<and>
     avail (hw_pool t hw') = [] \<and> hw_tx_send hw' = mark_sent (tl_hw st) ps \<and>
     (\<forall>q. pe_owner (hw_entries hw' q) = pe_owner (hw_entries (tl_hw st) q))"
  using assms
proof (induction ps arbitrary: st cur)
  case Nil
  from tx_last_round[OF Nil(1,2,3,9), of os] show ?case by (auto simp: mark_sent_def)
next
  case (Cons p ps)
  let ?hw = "tl_hw st"
  define fl where "fl = (cur \<noteq> [] \<and> 16 + length (concat cur) + length (dg_of ?hw p) > hw_mtu_size ?hw)"
  have p: "sendable ?hw p" using Cons.prems(5) by simp
  from tx_round[OF Cons.prems(1,2,3) p Cons.prems(6,7,9), of os, folded fl_def]
  obtain st' fs where st': "tx_body os dev t st = Inl st'"
      "filling cap st' (if fl then [dg_of ?hw p] else cur @ [dg_of ?hw p])" "ready (tl_dev st')"
      "wire (tl_dev st') = wire (tl_dev st) @ fs" "list_all2 frame_of (if fl then [cur] else []) fs"
      "avail (hw_pool t (tl_hw st')) = ps" "kept p ?hw (tl_hw st')"
      "hw_tx_send (tl_hw st') = (hw_tx_send ?hw)(dg_idx (dg_of ?hw p) 0 := Some p)"
    by blast
  have same: "dg_of (tl_hw st') q = dg_of ?hw q" "sendable (tl_hw st') q = sendable ?hw q"
    if "q \<in> set ps" for q
    using st'(7) Cons.prems(4) that by (auto simp: kept_def dg_of_def sendable_def)
  have dgs: "map (dg_of (tl_hw st')) ps = map (dg_of ?hw) ps" using same by simp
  have mtu: "hw_mtu_size (tl_hw st') = hw_mtu_size ?hw" using st'(7) by (simp add: kept_def)
  have prem: "\<forall>q\<in>set ps. sendable (tl_hw st') q" "distinct ps" "hw_mtu_size (tl_hw st') \<le> cap"
      "hw_mtu_size (tl_hw st') < 2048" "hw_mtu_size (tl_hw st') \<le> lim"
    using Cons.prems(4,5,6,7,8) same mtu by auto
  have "16 + length (concat (if fl then [dg_of ?hw p] else cur @ [dg_of ?hw p])) \<le> hw_mtu_size ?hw"
    using dg_of_props(3)[OF p] by (auto simp: fl_def)
  then have lim': "(if fl then [dg_of ?hw p] else cur @ [dg_of ?hw p]) = [] \<or>
      16 + length (concat (if fl then [dg_of ?hw p] else cur @ [dg_of ?hw p])) \<le> lim"
    using Cons.prems(8) by linarith
  have "(if (if fl then [dg_of ?hw p] else cur @ [dg_of ?hw p]) = [] then ok else ready) (tl_dev st')"
    using st'(3) by simp
  from Cons.IH[OF st'(2) this st'(6) prem(2,1,3,4,5) lim']
  obtain sent hw' w' fs' where IH:
      "loop (Suc (length ps)) (tx_body os dev t) st' = Some (Some (sent, hw', w'))" "ok w'"
      "wire w' = wire (tl_dev st') @ fs'"
      "list_all2 frame_of (pack (hw_mtu_size ?hw) (if fl then [dg_of ?hw p] else cur @ [dg_of ?hw p])
         (map (dg_of ?hw) ps)) fs'"
      "avail (hw_pool t hw') = []" "hw_tx_send hw' = mark_sent (tl_hw st') ps"
      "\<forall>q. pe_owner (hw_entries hw' q) = pe_owner (hw_entries (tl_hw st') q)"
    unfolding mtu dgs by blast
  have "mark_sent (tl_hw st') ps = mark_sent ?hw (p # ps)"
    unfolding mark_sent_def st'(8) using same by (auto intro!: fold_cong)
  moreover have "list_all2 frame_of (pack (hw_mtu_size ?hw) cur (map (dg_of ?hw) (p # ps))) (fs @ fs')"
    using st'(5) IH(4) unfolding fl_def
    by (auto split: if_splits simp: list_all2_Cons1)
  ultimately show ?case
    using IH st'(1,4,7) by (intro exI[of _ sent] exI[of _ hw'] exI[of _ w'] exI[of _ "fs @ fs'"])
      (simp add: kept_def)
qed

lemma tx_pool_frames:
  assumes "ok w" "distinct (avail (hw_pool t hw))" "\<forall>p\<in>set (avail (hw_pool t hw)). sendable hw p"
    and "hw_mtu_size hw \<le> cap" "hw_mtu_size hw < 2048" "hw_mtu_size hw \<le> lim"
  shows "\<exists>sent hw' w' fs. hw_tx_pool os dev t (hw, w) = Some (sent, hw', w') \<and>
     ok w' \<and> wire w' = wire w @ fs \<and>
     list_all2 frame_of (pack (hw_mtu_size hw) [] (map (dg_of hw) (avail (hw_pool t hw)))) fs \<and>
     avail (hw_pool t hw') = [] \<and> hw_tx_send hw' = mark_sent hw (avail (hw_pool t hw)) \<and>
     (\<forall>q. pe_owner (hw_entries hw' q) = pe_owner (hw_entries hw q))"
  using tx_loop[of "\<lparr>tl_hw = hw, tl_dev = w, tl_pframe = None, tl_pdg = 0, tl_pdg_prev = None, tl_sent = False\<rparr>"
      "[]" t "avail (hw_pool t hw)" os] assms
  by (auto simp: hw_tx_pool_def filling_def)

end

section \<open>The frames of a queue\<close>

lemma length_concat_ge: "\<forall>c\<in>set cs. c \<noteq> [] \<Longrightarrow> length cs \<le> length (concat cs)"
  by (induction cs) (auto simp: Suc_le_eq length_greater_0_conv[symmetric] simp del: length_greater_0_conv)

lemma pool_frames_fit:
  assumes snd: "\<forall>p\<in>set ps. sendable hw p" and fs: "list_all2 frame_of (pack (hw_mtu_size hw) [] (map (dg_of hw) ps)) fs"
  shows "\<forall>c\<in>set (pack (hw_mtu_size hw) [] (map (dg_of hw) ps)). c \<noteq> []" "\<forall>f\<in>set fs. length f \<le> hw_mtu_size hw"
proof -
  have fit: "\<forall>c\<in>set (pack (hw_mtu_size hw) [] (map (dg_of hw) ps)). c \<noteq> [] \<and> 16 + length (concat c) \<le> hw_mtu_size hw"
  proof (cases ps)
    case (Cons p qs)
    then have "16 + length (concat ([] :: bytes list)) \<le> hw_mtu_size hw" using snd by (simp add: sendable_def)
    moreover have "\<forall>d\<in>set (map (dg_of hw) ps). 16 + length d \<le> hw_mtu_size hw" using dg_of_props(3) snd by auto
    ultimately show ?thesis using pack_fits by blast
  qed simp
  then show "\<forall>c\<in>set (pack (hw_mtu_size hw) [] (map (dg_of hw) ps)). c \<noteq> []" by blast
  show "\<forall>f\<in>set fs. length f \<le> hw_mtu_size hw"
  proof
    fix f assume "f \<in> set fs"
    then obtain c where "c \<in> set (pack (hw_mtu_size hw) [] (map (dg_of hw) ps))" "frame_of c f"
      using list_all2_set2[OF fs] by blast
    with fit show "length f \<le> hw_mtu_size hw" by (auto simp: frame_of_def length_chain)
  qed
qed

section \<open>The raw-socket device keeps the promise\<close>

definition EC_ETH_FRAME_LEN :: nat where [simp]: "EC_ETH_FRAME_LEN = 0x1518"

lemma fr_set_type_simps [simp]:
  "length (fr_set_type k b) = length b" "fr_ethertype (fr_set_type k b) = fr_ethertype b"
  by (simp_all add: fr_set_type_def fr_ethertype_def slice_def take_update_cancel drop_update_swap)

lemma sock_raw_get_tx_buffer:
  assumes "length (sr_send_frame w) = EC_ETH_FRAME_LEN"
  shows "\<exists>buf w'. hw_device_sock_raw_get_tx_buffer w = (EC_OK, buf, w') \<and>
     length (sr_send_frame w') = EC_ETH_FRAME_LEN \<and> sr_wire w' = sr_wire w \<and>
     length buf = EC_ETH_FRAME_LEN \<and> ec_frame_length buf = 16 \<and> fr_ethertype buf = ETH_P_ECAT"
proof -
  have "length ETH_P_ECAT = 2" by (simp add: ETH_P_ECAT_def)
  then show ?thesis
    using assms
    by (simp add: hw_device_sock_raw_get_tx_buffer_def Let_def buf_simps fr_ethertype_def[of "put_at _ _ _"])
qed

interpretation raw: tx_device "sock_raw_device ksend" "\<lambda>w. length (sr_send_frame w) = EC_ETH_FRAME_LEN"
    "\<lambda>w. length (sr_send_frame w) = EC_ETH_FRAME_LEN" sr_wire EC_ETH_FRAME_LEN EC_ETH_FRAME_LEN for ksend
  by unfold_locales
     (use sock_raw_get_tx_buffer in
       \<open>auto simp: sock_raw_device_def hw_device_sock_raw_send_def Let_def\<close>)

text \<open>
  C2: \<^verbatim>\<open>hw_tx_pool\<close> on the raw-socket device sends exactly the greedy packing of the queued
  datagrams: nothing is lost, reordered or sent twice, every frame has the EtherCAT type, its own
  length in the header and at most the MTU, every datagram but the last of a frame says that
  another follows; the queue is empty afterwards and every entry is marked as sent under its
  index.
\<close>

theorem hw_tx_pool_sends_packing:
  assumes "length (sr_send_frame w) = EC_ETH_FRAME_LEN"
    and "distinct (avail (hw_pool t hw))" "\<forall>p\<in>set (avail (hw_pool t hw)). sendable hw p"
    and "hw_mtu_size hw < 2048"
  shows "\<exists>sent hw' w' fs. hw_tx_pool os (sock_raw_device ksend) t (hw, w) = Some (sent, hw', w') \<and>
     sr_wire w' = sr_wire w @ fs \<and>
     list_all2 frame_of (pack (hw_mtu_size hw) [] (map (dg_of hw) (avail (hw_pool t hw)))) fs \<and>
     (\<forall>f\<in>set fs. length f \<le> hw_mtu_size hw) \<and>
     avail (hw_pool t hw') = [] \<and> hw_tx_send hw' = mark_sent hw (avail (hw_pool t hw))"
proof -
  let ?ds = "map (dg_of hw) (avail (hw_pool t hw))"
  obtain sent hw' w' fs where r: "hw_tx_pool os (sock_raw_device ksend) t (hw, w) = Some (sent, hw', w')"
      "sr_wire w' = sr_wire w @ fs" "list_all2 frame_of (pack (hw_mtu_size hw) [] ?ds) fs"
      "avail (hw_pool t hw') = []" "hw_tx_send hw' = mark_sent hw (avail (hw_pool t hw))"
    using raw.tx_pool_frames[OF assms(1-3) _ assms(4), of os ksend] assms(4) by auto
  have "\<forall>f\<in>set fs. length f \<le> hw_mtu_size hw" by (rule pool_frames_fit(2)[OF assms(3) r(3)])
  with r show ?thesis by blast
qed

text \<open>Two queued datagrams without payload, with the indices 3 and 4.\<close>

definition two_queued :: "unit hw_common" where
  "two_queued =
     \<lparr>hw_mtu_size = 1500, hw_tx_high = \<lparr>avail = [0, 1], avail_cnt = 2\<rparr>, hw_tx_low = \<lparr>avail = [], avail_cnt = 0\<rparr>,
      hw_tx_send = (\<lambda>_. None), hw_frame_idx = 0, hw_lost_datagrams = 0,
      hw_entries = (\<lambda>p. \<lparr>pe_user_cb = Some (), pe_user_arg = 0, pe_p_idx = 0, pe_send_idx = 0,
         pe_data = [7, of_nat p + 3] @ replicate 1598 0\<rparr>)\<rparr>"

definition idle_socket :: sock_raw where
  "idle_socket = \<lparr>sr_send_frame = replicate EC_ETH_FRAME_LEN 0, sr_wire = []\<rparr>"

lemma two_queued_props:
  "avail (hw_pool POOL_HIGH two_queued) = [0, 1]" "sendable two_queued p" "hw_mtu_size two_queued = 1500"
  "pe_user_cb (hw_entries two_queued p) = Some ()" "dg_idx (dg_of two_queued p) 0 = of_nat p + 3"
  by (simp_all add: two_queued_def hw_pool_def sendable_def dg_of_def ec_datagram_length_def dg_len_def
        dg_idx_def nth_append)

lemma idle_socket_props: "length (sr_send_frame idle_socket) = EC_ETH_FRAME_LEN" "sr_wire idle_socket = []"
  by (simp_all add: idle_socket_def)

theorem hw_tx_pool_sends_packing_witness:
  "\<exists>sent hw' w'. hw_tx_pool posix_osal (sock_raw_device (int \<circ> length)) POOL_HIGH (two_queued, idle_socket)
       = Some (sent, hw', w') \<and>
     list_all2 frame_of (pack 1500 [] (map (dg_of two_queued) [0, 1])) (sr_wire w') \<and>
     avail (hw_pool POOL_HIGH hw') = []"
  using hw_tx_pool_sends_packing[OF idle_socket_props(1), of POOL_HIGH two_queued posix_osal "int \<circ> length"]
  by (auto simp: two_queued_props idle_socket_props)

section \<open>Receiving what was sent\<close>

text \<open>Behind the frame, the receive buffer may hold the rest of an earlier one.\<close>

fun rx_spec ::
  "('c \<Rightarrow> nat \<Rightarrow> bytes \<Rightarrow> 'c hw_common \<times> 'w \<Rightarrow> 'c hw_common \<times> 'w) \<Rightarrow> bytes \<Rightarrow> bytes list \<Rightarrow>
   bool \<times> 'c hw_common \<times> 'w \<Rightarrow> bool \<times> 'c hw_common \<times> 'w" where
  "rx_spec cb rest [] st = st"
| "rx_spec cb rest (m # ms) st = rx_spec cb rest ms (rx_deliver cb (m @ concat ms @ rest) st)"

definition links :: "bytes list \<Rightarrow> bytes list" where
  "links ds = map (dg_set_next True 0) (butlast ds) @ [dg_set_next False 0 (last ds)]"

lemma chain_links: "chain ds = concat (links ds)"
  by (simp add: chain_def links_def)

lemma rx_loop:
  assumes "length pre = d" "\<forall>m\<in>set ms. wf_dg m"
    and "ec_frame_length (pre @ concat ms @ rest) = d + length (concat ms)" "length ms < n"
  shows "loop n (rx_body cb (pre @ concat ms @ rest)) (d, st) = Some (Some (rx_spec cb rest ms st))"
  using assms
proof (induction ms arbitrary: n pre d st)
  case Nil
  then show ?case by (cases n) (auto simp: rx_body_def ec_frame_end_def)
next
  case (Cons m ms)
  then obtain k where n: "n = Suc k" "length ms < k" by (cases n) auto
  have m: "12 \<le> length m" "ec_datagram_length m 0 = length m" using Cons.prems(2) by (auto simp: wf_dg_def)
  have "ec_datagram_next (pre @ concat (m # ms) @ rest) d = d + length m"
    using ec_datagram_length_append[of pre d m "concat ms @ rest"] Cons.prems(1) m
    by (simp add: ec_datagram_next_def)
  then have "rx_body cb (pre @ concat (m # ms) @ rest) (d, st) = Inl (d + length m, rx_deliver cb (m @ concat ms @ rest) st)"
    using Cons.prems(1,3) m by (auto simp: rx_body_def ec_frame_end_def)
  moreover have "loop k (rx_body cb ((pre @ m) @ concat ms @ rest)) (d + length m, rx_deliver cb (m @ concat ms @ rest) st)
      = Some (Some (rx_spec cb rest ms (rx_deliver cb (m @ concat ms @ rest) st)))"
    using Cons.prems n by (intro Cons.IH) auto
  ultimately show ?case by (simp add: n)
qed

lemma wf_dg_set_next: "wf_dg d \<Longrightarrow> wf_dg (dg_set_next b 0 d)"
  by (simp add: wf_dg_def buf_simps)

lemma rx_frame:
  assumes "frame_of c f" "c \<noteq> []" "\<forall>d\<in>set c. wf_dg d"
  shows "hw_process_rx_frame cb (f @ rest) s = Some (rx_spec cb rest (links c) (False, s))"
proof -
  obtain hdr where h: "f = hdr @ concat (links c)" "length hdr = 16" "fr_ethertype hdr = ETH_P_ECAT"
      "ec_frame_length hdr = length f"
    using assms(1) by (auto simp: frame_of_def chain_links)
  have wf: "\<forall>m\<in>set (links c). wf_dg m"
    using assms(2,3) by (auto simp: links_def wf_dg_set_next dest: in_set_butlastD)
  have "length ms \<le> length (concat ms)" if "\<forall>m\<in>set ms. wf_dg m" for ms
    using that by (induction ms) (auto simp: wf_dg_def)
  then have "length (links c) < Suc (length (f @ rest))" using wf h(1) by force
  then have "loop (Suc (length (f @ rest))) (rx_body cb (f @ rest)) (16, False, s) = Some (Some (rx_spec cb rest (links c) (False, s)))"
    using rx_loop[of hdr 16 "links c" rest "Suc (length (f @ rest))" cb "(False, s)"] h wf
    by (simp add: ec_frame_length_append)
  then show ?thesis
    using h by (simp add: hw_process_rx_frame_def ec_datagram_first_def fr_ethertype_append)
qed

text \<open>
  Callbacks that only write down which entry got which datagram (its \<open>next\<close> flag cleared), and
  the reception of a sequence of frames.
\<close>

definition rx_log ::
  "'c \<Rightarrow> nat \<Rightarrow> bytes \<Rightarrow> 'c hw_common \<times> (nat \<times> bytes) list \<Rightarrow> 'c hw_common \<times> (nat \<times> bytes) list" where
  "rx_log c p dgs = (\<lambda>(hw, l).
     (hw, l @ [(p, dg_set_next False 0 (take (ec_datagram_length dgs 0) dgs))]))"

fun rx_frames ::
  "('c \<Rightarrow> nat \<Rightarrow> bytes \<Rightarrow> 'c hw_common \<times> 'w \<Rightarrow> 'c hw_common \<times> 'w) \<Rightarrow> bytes list \<Rightarrow>
   'c hw_common \<times> 'w \<Rightarrow> ('c hw_common \<times> 'w) option" where
  "rx_frames cb [] s = Some s"
| "rx_frames cb (f # fs) s =
     (case hw_process_rx_frame cb f s of None \<Rightarrow> None | Some (_, s') \<Rightarrow> rx_frames cb fs s')"

definition marked :: "'c hw_common \<Rightarrow> (u8 \<Rightarrow> nat) \<Rightarrow> bytes list \<Rightarrow> bool" where
  "marked hw own ms \<longleftrightarrow> (\<forall>m\<in>set ms. hw_tx_send hw (dg_idx m 0) = Some (own (dg_idx m 0)) \<and>
     pe_user_cb (hw_entries hw (own (dg_idx m 0))) \<noteq> None)"

lemma rx_spec_log:
  assumes "\<forall>m\<in>set ms. wf_dg m" "marked hw own ms" "distinct (map (\<lambda>m. dg_idx m 0) ms)"
  shows "\<exists>hw'. rx_spec rx_log rest ms (b, hw, l)
       = (b \<or> ms \<noteq> [], hw', l @ map (\<lambda>m. (own (dg_idx m 0), dg_set_next False 0 m)) ms) \<and>
     hw_entries hw' = hw_entries hw \<and>
     (\<forall>i. i \<notin> set (map (\<lambda>m. dg_idx m 0) ms) \<longrightarrow> hw_tx_send hw' i = hw_tx_send hw i)"
  using assms
proof (induction ms arbitrary: b hw l)
  case Nil
  then show ?case by simp
next
  case (Cons m ms)
  let ?i = "dg_idx m 0"
  let ?hw = "hw\<lparr>hw_tx_send := (hw_tx_send hw)(?i := None)\<rparr>"
  have m: "12 \<le> length m" "ec_datagram_length m 0 = length m" using Cons.prems(1) by (auto simp: wf_dg_def)
  have "ec_datagram_length (m @ concat ms @ rest) 0 = length m"
    using ec_datagram_length_append[of "[]" 0 m "concat ms @ rest"] m by simp
  moreover have "dg_idx (m @ concat ms @ rest) 0 = ?i" using m by (simp add: dg_idx_def nth_append)
  ultimately have step: "rx_deliver rx_log (m @ concat ms @ rest) (b, hw, l)
      = (True, ?hw, l @ [(own ?i, dg_set_next False 0 m)])"
    using Cons.prems(2) by (auto simp: rx_deliver_def rx_log_def marked_def Let_def)
  have "marked ?hw own ms" using Cons.prems(2,3) by (auto simp: marked_def image_iff)
  from Cons.IH[OF _ this, of True "l @ [(own ?i, dg_set_next False 0 m)]"] Cons.prems(1,3)
  show ?case unfolding rx_spec.simps step by auto
qed

lemma dg_idx_set_next [simp]: "dg_idx (dg_set_next b 0 d) 0 = dg_idx d 0"
  by (simp add: dg_idx_def buf_simps)

lemma map_links:
  assumes "c \<noteq> []" "\<And>b d. f (dg_set_next b 0 d) = f d"
  shows "map f (links c) = map f c"
proof -
  have "map f (links c) = map f (butlast c @ [last c])" using assms(2) by (simp add: links_def)
  then show ?thesis using assms(1) by simp
qed

text \<open>A frame whose datagrams are all marked is processed, and the marks of other frames stay.\<close>

lemma rx_frame_log:
  assumes f: "frame_of c f" "c \<noteq> []" "\<forall>d\<in>set c. wf_dg d"
    and own: "marked hw own (c @ ms)" "distinct (map (\<lambda>m. dg_idx m 0) (c @ ms))"
  shows "\<exists>hw'. hw_process_rx_frame rx_log (f @ rest) (hw, l)
       = Some (True, hw', l @ map (\<lambda>m. (own (dg_idx m 0), dg_set_next False 0 m)) c) \<and> marked hw' own ms"
proof -
  have wf: "\<forall>m\<in>set (links c). wf_dg m"
    using f by (auto simp: links_def wf_dg_set_next dest: in_set_butlastD)
  have idxs: "map (\<lambda>m. dg_idx m 0) (links c) = map (\<lambda>m. dg_idx m 0) c"
    by (rule map_links[OF f(2)]) simp
  have "marked hw own (links c) \<longleftrightarrow> marked hw own c"
    using f(2) arg_cong[OF idxs, of set] unfolding marked_def by (auto simp: image_iff set_eq_iff) metis+
  then have "marked hw own (links c)" using own(1) by (auto simp: marked_def)
  moreover have "distinct (map (\<lambda>m. dg_idx m 0) (links c))" unfolding idxs using own(2) by simp
  ultimately obtain hw' where r: "rx_spec rx_log rest (links c) (False, hw, l)
      = (links c \<noteq> [], hw', l @ map (\<lambda>m. (own (dg_idx m 0), dg_set_next False 0 m)) (links c))"
      "hw_entries hw' = hw_entries hw"
      "\<forall>i. i \<notin> set (map (\<lambda>m. dg_idx m 0) c) \<longrightarrow> hw_tx_send hw' i = hw_tx_send hw i"
    using rx_spec_log[OF wf, of hw own rest False l] unfolding idxs by auto
  have "map (\<lambda>m. (own (dg_idx m 0), dg_set_next False 0 m)) (links c)
      = map (\<lambda>m. (own (dg_idx m 0), dg_set_next False 0 m)) c"
    by (rule map_links[OF f(2)]) simp
  moreover have "links c \<noteq> []" by (simp add: links_def)
  moreover have "marked hw' own ms"
    unfolding marked_def
  proof
    fix m assume m: "m \<in> set ms"
    then have "dg_idx m 0 \<notin> set (map (\<lambda>m. dg_idx m 0) c)" using own(2) by auto
    with r(3) have "hw_tx_send hw' (dg_idx m 0) = hw_tx_send hw (dg_idx m 0)" by blast
    with m own(1) r(2) show "hw_tx_send hw' (dg_idx m 0) = Some (own (dg_idx m 0)) \<and>
        pe_user_cb (hw_entries hw' (own (dg_idx m 0))) \<noteq> None"
      by (auto simp: marked_def)
  qed
  ultimately show ?thesis using rx_frame[OF f, of rx_log rest "(hw, l)"] r(1) by simp
qed

lemma rx_frames_log:
  assumes "list_all2 frame_of cs fs" "\<forall>c\<in>set cs. c \<noteq> []" "\<forall>d\<in>set (concat cs). wf_dg d"
    and "marked hw own (concat cs)" "distinct (map (\<lambda>m. dg_idx m 0) (concat cs))"
  shows "\<exists>hw'. rx_frames rx_log fs (hw, l)
       = Some (hw', l @ map (\<lambda>m. (own (dg_idx m 0), dg_set_next False 0 m)) (concat cs))"
  using assms
proof (induction arbitrary: hw l rule: list_all2_induct)
  case Nil
  then show ?case by simp
next
  case (Cons c cs f fs)
  obtain hw' where hw': "hw_process_rx_frame rx_log (f @ []) (hw, l)
       = Some (True, hw', l @ map (\<lambda>m. (own (dg_idx m 0), dg_set_next False 0 m)) c)" "marked hw' own (concat cs)"
    using rx_frame_log[OF Cons.hyps(1), of hw own "concat cs" "[]" l] Cons.prems by auto
  from Cons.IH[OF _ _ hw'(2), of "l @ map (\<lambda>m. (own (dg_idx m 0), dg_set_next False 0 m)) c"] Cons.prems hw'(1)
  show ?case by auto
qed

lemma fold_upd_other:
  "i \<notin> g ` set ps \<Longrightarrow> fold (\<lambda>p m. m(g p := Some p)) ps m i = m i"
  by (induction ps arbitrary: m) auto

lemma fold_upd_distinct:
  "distinct (map g ps) \<Longrightarrow> p \<in> set ps \<Longrightarrow> fold (\<lambda>p m. m(g p := Some p)) ps m (g p) = Some p"
  by (induction ps arbitrary: m) (auto simp: fold_upd_other)

lemma own_index:
  assumes "distinct (map g ps)"
  shows "\<exists>own. \<forall>p\<in>set ps. own (g p) = p"
  using assms by (intro exI[of _ "the_inv_into (set ps) g"]) (auto simp: distinct_map the_inv_into_f_f)

text \<open>
  C1: when the frames that \<^verbatim>\<open>hw_tx_pool\<close> sent come back, \<^verbatim>\<open>hw_process_rx_frame\<close> calls
  the callback of every entry that was queued, exactly once and in the order of the queue, with
  the datagram of that entry.
\<close>

theorem hw_tx_rx_roundtrip:
  assumes "length (sr_send_frame w) = EC_ETH_FRAME_LEN"
    and "\<forall>p\<in>set (avail (hw_pool t hw)). sendable hw p \<and> pe_user_cb (hw_entries hw p) \<noteq> None"
    and "distinct (map (\<lambda>p. dg_idx (dg_of hw p) 0) (avail (hw_pool t hw)))"
    and "hw_mtu_size hw < 2048"
  shows "\<exists>sent hw1 w' fs hw2. hw_tx_pool os (sock_raw_device ksend) t (hw, w) = Some (sent, hw1, w') \<and>
     sr_wire w' = sr_wire w @ fs \<and>
     rx_frames rx_log fs (hw1, [])
       = Some (hw2, map (\<lambda>p. (p, dg_set_next False 0 (dg_of hw p))) (avail (hw_pool t hw)))"
proof -
  let ?ps = "avail (hw_pool t hw)" and ?g = "\<lambda>p. dg_idx (dg_of hw p) 0"
  let ?cs = "pack (hw_mtu_size hw) [] (map (dg_of hw) ?ps)"
  have dps: "distinct ?ps" using assms(3) by (simp add: distinct_map)
  obtain sent hw1 w' fs where r: "hw_tx_pool os (sock_raw_device ksend) t (hw, w) = Some (sent, hw1, w')"
      "sr_wire w' = sr_wire w @ fs" "list_all2 frame_of ?cs fs" "hw_tx_send hw1 = mark_sent hw ?ps"
      "\<forall>q. pe_owner (hw_entries hw1 q) = pe_owner (hw_entries hw q)"
    using raw.tx_pool_frames[OF assms(1) dps _ _ assms(4), of os ksend] assms(2,4) by auto
  obtain own where own: "\<And>p. p \<in> set ?ps \<Longrightarrow> own (?g p) = p" using own_index[OF assms(3)] by blast
  have cc: "concat ?cs = map (dg_of hw) ?ps" by (simp add: concat_pack)
  have "\<forall>p\<in>set ?ps. sendable hw p" using assms(2) by blast
  note fit = pool_frames_fit(1)[OF this r(3)]
  have mk: "marked hw1 own (concat ?cs)"
    using fold_upd_distinct[OF assms(3)] own assms(2) r(4,5)
    by (auto simp: marked_def cc mark_sent_def pe_owner_def)
  have "\<forall>d\<in>set (concat ?cs). wf_dg d" unfolding cc using dg_of_props(4) assms(2) by auto
  moreover have "distinct (map (\<lambda>m. dg_idx m 0) (concat ?cs))" unfolding cc using assms(3) by (simp add: comp_def)
  ultimately obtain hw2 where "rx_frames rx_log fs (hw1, [])
       = Some (hw2, [] @ map (\<lambda>m. (own (dg_idx m 0), dg_set_next False 0 m)) (concat ?cs))"
    using rx_frames_log[OF r(3) fit _ mk, of "[]"] by blast
  moreover have "map (\<lambda>m. (own (dg_idx m 0), dg_set_next False 0 m)) (concat ?cs)
      = map (\<lambda>p. (p, dg_set_next False 0 (dg_of hw p))) ?ps"
    unfolding cc using own by simp
  ultimately show ?thesis using r by auto
qed

theorem hw_tx_rx_roundtrip_witness:
  "\<exists>sent hw1 w' hw2. hw_tx_pool posix_osal (sock_raw_device (int \<circ> length)) POOL_HIGH (two_queued, idle_socket)
       = Some (sent, hw1, w') \<and>
     rx_frames rx_log (sr_wire w') (hw1, [])
       = Some (hw2, map (\<lambda>p. (p, dg_set_next False 0 (dg_of two_queued p))) [0, 1])"
  using hw_tx_rx_roundtrip[OF idle_socket_props(1), of POOL_HIGH two_queued posix_osal "int \<circ> length"]
  by (auto simp: two_queued_props idle_socket_props)

section \<open>No send buffer\<close>

text \<open>
  when the device has no frame buffer, the entry that was taken out of the queue is lost: it
  is neither queued any more nor marked as sent, so nobody will ever call its callback.
\<close>

theorem hw_tx_pool_drops_entry:
  assumes "avail (hw_pool t hw) = p # ps" "dev_get_tx_buffer dev w = (ret, buf, w')" "ret \<noteq> EC_OK"
  shows "\<exists>hw'. hw_tx_pool os dev t (hw, w) = Some (False, hw', w') \<and>
     avail (hw_pool t hw') = ps \<and> hw_tx_send hw' = hw_tx_send hw"
  using assms by (simp add: hw_tx_pool_def tx_body_def tx_flush_def Let_def)

theorem hw_tx_pool_drops_entry_witness:
  "\<exists>hw'. hw_tx_pool posix_osal
       \<lparr>dev_get_tx_buffer = (\<lambda>w. (EC_ERROR_UNAVAILABLE, [], w)), dev_send = (\<lambda>_ _ w. (EC_OK, w)),
        dev_send_finished = id, dev_close = None\<rparr> POOL_HIGH (two_queued, ()) = Some (False, hw', ()) \<and>
     avail (hw_pool POOL_HIGH hw') = [1] \<and> hw_tx_send hw' = hw_tx_send two_queued"
  by (rule hw_tx_pool_drops_entry[where ret = EC_ERROR_UNAVAILABLE and p = 0 and buf = "[]"])
     (simp_all add: two_queued_props)

end
