(* ===== verification/Transceive.thy ===== *)
theory Transceive
  imports Hw_Frames Bus
begin

text \<open>
  The register transactions of \<^verbatim>\<open>src/ec.c\<close>: \<^verbatim>\<open>ec_transceive\<close> queues one datagram and
  waits for its reply, \<^verbatim>\<open>ec_transmit_no_reply\<close> only queues it. What happens between the two
  ends of the wait is done by other threads (the receiving thread, the cyclic task): it is the
  parameter \<open>others\<close>, and whether the 50 ms timer has expired is \<open>expired\<close>.
\<close>

section \<open>State\<close>

datatype ec_cb =
  CB_BLOCK | CB_NO_REPLY | CB_PD_GROUP | CB_PD_GROUP_LWR | CB_LRD_MBX_STATE | CB_DC | CB_BRD_EC_STATE | CB_ANON

record 'w xcv_state =
  x_idx_q :: idx_queue
  x_pool :: "nat pool"
  x_hw :: "ec_cb hw_common"
  x_dev :: 'w
  x_master_state :: u16

record 'w xcv_env =
  others :: "'w xcv_state \<Rightarrow> 'w xcv_state"
  expired :: "'w xcv_state \<Rightarrow> bool"
  stale :: "nat \<Rightarrow> nat list \<Rightarrow> nat list"

definition entry_upd :: "nat \<Rightarrow> (ec_cb pool_entry \<Rightarrow> ec_cb pool_entry) \<Rightarrow> 'w xcv_state \<Rightarrow> 'w xcv_state" where
  "entry_upd p f s =
     s\<lparr>x_hw := (x_hw s)\<lparr>hw_entries := (hw_entries (x_hw s))(p := f (hw_entries (x_hw s) p))\<rparr>\<rparr>"

definition entry_data :: "nat \<Rightarrow> 'w xcv_state \<Rightarrow> bytes" where
  "entry_data p s = pe_data (hw_entries (x_hw s) p)"

section \<open>Callbacks\<close>

definition cb_block :: "osal \<Rightarrow> nat \<Rightarrow> bytes \<Rightarrow> 'w xcv_state \<Rightarrow> 'w xcv_state" where
  "cb_block os p dgs s =
     (let size = min (ec_datagram_length dgs 0) LEC_MAX_POOL_DATA_SIZE;
          s = entry_upd p (\<lambda>pe. pe\<lparr>pe_data := put_at 0 (take size dgs) (pe_data pe)\<rparr>) s
      in s\<lparr>x_idx_q := idx_waiter_upd (osal_binary_semaphore_post os)
                        (pe_p_idx (hw_entries (x_hw s) p)) (x_idx_q s)\<rparr>)"

definition cb_no_reply :: "osal \<Rightarrow> nat \<Rightarrow> bytes \<Rightarrow> 'w xcv_state \<Rightarrow> 'w xcv_state" where
  "cb_no_reply os p dgs s =
     s\<lparr>x_pool := pool_put os (x_pool s) p,
       x_idx_q := ec_index_put (pe_p_idx (hw_entries (x_hw s) p)) (x_idx_q s)\<rparr>"

text \<open>The callback of the datagram that measures its own way, \<^verbatim>\<open>anon_cb\<close> of \<^verbatim>\<open>src/dc.c\<close>.\<close>

definition anon_cb :: "osal \<Rightarrow> nat \<Rightarrow> 'w xcv_state \<Rightarrow> 'w xcv_state" where
  "anon_cb os p s =
     s\<lparr>x_idx_q := idx_waiter_upd (osal_binary_semaphore_post os) (pe_p_idx (hw_entries (x_hw s) p)) (x_idx_q s)\<rparr>"

section \<open>ec\_transceive\<close>

text \<open>
  How a datagram is built in an entry: the header, \<open>n\<close> bytes and the working counter are cleared,
  the fields are set, the payload is copied; \<^term>\<open>None\<close>: it does not fit into the entry.
\<close>

definition fill_datagram ::
  "nat \<Rightarrow> u8 \<Rightarrow> u8 \<Rightarrow> u32 \<Rightarrow> nat \<Rightarrow> bytes \<Rightarrow> bytes \<Rightarrow> bytes option" where
  "fill_datagram n cmd idx adr len payload buf =
     (if ec_datagram_hdr_length + n + 2 \<le> length buf \<and> ec_datagram_hdr_length + length payload \<le> length buf
      then (let b = put_at 0 (replicate (ec_datagram_hdr_length + n + 2) 0) buf;
                b = b[0 := cmd, 1 := idx];
                b = put_at 2 (le32 adr) b;
                b = dg_set_len len 0 b
            in Some (put_at ec_datagram_hdr_length payload b))
      else None)"

definition build_datagram ::
  "u8 \<Rightarrow> u8 \<Rightarrow> u32 \<Rightarrow> bytes \<Rightarrow> bytes \<Rightarrow> bytes option" where
  "build_datagram cmd idx adr data buf = fill_datagram (length data) cmd idx adr (length data) data buf"

text \<open>
  The second half of a round: the wait for the reply and its evaluation. The result is the
  return value, whether the 50 ms timer has expired, the caller's buffer and working counter.
\<close>

definition xcv_wait ::
  "osal \<Rightarrow> 'w xcv_env \<Rightarrow> nat \<Rightarrow> nat \<Rightarrow> bytes \<Rightarrow> 'w xcv_state \<Rightarrow>
   int \<times> bool \<times> bytes \<times> u16 \<times> 'w xcv_state" where
  "xcv_wait os env p_entry p_idx data s =
     (let s = others env s;
          (local_ret, b) = osal_binary_semaphore_timedwait os 2000000
                             (ie_waiter (iq_entries (x_idx_q s) ! p_idx));
          s = s\<lparr>x_idx_q := idx_waiter_upd (\<lambda>_. b) p_idx (x_idx_q s)\<rparr>
      in if local_ret \<noteq> OSAL_OK
         then (let s = s\<lparr>x_hw := (x_hw s)\<lparr>hw_tx_low :=
                           pool_remove (stale env) (hw_tx_low (x_hw s)) p_entry\<rparr>\<rparr>
               in (EC_ERROR_TIMEOUT, expired env s, data, 0, s))
         else (let d = entry_data p_entry s;
                   wkc = ec_datagram_wkc d 0;
                   data = (if wkc \<noteq> 0
                           then put_at 0 (slice (ec_datagram_payload d 0) (length data) d) data
                           else data)
               in (EC_OK, False, data, wkc, s)))"

text \<open>
  A round of the sending loop. In the cyclic states SAFEOP and OP the cyclic task sends the
  queue, otherwise the caller does. The loop goes on while the timer runs and \<open>ret\<close> is
  \<^verbatim>\<open>EC_OK\<close>, after a reply it is left with \<^verbatim>\<open>break\<close>.
\<close>

definition xcv_round ::
  "osal \<Rightarrow> 'w hw_device \<Rightarrow> 'w xcv_env \<Rightarrow> nat \<Rightarrow> nat \<Rightarrow> bytes \<times> u16 \<times> 'w xcv_state \<Rightarrow>
   (bytes \<times> u16 \<times> 'w xcv_state) + (int \<times> bool \<times> bytes \<times> u16 \<times> 'w xcv_state) option" where
  "xcv_round os dev env p_entry p_idx = (\<lambda>(data, wkc, s).
     (let s = s\<lparr>x_hw := hw_enqueue os (x_idx_q s) p_entry POOL_LOW (x_hw s)\<rparr>;
          sent = (if x_master_state s \<noteq> EC_STATE_SAFEOP \<and> x_master_state s \<noteq> EC_STATE_OP
                  then (case hw_tx_low_pool os dev (x_hw s, x_dev s) of
                          None \<Rightarrow> None
                        | Some (r, hw, w) \<Rightarrow>
                            Some (s\<lparr>x_hw := hw, x_dev := (if r then dev_send_finished dev w else w)\<rparr>))
                  else Some s)
      in case sent of
           None \<Rightarrow> Inr None
         | Some s \<Rightarrow>
             (let (ret, ex, data, wkc, s) = xcv_wait os env p_entry p_idx data s
              in if ret \<noteq> EC_OK \<and> \<not> ex \<and> ret = EC_OK then Inl (data, wkc, s)
                 else Inr (Some (ret, ex, data, wkc, s)))))"

text \<open>The end: the mark in \<^verbatim>\<open>tx_send\<close> is removed when the timer has expired.\<close>

definition xcv_release ::
  "osal \<Rightarrow> nat \<Rightarrow> nat \<Rightarrow> int \<times> bool \<times> bytes \<times> u16 \<times> 'w xcv_state \<Rightarrow> int \<times> bytes \<times> u16 \<times> 'w xcv_state" where
  "xcv_release os p_entry p_idx = (\<lambda>(ret, ex, data, wkc, s).
     (let s = (if ex
               then s\<lparr>x_hw := (x_hw s)\<lparr>hw_tx_send :=
                      (hw_tx_send (x_hw s))(dg_idx (entry_data p_entry s) 0 := None)\<rparr>\<rparr>
               else s)
      in (ret, data, wkc, s\<lparr>x_pool := pool_put os (x_pool s) p_entry,
                           x_idx_q := ec_index_put p_idx (x_idx_q s)\<rparr>)))"

definition ec_transceive ::
  "osal \<Rightarrow> 'w hw_device \<Rightarrow> 'w xcv_env \<Rightarrow> u8 \<Rightarrow> u32 \<Rightarrow> bytes \<Rightarrow> u16 \<Rightarrow> 'w xcv_state \<Rightarrow>
   (int \<times> bytes \<times> u16 \<times> 'w xcv_state) option" where
  "ec_transceive os dev env cmd adr data wkc s =
     (case ec_index_get os (x_idx_q s) of
        (_, None, iq) \<Rightarrow> Some (EC_ERROR_OUT_OF_INDICES, data, wkc, s\<lparr>x_idx_q := iq\<rparr>)
      | (_, Some p_idx, iq) \<Rightarrow>
          (let s = s\<lparr>x_idx_q := iq\<rparr>
           in case pool_get os (x_pool s) None of
                (_, None, pl) \<Rightarrow>
                  Some (EC_ERROR_OUT_OF_DATAGRAMS, data, wkc,
                        s\<lparr>x_pool := pl, x_idx_q := ec_index_put p_idx (x_idx_q s)\<rparr>)
              | (_, Some p_entry, pl) \<Rightarrow>
                  (let s = s\<lparr>x_pool := pl\<rparr>
                   in case build_datagram cmd (ie_idx (iq_entries (x_idx_q s) ! p_idx)) adr data
                             (entry_data p_entry s) of
                        None \<Rightarrow> None
                      | Some dg \<Rightarrow>
                          (let s = entry_upd p_entry (\<lambda>pe. pe\<lparr>pe_data := dg, pe_p_idx := p_idx,
                                                             pe_user_cb := Some CB_BLOCK\<rparr>) s
                           in case loop 2 (xcv_round os dev env p_entry p_idx) (data, wkc, s) of
                                Some (Some r) \<Rightarrow> Some (xcv_release os p_entry p_idx r)
                              | _ \<Rightarrow> None))))"

section \<open>The datagram that is sent\<close>

lemma length_dg_set_len [buf_simps]: "length (dg_set_len n d buf) = length buf"
  by (simp add: dg_set_len_def)

lemma dg_set_len_nth [buf_simps]: "i \<noteq> d + 6 \<Longrightarrow> i \<noteq> d + 7 \<Longrightarrow> dg_set_len n d buf ! i = buf ! i"
  by (simp add: dg_set_len_def)

lemma fill_datagram_props:
  assumes "fill_datagram n cmd idx adr len payload buf = Some b" "len < 2048"
  shows "length b = length buf" "12 + n \<le> length buf"
    "ec_datagram_length b 0 = 12 + len" "dg_idx b 0 = idx" "dg_cmd b 0 = cmd" "dg_adr b 0 = adr"
    "slice 10 (length payload) b = payload"
proof -
  let ?b0 = "put_at 0 (replicate (12 + n) 0) buf"
  let ?b1 = "put_at 2 (le32 adr) (?b0[0 := cmd, 1 := idx])"
  let ?b2 = "dg_set_len len 0 ?b1"
  have l: "12 + n \<le> length buf" "10 + length payload \<le> length buf" and b: "b = put_at 10 payload ?b2"
    using assms(1) by (auto simp: fill_datagram_def Let_def split: if_splits)
  have l32: "length (le32 adr) = 4" by (simp add: le32_def)
  have len: "length ?b0 = length buf" "length ?b1 = length buf" "length ?b2 = length buf"
    using l l32 by (simp_all add: buf_simps)
  show "12 + n \<le> length buf" by (rule l)
  show "length b = length buf" using l len b by (simp add: buf_simps)
  have nth: "b ! i = ?b2 ! i" if "i < 10" for i
    using that l len b by (simp add: nth_put_at)
  show "ec_datagram_length b 0 = 12 + len"
  proof -
    have "dg_len b 0 = dg_len ?b2 0" by (simp add: dg_len_def nth)
    also have "\<dots> = len" using l len assms(2) by (intro dg_len_set_len) simp_all
    finally show ?thesis by (simp add: ec_datagram_length_def)
  qed
  show "dg_idx b 0 = idx" "dg_cmd b 0 = cmd"
  proof -
    have "?b1 ! i = ?b0[0 := cmd, 1 := idx] ! i" if "i < 2" for i
      using that l by (subst nth_put_at) (simp_all add: len l32)
    moreover have "buf \<noteq> []" using l by auto
    moreover from this have "?b0[0 := cmd, 1 := idx] ! 0 = cmd" "?b0[0 := cmd, 1 := idx] ! 1 = idx"
      using l by (simp_all add: len nth_list_update)
    ultimately show "dg_idx b 0 = idx" "dg_cmd b 0 = cmd"
      by (simp_all add: dg_idx_def dg_cmd_def nth dg_set_len_nth)
  qed
  show "dg_adr b 0 = adr"
  proof -
    have "slice 2 4 b = slice 2 4 ?b1"
    proof (rule nth_equalityI)
      show "length (slice 2 4 b) = length (slice 2 4 ?b1)" using l len b by (simp add: slice_def buf_simps)
      fix i assume "i < length (slice 2 4 b)"
      then have i: "i < 4" by (simp add: slice_def)
      have "b ! (2 + i) = ?b1 ! (2 + i)" using i nth[of "2 + i"] by (simp add: dg_set_len_nth)
      then show "slice 2 4 b ! i = slice 2 4 ?b1 ! i"
        using i l len \<open>length b = length buf\<close> by (simp add: nth_slice)
    qed
    also have "\<dots> = le32 adr" using l len l32 by (intro slice_put_at_same) (simp_all add: buf_simps)
    finally have "slice 2 4 b = le32 adr" .
    moreover have "of_le (le32 adr) = unat adr"
      unfolding le32_def of_le_to_le using unat_lt[of adr] by simp
    ultimately show ?thesis unfolding dg_adr_def add_0 by simp
  qed
  show "slice 10 (length payload) b = payload" using b l len by (simp add: buf_simps)
qed

lemmas build_datagram_props =
  fill_datagram_props[of "length data" _ _ _ "length data" data for data, folded build_datagram_def]

lemma fill_datagram_fits:
  "12 + n \<le> length buf \<Longrightarrow> length payload \<le> n + 2 \<Longrightarrow> \<exists>b. fill_datagram n cmd idx adr len payload buf = Some b"
  by (simp add: fill_datagram_def Let_def)

lemma build_datagram_fits:
  "12 + length data \<le> length buf \<Longrightarrow> \<exists>b. build_datagram cmd idx adr data buf = Some b"
  by (simp add: build_datagram_def fill_datagram_fits)

section \<open>One round\<close>

text \<open>
  a low-priority datagram is sent once. The comment in \<^verbatim>\<open>ec_transceive\<close> allows it to be
  sent ten times when it is lost, but the loop ends after the first round on every path.
\<close>

theorem transceive_sends_once: "\<exists>r. xcv_round os dev env p_entry p_idx st = Inr r"
  by (cases st) (auto simp: xcv_round_def Let_def split: option.split prod.split)

lemma xcv_loop: "loop 2 (xcv_round os dev env p i) st = Some r \<longleftrightarrow> xcv_round os dev env p i st = Inr r"
proof -
  obtain d w s where st: "st = (d, w, s)" by (cases st)
  have "\<exists>r. xcv_round os dev env p i st = Inr r"
    unfolding st by (auto simp: xcv_round_def Let_def split: option.split prod.split)
  then show ?thesis by auto
qed

lemma xcv_round_result:
  assumes "xcv_round os dev env p i (data, wkc, s) = Inr (Some (ret, ex, data', wkc', s'))"
  shows "length data' = length data \<and>
     (ret = EC_OK \<and> (wkc' = 0 \<longrightarrow> data' = data) \<or> ret = EC_ERROR_TIMEOUT \<and> wkc' = 0 \<and> data' = data)"
proof -
  have "length (put_at 0 (slice k (length data) d) data) = length data" for k d
    by (simp add: put_at_def slice_def)
  then show ?thesis
    using assms by (auto simp: xcv_round_def xcv_wait_def Let_def split: option.splits prod.splits if_splits)
qed

section \<open>The register bus\<close>

text \<open>
  A memory fault ends the program; for the clients of the interface it is a return value that no
  operation of the library has.
\<close>

definition EC_FAULT :: int where [simp]: "EC_FAULT = -1"

definition transceive_bus ::
  "osal \<Rightarrow> 'w hw_device \<Rightarrow> 'w xcv_env \<Rightarrow> (nat \<Rightarrow> 'w xcv_state \<Rightarrow> nat \<times> 'w xcv_state) \<Rightarrow>
   (nat \<Rightarrow> 'w xcv_state \<Rightarrow> bool \<times> 'w xcv_state) \<Rightarrow> (nat \<Rightarrow> 'w xcv_state \<Rightarrow> 'w xcv_state) \<Rightarrow>
   'w xcv_state bus" where
  "transceive_bus os dev env tinit texp slp =
     \<lparr>b_xcv = (\<lambda>cmd adr data wkc s. case ec_transceive os dev env cmd adr data wkc s of
                 Some r \<Rightarrow> r | None \<Rightarrow> (EC_FAULT, data, wkc, s)),
      b_timer_init = tinit, b_timer_expired = texp, b_sleep = slp\<rparr>"

lemma ec_transceive_result:
  assumes "ec_transceive os dev env cmd adr data wkc s = Some (ret, data', wkc', s')"
  shows "length data' = length data \<and>
     (ret = EC_OK \<and> (wkc' = 0 \<longrightarrow> data' = data) \<or> ret = EC_ERROR_TIMEOUT \<and> wkc' = 0 \<and> data' = data \<or>
      ret \<in> {EC_ERROR_OUT_OF_INDICES, EC_ERROR_OUT_OF_DATAGRAMS} \<and> wkc' = wkc \<and> data' = data)"
  using assms
  by (auto simp: ec_transceive_def xcv_release_def Let_def xcv_loop simp del: loop_numeral
        split: option.splits prod.splits dest!: xcv_round_result)

interpretation tb: register_bus "transceive_bus os dev env tinit texp slp" for os dev env tinit texp slp
proof
  fix c a d w s ret d' w' s'
  assume "b_xcv (transceive_bus os dev env tinit texp slp) c a d w s = (ret, d', w', s')"
  then have *: "ec_transceive os dev env c a d w s = Some (ret, d', w', s') \<or>
      ret = EC_FAULT \<and> d' = d \<and> w' = w"
    by (auto simp: transceive_bus_def split: option.splits)
  then show "length d' = length d" by (auto dest: ec_transceive_result)
  show "ret \<noteq> EC_OK \<Longrightarrow> d' = d" using * by (auto dest: ec_transceive_result)
  show "w' = 0 \<Longrightarrow> d' = d" using * by (auto dest: ec_transceive_result)
  show "ret = EC_ERROR_TIMEOUT \<Longrightarrow> w' = 0" using * by (auto dest: ec_transceive_result)
  show "ret \<noteq> EC_OK \<Longrightarrow> ret \<noteq> EC_ERROR_TIMEOUT \<Longrightarrow> w' = w" using * by (auto dest: ec_transceive_result)
qed

section \<open>A transaction in the acyclic states\<close>

text \<open>Everything a transaction needs is there, and its datagram fits into a frame.\<close>

definition xcv_ready :: "sock_raw xcv_state \<Rightarrow> nat \<Rightarrow> nat list \<Rightarrow> nat \<Rightarrow> nat list \<Rightarrow> nat \<Rightarrow> bool" where
  "xcv_ready s i is p ps n \<longleftrightarrow>
     x_master_state s = EC_STATE_INIT \<and>
     iq_q (x_idx_q s) = i # is \<and> i < length (iq_entries (x_idx_q s)) \<and>
     avail (x_pool s) = p # ps \<and> avail (hw_tx_low (x_hw s)) = [] \<and>
     28 + n \<le> hw_mtu_size (x_hw s) \<and> hw_mtu_size (x_hw s) < 2048 \<and>
     length (entry_data p s) = LEC_MAX_POOL_DATA_SIZE \<and> 12 + n \<le> LEC_MAX_POOL_DATA_SIZE \<and>
     length (sr_send_frame (x_dev s)) = EC_ETH_FRAME_LEN"

abbreviation slot_idx :: "'w xcv_state \<Rightarrow> nat \<Rightarrow> u8" where
  "slot_idx s i \<equiv> ie_idx (iq_entries (x_idx_q s) ! i)"

lemma enqueue_and_send:
  assumes "avail (hw_tx_low hw) = []" "length (sr_send_frame w) = EC_ETH_FRAME_LEN"
    and "hw_mtu_size hw < 2048" "sendable hw p"
    and "ie_idx (iq_entries iq ! pe_p_idx (hw_entries hw p)) = dg_idx (dg_of hw p) 0"
  shows "\<exists>r hw' w'. hw_tx_low_pool os (sock_raw_device k) (hw_enqueue os iq p POOL_LOW hw, w) = Some (r, hw', w') \<and>
     hw_tx_send hw' (dg_idx (dg_of hw p) 0) = Some p \<and> avail (hw_tx_low hw') = [] \<and>
     (\<forall>q. pe_owner (hw_entries hw' q) = pe_owner (hw_entries hw q))"
proof -
  let ?hw = "hw_enqueue os iq p POOL_LOW hw"
  have hw: "avail (hw_pool POOL_LOW ?hw) = [p]" "hw_mtu_size ?hw = hw_mtu_size hw"
      "hw_entries ?hw = hw_entries hw"
    using assms(1) by (auto simp: hw_enqueue_def Let_def hw_pool_def hw_pool_upd_def)
  have snd: "sendable ?hw p" "dg_of ?hw p = dg_of hw p"
    using assms(4) hw by (simp_all add: sendable_def dg_of_def)
  from raw.tx_pool_frames[OF assms(2), of POOL_LOW ?hw os k] hw snd(1) assms(3)
  obtain r hw' w' where "hw_tx_low_pool os (sock_raw_device k) (?hw, w) = Some (r, hw', w')"
      "avail (hw_pool POOL_LOW hw') = []" "hw_tx_send hw' = mark_sent ?hw [p]"
      "\<forall>q. pe_owner (hw_entries hw' q) = pe_owner (hw_entries ?hw q)"
    by (auto simp: hw_tx_low_pool_def)
  then show ?thesis using hw snd by (auto simp: mark_sent_def hw_pool_def)
qed

text \<open>The state in which the wait begins.\<close>

lemma transceive_until_wait:
  assumes "xcv_ready s i is p ps (length data)" "binary_semaphore_laws os"
  shows "\<exists>s1. avail (x_pool s1) = ps \<and> iq_q (x_idx_q s1) = is \<and> \<not> ie_waiter (iq_entries (x_idx_q s1) ! i) \<and>
     length (iq_entries (x_idx_q s1)) = length (iq_entries (x_idx_q s)) \<and>
     hw_tx_send (x_hw s1) (slot_idx s i) = Some p \<and> avail (hw_tx_low (x_hw s1)) = [] \<and>
     pe_user_cb (hw_entries (x_hw s1) p) = Some CB_BLOCK \<and> pe_p_idx (hw_entries (x_hw s1) p) = i \<and>
     length (entry_data p s1) = LEC_MAX_POOL_DATA_SIZE \<and>
     ec_transceive os (sock_raw_device k) env cmd adr data wkc s
       = Some (xcv_release os p i (xcv_wait os env p i data s1))"
proof -
  note r = assms(1)[unfolded xcv_ready_def]
  let ?iq = "idx_waiter_upd (osal_binary_semaphore_trywait os) i ((x_idx_q s)\<lparr>iq_q := is\<rparr>)"
  have get: "ec_index_get os (x_idx_q s) = (EC_OK, Some i, ?iq)"
    using r by (simp add: ec_index_get_def)
  have iq: "ie_idx (iq_entries ?iq ! i) = slot_idx s i" "\<not> ie_waiter (iq_entries ?iq ! i)"
      "length (iq_entries ?iq) = length (iq_entries (x_idx_q s))" "iq_q ?iq = is"
    using r assms(2) by (simp_all add: idx_waiter_upd_def)
  let ?s2 = "s\<lparr>x_idx_q := ?iq, x_pool := (x_pool s)\<lparr>avail := ps\<rparr>\<rparr>"
  have d2: "entry_data p ?s2 = entry_data p s" by (simp add: entry_data_def)
  obtain dg where dg: "build_datagram cmd (slot_idx s i) adr data (entry_data p s) = Some dg"
    using build_datagram_fits[of data "entry_data p s" cmd "slot_idx s i" adr] r by auto
  note dgp = build_datagram_props[OF dg]
  let ?s3 = "entry_upd p (\<lambda>pe. pe\<lparr>pe_data := dg, pe_p_idx := i, pe_user_cb := Some CB_BLOCK\<rparr>) ?s2"
  have e3: "hw_entries (x_hw ?s3) p = (hw_entries (x_hw s) p)\<lparr>pe_data := dg, pe_p_idx := i, pe_user_cb := Some CB_BLOCK\<rparr>"
      "x_idx_q ?s3 = ?iq" "avail (x_pool ?s3) = ps" "x_master_state ?s3 = x_master_state s" "x_dev ?s3 = x_dev s"
      "hw_tx_low (x_hw ?s3) = hw_tx_low (x_hw s)" "hw_mtu_size (x_hw ?s3) = hw_mtu_size (x_hw s)"
    by (simp_all add: entry_upd_def)
  have sm: "length data < 2048" using r by auto
  have sn: "sendable (x_hw ?s3) p" using r dgp(1,3)[OF sm] by (simp add: sendable_def e3)
  have ix: "dg_idx (dg_of (x_hw ?s3) p) 0 = slot_idx s i"
    using dgp(1,3,4)[OF sm] r by (simp add: dg_of_def e3 dg_idx_def)
  from enqueue_and_send[of "x_hw ?s3" "x_dev s" p ?iq os k] r e3 sn ix iq
  obtain sent hw' w' where tx:
      "hw_tx_low_pool os (sock_raw_device k) (hw_enqueue os ?iq p POOL_LOW (x_hw ?s3), x_dev s) = Some (sent, hw', w')"
      "hw_tx_send hw' (slot_idx s i) = Some p" "avail (hw_tx_low hw') = []"
      "pe_owner (hw_entries hw' p) = pe_owner (hw_entries (x_hw ?s3) p)"
    by auto
  let ?s1 = "?s3\<lparr>x_hw := hw', x_dev := (if sent then dev_send_finished (sock_raw_device k) w' else w')\<rparr>"
  have ow: "pe_user_cb (hw_entries hw' p) = Some CB_BLOCK" "pe_p_idx (hw_entries hw' p) = i"
      "length (pe_data (hw_entries hw' p)) = LEC_MAX_POOL_DATA_SIZE"
    using tx(4) e3(1) dgp(1)[OF sm] r by (simp_all add: pe_owner_def)
  have ms: "x_master_state s \<noteq> EC_STATE_SAFEOP" "x_master_state s \<noteq> EC_STATE_OP" using r by simp_all
  have trans: "ec_transceive os (sock_raw_device k) env cmd adr data wkc s =
     (case loop 2 (xcv_round os (sock_raw_device k) env p i) (data, wkc, ?s3) of
        Some (Some r) \<Rightarrow> Some (xcv_release os p i r) | _ \<Rightarrow> None)"
    unfolding ec_transceive_def get Let_def using r d2 dg iq(1)
    by (simp add: pool_take_def del: loop_numeral)
  have "xcv_round os (sock_raw_device k) env p i (data, wkc, ?s3) = Inr (Some (xcv_wait os env p i data ?s1))"
    using tx(1) ms by (simp add: xcv_round_def Let_def e3(2,4,5) split: prod.splits)
  then have "loop 2 (xcv_round os (sock_raw_device k) env p i) (data, wkc, ?s3)
      = Some (Some (xcv_wait os env p i data ?s1))"
    unfolding xcv_loop .
  then have "ec_transceive os (sock_raw_device k) env cmd adr data wkc s
      = Some (xcv_release os p i (xcv_wait os env p i data ?s1))"
    unfolding trans by simp
  then show ?thesis
    using tx e3 iq ow by (intro exI[of _ ?s1]) (simp add: entry_data_def)
qed

section \<open>The reply\<close>

text \<open>The callbacks on the whole state, and the reception of one frame by the receiving thread.\<close>

definition xcv_cb ::
  "osal \<Rightarrow> ec_cb \<Rightarrow> nat \<Rightarrow> bytes \<Rightarrow> ec_cb hw_common \<times> 'w xcv_state \<Rightarrow> ec_cb hw_common \<times> 'w xcv_state" where
  "xcv_cb os c p dgs = (\<lambda>(hw, s).
     (let s = s\<lparr>x_hw := hw\<rparr>;
          s = (case c of CB_BLOCK \<Rightarrow> cb_block os p dgs s | CB_NO_REPLY \<Rightarrow> cb_no_reply os p dgs s
                       | CB_ANON \<Rightarrow> anon_cb os p s | _ \<Rightarrow> s)
      in (x_hw s, s)))"

definition receive :: "osal \<Rightarrow> bytes \<Rightarrow> 'w xcv_state \<Rightarrow> 'w xcv_state" where
  "receive os f s =
     (case hw_process_rx_frame (xcv_cb os) f (x_hw s, s) of
        None \<Rightarrow> s | Some (_, hw, s') \<Rightarrow> s'\<lparr>x_hw := hw\<rparr>)"

text \<open>A frame with the one datagram \<open>r\<close>.\<close>

definition reply_frame :: "bytes \<Rightarrow> bytes \<Rightarrow> bool" where
  "reply_frame r f \<longleftrightarrow> wf_dg r \<and> (\<exists>hdr. f = hdr @ r \<and> length hdr = 16 \<and>
     fr_ethertype hdr = ETH_P_ECAT \<and> ec_frame_length hdr = length f)"

lemma receive_reply:
  assumes "reply_frame r f" "hw_tx_send (x_hw s) (dg_idx r 0) = Some p"
    and "pe_user_cb (hw_entries (x_hw s) p) = Some CB_BLOCK"
  shows "receive os f s = cb_block os p r
           (s\<lparr>x_hw := (x_hw s)\<lparr>hw_tx_send := (hw_tx_send (x_hw s))(dg_idx r 0 := None)\<rparr>\<rparr>)"
proof -
  obtain hdr where h: "f = hdr @ concat [r]" "length hdr = 16" "fr_ethertype hdr = ETH_P_ECAT"
      "ec_frame_length hdr = length f" and wf: "\<forall>m\<in>set [r]. wf_dg m"
    using assms(1) by (auto simp: reply_frame_def)
  have "length [r] < Suc (length f)" using wf h(1) by (auto simp: wf_dg_def)
  then have "loop (Suc (length f)) (rx_body (xcv_cb os) f) (16, False, x_hw s, s)
      = Some (Some (rx_deliver (xcv_cb os) r (False, x_hw s, s)))"
    using rx_loop[of hdr 16 "[r]" "[]" "Suc (length f)" "xcv_cb os" "(False, x_hw s, s)"] h wf
    by (simp add: ec_frame_length_append)
  then have "hw_process_rx_frame (xcv_cb os) f (x_hw s, s) = Some (rx_deliver (xcv_cb os) r (False, x_hw s, s))"
    using h by (simp add: hw_process_rx_frame_def ec_datagram_first_def fr_ethertype_append)
  then show ?thesis
    using assms(2,3) by (simp add: receive_def rx_deliver_def Let_def xcv_cb_def)
qed

text \<open>
  C11: in an acyclic state, when a frame comes back that holds the datagram with the index of the
  transaction, \<^verbatim>\<open>ec_transceive\<close> returns \<^verbatim>\<open>EC_OK\<close>, the working counter of the reply and,
  when a slave has answered, its payload; the index is free again and the entry is no longer
  marked as sent.
\<close>

theorem transceive_reply:
  assumes "xcv_ready s i is p ps (length data)" "binary_semaphore_laws os"
    and "others env = receive os f" "reply_frame r f" "dg_idx r 0 = slot_idx s i"
    and "length r = 12 + length data"
  shows "\<exists>s'. ec_transceive os (sock_raw_device k) env cmd adr data wkc s =
      Some (EC_OK, if ec_datagram_wkc r 0 \<noteq> 0 then slice 10 (length data) r else data,
            ec_datagram_wkc r 0, s') \<and>
     iq_q (x_idx_q s') = is @ [i] \<and> avail (x_pool s') = ps @ [p] \<and>
     hw_tx_send (x_hw s') (slot_idx s i) = None"
proof -
  note rd = assms(1)[unfolded xcv_ready_def]
  from transceive_until_wait[OF assms(1,2), of k env cmd adr wkc]
  obtain s1 where s1: "avail (x_pool s1) = ps" "iq_q (x_idx_q s1) = is"
      "length (iq_entries (x_idx_q s1)) = length (iq_entries (x_idx_q s))"
      "hw_tx_send (x_hw s1) (slot_idx s i) = Some p"
      "pe_user_cb (hw_entries (x_hw s1) p) = Some CB_BLOCK" "pe_p_idx (hw_entries (x_hw s1) p) = i"
      "length (entry_data p s1) = LEC_MAX_POOL_DATA_SIZE"
    and ec: "ec_transceive os (sock_raw_device k) env cmd adr data wkc s
       = Some (xcv_release os p i (xcv_wait os env p i data s1))"
    by blast
  define s2 where "s2 = receive os f s1"
  have s2: "s2 = cb_block os p r
      (s1\<lparr>x_hw := (x_hw s1)\<lparr>hw_tx_send := (hw_tx_send (x_hw s1))(dg_idx r 0 := None)\<rparr>\<rparr>)"
    unfolding s2_def using receive_reply[OF assms(4), of s1 p os] s1(4,5) assms(5) by simp
  have size: "min (ec_datagram_length r 0) LEC_MAX_POOL_DATA_SIZE = length r"
    using assms(4,6) rd by (auto simp: reply_frame_def wf_dg_def)
  let ?d = "r @ drop (length r) (entry_data p s1)"
  have d2: "entry_data p s2 = ?d"
    unfolding s2 using size by (simp add: cb_block_def Let_def entry_upd_def entry_data_def put_at_def)
  have wf: "12 \<le> length r" "ec_datagram_length r 0 = length r" using assms(4) by (auto simp: reply_frame_def wf_dg_def)
  have dl: "ec_datagram_length ?d 0 = length r"
    using ec_datagram_length_append[of "[]" 0 r] wf by simp
  have wk: "ec_datagram_wkc ?d 0 = ec_datagram_wkc r 0"
    using wf dl by (simp add: ec_datagram_wkc_def slice_append_left)
  have pl: "put_at 0 (slice (ec_datagram_payload ?d 0) (length data) ?d) data = slice 10 (length data) r"
    using assms(6) by (simp add: ec_datagram_payload_def slice_append_left put_at_def slice_def)
  have q2: "ie_waiter (iq_entries (x_idx_q s2) ! i)" "iq_q (x_idx_q s2) = is" "avail (x_pool s2) = ps"
      "hw_tx_send (x_hw s2) (slot_idx s i) = None"
    unfolding s2 using s1 rd assms(2,5)
    by (simp_all add: cb_block_def Let_def entry_upd_def idx_waiter_upd_def)
  have "xcv_wait os env p i data s1 = (EC_OK, False,
      if ec_datagram_wkc r 0 \<noteq> 0 then slice 10 (length data) r else data, ec_datagram_wkc r 0,
      s2\<lparr>x_idx_q := idx_waiter_upd (\<lambda>_. False) i (x_idx_q s2)\<rparr>)"
    unfolding xcv_wait_def Let_def assms(3) s2_def[symmetric] using q2(1) assms(2)
    by (simp add: entry_data_def[of p "s2\<lparr>x_idx_q := _\<rparr>"] entry_data_def[of p s2, symmetric] d2 wk pl)
  then show ?thesis
    unfolding ec using q2 by (simp add: xcv_release_def Let_def ec_index_put_def)
qed

text \<open>A fresh master with one index and one datagram, and the reply to a read of two bytes.\<close>

definition fresh_master :: "sock_raw xcv_state" where
  "fresh_master =
     \<lparr>x_idx_q = \<lparr>iq_entries = [\<lparr>ie_idx = 0, ie_waiter = False\<rparr>], iq_q = [0]\<rparr>,
      x_pool = \<lparr>avail = [0], avail_cnt = 1\<rparr>,
      x_hw = \<lparr>hw_mtu_size = 1500, hw_tx_high = \<lparr>avail = [], avail_cnt = 0\<rparr>,
               hw_tx_low = \<lparr>avail = [], avail_cnt = 0\<rparr>, hw_tx_send = (\<lambda>_. None), hw_frame_idx = 0,
               hw_lost_datagrams = 0,
               hw_entries = (\<lambda>p. \<lparr>pe_user_cb = None, pe_user_arg = 0, pe_p_idx = 0, pe_send_idx = 0,
                                  pe_data = replicate 1600 0\<rparr>)\<rparr>,
      x_dev = idle_socket, x_master_state = EC_STATE_INIT\<rparr>"

definition status_reply :: bytes where
  "status_reply = [0x04, 0x00, 0xE9, 0x03, 0x30, 0x01, 0x02, 0x00, 0x00, 0x00, 0x08, 0x00, 0x01, 0x00]"

definition status_frame :: bytes where
  "status_frame = replicate 12 0 @ [0x88, 0xA4, 30, 0x10] @ status_reply"

lemma fresh_master_ready: "xcv_ready fresh_master 0 [] 0 [] 2"
  by (simp add: xcv_ready_def fresh_master_def entry_data_def idle_socket_def)

lemma status_frame_reply: "reply_frame status_reply status_frame" "dg_idx status_reply 0 = 0"
  "length status_reply = 14" "ec_datagram_wkc status_reply 0 = 1" "slice 10 2 status_reply = [8, 0]"
proof -
  show "length status_reply = 14" "dg_idx status_reply 0 = 0" "slice 10 2 status_reply = [8, 0]"
    by (simp_all add: status_reply_def dg_idx_def slice_def)
  have l: "ec_datagram_length status_reply 0 = 14"
    by (simp add: status_reply_def ec_datagram_length_def dg_len_def)
  then show "ec_datagram_wkc status_reply 0 = 1"
    by (simp add: ec_datagram_wkc_def) (simp add: status_reply_def slice_def)
  let ?hdr = "replicate 12 0 @ [0x88, 0xA4, 30, 0x10] :: bytes"
  have "status_frame = ?hdr @ status_reply" "length ?hdr = 16" by (simp_all add: status_frame_def)
  moreover have "fr_ethertype ?hdr = ETH_P_ECAT"
    by (simp add: fr_ethertype_def ETH_P_ECAT_def slice_def)
  moreover have "ec_frame_length ?hdr = length status_frame"
    by (simp add: ec_frame_length_def status_frame_def status_reply_def nth_append)
  ultimately show "reply_frame status_reply status_frame"
    unfolding reply_frame_def wf_dg_def using l \<open>length status_reply = 14\<close>
    by (intro conjI exI[of _ ?hdr]) simp_all
qed

theorem transceive_reply_witness:
  "\<exists>s'. ec_transceive posix_osal (sock_raw_device (int \<circ> length))
       \<lparr>others = receive posix_osal status_frame, expired = (\<lambda>_. False), stale = (\<lambda>_ q. q)\<rparr>
       EC_CMD_FPRD (reg_adr 1001 EC_REG_ALSTAT) [0, 0] 0 fresh_master = Some (EC_OK, [8, 0], 1, s')"
  using transceive_reply[of fresh_master 0 "[]" 0 "[]" "[0, 0]" posix_osal
      "\<lparr>others = receive posix_osal status_frame, expired = (\<lambda>_. False), stale = (\<lambda>_ q. q)\<rparr>"
      status_frame status_reply "int \<circ> length" EC_CMD_FPRD "reg_adr 1001 EC_REG_ALSTAT" 0]
    fresh_master_ready status_frame_reply
  by (auto simp: numeral_2_eq_2[symmetric] fresh_master_def[THEN arg_cong, of "\<lambda>s. slot_idx s 0"])

text \<open>
  when no reply comes before the first 2 ms wait is over, \<^verbatim>\<open>ec_transceive\<close> gives the entry
  back to the pool of free datagrams and frees the index, but leaves the entry marked as sent
  under that index, since the 50 ms timer has not expired: a late reply is delivered into an
  entry that may already belong to somebody else.
\<close>

theorem transceive_lost_keeps_mark:
  assumes "xcv_ready s i is p ps (length data)" "binary_semaphore_laws os"
    and "others env = id" "\<forall>t. \<not> expired env t"
  shows "\<exists>s'. ec_transceive os (sock_raw_device k) env cmd adr data wkc s = Some (EC_ERROR_TIMEOUT, data, 0, s') \<and>
     p \<in> set (avail (x_pool s')) \<and> i \<in> set (iq_q (x_idx_q s')) \<and>
     hw_tx_send (x_hw s') (slot_idx s i) = Some p"
proof -
  from transceive_until_wait[OF assms(1,2), of k env cmd adr wkc]
  obtain s1 where s1: "hw_tx_send (x_hw s1) (slot_idx s i) = Some p" "\<not> ie_waiter (iq_entries (x_idx_q s1) ! i)"
    and ec: "ec_transceive os (sock_raw_device k) env cmd adr data wkc s
       = Some (xcv_release os p i (xcv_wait os env p i data s1))"
    by blast
  obtain r where r: "r \<noteq> OSAL_OK" "osal_binary_semaphore_timedwait os 2000000 False = (r, False)"
    using binary_semaphore_wait_unsignalled[OF assms(2)] by blast
  show ?thesis
    unfolding ec using s1 r assms(3,4)
    by (simp add: xcv_wait_def xcv_release_def Let_def ec_index_put_def)
qed

theorem transceive_lost_keeps_mark_witness:
  "\<exists>s'. ec_transceive posix_osal (sock_raw_device (int \<circ> length))
       \<lparr>others = id, expired = (\<lambda>_. False), stale = (\<lambda>_ q. q)\<rparr>
       EC_CMD_FPRD (reg_adr 1001 EC_REG_ALSTAT) [0, 0] 0 fresh_master = Some (EC_ERROR_TIMEOUT, [0, 0], 0, s') \<and>
     0 \<in> set (avail (x_pool s')) \<and> 0 \<in> set (iq_q (x_idx_q s')) \<and>
     hw_tx_send (x_hw s') (slot_idx fresh_master 0) = Some 0"
  using transceive_lost_keeps_mark[of fresh_master 0 "[]" 0 "[]" "[0, 0]" posix_osal
      "\<lparr>others = id, expired = (\<lambda>_. False), stale = (\<lambda>_ q. q)\<rparr>" "int \<circ> length"
      EC_CMD_FPRD "reg_adr 1001 EC_REG_ALSTAT" 0] fresh_master_ready
  by (simp add: numeral_2_eq_2 del: EC_ERROR_TIMEOUT_def EC_REG_ALSTAT_def EC_CMD_FPRD_def)

end
