(* ===== verification/Eeprom_Cat.thy ===== *)
theory Eeprom_Cat
  imports Eeprom
begin

text \<open>
  \<^verbatim>\<open>ec_eeprom_dump\<close> of \<^verbatim>\<open>src/eeprom.c\<close>: the slave information interface and its
  categories. The only thing the parser needs from the bus is \<^verbatim>\<open>ec_eepromread_len\<close>, the
  parameter \<open>rd\<close> (word address, the caller's buffer before the call); \<open>uninit\<close> gives the
  contents of local variables that are not initialised. A write outside an array is
  \<^term>\<open>None\<close>. Logging is left out.
\<close>

section \<open>Data\<close>

definition LEC_MAX_SLAVE_SM :: nat where [simp]: "LEC_MAX_SLAVE_SM = 8"
definition LEC_MAX_SLAVE_FMMU :: nat where [simp]: "LEC_MAX_SLAVE_FMMU = 8"
definition LEC_MAX_EEPROM_CAT_SM :: nat where [simp]: "LEC_MAX_EEPROM_CAT_SM = LEC_MAX_SLAVE_SM"
definition LEC_MAX_EEPROM_CAT_FMMU :: nat where [simp]: "LEC_MAX_EEPROM_CAT_FMMU = LEC_MAX_SLAVE_FMMU"
definition LEC_MAX_EEPROM_CAT_PDO :: nat where [simp]: "LEC_MAX_EEPROM_CAT_PDO = 128"
definition LEC_MAX_EEPROM_CAT_PDO_ENTRIES :: nat where [simp]: "LEC_MAX_EEPROM_CAT_PDO_ENTRIES = 32"
definition LEC_MAX_EEPROM_CAT_STRINGS :: nat where [simp]: "LEC_MAX_EEPROM_CAT_STRINGS = 128"
definition LEC_MAX_EEPROM_CAT_DC :: nat where [simp]: "LEC_MAX_EEPROM_CAT_DC = 8"
definition LEC_MAX_STRING_LEN :: nat where [simp]: "LEC_MAX_STRING_LEN = 128"

definition EC_EEPROM_CAT_PDO_LEN :: nat where [simp]: "EC_EEPROM_CAT_PDO_LEN = 8"
definition EC_EEPROM_CAT_DC_LEN :: nat where [simp]: "EC_EEPROM_CAT_DC_LEN = 25"

text \<open>\<open>sizeof\<close> of the packed structs \<^verbatim>\<open>ec_eeprom_cat_sm_t\<close>, \<open>_dc_t\<close>, \<open>_pdo_entry_t\<close>.\<close>

definition sizeof_cat_sm :: nat where [simp]: "sizeof_cat_sm = 2 + 2 + 1 + 1 + 1 + 1"
definition sizeof_cat_dc :: nat where [simp]: "sizeof_cat_dc = 4 + 4 + 4 + 2 + 2 + 2 + 1 + 1 + 4"
definition sizeof_pdo_entry :: nat where [simp]: "sizeof_pdo_entry = 2 + 1 + 1 + 1 + 1 + 2"

record cat_pdo_entry =
  pe_entry_index :: u16
  pe_sub_index :: u8
  pe_entry_name_idx :: u8
  pe_data_type :: u8
  pe_bit_len :: u8
  pe_flags :: u16

record cat_pdo =
  pdo_index :: u16
  pdo_n_entry :: u8
  pdo_sm_nr :: u8
  pdo_dc_sync :: u8
  pdo_name_idx :: u8
  pdo_flags :: u16
  pdo_entries :: "cat_pdo_entry list"

record slave_sm =
  sm_adr :: u16
  sm_len :: u16
  sm_flags :: u32

text \<open>The EEPROM part of a slave and the other fields of \<^verbatim>\<open>ec_slave_t\<close> the parser writes.\<close>

record eeprom_info =
  ei_read_eeprom :: bool
  ei_vendor_id :: u32
  ei_product_code :: u32
  ei_revision_numer :: u32
  ei_serial_number :: u32
  ei_mbx_supported :: u16
  ei_mbx_receive_offset :: u16
  ei_mbx_receive_size :: u16
  ei_mbx_send_offset :: u16
  ei_mbx_send_size :: u16
  ei_boot_mbx_receive_offset :: u16
  ei_boot_mbx_receive_size :: u16
  ei_boot_mbx_send_offset :: u16
  ei_boot_mbx_send_size :: u16
  ei_general :: bytes
  ei_strings_cnt :: u8
  ei_strings :: "bytes list"
  ei_sms_cnt :: u8
  ei_sms :: "bytes list"
  ei_fmmus_cnt :: u8
  ei_fmmus :: bytes
  ei_free_pdos :: "cat_pdo list"
  ei_txpdos :: "nat list"
  ei_rxpdos :: "nat list"
  ei_dcs_cnt :: u8
  ei_dcs :: "bytes list"
  es_sm_ch :: u8
  es_sm :: "slave_sm list"
  es_fmmu_ch :: u8
  es_fmmu_type :: bytes

type_synonym 's reader = "nat \<Rightarrow> bytes \<Rightarrow> 's \<Rightarrow> (int \<times> bytes \<times> 's) option"

definition b_at :: "bytes \<Rightarrow> nat \<Rightarrow> u8" where "b_at bs i = bs ! i"
definition h_at :: "bytes \<Rightarrow> nat \<Rightarrow> u16" where "h_at bs i = u16_of (slice i 2 bs)"

definition pdo_entry_of :: "bytes \<Rightarrow> cat_pdo_entry" where
  "pdo_entry_of bs = \<lparr>pe_entry_index = h_at bs 0, pe_sub_index = b_at bs 2, pe_entry_name_idx = b_at bs 3,
     pe_data_type = b_at bs 4, pe_bit_len = b_at bs 5, pe_flags = h_at bs 6\<rparr>"

definition zero_pdo_entry :: cat_pdo_entry where
  "zero_pdo_entry = pdo_entry_of (replicate 8 0)"

definition pdo_of :: "bytes \<Rightarrow> cat_pdo" where
  "pdo_of bs = \<lparr>pdo_index = h_at bs 0, pdo_n_entry = b_at bs 2, pdo_sm_nr = b_at bs 3, pdo_dc_sync = b_at bs 4,
     pdo_name_idx = b_at bs 5, pdo_flags = h_at bs 6,
     pdo_entries = replicate LEC_MAX_EEPROM_CAT_PDO_ENTRIES zero_pdo_entry\<rparr>"

section \<open>Strings\<close>

text \<open>\<^verbatim>\<open>strncpy\<close> of at most \<open>n\<close> bytes; \<^term>\<open>None\<close>: it reads past the end of the buffer.\<close>

definition strncpy :: "nat \<Rightarrow> bytes \<Rightarrow> bytes option" where
  "strncpy n src =
     (let s = takeWhile (\<lambda>c. c \<noteq> 0) (take n src)
      in if length s = length (take n src) \<and> length src < n then None
         else Some (s @ replicate (n - length s) 0))"

fun parse_strings :: "bytes \<Rightarrow> nat \<Rightarrow> nat \<Rightarrow> nat \<Rightarrow> nat \<Rightarrow> bytes list \<Rightarrow> bytes list option" where
  "parse_strings buf limit local_offset i 0 strings = Some strings"
| "parse_strings buf limit local_offset i (Suc k) strings =
     (if local_offset < length buf
      then (let string_len = unat (buf ! local_offset);
                read_string_len = (if string_len > LEC_MAX_STRING_LEN - 1 then LEC_MAX_STRING_LEN - 1 else string_len);
                local_offset = local_offset + 1;
                copied = (if i \<ge> LEC_MAX_EEPROM_CAT_STRINGS
                          then map_option (\<lambda>_. strings) (strncpy (min 64 read_string_len) (drop local_offset buf))
                          else map_option (\<lambda>t. strings[i := put_at 0 (t @ [0]) (strings ! i)])
                                 (strncpy read_string_len (drop local_offset buf)));
                local_offset = local_offset + string_len
            in case copied of
                 None \<Rightarrow> None
               | Some strings \<Rightarrow>
                   if local_offset > limit then Some strings
                   else parse_strings buf limit local_offset (i + 1) k strings)
      else None)"

text \<open>The state of the parser: the bus, the slave, \<open>value32\<close>, the static buffer, \<open>free_pdo_index\<close>.\<close>

record 's dump =
  d_bus :: 's
  d_slv :: eeprom_info
  d_value32 :: bytes
  d_buf :: bytes
  d_free_pdo_index :: nat

definition cat_strings :: "'s reader \<Rightarrow> nat \<Rightarrow> nat \<Rightarrow> 's dump \<Rightarrow> 's dump option" where
  "cat_strings rd cat_offset cat_len st =
     (if cat_len * 2 > length (d_buf st) then None
      else do {
        (_, bs, s) \<leftarrow> rd (cat_offset + 2) (take (cat_len * 2) (d_buf st)) (d_bus st);
        let buf = put_at 0 bs (d_buf st);
        let cnt = buf ! 0;
        let st = st\<lparr>d_bus := s, d_buf := buf, d_slv := (d_slv st)\<lparr>ei_strings_cnt := cnt\<rparr>\<rparr>;
        strings \<leftarrow> parse_strings buf (cat_len * 2) 1 0 (unat cnt) (ei_strings (d_slv st));
        Some (st\<lparr>d_slv := (d_slv st)\<lparr>ei_strings := strings\<rparr>\<rparr>)
      })"

section \<open>General, FMMU and sync manager categories\<close>

definition cat_general :: "'s reader \<Rightarrow> nat \<Rightarrow> nat \<Rightarrow> 's dump \<Rightarrow> 's dump option" where
  "cat_general rd cat_offset cat_len st = do {
     (_, bs, s) \<leftarrow> rd (cat_offset + 2) (ei_general (d_slv st)) (d_bus st);
     Some (st\<lparr>d_bus := s, d_slv := (d_slv st)\<lparr>ei_general := bs\<rparr>\<rparr>)
   }"

fun fmmu_bytes :: "bytes \<Rightarrow> nat \<Rightarrow> eeprom_info \<Rightarrow> eeprom_info" where
  "fmmu_bytes [] fmmu_idx slv = slv"
| "fmmu_bytes (t # ts) fmmu_idx slv =
     fmmu_bytes ts (fmmu_idx + 1)
       (if fmmu_idx < LEC_MAX_EEPROM_CAT_FMMU \<and> fmmu_idx < unat (es_fmmu_ch slv) \<and> 1 \<le> t \<and> t \<le> 3
        then slv\<lparr>es_fmmu_type := (es_fmmu_type slv)[fmmu_idx := t], ei_fmmus := (ei_fmmus slv)[fmmu_idx := t]\<rparr>
        else slv)"

definition fmmu_body ::
  "'s reader \<Rightarrow> nat \<Rightarrow> nat \<Rightarrow> nat \<times> nat \<times> 's dump \<Rightarrow> (nat \<times> nat \<times> 's dump) + 's dump option" where
  "fmmu_body rd limit cat_len = (\<lambda>(local_offset, fmmu_idx, st).
     if local_offset < limit
     then (case rd local_offset (d_value32 st) (d_bus st) of
             None \<Rightarrow> Inr None
           | Some (_, v, s) \<Rightarrow>
               (let k = min 4 (cat_len * 2)
                in Inl (local_offset + 2, fmmu_idx + k,
                        st\<lparr>d_bus := s, d_value32 := v, d_slv := fmmu_bytes (take k v) fmmu_idx (d_slv st)\<rparr>)))
     else Inr (Some st))"

definition cat_fmmu :: "'s reader \<Rightarrow> nat \<Rightarrow> nat \<Rightarrow> 's dump \<Rightarrow> 's dump option" where
  "cat_fmmu rd cat_offset cat_len st =
     (let st = st\<lparr>d_slv := (d_slv st)\<lparr>ei_fmmus_cnt := of_nat (cat_len * 2)\<rparr>\<rparr>
      in if ei_fmmus_cnt (d_slv st) = 0 then Some st
         else Option.bind (loop (Suc cat_len) (fmmu_body rd (cat_offset + cat_len + 2) cat_len)
                             (cat_offset + 2, 0, st)) id)"

definition sm_of :: "bytes \<Rightarrow> slave_sm" where
  "sm_of bs = \<lparr>sm_adr = h_at bs 0, sm_len = h_at bs 2,
     sm_flags = push_bit 16 (ucast (b_at bs 6)) OR ucast (b_at bs 4)\<rparr>"

definition sm_body ::
  "'s reader \<Rightarrow> (nat \<Rightarrow> bytes) \<Rightarrow> nat \<Rightarrow> nat \<times> nat \<times> 's dump \<Rightarrow> (nat \<times> nat \<times> 's dump) + 's dump option" where
  "sm_body rd uninit limit = (\<lambda>(local_offset, j, st).
     if local_offset < limit
     then (case rd local_offset (uninit sizeof_cat_sm) (d_bus st) of
             None \<Rightarrow> Inr None
           | Some (_, bs, s) \<Rightarrow>
               if j < length (es_sm (d_slv st))
               then (let slv = d_slv st;
                         slv = (if sm_adr (es_sm slv ! j) = 0 then slv\<lparr>es_sm := (es_sm slv)[j := sm_of bs]\<rparr> else slv);
                         slv = (if j < LEC_MAX_EEPROM_CAT_SM then slv\<lparr>ei_sms := (ei_sms slv)[j := bs]\<rparr> else slv)
                     in Inl (local_offset + sizeof_cat_sm div 2, j + 1, st\<lparr>d_bus := s, d_slv := slv\<rparr>))
               else Inr None)
     else Inr (Some st))"

definition cat_sm :: "'s reader \<Rightarrow> (nat \<Rightarrow> bytes) \<Rightarrow> nat \<Rightarrow> nat \<Rightarrow> 's dump \<Rightarrow> 's dump option" where
  "cat_sm rd uninit cat_offset cat_len st =
     (let cnt = cat_len div (sizeof_cat_sm div 2);
          slv = (d_slv st)\<lparr>ei_sms_cnt := of_nat cnt\<rparr>
      in if ei_sms_cnt slv = 0 then Some (st\<lparr>d_slv := slv\<rparr>)
         else (let more = cnt > unat (es_sm_ch slv);
                   ch = (if more then of_nat cnt else es_sm_ch slv)
               in if more \<and> unat ch > length (es_sm slv) then None
                  else (let sm = (if more
                                  then replicate (unat ch) \<lparr>sm_adr = 0, sm_len = 0, sm_flags = 0\<rparr>
                                         @ drop (unat ch) (es_sm slv)
                                  else es_sm slv)
                        in Option.bind (loop (Suc cat_len) (sm_body rd uninit (cat_offset + cat_len + 2))
                             (cat_offset + 2, 0, st\<lparr>d_slv := slv\<lparr>es_sm_ch := ch, es_sm := sm\<rparr>\<rparr>)) id)))"

section \<open>PDO categories\<close>

fun pdo_entries_loop ::
  "'s reader \<Rightarrow> (nat \<Rightarrow> bytes) \<Rightarrow> nat \<Rightarrow> nat \<Rightarrow> nat \<Rightarrow> cat_pdo \<Rightarrow> 's \<Rightarrow> (nat \<times> cat_pdo \<times> 's) option" where
  "pdo_entries_loop rd uninit local_offset j 0 pdo s = Some (local_offset, pdo, s)"
| "pdo_entries_loop rd uninit local_offset j (Suc k) pdo s =
     (case rd local_offset (uninit sizeof_pdo_entry) s of
        None \<Rightarrow> None
      | Some (_, bs, s) \<Rightarrow>
          pdo_entries_loop rd uninit (local_offset + sizeof_pdo_entry div 2) (j + 1) k
            (if j \<ge> LEC_MAX_EEPROM_CAT_PDO_ENTRIES then pdo
             else pdo\<lparr>pdo_entries := (pdo_entries pdo)[j := pdo_entry_of bs]\<rparr>) s)"

text \<open>One PDO; \<open>q\<close> is the queue it is appended to.\<close>

definition pdo_body ::
  "'s reader \<Rightarrow> (nat \<Rightarrow> bytes) \<Rightarrow> nat \<Rightarrow> nat \<times> nat list \<times> 's dump \<Rightarrow>
   (nat \<times> nat list \<times> 's dump) + (nat list \<times> 's dump) option" where
  "pdo_body rd uninit limit = (\<lambda>(local_offset, q, st).
     (case rd local_offset (replicate EC_EEPROM_CAT_PDO_LEN 0) (d_bus st) of
        None \<Rightarrow> Inr None
      | Some (_, bs, s) \<Rightarrow>
          (case pdo_entries_loop rd uninit (local_offset + EC_EEPROM_CAT_PDO_LEN div 2) 0
                  (unat (pdo_n_entry (pdo_of bs))) (pdo_of bs) s of
             None \<Rightarrow> Inr None
           | Some (local_offset, pdo, s) \<Rightarrow>
               (let st = st\<lparr>d_bus := s\<rparr>;
                    f = d_free_pdo_index st;
                    (q, st) = (if f < LEC_MAX_EEPROM_CAT_PDO_ENTRIES
                               then (q @ [f], st\<lparr>d_free_pdo_index := f + 1,
                                        d_slv := (d_slv st)\<lparr>ei_free_pdos := (ei_free_pdos (d_slv st))[f := pdo]\<rparr>\<rparr>)
                               else (q, st))
                in if local_offset < limit then Inl (local_offset, q, st) else Inr (Some (q, st))))))"

definition cat_pdos ::
  "'s reader \<Rightarrow> (nat \<Rightarrow> bytes) \<Rightarrow> nat \<Rightarrow> nat \<Rightarrow> 's dump \<Rightarrow> (nat list \<times> 's dump) option" where
  "cat_pdos rd uninit cat_offset cat_len st =
     Option.bind (loop (Suc cat_len) (pdo_body rd uninit (cat_offset + cat_len + 2)) (cat_offset + 2, [], st)) id"

definition cat_txpdo :: "'s reader \<Rightarrow> (nat \<Rightarrow> bytes) \<Rightarrow> nat \<Rightarrow> nat \<Rightarrow> 's dump \<Rightarrow> 's dump option" where
  "cat_txpdo rd uninit cat_offset cat_len st =
     (if cat_len = 0 then Some st
      else map_option (\<lambda>(q, st). st\<lparr>d_slv := (d_slv st)\<lparr>ei_txpdos := q\<rparr>\<rparr>)
             (cat_pdos rd uninit cat_offset cat_len st))"

definition cat_rxpdo :: "'s reader \<Rightarrow> (nat \<Rightarrow> bytes) \<Rightarrow> nat \<Rightarrow> nat \<Rightarrow> 's dump \<Rightarrow> 's dump option" where
  "cat_rxpdo rd uninit cat_offset cat_len st =
     (if cat_len = 0 then Some st
      else map_option (\<lambda>(q, st). st\<lparr>d_slv := (d_slv st)\<lparr>ei_rxpdos := q\<rparr>\<rparr>)
             (cat_pdos rd uninit cat_offset cat_len st))"

section \<open>Distributed clocks\<close>

text \<open>
  \<^verbatim>\<open>EC_EEPROM_CAT_DC_LEN\<close> bytes are read into a local \<^verbatim>\<open>ec_eeprom_cat_dc_t\<close>.
\<close>

fun dc_loop ::
  "'s reader \<Rightarrow> (nat \<Rightarrow> bytes) \<Rightarrow> nat \<Rightarrow> nat \<Rightarrow> nat \<Rightarrow> 's dump \<Rightarrow> 's dump option" where
  "dc_loop rd uninit local_offset j 0 st = Some st"
| "dc_loop rd uninit local_offset j (Suc k) st =
     (if EC_EEPROM_CAT_DC_LEN > sizeof_cat_dc then None
      else case rd local_offset (take EC_EEPROM_CAT_DC_LEN (uninit sizeof_cat_dc)) (d_bus st) of
             None \<Rightarrow> None
           | Some (_, bs, s) \<Rightarrow>
               dc_loop rd uninit (local_offset + EC_EEPROM_CAT_DC_LEN div 2) (j + 1) k
                 (st\<lparr>d_bus := s, d_slv := (if j < LEC_MAX_EEPROM_CAT_DC
                       then (d_slv st)\<lparr>ei_dcs := (ei_dcs (d_slv st))[j := bs]\<rparr> else d_slv st)\<rparr>))"

definition cat_dc :: "'s reader \<Rightarrow> (nat \<Rightarrow> bytes) \<Rightarrow> nat \<Rightarrow> nat \<Rightarrow> 's dump \<Rightarrow> 's dump option" where
  "cat_dc rd uninit cat_offset cat_len st =
     (let dcs_cnt = (of_nat (cat_len div (EC_EEPROM_CAT_DC_LEN div 2)) :: u8);
          stored = (if unat dcs_cnt > LEC_MAX_EEPROM_CAT_DC then of_nat LEC_MAX_EEPROM_CAT_DC else dcs_cnt)
      in dc_loop rd uninit (cat_offset + 2) 0 (unat dcs_cnt)
           (st\<lparr>d_slv := (d_slv st)\<lparr>ei_dcs_cnt := stored\<rparr>\<rparr>))"

section \<open>The dump\<close>

definition rd16 :: "'s reader \<Rightarrow> nat \<Rightarrow> u16 \<Rightarrow> 's \<Rightarrow> (u16 \<times> 's) option" where
  "rd16 rd adr old s = map_option (\<lambda>(_, bs, s). (u16_of bs, s)) (rd adr (le16 old) s)"

definition rd32 :: "'s reader \<Rightarrow> nat \<Rightarrow> u32 \<Rightarrow> 's \<Rightarrow> (u32 \<times> 's) option" where
  "rd32 rd adr old s = map_option (\<lambda>(_, bs, s). (u32_of bs, s)) (rd adr (le32 old) s)"

text \<open>The fixed part; the result of every read is ignored. \<open>size\<close> is computed in 16 bits.\<close>

definition dump_header :: "'s reader \<Rightarrow> eeprom_info \<Rightarrow> 's \<Rightarrow> (eeprom_info \<times> u32 \<times> 's) option" where
  "dump_header rd slv s = do {
     (vendor, s) \<leftarrow> rd32 rd 0x0008 (ei_vendor_id slv) s;
     (product, s) \<leftarrow> rd32 rd 0x000A (ei_product_code slv) s;
     (revision, s) \<leftarrow> rd32 rd 0x000C (ei_revision_numer slv) s;
     (serial, s) \<leftarrow> rd32 rd 0x000E (ei_serial_number slv) s;
     (mbx, s) \<leftarrow> rd16 rd 0x001C (ei_mbx_supported slv) s;
     (value32, s) \<leftarrow> rd32 rd 0x003E 0 s;
     (ro, s) \<leftarrow> rd16 rd 0x0018 (ei_mbx_receive_offset slv) s;
     (rs, s) \<leftarrow> rd16 rd 0x0019 (ei_mbx_receive_size slv) s;
     (so, s) \<leftarrow> rd16 rd 0x001A (ei_mbx_send_offset slv) s;
     (ss, s) \<leftarrow> rd16 rd 0x001B (ei_mbx_send_size slv) s;
     (bro, s) \<leftarrow> rd16 rd 0x0014 (ei_boot_mbx_receive_offset slv) s;
     (brs, s) \<leftarrow> rd16 rd 0x0015 (ei_boot_mbx_receive_size slv) s;
     (bso, s) \<leftarrow> rd16 rd 0x0016 (ei_boot_mbx_send_offset slv) s;
     (bss, s) \<leftarrow> rd16 rd 0x0017 (ei_boot_mbx_send_size slv) s;
     Some (slv\<lparr>ei_vendor_id := vendor, ei_product_code := product, ei_revision_numer := revision,
               ei_serial_number := serial, ei_mbx_supported := mbx, ei_mbx_receive_offset := ro,
               ei_mbx_receive_size := rs, ei_mbx_send_offset := so, ei_mbx_send_size := ss,
               ei_boot_mbx_receive_offset := bro, ei_boot_mbx_receive_size := brs,
               ei_boot_mbx_send_offset := bso, ei_boot_mbx_send_size := bss,
               ei_read_eeprom := True\<rparr>, value32, s)
   }"

definition eeprom_size :: "u32 \<Rightarrow> u16" where
  "eeprom_size value32 = ucast (((value32 AND 0xFFFF) + 1) * 128)"

definition dump_category ::
  "'s reader \<Rightarrow> (nat \<Rightarrow> bytes) \<Rightarrow> u16 \<Rightarrow> nat \<Rightarrow> nat \<Rightarrow> 's dump \<Rightarrow> 's dump option" where
  "dump_category rd uninit cat_type cat_offset cat_len st =
     (if cat_type = 10 then cat_strings rd cat_offset cat_len st
      else if cat_type = 30 then cat_general rd cat_offset cat_len st
      else if cat_type = 40 then cat_fmmu rd cat_offset cat_len st
      else if cat_type = 41 then cat_sm rd uninit cat_offset cat_len st
      else if cat_type = 50 then cat_txpdo rd uninit cat_offset cat_len st
      else if cat_type = 51 then cat_rxpdo rd uninit cat_offset cat_len st
      else if cat_type = 60 then cat_dc rd uninit cat_offset cat_len st
      else Some st)"

definition dump_body ::
  "'s reader \<Rightarrow> (nat \<Rightarrow> bytes) \<Rightarrow> u16 \<Rightarrow> nat \<times> 's dump \<Rightarrow> (nat \<times> 's dump) + 's dump option" where
  "dump_body rd uninit sz = (\<lambda>(cat_offset, st).
     (case rd cat_offset (d_value32 st) (d_bus st) of
        None \<Rightarrow> Inr None
      | Some (ret, v, s) \<Rightarrow>
          (let st = st\<lparr>d_bus := s, d_value32 := v\<rparr>
           in if ret \<noteq> 0 then Inr (Some st)
              else (let cat_type = h_at v 0; cat_len = unat (h_at v 2)
                    in case dump_category rd uninit cat_type cat_offset cat_len st of
                         None \<Rightarrow> Inr None
                       | Some st \<Rightarrow>
                           (let cat_offset = cat_offset + cat_len + 2
                            in if cat_offset * 2 < unat sz \<and> cat_type \<noteq> 0xFFFF
                               then Inl (cat_offset, st) else Inr (Some st))))))"

text \<open>The category headers lie in at most 65536 bytes, and every round goes on by four or more.\<close>

definition ec_eeprom_dump ::
  "'s reader \<Rightarrow> (nat \<Rightarrow> bytes) \<Rightarrow> bytes \<Rightarrow> eeprom_info \<Rightarrow> 's \<Rightarrow> (eeprom_info \<times> 's) option" where
  "ec_eeprom_dump rd uninit static_buf slv s =
     (if ei_read_eeprom slv then Some (slv, s)
      else do {
        (slv, value32, s) \<leftarrow> dump_header rd slv s;
        let sz = eeprom_size value32;
        if sz > 128
        then do {
          st \<leftarrow> Option.bind (loop 32768 (dump_body rd uninit sz)
                   (0x0040, \<lparr>d_bus = s, d_slv = slv, d_value32 = le32 value32, d_buf = static_buf,
                             d_free_pdo_index = 0\<rparr>)) id;
          Some ((d_slv st)\<lparr>ei_read_eeprom := True\<rparr>, d_bus st)
        }
        else Some (slv, s)
      })"

section \<open>Termination\<close>


section \<open>The strings category\<close>

text \<open>The layout of the category behind the number of strings, and a stored string.\<close>

definition encode_strings :: "bytes list \<Rightarrow> bytes" where
  "encode_strings ss = concat (map (\<lambda>s. of_nat (length s) # s) ss)"

definition c_string :: "bytes \<Rightarrow> bytes" where
  "c_string = takeWhile (\<lambda>c. c \<noteq> 0)"

lemma strncpy_exact: "0 \<notin> set s \<Longrightarrow> strncpy (length s) (s @ ys) = Some s"
proof -
  assume z: "0 \<notin> set s"
  have "takeWhile (\<lambda>c. c \<noteq> 0) s = s" using z by (induction s) auto
  then show ?thesis by (simp add: strncpy_def Let_def del: takeWhile_eq_all_conv)
qed

lemma c_string_put:
  assumes "0 \<notin> set s" "length s < length t"
  shows "c_string (put_at 0 (s @ [0]) t) = s"
proof -
  have "takeWhile (\<lambda>c. c \<noteq> 0) (s @ 0 # ys) = s" for ys using assms(1) by (induction s) auto
  then show ?thesis by (simp add: c_string_def put_at_def)
qed

lemma parse_strings_encode:
  assumes "\<forall>s\<in>set ss. length s \<le> 127 \<and> 0 \<notin> set s" "\<forall>t\<in>set strings. length t = LEC_MAX_STRING_LEN"
    and "i + length ss \<le> LEC_MAX_EEPROM_CAT_STRINGS" "length strings = LEC_MAX_EEPROM_CAT_STRINGS"
    and "length pre + length (encode_strings ss) \<le> limit"
  shows "\<exists>r. parse_strings (pre @ encode_strings ss @ rest) limit (length pre) i (length ss) strings = Some r \<and>
     (\<forall>j<length ss. c_string (r ! (i + j)) = ss ! j) \<and> (\<forall>j<i. r ! j = strings ! j)"
  using assms
proof (induction ss arbitrary: pre i strings)
  case Nil
  then show ?case by simp
next
  case (Cons s ss)
  let ?pre = "pre @ of_nat (length s) # s"
  have s: "length s \<le> 127" "0 \<notin> set s" using Cons.prems(1) by auto
  have ul: "unat (of_nat (length s) :: u8) = length s" using s(1) by (simp add: unat_of_nat)
  have buf: "pre @ encode_strings (s # ss) @ rest = ?pre @ encode_strings ss @ rest"
    by (simp add: encode_strings_def)
  have cp: "strncpy (length s) (s @ encode_strings ss @ rest) = Some s" by (rule strncpy_exact[OF s(2)])
  let ?strings = "strings[i := put_at 0 (s @ [0]) (strings ! i)]"
  have i: "i < length strings" using Cons.prems(3,4) by simp
  have li: "length (strings ! i) = LEC_MAX_STRING_LEN" using Cons.prems(2) i by auto
  have "length (put_at 0 (s @ [0]) (strings ! i)) = LEC_MAX_STRING_LEN"
    using s(1) li by (simp add: buf_simps)
  then have st: "\<forall>t\<in>set ?strings. length t = LEC_MAX_STRING_LEN"
    using Cons.prems(2) set_update_subset_insert[of strings i] by fastforce
  have lim: "length ?pre + length (encode_strings ss) \<le> limit"
    using Cons.prems(5) by (simp add: encode_strings_def)
  obtain r where r: "parse_strings (?pre @ encode_strings ss @ rest) limit (length ?pre) (i + 1) (length ss) ?strings = Some r"
      "\<forall>j<length ss. c_string (r ! (i + 1 + j)) = ss ! j" "\<forall>j<i + 1. r ! j = ?strings ! j"
    using Cons.IH[OF _ st _ _ lim, of "i + 1"] Cons.prems(1,3,4) by auto
  have "parse_strings (pre @ encode_strings (s # ss) @ rest) limit (length pre) i (length (s # ss)) strings = Some r"
    unfolding buf using s ul cp r(1) i lim Cons.prems(3,4)
    by (simp add: Let_def nth_append)
  moreover have "c_string (r ! (i + j)) = (s # ss) ! j" if "j < length (s # ss)" for j
  proof (cases j)
    case 0
    have "length s < length (strings ! i)" using s(1) li by simp
    from c_string_put[OF s(2) this] show ?thesis using r(3) i 0 by simp
  next
    case (Suc k)
    then show ?thesis using r(2) that by simp
  qed
  moreover have "\<forall>j<i. r ! j = strings ! j" using r(3) by simp
  ultimately show ?case by blast
qed

text \<open>
  C13: reading back the strings category gives the strings that were stored in it, for up to 128
  strings of up to 127 characters.
\<close>

theorem eeprom_strings_roundtrip:
  assumes "\<forall>s\<in>set ss. length s \<le> 127 \<and> 0 \<notin> set s" "length ss \<le> LEC_MAX_EEPROM_CAT_STRINGS"
    and "length (ei_strings (d_slv st)) = LEC_MAX_EEPROM_CAT_STRINGS"
    and "\<forall>t\<in>set (ei_strings (d_slv st)). length t = LEC_MAX_STRING_LEN"
    and "2 * cat_len \<le> length (d_buf st)"
    and "rd (cat_offset + 2) (take (2 * cat_len) (d_buf st)) (d_bus st)
           = Some (ret, of_nat (length ss) # encode_strings ss @ pad, s')"
    and "length (of_nat (length ss) # encode_strings ss @ pad) = 2 * cat_len"
  shows "\<exists>st'. cat_strings rd cat_offset cat_len st = Some st' \<and>
     unat (ei_strings_cnt (d_slv st')) = length ss \<and>
     (\<forall>j<length ss. c_string (ei_strings (d_slv st') ! j) = ss ! j)"
proof -
  let ?bs = "of_nat (length ss) # encode_strings ss @ pad"
  have u: "unat (of_nat (length ss) :: u8) = length ss" using assms(2) by (simp add: unat_of_nat)
  have buf: "put_at 0 ?bs (d_buf st) = [of_nat (length ss)] @ encode_strings ss @ (pad @ drop (length ?bs) (d_buf st))"
    by (simp add: put_at_def)
  obtain r where r: "parse_strings (put_at 0 ?bs (d_buf st)) (2 * cat_len) 1 0 (length ss) (ei_strings (d_slv st)) = Some r"
      "\<forall>j<length ss. c_string (r ! j) = ss ! j"
    using parse_strings_encode[OF assms(1,4), of 0 "[of_nat (length ss)]" "2 * cat_len"
        "pad @ drop (length ?bs) (d_buf st)"] assms(2,3,7)
    unfolding buf by auto
  have "put_at 0 ?bs (d_buf st) ! 0 = of_nat (length ss)" unfolding buf by simp
  then show ?thesis
    using assms(5,6) r u by (simp add: cat_strings_def mult.commute Let_def)
qed

definition demo_strings_dump :: "unit dump" where
  "demo_strings_dump = \<lparr>d_bus = (), d_slv =
     \<lparr>ei_read_eeprom = False, ei_vendor_id = 0, ei_product_code = 0, ei_revision_numer = 0,
      ei_serial_number = 0, ei_mbx_supported = 0, ei_mbx_receive_offset = 0, ei_mbx_receive_size = 0,
      ei_mbx_send_offset = 0, ei_mbx_send_size = 0, ei_boot_mbx_receive_offset = 0,
      ei_boot_mbx_receive_size = 0, ei_boot_mbx_send_offset = 0, ei_boot_mbx_send_size = 0,
      ei_general = replicate 14 0, ei_strings_cnt = 0, ei_strings = replicate 128 (replicate 128 0),
      ei_sms_cnt = 0, ei_sms = replicate 8 [], ei_fmmus_cnt = 0, ei_fmmus = replicate 8 0, ei_free_pdos = [],
      ei_txpdos = [], ei_rxpdos = [], ei_dcs_cnt = 0, ei_dcs = [], es_sm_ch = 4, es_sm = [], es_fmmu_ch = 4,
      es_fmmu_type = replicate 8 0\<rparr>, d_value32 = [0, 0, 0, 0], d_buf = replicate 4096 0, d_free_pdo_index = 0\<rparr>"

theorem eeprom_strings_roundtrip_witness:
  "\<exists>st'. cat_strings (\<lambda>a b s. Some (EC_OK, [2, 2, 69, 76, 1, 50], s)) 0x40 3 demo_strings_dump = Some st' \<and>
     unat (ei_strings_cnt (d_slv st')) = 2 \<and>
     (\<forall>j<2. c_string (ei_strings (d_slv st') ! j) = [[69, 76], [50]] ! j)"
proof -
  let ?ss = "[[69, 76], [50]] :: bytes list"
  have "\<exists>st'. cat_strings (\<lambda>a b s. Some (EC_OK, [2, 2, 69, 76, 1, 50], s)) 0x40 3 demo_strings_dump = Some st' \<and>
     unat (ei_strings_cnt (d_slv st')) = length ?ss \<and>
     (\<forall>j<length ?ss. c_string (ei_strings (d_slv st') ! j) = ?ss ! j)"
    by (rule eeprom_strings_roundtrip[where pad = "[]" and ret = EC_OK and s' = "()"])
       (simp_all add: demo_strings_dump_def encode_strings_def)
  then show ?thesis by (simp add: numeral_2_eq_2)
qed

section \<open>The distributed clocks category\<close>

text \<open>
  whenever the category has an entry, the parser writes \<^verbatim>\<open>EC_EEPROM_CAT_DC_LEN\<close> = 25 bytes
  into the 24 bytes of the local variable \<^verbatim>\<open>tmp_dc\<close>.
\<close>

theorem cat_dc_overruns_local:
  assumes "12 \<le> cat_len" "cat_len < 3072"
  shows "cat_dc rd uninit cat_offset cat_len st = None"
proof -
  have "0 < unat (of_nat (cat_len div 12) :: u8)" using assms by (simp add: unat_of_nat)
  then obtain k where "unat (of_nat (cat_len div 12) :: u8) = Suc k" by (cases "unat (of_nat (cat_len div 12) :: u8)") auto
  then show ?thesis by (simp add: cat_dc_def Let_def)
qed

theorem cat_dc_overruns_local_witness:
  "cat_dc (\<lambda>a b s. Some (EC_OK, b, s)) (\<lambda>n. replicate n 0) 0x40 12 demo_strings_dump = None"
  by (rule cat_dc_overruns_local) simp_all

end
