(* ===== verification/PdMapping.thy ===== *)
theory PdMapping
  imports Eeprom_Cat
begin

text \<open>
  The process data groups of \<^verbatim>\<open>src/ec.c\<close> and the two functions that lay out the logical
  process image of a group, \<^verbatim>\<open>ec_create_logical_mapping\<close> and
  \<^verbatim>\<open>ec_create_logical_mapping_overlapping\<close>. A pointer into the image \<^verbatim>\<open>pd->pd\<close> is
  its offset. An access outside \<^verbatim>\<open>slv->fmmu\<close> or \<^verbatim>\<open>slv->sm\<close> is \<^term>\<open>None\<close>.
\<close>

section \<open>Data\<close>

record pd_group =
  pg_group :: nat
  pg_log :: u32
  pg_log_len :: nat
  pg_pd :: bytes
  pg_pdout_len :: nat
  pg_pdin_len :: nat
  pg_pd_lrw_len :: nat
  pg_use_lrw :: bool
  pg_overlapping :: bool
  pg_skip_pd_on_wkc_mismatch :: bool
  pg_wkc_expected_lrw :: u16
  pg_wkc_expected_lrd :: u16
  pg_wkc_expected_lwr :: u16
  pg_wkc_mismatch_cnt_lrw :: nat
  pg_wkc_mismatch_cnt_lrd :: nat
  pg_wkc_mismatch_cnt_lwr :: nat
  pg_recv_missed_lrw :: nat
  pg_recv_missed_lrd :: nat
  pg_recv_missed_lwr :: nat
  pg_log_mbx_state :: u32
  pg_log_mbx_state_len :: nat
  pg_wkc_expected_mbx_state :: u16
  pg_wkc_mismatch_cnt_mbx_state :: nat
  pg_divisor :: nat
  pg_divisor_cnt :: nat

record fmmu =
  fm_log :: u32
  fm_log_len :: u16
  fm_log_bit_start :: u8
  fm_log_bit_stop :: u8
  fm_phys :: u16
  fm_phys_bit_start :: u8
  fm_type :: u8
  fm_active :: u8
  fm_reserved :: bytes

text \<open>\<^verbatim>\<open>ec_pd_t\<close>: a pointer into the process image and a length.\<close>

record ec_pd =
  pd_ptr :: nat
  pd_len :: nat

record subdev =
  sd_pdin :: ec_pd
  sd_pdout :: ec_pd

text \<open>The fields of \<^verbatim>\<open>ec_slave_t\<close> that the mapping reads and writes.\<close>

record map_slave =
  ms_assigned_pd_group :: int
  ms_mbx_supported :: u16
  ms_sm_ch :: u8
  ms_sm :: "slave_sm list"
  ms_fmmu_ch :: u8
  ms_fmmu :: "fmmu list"
  ms_pdin :: ec_pd
  ms_pdout :: ec_pd
  ms_subdevs :: "subdev list"
  ms_sm_state_bitno :: nat
  ms_sm_state_null :: bool

section \<open>Process data groups\<close>

text \<open>The part of \<^verbatim>\<open>ec_create_pd_groups\<close> for the group \<open>i\<close>; \<open>g\<close> is the old contents.\<close>

definition init_pd_group :: "nat \<Rightarrow> pd_group \<Rightarrow> pd_group" where
  "init_pd_group i g =
     g\<lparr>pg_group := i, pg_log := 0x10000 * (of_nat i + 1), pg_log_len := 0, pg_pdout_len := 0,
       pg_pdin_len := 0, pg_use_lrw := True, pg_overlapping := True,
       pg_skip_pd_on_wkc_mismatch := False, pg_wkc_mismatch_cnt_lrw := 0, pg_wkc_mismatch_cnt_lrd := 0,
       pg_wkc_mismatch_cnt_lwr := 0, pg_recv_missed_lrw := 0, pg_recv_missed_lrd := 0, pg_recv_missed_lwr := 0,
       pg_log_mbx_state := 0x9000000 + of_nat i * 1000, pg_log_mbx_state_len := 0,
       pg_wkc_expected_mbx_state := 0, pg_wkc_mismatch_cnt_mbx_state := 0,
       pg_divisor := 1, pg_divisor_cnt := 0\<rparr>"

definition ec_create_pd_groups :: "nat \<Rightarrow> pd_group list \<Rightarrow> int \<times> pd_group list" where
  "ec_create_pd_groups cnt groups =
     (0, map (\<lambda>i. if i < cnt then init_pd_group i (groups ! i) else groups ! i) [0..<length groups])"

definition ec_configure_pd_group :: "nat \<Rightarrow> int \<Rightarrow> pd_group list \<Rightarrow> pd_group list" where
  "ec_configure_pd_group grp clock_divisor groups =
     (if clock_divisor > 0 then groups[grp := (groups ! grp)\<lparr>pg_divisor := nat clock_divisor\<rparr>] else groups)"

section \<open>The sync managers of a slave\<close>

definition sm_is_output :: "slave_sm \<Rightarrow> bool" where
  "sm_is_output sm \<longleftrightarrow> sm_flags sm AND 0x00000004 \<noteq> 0"

definition start_sm :: "map_slave \<Rightarrow> nat" where
  "start_sm s = (if ms_mbx_supported s \<noteq> 0 then 2 else 0)"

text \<open>The sync managers from \<open>start_sm\<close> to \<open>sm_ch\<close>.\<close>

definition process_sms :: "map_slave \<Rightarrow> slave_sm list option" where
  "process_sms s =
     (if unat (ms_sm_ch s) \<le> length (ms_sm s) \<or> unat (ms_sm_ch s) \<le> start_sm s
      then Some (drop (start_sm s) (take (unat (ms_sm_ch s)) (ms_sm s))) else None)"

definition out_len :: "slave_sm list \<Rightarrow> nat" where
  "out_len sms = sum_list (map (\<lambda>sm. unat (sm_len sm)) (filter sm_is_output sms))"

definition in_len :: "slave_sm list \<Rightarrow> nat" where
  "in_len sms = sum_list (map (\<lambda>sm. unat (sm_len sm)) (filter (\<lambda>sm. \<not> sm_is_output sm) sms))"

fun subdevs_out :: "nat \<Rightarrow> nat \<Rightarrow> subdev list \<Rightarrow> subdev list" where
  "subdevs_out base off [] = []"
| "subdevs_out base off (d # ds) =
     d\<lparr>sd_pdout := (sd_pdout d)\<lparr>pd_ptr := base + off\<rparr>\<rparr> # subdevs_out base (off + pd_len (sd_pdout d)) ds"

fun subdevs_in :: "nat \<Rightarrow> nat \<Rightarrow> subdev list \<Rightarrow> subdev list" where
  "subdevs_in base off [] = []"
| "subdevs_in base off (d # ds) =
     d\<lparr>sd_pdin := (sd_pdin d)\<lparr>pd_ptr := base + off\<rparr>\<rparr> # subdevs_in base (off + pd_len (sd_pdin d)) ds"

text \<open>The pointer is set when the length is zero, otherwise only the length grows.\<close>

definition pd_extend :: "nat \<Rightarrow> nat \<Rightarrow> ec_pd \<Rightarrow> ec_pd" where
  "pd_extend ptr len p =
     (if pd_len p = 0 then p\<lparr>pd_ptr := ptr, pd_len := len\<rparr> else p\<lparr>pd_len := pd_len p + len\<rparr>)"

definition fmmu_data :: "u32 \<Rightarrow> slave_sm \<Rightarrow> u8 \<Rightarrow> fmmu \<Rightarrow> fmmu" where
  "fmmu_data log sm t f =
     f\<lparr>fm_log := log, fm_log_len := sm_len sm, fm_log_bit_stop := 7, fm_phys := sm_adr sm,
       fm_type := t, fm_active := 1\<rparr>"

definition set_fmmu :: "nat \<Rightarrow> (fmmu \<Rightarrow> fmmu) \<Rightarrow> map_slave \<Rightarrow> map_slave option" where
  "set_fmmu i f s =
     (if i < length (ms_fmmu s) then Some (s\<lparr>ms_fmmu := (ms_fmmu s)[i := f (ms_fmmu s ! i)]\<rparr>) else None)"

section \<open>ec\_create\_logical\_mapping\<close>

text \<open>The variables of the loop over the sync managers of one slave.\<close>

record map_st =
  mp_slv :: map_slave
  mp_fmmu_next :: nat
  mp_pdout :: nat
  mp_pdin :: nat
  mp_log_base_out :: u32
  mp_log_base_in :: u32
  mp_wkc_lrd :: nat
  mp_wkc_lwr :: nat

definition map_sm :: "slave_sm \<Rightarrow> map_st \<Rightarrow> map_st option" where
  "map_sm sm st =
     (let slv = mp_slv st; len = unat (sm_len sm); free = mp_fmmu_next st < unat (ms_fmmu_ch slv)
      in if len = 0 then Some st
         else if sm_is_output sm
         then map_option (\<lambda>st. st\<lparr>mp_pdout := mp_pdout st + len,
                                  mp_log_base_out := mp_log_base_out st + of_nat len,
                                  mp_fmmu_next := mp_fmmu_next st + 1\<rparr>)
               (if free
                then map_option (\<lambda>slv. st\<lparr>mp_wkc_lwr := mp_wkc_lwr st + 1, mp_slv :=
                        slv\<lparr>ms_pdout := pd_extend (mp_pdout st) len (ms_pdout slv),
                            ms_subdevs := subdevs_out (mp_pdout st) 0 (ms_subdevs slv)\<rparr>\<rparr>)
                      (set_fmmu (mp_fmmu_next st) (fmmu_data (mp_log_base_out st) sm 2) slv)
                else Some st)
         else map_option (\<lambda>st. st\<lparr>mp_pdin := mp_pdin st + len,
                                  mp_log_base_in := mp_log_base_in st + of_nat len,
                                  mp_fmmu_next := mp_fmmu_next st + 1\<rparr>)
               (if free
                then map_option (\<lambda>slv. st\<lparr>mp_wkc_lrd := mp_wkc_lrd st + 1, mp_slv :=
                        slv\<lparr>ms_pdin := pd_extend (mp_pdin st) len (ms_pdin slv),
                            ms_subdevs := subdevs_in (mp_pdin st) 0 (ms_subdevs slv)\<rparr>\<rparr>)
                      (set_fmmu (mp_fmmu_next st) (fmmu_data (mp_log_base_in st) sm 1) slv)
                else Some st))"

fun map_sms :: "slave_sm list \<Rightarrow> map_st \<Rightarrow> map_st option" where
  "map_sms [] st = Some st"
| "map_sms (sm # sms) st = Option.bind (map_sm sm st) (map_sms sms)"

text \<open>The FMMU that maps the mailbox-full bit of the read mailbox into the state area.\<close>

definition map_mbx_state ::
  "u32 \<Rightarrow> nat \<Rightarrow> map_slave \<times> nat \<times> u16 \<Rightarrow> (map_slave \<times> nat \<times> u16) option" where
  "map_mbx_state log_base fmmu_next = (\<lambda>(slv, bitlen, wkc).
     if ms_mbx_supported slv = 0 then Some (slv, bitlen, wkc)
     else if fmmu_next < unat (ms_fmmu_ch slv)
     then map_option (\<lambda>slv. (slv\<lparr>ms_sm_state_bitno := bitlen\<rparr>, bitlen + 1, wkc + 1))
            (set_fmmu fmmu_next (\<lambda>f. f\<lparr>fm_log := log_base + of_nat (bitlen div 8), fm_log_len := 1,
                fm_log_bit_start := of_nat (bitlen mod 8), fm_log_bit_stop := of_nat (bitlen mod 8),
                fm_phys_bit_start := 3, fm_phys := of_nat EC_REG_SM1STAT, fm_type := 1, fm_active := 1\<rparr>) slv)
     else Some (slv\<lparr>ms_sm_state_null := True\<rparr>, bitlen, wkc))"

text \<open>The variables of the loop over the slaves.\<close>

record grp_st =
  gs_pd :: pd_group
  gs_pdout :: nat
  gs_pdin :: nat
  gs_log_base_out :: u32
  gs_log_base_in :: u32
  gs_bitlen :: nat

definition map_slave_into :: "nat \<Rightarrow> map_slave \<Rightarrow> grp_st \<Rightarrow> (map_slave \<times> grp_st) option" where
  "map_slave_into grp slv g =
     (if ms_assigned_pd_group slv \<noteq> int grp then Some (slv, g)
      else do {
        sms \<leftarrow> process_sms slv;
        st \<leftarrow> map_sms sms \<lparr>mp_slv = slv, mp_fmmu_next = 0, mp_pdout = gs_pdout g, mp_pdin = gs_pdin g,
                mp_log_base_out = gs_log_base_out g, mp_log_base_in = gs_log_base_in g,
                mp_wkc_lrd = 0, mp_wkc_lwr = 0\<rparr>;
        let pd = gs_pd g;
        (slv, bitlen, wkc_mbx) \<leftarrow> map_mbx_state (pg_log_mbx_state pd) (mp_fmmu_next st)
                                   (mp_slv st, gs_bitlen g, pg_wkc_expected_mbx_state pd);
        Some (slv, g\<lparr>gs_pdout := mp_pdout st, gs_pdin := mp_pdin st, gs_log_base_out := mp_log_base_out st,
                     gs_log_base_in := mp_log_base_in st, gs_bitlen := bitlen,
                     gs_pd := pd\<lparr>pg_wkc_expected_mbx_state := wkc_mbx,
                        pg_wkc_expected_lrd := pg_wkc_expected_lrd pd + of_nat (mp_wkc_lrd st),
                        pg_wkc_expected_lwr := pg_wkc_expected_lwr pd + of_nat (mp_wkc_lwr st),
                        pg_wkc_expected_lrw := pg_wkc_expected_lrw pd
                           + of_nat (mp_wkc_lrd st + 2 * mp_wkc_lwr st)\<rparr>\<rparr>)
      })"

fun map_slaves ::
  "(map_slave \<Rightarrow> 'g \<Rightarrow> (map_slave \<times> 'g) option) \<Rightarrow> map_slave list \<Rightarrow> 'g \<Rightarrow> (map_slave list \<times> 'g) option" where
  "map_slaves f [] g = Some ([], g)"
| "map_slaves f (s # ss) g =
     Option.bind (f s g) (\<lambda>(s, g). map_option (\<lambda>(ss, g). (s # ss, g)) (map_slaves f ss g))"

text \<open>The lengths of the group: the first loop over the slaves.\<close>

fun group_lens :: "nat \<Rightarrow> map_slave list \<Rightarrow> nat \<times> nat \<Rightarrow> (nat \<times> nat) option" where
  "group_lens grp [] l = Some l"
| "group_lens grp (s # ss) l =
     (if ms_assigned_pd_group s \<noteq> int grp then group_lens grp ss l
      else Option.bind (process_sms s) (\<lambda>sms.
             group_lens grp ss (fst l + out_len sms, snd l + in_len sms)))"

definition ec_create_logical_mapping ::
  "nat \<Rightarrow> map_slave list \<Rightarrow> pd_group \<Rightarrow> (map_slave list \<times> pd_group) option" where
  "ec_create_logical_mapping grp slaves pd = do {
     (pdout_len, pdin_len) \<leftarrow> group_lens grp slaves (0, 0);
     let pd = pd\<lparr>pg_pdout_len := pdout_len, pg_pdin_len := pdin_len, pg_log_len := pdout_len + pdin_len,
                 pg_wkc_expected_lrd := 0, pg_wkc_expected_lrw := 0, pg_log_mbx_state_len := 0,
                 pg_wkc_expected_mbx_state := 0\<rparr>;
     (slaves, g) \<leftarrow> map_slaves (map_slave_into grp) slaves
        \<lparr>gs_pd = pd, gs_pdout = 0, gs_pdin = pdout_len, gs_log_base_out = pg_log pd,
         gs_log_base_in = pg_log pd + of_nat pdout_len, gs_bitlen = 0\<rparr>;
     Some (slaves, (gs_pd g)\<lparr>pg_log_mbx_state_len := (gs_bitlen g + 7) div 8\<rparr>)
   }"

section \<open>ec\_create\_logical\_mapping\_overlapping\<close>

text \<open>
  Inputs and outputs share the logical area of a slave; the working counter a slave adds is
  collected in two bits.
\<close>

record ovl_st =
  ov_slv :: map_slave
  ov_fmmu_next :: nat
  ov_tmp_pdout :: nat
  ov_tmp_pdin :: nat
  ov_log_base_out :: u32
  ov_log_base_in :: u32
  ov_wkc_lrw :: u16

definition ovl_sm :: "nat \<Rightarrow> nat \<Rightarrow> slave_sm \<Rightarrow> ovl_st \<Rightarrow> ovl_st option" where
  "ovl_sm pdout pdin sm st =
     (let slv = ov_slv st; len = unat (sm_len sm); free = ov_fmmu_next st < unat (ms_fmmu_ch slv)
      in if len = 0 then Some st
         else if sm_is_output sm
         then map_option (\<lambda>st. st\<lparr>ov_tmp_pdout := ov_tmp_pdout st + len,
                                  ov_log_base_out := ov_log_base_out st + of_nat len,
                                  ov_fmmu_next := ov_fmmu_next st + 1\<rparr>)
               (if free
                then map_option (\<lambda>slv. st\<lparr>ov_wkc_lrw := ov_wkc_lrw st OR 2, ov_slv :=
                        slv\<lparr>ms_pdout := pd_extend (ov_tmp_pdout st) len (ms_pdout slv),
                            ms_subdevs := subdevs_out pdout 0 (ms_subdevs slv)\<rparr>\<rparr>)
                      (set_fmmu (ov_fmmu_next st) (fmmu_data (ov_log_base_out st) sm 2) slv)
                else Some st)
         else map_option (\<lambda>st. st\<lparr>ov_tmp_pdin := ov_tmp_pdin st + len,
                                  ov_log_base_in := ov_log_base_in st + of_nat len,
                                  ov_fmmu_next := ov_fmmu_next st + 1\<rparr>)
               (if free
                then map_option (\<lambda>slv. st\<lparr>ov_wkc_lrw := ov_wkc_lrw st OR 1, ov_slv :=
                        slv\<lparr>ms_pdin := pd_extend (ov_tmp_pdin st) len (ms_pdin slv),
                            ms_subdevs := subdevs_in pdin 0 (ms_subdevs slv)\<rparr>\<rparr>)
                      (set_fmmu (ov_fmmu_next st) (fmmu_data (ov_log_base_in st) sm 1) slv)
                else Some st))"

fun ovl_sms :: "nat \<Rightarrow> nat \<Rightarrow> slave_sm list \<Rightarrow> ovl_st \<Rightarrow> ovl_st option" where
  "ovl_sms pdout pdin [] st = Some st"
| "ovl_sms pdout pdin (sm # sms) st = Option.bind (ovl_sm pdout pdin sm st) (ovl_sms pdout pdin sms)"

record ovg_st =
  og_pd :: pd_group
  og_pdout :: nat
  og_pdin :: nat
  og_log_base :: u32
  og_bitlen :: nat

definition ovl_slave_into :: "nat \<Rightarrow> map_slave \<Rightarrow> ovg_st \<Rightarrow> (map_slave \<times> ovg_st) option" where
  "ovl_slave_into grp slv g =
     (if ms_assigned_pd_group slv \<noteq> int grp then Some (slv, g)
      else do {
        sms \<leftarrow> process_sms slv;
        st \<leftarrow> ovl_sms (og_pdout g) (og_pdin g) sms
               \<lparr>ov_slv = slv, ov_fmmu_next = 0, ov_tmp_pdout = og_pdout g, ov_tmp_pdin = og_pdin g,
                ov_log_base_out = og_log_base g, ov_log_base_in = og_log_base g, ov_wkc_lrw = 0\<rparr>;
        let pd = og_pd g;
        (slv, bitlen, wkc_mbx) \<leftarrow> map_mbx_state (pg_log_mbx_state pd) (ov_fmmu_next st)
                                   (ov_slv st, og_bitlen g, pg_wkc_expected_mbx_state pd);
        let m = max (pd_len (ms_pdin slv)) (pd_len (ms_pdout slv));
        Some (slv, g\<lparr>og_pdin := og_pdin g + m, og_pdout := og_pdout g + m,
                     og_log_base := max (ov_log_base_in st) (ov_log_base_out st), og_bitlen := bitlen,
                     og_pd := pd\<lparr>pg_wkc_expected_mbx_state := wkc_mbx,
                        pg_wkc_expected_lrw := pg_wkc_expected_lrw pd + ov_wkc_lrw st\<rparr>\<rparr>)
      })"

text \<open>The first loop: every slave counts with the larger of its two lengths.\<close>

fun ovl_lens :: "nat \<Rightarrow> map_slave list \<Rightarrow> nat \<Rightarrow> nat option" where
  "ovl_lens grp [] l = Some l"
| "ovl_lens grp (s # ss) l =
     (if ms_assigned_pd_group s \<noteq> int grp then ovl_lens grp ss l
      else Option.bind (process_sms s) (\<lambda>sms. ovl_lens grp ss (l + max (out_len sms) (in_len sms))))"

definition ec_create_logical_mapping_overlapping ::
  "nat \<Rightarrow> map_slave list \<Rightarrow> pd_group \<Rightarrow> (map_slave list \<times> pd_group) option" where
  "ec_create_logical_mapping_overlapping grp slaves pd = do {
     len \<leftarrow> ovl_lens grp slaves 0;
     let pd = pd\<lparr>pg_pdout_len := len, pg_pdin_len := len, pg_pd_lrw_len := len, pg_log_len := len,
                 pg_wkc_expected_lrw := 0, pg_log_mbx_state_len := 0, pg_wkc_expected_mbx_state := 0\<rparr>;
     (slaves, g) \<leftarrow> map_slaves (ovl_slave_into grp) slaves
        \<lparr>og_pd = pd, og_pdout = 0, og_pdin = len, og_log_base = pg_log pd, og_bitlen = 0\<rparr>;
     Some (slaves, (og_pd g)\<lparr>pg_log_mbx_state_len := (og_bitlen g + 7) div 8\<rparr>)
   }"

section \<open>What one slave gets\<close>

text \<open>
  A window of the logical address space: the FMMU's logical address, length, physical address
  and direction. \<open>wins\<close> is the layout that is meant: the outputs one after the other from \<open>lo\<close>,
  the inputs from \<open>li\<close>.
\<close>

definition win_of :: "fmmu \<Rightarrow> u32 \<times> u16 \<times> u16 \<times> u8" where
  "win_of f = (fm_log f, fm_log_len f, fm_phys f, fm_type f)"

fun wins :: "u32 \<Rightarrow> u32 \<Rightarrow> slave_sm list \<Rightarrow> (u32 \<times> u16 \<times> u16 \<times> u8) list" where
  "wins lo li [] = []"
| "wins lo li (sm # sms) =
     (if sm_len sm = 0 then wins lo li sms
      else if sm_is_output sm then (lo, sm_len sm, sm_adr sm, 2) # wins (lo + of_nat (unat (sm_len sm))) li sms
      else (li, sm_len sm, sm_adr sm, 1) # wins lo (li + of_nat (unat (sm_len sm))) sms)"

lemma out_in_len_Cons:
  "out_len (sm # sms) = (if sm_is_output sm then unat (sm_len sm) else 0) + out_len sms"
  "in_len (sm # sms) = (if sm_is_output sm then 0 else unat (sm_len sm)) + in_len sms"
  by (simp_all add: out_len_def in_len_def)

lemma out_in_len_Nil [simp]: "out_len [] = 0" "in_len [] = 0"
  by (simp_all add: out_len_def in_len_def)

lemma unat_eq_0 [simp]: "unat (w :: 'a::len word) = 0 \<longleftrightarrow> w = 0"
  by (simp add: unat_eq_0)

lemma set_fmmu_simps:
  "set_fmmu i f s = Some s' \<Longrightarrow> ms_fmmu s' = (ms_fmmu s)[i := f (ms_fmmu s ! i)] \<and> i < length (ms_fmmu s) \<and>
     ms_fmmu_ch s' = ms_fmmu_ch s \<and> ms_pdout s' = ms_pdout s \<and> ms_pdin s' = ms_pdin s \<and>
     ms_subdevs s' = ms_subdevs s"
  by (auto simp: set_fmmu_def split: if_splits)

lemma win_of_fmmu_data [simp]: "win_of (fmmu_data log sm t f) = (log, sm_len sm, sm_adr sm, t)"
  by (simp add: win_of_def fmmu_data_def)

text \<open>
  What the loop over the sync managers \<open>sms\<close> does to the slave, the offsets in the image and the
  logical addresses.
\<close>

definition n_out :: "slave_sm list \<Rightarrow> nat" where
  "n_out sms = length (filter (\<lambda>sm. sm_len sm \<noteq> 0 \<and> sm_is_output sm) sms)"

definition n_in :: "slave_sm list \<Rightarrow> nat" where
  "n_in sms = length (filter (\<lambda>sm. sm_len sm \<noteq> 0 \<and> \<not> sm_is_output sm) sms)"

definition pd_after :: "nat \<Rightarrow> nat \<Rightarrow> ec_pd \<Rightarrow> ec_pd" where
  "pd_after ptr len p = (if len = 0 then p else pd_extend ptr len p)"

definition mapped :: "slave_sm list \<Rightarrow> map_st \<Rightarrow> map_st \<Rightarrow> bool" where
  "mapped sms st st' \<longleftrightarrow>
     (let ws = wins (mp_log_base_out st) (mp_log_base_in st) sms; n = mp_fmmu_next st in
        mp_fmmu_next st' = n + length ws \<and>
        map win_of (take (length ws) (drop n (ms_fmmu (mp_slv st')))) = ws \<and>
        take n (ms_fmmu (mp_slv st')) = take n (ms_fmmu (mp_slv st))) \<and>
     length (ms_fmmu (mp_slv st')) = length (ms_fmmu (mp_slv st)) \<and>
     ms_fmmu_ch (mp_slv st') = ms_fmmu_ch (mp_slv st) \<and>
     ms_pdout (mp_slv st') = pd_after (mp_pdout st) (out_len sms) (ms_pdout (mp_slv st)) \<and>
     ms_pdin (mp_slv st') = pd_after (mp_pdin st) (in_len sms) (ms_pdin (mp_slv st)) \<and>
     mp_pdout st' = mp_pdout st + out_len sms \<and> mp_pdin st' = mp_pdin st + in_len sms \<and>
     mp_log_base_out st' = mp_log_base_out st + of_nat (out_len sms) \<and>
     mp_log_base_in st' = mp_log_base_in st + of_nat (in_len sms) \<and>
     mp_wkc_lwr st' = mp_wkc_lwr st + n_out sms \<and> mp_wkc_lrd st' = mp_wkc_lrd st + n_in sms"

lemma pd_after_step:
  "0 < len \<Longrightarrow> pd_after (ptr + len) l (pd_extend ptr len p) = pd_after ptr (len + l) p"
  "pd_after ptr 0 p = p"
  by (auto simp: pd_after_def pd_extend_def)

lemma pd_after_append: "pd_after (ptr + l1) l2 (pd_after ptr l1 p) = pd_after ptr (l1 + l2) p"
  by (auto simp: pd_after_def pd_extend_def)

text \<open>One sync manager with a free FMMU.\<close>

lemma map_sm_step:
  assumes "sm_len sm \<noteq> 0" "mp_fmmu_next st < unat (ms_fmmu_ch (mp_slv st))"
    and "unat (ms_fmmu_ch (mp_slv st)) \<le> length (ms_fmmu (mp_slv st))"
  shows "\<exists>st'. map_sm sm st = Some st' \<and> mapped [sm] st st'"
proof -
  have i: "mp_fmmu_next st < length (ms_fmmu (mp_slv st))" using assms(2,3) by simp
  have "unat (sm_len sm) \<noteq> 0" using assms(1) by simp
  then show ?thesis
    using assms i
    by (auto simp: map_sm_def mapped_def set_fmmu_def Let_def n_out_def n_in_def out_in_len_Cons pd_after_def
        take_Suc_conv_app_nth drop_update_swap take_update_cancel upd_conv_take_nth_drop hd_drop_conv_nth
        take_Suc)
qed

lemma mapped_Cons:
  assumes "mapped [sm] st st1" "mapped sms st1 st2" "sm_len sm \<noteq> 0"
  shows "mapped (sm # sms) st st2"
proof -
  let ?n = "mp_fmmu_next st"
  let ?w = "if sm_is_output sm then (mp_log_base_out st, sm_len sm, sm_adr sm, 2) else (mp_log_base_in st, sm_len sm, sm_adr sm, 1)"
  have n1: "mp_fmmu_next st1 = ?n + 1" using assms(1,3) by (simp add: mapped_def Let_def)
  have len: "length (ms_fmmu (mp_slv st2)) = length (ms_fmmu (mp_slv st1))"
    using assms(2) by (simp add: mapped_def)
  have w1: "map win_of (take 1 (drop ?n (ms_fmmu (mp_slv st1)))) = [?w]"
    using assms(1,3) by (simp add: mapped_def Let_def split: if_splits)
  then have lt: "?n < length (ms_fmmu (mp_slv st1))" by (cases "?n < length (ms_fmmu (mp_slv st1))") simp_all
  have pre: "take (?n + 1) (ms_fmmu (mp_slv st2)) = take (?n + 1) (ms_fmmu (mp_slv st1))"
    using assms(2) n1 by (simp add: mapped_def Let_def)
  have "take 1 (drop ?n (ms_fmmu (mp_slv st2))) = drop ?n (take (?n + 1) (ms_fmmu (mp_slv st2)))"
    by (simp add: take_drop)
  also have "\<dots> = take 1 (drop ?n (ms_fmmu (mp_slv st1)))" unfolding pre by (simp add: take_drop)
  finally have t1: "take 1 (drop ?n (ms_fmmu (mp_slv st2))) = take 1 (drop ?n (ms_fmmu (mp_slv st1)))" .
  have "take ?n (ms_fmmu (mp_slv st2)) = take ?n (take (?n + 1) (ms_fmmu (mp_slv st2)))" by simp
  also have "\<dots> = take ?n (ms_fmmu (mp_slv st1))" unfolding pre by simp
  finally have t0: "take ?n (ms_fmmu (mp_slv st2)) = take ?n (ms_fmmu (mp_slv st))"
    using assms(1) by (simp add: mapped_def Let_def)
  let ?ws = "wins (mp_log_base_out st1) (mp_log_base_in st1) sms"
  have "take (1 + length ?ws) (drop ?n (ms_fmmu (mp_slv st2)))
      = take 1 (drop ?n (ms_fmmu (mp_slv st2))) @ take (length ?ws) (drop (?n + 1) (ms_fmmu (mp_slv st2)))"
    by (simp only: take_add drop_drop add.commute)
  moreover have "map win_of (take (length ?ws) (drop (?n + 1) (ms_fmmu (mp_slv st2)))) = ?ws"
    using assms(2) n1 by (simp add: mapped_def Let_def)
  ultimately have tw: "map win_of (take (1 + length ?ws) (drop ?n (ms_fmmu (mp_slv st2)))) = ?w # ?ws"
    using t1 w1 by simp
  have wins: "wins (mp_log_base_out st) (mp_log_base_in st) (sm # sms) = ?w # ?ws"
    using assms(1,3) by (simp add: mapped_def Let_def out_in_len_Cons)
  note m = assms(1,2)[unfolded mapped_def Let_def]
  have l: "out_len (sm # sms) = out_len [sm] + out_len sms" "in_len (sm # sms) = in_len [sm] + in_len sms"
      "n_out (sm # sms) = n_out [sm] + n_out sms" "n_in (sm # sms) = n_in [sm] + n_in sms"
    by (simp_all add: out_in_len_Cons n_out_def n_in_def)
  show ?thesis
    unfolding mapped_def wins Let_def l pd_after_append[symmetric]
  proof (intro conjI)
    show "mp_fmmu_next st2 = ?n + length (?w # ?ws)" using m(2) n1 by simp
    show "map win_of (take (length (?w # ?ws)) (drop ?n (ms_fmmu (mp_slv st2)))) = ?w # ?ws" using tw by simp
    show "take ?n (ms_fmmu (mp_slv st2)) = take ?n (ms_fmmu (mp_slv st))" by (rule t0)
  qed (use m in simp_all)
qed

text \<open>With enough FMMUs the windows of a slave are the layout that is meant.\<close>

lemma map_sms_windows:
  assumes "mp_fmmu_next st + length (wins (mp_log_base_out st) (mp_log_base_in st) sms) \<le> unat (ms_fmmu_ch (mp_slv st))"
    and "unat (ms_fmmu_ch (mp_slv st)) \<le> length (ms_fmmu (mp_slv st))"
  shows "\<exists>st'. map_sms sms st = Some st' \<and> mapped sms st st'"
  using assms
proof (induction sms arbitrary: st)
  case Nil
  then show ?case by (simp add: mapped_def n_out_def n_in_def pd_after_step)
next
  case (Cons sm sms)
  show ?case
  proof (cases "sm_len sm = 0")
    case True
    then have "map_sm sm st = Some st" by (simp add: map_sm_def Let_def)
    moreover have "mapped (sm # sms) st st' \<longleftrightarrow> mapped sms st st'" for st'
      using True by (simp add: mapped_def out_in_len_Cons n_out_def n_in_def)
    ultimately show ?thesis using Cons.IH[of st] Cons.prems True by simp
  next
    case False
    then have fr: "mp_fmmu_next st < unat (ms_fmmu_ch (mp_slv st))" using Cons.prems(1) by (auto split: if_splits)
    obtain st1 where st1: "map_sm sm st = Some st1" "mapped [sm] st st1"
      using map_sm_step[OF False fr Cons.prems(2)] by blast
    then have "mp_fmmu_next st1 + length (wins (mp_log_base_out st1) (mp_log_base_in st1) sms)
        \<le> unat (ms_fmmu_ch (mp_slv st1))" "unat (ms_fmmu_ch (mp_slv st1)) \<le> length (ms_fmmu (mp_slv st1))"
      using Cons.prems False by (auto simp: mapped_def Let_def out_in_len_Cons split: if_splits)
    from Cons.IH[OF this] obtain st2 where "map_sms sms st1 = Some st2" "mapped sms st1 st2" by blast
    with st1 mapped_Cons[OF st1(2) _ False] show ?thesis by auto
  qed
qed

section \<open>The layout of a group\<close>

text \<open>
  A slave that can be mapped: its sync managers are inside the array, it has an FMMU for each of
  them that is not empty and one for the mailbox state, and it was not mapped before.
\<close>

definition mappable :: "map_slave \<Rightarrow> bool" where
  "mappable s \<longleftrightarrow> (\<exists>sms. process_sms s = Some sms \<and> n_out sms + n_in sms < unat (ms_fmmu_ch s)) \<and>
     unat (ms_fmmu_ch s) \<le> length (ms_fmmu s) \<and> pd_len (ms_pdout s) = 0 \<and> pd_len (ms_pdin s) = 0"

definition sms_of :: "map_slave \<Rightarrow> slave_sm list" where
  "sms_of s = the (process_sms s)"

text \<open>The windows of a mapped slave are those of its part of the image, moved to the address of the group.\<close>

definition in_image :: "u32 \<Rightarrow> map_slave \<Rightarrow> bool" where
  "in_image log s \<longleftrightarrow> map win_of (take (n_out (sms_of s) + n_in (sms_of s)) (ms_fmmu s))
     = wins (log + of_nat (pd_ptr (ms_pdout s))) (log + of_nat (pd_ptr (ms_pdin s))) (sms_of s)"

text \<open>Areas that follow each other without a gap from \<open>b\<close> to \<open>e\<close>.\<close>

fun tiles :: "nat \<Rightarrow> ec_pd list \<Rightarrow> nat \<Rightarrow> bool" where
  "tiles b [] e \<longleftrightarrow> b = e"
| "tiles b (p # ps) e \<longleftrightarrow> (if pd_len p = 0 then tiles b ps e else pd_ptr p = b \<and> tiles (b + pd_len p) ps e)"

definition in_group :: "nat \<Rightarrow> map_slave list \<Rightarrow> map_slave list" where
  "in_group grp ss = filter (\<lambda>s. ms_assigned_pd_group s = int grp) ss"

lemma length_wins: "length (wins lo li sms) = n_out sms + n_in sms"
  by (induction lo li sms rule: wins.induct) (auto simp: n_out_def n_in_def)

lemma n_out_0: "out_len sms = 0 \<Longrightarrow> wins lo li sms = wins lo' li sms"
  by (induction sms arbitrary: lo li lo') (auto simp: out_in_len_Cons)

lemma n_in_0: "in_len sms = 0 \<Longrightarrow> wins lo li sms = wins lo li' sms"
  by (induction sms arbitrary: lo li li') (auto simp: out_in_len_Cons)

lemma map_sms_keeps:
  "map_sms sms st = Some st' \<Longrightarrow> process_sms (mp_slv st') = process_sms (mp_slv st) \<and>
     ms_mbx_supported (mp_slv st') = ms_mbx_supported (mp_slv st) \<and>
     ms_assigned_pd_group (mp_slv st') = ms_assigned_pd_group (mp_slv st)"
proof (induction sms arbitrary: st)
  case Nil
  then show ?case by simp
next
  case (Cons sm sms)
  then obtain st1 where st1: "map_sm sm st = Some st1" "map_sms sms st1 = Some st'"
    by (auto split: Option.bind_splits)
  from st1(1) have "process_sms (mp_slv st1) = process_sms (mp_slv st) \<and>
     ms_mbx_supported (mp_slv st1) = ms_mbx_supported (mp_slv st) \<and>
     ms_assigned_pd_group (mp_slv st1) = ms_assigned_pd_group (mp_slv st)"
    by (auto simp: map_sm_def set_fmmu_def Let_def process_sms_def start_sm_def split: if_splits)
  with Cons.IH[OF st1(2)] show ?case by simp
qed

text \<open>The mailbox FMMU lies behind the others.\<close>

lemma map_mbx_state_keeps:
  assumes "n < unat (ms_fmmu_ch slv)" "unat (ms_fmmu_ch slv) \<le> length (ms_fmmu slv)"
  shows "\<exists>slv' bl w'. map_mbx_state lb n (slv, bitlen, w) = Some (slv', bl, w') \<and>
     take n (ms_fmmu slv') = take n (ms_fmmu slv) \<and> ms_pdout slv' = ms_pdout slv \<and>
     ms_pdin slv' = ms_pdin slv \<and> process_sms slv' = process_sms slv \<and>
     ms_assigned_pd_group slv' = ms_assigned_pd_group slv"
  using assms by (auto simp: map_mbx_state_def set_fmmu_def process_sms_def start_sm_def)

lemma map_slave_into_group:
  assumes "mappable s" "ms_assigned_pd_group s = int grp"
    and "gs_log_base_out g = log + of_nat (gs_pdout g)" "gs_log_base_in g = log + of_nat (gs_pdin g)"
  shows "\<exists>t g'. map_slave_into grp s g = Some (t, g') \<and> in_image log t \<and>
     ms_assigned_pd_group t = int grp \<and> process_sms t = process_sms s \<and>
     tiles (gs_pdout g) [ms_pdout t] (gs_pdout g') \<and> tiles (gs_pdin g) [ms_pdin t] (gs_pdin g') \<and>
     gs_pdout g' = gs_pdout g + out_len (sms_of s) \<and> gs_pdin g' = gs_pdin g + in_len (sms_of s) \<and>
     gs_log_base_out g' = log + of_nat (gs_pdout g') \<and> gs_log_base_in g' = log + of_nat (gs_pdin g') \<and>
     pg_pdout_len (gs_pd g') = pg_pdout_len (gs_pd g) \<and> pg_pdin_len (gs_pd g') = pg_pdin_len (gs_pd g) \<and>
     pg_log_len (gs_pd g') = pg_log_len (gs_pd g) \<and> pg_log (gs_pd g') = pg_log (gs_pd g) \<and>
     pg_wkc_expected_lrw (gs_pd g') = pg_wkc_expected_lrw (gs_pd g)
        + of_nat (n_in (sms_of s) + 2 * n_out (sms_of s)) \<and>
     pg_wkc_expected_lwr (gs_pd g') = pg_wkc_expected_lwr (gs_pd g) + of_nat (n_out (sms_of s))"
proof -
  obtain sms where sms: "process_sms s = Some sms" "n_out sms + n_in sms < unat (ms_fmmu_ch s)"
    using assms(1) by (auto simp: mappable_def)
  then have so: "sms_of s = sms" by (simp add: sms_of_def)
  let ?st = "\<lparr>mp_slv = s, mp_fmmu_next = 0, mp_pdout = gs_pdout g, mp_pdin = gs_pdin g,
                mp_log_base_out = gs_log_base_out g, mp_log_base_in = gs_log_base_in g,
                mp_wkc_lrd = 0, mp_wkc_lwr = 0\<rparr>"
  obtain st where st: "map_sms sms ?st = Some st" "mapped sms ?st st"
    using map_sms_windows[of ?st sms] assms(1) sms(2) by (auto simp: length_wins mappable_def)
  note m = st(2)[unfolded mapped_def Let_def, simplified]
  note k = map_sms_keeps[OF st(1), simplified]
  let ?n = "n_out sms + n_in sms"
  have nx: "mp_fmmu_next st = ?n" using m by (simp add: length_wins)
  have c: "?n < unat (ms_fmmu_ch (mp_slv st))" "unat (ms_fmmu_ch (mp_slv st)) \<le> length (ms_fmmu (mp_slv st))"
    using m sms(2) assms(1) by (simp_all add: mappable_def)
  from map_mbx_state_keeps[OF c, of "pg_log_mbx_state (gs_pd g)" "gs_bitlen g" "pg_wkc_expected_mbx_state (gs_pd g)"]
  obtain t bl w where t: "map_mbx_state (pg_log_mbx_state (gs_pd g)) (mp_fmmu_next st)
        (mp_slv st, gs_bitlen g, pg_wkc_expected_mbx_state (gs_pd g)) = Some (t, bl, w)"
      "take ?n (ms_fmmu t) = take ?n (ms_fmmu (mp_slv st))" "ms_pdout t = ms_pdout (mp_slv st)"
      "ms_pdin t = ms_pdin (mp_slv st)" "process_sms t = process_sms s"
      "ms_assigned_pd_group t = int grp"
    unfolding nx using k assms(2) by metis
  have pd: "ms_pdout t = pd_after (gs_pdout g) (out_len sms) (ms_pdout s)"
      "ms_pdin t = pd_after (gs_pdin g) (in_len sms) (ms_pdin s)"
    using m t(3,4) by simp_all
  have len0: "pd_len (ms_pdout s) = 0" "pd_len (ms_pdin s) = 0" using assms(1) by (simp_all add: mappable_def)
  have "wins (gs_log_base_out g) (gs_log_base_in g) sms
      = wins (log + of_nat (pd_ptr (ms_pdout t))) (log + of_nat (pd_ptr (ms_pdin t))) sms"
    using n_out_0[of sms] n_in_0[of sms] len0 unfolding pd assms(3,4) pd_after_def pd_extend_def
    by (cases "out_len sms = 0"; cases "in_len sms = 0") (simp_all, metis+)
  moreover have "map win_of (take ?n (ms_fmmu t)) = wins (gs_log_base_out g) (gs_log_base_in g) sms"
    unfolding t(2) using m by (simp add: length_wins)
  ultimately have img: "in_image log t" using t(5) so by (simp add: in_image_def sms_of_def sms(1))
  have tl: "tiles (gs_pdout g) [ms_pdout t] (gs_pdout g + out_len sms)"
      "tiles (gs_pdin g) [ms_pdin t] (gs_pdin g + in_len sms)"
    using len0 by (simp_all add: pd pd_after_def pd_extend_def)
  let ?pd = "(gs_pd g)\<lparr>pg_wkc_expected_mbx_state := w,
       pg_wkc_expected_lrd := pg_wkc_expected_lrd (gs_pd g) + of_nat (mp_wkc_lrd st),
       pg_wkc_expected_lwr := pg_wkc_expected_lwr (gs_pd g) + of_nat (mp_wkc_lwr st),
       pg_wkc_expected_lrw := pg_wkc_expected_lrw (gs_pd g) + of_nat (mp_wkc_lrd st + 2 * mp_wkc_lwr st)\<rparr>"
  let ?g = "g\<lparr>gs_pdout := mp_pdout st, gs_pdin := mp_pdin st, gs_log_base_out := mp_log_base_out st,
       gs_log_base_in := mp_log_base_in st, gs_bitlen := bl, gs_pd := ?pd\<rparr>"
  have out: "mp_pdout st = gs_pdout g + out_len sms" "mp_pdin st = gs_pdin g + in_len sms"
      "mp_log_base_out st = gs_log_base_out g + of_nat (out_len sms)"
      "mp_log_base_in st = gs_log_base_in g + of_nat (in_len sms)"
      "mp_wkc_lwr st = n_out sms" "mp_wkc_lrd st = n_in sms"
    using m by simp_all
  have "map_slave_into grp s g = Some (t, ?g)"
    unfolding map_slave_into_def using assms(2) sms(1) st(1) t(1) by (simp add: Let_def)
  moreover have "tiles (gs_pdout g) [ms_pdout t] (gs_pdout ?g)" "tiles (gs_pdin g) [ms_pdin t] (gs_pdin ?g)"
    using tl out(1,2) by (simp_all del: tiles.simps)
  ultimately show ?thesis
    by (intro exI[of _ t] exI[of _ ?g] conjI)
       (simp_all add: img t(5,6) so sms(1) out assms(3,4) add.assoc del: tiles.simps)
qed

lemma tiles_append: "tiles b [p] m \<Longrightarrow> tiles m ps e \<Longrightarrow> tiles b (p # ps) e"
  by (auto split: if_splits)

text \<open>The loop over all slaves.\<close>

lemma map_slaves_group:
  assumes "\<forall>s\<in>set (in_group grp ss). mappable s"
    and "gs_log_base_out g = log + of_nat (gs_pdout g)" "gs_log_base_in g = log + of_nat (gs_pdin g)"
  shows "\<exists>ts g'. map_slaves (map_slave_into grp) ss g = Some (ts, g') \<and>
     list_all2 (\<lambda>s t. ms_assigned_pd_group t = ms_assigned_pd_group s \<and> process_sms t = process_sms s \<and>
        (ms_assigned_pd_group s \<noteq> int grp \<longrightarrow> t = s)) ss ts \<and>
     (\<forall>t\<in>set (in_group grp ts). in_image log t) \<and>
     tiles (gs_pdout g) (map ms_pdout (in_group grp ts)) (gs_pdout g') \<and>
     tiles (gs_pdin g) (map ms_pdin (in_group grp ts)) (gs_pdin g') \<and>
     gs_pdout g' = gs_pdout g + sum_list (map (\<lambda>s. out_len (sms_of s)) (in_group grp ss)) \<and>
     gs_pdin g' = gs_pdin g + sum_list (map (\<lambda>s. in_len (sms_of s)) (in_group grp ss)) \<and>
     pg_pdout_len (gs_pd g') = pg_pdout_len (gs_pd g) \<and> pg_pdin_len (gs_pd g') = pg_pdin_len (gs_pd g) \<and>
     pg_log_len (gs_pd g') = pg_log_len (gs_pd g) \<and>
     pg_wkc_expected_lrw (gs_pd g') = pg_wkc_expected_lrw (gs_pd g)
        + of_nat (sum_list (map (\<lambda>s. n_in (sms_of s) + 2 * n_out (sms_of s)) (in_group grp ss))) \<and>
     pg_wkc_expected_lwr (gs_pd g') = pg_wkc_expected_lwr (gs_pd g)
        + of_nat (sum_list (map (\<lambda>s. n_out (sms_of s)) (in_group grp ss)))"
  using assms
proof (induction ss arbitrary: g)
  case Nil
  then show ?case by (simp add: in_group_def)
next
  case (Cons s ss)
  show ?case
  proof (cases "ms_assigned_pd_group s = int grp")
    case False
    with Cons.IH[of g] Cons.prems show ?thesis by (auto simp: in_group_def map_slave_into_def)
  next
    case True
    then have ms: "mappable s" using Cons.prems(1) by (simp add: in_group_def)
    obtain t g1 where t: "map_slave_into grp s g = Some (t, g1)" "in_image log t"
        "ms_assigned_pd_group t = int grp" "process_sms t = process_sms s"
        "tiles (gs_pdout g) [ms_pdout t] (gs_pdout g1)" "tiles (gs_pdin g) [ms_pdin t] (gs_pdin g1)"
        "gs_pdout g1 = gs_pdout g + out_len (sms_of s)" "gs_pdin g1 = gs_pdin g + in_len (sms_of s)"
        "gs_log_base_out g1 = log + of_nat (gs_pdout g1)" "gs_log_base_in g1 = log + of_nat (gs_pdin g1)"
        "pg_pdout_len (gs_pd g1) = pg_pdout_len (gs_pd g)" "pg_pdin_len (gs_pd g1) = pg_pdin_len (gs_pd g)"
        "pg_log_len (gs_pd g1) = pg_log_len (gs_pd g)"
        "pg_wkc_expected_lrw (gs_pd g1) = pg_wkc_expected_lrw (gs_pd g) + of_nat (n_in (sms_of s) + 2 * n_out (sms_of s))"
        "pg_wkc_expected_lwr (gs_pd g1) = pg_wkc_expected_lwr (gs_pd g) + of_nat (n_out (sms_of s))"
      using map_slave_into_group[OF ms True Cons.prems(2,3)] by blast
    have "\<forall>s\<in>set (in_group grp ss). mappable s" using Cons.prems(1) by (auto simp: in_group_def)
    from Cons.IH[OF this t(9,10)] obtain ts g' where IH:
        "map_slaves (map_slave_into grp) ss g1 = Some (ts, g')"
        "list_all2 (\<lambda>s t. ms_assigned_pd_group t = ms_assigned_pd_group s \<and> process_sms t = process_sms s \<and>
          (ms_assigned_pd_group s \<noteq> int grp \<longrightarrow> t = s)) ss ts"
        "\<forall>t\<in>set (in_group grp ts). in_image log t"
        "tiles (gs_pdout g1) (map ms_pdout (in_group grp ts)) (gs_pdout g')"
        "tiles (gs_pdin g1) (map ms_pdin (in_group grp ts)) (gs_pdin g')"
        "gs_pdout g' = gs_pdout g1 + sum_list (map (\<lambda>s. out_len (sms_of s)) (in_group grp ss))"
        "gs_pdin g' = gs_pdin g1 + sum_list (map (\<lambda>s. in_len (sms_of s)) (in_group grp ss))"
        "pg_pdout_len (gs_pd g') = pg_pdout_len (gs_pd g1)" "pg_pdin_len (gs_pd g') = pg_pdin_len (gs_pd g1)"
        "pg_log_len (gs_pd g') = pg_log_len (gs_pd g1)"
        "pg_wkc_expected_lrw (gs_pd g') = pg_wkc_expected_lrw (gs_pd g1)
          + of_nat (sum_list (map (\<lambda>s. n_in (sms_of s) + 2 * n_out (sms_of s)) (in_group grp ss)))"
        "pg_wkc_expected_lwr (gs_pd g') = pg_wkc_expected_lwr (gs_pd g1)
          + of_nat (sum_list (map (\<lambda>s. n_out (sms_of s)) (in_group grp ss)))"
      by blast
    have ig: "in_group grp (t # ts) = t # in_group grp ts" "in_group grp (s # ss) = s # in_group grp ss"
      using t(3) True by (simp_all add: in_group_def)
    show ?thesis
    proof (intro exI[of _ "t # ts"] exI[of _ g'] conjI)
      show "map_slaves (map_slave_into grp) (s # ss) g = Some (t # ts, g')" using t(1) IH(1) by simp
      show "tiles (gs_pdout g) (map ms_pdout (in_group grp (t # ts))) (gs_pdout g')"
        unfolding ig list.map by (rule tiles_append[OF t(5) IH(4)])
      show "tiles (gs_pdin g) (map ms_pdin (in_group grp (t # ts))) (gs_pdin g')"
        unfolding ig list.map by (rule tiles_append[OF t(6) IH(5)])
      show "\<forall>t\<in>set (in_group grp (t # ts)). in_image log t" unfolding ig using t(2) IH(3) by simp
    qed (use IH t True in \<open>simp_all add: ig\<close>)
  qed
qed

lemma group_lens_sum:
  assumes "\<forall>s\<in>set (in_group grp ss). mappable s"
  shows "group_lens grp ss (a, b) = Some (a + sum_list (map (\<lambda>s. out_len (sms_of s)) (in_group grp ss)),
     b + sum_list (map (\<lambda>s. in_len (sms_of s)) (in_group grp ss)))"
  using assms
proof (induction ss arbitrary: a b)
  case (Cons s ss)
  then show ?case by (cases "process_sms s") (auto simp: in_group_def sms_of_def mappable_def)
qed (simp add: in_group_def)

lemma create_logical_mapping_result:
  assumes "\<forall>s\<in>set (in_group grp slaves). mappable s"
  shows "\<exists>ts pd'. ec_create_logical_mapping grp slaves pd = Some (ts, pd') \<and>
     tiles 0 (map ms_pdout (in_group grp ts)) (pg_pdout_len pd') \<and>
     tiles (pg_pdout_len pd') (map ms_pdin (in_group grp ts)) (pg_pdout_len pd' + pg_pdin_len pd') \<and>
     pg_log_len pd' = pg_pdout_len pd' + pg_pdin_len pd' \<and>
     (\<forall>t\<in>set (in_group grp ts). in_image (pg_log pd) t) \<and>
     list_all2 (\<lambda>s t. ms_assigned_pd_group s \<noteq> int grp \<longrightarrow> t = s) slaves ts \<and>
     pg_wkc_expected_lrw pd' = of_nat (sum_list (map (\<lambda>s. n_in (sms_of s) + 2 * n_out (sms_of s)) (in_group grp slaves))) \<and>
     pg_wkc_expected_lwr pd' = pg_wkc_expected_lwr pd
        + of_nat (sum_list (map (\<lambda>s. n_out (sms_of s)) (in_group grp slaves)))"
proof -
  let ?out = "sum_list (map (\<lambda>s. out_len (sms_of s)) (in_group grp slaves))"
  let ?in = "sum_list (map (\<lambda>s. in_len (sms_of s)) (in_group grp slaves))"
  let ?pd = "pd\<lparr>pg_pdout_len := ?out, pg_pdin_len := ?in, pg_log_len := ?out + ?in,
                 pg_wkc_expected_lrd := 0, pg_wkc_expected_lrw := 0, pg_log_mbx_state_len := 0,
                 pg_wkc_expected_mbx_state := 0\<rparr>"
  let ?g = "\<lparr>gs_pd = ?pd, gs_pdout = 0, gs_pdin = ?out, gs_log_base_out = pg_log pd,
         gs_log_base_in = pg_log pd + of_nat ?out, gs_bitlen = 0\<rparr>"
  from map_slaves_group[OF assms, of ?g "pg_log pd"] obtain ts g' where r:
      "map_slaves (map_slave_into grp) slaves ?g = Some (ts, g')"
      "list_all2 (\<lambda>s t. ms_assigned_pd_group t = ms_assigned_pd_group s \<and> process_sms t = process_sms s \<and>
          (ms_assigned_pd_group s \<noteq> int grp \<longrightarrow> t = s)) slaves ts"
      "\<forall>t\<in>set (in_group grp ts). in_image (pg_log pd) t"
      "tiles 0 (map ms_pdout (in_group grp ts)) (gs_pdout g')"
      "tiles ?out (map ms_pdin (in_group grp ts)) (gs_pdin g')"
      "gs_pdout g' = ?out" "gs_pdin g' = ?out + ?in"
      "pg_pdout_len (gs_pd g') = ?out" "pg_pdin_len (gs_pd g') = ?in" "pg_log_len (gs_pd g') = ?out + ?in"
      "pg_wkc_expected_lrw (gs_pd g') = of_nat (sum_list (map (\<lambda>s. n_in (sms_of s) + 2 * n_out (sms_of s)) (in_group grp slaves)))"
      "pg_wkc_expected_lwr (gs_pd g') = pg_wkc_expected_lwr pd
        + of_nat (sum_list (map (\<lambda>s. n_out (sms_of s)) (in_group grp slaves)))"
    by auto
  have "ec_create_logical_mapping grp slaves pd
      = Some (ts, (gs_pd g')\<lparr>pg_log_mbx_state_len := (gs_bitlen g' + 7) div 8\<rparr>)"
    using r(1) group_lens_sum[OF assms, of 0 0] by (simp add: ec_create_logical_mapping_def Let_def)
  moreover have "list_all2 (\<lambda>s t. ms_assigned_pd_group s \<noteq> int grp \<longrightarrow> t = s) slaves ts"
    using r(2) by (rule list_all2_mono) simp
  ultimately show ?thesis using r by auto
qed

text \<open>
  C12: \<^verbatim>\<open>ec_create_logical_mapping\<close> lays out the process image as documented: the outputs of
  the slaves of the group follow each other from offset 0, the inputs from \<^verbatim>\<open>pdout_len\<close>, without
  gap or overlap, they fill \<^verbatim>\<open>log_len\<close> bytes, and the FMMU windows of every slave are its areas of
  the image moved to the logical address of the group. Slaves of other groups are untouched.
\<close>

theorem logical_mapping_layout:
  assumes "\<forall>s\<in>set (in_group grp slaves). mappable s"
  shows "\<exists>ts pd'. ec_create_logical_mapping grp slaves pd = Some (ts, pd') \<and>
     tiles 0 (map ms_pdout (in_group grp ts)) (pg_pdout_len pd') \<and>
     tiles (pg_pdout_len pd') (map ms_pdin (in_group grp ts)) (pg_pdout_len pd' + pg_pdin_len pd') \<and>
     pg_log_len pd' = pg_pdout_len pd' + pg_pdin_len pd' \<and>
     (\<forall>t\<in>set (in_group grp ts). in_image (pg_log pd) t) \<and>
     list_all2 (\<lambda>s t. ms_assigned_pd_group s \<noteq> int grp \<longrightarrow> t = s) slaves ts"
  using create_logical_mapping_result[OF assms, of pd] by blast

definition demo_sm :: "u16 \<Rightarrow> u16 \<Rightarrow> u32 \<Rightarrow> slave_sm" where
  "demo_sm adr len fl = \<lparr>sm_adr = adr, sm_len = len, sm_flags = fl\<rparr>"

definition demo_slave :: "int \<Rightarrow> slave_sm list \<Rightarrow> map_slave" where
  "demo_slave grp sms = \<lparr>ms_assigned_pd_group = grp, ms_mbx_supported = 0, ms_sm_ch = of_nat (List.length sms),
     ms_sm = sms, ms_fmmu_ch = 3, ms_fmmu = replicate 3 \<lparr>fm_log = 0, fm_log_len = 0, fm_log_bit_start = 0,
       fm_log_bit_stop = 0, fm_phys = 0, fm_phys_bit_start = 0, fm_type = 0, fm_active = 0,
       fm_reserved = [0, 0, 0]\<rparr>,
     ms_pdin = \<lparr>pd_ptr = 0, pd_len = 0\<rparr>, ms_pdout = \<lparr>pd_ptr = 0, pd_len = 0\<rparr>, ms_subdevs = [],
     ms_sm_state_bitno = 0, ms_sm_state_null = False\<rparr>"

text \<open>Two slaves in group 0 (outputs and inputs; inputs only) and one in group 1.\<close>

definition demo_slaves :: "map_slave list" where
  "demo_slaves = [demo_slave 0 [demo_sm 0x1000 4 0x64, demo_sm 0x1100 6 0x20],
     demo_slave 1 [demo_sm 0x1000 2 0x64], demo_slave 0 [demo_sm 0x1100 3 0x20]]"

definition demo_pd :: pd_group where
  "demo_pd = \<lparr>pg_group = 0, pg_log = 0x10000, pg_log_len = 0, pg_pd = replicate 64 0, pg_pdout_len = 0,
     pg_pdin_len = 0, pg_pd_lrw_len = 0, pg_use_lrw = True, pg_overlapping = False,
     pg_skip_pd_on_wkc_mismatch = False, pg_wkc_expected_lrw = 0, pg_wkc_expected_lrd = 0,
     pg_wkc_expected_lwr = 0, pg_wkc_mismatch_cnt_lrw = 0, pg_wkc_mismatch_cnt_lrd = 0,
     pg_wkc_mismatch_cnt_lwr = 0, pg_recv_missed_lrw = 0, pg_recv_missed_lrd = 0, pg_recv_missed_lwr = 0,
     pg_log_mbx_state = 0x9000000, pg_log_mbx_state_len = 0, pg_wkc_expected_mbx_state = 0,
     pg_wkc_mismatch_cnt_mbx_state = 0, pg_divisor = 1, pg_divisor_cnt = 0\<rparr>"

lemma demo_mappable: "\<forall>s\<in>set (in_group 0 demo_slaves). mappable s"
  by (simp add: demo_slaves_def in_group_def demo_slave_def demo_sm_def mappable_def process_sms_def
      start_sm_def n_out_def n_in_def sm_is_output_def)

lemma logical_mapping_layout_witness:
  "\<exists>ts pd'. ec_create_logical_mapping 0 demo_slaves demo_pd = Some (ts, pd') \<and>
     tiles 0 (map ms_pdout (in_group 0 ts)) (pg_pdout_len pd')"
  using logical_mapping_layout[OF demo_mappable, of demo_pd] by blast



end
