(* ===== verification/Slave_State.thy ===== *)
theory Slave_State
  imports PdMapping
begin

text \<open>
  The state of the master and of its slaves (\<^verbatim>\<open>ec_t\<close>, \<^verbatim>\<open>ec_slave_t\<close> and
  \<^verbatim>\<open>ec_dc_info_t\<close>) for the theories on distributed clocks, slave states and the
  master, and what these theories call outside of their own files: the registers of the
  slaves and the mailbox protocols.
\<close>

section \<open>Distributed clocks of the master\<close>

text \<open>\<^verbatim>\<open>ec_cyclic_datagram_t\<close>: the entry and index of a datagram that is sent in every cycle.\<close>

record cyclic_datagram =
  cdg_p_entry :: "nat option"
  cdg_p_idx :: "nat option"

datatype ec_dc_mode = dc_mode_master_clock | dc_mode_ref_clock | dc_mode_master_as_ref_clock

record 'd dc_control =
  dcc_p_part :: 'd
  dcc_i_part :: 'd
  dcc_i_part_limit :: 'd
  dcc_kp :: 'd
  dcc_ki :: 'd

record 'd dc_info =
  dc_master_address :: u16
  dc_have_dc :: bool
  dc_next :: int
  dc_have_64bit :: bool
  dc_dc_time :: u64
  dc_dc_sto :: u64
  dc_rtc_time :: u64
  dc_rtc_sto :: u64
  dc_act_diff :: u64
  dc_packet_duration :: u64
  dc_timer_correction :: 'd
  dc_ctl :: "'d dc_control"
  dc_sent_time_nsec :: u64
  dc_mode :: ec_dc_mode
  dc_cdg :: cyclic_datagram

section \<open>Slaves\<close>

text \<open>\<^verbatim>\<open>ec_dc_info_slave_t\<close>. The delays are signed 32-bit numbers.\<close>

record dc_slave =
  ds_use_dc :: bool
  ds_next :: int
  ds_prev :: int
  ds_available_ports :: u8
  ds_receive_times :: "u32 list"
  ds_t_delay_childs :: u32
  ds_t_delay_with_childs :: u32
  ds_t_delay_slave :: u32
  ds_t_delay_parent_previous :: u32
  ds_activation_reg :: u32
  ds_cycle_time_0 :: u32
  ds_cycle_time_1 :: u32
  ds_cycle_shift :: u32

text \<open>\<^verbatim>\<open>ec_init_cmd_t\<close>; \<open>ic_data\<close> are the first \<^verbatim>\<open>datalen\<close> bytes of its data.\<close>

record init_cmd =
  ic_type :: int
  ic_transition :: int
  ic_id :: int
  ic_si_el :: int
  ic_ca_atn :: int
  ic_data :: bytes

record eoe_config =
  eo_use_eoe :: bool
  eo_mac :: bytes
  eo_ip_address :: bytes
  eo_subnet :: bytes
  eo_gateway :: bytes
  eo_dns :: bytes
  eo_dns_name :: bytes

text \<open>
  \<open>sl_mutex\<close> says whether the mutex of the transitions is initialised. The state of the mailbox
  is not here but behind the operations below.
\<close>

record ec_slave =
  sl_slave :: nat
  sl_auto_inc_address :: u16
  sl_fixed_address :: u16
  sl_type :: u16
  sl_sm_ch :: u8
  sl_fmmu_ch :: u8
  sl_ram_size :: u32
  sl_features :: u16
  sl_pdi_ctrl :: u16
  sl_link_cnt :: u8
  sl_active_ports :: u8
  sl_ptype :: u16
  sl_pdelay :: u32
  sl_entry_port :: int
  sl_parent :: int
  sl_port_on_parent :: int
  sl_sm_set_by_user :: bool
  sl_sm :: "slave_sm list"
  sl_fmmu :: "fmmu list"
  sl_assigned_pd_group :: int
  sl_pdin :: ec_pd
  sl_pdout :: ec_pd
  sl_subdev_cnt :: nat
  sl_subdevs :: "subdev list"
  sl_sm_state_bitno :: nat
  sl_sm_state_null :: bool
  sl_handler_running :: bool
  sl_eeprom :: eeprom_info
  sl_dc :: dc_slave
  sl_eoe :: eoe_config
  sl_expected_state :: u16
  sl_act_state :: u16
  sl_mutex :: bool
  sl_transition_active :: bool
  sl_init_cmds :: "init_cmd list"

definition LEC_MAX_SLAVES :: nat where [simp]: "LEC_MAX_SLAVES = 256"
definition LEC_MAX_DS402_SUBDEVS :: nat where [simp]: "LEC_MAX_DS402_SUBDEVS = 4"

definition EC_EEPROM_MBX_COE :: u16 where [simp]: "EC_EEPROM_MBX_COE = 0x04"
definition EC_EEPROM_MBX_SOE :: u16 where [simp]: "EC_EEPROM_MBX_SOE = 0x10"

definition EC_MBX_COE :: int where [simp]: "EC_MBX_COE = 3"
definition EC_MBX_SOE :: int where [simp]: "EC_MBX_SOE = 5"

definition MAILBOX_WRITE :: nat where [simp]: "MAILBOX_WRITE = 0"
definition MAILBOX_READ :: nat where [simp]: "MAILBOX_READ = 1"

section \<open>The master\<close>

text \<open>
  \<open>m_slaves\<close> is the array of \<^verbatim>\<open>LEC_MAX_SLAVES\<close> slaves, \<open>m_user_cb\<close> says whether the
  application has set a callback for state transitions, \<open>m_bus\<close> is everything else.
\<close>

record ('s, 'd) master =
  m_slaves :: "ec_slave list"
  m_slave_cnt :: nat
  m_pd_groups :: "pd_group list"
  m_pd_group_cnt :: nat
  m_dc :: "'d dc_info"
  m_main_cycle_interval :: u64
  m_master_state :: u16
  m_transition_pending :: bool
  m_threaded_startup :: bool
  m_user_cb :: bool
  m_bus :: 's

text \<open>
  The operations of other parts of the library. \<open>o_fuel\<close> bounds the rounds of the loops that
  wait for a timer; \<open>o_uninit\<close> and \<open>o_static\<close> are the contents of uninitialised and static
  buffers; \<open>o_cycle\<close> is what the cyclic task does while a loop waits; \<open>o_now\<close> the clock of the
  master, \<open>o_time_func\<close> the application's clock; \<open>o_packet_duration\<close> measures a datagram;
  \<open>o_three_tenths\<close> is the floating-point multiplication by 0.3 with its conversion. Of the
  mailbox of a slave, \<open>o_mbx_clear\<close> sets the memory to zero; \<open>o_return_cyclic\<close> gives the cyclic
  datagrams back (\<open>return_cyclic\<close> of \<^verbatim>\<open>Master\<close>), \<open>o_user_cb\<close> is the callback of the
  application, and \<open>o_threads\<close> runs a worker thread for each of the slaves until all have ended.
\<close>

record ('s, 'd) ops =
  o_bus :: "'s bus"
  o_fuel :: nat
  o_uninit :: "nat \<Rightarrow> bytes"
  o_static :: bytes
  o_now :: "'s \<Rightarrow> u64 \<times> 's"
  o_time_func :: "('s \<Rightarrow> u64 \<times> 's) option"
  o_packet_duration :: "'s \<Rightarrow> u64 \<times> 's"
  o_three_tenths :: "u64 \<Rightarrow> u32"
  o_cycle :: "('s, 'd) master \<Rightarrow> ('s, 'd) master"
  o_mbx_init :: "nat \<Rightarrow> u16 \<Rightarrow> 's \<Rightarrow> 's"
  o_mbx_deinit :: "nat \<Rightarrow> u16 \<Rightarrow> 's \<Rightarrow> 's"
  o_coe_sdo_write :: "nat \<Rightarrow> init_cmd \<Rightarrow> 's \<Rightarrow> int \<times> 's"
  o_soe_write :: "nat \<Rightarrow> init_cmd \<Rightarrow> 's \<Rightarrow> int \<times> 's"
  o_coe_mapping :: "nat \<Rightarrow> ec_slave \<Rightarrow> 's \<Rightarrow> int \<times> ec_slave \<times> 's"
  o_soe_mapping :: "nat \<Rightarrow> ec_slave \<Rightarrow> 's \<Rightarrow> int \<times> ec_slave \<times> 's"
  o_eoe_set_ip :: "nat \<Rightarrow> eoe_config \<Rightarrow> 's \<Rightarrow> int \<times> 's"
  o_mbx_clear :: "nat \<Rightarrow> 's \<Rightarrow> 's"
  o_return_cyclic :: "'s \<Rightarrow> 's"
  o_user_cb :: "u16 \<Rightarrow> bool \<Rightarrow> ('s, 'd) master \<Rightarrow> ('s, 'd) master"
  o_threads :: "nat list \<Rightarrow> (nat \<Rightarrow> ('s, 'd) master \<Rightarrow> ('s, 'd) master option) \<Rightarrow> ('s, 'd) master \<Rightarrow> ('s, 'd) master option"

section \<open>Access to the state\<close>

definition slv :: "('s, 'd) master \<Rightarrow> nat \<Rightarrow> ec_slave" where
  "slv m i = m_slaves m ! i"

definition slv_upd :: "nat \<Rightarrow> (ec_slave \<Rightarrow> ec_slave) \<Rightarrow> ('s, 'd) master \<Rightarrow> ('s, 'd) master" where
  "slv_upd i f m = m\<lparr>m_slaves := (m_slaves m)[i := f (slv m i)]\<rparr>"

text \<open>The fixed addresses of the slaves, for the EEPROM functions.\<close>

definition fixed_addresses :: "('s, 'd) master \<Rightarrow> u16 list" where
  "fixed_addresses m = map sl_fixed_address (take (m_slave_cnt m) (m_slaves m))"

text \<open>
  Register accesses of slave \<open>i\<close>: the result, the caller's buffer and working counter, the state.
\<close>

definition slv_fprd ::
  "('s, 'd) ops \<Rightarrow> nat \<Rightarrow> nat \<Rightarrow> bytes \<Rightarrow> u16 \<Rightarrow> ('s, 'd) master \<Rightarrow> int \<times> bytes \<times> u16 \<times> ('s, 'd) master" where
  "slv_fprd o' i ado d w m =
     (let (ret, d, w, s) = ec_fprd (o_bus o') (sl_fixed_address (slv m i)) ado d w (m_bus m)
      in (ret, d, w, m\<lparr>m_bus := s\<rparr>))"

definition slv_fpwr ::
  "('s, 'd) ops \<Rightarrow> nat \<Rightarrow> nat \<Rightarrow> bytes \<Rightarrow> u16 \<Rightarrow> ('s, 'd) master \<Rightarrow> int \<times> bytes \<times> u16 \<times> ('s, 'd) master" where
  "slv_fpwr o' i ado d w m =
     (let (ret, d, w, s) = ec_fpwr (o_bus o') (sl_fixed_address (slv m i)) ado d w (m_bus m)
      in (ret, d, w, m\<lparr>m_bus := s\<rparr>))"

text \<open>A write whose result, buffer and working counter nobody looks at.\<close>

definition slv_put :: "('s, 'd) ops \<Rightarrow> nat \<Rightarrow> nat \<Rightarrow> bytes \<Rightarrow> ('s, 'd) master \<Rightarrow> ('s, 'd) master" where
  "slv_put o' i ado d m = snd (snd (snd (slv_fpwr o' i ado d 0 m)))"

text \<open>A read of which only the buffer is looked at.\<close>

definition slv_get :: "('s, 'd) ops \<Rightarrow> nat \<Rightarrow> nat \<Rightarrow> bytes \<Rightarrow> ('s, 'd) master \<Rightarrow> bytes \<times> ('s, 'd) master" where
  "slv_get o' i ado d m = (let (ret, d, w, m) = slv_fprd o' i ado d 0 m in (d, m))"

definition timer_start :: "('s, 'd) ops \<Rightarrow> nat \<Rightarrow> ('s, 'd) master \<Rightarrow> nat \<times> ('s, 'd) master" where
  "timer_start o' ns m = (let (t, s) = b_timer_init (o_bus o') ns (m_bus m) in (t, m\<lparr>m_bus := s\<rparr>))"

definition timer_over :: "('s, 'd) ops \<Rightarrow> nat \<Rightarrow> ('s, 'd) master \<Rightarrow> bool \<times> ('s, 'd) master" where
  "timer_over o' t m = (let (ex, s) = b_timer_expired (o_bus o') t (m_bus m) in (ex, m\<lparr>m_bus := s\<rparr>))"

definition pause :: "('s, 'd) ops \<Rightarrow> nat \<Rightarrow> ('s, 'd) master \<Rightarrow> ('s, 'd) master" where
  "pause o' ns m = m\<lparr>m_bus := b_sleep (o_bus o') ns (m_bus m)\<rparr>"

text \<open>
  \<^verbatim>\<open>ec_mbx_init\<close> and \<^verbatim>\<open>ec_mbx_deinit\<close>: the flag of the handler thread and the pointer to the
  state byte are in the slave, the queues of the mailbox behind \<open>o_mbx_init\<close> and
  \<open>o_mbx_deinit\<close>, which get the mailbox protocols of the slave.
\<close>

definition mbx_init :: "('s, 'd) ops \<Rightarrow> nat \<Rightarrow> ('s, 'd) master \<Rightarrow> ('s, 'd) master" where
  "mbx_init o' i m =
     (if sl_handler_running (slv m i) then m
      else slv_upd i (\<lambda>s. s\<lparr>sl_sm_state_null := False, sl_handler_running := True\<rparr>)
             (m\<lparr>m_bus := o_mbx_init o' i (ei_mbx_supported (sl_eeprom (slv m i))) (m_bus m)\<rparr>))"

definition mbx_deinit :: "('s, 'd) ops \<Rightarrow> nat \<Rightarrow> ('s, 'd) master \<Rightarrow> ('s, 'd) master" where
  "mbx_deinit o' i m =
     (if \<not> sl_handler_running (slv m i) then m
      else (slv_upd i (\<lambda>s. s\<lparr>sl_handler_running := False\<rparr>) m)
             \<lparr>m_bus := o_mbx_deinit o' i (ei_mbx_supported (sl_eeprom (slv m i))) (m_bus m)\<rparr>)"

text \<open>\<open>bus_only m m'\<close>: only the bus has changed.\<close>

definition bus_only :: "('s, 'd) master \<Rightarrow> ('s, 'd) master \<Rightarrow> bool" where
  "bus_only m m' \<longleftrightarrow> m' = m\<lparr>m_bus := m_bus m'\<rparr>"

named_theorems access_simps

lemma bus_only_simps [access_simps]:
  assumes "bus_only m m'"
  shows "m_slaves m' = m_slaves m" "m_slave_cnt m' = m_slave_cnt m" "slv m' i = slv m i"
    "m_dc m' = m_dc m" "m_pd_groups m' = m_pd_groups m"
proof -
  obtain s where "m' = m\<lparr>m_bus := s\<rparr>" using assms by (auto simp: bus_only_def)
  then show "m_slaves m' = m_slaves m" "m_slave_cnt m' = m_slave_cnt m" "slv m' i = slv m i"
    "m_dc m' = m_dc m" "m_pd_groups m' = m_pd_groups m"
    by (simp_all add: slv_def)
qed

lemma bus_only_upd [simp]: "bus_only m (m\<lparr>m_bus := s\<rparr>)"
  by (simp add: bus_only_def)

lemma bus_only_refl [simp]: "bus_only m m"
  by (simp add: bus_only_def)

lemma bus_only_trans: "bus_only a b \<Longrightarrow> bus_only b c \<Longrightarrow> bus_only a c"
  unfolding bus_only_def by (metis master.surjective master.update_convs(11))

lemma slv_fprd_bus: "slv_fprd o' i ado d w m = (ret, d', w', m') \<Longrightarrow> bus_only m m'"
  by (auto simp: slv_fprd_def split: prod.splits)

lemma slv_fpwr_bus: "slv_fpwr o' i ado d w m = (ret, d', w', m') \<Longrightarrow> bus_only m m'"
  by (auto simp: slv_fpwr_def split: prod.splits)

lemma slv_put_bus [simp]: "bus_only m (slv_put o' i ado d m)"
  by (simp add: slv_put_def slv_fpwr_def split: prod.split)

lemma slv_get_bus: "slv_get o' i ado d m = (d', m') \<Longrightarrow> bus_only m m'"
  by (auto simp: slv_get_def slv_fprd_def split: prod.splits)

lemma timer_start_bus: "timer_start o' ns m = (t, m') \<Longrightarrow> bus_only m m'"
  by (auto simp: timer_start_def split: prod.splits)

lemma timer_over_bus: "timer_over o' t m = (ex, m') \<Longrightarrow> bus_only m m'"
  by (auto simp: timer_over_def split: prod.splits)

lemma pause_bus [simp]: "bus_only m (pause o' ns m)"
  by (simp add: pause_def)

lemma slv_upd_simps [simp]:
  "length (m_slaves (slv_upd i f m)) = length (m_slaves m)" "m_dc (slv_upd i f m) = m_dc m"
  "m_slave_cnt (slv_upd i f m) = m_slave_cnt m" "m_bus (slv_upd i f m) = m_bus m"
  by (simp_all add: slv_upd_def)

lemma slv_upd_same [simp]: "i < length (m_slaves m) \<Longrightarrow> slv (slv_upd i f m) i = f (slv m i)"
  by (simp add: slv_upd_def slv_def)

lemma slv_upd_other [simp]: "i \<noteq> j \<Longrightarrow> slv (slv_upd i f m) j = slv m j"
  by (simp add: slv_upd_def slv_def)

lemma slv_upd_upd: "slv_upd i f (slv_upd i g m) = slv_upd i (\<lambda>s. f (g s)) m"
  by (cases "i < length (m_slaves m)") (simp_all add: slv_upd_def slv_def list_update_beyond)

lemma slv_upd_bus: "slv_upd i f (m\<lparr>m_bus := s\<rparr>) = (slv_upd i f m)\<lparr>m_bus := s\<rparr>"
  by (simp add: slv_upd_def slv_def)

lemma slv_bus [simp]: "slv (m\<lparr>m_bus := s\<rparr>) i = slv m i"
  by (simp add: slv_def)

end
