(* ===== verification/Async_Queue.thy ===== *)
theory Async_Queue
  imports Queue_Interface
begin

text \<open>
  The message queues of \<^verbatim>\<open>src/async_loop.c\<close>: the free messages, the messages to
  execute, and the functions that other parts of the master call to have a process data group
  or the clock offset looked after. What the loop does with a message is in \<^verbatim>\<open>Async\<close>.
  The timers belong to libosal: a parameter.
\<close>

section \<open>Timers\<close>

text \<open>
  \<open>tm_init now ns\<close> is the timer that \<^verbatim>\<open>osal_timer_init\<close> sets, \<open>tm_gettime now\<close> what
  \<^verbatim>\<open>osal_timer_gettime\<close> stores, \<open>tm_expired now t\<close> the answer of
  \<^verbatim>\<open>osal_timer_expired\<close>.
\<close>

record osal_timers =
  tm_init :: "nat \<Rightarrow> nat \<Rightarrow> nat"
  tm_gettime :: "nat \<Rightarrow> nat"
  tm_expired :: "nat \<Rightarrow> nat \<Rightarrow> bool"

text \<open>A timer that was set to a time in the future has not expired.\<close>

definition timer_laws :: "osal_timers \<Rightarrow> bool" where
  "timer_laws tm \<longleftrightarrow> (\<forall>now ns. ns > 0 \<longrightarrow> \<not> tm_expired tm now (tm_init tm now ns)) \<and>
     (\<forall>now. tm_expired tm now (tm_gettime tm now))"

definition posix_timers :: osal_timers where
  "posix_timers = \<lparr>tm_init = (\<lambda>now ns. now + ns), tm_gettime = (\<lambda>now. now), tm_expired = (\<lambda>now t. t \<le> now)\<rparr>"

lemma posix_timer_laws: "timer_laws posix_timers"
  by (simp add: timer_laws_def posix_timers_def)

section \<open>State\<close>

datatype ec_async_message_id =
  EC_MSG_CHECK_GROUP | EC_MSG_CHECK_SLAVE | EC_MSG_CHECK_ALL | EC_MSG_CHECK_DCSOFFSET

record ec_message =
  am_id :: ec_async_message_id
  am_payload :: u32

definition EC_ASYNC_MESSAGE_LOOP_COUNT :: nat where "EC_ASYNC_MESSAGE_LOOP_COUNT = 100"

record ec_message_pool =
  aq_queue :: "nat list"
  aq_avail_cnt :: nat

record ec_async_loop =
  al_entries :: "ec_message list"
  al_avail :: ec_message_pool
  al_exec :: ec_message_pool
  al_loop_running :: bool
  al_next_check_group :: nat

section \<open>The queues\<close>

definition ec_async_loop_get ::
  "osal \<Rightarrow> nat option \<Rightarrow> ec_message_pool \<Rightarrow> int \<times> nat option \<times> ec_message_pool" where
  "ec_async_loop_get os timeout ppool =
     (let (ret, ppool) =
        (case timeout of
           None \<Rightarrow> (EC_OK, ppool)
         | Some t \<Rightarrow>
             (let (local_ret, c) = osal_semaphore_timedwait os t (aq_avail_cnt ppool)
              in (if local_ret \<noteq> OSAL_OK then EC_ERROR_UNAVAILABLE else EC_OK, ppool\<lparr>aq_avail_cnt := c\<rparr>)))
      in if ret = EC_OK
         then (case aq_queue ppool of
                 [] \<Rightarrow> (EC_ERROR_UNAVAILABLE, None, ppool)
               | m # ms \<Rightarrow> (EC_OK, Some m, ppool\<lparr>aq_queue := ms\<rparr>))
         else (ret, None, ppool))"

definition ec_async_loop_put :: "osal \<Rightarrow> nat \<Rightarrow> ec_message_pool \<Rightarrow> int \<times> ec_message_pool" where
  "ec_async_loop_put os msg ppool =
     (0, ppool\<lparr>aq_queue := aq_queue ppool @ [msg], aq_avail_cnt := osal_semaphore_post os (aq_avail_cnt ppool)\<rparr>)"

text \<open>Without a timeout a message pool is the queue of \<^verbatim>\<open>Queue_Interface\<close>.\<close>

definition async_deq :: "osal \<Rightarrow> ec_message_pool \<Rightarrow> nat option \<times> ec_message_pool" where
  "async_deq os q = snd (ec_async_loop_get os None q)"

definition async_enq :: "osal \<Rightarrow> nat \<Rightarrow> ec_message_pool \<Rightarrow> ec_message_pool" where
  "async_enq os m q = snd (ec_async_loop_put os m q)"

interpretation amq: fifo_queue "async_deq os" "async_enq os" aq_queue
  by unfold_locales (auto simp: async_deq_def async_enq_def ec_async_loop_get_def ec_async_loop_put_def)

section \<open>Creating and destroying\<close>

definition ec_async_loop_create ::
  "osal \<Rightarrow> osal_timers \<Rightarrow> nat \<Rightarrow> ec_async_loop \<Rightarrow> int \<times> ec_async_loop" where
  "ec_async_loop_create os tm now paml =
     (let (entries, queue) =
        fold (\<lambda>i (es, q). (es[i := \<lparr>am_id = EC_MSG_CHECK_GROUP, am_payload = 0\<rparr>], q @ [i]))
             [0..<EC_ASYNC_MESSAGE_LOOP_COUNT] (al_entries paml, [])
      in (EC_OK, paml\<lparr>al_entries := entries,
            al_avail := \<lparr>aq_queue = queue, aq_avail_cnt = osal_semaphore_init os EC_ASYNC_MESSAGE_LOOP_COUNT\<rparr>,
            al_exec := \<lparr>aq_queue = [], aq_avail_cnt = osal_semaphore_init os 0\<rparr>,
            al_loop_running := True, al_next_check_group := tm_gettime tm now\<rparr>))"

fun async_drain :: "nat list \<Rightarrow> nat list" where
  "async_drain [] = []"
| "async_drain (m # ms) = async_drain (remove1 m (m # ms))"

definition ec_async_loop_destroy :: "ec_async_loop \<Rightarrow> int \<times> ec_async_loop" where
  "ec_async_loop_destroy paml =
     (0, paml\<lparr>al_loop_running := False,
              al_avail := (al_avail paml)\<lparr>aq_queue := async_drain (aq_queue (al_avail paml))\<rparr>,
              al_exec := (al_exec paml)\<lparr>aq_queue := async_drain (aq_queue (al_exec paml))\<rparr>\<rparr>)"

section \<open>Requests\<close>

text \<open>The common part of the requests: a free message is filled and put into the exec queue.\<close>

definition async_post ::
  "osal \<Rightarrow> osal_timers \<Rightarrow> nat \<Rightarrow> ec_async_message_id \<Rightarrow> u32 \<Rightarrow> ec_async_loop \<Rightarrow> ec_async_loop" where
  "async_post os tm now mid payload paml =
     (let (ret, me, q) = ec_async_loop_get os (Some (tm_init tm now 1000)) (al_avail paml);
          paml = paml\<lparr>al_avail := q\<rparr>
      in case me of
           None \<Rightarrow> paml
         | Some m \<Rightarrow>
             paml\<lparr>al_entries := (al_entries paml)[m := \<lparr>am_id = mid, am_payload = payload\<rparr>],
                  al_exec := snd (ec_async_loop_put os m (al_exec paml))\<rparr>)"

definition ec_async_check_group ::
  "osal \<Rightarrow> osal_timers \<Rightarrow> nat \<Rightarrow> u16 \<Rightarrow> ec_async_loop \<Rightarrow> ec_async_loop" where
  "ec_async_check_group os tm now gid paml =
     (if \<not> tm_expired tm now (al_next_check_group paml) then paml
      else async_post os tm now EC_MSG_CHECK_GROUP (ucast gid)
             (paml\<lparr>al_next_check_group := tm_init tm now 1000000000\<rparr>))"

definition ec_async_check_all :: "osal \<Rightarrow> osal_timers \<Rightarrow> nat \<Rightarrow> nat \<Rightarrow> ec_async_loop \<Rightarrow> ec_async_loop" where
  "ec_async_check_all os tm now pd_group_cnt paml =
     fold (\<lambda>i. ec_async_check_group os tm now (of_nat i)) [0..<pd_group_cnt] paml"

definition ec_async_check_dcsoffset ::
  "osal \<Rightarrow> osal_timers \<Rightarrow> nat \<Rightarrow> 32 word \<Rightarrow> ec_async_loop \<Rightarrow> ec_async_loop" where
  "ec_async_check_dcsoffset os tm now correction_value paml =
     async_post os tm now EC_MSG_CHECK_DCSOFFSET correction_value paml"

section \<open>Messages are conserved\<close>

text \<open>
  What happens to the queues: the requests of the other threads, and the loop, which takes a
  message out of the exec queue and returns it to the free ones. \<open>held\<close> are the messages the
  loop is working on.
\<close>

inductive async_step ::
  "osal \<Rightarrow> osal_timers \<Rightarrow> ec_async_loop \<times> nat list \<Rightarrow> ec_async_loop \<times> nat list \<Rightarrow> bool" for os tm where
  check_group: "async_step os tm (l, held) (ec_async_check_group os tm now gid l, held)"
| check_all: "async_step os tm (l, held) (ec_async_check_all os tm now n l, held)"
| check_dcsoffset: "async_step os tm (l, held) (ec_async_check_dcsoffset os tm now c l, held)"
| take: "ec_async_loop_get os (Some t) (al_exec l) = (ret, me, q) \<Longrightarrow>
     async_step os tm (l, held) (l\<lparr>al_exec := q\<rparr>, (case me of None \<Rightarrow> held | Some m \<Rightarrow> m # held))"
| give_back: "m \<in> set held \<Longrightarrow>
     async_step os tm (l, held) (l\<lparr>al_avail := snd (ec_async_loop_put os m (al_avail l))\<rparr>, remove1 m held)"

inductive async_reach :: "osal \<Rightarrow> osal_timers \<Rightarrow> ec_async_loop \<times> nat list \<Rightarrow> bool" for os tm where
  created: "async_reach os tm (snd (ec_async_loop_create os tm now l), [])"
| step: "async_reach os tm s \<Longrightarrow> async_step os tm s t \<Longrightarrow> async_reach os tm t"

definition pool_counted :: "ec_message_pool \<Rightarrow> bool" where
  "pool_counted q \<longleftrightarrow> aq_avail_cnt q = length (aq_queue q)"

definition async_inv :: "ec_async_loop \<times> nat list \<Rightarrow> bool" where
  "async_inv = (\<lambda>(l, held). pool_counted (al_avail l) \<and> pool_counted (al_exec l) \<and>
     mset (aq_queue (al_avail l)) + mset (aq_queue (al_exec l)) + mset held
       = mset [0..<EC_ASYNC_MESSAGE_LOOP_COUNT])"

lemma loop_get_counted:
  assumes "semaphore_laws os" "pool_counted q" "ec_async_loop_get os (Some t) q = (ret, me, q')"
  shows "pool_counted q' \<and> mset (aq_queue q) = mset (aq_queue q') + (case me of None \<Rightarrow> {#} | Some m \<Rightarrow> {#m#})
     \<and> (me = None \<longleftrightarrow> aq_queue q = [])"
proof (cases "aq_queue q")
  case Nil
  then have "aq_avail_cnt q = 0" using assms(2) by (simp add: pool_counted_def)
  moreover obtain r where "r \<noteq> OSAL_OK" "osal_semaphore_timedwait os t 0 = (r, 0)"
    using semaphore_wait_0[OF assms(1)] by blast
  ultimately show ?thesis using assms(3) Nil by (auto simp: ec_async_loop_get_def pool_counted_def)
next
  case (Cons m ms)
  then have "aq_avail_cnt q = Suc (length ms)" using assms(2) by (simp add: pool_counted_def)
  moreover have "osal_semaphore_timedwait os t (Suc (length ms)) = (OSAL_OK, length ms)"
    using assms(1) unfolding semaphore_laws_def by blast
  ultimately show ?thesis using assms(3) Cons by (auto simp: ec_async_loop_get_def pool_counted_def)
qed

lemma loop_put_counted:
  assumes "semaphore_laws os" "pool_counted q"
  shows "pool_counted (snd (ec_async_loop_put os m q))"
    "mset (aq_queue (snd (ec_async_loop_put os m q))) = mset (aq_queue q) + {#m#}"
proof -
  have "osal_semaphore_post os n = Suc n" for n using assms(1) unfolding semaphore_laws_def by blast
  then show "pool_counted (snd (ec_async_loop_put os m q))"
    "mset (aq_queue (snd (ec_async_loop_put os m q))) = mset (aq_queue q) + {#m#}"
    using assms(2) by (simp_all add: ec_async_loop_put_def pool_counted_def)
qed

lemma async_post_inv:
  assumes "semaphore_laws os" "async_inv (l, held)"
  shows "async_inv (async_post os tm now mid p l, held)"
proof -
  obtain ret me q where g: "ec_async_loop_get os (Some (tm_init tm now 1000)) (al_avail l) = (ret, me, q)"
    by (cases "ec_async_loop_get os (Some (tm_init tm now 1000)) (al_avail l)")
  have "pool_counted (al_avail l)" "pool_counted (al_exec l)" using assms(2) by (simp_all add: async_inv_def)
  note c = loop_get_counted[OF assms(1) this(1) g] loop_put_counted[OF assms(1) this(2)]
  show ?thesis
    using c assms(2) g by (cases me) (auto simp: async_post_def async_inv_def ac_simps)
qed

lemma async_inv_timer: "async_inv (l\<lparr>al_next_check_group := t\<rparr>, held) \<longleftrightarrow> async_inv (l, held)"
  by (simp add: async_inv_def)

lemma check_group_inv:
  "semaphore_laws os \<Longrightarrow> async_inv (l, held) \<Longrightarrow> async_inv (ec_async_check_group os tm now gid l, held)"
  by (simp add: ec_async_check_group_def async_post_inv async_inv_timer)

lemma check_all_inv:
  "semaphore_laws os \<Longrightarrow> async_inv (l, held) \<Longrightarrow> async_inv (ec_async_check_all os tm now n l, held)"
  unfolding ec_async_check_all_def by (induction n arbitrary: l) (simp_all add: check_group_inv)

lemma async_step_inv: "async_step os tm s t \<Longrightarrow> semaphore_laws os \<Longrightarrow> async_inv s \<Longrightarrow> async_inv t"
proof (induction rule: async_step.induct)
  case (take t l ret me q held)
  have "pool_counted (al_exec l)" using take.prems(2) by (simp add: async_inv_def)
  from loop_get_counted[OF take.prems(1) this take.hyps] take.prems(2) show ?case
    by (cases me) (auto simp: async_inv_def ac_simps)
next
  case (give_back m held l)
  have "pool_counted (al_avail l)" using give_back.prems(2) by (simp add: async_inv_def)
  moreover have "mset held = add_mset m (mset (remove1 m held))" using give_back.hyps by simp
  ultimately show ?case
    using loop_put_counted[OF give_back.prems(1), of "al_avail l" m] give_back.prems(2)
    by (simp add: async_inv_def del: mset_remove1)
qed (simp_all add: check_group_inv check_all_inv async_post_inv ec_async_check_dcsoffset_def)

lemma create_queues:
  assumes "semaphore_laws os"
  shows "async_inv (snd (ec_async_loop_create os tm now l), [])"
proof -
  have "snd (fold (\<lambda>i (es, q). (es[i := m], q @ [i])) is (es, q0)) = q0 @ is" for "is" and es :: "ec_message list" and q0 m
    by (induction "is" arbitrary: es q0) simp_all
  note q = this[of _ _ _ "[]"]
  have "osal_semaphore_init os n = n" for n using assms unfolding semaphore_laws_def by blast
  then show ?thesis
    by (simp add: ec_async_loop_create_def async_inv_def pool_counted_def q case_prod_beta
        EC_ASYNC_MESSAGE_LOOP_COUNT_def del: upt_conv_Cons_Cons)
qed

lemma async_reach_inv: "async_reach os tm s \<Longrightarrow> semaphore_laws os \<Longrightarrow> async_inv s"
  by (induction rule: async_reach.induct) (auto simp: create_queues intro: async_step_inv)

text \<open>
  C20: No message gets lost or is in two places: whatever requests and the loop do, each of the
  entries is in exactly one of the free queue, the exec queue and the hands of the loop.
\<close>

theorem async_messages_conserved:
  assumes "semaphore_laws os" "async_reach os tm (l, held)"
  shows "distinct (aq_queue (al_avail l) @ aq_queue (al_exec l) @ held) \<and>
     set (aq_queue (al_avail l) @ aq_queue (al_exec l) @ held) = {..<EC_ASYNC_MESSAGE_LOOP_COUNT}"
proof -
  have m: "mset (aq_queue (al_avail l) @ aq_queue (al_exec l) @ held) = mset [0..<EC_ASYNC_MESSAGE_LOOP_COUNT]"
    using async_reach_inv[OF assms(2,1)] by (simp add: async_inv_def ac_simps)
  then have "distinct (aq_queue (al_avail l) @ aq_queue (al_exec l) @ held)"
    by (metis distinct_upt mset_eq_imp_distinct_iff)
  moreover have "set (aq_queue (al_avail l) @ aq_queue (al_exec l) @ held) = {..<EC_ASYNC_MESSAGE_LOOP_COUNT}"
    using mset_eq_setD[OF m] by (simp add: atLeast0LessThan)
  ultimately show ?thesis by blast
qed

definition demo_loop :: ec_async_loop where
  "demo_loop = \<lparr>al_entries = replicate 100 \<lparr>am_id = EC_MSG_CHECK_ALL, am_payload = 0\<rparr>,
     al_avail = \<lparr>aq_queue = [], aq_avail_cnt = 0\<rparr>, al_exec = \<lparr>aq_queue = [], aq_avail_cnt = 0\<rparr>,
     al_loop_running = False, al_next_check_group = 0\<rparr>"

lemma async_messages_conserved_witness:
  "distinct (let l = ec_async_check_group posix_osal posix_timers 5 2
       (snd (ec_async_loop_create posix_osal posix_timers 5 demo_loop))
     in aq_queue (al_avail l) @ aq_queue (al_exec l) @ [])"
proof -
  have "async_reach posix_osal posix_timers
      (ec_async_check_group posix_osal posix_timers 5 2
        (snd (ec_async_loop_create posix_osal posix_timers 5 demo_loop)), [])"
    by (blast intro: async_reach.intros async_step.intros)
  from async_messages_conserved[OF posix_osal_laws(1) this] show ?thesis by (simp add: Let_def)
qed

section \<open>Checking all groups\<close>

lemma check_group_waits:
  "\<not> tm_expired tm now (al_next_check_group l) \<Longrightarrow> ec_async_check_group os tm now gid l = l"
  by (simp add: ec_async_check_group_def)

lemma check_group_sets_timer:
  assumes "timer_laws tm"
  shows "\<not> tm_expired tm now (al_next_check_group (ec_async_check_group os tm now gid l))"
proof -
  have "\<not> tm_expired tm now (tm_init tm now 1000000000)" using assms by (simp add: timer_laws_def)
  then show ?thesis
    by (simp add: ec_async_check_group_def async_post_def Let_def split: prod.split option.split)
qed

text \<open>
  \<^verbatim>\<open>ec_async_check_all\<close> checks at most the first process data group: the rate limit of
  \<^verbatim>\<open>ec_async_check_group\<close> is one timer for all groups, so the call for group 0 makes those
  for the other groups return without a request.
\<close>

theorem check_all_only_first_group:
  assumes "timer_laws tm"
  shows "ec_async_check_all os tm now (Suc n) l = ec_async_check_group os tm now 0 l"
proof -
  let ?g = "\<lambda>i. ec_async_check_group os tm now (of_nat i)"
  let ?l = "ec_async_check_group os tm now 0 l"
  have "fold ?g is ?l = ?l" for "is" :: "nat list"
    by (induction "is") (simp_all add: check_group_waits check_group_sets_timer[OF assms])
  then show ?thesis by (simp add: ec_async_check_all_def upt_conv_Cons del: upt_Suc)
qed

lemma check_all_only_first_group_witness:
  "ec_async_check_all posix_osal posix_timers 5 (Suc 2) demo_loop
     = ec_async_check_group posix_osal posix_timers 5 0 demo_loop"
  by (rule check_all_only_first_group[OF posix_timer_laws])

end
