(* ===== verification/ProcessData.thy ===== *)
theory ProcessData
  imports Transceive Slave_State Async_Queue
begin

text \<open>
  The cyclic part of \<^verbatim>\<open>src/ec.c\<close>: sending the process data of the groups, the
  distributed clocks and the broadcast state datagrams, and the callbacks that evaluate their
  answers. The state of the mailboxes that the callbacks touch is in the slaves; a call of the
  application's callback is recorded with the number of the group. A read or write outside a
  buffer is \<^term>\<open>None\<close>. Floating-point arithmetic is the parameter \<open>fl\<close>, the clock the
  parameter \<open>now\<close>.
\<close>

section \<open>Clock differences\<close>

text \<open>
  \<^verbatim>\<open>signed64_diff\<close> and \<^verbatim>\<open>signed32_diff\<close>, for the width \<open>w\<close> with the largest signed
  value \<open>m\<close>.
\<close>

definition wrap_diff :: "'a::len word \<Rightarrow> 'a word \<Rightarrow> 'a word \<Rightarrow> 'a word" where
  "wrap_diff m a b =
     (let abs_diff = (if a < b then b - a else a - b);
          (tmp_a, tmp_b, abs_diff) =
            (if abs_diff > m
             then (let (ta, tb) = (if a > m then (- 1 - a, b) else if b > m then (a, - 1 - b) else (a, b))
                   in (ta, tb, if ta < tb then tb - ta else ta - tb))
             else (a, b, abs_diff))
      in if tmp_a > tmp_b then abs_diff else - abs_diff)"

definition signed64_diff :: "u64 \<Rightarrow> u64 \<Rightarrow> u64" where
  "signed64_diff a b = wrap_diff 0x7FFFFFFFFFFFFFFF a b"

definition signed32_diff :: "u32 \<Rightarrow> u32 \<Rightarrow> u32" where
  "signed32_diff a b = wrap_diff 0x7FFFFFFF a b"

section \<open>State\<close>

record pd_group_c =
  g_pd :: pd_group
  g_cdg :: cyclic_datagram
  g_cdg_lwr :: cyclic_datagram
  g_cdg_lrd :: cyclic_datagram
  g_cdg_lrd_mbx_state :: cyclic_datagram

text \<open>The fields of a slave that the callbacks read and write; \<open>sm_state\<close> is \<^term>\<open>None\<close> for the null pointer.\<close>

record cyc_slave =
  cs_assigned_pd_group :: int
  cs_mbx_supported :: u16
  cs_sm_state_bitno :: nat
  cs_sm_state :: "u8 option"
  cs_transition_active :: bool
  cs_handler_flags :: u32
  cs_sync_sem :: bool

record 'd flops =
  fl_of_int :: "int \<Rightarrow> 'd"
  fl_to_int :: "'d \<Rightarrow> int"
  fl_add :: "'d \<Rightarrow> 'd \<Rightarrow> 'd"
  fl_mul :: "'d \<Rightarrow> 'd \<Rightarrow> 'd"
  fl_half :: "'d \<Rightarrow> 'd"
  fl_less :: "'d \<Rightarrow> 'd \<Rightarrow> bool"

record ('w, 'd) ec =
  ec_x :: "'w xcv_state"
  ec_pd_groups :: "pd_group_c list"
  ec_slaves :: "cyc_slave list"
  ec_state_transition_pending :: bool
  ec_async :: ec_async_loop
  ec_dc :: "'d dc_info"
  ec_cdg_state :: cyclic_datagram
  ec_main_cycle_interval :: int
  ec_wkc_mismatch_cnt_ec_state :: nat
  ec_ec_state_mismatch_cnt :: nat
  ec_user_calls :: "nat list"

text \<open>The parameters every callback gets.\<close>

record 'd cyc_env =
  ce_os :: osal
  ce_tm :: osal_timers
  ce_now :: nat
  ce_fl :: "'d flops"

definition cyclic_states :: "('w, 'd) ec \<Rightarrow> bool" where
  "cyclic_states s \<longleftrightarrow> x_master_state (ec_x s) = EC_STATE_SAFEOP \<or> x_master_state (ec_x s) = EC_STATE_OP"

definition pd_upd :: "nat \<Rightarrow> (pd_group \<Rightarrow> pd_group) \<Rightarrow> ('w, 'd) ec \<Rightarrow> ('w, 'd) ec" where
  "pd_upd i f s = s\<lparr>ec_pd_groups := (ec_pd_groups s)[i := (ec_pd_groups s ! i)\<lparr>g_pd := f (g_pd (ec_pd_groups s ! i))\<rparr>]\<rparr>"

definition check_group :: "'d cyc_env \<Rightarrow> nat \<Rightarrow> ('w, 'd) ec \<Rightarrow> ('w, 'd) ec" where
  "check_group env i s =
     s\<lparr>ec_async := ec_async_check_group (ce_os env) (ce_tm env) (ce_now env)
                    (of_nat (pg_group (g_pd (ec_pd_groups s ! i)))) (ec_async s)\<rparr>"

text \<open>A datagram that lies completely in the received bytes.\<close>

definition dg_inside :: "bytes \<Rightarrow> bool" where
  "dg_inside dgs \<longleftrightarrow> ec_datagram_hdr_length \<le> length dgs \<and> ec_datagram_length dgs 0 \<le> length dgs"

section \<open>Callbacks of the process data\<close>

definition cb_process_data_group_lwr ::
  "'d cyc_env \<Rightarrow> nat \<Rightarrow> bytes \<Rightarrow> ('w, 'd) ec \<Rightarrow> ('w, 'd) ec option" where
  "cb_process_data_group_lwr env i dgs s =
     (if \<not> dg_inside dgs then None
      else (let wkc = ec_datagram_wkc dgs 0;
                pd = g_pd (ec_pd_groups s ! i);
                s = pd_upd i (\<lambda>pd. pd\<lparr>pg_recv_missed_lrw := 0\<rparr>) s
            in Some (if cyclic_states s \<and> wkc \<noteq> pg_wkc_expected_lwr pd
                     then (if \<not> ec_state_transition_pending s \<and> (\<forall>sv\<in>set (ec_slaves s). \<not> cs_transition_active sv)
                           then check_group env i
                                  (pd_upd i (\<lambda>pd. pd\<lparr>pg_wkc_mismatch_cnt_lwr := pg_wkc_mismatch_cnt_lwr pd + 1\<rparr>) s)
                           else s)
                     else pd_upd i (\<lambda>pd. pd\<lparr>pg_wkc_mismatch_cnt_lwr := 0\<rparr>) s)))"

text \<open>The copy of the inputs into the image.\<close>

definition copy_inputs :: "bool \<Rightarrow> bytes \<Rightarrow> pd_group \<Rightarrow> pd_group option" where
  "copy_inputs wkc_mismatch dgs pd =
     (if pg_pdin_len pd > 0 \<and> (pg_skip_pd_on_wkc_mismatch pd \<longrightarrow> \<not> wkc_mismatch)
      then (let off = ec_datagram_payload dgs 0 + (if pg_use_lrw pd \<or> pg_overlapping pd then 0 else pg_pdout_len pd)
            in if off + pg_pdin_len pd \<le> length dgs \<and> pg_pdout_len pd + pg_pdin_len pd \<le> length (pg_pd pd)
               then Some (pd\<lparr>pg_pd := put_at (pg_pdout_len pd) (slice off (pg_pdin_len pd) dgs) (pg_pd pd)\<rparr>)
               else None)
      else Some pd)"

definition cb_process_data_group ::
  "'d cyc_env \<Rightarrow> (nat \<Rightarrow> bool) \<Rightarrow> nat \<Rightarrow> bytes \<Rightarrow> ('w, 'd) ec \<Rightarrow> ('w, 'd) ec option" where
  "cb_process_data_group env has_user_cb i dgs s =
     (if \<not> dg_inside dgs then None
      else (let wkc = ec_datagram_wkc dgs 0;
                pd = g_pd (ec_pd_groups s ! i);
                wkc_mismatch = (wkc \<noteq> (if pg_use_lrw pd then pg_wkc_expected_lrw pd else pg_wkc_expected_lrd pd))
            in case copy_inputs wkc_mismatch dgs (pd\<lparr>pg_recv_missed_lrw := 0\<rparr>) of
                 None \<Rightarrow> None
               | Some pd' \<Rightarrow>
                   (let s = pd_upd i (\<lambda>_. pd') s;
                        s = (if has_user_cb i then s\<lparr>ec_user_calls := ec_user_calls s @ [pg_group pd]\<rparr> else s)
                    in Some (if \<not> ec_state_transition_pending s \<and> cyclic_states s \<and> wkc_mismatch
                             then check_group env i
                                    (pd_upd i (\<lambda>pd. pd\<lparr>pg_wkc_mismatch_cnt_lrw := pg_wkc_mismatch_cnt_lrw pd + 1\<rparr>) s)
                             else pd_upd i (\<lambda>pd. pd\<lparr>pg_wkc_mismatch_cnt_lrw := 0\<rparr>) s))))"

text \<open>\<^verbatim>\<open>ec_mbx_sched_read\<close> on the fields of the slave it changes.\<close>

definition MBX_HANDLER_FLAGS_RECV :: u32 where "MBX_HANDLER_FLAGS_RECV = 2"

definition ec_mbx_sched_read :: "osal \<Rightarrow> cyc_slave \<Rightarrow> cyc_slave" where
  "ec_mbx_sched_read os sv =
     sv\<lparr>cs_handler_flags := cs_handler_flags sv OR MBX_HANDLER_FLAGS_RECV,
         cs_sync_sem := osal_binary_semaphore_post os (cs_sync_sem sv)\<rparr>"

text \<open>The bit of a slave in the state bytes \<open>buf\<close>.\<close>

definition mbx_bit :: "bytes \<Rightarrow> cyc_slave \<Rightarrow> bool" where
  "mbx_bit buf sv \<longleftrightarrow> bit (buf ! (cs_sm_state_bitno sv div 8)) (cs_sm_state_bitno sv mod 8)"

definition mbx_state_slave :: "osal \<Rightarrow> nat \<Rightarrow> bytes \<Rightarrow> cyc_slave \<Rightarrow> cyc_slave option" where
  "mbx_state_slave os grp buf sv =
     (if cs_assigned_pd_group sv \<noteq> int grp \<or> cs_mbx_supported sv = 0 then Some sv
      else if cs_sm_state_bitno sv div 8 \<ge> length buf then None
      else Some (if mbx_bit buf sv
                 then ec_mbx_sched_read os (sv\<lparr>cs_sm_state := map_option (\<lambda>_. 0x08) (cs_sm_state sv)\<rparr>)
                 else sv))"

definition cb_lrd_mbx_state :: "'d cyc_env \<Rightarrow> nat \<Rightarrow> bytes \<Rightarrow> ('w, 'd) ec \<Rightarrow> ('w, 'd) ec option" where
  "cb_lrd_mbx_state env i dgs s =
     (if \<not> dg_inside dgs then None
      else (let wkc = ec_datagram_wkc dgs 0;
                pd = g_pd (ec_pd_groups s ! i)
            in if wkc = pg_wkc_expected_mbx_state pd
               then map_option (\<lambda>slvs. pd_upd i (\<lambda>pd. pd\<lparr>pg_wkc_mismatch_cnt_mbx_state := 0\<rparr>) (s\<lparr>ec_slaves := slvs\<rparr>))
                      (those (map (mbx_state_slave (ce_os env) (pg_group pd) (drop (ec_datagram_payload dgs 0) dgs))
                                  (ec_slaves s)))
               else Some (if \<not> ec_state_transition_pending s \<and> cyclic_states s
                          then pd_upd i (\<lambda>pd. pd\<lparr>pg_wkc_mismatch_cnt_mbx_state := pg_wkc_mismatch_cnt_mbx_state pd + 1\<rparr>) s
                          else s)))"

section \<open>Sending\<close>

text \<open>
  The pattern of all cyclic datagrams: take an index and an entry when there is none yet.
  \<open>reset\<close> says whether the pointer to the index is cleared after the index was given back
  because there is no entry; \<open>ret\<close> is the result so far, \<open>grp\<close> the user argument if one is set.
\<close>

definition cdg_acquire ::
  "osal \<Rightarrow> bool \<Rightarrow> ec_cb \<Rightarrow> nat option \<Rightarrow> int \<Rightarrow> cyclic_datagram \<Rightarrow> 'w xcv_state \<Rightarrow> int \<times> cyclic_datagram \<times> 'w xcv_state" where
  "cdg_acquire os reset cb grp ret cdg x =
     (let (ret, cdg, x) =
        (if cdg_p_idx cdg = None
         then (let (_, i, iq) = ec_index_get os (x_idx_q x); x = x\<lparr>x_idx_q := iq\<rparr>
               in case i of None \<Rightarrow> (EC_ERROR_OUT_OF_INDICES, cdg, x)
                          | Some _ \<Rightarrow> (ret, cdg\<lparr>cdg_p_idx := i\<rparr>, x))
         else (ret, cdg, x))
      in if ret = EC_OK \<and> cdg_p_entry cdg = None
         then (let (_, e, pl) = pool_get os (x_pool x) None; x = x\<lparr>x_pool := pl\<rparr>; idx = the (cdg_p_idx cdg)
               in case e of
                    None \<Rightarrow> (EC_ERROR_OUT_OF_DATAGRAMS, if reset then cdg\<lparr>cdg_p_idx := None\<rparr> else cdg,
                             x\<lparr>x_idx_q := ec_index_put idx (x_idx_q x)\<rparr>)
                  | Some p \<Rightarrow> (ret, cdg\<lparr>cdg_p_entry := e\<rparr>,
                       entry_upd p (\<lambda>pe. pe\<lparr>pe_p_idx := idx, pe_user_cb := Some cb,
                                            pe_user_arg := (case grp of None \<Rightarrow> pe_user_arg pe | Some g \<Rightarrow> g)\<rparr>) x))
         else (ret, cdg, x))"

text \<open>Builds the datagram in the entry and queues it.\<close>

definition cdg_send ::
  "osal \<Rightarrow> nat \<Rightarrow> u8 \<Rightarrow> u32 \<Rightarrow> nat \<Rightarrow> bytes \<Rightarrow> cyclic_datagram \<Rightarrow> 'w xcv_state \<Rightarrow> 'w xcv_state option" where
  "cdg_send os n cmd adr len payload cdg x =
     (let p = the (cdg_p_entry cdg); idx = the (cdg_p_idx cdg)
      in map_option (\<lambda>dg. let x = entry_upd p (\<lambda>pe. pe\<lparr>pe_data := dg\<rparr>) x
                          in x\<lparr>x_hw := hw_enqueue os (x_idx_q x) p POOL_HIGH (x_hw x)\<rparr>)
           (fill_datagram n cmd (ie_idx (iq_entries (x_idx_q x) ! idx)) adr len payload (entry_data p x)))"

definition pd_send ::
  "osal \<Rightarrow> ec_cb \<Rightarrow> nat \<Rightarrow> int \<Rightarrow> nat \<Rightarrow> u8 \<Rightarrow> u32 \<Rightarrow> nat \<Rightarrow> bytes option \<Rightarrow> cyclic_datagram \<Rightarrow> 'w xcv_state \<Rightarrow>
   (int \<times> cyclic_datagram \<times> 'w xcv_state) option" where
  "pd_send os cb grp ret n cmd adr len payload cdg x =
     (let (ret, cdg, x) = cdg_acquire os True cb (Some grp) ret cdg x
      in if ret = EC_OK \<and> n > 0
         then Option.bind payload (\<lambda>pl. map_option (\<lambda>x. (ret, cdg, x)) (cdg_send os n cmd adr len pl cdg x))
         else Some (ret, cdg, x))"

text \<open>The outputs of the image: the bytes before \<open>pdout_len\<close>.\<close>

definition pd_outputs :: "pd_group \<Rightarrow> bytes option" where
  "pd_outputs pd = (if pg_pdout_len pd \<le> length (pg_pd pd) then Some (take (pg_pdout_len pd) (pg_pd pd)) else None)"

definition ec_send_process_data_group ::
  "osal \<Rightarrow> nat \<Rightarrow> ('w, 'd) ec \<Rightarrow> (int \<times> ('w, 'd) ec) option" where
  "ec_send_process_data_group os i s =
     (let g = ec_pd_groups s ! i; pd = g_pd g; grp = pg_group pd; x = ec_x s
      in do {
        (ret, g, x) \<leftarrow>
          (if pg_use_lrw pd
           then map_option (\<lambda>(ret, c, x). (ret, g\<lparr>g_cdg := c\<rparr>, x))
                  (pd_send os CB_PD_GROUP grp EC_OK (pg_log_len pd) EC_CMD_LRW (pg_log pd)
                     (pg_log_len pd) (pd_outputs pd) (g_cdg g) x)
           else do {
             (ret, c, x) \<leftarrow> pd_send os CB_PD_GROUP_LWR grp EC_OK (pg_log_len pd) EC_CMD_LWR (pg_log pd)
                              (pg_pdout_len pd) (pd_outputs pd) (g_cdg_lwr g) x;
             (ret, c', x) \<leftarrow> pd_send os CB_PD_GROUP grp ret (pg_log_len pd) EC_CMD_LRD
                              (pg_log pd + of_nat (pg_pdout_len pd)) (pg_pdin_len pd) (Some []) (g_cdg_lrd g) x;
             Some (ret, g\<lparr>g_cdg_lwr := c, g_cdg_lrd := c'\<rparr>, x)
           });
        (ret, c, x) \<leftarrow> pd_send os CB_LRD_MBX_STATE grp ret (pg_log_mbx_state_len pd) EC_CMD_LRD
                         (pg_log_mbx_state pd) (pg_log_mbx_state_len pd) (Some []) (g_cdg_lrd_mbx_state g) x;
        Some (ret, s\<lparr>ec_x := x, ec_pd_groups := (ec_pd_groups s)[i := g\<lparr>g_cdg_lrd_mbx_state := c\<rparr>]\<rparr>)
      })"

fun send_groups :: "osal \<Rightarrow> nat list \<Rightarrow> ('w, 'd) ec \<Rightarrow> (int \<times> ('w, 'd) ec) option" where
  "send_groups os [] s = Some (EC_OK, s)"
| "send_groups os (i # is) s =
     (let cnt = pg_divisor_cnt (g_pd (ec_pd_groups s ! i)) + 1;
          due = (cnt mod pg_divisor (g_pd (ec_pd_groups s ! i)) = 0);
          s = pd_upd i (\<lambda>pd. pd\<lparr>pg_divisor_cnt := if due then 0 else cnt\<rparr>) s
      in Option.bind (if due then ec_send_process_data_group os i s else Some (EC_OK, s))
           (\<lambda>(ret, s). if ret \<noteq> EC_OK then Some (ret, s) else send_groups os is s))"

definition ec_send_process_data :: "osal \<Rightarrow> ('w, 'd) ec \<Rightarrow> (int \<times> ('w, 'd) ec) option" where
  "ec_send_process_data os s = send_groups os [0..<length (ec_pd_groups s)] s"

section \<open>Distributed clocks\<close>

text \<open>
  A clock of 32 bits: the upper half is taken from the last time, in units of \<^verbatim>\<open>UINT_MAX\<close>.
\<close>

definition dc_extend :: "u64 \<Rightarrow> u64 \<Rightarrow> u64" where
  "dc_extend old t =
     (if t < old mod 0xFFFFFFFF then t + ((old div 0xFFFFFFFF) * 0xFFFFFFFF + 0xFFFFFFFF)
      else t + (old div 0xFFFFFFFF) * 0xFFFFFFFF)"

definition dc_control_step :: "'d flops \<Rightarrow> int \<Rightarrow> 'd dc_control \<Rightarrow> 'd dc_control" where
  "dc_control_step fl act_diff c =
     (let diff = fl_of_int fl act_diff;
          p = fl_mul fl (dcc_kp c) diff;
          i = fl_add fl (dcc_i_part c) (fl_mul fl (dcc_ki c) diff);
          lim = dcc_i_part_limit c; neg = fl_mul fl (fl_of_int fl (-1)) lim
      in c\<lparr>dcc_p_part := p, dcc_i_part := (if fl_less fl lim i then lim else if fl_less fl i neg then neg else i)\<rparr>)"

text \<open>The offset of the reference clock is corrected by half the difference.\<close>

definition dc_send_offset :: "'d cyc_env \<Rightarrow> ('w, 'd) ec \<Rightarrow> ('w, 'd) ec option" where
  "dc_send_offset env s =
     (let os = ce_os env; fl = ce_fl env; x = ec_x s; (_, i, iq) = ec_index_get os (x_idx_q x); x = x\<lparr>x_idx_q := iq\<rparr>
      in case i of
           None \<Rightarrow> Some (s\<lparr>ec_x := x\<rparr>)
         | Some idx \<Rightarrow>
             (let (_, e, pl) = pool_get os (x_pool x) None; x = x\<lparr>x_pool := pl\<rparr>
              in case e of
                   None \<Rightarrow> Some (s\<lparr>ec_x := x\<lparr>x_idx_q := ec_index_put idx (x_idx_q x)\<rparr>\<rparr>)
                 | Some p \<Rightarrow>
                     (let dc = ec_dc s;
                          sto = of_int (fl_to_int fl (fl_add fl (fl_of_int fl (sint (dc_dc_sto dc)))
                                                         (fl_half fl (fl_of_int fl (sint (dc_act_diff dc))))))
                      in map_option (\<lambda>dg.
                           let x = entry_upd p (\<lambda>pe. pe\<lparr>pe_data := dg, pe_p_idx := idx, pe_user_cb := Some CB_NO_REPLY\<rparr>) x;
                               hw = x_hw x
                           in s\<lparr>ec_dc := dc\<lparr>dc_dc_sto := sto\<rparr>,
                                ec_x := x\<lparr>x_hw := hw\<lparr>hw_tx_low := pool_put os (hw_tx_low hw) p\<rparr>\<rparr>\<rparr>)
                         (fill_datagram 8 EC_CMD_FPWR (ie_idx (iq_entries (x_idx_q x) ! idx))
                            (push_bit 16 (of_nat EC_REG_DCSYSOFFSET) OR ucast (dc_master_address dc)) 8 (le64 sto)
                            (entry_data p x)))))"

definition cb_distributed_clocks ::
  "'d cyc_env \<Rightarrow> bool \<Rightarrow> bytes \<Rightarrow> ('w, 'd) ec \<Rightarrow> ('w, 'd) ec option" where
  "cb_distributed_clocks env has_user_cb dgs s =
     (if \<not> dg_inside dgs \<or> length dgs < ec_datagram_payload dgs 0 + 8 then None
      else (let dc = (ec_dc s)\<lparr>dc_packet_duration := of_nat (ce_now env) - dc_sent_time_nsec (ec_dc s)\<rparr>;
                t = u64_of (slice (ec_datagram_payload dgs 0) 8 dgs);
                t = (if dc_have_64bit dc then t else dc_extend (dc_dc_time dc) t);
                diff = signed64_diff (dc_rtc_time dc mod 0xFFFFFFFFFFFFFFFF) t;
                answered = (ec_datagram_wkc dgs 0 \<noteq> 0);
                dc = (if answered then dc\<lparr>dc_dc_time := t, dc_act_diff := diff\<rparr> else dc);
                ctl = dc_control_step (ce_fl env) (sint diff) (dc_ctl dc);
                s' = (if answered \<and> dc_mode dc = dc_mode_ref_clock
                      then Some (s\<lparr>ec_dc := dc\<lparr>dc_ctl := ctl,
                                   dc_timer_correction := fl_add (ce_fl env) (dcc_p_part ctl) (dcc_i_part ctl)\<rparr>\<rparr>)
                      else if answered \<and> dc_mode dc = dc_mode_master_clock then dc_send_offset env (s\<lparr>ec_dc := dc\<rparr>)
                      else Some (s\<lparr>ec_dc := dc\<rparr>))
            in map_option (\<lambda>s. if has_user_cb then s\<lparr>ec_user_calls := ec_user_calls s @ [0]\<rparr> else s) s'))"

definition ec_send_distributed_clocks_sync_intern ::
  "'d cyc_env \<Rightarrow> u64 \<Rightarrow> ('w, 'd) ec \<Rightarrow> (int \<times> ('w, 'd) ec) option" where
  "ec_send_distributed_clocks_sync_intern env act_rtc_time s =
     (let dc = ec_dc s; os = ce_os env
      in if \<not> dc_have_dc dc then Some (EC_ERROR_UNAVAILABLE, s)
         else (let (ret, c, x) = cdg_acquire os False CB_DC None EC_OK (dc_cdg dc) (ec_x s);
                   dc = dc\<lparr>dc_cdg := c\<rparr>; bcast = (dc_mode dc = dc_mode_master_as_ref_clock)
               in if ret \<noteq> EC_OK then Some (ret, s\<lparr>ec_x := x, ec_dc := dc\<rparr>)
                  else map_option (\<lambda>x. (ret, s\<lparr>ec_x := x, ec_dc := dc\<lparr>dc_rtc_time := act_rtc_time,
                                                   dc_sent_time_nsec := of_nat (ce_now env)\<rparr>\<rparr>))
                         (cdg_send os 8 (if bcast then EC_CMD_BWR else EC_CMD_FRMW)
                            (push_bit 16 (of_nat EC_REG_DCSYSTIME) OR (if bcast then 0 else ucast (dc_master_address dc)))
                            8 (if bcast then le64 act_rtc_time else []) c x)))"

definition ec_send_distributed_clocks_sync :: "'d cyc_env \<Rightarrow> ('w, 'd) ec \<Rightarrow> (int \<times> ('w, 'd) ec) option" where
  "ec_send_distributed_clocks_sync env s =
     (let dc = ec_dc s;
          rtc_time = (if dc_mode dc = dc_mode_ref_clock \<and> ec_main_cycle_interval s > 0
                      then dc_rtc_time dc + of_int (ec_main_cycle_interval s)
                      else of_nat (ce_now env) - dc_rtc_sto dc)
      in ec_send_distributed_clocks_sync_intern env rtc_time s)"

definition ec_send_distributed_clocks_sync_with_rtc ::
  "'d cyc_env \<Rightarrow> u64 \<Rightarrow> ('w, 'd) ec \<Rightarrow> (int \<times> ('w, 'd) ec) option" where
  "ec_send_distributed_clocks_sync_with_rtc env act_rtc_time s =
     ec_send_distributed_clocks_sync_intern env act_rtc_time s"

definition ec_configure_dc :: "nat \<Rightarrow> ec_dc_mode \<Rightarrow> ('w, 'd) ec \<Rightarrow> ('w, 'd) ec" where
  "ec_configure_dc timer mode s =
     s\<lparr>ec_main_cycle_interval := int timer, ec_dc := (ec_dc s)\<lparr>dc_mode := mode\<rparr>\<rparr>"

section \<open>The broadcast state datagram\<close>

definition cb_brd_ec_state :: "'d cyc_env \<Rightarrow> bytes \<Rightarrow> ('w, 'd) ec \<Rightarrow> ('w, 'd) ec option" where
  "cb_brd_ec_state env dgs s =
     (if \<not> dg_inside dgs then None
      else (let wkc = ec_datagram_wkc dgs 0;
                al_status = u16_of (slice (ec_datagram_payload dgs 0) 2 dgs);
                s = s\<lparr>ec_wkc_mismatch_cnt_ec_state :=
                      (if cyclic_states s \<and> unat wkc \<noteq> length (ec_slaves s)
                       then ec_wkc_mismatch_cnt_ec_state s + 1 else 0)\<rparr>;
                cnt = ec_ec_state_mismatch_cnt s
            in Some (if \<not> ec_state_transition_pending s \<and> al_status \<noteq> x_master_state (ec_x s)
                     then s\<lparr>ec_ec_state_mismatch_cnt := cnt + 1,
                            ec_async := (if cnt mod 1000 = 0
                                         then ec_async_check_all (ce_os env) (ce_tm env) (ce_now env)
                                                (length (ec_pd_groups s)) (ec_async s)
                                         else ec_async s)\<rparr>
                     else s)))"

definition ec_send_brd_ec_state :: "osal \<Rightarrow> ('w, 'd) ec \<Rightarrow> (int \<times> ('w, 'd) ec) option" where
  "ec_send_brd_ec_state os s =
     (let (ret, c, x) = cdg_acquire os False CB_BRD_EC_STATE None EC_OK (ec_cdg_state s) (ec_x s);
          s = s\<lparr>ec_cdg_state := c\<rparr>
      in if ret \<noteq> EC_OK then Some (ret, s\<lparr>ec_x := x\<rparr>)
         else map_option (\<lambda>x. (ret, s\<lparr>ec_x := x\<rparr>))
                (cdg_send os 4 EC_CMD_BRD (push_bit 16 (of_nat EC_REG_ALSTAT)) 2 [] c x))"

end
