(* ===== verification/ProcessData_Correct.thy ===== *)
theory ProcessData_Correct
  imports ProcessData
begin

text \<open>
  What the cyclic part promises: clock differences, the process data on their way out and in,
  the schedule of the groups, and the index of a cyclic datagram.
\<close>

section \<open>Clock differences\<close>

lemma signed_abs:
  fixes x y :: "'a::len word"
  defines "d \<equiv> if x < y then y - x else x - y"
  shows "(if x > y then d else - d) = x - y"
proof (cases "x < y")
  case True
  then have "\<not> y < x" by (simp add: word_less_def)
  with True show ?thesis by (simp add: d_def)
next
  case False
  then show ?thesis by (cases "x = y") (auto simp: d_def)
qed

lemma wrap_diff_near:
  fixes a b :: "'a::len word"
  assumes "\<bar>uint a - uint b\<bar> \<le> uint m"
  shows "wrap_diff m a b = of_int (uint a - uint b)"
proof -
  have n: "\<not> (if a < b then b - a else a - b) > m"
    using assms by (auto simp: word_less_def uint_sub_if')
  show ?thesis
    unfolding wrap_diff_def Let_def if_not_P[OF n] prod.case
    using signed_abs[of b a] by simp
qed

lemma sint_of_int_64:
  "- (2 ^ 63) \<le> x \<Longrightarrow> x < 2 ^ 63 \<Longrightarrow> sint (of_int x :: u64) = x"
  by (simp add: signed_of_int signed_take_bit_int_eq_self)

lemma wrap_diff_far:
  fixes a b :: "'a::len word"
  assumes "uint a - uint b > uint m"
  shows "wrap_diff m a b = of_int (2 ^ LENGTH('a) - 1 - uint a - uint b)"
proof -
  have ge: "uint b \<le> uint a" using assms uint_ge_0[of m] by linarith
  moreover have "uint m < uint a" using assms uint_ge_0[of b] by linarith
  ultimately have "\<not> a < b" "a > m" "a - b > m"
    using assms by (auto simp: word_less_def uint_sub_if')
  moreover have "(of_int (2 ^ LENGTH('a) - 1 - uint a - uint b) :: 'a word) = - 1 - a - b"
    by simp
  ultimately show ?thesis using signed_abs[of b "- 1 - a"] by (simp add: wrap_diff_def Let_def)
qed

text \<open>
  C22: \<^verbatim>\<open>signed64_diff\<close> is the signed difference of two clocks that are less than half of
  the range apart.
\<close>

theorem signed64_diff_near:
  assumes "\<bar>uint a - uint b\<bar> \<le> 0x7FFFFFFFFFFFFFFF"
  shows "sint (signed64_diff a b) = uint a - uint b"
proof -
  have "signed64_diff a b = of_int (uint a - uint b)"
    unfolding signed64_diff_def using assms by (intro wrap_diff_near) simp
  then show ?thesis using assms by (simp only:) (rule sint_of_int_64, simp_all)
qed

theorem signed64_diff_near_witness: "sint (signed64_diff 5 12) = -7"
  using signed64_diff_near[of 5 12] by simp

text \<open>
  When the first clock is about to wrap around and the second already has, the result is
  \<^verbatim>\<open>UINT64_MAX - a - b\<close>, the difference of two distances to the wrap-around. The clocks are
  \<^verbatim>\<open>2^64 - a + b\<close> ticks apart, the sum.
\<close>

theorem signed64_diff_wrapped:
  assumes "uint a - uint b > 0x7FFFFFFFFFFFFFFF"
  shows "sint (signed64_diff a b) = (2 ^ 64 - 1 - uint a) - uint b"
proof -
  let ?d = "0x10000000000000000 - 1 - uint a - uint b"
  have "uint a < 0x10000000000000000" using uint_lt2p[of a] by simp
  then have "- 0x8000000000000000 \<le> ?d" "?d < 0x8000000000000000" using assms uint_ge_0[of b] by linarith+
  moreover have "signed64_diff a b = of_int ?d"
    unfolding signed64_diff_def using wrap_diff_far[of "0x7FFFFFFFFFFFFFFF" a b] assms by simp
  ultimately have "sint (signed64_diff a b) = ?d" using sint_of_int_64[of ?d] by (simp only:) simp
  then show ?thesis by simp
qed

theorem signed64_diff_wrapped_witness: "sint (signed64_diff 0xFFFFFFFFFFFFFFFF 0) = 0"
  using signed64_diff_wrapped[of "0xFFFFFFFFFFFFFFFF" 0] by simp

text \<open>
  The extension of a 32-bit clock counts the wrap-arounds in units of \<^verbatim>\<open>2^32 - 1\<close>: once
  the clock has wrapped, a tick of the clock is lost.
\<close>

theorem dc_extend_loses_tick:
  assumes "uint l < 0xFFFFFFFE"
  shows "dc_extend (0x100000000 + l) (l + 1) = 0x100000000 + l"
proof -
  have u: "uint (0x100000000 + l) = 0x100000000 + uint l" "uint (l + 1) = uint l + 1"
    using assms by (simp_all add: uint_plus_if')
  have "(0x100000000 + uint l) div 0xFFFFFFFF = 1" "(0x100000000 + uint l) mod 0xFFFFFFFF = uint l + 1"
    using assms uint_ge_0[of l]
    by (intro int_div_pos_eq[where r = "uint l + 1"] int_mod_pos_eq[where q = 1]; simp)+
  then have "(0x100000000 + l) div 0xFFFFFFFF = 1" "(0x100000000 + l) mod 0xFFFFFFFF = l + 1"
    using u by (simp_all add: word_uint_eq_iff uint_div uint_mod)
  then show ?thesis by (simp add: dc_extend_def)
qed

theorem dc_extend_loses_tick_witness: "dc_extend 0x100000007 8 = 0x100000007"
  using dc_extend_loses_tick[of 7] by simp

section \<open>The index of a cyclic datagram\<close>

text \<open>\<open>idx_owned\<close>: the index a cyclic datagram holds is not in the queue of the free ones.\<close>

definition idx_owned :: "cyclic_datagram \<Rightarrow> 'w xcv_state \<Rightarrow> bool" where
  "idx_owned cdg x \<longleftrightarrow> distinct (iq_q (x_idx_q x)) \<and>
     (case cdg_p_idx cdg of None \<Rightarrow> True | Some i \<Rightarrow> i \<notin> set (iq_q (x_idx_q x)))"

lemma entry_upd_idx_q [simp]: "x_idx_q (entry_upd p f x) = x_idx_q x" "x_pool (entry_upd p f x) = x_pool x"
  by (simp_all add: entry_upd_def)

lemma iq_q_put [simp]: "iq_q (ec_index_put i iq) = iq_q iq @ [i]"
  by (simp add: ec_index_put_def)

lemma ec_index_get_cases:
  "ec_index_get os iq = (case iq_q iq of [] \<Rightarrow> (EC_ERROR_OUT_OF_INDICES, None, iq)
     | e # es \<Rightarrow> (EC_OK, Some e, idx_waiter_upd (osal_binary_semaphore_trywait os) e (iq\<lparr>iq_q := es\<rparr>)))"
  by (simp add: ec_index_get_def)

text \<open>
  C21: A process data group that finds no datagram in the pool gives its index back and forgets
  it: acquiring never leaves a held index in the queue.
\<close>

theorem pd_acquire_owns_index:
  assumes "cdg_acquire os True cb grp ret cdg x = (ret', cdg', x')" "idx_owned cdg x"
  shows "idx_owned cdg' x'"
  using assms
  by (auto simp: cdg_acquire_def Let_def idx_owned_def ec_index_get_cases pool_take_def
        split: if_splits option.splits list.splits)


definition empty_cdg :: cyclic_datagram where
  "empty_cdg = \<lparr>cdg_p_entry = None, cdg_p_idx = None\<rparr>"

text \<open>A master with an index but no datagram.\<close>

definition no_datagrams :: "sock_raw xcv_state" where
  "no_datagrams = fresh_master\<lparr>x_pool := \<lparr>avail = [], avail_cnt = 0\<rparr>\<rparr>"

theorem pd_acquire_owns_index_witness:
  "idx_owned (fst (snd (cdg_acquire posix_osal True CB_PD_GROUP (Some 0) EC_OK empty_cdg no_datagrams)))
     (snd (snd (cdg_acquire posix_osal True CB_PD_GROUP (Some 0) EC_OK empty_cdg no_datagrams)))"
proof -
  have o: "idx_owned empty_cdg no_datagrams"
    by (simp add: idx_owned_def empty_cdg_def no_datagrams_def fresh_master_def)
  show ?thesis by (rule pd_acquire_owns_index[OF _ o]) (simp add: prod_eq_iff)
qed

text \<open>
  The distributed clocks datagram does not: when there is no datagram, its index goes back
  to the queue and stays the index of the next attempt, which sends with an index that another
  transaction may have taken.
\<close>

theorem dc_sync_index_twice:
  assumes "dc_have_dc (ec_dc s)" "dc_cdg (ec_dc s) = empty_cdg"
    and "iq_q (x_idx_q (ec_x s)) = i # js" "avail (x_pool (ec_x s)) = []"
  shows "\<exists>s'. ec_send_distributed_clocks_sync_intern env t s = Some (EC_ERROR_OUT_OF_DATAGRAMS, s') \<and>
     cdg_p_idx (dc_cdg (ec_dc s')) = Some i \<and> i \<in> set (iq_q (x_idx_q (ec_x s')))"
  using assms
  by (simp add: ec_send_distributed_clocks_sync_intern_def cdg_acquire_def Let_def empty_cdg_def
      ec_index_get_cases pool_take_def)

definition demo_flops :: "int flops" where
  "demo_flops = \<lparr>fl_of_int = id, fl_to_int = id, fl_add = (+), fl_mul = (*), fl_half = (\<lambda>x. x div 2), fl_less = (<)\<rparr>"

definition demo_env :: "int cyc_env" where
  "demo_env = \<lparr>ce_os = posix_osal, ce_tm = posix_timers, ce_now = 0, ce_fl = demo_flops\<rparr>"

definition demo_dc :: "int dc_info" where
  "demo_dc = \<lparr>dc_master_address = 1001, dc_have_dc = True, dc_next = 0, dc_have_64bit = True, dc_dc_time = 0, dc_dc_sto = 0,
     dc_rtc_time = 0, dc_rtc_sto = 0, dc_act_diff = 0, dc_packet_duration = 0, dc_timer_correction = 0,
     dc_ctl = \<lparr>dcc_p_part = 0, dcc_i_part = 0, dcc_i_part_limit = 1000, dcc_kp = 1, dcc_ki = 1\<rparr>,
     dc_sent_time_nsec = 0, dc_mode = dc_mode_master_clock, dc_cdg = empty_cdg\<rparr>"

definition demo_ec :: "sock_raw xcv_state \<Rightarrow> pd_group_c list \<Rightarrow> cyc_slave list \<Rightarrow> (sock_raw, int) ec" where
  "demo_ec x gs slvs = \<lparr>ec_x = x, ec_pd_groups = gs, ec_slaves = slvs, ec_state_transition_pending = False,
     ec_async = demo_loop, ec_dc = demo_dc, ec_cdg_state = empty_cdg, ec_main_cycle_interval = 0,
     ec_wkc_mismatch_cnt_ec_state = 0, ec_ec_state_mismatch_cnt = 0, ec_user_calls = []\<rparr>"

theorem dc_sync_index_twice_witness:
  "\<exists>s'. ec_send_distributed_clocks_sync_intern demo_env 0 (demo_ec no_datagrams [] []) =
     Some (EC_ERROR_OUT_OF_DATAGRAMS, s') \<and>
     cdg_p_idx (dc_cdg (ec_dc s')) = Some 0 \<and> 0 \<in> set (iq_q (x_idx_q (ec_x s')))"
  by (rule dc_sync_index_twice[where js = "[]"])
     (simp_all add: demo_ec_def demo_dc_def no_datagrams_def fresh_master_def)

section \<open>Sending\<close>

text \<open>\<open>cdg_ready n x c p k\<close>: the datagram has its entry \<open>p\<close> and its index \<open>k\<close>, and \<open>n\<close> bytes fit.\<close>

definition cdg_ready :: "nat \<Rightarrow> 'w xcv_state \<Rightarrow> cyclic_datagram \<Rightarrow> nat \<Rightarrow> nat \<Rightarrow> bool" where
  "cdg_ready n x c p k \<longleftrightarrow> c = \<lparr>cdg_p_entry = Some p, cdg_p_idx = Some k\<rparr> \<and>
     12 + n \<le> length (entry_data p x) \<and> n < 2048"

definition sent_datagram :: "u8 \<Rightarrow> u32 \<Rightarrow> nat \<Rightarrow> u8 \<Rightarrow> bytes \<Rightarrow> bytes \<Rightarrow> bool" where
  "sent_datagram cmd adr len idx payload d \<longleftrightarrow> dg_cmd d 0 = cmd \<and> dg_adr d 0 = adr \<and>
     ec_datagram_length d 0 = 12 + len \<and> dg_idx d 0 = idx \<and> slice 10 (length payload) d = payload"

text \<open>What queueing the datagrams \<open>ps\<close> for the high priority changes, and what it leaves alone.\<close>

definition queued_high :: "nat list \<Rightarrow> 'w xcv_state \<Rightarrow> 'w xcv_state \<Rightarrow> bool" where
  "queued_high ps x x' \<longleftrightarrow> avail (hw_tx_high (x_hw x')) = avail (hw_tx_high (x_hw x)) @ ps \<and>
     (\<forall>q. length (entry_data q x') = length (entry_data q x)) \<and>
     (\<forall>q. q \<notin> set ps \<longrightarrow> entry_data q x' = entry_data q x) \<and>
     x_idx_q x' = x_idx_q x \<and> x_pool x' = x_pool x"

lemma queued_high_Nil: "queued_high [] x x"
  by (simp add: queued_high_def)

lemma queued_high_trans: "queued_high ps x y \<Longrightarrow> queued_high qs y z \<Longrightarrow> queued_high (ps @ qs) x z"
  by (simp add: queued_high_def)

lemma cdg_ready_queued: "queued_high ps x y \<Longrightarrow> cdg_ready n y c p k \<longleftrightarrow> cdg_ready n x c p k"
  by (simp add: queued_high_def cdg_ready_def)

lemma acquire_ready: "cdg_ready n x c p k \<Longrightarrow> cdg_acquire os reset cb grp ret c x = (ret, c, x)"
  by (simp add: cdg_ready_def cdg_acquire_def)

lemma hw_enqueue_high:
  "avail (hw_tx_high (hw_enqueue os iq p POOL_HIGH hw)) = avail (hw_tx_high hw) @ [p]"
  "hw_entries (hw_enqueue os iq p POOL_HIGH hw) = hw_entries hw"
  by (simp_all add: hw_enqueue_def Let_def hw_pool_def hw_pool_upd_def)

lemma cdg_send_ready:
  assumes "cdg_ready n x c p k" "length payload \<le> n" "len < 2048"
  shows "\<exists>x'. cdg_send os n cmd adr len payload c x = Some x' \<and> queued_high [p] x x' \<and>
     sent_datagram cmd adr len (slot_idx x k) payload (entry_data p x')"
proof -
  obtain d where d: "fill_datagram n cmd (slot_idx x k) adr len payload (entry_data p x) = Some d"
    using fill_datagram_fits[of n "entry_data p x" payload cmd "slot_idx x k" adr len] assms
    by (auto simp: cdg_ready_def)
  note dp = fill_datagram_props[OF d assms(3)]
  show ?thesis
    using assms(1) d dp
    by (simp add: cdg_ready_def cdg_send_def Let_def queued_high_def sent_datagram_def entry_data_def
        entry_upd_def hw_enqueue_high)
qed

lemma pd_send_ready:
  assumes "cdg_ready n x c p k" "length pl \<le> n" "len < 2048" "n > 0"
  shows "\<exists>x'. pd_send os cb grp EC_OK n cmd adr len (Some pl) c x = Some (EC_OK, c, x') \<and>
     queued_high [p] x x' \<and> sent_datagram cmd adr len (slot_idx x k) pl (entry_data p x')"
  using cdg_send_ready[OF assms(1-3), of os cmd adr] acquire_ready[OF assms(1)] assms(4)
  by (auto simp: pd_send_def)

lemma pd_send_nothing:
  assumes "cdg_ready n x c p k" "n = 0"
  shows "pd_send os cb grp EC_OK n cmd adr len pl c x = Some (EC_OK, c, x)"
  using acquire_ready[OF assms(1)] assms(2) by (simp add: pd_send_def)

text \<open>
  A group in the steady state of the cyclic operation: its datagrams have their entries and
  indices, and its data fits. \<open>group_entries\<close> are the entries it queues in a cycle.
\<close>

definition steady :: "'w xcv_state \<Rightarrow> pd_group_c \<Rightarrow> bool" where
  "steady x g \<longleftrightarrow>
     (let pd = g_pd g in
      pg_pdout_len pd \<le> length (pg_pd pd) \<and> pg_pdout_len pd \<le> pg_log_len pd \<and> pg_pdin_len pd \<le> pg_log_len pd \<and>
      (if pg_use_lrw pd then \<exists>p k. cdg_ready (pg_log_len pd) x (g_cdg g) p k
       else (\<exists>p k. cdg_ready (pg_log_len pd) x (g_cdg_lwr g) p k) \<and>
            (\<exists>p k. cdg_ready (pg_log_len pd) x (g_cdg_lrd g) p k)) \<and>
      (\<exists>p k. cdg_ready (pg_log_mbx_state_len pd) x (g_cdg_lrd_mbx_state g) p k))"

definition group_entries :: "pd_group_c \<Rightarrow> nat list" where
  "group_entries g =
     (let pd = g_pd g in
      (if pg_log_len pd = 0 then []
       else if pg_use_lrw pd then [the (cdg_p_entry (g_cdg g))]
       else [the (cdg_p_entry (g_cdg_lwr g)), the (cdg_p_entry (g_cdg_lrd g))]) @
      (if pg_log_mbx_state_len pd = 0 then [] else [the (cdg_p_entry (g_cdg_lrd_mbx_state g))]))"

lemma steady_queued: "queued_high ps x y \<Longrightarrow> steady y g \<longleftrightarrow> steady x g"
proof -
  assume q: "queued_high ps x y"
  have "cdg_ready n y = cdg_ready n x" for n by (intro ext) (rule cdg_ready_queued[OF q])
  then show ?thesis by (simp add: steady_def Let_def)
qed

lemma ready_entry: "cdg_ready n x c p k \<Longrightarrow> the (cdg_p_entry c) = p"
  by (simp add: cdg_ready_def)

lemma pd_send_steady:
  assumes "cdg_ready n x c p k" "length pl \<le> n" "len \<le> n"
  shows "\<exists>x'. pd_send os cb grp EC_OK n cmd adr len (Some pl) c x = Some (EC_OK, c, x') \<and>
     queued_high (if n = 0 then [] else [the (cdg_p_entry c)]) x x'"
  using pd_send_ready[OF assms(1,2), of len os cb grp cmd adr] pd_send_nothing[OF assms(1), of os cb grp cmd adr len "Some pl"]
    assms queued_high_Nil[of x]
  by (cases "n = 0") (auto simp: ready_entry[OF assms(1)] cdg_ready_def)

lemma send_group_steady:
  assumes "steady (ec_x s) (ec_pd_groups s ! i)"
  shows "\<exists>x'. ec_send_process_data_group os i s = Some (EC_OK, s\<lparr>ec_x := x'\<rparr>) \<and>
     queued_high (group_entries (ec_pd_groups s ! i)) (ec_x s) x'"
proof -
  let ?g = "ec_pd_groups s ! i" and ?x = "ec_x s"
  let ?pd = "g_pd ?g"
  have st: "pg_pdout_len ?pd \<le> length (pg_pd ?pd)" "pg_pdout_len ?pd \<le> pg_log_len ?pd" "pg_pdin_len ?pd \<le> pg_log_len ?pd"
    using assms by (simp_all add: steady_def Let_def)
  then have out: "pd_outputs ?pd = Some (take (pg_pdout_len ?pd) (pg_pd ?pd))" by (simp add: pd_outputs_def)
  obtain q l where m: "cdg_ready (pg_log_mbx_state_len ?pd) ?x (g_cdg_lrd_mbx_state ?g) q l"
    using assms by (auto simp: steady_def Let_def)
  have mbx: "\<exists>z. pd_send os CB_LRD_MBX_STATE (pg_group ?pd) EC_OK (pg_log_mbx_state_len ?pd) EC_CMD_LRD
        (pg_log_mbx_state ?pd) (pg_log_mbx_state_len ?pd) (Some []) (g_cdg_lrd_mbx_state ?g) y
      = Some (EC_OK, g_cdg_lrd_mbx_state ?g, z) \<and>
      queued_high (if pg_log_mbx_state_len ?pd = 0 then [] else [the (cdg_p_entry (g_cdg_lrd_mbx_state ?g))]) y z"
    if "queued_high ps ?x y" for y ps
    using pd_send_steady[of _ y] m cdg_ready_queued[OF that] by simp
  have upd: "(ec_pd_groups s)[i := ?g] = ec_pd_groups s" by simp
  show ?thesis
  proof (cases "pg_use_lrw ?pd")
    case True
    then obtain p k where c: "cdg_ready (pg_log_len ?pd) ?x (g_cdg ?g) p k"
      using assms by (auto simp: steady_def Let_def)
    obtain y where y: "pd_send os CB_PD_GROUP (pg_group ?pd) EC_OK (pg_log_len ?pd) EC_CMD_LRW (pg_log ?pd)
          (pg_log_len ?pd) (pd_outputs ?pd) (g_cdg ?g) ?x = Some (EC_OK, g_cdg ?g, y)"
        "queued_high (if pg_log_len ?pd = 0 then [] else [the (cdg_p_entry (g_cdg ?g))]) ?x y"
      using pd_send_steady[OF c] st unfolding out by force
    obtain z where z: "pd_send os CB_LRD_MBX_STATE (pg_group ?pd) EC_OK (pg_log_mbx_state_len ?pd) EC_CMD_LRD
        (pg_log_mbx_state ?pd) (pg_log_mbx_state_len ?pd) (Some []) (g_cdg_lrd_mbx_state ?g) y
        = Some (EC_OK, g_cdg_lrd_mbx_state ?g, z)"
        "queued_high (if pg_log_mbx_state_len ?pd = 0 then [] else [the (cdg_p_entry (g_cdg_lrd_mbx_state ?g))]) y z"
      using mbx[OF y(2)] by blast
    have "ec_send_process_data_group os i s = Some (EC_OK, s\<lparr>ec_x := z\<rparr>)"
      using y(1) z(1) True upd by (simp add: ec_send_process_data_group_def Let_def)
    moreover have "queued_high (group_entries ?g) ?x z"
      using queued_high_trans[OF y(2) z(2)] True by (simp add: group_entries_def Let_def split: if_splits)
    ultimately show ?thesis by blast
  next
    case False
    then obtain p k p' k' where c: "cdg_ready (pg_log_len ?pd) ?x (g_cdg_lwr ?g) p k"
        "cdg_ready (pg_log_len ?pd) ?x (g_cdg_lrd ?g) p' k'"
      using assms by (auto simp: steady_def Let_def)
    obtain y where y: "pd_send os CB_PD_GROUP_LWR (pg_group ?pd) EC_OK (pg_log_len ?pd) EC_CMD_LWR (pg_log ?pd)
          (pg_pdout_len ?pd) (pd_outputs ?pd) (g_cdg_lwr ?g) ?x = Some (EC_OK, g_cdg_lwr ?g, y)"
        "queued_high (if pg_log_len ?pd = 0 then [] else [the (cdg_p_entry (g_cdg_lwr ?g))]) ?x y"
      using pd_send_steady[OF c(1)] st unfolding out by force
    have "cdg_ready (pg_log_len ?pd) y (g_cdg_lrd ?g) p' k'" using c(2) cdg_ready_queued[OF y(2)] by blast
    from pd_send_steady[OF this, of "[]"] obtain w where w: "pd_send os CB_PD_GROUP (pg_group ?pd) EC_OK (pg_log_len ?pd) EC_CMD_LRD
          (pg_log ?pd + of_nat (pg_pdout_len ?pd)) (pg_pdin_len ?pd) (Some []) (g_cdg_lrd ?g) y = Some (EC_OK, g_cdg_lrd ?g, w)"
        "queued_high (if pg_log_len ?pd = 0 then [] else [the (cdg_p_entry (g_cdg_lrd ?g))]) y w"
      using st by force
    note yw = queued_high_trans[OF y(2) w(2)]
    obtain z where z: "pd_send os CB_LRD_MBX_STATE (pg_group ?pd) EC_OK (pg_log_mbx_state_len ?pd) EC_CMD_LRD
        (pg_log_mbx_state ?pd) (pg_log_mbx_state_len ?pd) (Some []) (g_cdg_lrd_mbx_state ?g) w
        = Some (EC_OK, g_cdg_lrd_mbx_state ?g, z)"
        "queued_high (if pg_log_mbx_state_len ?pd = 0 then [] else [the (cdg_p_entry (g_cdg_lrd_mbx_state ?g))]) w z"
      using mbx[OF yw] by blast
    have "ec_send_process_data_group os i s = Some (EC_OK, s\<lparr>ec_x := z\<rparr>)"
      using y(1) w(1) z(1) False upd by (simp add: ec_send_process_data_group_def Let_def)
    moreover have "queued_high (group_entries ?g) ?x z"
      using queued_high_trans[OF yw z(2)] False by (simp add: group_entries_def Let_def split: if_splits)
    ultimately show ?thesis by blast
  qed
qed

text \<open>\<open>due g\<close>: the group is sent in this cycle; \<open>counted g\<close> is the group after it.\<close>

definition due :: "pd_group_c \<Rightarrow> bool" where
  "due g \<longleftrightarrow> (pg_divisor_cnt (g_pd g) + 1) mod pg_divisor (g_pd g) = 0"

definition counted :: "pd_group_c \<Rightarrow> pd_group_c" where
  "counted g = g\<lparr>g_pd := (g_pd g)\<lparr>pg_divisor_cnt := if due g then 0 else pg_divisor_cnt (g_pd g) + 1\<rparr>\<rparr>"

definition due_entries :: "pd_group_c \<Rightarrow> nat list" where
  "due_entries g = (if due g then group_entries g else [])"

lemma counted_steady [simp]: "steady x (counted g) \<longleftrightarrow> steady x g" "group_entries (counted g) = group_entries g"
  by (simp_all add: counted_def steady_def group_entries_def Let_def)

lemma send_groups_steady:
  assumes "\<forall>j\<in>set js. j < length (ec_pd_groups s) \<and> steady (ec_x s) (ec_pd_groups s ! j)" "distinct js"
  shows "\<exists>x'. send_groups os js s = Some (EC_OK, s\<lparr>ec_x := x',
       ec_pd_groups := fold (\<lambda>j gs. gs[j := counted (gs ! j)]) js (ec_pd_groups s)\<rparr>) \<and>
     queued_high (concat (map (\<lambda>j. due_entries (ec_pd_groups s ! j)) js)) (ec_x s) x'"
  using assms
proof (induction js arbitrary: s)
  case Nil
  show ?case by (intro exI[of _ "ec_x s"]) (simp add: queued_high_Nil)
next
  case (Cons j js)
  let ?g = "ec_pd_groups s ! j"
  let ?s = "s\<lparr>ec_pd_groups := (ec_pd_groups s)[j := counted ?g]\<rparr>"
  let ?q = "due_entries ?g"
  have j: "j < length (ec_pd_groups s)" "steady (ec_x s) ?g" using Cons.prems(1) by auto
  have upd: "pd_upd j (\<lambda>pd. pd\<lparr>pg_divisor_cnt := if due ?g then 0 else pg_divisor_cnt (g_pd ?g) + 1\<rparr>) s = ?s"
    by (simp add: pd_upd_def counted_def)
  have "steady (ec_x ?s) (ec_pd_groups ?s ! j)" using j by simp
  from send_group_steady[OF this, of os] obtain x where x:
      "ec_send_process_data_group os j ?s = Some (EC_OK, ?s\<lparr>ec_x := x\<rparr>)"
      "queued_high (group_entries ?g) (ec_x s) x" using j by auto
  define y where "y = (if due ?g then x else ec_x s)"
  have y: "(if due ?g then ec_send_process_data_group os j ?s else Some (EC_OK, ?s)) = Some (EC_OK, ?s\<lparr>ec_x := y\<rparr>)"
      "queued_high ?q (ec_x s) y"
    using x queued_high_Nil[of "ec_x s"] by (auto simp: y_def due_entries_def)
  define gs where "gs = (ec_pd_groups s)[j := counted ?g]"
  let ?t = "s\<lparr>ec_x := y, ec_pd_groups := gs\<rparr>"
  have "\<forall>k\<in>set js. k < length (ec_pd_groups ?t) \<and> steady (ec_x ?t) (ec_pd_groups ?t ! k)"
    using Cons.prems by (auto simp: gs_def steady_queued[OF y(2)] nth_list_update)
  from Cons.IH[OF this] Cons.prems(2) obtain z where z:
      "send_groups os js ?t = Some (EC_OK, s\<lparr>ec_x := z, ec_pd_groups := fold (\<lambda>j gs. gs[j := counted (gs ! j)]) js gs\<rparr>)"
      "queued_high (concat (map (\<lambda>k. due_entries (gs ! k)) js)) y z"
    by auto
  have same: "map (\<lambda>k. due_entries (gs ! k)) js
      = map (\<lambda>k. due_entries (ec_pd_groups s ! k)) js"
    by (rule map_cong[OF refl]) (metis Cons.prems(2) distinct.simps(2) gs_def nth_list_update_neq)
  have "(if due ?g then ec_send_process_data_group os j ?s else Some (EC_OK, ?s)) = Some (EC_OK, ?t)"
    using y(1) by (simp add: gs_def)
  moreover have "send_groups os (j # js) s = Option.bind
      (if due ?g then ec_send_process_data_group os j ?s else Some (EC_OK, ?s))
      (\<lambda>(ret, s). if ret \<noteq> EC_OK then Some (ret, s) else send_groups os js s)"
    unfolding send_groups.simps Let_def due_def[symmetric] upd by (rule refl)
  ultimately have "send_groups os (j # js) s = send_groups os js ?t" by simp
  then show ?case using z(1) queued_high_trans[OF y(2) z(2)[unfolded same]] by (auto simp: gs_def)
qed

lemma fold_counted:
  "fold (\<lambda>j gs. gs[j := counted (gs ! j)]) [0..<n] gs = map counted (take n gs) @ drop n gs" if "n \<le> length gs"
  using that
proof (induction n)
  case (Suc n)
  then have "n < length gs" by simp
  then have "drop n gs = gs ! n # drop (Suc n) gs" by (rule Cons_nth_drop_Suc[symmetric])
  with Suc show ?case by (simp add: nth_append list_update_append take_Suc_conv_app_nth)
qed simp

text \<open>
  C18: In the steady state a cycle succeeds, and it queues the datagrams of exactly the groups
  whose divisor is reached, in the order of the groups; a group that is sent starts counting
  anew, the others count on.
\<close>

theorem send_process_data_schedule:
  assumes "\<forall>g\<in>set (ec_pd_groups s). steady (ec_x s) g"
  shows "\<exists>s'. ec_send_process_data os s = Some (EC_OK, s') \<and>
     avail (hw_tx_high (x_hw (ec_x s'))) =
       avail (hw_tx_high (x_hw (ec_x s))) @ concat (map group_entries (filter due (ec_pd_groups s))) \<and>
     map (\<lambda>g. pg_divisor_cnt (g_pd g)) (ec_pd_groups s') =
       map (\<lambda>g. if due g then 0 else pg_divisor_cnt (g_pd g) + 1) (ec_pd_groups s) \<and>
     (\<forall>g\<in>set (ec_pd_groups s'). steady (ec_x s') g)"
proof -
  let ?gs = "ec_pd_groups s"
  have fc: "fold (\<lambda>j gs. gs[j := counted (gs ! j)]) [0..<length ?gs] ?gs = map counted ?gs"
    using fold_counted[of "length ?gs" ?gs] by simp
  have h: "\<forall>j\<in>set [0..<length ?gs]. j < length ?gs \<and> steady (ec_x s) (?gs ! j)" using assms by simp
  obtain x where "send_groups os [0..<length ?gs] s = Some (EC_OK, s\<lparr>ec_x := x,
       ec_pd_groups := fold (\<lambda>j gs. gs[j := counted (gs ! j)]) [0..<length ?gs] ?gs\<rparr>)"
      and xq: "queued_high (concat (map (\<lambda>j. due_entries (?gs ! j)) [0..<length ?gs])) (ec_x s) x"
    using send_groups_steady[OF h distinct_upt, of os] by (elim exE conjE) (rule that)
  then have xs: "ec_send_process_data os s = Some (EC_OK, s\<lparr>ec_x := x, ec_pd_groups := map counted ?gs\<rparr>)"
    by (simp only: fc ec_send_process_data_def)
  have "map (\<lambda>j. due_entries (?gs ! j)) [0..<length ?gs]
      = map due_entries ?gs"
    by (rule nth_equalityI) simp_all
  moreover have "concat (map due_entries gs) = concat (map group_entries (filter due gs))" for gs
    by (induction gs) (simp_all add: due_entries_def)
  ultimately have q: "queued_high (concat (map group_entries (filter due ?gs))) (ec_x s) x" using xq by simp
  have cnt: "map (\<lambda>g. pg_divisor_cnt (g_pd g)) (map counted ?gs)
      = map (\<lambda>g. if due g then 0 else pg_divisor_cnt (g_pd g) + 1) ?gs"
    by (simp add: counted_def)
  have st: "\<forall>g\<in>set (map counted ?gs). steady x g" using assms by (simp add: steady_queued[OF q])
  show ?thesis
  proof (intro exI conjI)
    show "ec_send_process_data os s = Some (EC_OK, s\<lparr>ec_x := x, ec_pd_groups := map counted ?gs\<rparr>)" by (rule xs)
  next
    show "avail (hw_tx_high (x_hw (ec_x (s\<lparr>ec_x := x, ec_pd_groups := map counted ?gs\<rparr>)))) =
       avail (hw_tx_high (x_hw (ec_x s))) @ concat (map group_entries (filter due ?gs))"
      using q by (simp add: queued_high_def)
  next
    show "map (\<lambda>g. pg_divisor_cnt (g_pd g)) (ec_pd_groups (s\<lparr>ec_x := x, ec_pd_groups := map counted ?gs\<rparr>)) =
       map (\<lambda>g. if due g then 0 else pg_divisor_cnt (g_pd g) + 1) ?gs"
      unfolding cnt[symmetric] by simp
  next
    show "\<forall>g\<in>set (ec_pd_groups (s\<lparr>ec_x := x, ec_pd_groups := map counted ?gs\<rparr>)).
       steady (ec_x (s\<lparr>ec_x := x, ec_pd_groups := map counted ?gs\<rparr>)) g"
      using st by simp
  qed
qed

text \<open>A master with a group of four bytes of outputs and six of inputs, its datagrams in place.\<close>

definition demo_cdg :: "nat \<Rightarrow> nat \<Rightarrow> cyclic_datagram" where
  "demo_cdg p k = \<lparr>cdg_p_entry = Some p, cdg_p_idx = Some k\<rparr>"

definition demo_group :: "bool \<Rightarrow> bool \<Rightarrow> nat \<Rightarrow> pd_group_c" where
  "demo_group lrw overlapping log_len =
     \<lparr>g_pd = demo_pd\<lparr>pg_use_lrw := lrw, pg_overlapping := overlapping, pg_log_len := log_len, pg_pdout_len := 4,
                     pg_pdin_len := 6, pg_wkc_expected_lrw := 3, pg_wkc_expected_lrd := 1\<rparr>,
      g_cdg = demo_cdg 0 0, g_cdg_lwr = demo_cdg 1 0, g_cdg_lrd = demo_cdg 2 0, g_cdg_lrd_mbx_state = demo_cdg 3 0\<rparr>"

lemma demo_entry_data: "length (entry_data p fresh_master) = 1600"
  by (simp add: fresh_master_def entry_data_def)

lemma demo_ready: "n < 1500 \<Longrightarrow> \<exists>p' k'. cdg_ready n fresh_master (demo_cdg p k) p' k'"
  by (simp add: demo_cdg_def cdg_ready_def demo_entry_data)

lemma demo_steady: "6 \<le> n \<Longrightarrow> n < 1500 \<Longrightarrow> steady fresh_master (demo_group lrw overlapping n)"
  using demo_ready[of n] demo_ready[of 0]
  by (simp add: steady_def Let_def demo_group_def demo_pd_def)

theorem send_process_data_schedule_witness:
  "\<exists>s'. ec_send_process_data posix_osal (demo_ec fresh_master [demo_group True True 6] []) = Some (EC_OK, s') \<and>
     avail (hw_tx_high (x_hw (ec_x s'))) = [0]"
proof -
  let ?s = "demo_ec fresh_master [demo_group True True 6] []"
  have "\<forall>g\<in>set (ec_pd_groups ?s). steady (ec_x ?s) g" by (simp add: demo_ec_def demo_steady)
  moreover have "concat (map group_entries (filter due (ec_pd_groups ?s))) = [0]"
    by (simp add: demo_ec_def due_def demo_group_def demo_pd_def group_entries_def Let_def demo_cdg_def)
  moreover have "avail (hw_tx_high (x_hw (ec_x ?s))) = []" by (simp add: demo_ec_def fresh_master_def)
  ultimately show ?thesis using send_process_data_schedule[of ?s posix_osal] by auto
qed

text \<open>
  What a group sends with LRW: one datagram at the logical address of the group, as long as
  its logical area, with the outputs of the image at its front and the index it holds.
\<close>

theorem process_data_lrw_sent:
  assumes "steady (ec_x s) (ec_pd_groups s ! i)" "pg_use_lrw (g_pd (ec_pd_groups s ! i))"
    and "pg_log_len (g_pd (ec_pd_groups s ! i)) > 0" "g_cdg (ec_pd_groups s ! i) = \<lparr>cdg_p_entry = Some p, cdg_p_idx = Some k\<rparr>"
    and "cdg_p_entry (g_cdg_lrd_mbx_state (ec_pd_groups s ! i)) \<noteq> Some p"
  shows "\<exists>s'. ec_send_process_data_group os i s = Some (EC_OK, s') \<and>
     (let pd = g_pd (ec_pd_groups s ! i)
      in sent_datagram EC_CMD_LRW (pg_log pd) (pg_log_len pd) (slot_idx (ec_x s) k)
           (take (pg_pdout_len pd) (pg_pd pd)) (entry_data p (ec_x s')))"
proof -
  let ?g = "ec_pd_groups s ! i" and ?x = "ec_x s"
  let ?pd = "g_pd ?g"
  have st: "pg_pdout_len ?pd \<le> length (pg_pd ?pd)" "pg_pdout_len ?pd \<le> pg_log_len ?pd"
    using assms(1) by (simp_all add: steady_def Let_def)
  then have out: "pd_outputs ?pd = Some (take (pg_pdout_len ?pd) (pg_pd ?pd))" by (simp add: pd_outputs_def)
  obtain q l where m: "cdg_ready (pg_log_mbx_state_len ?pd) ?x (g_cdg_lrd_mbx_state ?g) q l"
    using assms(1) by (auto simp: steady_def Let_def)
  have c: "cdg_ready (pg_log_len ?pd) ?x (g_cdg ?g) p k"
    using assms(1,2,4) by (auto simp: steady_def Let_def cdg_ready_def)
  then have "pg_log_len ?pd < 2048" by (simp add: cdg_ready_def)
  then obtain y where y: "pd_send os CB_PD_GROUP (pg_group ?pd) EC_OK (pg_log_len ?pd) EC_CMD_LRW (pg_log ?pd)
        (pg_log_len ?pd) (pd_outputs ?pd) (g_cdg ?g) ?x = Some (EC_OK, g_cdg ?g, y)" "queued_high [p] ?x y"
      "sent_datagram EC_CMD_LRW (pg_log ?pd) (pg_log_len ?pd) (slot_idx ?x k) (take (pg_pdout_len ?pd) (pg_pd ?pd)) (entry_data p y)"
    using pd_send_ready[OF c, of "take (pg_pdout_len ?pd) (pg_pd ?pd)" "pg_log_len ?pd" os CB_PD_GROUP "pg_group ?pd"
        EC_CMD_LRW "pg_log ?pd"] st assms(3) unfolding out by auto
  have "cdg_ready (pg_log_mbx_state_len ?pd) y (g_cdg_lrd_mbx_state ?g) q l" using m cdg_ready_queued[OF y(2)] by blast
  from pd_send_steady[OF this, of "[]" "pg_log_mbx_state_len ?pd" os CB_LRD_MBX_STATE "pg_group ?pd" EC_CMD_LRD "pg_log_mbx_state ?pd"]
  obtain z where z: "pd_send os CB_LRD_MBX_STATE (pg_group ?pd) EC_OK (pg_log_mbx_state_len ?pd) EC_CMD_LRD
        (pg_log_mbx_state ?pd) (pg_log_mbx_state_len ?pd) (Some []) (g_cdg_lrd_mbx_state ?g) y
        = Some (EC_OK, g_cdg_lrd_mbx_state ?g, z)"
      "queued_high (if pg_log_mbx_state_len ?pd = 0 then [] else [the (cdg_p_entry (g_cdg_lrd_mbx_state ?g))]) y z"
    by auto
  have "entry_data p z = entry_data p y" using z(2) m assms(5) by (auto simp: queued_high_def cdg_ready_def split: if_splits)
  moreover have "ec_send_process_data_group os i s = Some (EC_OK, s\<lparr>ec_x := z\<rparr>)"
    using y(1) z(1) assms(2) by (simp add: ec_send_process_data_group_def Let_def)
  ultimately show ?thesis using y(3) by (auto simp: Let_def)
qed

theorem process_data_lrw_sent_witness:
  "\<exists>s'. ec_send_process_data_group posix_osal 0 (demo_ec fresh_master [demo_group True True 6] []) = Some (EC_OK, s') \<and>
     sent_datagram EC_CMD_LRW 0x10000 6 0 [0, 0, 0, 0] (entry_data 0 (ec_x s'))"
proof -
  let ?s = "demo_ec fresh_master [demo_group True True 6] []"
  have "take 4 (pg_pd demo_pd) = [0, 0, 0, 0]" by (simp add: demo_pd_def numeral_eq_Suc)
  moreover have "slot_idx fresh_master 0 = 0" by (simp add: fresh_master_def)
  ultimately show ?thesis
    using process_data_lrw_sent[of ?s 0 0 0 posix_osal] demo_steady[of 6 True True]
    by (simp add: demo_ec_def demo_group_def demo_cdg_def Let_def) (simp add: demo_pd_def)
qed

section \<open>Receiving\<close>

lemma image_halves:
  assumes "o1 + length ins \<le> length img"
  shows "take o1 (put_at o1 ins img) = take o1 img" "slice o1 (length ins) (put_at o1 ins img) = ins"
  using assms by (simp_all add: put_at_def slice_def)


text \<open>An answer with the payload \<open>pl\<close> and the working counter \<open>w\<close>.\<close>

definition demo_reply :: "bytes \<Rightarrow> u8 \<Rightarrow> bytes" where
  "demo_reply pl w = [0x0C, 0, 0, 0, 1, 0, of_nat (length pl), 0, 0, 0] @ pl @ [w, 0]"

lemma demo_reply_inside: "length pl < 256 \<Longrightarrow> dg_inside (demo_reply pl w)"
  "length pl < 256 \<Longrightarrow> ec_datagram_length (demo_reply pl w) 0 = 12 + length pl"
  by (simp_all add: dg_inside_def demo_reply_def ec_datagram_length_def dg_len_def unat_of_nat)


text \<open>
  With LRW and separate areas the slaves put the inputs behind the outputs of the datagram
  (\<^verbatim>\<open>ec_create_logical_mapping\<close>), but the callback reads them from its front: the input area
  of the image gets the outputs that were sent.
\<close>

theorem process_data_lrw_gets_outputs:
  assumes "pd = g_pd (ec_pd_groups s ! i)" "i < length (ec_pd_groups s)" "dg_inside dgs"
    and "ec_datagram_length dgs 0 = 12 + pg_pdout_len pd + pg_pdin_len pd"
    and "pg_use_lrw pd" "\<not> pg_overlapping pd" "slice 10 (pg_pdout_len pd) dgs = outs"
    and "pg_pdin_len pd = pg_pdout_len pd" "pg_pdout_len pd + pg_pdin_len pd \<le> length (pg_pd pd)"
    and "\<not> pg_skip_pd_on_wkc_mismatch pd"
  shows "\<exists>s'. cb_process_data_group env cb i dgs s = Some s' \<and>
     slice (pg_pdout_len pd) (pg_pdin_len pd) (pg_pd (g_pd (ec_pd_groups s' ! i))) = outs"
proof -
  have fit: "10 + pg_pdin_len pd \<le> length dgs" using assms(3,4) by (simp add: dg_inside_def)
  then have len: "length outs = pg_pdin_len pd" using assms(7,8) by (auto simp: slice_def)
  note h = image_halves[of "pg_pdout_len pd" outs "pg_pd pd", unfolded len, OF assms(9)]
  let ?pd' = "pd\<lparr>pg_recv_missed_lrw := 0, pg_pd := if pg_pdin_len pd > 0 then put_at (pg_pdout_len pd) outs (pg_pd pd) else pg_pd pd\<rparr>"
  have c: "copy_inputs m dgs (pd\<lparr>pg_recv_missed_lrw := 0\<rparr>) = Some ?pd'" for m
    using fit assms(5-10) by (simp add: copy_inputs_def ec_datagram_payload_def)
  have sl: "slice (pg_pdout_len pd) (pg_pdin_len pd) (pg_pd ?pd') = outs" using h len by (auto simp: slice_def)
  have "\<exists>s'. cb_process_data_group env cb i dgs s = Some s' \<and> pg_pd (g_pd (ec_pd_groups s' ! i)) = pg_pd ?pd'"
    using assms(2,3) c
    by (simp add: cb_process_data_group_def Let_def assms(1)[symmetric] pd_upd_def check_group_def del: length_greater_0_conv)
  then show ?thesis using sl by metis
qed

theorem process_data_lrw_gets_outputs_witness:
  "\<exists>s'. cb_process_data_group demo_env (\<lambda>_. False) 0 (demo_reply [1, 2, 3, 4, 21, 22, 23, 24] 3)
     (demo_ec fresh_master [(demo_group True False 8)\<lparr>g_pd := (g_pd (demo_group True False 8))\<lparr>pg_pdin_len := 4\<rparr>\<rparr>] [])
     = Some s' \<and> slice 4 4 (pg_pd (g_pd (ec_pd_groups s' ! 0))) = [1, 2, 3, 4]"
proof -
  let ?g = "(demo_group True False 8)\<lparr>g_pd := (g_pd (demo_group True False 8))\<lparr>pg_pdin_len := 4\<rparr>\<rparr>"
  let ?s = "demo_ec fresh_master [?g] []" and ?d = "demo_reply [1, 2, 3, 4, 21, 22, 23, 24] 3"
  have "slice 10 4 ?d = [1, 2, 3, 4]" by (simp add: demo_reply_def slice_def)
  moreover have "dg_inside ?d" "ec_datagram_length ?d 0 = 20"
    using demo_reply_inside[of "[1, 2, 3, 4, 21, 22, 23, 24]"] by simp_all
  moreover have "length (pg_pd demo_pd) = 64" "\<not> pg_skip_pd_on_wkc_mismatch demo_pd" by (simp_all add: demo_pd_def)
  ultimately show ?thesis
    using process_data_lrw_gets_outputs[of "g_pd ?g" ?s 0 ?d "[1, 2, 3, 4]" demo_env "\<lambda>_. False"]
    by (simp add: demo_group_def demo_ec_def)
qed

text \<open>
  With LRD and separate areas the answer holds only the inputs, but the callback skips
  \<^verbatim>\<open>pdout_len\<close> bytes of it: it reads past the datagram, and past the received bytes when
  the datagram is the last one.
\<close>

theorem process_data_lrd_overruns:
  assumes "pd = g_pd (ec_pd_groups s ! i)" "\<not> pg_use_lrw pd" "\<not> pg_overlapping pd"
    and "length dgs = 12 + pg_pdin_len pd" "pg_pdin_len pd > 0" "pg_pdout_len pd > 2" "\<not> pg_skip_pd_on_wkc_mismatch pd"
  shows "cb_process_data_group env cb i dgs s = None"
  using assms by (auto simp: cb_process_data_group_def Let_def copy_inputs_def ec_datagram_payload_def)

theorem process_data_lrd_overruns_witness:
  "cb_process_data_group demo_env (\<lambda>_. False) 0 (demo_reply [1, 2, 3, 4, 5, 6] 3)
     (demo_ec fresh_master [demo_group False False 10] []) = None"
  by (rule process_data_lrd_overruns[OF refl])
     (simp_all add: demo_ec_def demo_group_def demo_reply_def demo_pd_def)

end
