(* ===== verification/Dc.thy ===== *)
theory Dc
  imports Slave_State "HOL-Library.Signed_Division"
begin

text \<open>
  Distributed clocks (\<^verbatim>\<open>src/dc.c\<close>): the propagation delays and clock offsets that
  \<^verbatim>\<open>ec_dc_config\<close> computes and writes, and the start of the sync signals of a slave
  (\<^verbatim>\<open>ec_dc_sync\<close>). An access outside an array and a division by zero are
  \<^term>\<open>None\<close>; signed 32-bit arithmetic wraps around.
\<close>

section \<open>Ports\<close>

definition forward_port_order :: "nat list list" where
  "forward_port_order = [[3, 1, 2, 0], [2, 0, 3, 1], [0, 3, 1, 2], [1, 2, 0, 3]]"

definition reverse_port_order :: "nat list list" where
  "reverse_port_order = [[2, 1, 3, 0], [3, 0, 2, 1], [1, 3, 0, 2], [0, 2, 1, 3]]"

definition get_previous_active_port :: "ec_slave \<Rightarrow> nat \<Rightarrow> nat" where
  "get_previous_active_port slave port =
     (case List.find (\<lambda>p. bit (sl_active_ports slave) p) (take 3 (reverse_port_order ! port)) of
        Some p \<Rightarrow> p | None \<Rightarrow> port)"

definition get_and_consume_next_available_port :: "ec_slave \<Rightarrow> nat \<Rightarrow> nat \<times> ec_slave" where
  "get_and_consume_next_available_port slave port =
     (case List.find (\<lambda>p. bit (ds_available_ports (sl_dc slave)) p) (forward_port_order ! port) of
        Some p \<Rightarrow> (p, slave\<lparr>sl_dc := (sl_dc slave)\<lparr>ds_available_ports :=
                          ds_available_ports (sl_dc slave) AND NOT (push_bit p 1)\<rparr>\<rparr>)
      | None \<Rightarrow> (port, slave))"

section \<open>Sync signals\<close>

text \<open>The wait for the first answer of the cyclic clock datagram.\<close>

definition dc_wait_body ::
  "('s, 'd) ops \<Rightarrow> nat \<Rightarrow> ('s, 'd) master \<Rightarrow> ('s, 'd) master + (int \<times> ('s, 'd) master)" where
  "dc_wait_body o' t m =
     (let (ex, m) = timer_over o' t m
      in if ex then Inr (EC_ERROR_CYCLIC_LOOP, m)
         else (let m = o_cycle o' m in if dc_dc_time (m_dc m) = 0 then Inl m else Inr (EC_OK, m)))"

definition dc_wait :: "('s, 'd) ops \<Rightarrow> u8 \<Rightarrow> ('s, 'd) master \<Rightarrow> (int \<times> ('s, 'd) master) option" where
  "dc_wait o' active m =
     (if active \<noteq> 0 \<and> dc_dc_time (m_dc m) = 0
      then (let (t, m) = timer_start o' 1000000000 m in loop (o_fuel o') (dc_wait_body o' t) m)
      else Some (EC_OK, m))"

text \<open>The first sync: a second after the last start of a cycle, shifted.\<close>

definition dc_start :: "u64 \<Rightarrow> u64 \<Rightarrow> u32 \<Rightarrow> u64" where
  "dc_start dc_time interval cycle_shift = (dc_time div interval) * interval + scast cycle_shift + 1000000000"

definition ec_dc_sync ::
  "('s, 'd) ops \<Rightarrow> nat \<Rightarrow> u8 \<Rightarrow> u32 \<Rightarrow> u32 \<Rightarrow> u32 \<Rightarrow> ('s, 'd) master \<Rightarrow> (int \<times> ('s, 'd) master) option" where
  "ec_dc_sync o' slave active cycle_time_0 cycle_time_1 cycle_shift m =
     (if slave \<ge> m_slave_cnt m then Some (EC_ERROR_SLAVE_NOT_FOUND, m)
      else if sl_features (slv m slave) AND of_nat EC_REG_ESCSUP__DC_SUPP = 0 then Some (EC_ERROR_UNAVAILABLE, m)
      else do {
        (ret, m) \<leftarrow> dc_wait o' active m;
        (if ret \<noteq> EC_OK then Some (ret, m)
         else if m_main_cycle_interval m = 0 then None
         else (let m = slv_put o' slave EC_REG_DCSYNCACT [0] m;
                   m = slv_put o' slave EC_REG_DCCUC [0] m;
                   (_, m) = slv_get o' slave EC_REG_DCSYSTIME (le64 0) m;
                   start = dc_start (dc_dc_time (m_dc m)) (m_main_cycle_interval m) cycle_shift;
                   m = slv_put o' slave EC_REG_DCSTART0 (le64 start) m;
                   m = slv_put o' slave EC_REG_DCCYCLE0 (le32 cycle_time_0) m;
                   m = slv_put o' slave EC_REG_DCCYCLE1 (le32 cycle_time_1) m;
                   m = slv_put o' slave EC_REG_DCSYNCACT [active] m
               in Some (EC_OK, m)))
      })"

section \<open>Receive times\<close>

definition times_of :: "bytes \<Rightarrow> u32 list" where
  "times_of bs = map (\<lambda>k. u32_of (slice (4 * k) 4 bs)) [0..<4]"

definition read_receive_times :: "('s, 'd) ops \<Rightarrow> nat \<Rightarrow> ('s, 'd) master \<Rightarrow> ('s, 'd) master" where
  "read_receive_times o' i m =
     (let (bs, m) = slv_get o' i EC_REG_DCTIME0 (concat (map le32 (ds_receive_times (sl_dc (slv m i))))) m
      in slv_upd i (\<lambda>s. s\<lparr>sl_dc := (sl_dc s)\<lparr>ds_receive_times := times_of bs\<rparr>\<rparr>) m)"

text \<open>The active port with the smallest receive time, the first of them.\<close>

definition entry_port_of :: "u8 \<Rightarrow> u32 list \<Rightarrow> int" where
  "entry_port_of active ts =
     fold (\<lambda>i e. if bit active i \<and> (e = -1 \<or> ts ! i < ts ! nat e) then int i else e) [0..<4] (-1)"

section \<open>Propagation delay\<close>

definition sabs :: "u32 \<Rightarrow> u32" where
  "sabs x = (if x <s 0 then - x else x)"

definition shalf :: "u32 \<Rightarrow> u32" where
  "shalf x = of_int (sint x sdiv 2)"

text \<open>The next parent that uses distributed clocks; \<open>p < 0\<close> is the master.\<close>

fun dc_parent :: "nat \<Rightarrow> ec_slave list \<Rightarrow> int \<Rightarrow> int option" where
  "dc_parent 0 slaves p = None"
| "dc_parent (Suc n) slaves p =
     (if p < 0 then Some p
      else if nat p \<ge> length slaves then None
      else (let s = slaves ! nat p
            in if ds_use_dc (sl_dc s) \<and> sl_features s AND of_nat EC_REG_ESCSUP__DC_SUPP \<noteq> 0 then Some p
               else dc_parent n slaves (sl_parent s)))"

text \<open>The delay of slave \<open>i\<close> below the parent \<open>p\<close>, both with their receive times and entry ports.\<close>

definition delay_below :: "nat \<Rightarrow> nat \<Rightarrow> ('s, 'd) master \<Rightarrow> ('s, 'd) master" where
  "delay_below i p m =
     (let (q, parent) = get_and_consume_next_available_port (slv m p) (nat (sl_entry_port (slv m p)));
          m = slv_upd p (\<lambda>_. parent) m;
          r = get_previous_active_port parent q;
          s = slv m i; d = sl_dc s; ts = ds_receive_times d; tp = ds_receive_times (sl_dc parent);
          with_childs = sabs (tp ! q - tp ! r);
          own = sabs (shalf (with_childs - ds_t_delay_childs d + 20));
          prev = tp ! r - tp ! nat (sl_entry_port parent);
          pdelay = (if sl_entry_port s = 0 then sl_pdelay parent + prev + own
                    else sl_pdelay parent + shalf (sabs (ts ! nat (sl_entry_port s) - ts ! 0 + 20)))
      in slv_upd i (\<lambda>s. s\<lparr>sl_port_on_parent := int q, sl_pdelay := pdelay,
            sl_dc := (sl_dc s)\<lparr>ds_t_delay_with_childs := with_childs, ds_t_delay_slave := own,
                               ds_t_delay_parent_previous := prev\<rparr>\<rparr>) m)"

definition delay_first :: "('s, 'd) ops \<Rightarrow> nat \<Rightarrow> ('s, 'd) master \<Rightarrow> ('s, 'd) master" where
  "delay_first o' i m =
     (if dc_mode (m_dc m) = dc_mode_master_as_ref_clock
      then slv_upd i (\<lambda>s. s\<lparr>sl_pdelay := o_three_tenths o' (dc_packet_duration (m_dc m)
              - scast (ds_t_delay_childs (sl_dc (slv m (nat (dc_next (m_dc m)))))))\<rparr>) m
      else m)"

definition dc_delay :: "('s, 'd) ops \<Rightarrow> nat \<Rightarrow> ('s, 'd) master \<Rightarrow> ('s, 'd) master option" where
  "dc_delay o' i m = do {
     p \<leftarrow> dc_parent (Suc (length (m_slaves m))) (m_slaves m) (sl_parent (slv m i));
     let m = slv_upd i (\<lambda>s. s\<lparr>sl_dc := (sl_dc s)\<lparr>ds_t_delay_childs :=
               ds_receive_times (sl_dc s) ! get_previous_active_port s (nat (sl_entry_port s))
               - ds_receive_times (sl_dc s) ! nat (sl_entry_port s)\<rparr>\<rparr>) m;
     let m = (if p \<ge> 0 then delay_below i (nat p) m else delay_first o' i m);
     Some (slv_put o' i EC_REG_DCSYSDELAY (le32 (sl_pdelay (slv m i))) m)
   }"

section \<open>Configuration\<close>

text \<open>The first slave with distributed clocks is the reference clock; the others are chained.\<close>

definition dc_enter :: "nat \<Rightarrow> int \<Rightarrow> ('s, 'd) master \<Rightarrow> ('s, 'd) master" where
  "dc_enter i prev m =
     (if \<not> dc_have_dc (m_dc m)
      then slv_upd i (\<lambda>s. s\<lparr>sl_dc := (sl_dc s)\<lparr>ds_prev := -1\<rparr>\<rparr>)
             (m\<lparr>m_dc := (m_dc m)\<lparr>dc_master_address := sl_fixed_address (slv m i), dc_have_dc := True,
                dc_have_64bit := (sl_features (slv m i) AND 0x0008 \<noteq> 0), dc_rtc_time := 0, dc_next := int i\<rparr>\<rparr>)
      else slv_upd i (\<lambda>s. s\<lparr>sl_dc := (sl_dc s)\<lparr>ds_prev := prev\<rparr>\<rparr>)
             (slv_upd (nat prev) (\<lambda>s. s\<lparr>sl_dc := (sl_dc s)\<lparr>ds_next := int i\<rparr>\<rparr>) m))"

text \<open>An ET1200 with a wrong entry port is told to reverse its processing order.\<close>

definition dc_reverse :: "('s, 'd) ops \<Rightarrow> nat \<Rightarrow> ('s, 'd) master \<Rightarrow> ('s, 'd) master" where
  "dc_reverse o' i m =
     (if sl_entry_port (slv m i) \<noteq> 0 \<and> sl_type (slv m i) = 0x1200
      then read_receive_times o' i (slv_put o' i EC_REG_DCTIME0 (le32 0) (slv_put o' i 0x936 [1] m))
      else m)"

text \<open>The control loop is reset, and the local time set to that of the application.\<close>

definition dc_offset :: "('s, 'd) ops \<Rightarrow> nat \<Rightarrow> ('s, 'd) master \<Rightarrow> ('s, 'd) master" where
  "dc_offset o' i m =
     (let (speed, m) = slv_get o' i EC_REG_DCSPEEDCNT (le16 1000) m;
          m = slv_put o' i EC_REG_DCSPEEDCNT speed m;
          (sof, m) = slv_get o' i EC_REG_DCSOF (le64 0) m;
          dcsof = - u64_of sof;
          (dcsof, m) = (case o_time_func o' of
                          None \<Rightarrow> (dcsof, m)
                        | Some f \<Rightarrow> (let (now, s) = f (m_bus m) in (dcsof + now, m\<lparr>m_bus := s\<rparr>)))
      in slv_put o' i EC_REG_DCSYSOFFSET (le64 dcsof) m)"

definition dc_master_clock :: "('s, 'd) ops \<Rightarrow> nat \<Rightarrow> ('s, 'd) master \<Rightarrow> ('s, 'd) master option" where
  "dc_master_clock o' i m =
     (if dc_master_address (m_dc m) \<noteq> sl_fixed_address (slv m i) then Some m
      else if m_main_cycle_interval m = 0 then None
      else (let (now, s) = o_now o' (m_bus m); iv = m_main_cycle_interval m
            in Some (m\<lparr>m_bus := s, m_dc := (m_dc m)\<lparr>dc_dc_sto := 0, dc_rtc_sto := (now div iv) * iv,
                                                 dc_rtc_time := 0\<rparr>\<rparr>)))"

text \<open>One slave; \<open>prev\<close> is the last one with distributed clocks.\<close>

definition dc_config_slave ::
  "('s, 'd) ops \<Rightarrow> nat \<Rightarrow> int \<times> ('s, 'd) master \<Rightarrow> (int \<times> ('s, 'd) master) option" where
  "dc_config_slave o' i = (\<lambda>(prev, m).
     (let m = slv_upd i (\<lambda>s. s\<lparr>sl_dc := (sl_dc s)\<lparr>ds_available_ports := sl_active_ports s\<rparr>\<rparr>) m; s = slv m i
      in if \<not> ds_use_dc (sl_dc s) \<or> sl_features s AND of_nat EC_REG_ESCSUP__DC_SUPP = 0
         then Some (prev, slv_upd i (\<lambda>s. s\<lparr>sl_dc := (sl_dc s)\<lparr>ds_use_dc := False,
                                                                 ds_receive_times := [0, 0, 0, 0]\<rparr>\<rparr>) m)
         else (let m = read_receive_times o' i (dc_enter i prev m);
                   m = slv_upd i (\<lambda>s. s\<lparr>sl_entry_port := entry_port_of (sl_active_ports s)
                                                            (ds_receive_times (sl_dc s))\<rparr>) m
               in if sl_entry_port (slv m i) = -1 then None
                  else do {
                    let m = dc_reverse o' i m;
                    let m = slv_upd i (\<lambda>s. s\<lparr>sl_dc := (sl_dc s)\<lparr>ds_available_ports :=
                              ds_available_ports (sl_dc s) AND NOT (push_bit (nat (sl_entry_port s)) 1)\<rparr>\<rparr>) m;
                    m \<leftarrow> dc_master_clock o' i (dc_offset o' i m);
                    m \<leftarrow> dc_delay o' i m;
                    Some (int i, m)
                  })))"

fun dc_config_slaves ::
  "('s, 'd) ops \<Rightarrow> nat list \<Rightarrow> int \<times> ('s, 'd) master \<Rightarrow> (int \<times> ('s, 'd) master) option" where
  "dc_config_slaves o' [] st = Some st"
| "dc_config_slaves o' (i # is) st = Option.bind (dc_config_slave o' i st) (dc_config_slaves o' is)"

definition dc_bwr :: "('s, 'd) ops \<Rightarrow> nat \<Rightarrow> bytes \<Rightarrow> ('s, 'd) master \<Rightarrow> ('s, 'd) master" where
  "dc_bwr o' ado d m = (let (ret, d, w, s) = ec_bwr (o_bus o') ado d 0 (m_bus m) in m\<lparr>m_bus := s\<rparr>)"

definition ec_dc_config :: "('s, 'd) ops \<Rightarrow> ('s, 'd) master \<Rightarrow> (int \<times> ('s, 'd) master) option" where
  "ec_dc_config o' m =
     (let m = m\<lparr>m_dc := (m_dc m)\<lparr>dc_have_dc := False, dc_have_64bit := True, dc_master_address := 0\<rparr>\<rparr>;
          m = dc_bwr o' EC_REG_DCTIME0 (le32 0) m;
          m = dc_bwr o' EC_REG_DCSOF (le64 0) m;
          m = dc_bwr o' EC_REG_DCSYSOFFSET (le64 0) m;
          m = dc_bwr o' EC_REG_DCSYSDELAY (le64 0) m;
          (duration, s) = o_packet_duration o' (m_bus m);
          m = m\<lparr>m_bus := s, m_dc := (m_dc m)\<lparr>dc_packet_duration := duration\<rparr>\<rparr>
      in map_option (\<lambda>(_, m). (EC_OK, m)) (dc_config_slaves o' [0..<m_slave_cnt m] (-1, m)))"

end
