(* ===== verification/Slave.thy ===== *)
theory Slave
  imports Dc
begin

text \<open>
  The states of a slave (\<^verbatim>\<open>src/slave.c\<close>): reading and setting its state, the
  preparation of a transition, and the transitions with what they configure. A loop that waits
  for a timer runs on \<open>o_fuel\<close> rounds; \<^term>\<open>None\<close> is an access outside an array, a
  division by zero or too little fuel. What a write leaves in the caller's variable is its new
  value. Logging is left out.
\<close>

section \<open>Reading the state\<close>

text \<open>
  \<open>state\<close> and \<open>alstatcode\<close> are the contents of the caller's variables, the second of which may
  be absent.
\<close>

definition ec_slave_get_state ::
  "('s, 'd) ops \<Rightarrow> nat \<Rightarrow> u16 \<Rightarrow> u16 option \<Rightarrow> ('s, 'd) master \<Rightarrow> int \<times> u16 \<times> u16 option \<times> ('s, 'd) master" where
  "ec_slave_get_state o' i state alstatcode m =
     (if i \<ge> m_slave_cnt m then (EC_ERROR_SLAVE_NOT_FOUND, state, alstatcode, m)
      else (let (ret, v, wkc, m) = slv_fprd o' i EC_REG_ALSTAT (le16 0) 0 m
            in if ret \<noteq> EC_OK \<or> wkc = 0 then (EC_ERROR_SLAVE_NOT_RESPONDING, EC_STATE_UNKNOWN, alstatcode, m)
               else (let state = u16_of v; m = slv_upd i (\<lambda>s. s\<lparr>sl_act_state := state\<rparr>) m
                     in if alstatcode \<noteq> None \<and> state AND 0x10 \<noteq> 0
                        then (let (ret, v, wkc, m) = slv_fprd o' i EC_REG_ALSTATCODE (le16 0) 0 m
                              in (ret, state, if ret = EC_OK \<and> wkc \<noteq> 0 then Some (u16_of v) else alstatcode, m))
                        else (ret, state, alstatcode, m))))"

section \<open>Setting the state\<close>

text \<open>The reset of the error bit: repeated until the bit is gone or a second is over.\<close>

definition reset_error_body ::
  "('s, 'd) ops \<Rightarrow> nat \<Rightarrow> nat \<Rightarrow> u16 \<times> u16 \<times> ('s, 'd) master \<Rightarrow> (u16 \<times> u16 \<times> ('s, 'd) master) + ('s, 'd) master" where
  "reset_error_body o' i t = (\<lambda>(state, act_state, m).
     (let (_, d, wkc, m) = slv_fpwr o' i EC_REG_ALCTL (le16 state) 0 m;
          (_, a, wkc, m) = slv_fprd o' i EC_REG_ALSTAT (le16 act_state) wkc m
      in if wkc \<noteq> 0 \<and> u16_of a AND EC_STATE_ERROR = 0 then Inr m
         else (let (ex, m) = timer_over o' t m in if ex then Inr m else Inl (u16_of d, u16_of a, m))))"

text \<open>
  A round of the switch: \<open>again\<close> is the recursive call that acknowledges an error of the slave.
  The variables are \<open>ret\<close>, the requested state, the state that was read and the status code.
\<close>

definition set_state_body ::
  "('s, 'd) ops \<Rightarrow> (u16 \<Rightarrow> ('s, 'd) master \<Rightarrow> (int \<times> ('s, 'd) master) option) \<Rightarrow> nat \<Rightarrow> nat \<Rightarrow>
   int \<times> u16 \<times> u16 \<times> bytes \<times> ('s, 'd) master \<Rightarrow>
   (int \<times> u16 \<times> u16 \<times> bytes \<times> ('s, 'd) master) + (int \<times> u16 \<times> u16 \<times> ('s, 'd) master) option" where
  "set_state_body o' again i t = (\<lambda>(ret, state, act_state, value, m).
     (let (r, d, wkc, m) = slv_fpwr o' i EC_REG_ALCTL (le16 state) 0 m;
          state = u16_of d;
          (ret, act_state, m) =
            (if r = EC_OK then (let (ret, a, _, m) = ec_slave_get_state o' i 0 None m in (ret, a, m))
             else (ret, act_state, m));
          (r', value, wkc, m) =
            (if r = EC_OK \<and> act_state AND EC_STATE_ERROR \<noteq> 0 then slv_fprd o' i EC_REG_ALSTATCODE value wkc m
             else (r, value, wkc, m));
          acked = (if r = EC_OK \<and> act_state AND EC_STATE_ERROR \<noteq> 0 \<and> r' = EC_OK \<and> u16_of value \<noteq> 0
                   then map_option snd (again ((act_state AND EC_STATE_MASK) OR EC_STATE_RESET) m) else Some m)
      in case acked of
           None \<Rightarrow> Inr None
         | Some m \<Rightarrow>
             (let m = pause o' 1000000 m
              in if act_state = state then Inr (Some (ret, state, act_state, m))
                 else (let (ex, m) = timer_over o' t m
                       in if ex then Inr (Some (ret, state, act_state, m))
                          else Inl (ret, state, act_state, value, m)))))"

text \<open>What follows the loop.\<close>

definition set_state_end ::
  "('s, 'd) ops \<Rightarrow> nat \<Rightarrow> nat \<Rightarrow> int \<times> u16 \<times> u16 \<times> ('s, 'd) master \<Rightarrow> int \<times> ('s, 'd) master" where
  "set_state_end o' i t = (\<lambda>(ret, state, act_state, m).
     (let (ex, m) = timer_over o' t m;
          ret = (if ex then EC_ERROR_SLAVE_NOT_RESPONDING else ret);
          (ret, m) = (if ret = EC_OK
                      then (if act_state = state then EC_OK else EC_ERROR_SLAVE_STATE_SWITCH,
                            slv_upd i (\<lambda>s. s\<lparr>sl_act_state := act_state\<rparr>) m)
                      else (ret, m))
      in (ret, slv_upd i (\<lambda>s. s\<lparr>sl_transition_active := False\<rparr>) m)))"

fun set_state_depth ::
  "nat \<Rightarrow> ('s, 'd) ops \<Rightarrow> nat \<Rightarrow> u16 \<Rightarrow> ('s, 'd) master \<Rightarrow> (int \<times> ('s, 'd) master) option" where
  "set_state_depth 0 o' i state m = None"
| "set_state_depth (Suc depth) o' i state m =
     (if i \<ge> m_slave_cnt m then Some (EC_ERROR_SLAVE_NOT_FOUND, m)
      else (let (r, d, wkc, m) = slv_fpwr o' i EC_REG_ALCTL (le16 state) 0 m; state = u16_of d
            in if r \<noteq> EC_OK then Some (EC_ERROR_SLAVE_NOT_RESPONDING, m)
               else if state AND EC_STATE_RESET \<noteq> 0
               then (let (t, m) = timer_start o' 1000000000 m
                     in map_option (\<lambda>m. (EC_OK, m)) (loop (o_fuel o') (reset_error_body o' i t) (state, 0, m)))
               else (let m = slv_upd i (\<lambda>s. s\<lparr>sl_transition_active := True, sl_expected_state := state\<rparr>) m;
                         (t, m) = timer_start o' 10000000000 m
                     in map_option (set_state_end o' i t)
                          (Option.bind (loop (o_fuel o') (set_state_body o' (set_state_depth depth o' i) i t)
                                          (EC_OK, state, 0, le16 0, m)) id))))"

text \<open>The recursion acknowledges an error and goes no deeper.\<close>

definition ec_slave_set_state ::
  "('s, 'd) ops \<Rightarrow> nat \<Rightarrow> u16 \<Rightarrow> ('s, 'd) master \<Rightarrow> (int \<times> ('s, 'd) master) option" where
  "ec_slave_set_state o' i state m = set_state_depth (Suc (Suc (o_fuel o'))) o' i state m"

section \<open>The process data of a slave\<close>

text \<open>The bits of a PDO of the EEPROM; it may claim more entries than its array has.\<close>

definition pdo_bits :: "cat_pdo \<Rightarrow> nat option" where
  "pdo_bits pdo =
     (if unat (pdo_n_entry pdo) \<le> length (pdo_entries pdo)
      then Some (sum_list (map (\<lambda>e. unat (pe_bit_len e)) (take (unat (pdo_n_entry pdo)) (pdo_entries pdo))))
      else None)"

fun pdos_bits :: "cat_pdo list \<Rightarrow> nat option" where
  "pdos_bits [] = Some 0"
| "pdos_bits (p # ps) = Option.bind (pdo_bits p) (\<lambda>a. map_option (\<lambda>b. a + b) (pdos_bits ps))"

definition sm_bits :: "eeprom_info \<Rightarrow> nat \<Rightarrow> nat option" where
  "sm_bits e sm_idx =
     (let on_sm = filter (\<lambda>p. unat (pdo_sm_nr p) = sm_idx) \<circ> map ((!) (ei_free_pdos e))
      in Option.bind (pdos_bits (on_sm (ei_txpdos e))) (\<lambda>a.
           map_option (\<lambda>b. a + b) (pdos_bits (on_sm (ei_rxpdos e)))))"

fun eeprom_mapping :: "nat list \<Rightarrow> ec_slave \<Rightarrow> ec_slave option" where
  "eeprom_mapping [] s = Some s"
| "eeprom_mapping (k # ks) s =
     (case sm_bits (sl_eeprom s) k of
        None \<Rightarrow> None
      | Some bit_len \<Rightarrow>
          if bit_len = 0 then eeprom_mapping ks s
          else if k < length (sl_sm s)
          then eeprom_mapping ks (s\<lparr>sl_sm := (sl_sm s)[k := (sl_sm s ! k)\<lparr>sm_len := of_nat ((bit_len + 7) div 8)\<rparr>]\<rparr>)
          else None)"

definition ec_slave_generate_mapping ::
  "('s, 'd) ops \<Rightarrow> nat \<Rightarrow> ('s, 'd) master \<Rightarrow> (int \<times> ('s, 'd) master) option" where
  "ec_slave_generate_mapping o' i m =
     (if i \<ge> m_slave_cnt m then Some (EC_ERROR_SLAVE_NOT_FOUND, m)
      else (let s = slv m i; mbx = ei_mbx_supported (sl_eeprom s);
                by_mailbox = (\<lambda>f. let (ret, s', b) = f i s (m_bus m) in Some (ret, slv_upd i (\<lambda>_. s') (m\<lparr>m_bus := b\<rparr>)))
            in if sl_sm_set_by_user s then Some (EC_OK, m)
               else if mbx AND EC_EEPROM_MBX_COE \<noteq> 0 then by_mailbox (o_coe_mapping o')
               else if mbx AND EC_EEPROM_MBX_SOE \<noteq> 0 then by_mailbox (o_soe_mapping o')
               else map_option (\<lambda>s'. (EC_OK, slv_upd i (\<lambda>_. s') m)) (eeprom_mapping [0..<unat (sl_sm_ch s)] s)))"

section \<open>Preparing a transition\<close>

definition transition_of :: "u16 \<Rightarrow> u16 \<Rightarrow> u16" where
  "transition_of act_state state = push_bit 8 (act_state AND EC_STATE_MASK) OR (state AND EC_STATE_MASK)"

fun send_init_cmds :: "('s, 'd) ops \<Rightarrow> nat \<Rightarrow> init_cmd list \<Rightarrow> 's \<Rightarrow> 's" where
  "send_init_cmds o' i [] s = s"
| "send_init_cmds o' i (c # cs) s =
     send_init_cmds o' i cs
       (if ic_transition c \<noteq> 0x24 then s
        else if ic_type c = EC_MBX_COE then snd (o_coe_sdo_write o' i c s)
        else if ic_type c = EC_MBX_SOE then snd (o_soe_write o' i c s)
        else s)"

definition ec_slave_prepare_state_transition ::
  "('s, 'd) ops \<Rightarrow> nat \<Rightarrow> u16 \<Rightarrow> ('s, 'd) master \<Rightarrow> int \<times> ('s, 'd) master" where
  "ec_slave_prepare_state_transition o' i state m =
     (if i \<ge> m_slave_cnt m then (EC_ERROR_SLAVE_NOT_FOUND, m)
      else (let (ret, act_state, _, m) = ec_slave_get_state o' i 0 None m
            in if ret \<noteq> EC_OK then (EC_ERROR_SLAVE_NOT_RESPONDING, m)
               else (EC_OK, if transition_of act_state state \<in> {INIT_2_SAFEOP, PREOP_2_SAFEOP}
                            then m\<lparr>m_bus := send_init_cmds o' i (sl_init_cmds (slv m i)) (m_bus m)\<rparr> else m)))"

section \<open>Resources of a slave\<close>

definition ec_slave_init :: "nat \<Rightarrow> ('s, 'd) master \<Rightarrow> ('s, 'd) master" where
  "ec_slave_init i m = slv_upd i (\<lambda>s. s\<lparr>sl_transition_active := False, sl_mutex := True\<rparr>) m"

definition ec_slave_free :: "('s, 'd) ops \<Rightarrow> nat \<Rightarrow> ('s, 'd) master \<Rightarrow> ('s, 'd) master" where
  "ec_slave_free o' i m =
     slv_upd i (\<lambda>s. s\<lparr>sl_mutex := False\<rparr>) (mbx_deinit o' i m)"

text \<open>The bytes \<^verbatim>\<open>RES\<close>, written to the reset register of the PDI and then to that of the ESC.\<close>

fun write_each :: "('s, 'd) ops \<Rightarrow> nat \<Rightarrow> nat \<Rightarrow> bytes \<Rightarrow> ('s, 'd) master \<Rightarrow> bytes \<times> ('s, 'd) master" where
  "write_each o' i ado [] m = ([], m)"
| "write_each o' i ado (v # vs) m =
     (let (_, d, _, m) = slv_fpwr o' i ado [v] 0 m; (ds, m) = write_each o' i ado vs m in (d @ ds, m))"

definition ec_slave_reset :: "('s, 'd) ops \<Rightarrow> nat \<Rightarrow> ('s, 'd) master \<Rightarrow> ('s, 'd) master" where
  "ec_slave_reset o' i m =
     (let (reset_vals, m) = write_each o' i 0x41 [0x52, 0x45, 0x53] m
      in snd (write_each o' i 0x40 reset_vals m))"

text \<open>\<^term>\<open>None\<close> stands for a null pointer; the string \<open>dns_name\<close> is without its end.\<close>

definition eoe_field :: "nat \<Rightarrow> bytes option \<Rightarrow> bytes \<Rightarrow> bytes" where
  "eoe_field sz val old = put_at 0 (case val of None \<Rightarrow> replicate sz 0 | Some v \<Rightarrow> take sz v) old"

definition ec_slave_set_eoe_settings ::
  "nat \<Rightarrow> bytes option \<Rightarrow> bytes option \<Rightarrow> bytes option \<Rightarrow> bytes option \<Rightarrow> bytes option \<Rightarrow> bytes option \<Rightarrow>
   ('s, 'd) master \<Rightarrow> ('s, 'd) master" where
  "ec_slave_set_eoe_settings i mac ip subnet gateway dns dns_name m =
     slv_upd i (\<lambda>s. s\<lparr>sl_eoe := (let e = sl_eoe s in
        \<lparr>eo_use_eoe = True, eo_mac = eoe_field 6 mac (eo_mac e), eo_ip_address = eoe_field 4 ip (eo_ip_address e),
         eo_subnet = eoe_field 4 subnet (eo_subnet e), eo_gateway = eoe_field 4 gateway (eo_gateway e),
         eo_dns = eoe_field 4 dns (eo_dns e),
         eo_dns_name = eoe_field (case dns_name of None \<Rightarrow> 128 | Some n \<Rightarrow> min 128 (length n)) dns_name (eo_dns_name e)\<rparr>)\<rparr>) m"

end
