(* ===== verification/Slave_Transition.thy ===== *)
theory Slave_Transition
  imports Slave
begin

text \<open>
  \<^verbatim>\<open>ec_slave_state_transition\<close> of \<^verbatim>\<open>src/slave.c\<close>: one definition for each part of the
  switch, which falls through from one part to the next, and the switch itself.
\<close>

section \<open>Memory images\<close>

definition sm_image :: "slave_sm \<Rightarrow> bytes" where
  "sm_image sm = le16 (sm_adr sm) @ le16 (sm_len sm) @ le32 (sm_flags sm)"

definition sm_back :: "bytes \<Rightarrow> slave_sm" where
  "sm_back d = \<lparr>sm_adr = u16_of (slice 0 2 d), sm_len = u16_of (slice 2 2 d), sm_flags = u32_of (slice 4 4 d)\<rparr>"

definition fmmu_image :: "fmmu \<Rightarrow> bytes" where
  "fmmu_image f = le32 (fm_log f) @ le16 (fm_log_len f) @ [fm_log_bit_start f, fm_log_bit_stop f] @
     le16 (fm_phys f) @ [fm_phys_bit_start f, fm_type f, fm_active f] @ fm_reserved f"

definition fmmu_back :: "bytes \<Rightarrow> fmmu" where
  "fmmu_back d = \<lparr>fm_log = u32_of (slice 0 4 d), fm_log_len = u16_of (slice 4 2 d), fm_log_bit_start = d ! 6,
     fm_log_bit_stop = d ! 7, fm_phys = u16_of (slice 8 2 d), fm_phys_bit_start = d ! 10, fm_type = d ! 11,
     fm_active = d ! 12, fm_reserved = slice 13 3 d\<rparr>"

section \<open>Writing the configuration\<close>

definition write_sm :: "('s, 'd) ops \<Rightarrow> nat \<Rightarrow> nat \<Rightarrow> ('s, 'd) master \<Rightarrow> ('s, 'd) master option" where
  "write_sm o' i k m =
     (if k < length (sl_sm (slv m i))
      then (let (_, d, _, m) = slv_fpwr o' i (0x800 + k * 8) (sm_image (sl_sm (slv m i) ! k)) 0 m
            in Some (slv_upd i (\<lambda>s. s\<lparr>sl_sm := (sl_sm s)[k := sm_back d]\<rparr>) m))
      else None)"

definition write_fmmu :: "('s, 'd) ops \<Rightarrow> nat \<Rightarrow> nat \<Rightarrow> ('s, 'd) master \<Rightarrow> ('s, 'd) master option" where
  "write_fmmu o' i k m =
     (if k < length (sl_fmmu (slv m i))
      then (let (_, d, _, m) = slv_fpwr o' i (0x600 + 16 * k) (fmmu_image (sl_fmmu (slv m i) ! k)) 0 m
            in Some (slv_upd i (\<lambda>s. s\<lparr>sl_fmmu := (sl_fmmu s)[k := fmmu_back d]\<rparr>) m))
      else None)"

fun write_all :: "(nat \<Rightarrow> ('s, 'd) master \<Rightarrow> ('s, 'd) master option) \<Rightarrow> nat list \<Rightarrow> ('s, 'd) master \<Rightarrow> ('s, 'd) master option" where
  "write_all f [] m = Some m"
| "write_all f (k # ks) m = Option.bind (f k m) (write_all f ks)"

text \<open>The sync managers with an address, the active FMMUs.\<close>

definition write_used_sm :: "('s, 'd) ops \<Rightarrow> nat \<Rightarrow> nat \<Rightarrow> ('s, 'd) master \<Rightarrow> ('s, 'd) master option" where
  "write_used_sm o' i k m =
     (if k < length (sl_sm (slv m i)) \<and> sm_adr (sl_sm (slv m i) ! k) = 0 then Some m else write_sm o' i k m)"

definition write_active_fmmu :: "('s, 'd) ops \<Rightarrow> nat \<Rightarrow> nat \<Rightarrow> ('s, 'd) master \<Rightarrow> ('s, 'd) master option" where
  "write_active_fmmu o' i k m =
     (if k < length (sl_fmmu (slv m i)) \<and> fm_active (sl_fmmu (slv m i) ! k) = 0 then Some m else write_fmmu o' i k m)"

text \<open>The fixed address is written with the position of the slave; the working counter before is \<open>w\<close>.\<close>

definition rewrite_fixed :: "('s, 'd) ops \<Rightarrow> nat \<Rightarrow> u16 \<Rightarrow> ('s, 'd) master \<Rightarrow> u16 \<times> ('s, 'd) master" where
  "rewrite_fixed o' i w m =
     (let (_, d, w, s) = ec_apwr (o_bus o') (sl_auto_inc_address (slv m i)) EC_REG_STADR
                           (le16 (sl_fixed_address (slv m i))) w (m_bus m)
      in (w, slv_upd i (\<lambda>sl. sl\<lparr>sl_fixed_address := u16_of d\<rparr>) (m\<lparr>m_bus := s\<rparr>)))"

definition dc_off :: "('s, 'd) ops \<Rightarrow> nat \<Rightarrow> ('s, 'd) master \<Rightarrow> ('s, 'd) master" where
  "dc_off o' i m = slv_put o' i EC_REG_DCSYNCACT [0] m"

section \<open>Errors of the slave\<close>

text \<open>The loop that acknowledges the error of a slave, for a second.\<close>

definition error_reset_body ::
  "('s, 'd) ops \<Rightarrow> nat \<Rightarrow> nat \<Rightarrow> u16 \<times> ('s, 'd) master \<Rightarrow>
   (u16 \<times> ('s, 'd) master) + (u16 \<times> ('s, 'd) master) option" where
  "error_reset_body o' i t = (\<lambda>(act_state, m).
     (case ec_slave_set_state o' i ((act_state AND EC_STATE_MASK) OR EC_STATE_RESET) m of
        None \<Rightarrow> Inr None
      | Some (_, m) \<Rightarrow>
          (let (ret, act_state, _, m) = ec_slave_get_state o' i 0 (Some 0) m
           in if ret = EC_OK \<and> act_state AND EC_STATE_ERROR = 0 then Inr (Some (act_state, m))
              else (let (ex, m) = timer_over o' t m
                    in if ex then Inr (Some (act_state, m)) else Inl (act_state, m)))))"

definition reset_error_first ::
  "('s, 'd) ops \<Rightarrow> nat \<Rightarrow> u16 \<Rightarrow> ('s, 'd) master \<Rightarrow> (int \<times> u16 \<times> ('s, 'd) master) option" where
  "reset_error_first o' i act_state m = do {
     let (t, m) = timer_start o' 1000000000 m;
     (act_state, m) \<leftarrow> Option.bind (loop (o_fuel o') (error_reset_body o' i t) (act_state, m)) id;
     let (ex, m) = timer_over o' t m;
     Some (if ex then (EC_ERROR_SLAVE_NOT_RESPONDING, act_state, ec_slave_reset o' i m)
           else (EC_OK, act_state, m))
   }"

text \<open>
  The state before the transition. When it cannot be read, the fixed address is written again;
  an error state with a status code is reset first.
\<close>

definition transition_start ::
  "('s, 'd) ops \<Rightarrow> nat \<Rightarrow> ('s, 'd) master \<Rightarrow> (int \<times> u16 \<times> ('s, 'd) master) option" where
  "transition_start o' i m = do {
     let (ret, act_state, al_status_code, m) = ec_slave_get_state o' i 0 (Some 0) m;
     let (ret, act_state, al_status_code, m) =
       (if ret \<noteq> EC_OK
        then (let (wkc, m) = rewrite_fixed o' i (u16_of (o_uninit o' 2)) m
              in if wkc = 0 then (EC_ERROR_SLAVE_NOT_RESPONDING, act_state, al_status_code, m)
                 else ec_slave_get_state o' i act_state al_status_code m)
        else (ret, act_state, al_status_code, m));
     if ret = EC_OK \<and> act_state AND EC_STATE_ERROR \<noteq> 0 \<and> al_status_code \<noteq> Some 0
     then reset_error_first o' i act_state m
     else Some (ret, act_state, m)
   }"

section \<open>The parts of the switch\<close>

text \<open>From INIT to BOOT or PREOP: the mailboxes, the EEPROM for the slave, EoE.\<close>

definition mailbox_sms :: "bool \<Rightarrow> ec_slave \<Rightarrow> ec_slave" where
  "mailbox_sms boot s =
     (let e = sl_eeprom s;
          (r_adr, r_len) = (if boot \<and> ei_boot_mbx_send_offset e \<noteq> 0
                            then (ei_boot_mbx_send_offset e, ei_boot_mbx_send_size e)
                            else (ei_mbx_send_offset e, ei_mbx_send_size e));
          (w_adr, w_len) = (if boot \<and> ei_boot_mbx_receive_offset e \<noteq> 0
                            then (ei_boot_mbx_receive_offset e, ei_boot_mbx_receive_size e)
                            else (ei_mbx_receive_offset e, ei_mbx_receive_size e))
      in s\<lparr>sl_sm := (sl_sm s)[MAILBOX_READ := \<lparr>sm_adr = r_adr, sm_len = r_len, sm_flags = 0x00010022\<rparr>,
                              MAILBOX_WRITE := \<lparr>sm_adr = w_adr, sm_len = w_len, sm_flags = 0x00010026\<rparr>]\<rparr>)"

definition init_mailboxes :: "('s, 'd) ops \<Rightarrow> nat \<Rightarrow> u16 \<Rightarrow> ('s, 'd) master \<Rightarrow> ('s, 'd) master option" where
  "init_mailboxes o' i transition m =
     (if ei_mbx_supported (sl_eeprom (slv m i)) \<noteq> 0
      then (let m = slv_upd i (mailbox_sms (transition = INIT_2_BOOT)) m
            in write_all (write_sm o' i) [0, 1] (mbx_init o' i m))
      else Some m)"

definition from_init ::
  "('s, 'd) ops \<Rightarrow> nat \<Rightarrow> u16 \<Rightarrow> ('s, 'd) master \<Rightarrow> (int \<times> ('s, 'd) master) option" where
  "from_init o' i transition m = do {
     m \<leftarrow> init_mailboxes o' i transition m;
     let (_, s) = ec_eeprom_to_pdi (o_bus o') (fixed_addresses m) i 0 (m_bus m);
     (ret, m) \<leftarrow> ec_slave_set_state o' i (if transition = INIT_2_BOOT then EC_STATE_BOOT else EC_STATE_PREOP)
                   (m\<lparr>m_bus := s\<rparr>);
     Some (if ret = EC_OK \<and> eo_use_eoe (sl_eoe (slv m i))
           then (let (ret, s) = o_eoe_set_ip o' i (sl_eoe (slv m i)) (m_bus m) in (ret, m\<lparr>m_bus := s\<rparr>))
           else (ret, m))
   }"

text \<open>To SAFEOP: the sync signals, the sync managers and FMMUs of the process data.\<close>

definition sync_signals :: "('s, 'd) ops \<Rightarrow> nat \<Rightarrow> ('s, 'd) master \<Rightarrow> (int \<times> ('s, 'd) master) option" where
  "sync_signals o' i m =
     (if dc_have_dc (m_dc m) \<and> ds_use_dc (sl_dc (slv m i))
      then (let m = (if ds_cycle_time_0 (sl_dc (slv m i)) = 0
                     then slv_upd i (\<lambda>s. s\<lparr>sl_dc := (sl_dc s)\<lparr>ds_cycle_time_0 := ucast (m_main_cycle_interval m)\<rparr>\<rparr>) m
                     else m);
                d = sl_dc (slv m i)
            in ec_dc_sync o' i (ucast (ds_activation_reg d)) (ds_cycle_time_0 d) (ds_cycle_time_1 d)
                 (ds_cycle_shift d) m)
      else ec_dc_sync o' i 0 0 0 0 m)"

definition to_safeop :: "('s, 'd) ops \<Rightarrow> nat \<Rightarrow> ('s, 'd) master \<Rightarrow> (int \<times> ('s, 'd) master) option" where
  "to_safeop o' i m = do {
     (ret, m) \<leftarrow> sync_signals o' i m;
     if ret = EC_ERROR_CYCLIC_LOOP then Some (ret, m)
     else do {
       m \<leftarrow> write_all (write_used_sm o' i)
              [(if ei_mbx_supported (sl_eeprom (slv m i)) \<noteq> 0 then 2 else 0)..<unat (sl_sm_ch (slv m i))] m;
       m \<leftarrow> write_all (write_active_fmmu o' i) [0..<unat (sl_fmmu_ch (slv m i))] m;
       ec_slave_set_state o' i EC_STATE_SAFEOP m
     }
   }"

text \<open>To INIT: what is known of the slave is read again, its resources are freed.\<close>

definition ee_view :: "ec_slave \<Rightarrow> eeprom_info" where
  "ee_view s = (sl_eeprom s)\<lparr>es_sm_ch := sl_sm_ch s, es_sm := sl_sm s, es_fmmu_ch := sl_fmmu_ch s,
                            es_fmmu_type := map fm_type (sl_fmmu s)\<rparr>"

definition ee_back :: "eeprom_info \<Rightarrow> ec_slave \<Rightarrow> ec_slave" where
  "ee_back e s = s\<lparr>sl_eeprom := e, sl_sm_ch := es_sm_ch e, sl_sm := es_sm e, sl_fmmu_ch := es_fmmu_ch e,
     sl_fmmu := map (\<lambda>(f, t). f\<lparr>fm_type := t\<rparr>) (zip (sl_fmmu s) (es_fmmu_type e))\<rparr>"

definition dump_eeprom :: "('s, 'd) ops \<Rightarrow> nat \<Rightarrow> ('s, 'd) master \<Rightarrow> ('s, 'd) master option" where
  "dump_eeprom o' i m =
     map_option (\<lambda>(e, s). slv_upd i (ee_back e) (m\<lparr>m_bus := s\<rparr>))
       (ec_eeprom_dump (\<lambda>adr buf s. ec_eepromread_len (o_fuel o') (o_bus o') (fixed_addresses m) i
                                       (o_uninit o' 4) (of_nat adr) buf s)
          (o_uninit o') (o_static o') (ee_view (slv m i)) (m_bus m))"

definition read_channels ::
  "('s, 'd) ops \<Rightarrow> nat \<Rightarrow> nat \<Rightarrow> (ec_slave \<Rightarrow> u8) \<Rightarrow> (u8 \<Rightarrow> ec_slave \<Rightarrow> ec_slave) \<Rightarrow> u8 \<Rightarrow>
   ('s, 'd) master \<Rightarrow> ('s, 'd) master" where
  "read_channels o' i reg get put limit m =
     (let (d, m) = slv_get o' i reg [get (slv m i)] m
      in slv_upd i (put (if d ! 0 > limit then limit else d ! 0)) m)"

definition set_subdevs :: "ec_slave \<Rightarrow> ec_slave" where
  "set_subdevs s =
     (let g = ei_general (sl_eeprom s);
          cnt = (if g ! 9 > 0 then unat (g ! 9) else if g ! 8 > 0 then unat (g ! 8) else 0);
          cnt = (if cnt > LEC_MAX_DS402_SUBDEVS then LEC_MAX_DS402_SUBDEVS else cnt);
          none = \<lparr>pd_ptr = 0, pd_len = 0\<rparr>
      in s\<lparr>sl_subdev_cnt := cnt,
           sl_subdevs := replicate cnt \<lparr>sd_pdin = none, sd_pdout = none\<rparr> @ drop cnt (sl_subdevs s)\<rparr>)"

definition to_init_fmmus :: "('s, 'd) ops \<Rightarrow> nat \<Rightarrow> ('s, 'd) master \<Rightarrow> ('s, 'd) master option" where
  "to_init_fmmus o' i m =
     (let m = read_channels o' i EC_REG_SM_CH sl_sm_ch (\<lambda>v s. s\<lparr>sl_sm_ch := v\<rparr>) (of_nat LEC_MAX_SLAVE_SM) m
      in Option.bind (write_all (write_fmmu o' i) [0..<unat (sl_sm_ch (slv m i))] m) (\<lambda>m.
         let m = read_channels o' i EC_REG_FMMU_CH sl_fmmu_ch (\<lambda>v s. s\<lparr>sl_fmmu_ch := v\<rparr>) (of_nat LEC_MAX_SLAVE_FMMU) m
         in write_all (write_fmmu o' i) [0..<unat (sl_fmmu_ch (slv m i))] m))"

definition read_features :: "('s, 'd) ops \<Rightarrow> nat \<Rightarrow> ('s, 'd) master \<Rightarrow> ('s, 'd) master" where
  "read_features o' i m =
     (let (ram, m) = slv_get o' i EC_REG_RAM_SIZE [0] m;
          m = slv_upd i (\<lambda>s. s\<lparr>sl_ram_size := push_bit 10 (ucast (ram ! 0))\<rparr>) m;
          (pdi, m) = slv_get o' i EC_REG_PDICTL (le16 (sl_pdi_ctrl (slv m i))) m;
          m = slv_upd i (\<lambda>s. s\<lparr>sl_pdi_ctrl := u16_of pdi\<rparr>) m;
          (feat, m) = slv_get o' i EC_REG_ESCSUP (le16 (sl_features (slv m i))) m
      in slv_upd i (\<lambda>s. s\<lparr>sl_features := u16_of feat\<rparr>) m)"

definition to_init :: "('s, 'd) ops \<Rightarrow> nat \<Rightarrow> ('s, 'd) master \<Rightarrow> ('s, 'd) master option" where
  "to_init o' i m = do {
     let m = ec_slave_free o' i (dc_off o' i (snd (rewrite_fixed o' i 0 m)));
     m \<leftarrow> to_init_fmmus o' i m;
     let m = slv_upd i (\<lambda>s. s\<lparr>sl_eeprom := (sl_eeprom s)\<lparr>ei_read_eeprom := False\<rparr>\<rparr>) (read_features o' i m);
     m \<leftarrow> dump_eeprom o' i m;
     Some (slv_upd i set_subdevs m)
   }"

section \<open>The transition\<close>

text \<open>\<open>fall_through f g\<close>: the part \<open>g\<close> follows unless \<open>stop\<close> or an error of \<open>f\<close> ends the switch.\<close>

definition fall_through ::
  "bool \<Rightarrow> (('s, 'd) master \<Rightarrow> (int \<times> ('s, 'd) master) option) \<Rightarrow> (int \<times> ('s, 'd) master) option \<Rightarrow>
   (int \<times> ('s, 'd) master) option" where
  "fall_through stop g r = Option.bind r (\<lambda>(ret, m). if ret \<noteq> EC_OK \<or> stop then Some (ret, m) else g m)"

definition tr_safeop_op :: "('s, 'd) ops \<Rightarrow> nat \<Rightarrow> ('s, 'd) master \<Rightarrow> (int \<times> ('s, 'd) master) option" where
  "tr_safeop_op o' i m = ec_slave_set_state o' i EC_STATE_OP m"

definition tr_preop_up :: "('s, 'd) ops \<Rightarrow> nat \<Rightarrow> u16 \<Rightarrow> ('s, 'd) master \<Rightarrow> (int \<times> ('s, 'd) master) option" where
  "tr_preop_up o' i transition m =
     fall_through (transition = INIT_2_SAFEOP \<or> transition = PREOP_2_SAFEOP) (tr_safeop_op o' i) (to_safeop o' i m)"

definition tr_init_up :: "('s, 'd) ops \<Rightarrow> nat \<Rightarrow> u16 \<Rightarrow> ('s, 'd) master \<Rightarrow> (int \<times> ('s, 'd) master) option" where
  "tr_init_up o' i transition m =
     fall_through (transition = INIT_2_PREOP \<or> transition = INIT_2_BOOT) (tr_preop_up o' i transition)
       (from_init o' i transition m)"

definition tr_init_init :: "('s, 'd) ops \<Rightarrow> nat \<Rightarrow> u16 \<Rightarrow> ('s, 'd) master \<Rightarrow> (int \<times> ('s, 'd) master) option" where
  "tr_init_init o' i state m = Option.bind (to_init o' i m) (ec_slave_set_state o' i state)"

definition tr_unknown_init :: "('s, 'd) ops \<Rightarrow> nat \<Rightarrow> u16 \<Rightarrow> ('s, 'd) master \<Rightarrow> (int \<times> ('s, 'd) master) option" where
  "tr_unknown_init o' i state m =
     fall_through False (tr_init_init o' i state)
       (ec_slave_set_state o' i state (dc_off o' i (snd (rewrite_fixed o' i 0 m))))"

definition tr_down :: "('s, 'd) ops \<Rightarrow> nat \<Rightarrow> u16 \<Rightarrow> u16 \<Rightarrow> ('s, 'd) master \<Rightarrow> (int \<times> ('s, 'd) master) option" where
  "tr_down o' i transition state m =
     fall_through (transition = OP_2_PREOP \<or> transition = SAFEOP_2_PREOP) (tr_unknown_init o' i state)
       (ec_slave_set_state o' i state (dc_off o' i m))"

definition tr_op_down :: "('s, 'd) ops \<Rightarrow> nat \<Rightarrow> u16 \<Rightarrow> u16 \<Rightarrow> ('s, 'd) master \<Rightarrow> (int \<times> ('s, 'd) master) option" where
  "tr_op_down o' i transition state m =
     fall_through (transition = OP_2_SAFEOP) (tr_down o' i transition state) (ec_slave_set_state o' i state m)"

definition transition_switch ::
  "('s, 'd) ops \<Rightarrow> nat \<Rightarrow> u16 \<Rightarrow> u16 \<Rightarrow> ('s, 'd) master \<Rightarrow> (int \<times> ('s, 'd) master) option" where
  "transition_switch o' i transition state m =
     (if transition \<in> {BOOT_2_PREOP, BOOT_2_SAFEOP, BOOT_2_OP} then Some (EC_OK, m)
      else if transition \<in> {INIT_2_BOOT, INIT_2_PREOP, INIT_2_SAFEOP, INIT_2_OP} then tr_init_up o' i transition m
      else if transition \<in> {PREOP_2_SAFEOP, PREOP_2_OP} then tr_preop_up o' i transition m
      else if transition = SAFEOP_2_OP then tr_safeop_op o' i m
      else if transition \<in> {OP_2_SAFEOP, OP_2_PREOP} then tr_op_down o' i transition state m
      else if transition \<in> {OP_2_INIT, SAFEOP_2_PREOP, SAFEOP_2_INIT, PREOP_2_INIT}
        then tr_down o' i transition state m
      else if transition = UNKNOWN_2_INIT then tr_unknown_init o' i state m
      else if transition \<in> {BOOT_2_INIT, INIT_2_INIT} then tr_init_init o' i state m
      else if transition \<in> {PREOP_2_PREOP, SAFEOP_2_SAFEOP, OP_2_OP} then ec_slave_set_state o' i state m
      else ec_slave_set_state o' i EC_STATE_INIT m)"

definition ec_slave_state_transition ::
  "('s, 'd) ops \<Rightarrow> nat \<Rightarrow> u16 \<Rightarrow> ('s, 'd) master \<Rightarrow> (int \<times> ('s, 'd) master) option" where
  "ec_slave_state_transition o' i state m =
     (if i \<ge> m_slave_cnt m then Some (EC_ERROR_SLAVE_NOT_FOUND, m)
      else do {
        (ret, act_state, m) \<leftarrow> transition_start o' i m;
        if ret = EC_OK then transition_switch o' i (transition_of act_state state) state m
        else Some (ret, m)
      })"

end
