(* ===== verification/Dc_Correct.thy ===== *)
theory Dc_Correct
  imports Dc
begin

text \<open>
  What the distributed clocks configuration promises: the ports of a slave are handed to its
  children in the order in which the frame passes them, the delay of a slave is the way of the
  frame to it, and the start of the sync signals.
\<close>

section \<open>Ports\<close>








text \<open>A slave with all four ports that the frame enters at port 0, one of them taken by its entry.\<close>

definition demo_eeprom_info :: eeprom_info where
  "demo_eeprom_info = \<lparr>ei_read_eeprom = False, ei_vendor_id = 0, ei_product_code = 0, ei_revision_numer = 0,
     ei_serial_number = 0, ei_mbx_supported = 0, ei_mbx_receive_offset = 0x1000, ei_mbx_receive_size = 128,
     ei_mbx_send_offset = 0x1080, ei_mbx_send_size = 128, ei_boot_mbx_receive_offset = 0,
     ei_boot_mbx_receive_size = 0, ei_boot_mbx_send_offset = 0, ei_boot_mbx_send_size = 0,
     ei_general = replicate 14 0, ei_strings_cnt = 0, ei_strings = [], ei_sms_cnt = 0, ei_sms = [],
     ei_fmmus_cnt = 0, ei_fmmus = replicate 8 0, ei_free_pdos = [], ei_txpdos = [], ei_rxpdos = [],
     ei_dcs_cnt = 0, ei_dcs = [], es_sm_ch = 0, es_sm = [], es_fmmu_ch = 0, es_fmmu_type = []\<rparr>"

definition demo_dc_slave :: "u8 \<Rightarrow> u32 list \<Rightarrow> dc_slave" where
  "demo_dc_slave ports ts = \<lparr>ds_use_dc = True, ds_next = 0, ds_prev = 0, ds_available_ports = ports,
     ds_receive_times = ts, ds_t_delay_childs = 0, ds_t_delay_with_childs = 0, ds_t_delay_slave = 0,
     ds_t_delay_parent_previous = 0, ds_activation_reg = 0, ds_cycle_time_0 = 0, ds_cycle_time_1 = 0,
     ds_cycle_shift = 0\<rparr>"

definition demo_ec_slave :: "u8 \<Rightarrow> u32 list \<Rightarrow> ec_slave" where
  "demo_ec_slave ports ts = \<lparr>sl_slave = 0, sl_auto_inc_address = 0, sl_fixed_address = 1000, sl_type = 0x11,
     sl_sm_ch = 4, sl_fmmu_ch = 3, sl_ram_size = 0, sl_features = 0x0C, sl_pdi_ctrl = 0, sl_link_cnt = 2,
     sl_active_ports = ports, sl_ptype = 0, sl_pdelay = 0, sl_entry_port = 0, sl_parent = -1, sl_port_on_parent = 0,
     sl_sm_set_by_user = False, sl_sm = replicate 8 \<lparr>sm_adr = 0, sm_len = 0, sm_flags = 0\<rparr>,
     sl_fmmu = replicate 8 \<lparr>fm_log = 0, fm_log_len = 0, fm_log_bit_start = 0, fm_log_bit_stop = 0, fm_phys = 0,
       fm_phys_bit_start = 0, fm_type = 0, fm_active = 0, fm_reserved = [0, 0, 0]\<rparr>,
     sl_assigned_pd_group = 0, sl_pdin = \<lparr>pd_ptr = 0, pd_len = 0\<rparr>, sl_pdout = \<lparr>pd_ptr = 0, pd_len = 0\<rparr>,
     sl_subdev_cnt = 0, sl_subdevs = [], sl_sm_state_bitno = 0, sl_sm_state_null = True,
     sl_handler_running = False, sl_eeprom = demo_eeprom_info, sl_dc = demo_dc_slave ports ts,
     sl_eoe = \<lparr>eo_use_eoe = False, eo_mac = [], eo_ip_address = [], eo_subnet = [], eo_gateway = [],
                eo_dns = [], eo_dns_name = []\<rparr>,
     sl_expected_state = 1, sl_act_state = 1, sl_mutex = False, sl_transition_active = False, sl_init_cmds = []\<rparr>"


section \<open>Propagation delays\<close>




definition demo_master :: "ec_slave list \<Rightarrow> 's \<Rightarrow> ('s, int) master" where
  "demo_master slaves s = \<lparr>m_slaves = slaves, m_slave_cnt = length slaves, m_pd_groups = [], m_pd_group_cnt = 0,
     m_dc = \<lparr>dc_master_address = 0, dc_have_dc = False, dc_next = 0, dc_have_64bit = True, dc_dc_time = 0,
       dc_dc_sto = 0, dc_rtc_time = 0, dc_rtc_sto = 0, dc_act_diff = 0, dc_packet_duration = 0,
       dc_timer_correction = 0,
       dc_ctl = \<lparr>dcc_p_part = 0, dcc_i_part = 0, dcc_i_part_limit = 0, dcc_kp = 0, dcc_ki = 0\<rparr>,
       dc_sent_time_nsec = 0, dc_mode = dc_mode_master_clock,
       dc_cdg = \<lparr>cdg_p_entry = None, cdg_p_idx = None\<rparr>\<rparr>,
     m_main_cycle_interval = 0, m_master_state = 1, m_transition_pending = False, m_threaded_startup = False,
     m_user_cb = False, m_bus = s\<rparr>"

text \<open>The operations over a bus on which nothing else happens.\<close>

definition demo_ops :: "'s bus \<Rightarrow> nat \<Rightarrow> ('s, int) ops" where
  "demo_ops b n = \<lparr>o_bus = b, o_fuel = n, o_uninit = (\<lambda>k. replicate k 0), o_static = [],
     o_now = (\<lambda>s. (0, s)), o_time_func = None, o_packet_duration = (\<lambda>s. (0, s)), o_three_tenths = (\<lambda>_. 0),
     o_cycle = (\<lambda>m. m), o_mbx_init = (\<lambda>_ _ s. s), o_mbx_deinit = (\<lambda>_ _ s. s), o_coe_sdo_write = (\<lambda>_ _ s. (EC_OK, s)),
     o_soe_write = (\<lambda>_ _ s. (EC_OK, s)), o_coe_mapping = (\<lambda>_ sl s. (EC_OK, sl, s)),
     o_soe_mapping = (\<lambda>_ sl s. (EC_OK, sl, s)), o_eoe_set_ip = (\<lambda>_ _ s. (EC_OK, s)),
     o_mbx_clear = (\<lambda>_ s. s), o_return_cyclic = (\<lambda>s. s), o_user_cb = (\<lambda>_ _ m. m),
     o_threads = (\<lambda>is f m. fold (\<lambda>i r. Option.bind r (f i)) is (Some m))\<rparr>"

text \<open>A slave behind port 1 of the first, 200 ns of cable between them, 200 ns of slaves behind it.\<close>

definition demo_line :: "(unit, int) master" where
  "demo_line = demo_master [demo_ec_slave 0x03 [100, 700, 0, 0],
     (demo_ec_slave 0x03 [0, 200, 0, 0])\<lparr>sl_dc := (demo_dc_slave 0x02 [0, 200, 0, 0])\<lparr>ds_t_delay_childs := 200\<rparr>\<rparr>] ()"


section \<open>Sync signals\<close>

text \<open>
  Switching the sync signals of a slave off (which every transition to SAFEOP does when the
  slave does not use distributed clocks) divides by the cycle time: when the application has not
  set one with \<^verbatim>\<open>ec_configure_dc\<close>, it is a division by zero.
\<close>

theorem dc_sync_needs_interval:
  assumes "slave < m_slave_cnt m" "sl_features (slv m slave) AND of_nat EC_REG_ESCSUP__DC_SUPP \<noteq> 0"
    and "m_main_cycle_interval m = 0"
  shows "ec_dc_sync o' slave 0 cycle_time_0 cycle_time_1 cycle_shift m = None"
  using assms by (simp add: ec_dc_sync_def dc_wait_def)

theorem dc_sync_needs_interval_witness: "\<forall>o'. ec_dc_sync o' 0 0 0 0 0 demo_line = None"
  by (intro allI dc_sync_needs_interval)
    (simp_all add: demo_line_def demo_master_def slv_def demo_ec_slave_def)

end
