(* ===== verification/Slave_Correct.thy ===== *)
theory Slave_Correct
  imports Slave_Transition Dc_Correct
begin

text \<open>
  What the states of a slave promise: a successful switch has reached the requested state, a
  transition that the code knows ends in the requested state, the wait for the slave ends.
\<close>

section \<open>Assumptions about the bus\<close>

text \<open>
  The slaves do not change the data of a write command, and the cyclic task leaves the array of
  the slaves as it is.
\<close>

definition same_shape :: "('s, 'd) master \<Rightarrow> ('s, 'd) master \<Rightarrow> bool" where
  "same_shape m m' \<longleftrightarrow> m_slave_cnt m' = m_slave_cnt m \<and> length (m_slaves m') = length (m_slaves m)"

definition writes_keep :: "('s, 'd) ops \<Rightarrow> bool" where
  "writes_keep o' \<longleftrightarrow> (\<forall>adp ado d w s. fst (snd (ec_fpwr (o_bus o') adp ado d w s)) = d)"

definition ops_laws :: "('s, 'd) ops \<Rightarrow> bool" where
  "ops_laws o' \<longleftrightarrow> writes_keep o' \<and> (\<forall>m. same_shape m (o_cycle o' m))"

lemma same_shape_refl [simp]: "same_shape m m"
  by (simp add: same_shape_def)

lemma same_shape_trans: "same_shape a b \<Longrightarrow> same_shape b c \<Longrightarrow> same_shape a c"
  by (simp add: same_shape_def)

lemma same_shape_bus: "bus_only m m' \<Longrightarrow> same_shape m m'"
  by (simp add: same_shape_def access_simps)

lemma same_shape_upd [simp]: "same_shape m (slv_upd i f m)" "same_shape m (m\<lparr>m_bus := s\<rparr>)"
  by (simp_all add: same_shape_def)

lemma writes_keepD: "writes_keep o' \<Longrightarrow> slv_fpwr o' i ado d w m = (ret, d', w', m') \<Longrightarrow> d' = d"
  unfolding writes_keep_def slv_fpwr_def by (auto split: prod.splits) (metis fst_conv snd_conv)

section \<open>The fields that a switch changes\<close>

text \<open>
  Which fields may have changed, besides the bus: \<open>act_only\<close> allows the state that was read of
  slave \<open>i\<close>, \<open>switch_only\<close> also its expected state and the mark of the transition. Both compare
  states in which these fields are blank.
\<close>

definition blank_act :: "nat \<Rightarrow> ('s, 'd) master \<Rightarrow> ('s, 'd) master" where
  "blank_act i m = (slv_upd i (\<lambda>s. s\<lparr>sl_act_state := 0\<rparr>) m)\<lparr>m_bus := undefined\<rparr>"

definition blank_switch :: "nat \<Rightarrow> ('s, 'd) master \<Rightarrow> ('s, 'd) master" where
  "blank_switch i m = slv_upd i (\<lambda>s. s\<lparr>sl_expected_state := 0, sl_transition_active := False\<rparr>) (blank_act i m)"

definition act_only :: "nat \<Rightarrow> ('s, 'd) master \<Rightarrow> ('s, 'd) master \<Rightarrow> bool" where
  "act_only i m m' \<longleftrightarrow> blank_act i m = blank_act i m'"

definition switch_only :: "nat \<Rightarrow> ('s, 'd) master \<Rightarrow> ('s, 'd) master \<Rightarrow> bool" where
  "switch_only i m m' \<longleftrightarrow> blank_switch i m = blank_switch i m'"

lemma act_only_refl [simp]: "act_only i m m"
  by (simp add: act_only_def)

lemma act_only_trans: "act_only i a b \<Longrightarrow> act_only i b c \<Longrightarrow> act_only i a c"
  by (simp add: act_only_def)

lemma act_only_bus: "bus_only m m' \<Longrightarrow> act_only i m m'"
proof -
  assume "bus_only m m'"
  then have "m' = m\<lparr>m_bus := m_bus m'\<rparr>" by (simp add: bus_only_def)
  then have "blank_act i m' = blank_act i (m\<lparr>m_bus := m_bus m'\<rparr>)" by (rule arg_cong)
  then show ?thesis by (simp add: act_only_def blank_act_def slv_upd_bus)
qed

lemma act_only_set [simp]: "act_only i m (slv_upd i (\<lambda>s. s\<lparr>sl_act_state := a\<rparr>) m)"
  by (simp add: act_only_def blank_act_def slv_upd_upd)

lemma switch_only_act: "act_only i m m' \<Longrightarrow> switch_only i m m'"
  by (simp add: act_only_def switch_only_def blank_switch_def)

lemma switch_only_trans: "switch_only i a b \<Longrightarrow> switch_only i b c \<Longrightarrow> switch_only i a c"
  by (simp add: switch_only_def)

lemma switch_only_set:
  "switch_only i m (slv_upd i (\<lambda>s. s\<lparr>sl_transition_active := t, sl_expected_state := e\<rparr>) m)"
  "switch_only i m (slv_upd i (\<lambda>s. s\<lparr>sl_transition_active := t\<rparr>) m)"
  by (simp_all add: switch_only_def blank_switch_def blank_act_def slv_upd_upd flip: slv_upd_bus)

lemma blank_act_fields:
  "m_slave_cnt (blank_act i m) = m_slave_cnt m" "length (m_slaves (blank_act i m)) = length (m_slaves m)"
  "i < length (m_slaves m) \<Longrightarrow> slv (blank_act i m) i = (slv m i)\<lparr>sl_act_state := 0\<rparr>"
  by (simp_all add: blank_act_def)

lemma act_only_shape: "act_only i m m' \<Longrightarrow> same_shape m m'"
  unfolding act_only_def same_shape_def by (metis blank_act_fields(1,2))

lemma switch_only_shape: "switch_only i m m' \<Longrightarrow> same_shape m m'"
proof -
  assume "switch_only i m m'"
  then have "same_shape (blank_switch i m) (blank_switch i m')" by (simp add: switch_only_def)
  then show ?thesis by (simp add: same_shape_def blank_switch_def blank_act_fields)
qed

lemma act_only_expected:
  assumes "act_only i m m'" "i < length (m_slaves m)"
  shows "sl_expected_state (slv m' i) = sl_expected_state (slv m i)"
proof -
  have "i < length (m_slaves m')" using act_only_shape[OF assms(1)] assms(2) by (simp add: same_shape_def)
  then have "(slv m' i)\<lparr>sl_act_state := 0\<rparr> = (slv m i)\<lparr>sl_act_state := 0\<rparr>"
    using assms blank_act_fields(3)[of i] by (metis act_only_def)
  then have "sl_expected_state ((slv m' i)\<lparr>sl_act_state := 0\<rparr>) = sl_expected_state ((slv m i)\<lparr>sl_act_state := 0\<rparr>)"
    by (rule arg_cong)
  then show ?thesis by simp
qed

lemma get_state_act: "ec_slave_get_state o' i st al m = (ret, a, al', m') \<Longrightarrow> act_only i m m'"
proof -
  assume g: "ec_slave_get_state o' i st al m = (ret, a, al', m')"
  obtain r v w m1 where 1: "slv_fprd o' i EC_REG_ALSTAT (le16 0) 0 m = (r, v, w, m1)" by (metis prod_cases4)
  let ?m2 = "slv_upd i (\<lambda>s. s\<lparr>sl_act_state := u16_of v\<rparr>) m1"
  obtain r2 v2 w2 m3 where 2: "slv_fprd o' i EC_REG_ALSTATCODE (le16 0) 0 ?m2 = (r2, v2, w2, m3)"
    by (metis prod_cases4)
  have "act_only i m m1" using slv_fprd_bus[OF 1] by (rule act_only_bus)
  moreover have "act_only i ?m2 m3" using slv_fprd_bus[OF 2] by (rule act_only_bus)
  ultimately have "act_only i m m1" "act_only i m ?m2" "act_only i m m3"
    using act_only_trans act_only_set by blast+
  then show ?thesis using g 1 2 by (auto simp: ec_slave_get_state_def Let_def split: if_splits)
qed

section \<open>Switching\<close>

lemma reset_bit_set: "(((a :: u16) AND EC_STATE_MASK) OR EC_STATE_RESET) AND EC_STATE_RESET \<noteq> 0"
proof -
  have "(x OR y) AND y = y" for x y :: u16 by (rule bit_eqI) (auto simp: bit_or_iff bit_and_iff)
  note this[of "a AND EC_STATE_MASK" EC_STATE_RESET]
  then show ?thesis by (simp only:) simp
qed

lemma reset_loop_bus:
  assumes "loop n (reset_error_body o' i t) (state, act, m) = Some m'"
  shows "bus_only m m'"
  using assms
proof (induction rule: loop_invariant[where I = "\<lambda>(_, _, m'). bus_only m m'"])
  case (step s s')
  then show ?case
    by (auto simp: reset_error_body_def Let_def split: prod.splits if_splits
        dest!: slv_fpwr_bus slv_fprd_bus timer_over_bus intro: bus_only_trans)
next
  case (exit s r)
  then show ?case
    by (auto simp: reset_error_body_def Let_def split: prod.splits if_splits
        dest!: slv_fpwr_bus slv_fprd_bus timer_over_bus intro: bus_only_trans)
qed simp

lemma set_state_reset_bus:
  assumes "writes_keep o'" "state AND EC_STATE_RESET \<noteq> 0" "set_state_depth (Suc d) o' i state m = Some (ret, m')"
  shows "bus_only m m'"
proof -
  obtain r st w m1 where 1: "slv_fpwr o' i EC_REG_ALCTL (le16 state) 0 m = (r, st, w, m1)" by (metis prod_cases4)
  obtain t m2 where 2: "timer_start o' 1000000000 m1 = (t, m2)" by (cases "timer_start o' 1000000000 m1")
  have "u16_of st = state" using writes_keepD[OF assms(1) 1] by simp
  then show ?thesis
    using assms(2,3) 1 2 slv_fpwr_bus[OF 1] timer_start_bus[OF 2]
    by (auto simp: Let_def split: if_splits dest!: reset_loop_bus intro: bus_only_trans)
qed

text \<open>A round of the switch: the requested state stays, and only the state that was read changes.\<close>

lemma set_state_round:
  assumes "writes_keep o'" "set_state_body o' again i t (ret, state, act, value, m) = x" "x \<noteq> Inr None"
    and again: "\<And>a m y. again ((a AND EC_STATE_MASK) OR EC_STATE_RESET) m = Some y \<Longrightarrow> bus_only m (snd y)"
  shows "\<exists>ret' act' value' m'. act_only i m m' \<and>
     (x = Inl (ret', state, act', value', m') \<or> x = Inr (Some (ret', state, act', m')))"
proof -
  obtain r st w m1 where 1: "slv_fpwr o' i EC_REG_ALCTL (le16 state) 0 m = (r, st, w, m1)" by (metis prod_cases4)
  have st: "u16_of st = state" using writes_keepD[OF assms(1) 1] by simp
  obtain rg ag al mg where g: "ec_slave_get_state o' i 0 None m1 = (rg, ag, al, mg)" by (metis prod_cases4)
  obtain ret2 act2 m2 where 2: "(if r = EC_OK then (rg, ag, mg) else (ret, act, m1)) = (ret2, act2, m2)"
    by (metis prod_cases3)
  obtain r3 v3 w3 m3 where 3: "(if r = EC_OK \<and> act2 AND EC_STATE_ERROR \<noteq> 0
      then slv_fprd o' i EC_REG_ALSTATCODE value w m2 else (r, value, w, m2)) = (r3, v3, w3, m3)"
    by (metis prod_cases4)
  have b1: "act_only i m m1" using slv_fpwr_bus[OF 1] by (rule act_only_bus)
  have "act_only i m1 m2" using get_state_act[OF g] 2 by (auto split: if_splits)
  moreover have "act_only i m2 m3" using 3 by (auto split: if_splits intro: act_only_bus slv_fprd_bus)
  ultimately have b3: "act_only i m m3" using b1 act_only_trans by blast
  define acked where "acked = (if r = EC_OK \<and> act2 AND EC_STATE_ERROR \<noteq> 0 \<and> r3 = EC_OK \<and> u16_of v3 \<noteq> 0
       then map_option snd (again ((act2 AND EC_STATE_MASK) OR EC_STATE_RESET) m3) else Some m3)"
  have x: "x = (case acked of None \<Rightarrow> Inr None
         | Some m \<Rightarrow> (let m = pause o' 1000000 m
             in if act2 = state then Inr (Some (ret2, state, act2, m))
                else (let (ex, m) = timer_over o' t m
                      in if ex then Inr (Some (ret2, state, act2, m)) else Inl (ret2, state, act2, v3, m))))"
    unfolding assms(2)[symmetric] set_state_body_def acked_def
    by (simp only: prod.case Let_def 1 st g 2 3 cong: if_cong)
  show ?thesis
  proof (cases acked)
    case None
    then show ?thesis using x assms(3) by simp
  next
    case (Some m4)
    have "act_only i m3 m4"
      using Some again unfolding acked_def
      by (auto simp del: EC_STATE_MASK_def EC_STATE_RESET_def split: if_splits intro: act_only_bus)
    moreover have "act_only i m4 (pause o' 1000000 m4)" by (intro act_only_bus pause_bus)
    ultimately have b5: "act_only i m (pause o' 1000000 m4)" using b3 act_only_trans by blast
    obtain ex m6 where 6: "timer_over o' t (pause o' 1000000 m4) = (ex, m6)" by (cases "timer_over o' t (pause o' 1000000 m4)")
    have "act_only i m m6" using b5 act_only_bus[OF timer_over_bus[OF 6]] act_only_trans by blast
    then show ?thesis using x b5 6 Some by (auto simp: Let_def split: if_splits)
  qed
qed

lemma set_state_loop:
  assumes "writes_keep o'"
    "loop n (set_state_body o' (set_state_depth (Suc d) o' i) i t) (ret, state, act, value, m) = Some (Some (ret', st', act', m'))"
  shows "st' = state \<and> act_only i m m'"
proof -
  have again: "bus_only m (snd y)"
    if "set_state_depth (Suc d) o' i ((a AND EC_STATE_MASK) OR EC_STATE_RESET) m = Some y" for a m y
    using that set_state_reset_bus[OF assms(1) reset_bit_set, of d i a m "fst y" "snd y"] by (simp only: prod.collapse)
  have "(\<lambda>r. \<forall>ret' st' act' m'. r = Some (ret', st', act', m') \<longrightarrow> st' = state \<and> act_only i m m') (Some (ret', st', act', m'))"
    using assms(2)
  proof (induction rule: loop_invariant[where I = "\<lambda>(_, st, _, _, m'). st = state \<and> act_only i m m'"])
    case (step s s')
    obtain r a v m1 where s: "s = (r, state, a, v, m1)" "act_only i m m1" using step(1) by (cases s) auto
    show ?case using set_state_round[OF assms(1) step(2)[unfolded s(1)] _ again] s(2) act_only_trans by fast
  next
    case (exit s r)
    obtain q a v m1 where s: "s = (q, state, a, v, m1)" "act_only i m m1" using exit(1) by (cases s) auto
    show ?case
    proof (cases r)
      case (Some x)
      then show ?thesis
        using set_state_round[OF assms(1) exit(2)[unfolded s(1)] _ again] s(2) act_only_trans by fast
    qed simp
  qed simp
  then show ?thesis by blast
qed

lemma set_state_end_cases:
  assumes "set_state_end o' i t (ret, state, act, m) = (ret', m')" "i < length (m_slaves m)"
  shows "switch_only i m m' \<and> sl_expected_state (slv m' i) = sl_expected_state (slv m i) \<and>
     \<not> sl_transition_active (slv m' i) \<and>
     (ret' = EC_OK \<longrightarrow> act = state \<and> sl_act_state (slv m' i) = state)"
proof -
  obtain ex m1 where 1: "timer_over o' t m = (ex, m1)" by (cases "timer_over o' t m")
  let ?r = "if ex then EC_ERROR_SLAVE_NOT_RESPONDING else ret"
  let ?m2 = "if ?r = EC_OK then slv_upd i (\<lambda>s. s\<lparr>sl_act_state := act\<rparr>) m1 else m1"
  have b: "bus_only m m1" by (rule timer_over_bus[OF 1])
  then have l: "i < length (m_slaves m1)" using assms(2) by (simp add: access_simps)
  have e: "sl_expected_state (slv m1 i) = sl_expected_state (slv m i)" using b by (simp add: access_simps)
  have "set_state_end o' i t (ret, state, act, m) =
      (if ?r = EC_OK then if act = state then EC_OK else EC_ERROR_SLAVE_STATE_SWITCH else ?r,
       slv_upd i (\<lambda>s. s\<lparr>sl_transition_active := False\<rparr>) ?m2)"
    unfolding set_state_end_def prod.case Let_def 1 by (cases "?r = EC_OK") (simp_all only: if_True if_False prod.case simp_thms)
  then have "ret' = (if ?r = EC_OK then if act = state then EC_OK else EC_ERROR_SLAVE_STATE_SWITCH else ?r)"
    "m' = slv_upd i (\<lambda>s. s\<lparr>sl_transition_active := False\<rparr>) ?m2"
    unfolding assms(1) prod.inject by blast+
  moreover have "switch_only i m ?m2"
  proof -
    have "act_only i m ?m2" using act_only_bus[OF b] act_only_trans[OF act_only_bus[OF b] act_only_set] by simp
    then show ?thesis by (rule switch_only_act)
  qed
  then have "switch_only i m (slv_upd i (\<lambda>s. s\<lparr>sl_transition_active := False\<rparr>) ?m2)"
    using switch_only_set(2) switch_only_trans by blast
  ultimately show ?thesis using l e by (auto simp: EC_ERROR_SLAVE_STATE_SWITCH_def EC_ERROR_SLAVE_NOT_RESPONDING_def)
qed

lemma set_state_cases:
  assumes "writes_keep o'" "ec_slave_set_state o' i state m = Some (ret, m')" "i < length (m_slaves m)"
  shows "switch_only i m m'" "state AND EC_STATE_RESET = 0 \<Longrightarrow> ret = EC_OK \<Longrightarrow> sl_act_state (slv m' i) = state \<and>
     sl_expected_state (slv m' i) = state \<and> \<not> sl_transition_active (slv m' i)"
proof -
  have "switch_only i m m' \<and> (state AND EC_STATE_RESET = 0 \<longrightarrow> ret = EC_OK \<longrightarrow> sl_act_state (slv m' i) = state \<and>
     sl_expected_state (slv m' i) = state \<and> \<not> sl_transition_active (slv m' i))"
  proof (cases "i \<ge> m_slave_cnt m \<or> state AND EC_STATE_RESET \<noteq> 0")
    case True
    then show ?thesis
    proof
      assume "i \<ge> m_slave_cnt m"
      then show ?thesis using assms(2) by (simp add: ec_slave_set_state_def switch_only_def)
    next
      assume "state AND EC_STATE_RESET \<noteq> 0"
      then show ?thesis
        using set_state_reset_bus[OF assms(1) _ assms(2)[unfolded ec_slave_set_state_def]]
        by (auto intro: switch_only_act act_only_bus)
    qed
  next
    case False
    obtain r st w m1 where 1: "slv_fpwr o' i EC_REG_ALCTL (le16 state) 0 m = (r, st, w, m1)" by (metis prod_cases4)
    have st: "u16_of st = state" using writes_keepD[OF assms(1) 1] by simp
    let ?m2 = "slv_upd i (\<lambda>s. s\<lparr>sl_transition_active := True, sl_expected_state := state\<rparr>) m1"
    obtain t m3 where 3: "timer_start o' 10000000000 ?m2 = (t, m3)" by (cases "timer_start o' 10000000000 ?m2")
    have b1: "bus_only m m1" by (rule slv_fpwr_bus[OF 1])
    have b3: "bus_only ?m2 m3" by (rule timer_start_bus[OF 3])
    show ?thesis
    proof (cases "r = EC_OK")
      case r: True
      let ?loop = "loop (o_fuel o') (set_state_body o' (set_state_depth (Suc (o_fuel o')) o' i) i t) (EC_OK, state, 0, le16 0, m3)"
      have "Some (ret, m') = map_option (set_state_end o' i t) (Option.bind ?loop id)"
        unfolding assms(2)[symmetric] ec_slave_set_state_def set_state_depth.simps(2)[of "Suc (o_fuel o')"]
        using False r by (simp only: 1 st 3 Let_def prod.case de_Morgan_disj not_not if_False simp_thms)
      then obtain y where "?loop = Some y" "Some (ret, m') = map_option (set_state_end o' i t) y"
        by (cases ?loop) simp_all
      then obtain x where x: "?loop = Some (Some x)" "set_state_end o' i t x = (ret, m')"
        by (cases y) simp_all
      obtain ret1 st1 act1 m4 where s: "x = (ret1, st1, act1, m4)" by (cases x)
      have l: "st1 = state \<and> act_only i m3 m4" by (rule set_state_loop[OF assms(1) x(1)[unfolded s]])
      have len: "i < length (m_slaves m3)" "i < length (m_slaves m4)"
        using assms(3) b1 b3 act_only_shape[of i m3 m4] l by (simp_all add: same_shape_def access_simps)
      have e: "sl_expected_state (slv m3 i) = state"
        using b1 b3 assms(3) by (simp add: access_simps)
      have "sl_expected_state (slv m4 i) = state" using act_only_expected[of i m3 m4] l len e by simp
      moreover have "switch_only i m m4"
        using act_only_bus[OF b1] act_only_bus[OF b3] l switch_only_act switch_only_set(1)[where m = m1 and i = i and t = True and e = state] switch_only_trans
        by metis
      moreover note c = set_state_end_cases[OF x(2)[unfolded s] len(2)]
      ultimately show ?thesis using l switch_only_trans[of i m m4 m'] by auto
    next
      case r: False
      have "Some (ret, m') = Some (EC_ERROR_SLAVE_NOT_RESPONDING, m1)"
        unfolding assms(2)[symmetric] ec_slave_set_state_def set_state_depth.simps(2)[of "Suc (o_fuel o')"]
        using False r by (simp only: 1 st Let_def prod.case de_Morgan_disj not_not if_False if_True simp_thms)
      then have "ret = EC_ERROR_SLAVE_NOT_RESPONDING" "m' = m1" unfolding option.inject prod.inject by blast+
      moreover have "switch_only i m m1" by (intro switch_only_act act_only_bus b1)
      ultimately show ?thesis by (simp add: EC_ERROR_SLAVE_NOT_RESPONDING_def)
    qed
  qed
  then show "switch_only i m m'" "state AND EC_STATE_RESET = 0 \<Longrightarrow> ret = EC_OK \<Longrightarrow> sl_act_state (slv m' i) = state \<and>
     sl_expected_state (slv m' i) = state \<and> \<not> sl_transition_active (slv m' i)" by blast+
qed

section \<open>The parts of a transition keep the array of slaves\<close>

named_theorems shape_intros

lemmas [shape_intros] = same_shape_refl same_shape_upd

lemma shape_bus_trans: "same_shape m a \<Longrightarrow> bus_only a b \<Longrightarrow> same_shape m b"
  using same_shape_bus same_shape_trans by blast

lemma shape_in: "same_shape m m' \<Longrightarrow> i < length (m_slaves m) \<Longrightarrow> i < length (m_slaves m')"
  by (simp add: same_shape_def)

lemma set_state_shape:
  "ops_laws o' \<Longrightarrow> i < length (m_slaves m) \<Longrightarrow> ec_slave_set_state o' i state m = Some (ret, m') \<Longrightarrow> same_shape m m'"
  using set_state_cases(1) switch_only_shape unfolding ops_laws_def by metis

lemma dc_wait_shape:
  assumes "ops_laws o'" "dc_wait o' active m = Some (ret, m')"
  shows "same_shape m m'"
proof -
  have c: "same_shape m (o_cycle o' m)" for m using assms(1) by (simp add: ops_laws_def)
  have body: "(\<forall>s'. dc_wait_body o' t s = Inl s' \<longrightarrow> same_shape s s') \<and>
      (\<forall>r. dc_wait_body o' t s = Inr r \<longrightarrow> same_shape s (snd r))" for t s
  proof -
    obtain ex m1 where 1: "timer_over o' t s = (ex, m1)" by (cases "timer_over o' t s")
    have "same_shape s m1" "same_shape s (o_cycle o' m1)"
      using same_shape_bus[OF timer_over_bus[OF 1]] c same_shape_trans by blast+
    then show ?thesis using 1 by (auto simp: dc_wait_body_def Let_def)
  qed
  show ?thesis
  proof (cases "active \<noteq> 0 \<and> dc_dc_time (m_dc m) = 0")
    case True
    obtain t m1 where 1: "timer_start o' 1000000000 m = (t, m1)" by (cases "timer_start o' 1000000000 m")
    have "loop (o_fuel o') (dc_wait_body o' t) m1 = Some (ret, m')" using assms(2) True 1 by (simp add: dc_wait_def)
    then have "same_shape m (snd (ret, m'))"
    proof (induction rule: loop_invariant[where I = "same_shape m"])
      case (step s s')
      then show ?case using body[of t s] same_shape_trans by blast
    next
      case (exit s r)
      then show ?case using body[of t s] same_shape_trans by blast
    next
      case init
      show ?case by (rule same_shape_bus[OF timer_start_bus[OF 1]])
    qed
    then show ?thesis by simp
  qed (use assms(2) in \<open>auto simp: dc_wait_def\<close>)
qed

lemma put_shape: "same_shape m a \<Longrightarrow> same_shape m (slv_put o' i ado d a)"
  using shape_bus_trans slv_put_bus by blast

lemma upd_shape: "same_shape m a \<Longrightarrow> same_shape m (slv_upd i f a)" "same_shape m a \<Longrightarrow> same_shape m (a\<lparr>m_bus := s\<rparr>)"
  by (rule same_shape_trans, assumption, rule same_shape_upd)+

lemma dc_sync_shape:
  assumes "ops_laws o'" "ec_dc_sync o' i active c0 c1 sh m = Some (ret, m')"
  shows "same_shape m m'"
proof (cases "i \<ge> m_slave_cnt m \<or> sl_features (slv m i) AND of_nat EC_REG_ESCSUP__DC_SUPP = 0")
  case False
  then obtain r m1 where 1: "dc_wait o' active m = Some (r, m1)" using assms(2)
    by (cases "dc_wait o' active m") (auto simp: ec_dc_sync_def)
  note s = dc_wait_shape[OF assms(1) 1]
  let ?m2 = "slv_put o' i EC_REG_DCCUC [0] (slv_put o' i EC_REG_DCSYNCACT [0] m1)"
  obtain v m3 where 3: "slv_get o' i EC_REG_DCSYSTIME (le64 0) ?m2 = (v, m3)"
    by (cases "slv_get o' i EC_REG_DCSYSTIME (le64 0) ?m2")
  have "same_shape m m3" by (rule shape_bus_trans[OF put_shape[OF put_shape[OF s]] slv_get_bus[OF 3]])
  then show ?thesis
    using assms(2) False s by (auto simp: ec_dc_sync_def 1 Let_def 3[simplified] put_shape split: if_splits)
next
  case True
  then show ?thesis using assms(2) by (auto simp: ec_dc_sync_def split: if_splits)
qed

lemma write_all_shape:
  assumes "\<And>k m m'. f k m = Some m' \<Longrightarrow> same_shape m m'"
  shows "write_all f ks m = Some m' \<Longrightarrow> same_shape m m'"
proof (induction ks arbitrary: m)
  case (Cons k ks)
  then obtain m1 where "f k m = Some m1" "write_all f ks m1 = Some m'" by (cases "f k m") auto
  then show ?case using assms Cons.IH same_shape_trans by blast
qed simp

lemma write_sm_shape: "write_sm o' i k m = Some m' \<Longrightarrow> same_shape m m'"
  "write_fmmu o' i k m = Some m' \<Longrightarrow> same_shape m m'"
  by (auto simp: write_sm_def write_fmmu_def split: if_splits prod.splits dest!: slv_fpwr_bus
      intro!: upd_shape(1) intro: same_shape_bus)

lemma write_used_shape: "write_used_sm o' i k m = Some m' \<Longrightarrow> same_shape m m'"
  "write_active_fmmu o' i k m = Some m' \<Longrightarrow> same_shape m m'"
  by (auto simp: write_used_sm_def write_active_fmmu_def split: if_splits dest!: write_sm_shape)

lemma write_all_shapes:
  "write_all (write_sm o' i) ks m = Some m' \<Longrightarrow> same_shape m m'"
  "write_all (write_fmmu o' i) ks m = Some m' \<Longrightarrow> same_shape m m'"
  "write_all (write_used_sm o' i) ks m = Some m' \<Longrightarrow> same_shape m m'"
  "write_all (write_active_fmmu o' i) ks m = Some m' \<Longrightarrow> same_shape m m'"
  by (erule write_all_shape[rotated], erule write_sm_shape write_used_shape)+

lemma rewrite_shape: "same_shape m (snd (rewrite_fixed o' i w m))"
  by (auto simp: rewrite_fixed_def split: prod.split intro!: upd_shape)

lemma dc_off_shape: "same_shape m a \<Longrightarrow> same_shape m (dc_off o' i a)"
  by (simp add: dc_off_def put_shape)

lemma mbx_shape: "same_shape m (mbx_init o' i m)" "same_shape m (mbx_deinit o' i m)"
  by (auto simp: mbx_init_def mbx_deinit_def intro!: upd_shape)

lemma init_mailboxes_shape:
  assumes "init_mailboxes o' i tr m = Some m1"
  shows "same_shape m m1"
proof (cases "ei_mbx_supported (sl_eeprom (slv m i)) = 0")
  case False
  let ?m = "slv_upd i (mailbox_sms (tr = INIT_2_BOOT)) m"
  have "write_all (write_sm o' i) [0, 1] (mbx_init o' i ?m) = Some m1"
    using assms False unfolding init_mailboxes_def Let_def by (simp only: simp_thms if_True)
  from write_all_shapes(1)[OF this] show ?thesis
    by (rule same_shape_trans[OF same_shape_trans[OF same_shape_upd(1) mbx_shape(1)]])
qed (use assms in \<open>simp add: init_mailboxes_def\<close>)

lemma from_init_shape:
  assumes "ops_laws o'" "i < length (m_slaves m)" "from_init o' i tr m = Some (ret, m')"
  shows "same_shape m m'"
proof -
  obtain m1 where 1: "init_mailboxes o' i tr m = Some m1"
    using assms(3) by (cases "init_mailboxes o' i tr m") (simp_all add: from_init_def)
  have s1: "same_shape m m1" by (rule init_mailboxes_shape[OF 1])
  obtain r e where e: "ec_eeprom_to_pdi (o_bus o') (fixed_addresses m1) i 0 (m_bus m1) = (r, e)"
    by (cases "ec_eeprom_to_pdi (o_bus o') (fixed_addresses m1) i 0 (m_bus m1)")
  obtain r2 m2 where 2: "ec_slave_set_state o' i (if tr = INIT_2_BOOT then EC_STATE_BOOT else EC_STATE_PREOP)
      (m1\<lparr>m_bus := e\<rparr>) = Some (r2, m2)" and 3: "(ret, m') = (if r2 = EC_OK \<and> eo_use_eoe (sl_eoe (slv m2 i))
      then (let (ret, s) = o_eoe_set_ip o' i (sl_eoe (slv m2 i)) (m_bus m2) in (ret, m2\<lparr>m_bus := s\<rparr>)) else (r2, m2))"
    using assms(3) unfolding from_init_def 1 by (auto simp: e Let_def bind_eq_Some_conv)
  have "same_shape m (m1\<lparr>m_bus := e\<rparr>)" using s1 by (rule upd_shape)
  moreover from this have "same_shape (m1\<lparr>m_bus := e\<rparr>) m2"
    using set_state_shape[OF assms(1) _ 2] assms(2) shape_in by blast
  ultimately have "same_shape m m2" by (rule same_shape_trans)
  then show ?thesis using 3 by (auto split: if_splits prod.splits intro: upd_shape)
qed

lemma sync_signals_shape: "ops_laws o' \<Longrightarrow> sync_signals o' i m = Some (ret, m') \<Longrightarrow> same_shape m m'"
  by (auto simp: sync_signals_def Let_def split: if_splits dest!: dc_sync_shape
      intro: same_shape_trans[OF same_shape_upd(1)])

text \<open>What is before the last step of \<open>to_safeop\<close>.\<close>

lemma to_safeop_steps:
  assumes "ops_laws o'" "to_safeop o' i m = Some (ret, m')"
  shows "ret = EC_ERROR_CYCLIC_LOOP \<and> same_shape m m' \<or>
     (\<exists>m1. same_shape m m1 \<and> ec_slave_set_state o' i EC_STATE_SAFEOP m1 = Some (ret, m'))"
proof -
  obtain r m1 where 1: "sync_signals o' i m = Some (r, m1)"
    using assms(2) by (cases "sync_signals o' i m") (auto simp: to_safeop_def)
  show ?thesis
  proof (cases "r = EC_ERROR_CYCLIC_LOOP")
    case True
    then show ?thesis using assms(2) 1 sync_signals_shape[OF assms(1) 1] by (simp add: to_safeop_def)
  next
    case False
    let ?sms = "[(if ei_mbx_supported (sl_eeprom (slv m1 i)) \<noteq> 0 then 2 else 0)..<unat (sl_sm_ch (slv m1 i))]"
    have e: "to_safeop o' i m = do {
         m \<leftarrow> write_all (write_used_sm o' i) ?sms m1;
         m \<leftarrow> write_all (write_active_fmmu o' i) [0..<unat (sl_fmmu_ch (slv m i))] m;
         ec_slave_set_state o' i EC_STATE_SAFEOP m }"
      using False unfolding to_safeop_def 1 by (simp only: bind.bind_lunit prod.case if_False)
    obtain m2 where 2: "write_all (write_used_sm o' i) ?sms m1 = Some m2"
      using assms(2) unfolding e by (cases "write_all (write_used_sm o' i) ?sms m1") simp_all
    let ?fmmus = "[0..<unat (sl_fmmu_ch (slv m2 i))]"
    obtain m3 where 3: "write_all (write_active_fmmu o' i) ?fmmus m2 = Some m3"
      using assms(2) unfolding e 2 by (cases "write_all (write_active_fmmu o' i) ?fmmus m2") simp_all
    have "same_shape m m3"
      using sync_signals_shape[OF assms(1) 1] write_all_shapes(3)[OF 2]
        write_all_shapes(4)[OF 3] same_shape_trans by blast
    moreover have "ec_slave_set_state o' i EC_STATE_SAFEOP m3 = Some (ret, m')"
      using assms(2) by (simp only: e 2 3 bind.bind_lunit)
    ultimately show ?thesis by blast
  qed
qed

lemma get_shape: "slv_get o' i ado d a = (v, b) \<Longrightarrow> same_shape m a \<Longrightarrow> same_shape m b"
  using slv_get_bus shape_bus_trans by blast

lemma read_channels_shape: "same_shape m (read_channels o' i reg get put limit m)"
proof -
  obtain d a where "slv_get o' i reg [get (slv m i)] m = (d, a)" by (cases "slv_get o' i reg [get (slv m i)] m")
  then show ?thesis by (simp add: read_channels_def get_shape upd_shape)
qed

lemma dump_shape: "dump_eeprom o' i m = Some m' \<Longrightarrow> same_shape m m'"
  by (auto simp: dump_eeprom_def intro!: upd_shape)

lemma to_init_fmmus_shape:
  assumes "to_init_fmmus o' i m = Some m'"
  shows "same_shape m m'"
proof -
  let ?b = "read_channels o' i EC_REG_SM_CH sl_sm_ch (\<lambda>v s. s\<lparr>sl_sm_ch := v\<rparr>) (of_nat LEC_MAX_SLAVE_SM) m"
  obtain c where c: "write_all (write_fmmu o' i) [0..<unat (sl_sm_ch (slv ?b i))] ?b = Some c"
      "write_all (write_fmmu o' i) [0..<unat (sl_fmmu_ch (slv (read_channels o' i EC_REG_FMMU_CH sl_fmmu_ch
         (\<lambda>v s. s\<lparr>sl_fmmu_ch := v\<rparr>) (of_nat LEC_MAX_SLAVE_FMMU) c) i))]
         (read_channels o' i EC_REG_FMMU_CH sl_fmmu_ch (\<lambda>v s. s\<lparr>sl_fmmu_ch := v\<rparr>) (of_nat LEC_MAX_SLAVE_FMMU) c) = Some m'"
    using assms unfolding to_init_fmmus_def Let_def bind_eq_Some_conv by blast
  show ?thesis
    by (rule same_shape_trans[OF same_shape_trans[OF read_channels_shape write_all_shapes(2)[OF c(1)]]
          same_shape_trans[OF read_channels_shape write_all_shapes(2)[OF c(2)]]])
qed

lemma read_features_shape: "same_shape m (read_features o' i m)"
proof -
  obtain v1 m1 where 1: "slv_get o' i EC_REG_RAM_SIZE [0] m = (v1, m1)" by (cases "slv_get o' i EC_REG_RAM_SIZE [0] m")
  let ?m1 = "slv_upd i (\<lambda>s. s\<lparr>sl_ram_size := push_bit 10 (ucast (v1 ! 0))\<rparr>) m1"
  obtain v2 m2 where 2: "slv_get o' i EC_REG_PDICTL (le16 (sl_pdi_ctrl (slv ?m1 i))) ?m1 = (v2, m2)"
    by (cases "slv_get o' i EC_REG_PDICTL (le16 (sl_pdi_ctrl (slv ?m1 i))) ?m1")
  let ?m2 = "slv_upd i (\<lambda>s. s\<lparr>sl_pdi_ctrl := u16_of v2\<rparr>) m2"
  obtain v3 m3 where 3: "slv_get o' i EC_REG_ESCSUP (le16 (sl_features (slv ?m2 i))) ?m2 = (v3, m3)"
    by (cases "slv_get o' i EC_REG_ESCSUP (le16 (sl_features (slv ?m2 i))) ?m2")
  have "read_features o' i m = slv_upd i (\<lambda>s. s\<lparr>sl_features := u16_of v3\<rparr>) m3"
    unfolding read_features_def Let_def by (simp only: prod.case 1 2 3)
  then show ?thesis
    using upd_shape(1)[OF get_shape[OF 3 upd_shape(1)[OF get_shape[OF 2 upd_shape(1)[OF get_shape[OF 1 same_shape_refl]]]]]]
    by (simp only:)
qed

lemma to_init_shape:
  assumes "to_init o' i m = Some m'"
  shows "same_shape m m'"
proof -
  let ?a = "ec_slave_free o' i (dc_off o' i (snd (rewrite_fixed o' i 0 m)))"
  obtain b c where b: "to_init_fmmus o' i ?a = Some b" and c: "dump_eeprom o' i
      (slv_upd i (\<lambda>s. s\<lparr>sl_eeprom := (sl_eeprom s)\<lparr>ei_read_eeprom := False\<rparr>\<rparr>) (read_features o' i b)) = Some c"
    and m': "m' = slv_upd i set_subdevs c"
    using assms unfolding to_init_def Let_def bind_eq_Some_conv by blast
  have "same_shape m ?a" unfolding ec_slave_free_def
    by (intro upd_shape(1) same_shape_trans[OF _ mbx_shape(2)] dc_off_shape rewrite_shape)
  then have "same_shape m (slv_upd i (\<lambda>s. s\<lparr>sl_eeprom := (sl_eeprom s)\<lparr>ei_read_eeprom := False\<rparr>\<rparr>) (read_features o' i b))"
    using to_init_fmmus_shape[OF b] read_features_shape same_shape_trans by (intro upd_shape(1)) blast
  then show ?thesis unfolding m' using dump_shape[OF c] same_shape_trans by (intro upd_shape(1)) blast
qed

section \<open>A transition ends in the requested state\<close>

text \<open>\<open>ends_in i state m r\<close>: the array is as in \<open>m\<close>, and success means that the slave is in \<open>state\<close>.\<close>

definition ends_in ::
  "nat \<Rightarrow> u16 \<Rightarrow> ('s, 'd) master \<Rightarrow> (int \<times> ('s, 'd) master) option \<Rightarrow> bool" where
  "ends_in i state m r \<longleftrightarrow> (\<forall>ret m'. r = Some (ret, m') \<longrightarrow> same_shape m m' \<and>
     (ret = EC_OK \<longrightarrow> sl_act_state (slv m' i) = state))"

definition real_state :: "u16 \<Rightarrow> bool" where
  "real_state state \<longleftrightarrow> state \<in> {EC_STATE_INIT, EC_STATE_PREOP, EC_STATE_BOOT, EC_STATE_SAFEOP, EC_STATE_OP}"

lemma ends_in_trans: "same_shape m m1 \<Longrightarrow> ends_in i state m1 r \<Longrightarrow> ends_in i state m r"
  unfolding ends_in_def using same_shape_trans by blast

lemma set_state_ends:
  assumes "ops_laws o'" "i < length (m_slaves m)" "real_state state"
  shows "ends_in i state m (ec_slave_set_state o' i state m)"
proof -
  have "state AND EC_STATE_RESET = 0" using assms(3) by (auto simp: real_state_def)
  moreover have "writes_keep o'" using assms(1) by (simp add: ops_laws_def)
  ultimately show ?thesis
    using set_state_cases[OF _ _ assms(2)] set_state_shape[OF assms(1,2)] unfolding ends_in_def by blast
qed

lemma chain_ends:
  assumes "\<And>ret m'. r = Some (ret, m') \<Longrightarrow> same_shape m m'" "stop \<Longrightarrow> ends_in i state m r"
    and "\<And>m'. \<not> stop \<Longrightarrow> same_shape m m' \<Longrightarrow> ends_in i state m' (g m')"
  shows "ends_in i state m (fall_through stop g r)"
proof (cases r)
  case None
  then show ?thesis by (simp add: fall_through_def ends_in_def)
next
  case (Some x)
  obtain ret m' where x: "x = (ret, m')" by (cases x)
  have s: "same_shape m m'" using assms(1) Some x by simp
  show ?thesis
  proof (cases "ret = EC_OK \<and> \<not> stop")
    case True
    then have "fall_through stop g r = g m'" by (simp add: fall_through_def Some x)
    then show ?thesis using ends_in_trans[OF s assms(3)[OF _ s]] True by simp
  next
    case False
    then have "fall_through stop g r = r" by (auto simp: fall_through_def Some x)
    then show ?thesis using False assms(2) s Some x by (auto simp: ends_in_def)
  qed
qed

lemma ends_in_shape: "ends_in i state m r \<Longrightarrow> r = Some (ret, m') \<Longrightarrow> same_shape m m'"
  by (simp add: ends_in_def)

lemma to_safeop_ends:
  assumes "ops_laws o'" "i < length (m_slaves m)"
  shows "ends_in i EC_STATE_SAFEOP m (to_safeop o' i m)"
  unfolding ends_in_def
proof (intro allI impI)
  fix ret m' assume r: "to_safeop o' i m = Some (ret, m')"
  from to_safeop_steps[OF assms(1) r] consider "ret = EC_ERROR_CYCLIC_LOOP" "same_shape m m'"
    | m1 where "same_shape m m1" "ec_slave_set_state o' i EC_STATE_SAFEOP m1 = Some (ret, m')" by blast
  then show "same_shape m m' \<and> (ret = EC_OK \<longrightarrow> sl_act_state (slv m' i) = EC_STATE_SAFEOP)"
  proof cases
    case 1
    then show ?thesis by simp
  next
    case 2
    have "ends_in i EC_STATE_SAFEOP m (ec_slave_set_state o' i EC_STATE_SAFEOP m1)"
      by (rule ends_in_trans[OF 2(1) set_state_ends[OF assms(1) shape_in[OF 2(1) assms(2)]]]) (simp add: real_state_def)
    then show ?thesis using 2(2) by (simp add: ends_in_def)
  qed
qed

lemma tr_safeop_op_ends:
  "ops_laws o' \<Longrightarrow> i < length (m_slaves m) \<Longrightarrow> ends_in i EC_STATE_OP m (tr_safeop_op o' i m)"
  unfolding tr_safeop_op_def by (rule set_state_ends) (simp_all add: real_state_def)

lemma tr_preop_up_ends:
  assumes "ops_laws o'" "i < length (m_slaves m)"
  shows "tr \<in> {INIT_2_SAFEOP, PREOP_2_SAFEOP} \<Longrightarrow> ends_in i EC_STATE_SAFEOP m (tr_preop_up o' i tr m)"
    "tr \<notin> {INIT_2_SAFEOP, PREOP_2_SAFEOP} \<Longrightarrow> ends_in i EC_STATE_OP m (tr_preop_up o' i tr m)"
proof -
  note s = to_safeop_ends[OF assms]
  show "ends_in i EC_STATE_SAFEOP m (tr_preop_up o' i tr m)" if "tr \<in> {INIT_2_SAFEOP, PREOP_2_SAFEOP}"
    unfolding tr_preop_up_def
  proof (rule chain_ends)
    show "same_shape m m'" if "to_safeop o' i m = Some (ret, m')" for ret m' using ends_in_shape[OF s that] .
    show "ends_in i EC_STATE_SAFEOP m (to_safeop o' i m)" by (rule s)
  qed (use that in auto)
  show "ends_in i EC_STATE_OP m (tr_preop_up o' i tr m)" if "tr \<notin> {INIT_2_SAFEOP, PREOP_2_SAFEOP}"
    unfolding tr_preop_up_def
  proof (rule chain_ends)
    show "same_shape m m'" if "to_safeop o' i m = Some (ret, m')" for ret m' using ends_in_shape[OF s that] .
    show "ends_in i EC_STATE_OP m' (tr_safeop_op o' i m')" if "same_shape m m'" for m'
      by (rule tr_safeop_op_ends[OF assms(1) shape_in[OF that assms(2)]])
  qed (use that in auto)
qed

lemma from_init_ends:
  assumes "ops_laws o'" "i < length (m_slaves m)"
  shows "ends_in i (if tr = INIT_2_BOOT then EC_STATE_BOOT else EC_STATE_PREOP) m (from_init o' i tr m)"
  unfolding ends_in_def
proof (intro allI impI)
  fix ret m' assume r: "from_init o' i tr m = Some (ret, m')"
  let ?st = "if tr = INIT_2_BOOT then EC_STATE_BOOT else EC_STATE_PREOP"
  obtain m1 where 1: "init_mailboxes o' i tr m = Some m1"
    using r by (cases "init_mailboxes o' i tr m") (simp_all add: from_init_def)
  obtain x e where e: "ec_eeprom_to_pdi (o_bus o') (fixed_addresses m1) i 0 (m_bus m1) = (x, e)"
    by (cases "ec_eeprom_to_pdi (o_bus o') (fixed_addresses m1) i 0 (m_bus m1)")
  obtain r2 m2 where 2: "ec_slave_set_state o' i ?st (m1\<lparr>m_bus := e\<rparr>) = Some (r2, m2)"
    and 3: "(ret, m') = (if r2 = EC_OK \<and> eo_use_eoe (sl_eoe (slv m2 i))
      then (let (ret, s) = o_eoe_set_ip o' i (sl_eoe (slv m2 i)) (m_bus m2) in (ret, m2\<lparr>m_bus := s\<rparr>)) else (r2, m2))"
    using r unfolding from_init_def 1 by (auto simp: e Let_def bind_eq_Some_conv)
  have "same_shape m (m1\<lparr>m_bus := e\<rparr>)" using init_mailboxes_shape[OF 1] by (rule upd_shape)
  from shape_in[OF this assms(2)] have "ends_in i ?st (m1\<lparr>m_bus := e\<rparr>) (Some (r2, m2))"
    unfolding 2[symmetric] by (intro set_state_ends[OF assms(1)]) (auto simp: real_state_def)
  then have "r2 = EC_OK \<longrightarrow> sl_act_state (slv m2 i) = ?st" by (simp add: ends_in_def)
  moreover have "slv m' i = slv m2 i" "ret = EC_OK \<longrightarrow> r2 = EC_OK"
    using 3 by (auto split: if_splits prod.splits)
  ultimately show "same_shape m m' \<and> (ret = EC_OK \<longrightarrow> sl_act_state (slv m' i) = ?st)"
    using from_init_shape[OF assms r] by simp
qed

text \<open>The state in which the way up ends.\<close>

definition up_state :: "u16 \<Rightarrow> u16" where
  "up_state tr = (if tr = INIT_2_BOOT then EC_STATE_BOOT else if tr = INIT_2_PREOP then EC_STATE_PREOP
     else if tr \<in> {INIT_2_SAFEOP, PREOP_2_SAFEOP} then EC_STATE_SAFEOP else EC_STATE_OP)"

lemma tr_init_up_ends:
  assumes "ops_laws o'" "i < length (m_slaves m)"
  shows "ends_in i (up_state tr) m (tr_init_up o' i tr m)"
  unfolding tr_init_up_def
proof (rule chain_ends)
  note s = from_init_ends[OF assms, of tr]
  show "same_shape m m'" if "from_init o' i tr m = Some (ret, m')" for ret m' using ends_in_shape[OF s that] .
  show "ends_in i (up_state tr) m (from_init o' i tr m)" if "tr = INIT_2_PREOP \<or> tr = INIT_2_BOOT"
    using s that by (auto simp: up_state_def)
  show "ends_in i (up_state tr) m' (tr_preop_up o' i tr m')"
    if "\<not> (tr = INIT_2_PREOP \<or> tr = INIT_2_BOOT)" "same_shape m m'" for m'
    using tr_preop_up_ends[OF assms(1) shape_in[OF that(2) assms(2)], of tr] that(1) by (auto simp: up_state_def)
qed

lemma tr_init_init_ends:
  assumes "ops_laws o'" "i < length (m_slaves m)" "real_state state"
  shows "ends_in i state m (tr_init_init o' i state m)"
proof (cases "to_init o' i m")
  case (Some m1)
  note s = to_init_shape[OF Some]
  show ?thesis
    unfolding tr_init_init_def Some bind.bind_lunit
    by (rule ends_in_trans[OF s set_state_ends[OF assms(1) shape_in[OF s assms(2)] assms(3)]])
qed (simp add: tr_init_init_def ends_in_def)

lemma set_then_chain:
  assumes "ops_laws o'" "i < length (m_slaves m)" "real_state state" "same_shape m m1"
    and "\<And>m'. same_shape m m' \<Longrightarrow> ends_in i state m' (g m')"
  shows "ends_in i state m (fall_through stop g (ec_slave_set_state o' i state m1))"
proof -
  have s: "ends_in i state m (ec_slave_set_state o' i state m1)"
    by (rule ends_in_trans[OF assms(4) set_state_ends[OF assms(1) shape_in[OF assms(4,2)] assms(3)]])
  show ?thesis by (rule chain_ends[OF ends_in_shape[OF s]]) (use s assms(5) in auto)
qed

lemma tr_down_ends:
  assumes "ops_laws o'" "i < length (m_slaves m)" "real_state state"
  shows "ends_in i state m (tr_unknown_init o' i state m)" "ends_in i state m (tr_down o' i tr state m)"
    "ends_in i state m (tr_op_down o' i tr state m)"
proof -
  have u: "ends_in i state m (tr_unknown_init o' i state m)" if "i < length (m_slaves m)" for m
    unfolding tr_unknown_init_def
    by (rule set_then_chain[OF assms(1) that assms(3) dc_off_shape[OF rewrite_shape]])
      (rule tr_init_init_ends[OF assms(1) shape_in[OF _ that] assms(3)])
  have d: "ends_in i state m (tr_down o' i tr state m)" if "i < length (m_slaves m)" for m
    unfolding tr_down_def
    by (rule set_then_chain[OF assms(1) that assms(3) dc_off_shape[OF same_shape_refl]])
      (rule u[OF shape_in[OF _ that]])
  show "ends_in i state m (tr_unknown_init o' i state m)" "ends_in i state m (tr_down o' i tr state m)"
    by (rule u[OF assms(2)], rule d[OF assms(2)])
  show "ends_in i state m (tr_op_down o' i tr state m)"
    unfolding tr_op_down_def
    by (rule set_then_chain[OF assms same_shape_refl]) (rule d[OF shape_in[OF _ assms(2)]])
qed

lemma get_state_shape: "ec_slave_get_state o' i st al m = (ret, a, al', m') \<Longrightarrow> same_shape m m'"
  using get_state_act act_only_shape by blast

lemma write_each_shape: "write_each o' i ado vs m = (ds, m') \<Longrightarrow> same_shape m m'"
proof (induction vs arbitrary: m ds)
  case (Cons v vs)
  obtain r d w m1 where 1: "slv_fpwr o' i ado [v] 0 m = (r, d, w, m1)" by (metis prod_cases4)
  obtain ds1 where 2: "write_each o' i ado vs m1 = (ds1, m')"
    using Cons.prems by (cases "write_each o' i ado vs m1") (simp add: 1)
  show ?case using Cons.IH[OF 2] same_shape_bus[OF slv_fpwr_bus[OF 1]] same_shape_trans by blast
qed simp

lemma reset_shape: "same_shape m (ec_slave_reset o' i m)"
proof -
  obtain ds m1 where 1: "write_each o' i 0x41 [0x52, 0x45, 0x53] m = (ds, m1)"
    by (cases "write_each o' i 0x41 [0x52, 0x45, 0x53] m")
  obtain es m2 where 2: "write_each o' i 0x40 ds m1 = (es, m2)" by (cases "write_each o' i 0x40 ds m1")
  have "ec_slave_reset o' i m = m2" by (simp only: ec_slave_reset_def 1 2 Let_def prod.case snd_conv)
  then show ?thesis using write_each_shape[OF 1] write_each_shape[OF 2] same_shape_trans by simp blast
qed

lemma error_reset_round:
  assumes "ops_laws o'" "i < length (m_slaves m)" "error_reset_body o' i t (act, m) = x" "x \<noteq> Inr None"
  shows "\<exists>act' m'. same_shape m m' \<and> (x = Inl (act', m') \<or> x = Inr (Some (act', m')))"
proof -
  let ?set = "ec_slave_set_state o' i ((act AND EC_STATE_MASK) OR EC_STATE_RESET) m"
  obtain r m1 where 1: "?set = Some (r, m1)"
    using assms(3,4) by (cases ?set) (auto simp: error_reset_body_def simp del: EC_STATE_MASK_def EC_STATE_RESET_def)
  obtain r2 a al m2 where 2: "ec_slave_get_state o' i 0 (Some 0) m1 = (r2, a, al, m2)" by (metis prod_cases4)
  obtain ex m3 where 3: "timer_over o' t m2 = (ex, m3)" by (cases "timer_over o' t m2")
  have "same_shape m m2" using set_state_shape[OF assms(1,2) 1] get_state_shape[OF 2] same_shape_trans by blast
  moreover from this have "same_shape m m3" using shape_bus_trans timer_over_bus[OF 3] by blast
  moreover have "x = (if r2 = EC_OK \<and> a AND EC_STATE_ERROR = 0 then Inr (Some (a, m2))
      else if ex then Inr (Some (a, m3)) else Inl (a, m3))"
    unfolding assms(3)[symmetric] error_reset_body_def by (simp only: prod.case 1 2 3 option.case Let_def)
  ultimately show ?thesis by auto
qed

lemma reset_error_first_shape:
  assumes "ops_laws o'" "i < length (m_slaves m)" "reset_error_first o' i act m = Some (ret, act', m')"
  shows "same_shape m m'"
proof -
  obtain t m1 where 1: "timer_start o' 1000000000 m = (t, m1)" by (cases "timer_start o' 1000000000 m")
  let ?loop = "loop (o_fuel o') (error_reset_body o' i t) (act, m1)"
  have s1: "same_shape m m1" by (rule same_shape_bus[OF timer_start_bus[OF 1]])
  obtain a2 m2 where 2: "?loop = Some (Some (a2, m2))"
      "(ret, act', m') = (let (ex, m) = timer_over o' t m2
         in if ex then (EC_ERROR_SLAVE_NOT_RESPONDING, a2, ec_slave_reset o' i m) else (EC_OK, a2, m))"
  proof -
    from assms(3) obtain y where y: "?loop = Some y" "Option.bind y (\<lambda>(act_state, m). case timer_over o' t m of
        (ex, m) \<Rightarrow> Some (if ex then (EC_ERROR_SLAVE_NOT_RESPONDING, act_state, ec_slave_reset o' i m)
                         else (EC_OK, act_state, m))) = Some (ret, act', m')"
      unfolding reset_error_first_def 1 Let_def by (cases ?loop) simp_all
    then obtain a2 m2 where "y = Some (a2, m2)" by (cases y) auto
    moreover obtain ex m3 where "timer_over o' t m2 = (ex, m3)" by (cases "timer_over o' t m2")
    ultimately show ?thesis using y by (intro that[of a2 m2]) auto
  qed
  have "(\<lambda>r. \<forall>a m2. r = Some (a, m2) \<longrightarrow> same_shape m m2) (Some (a2, m2))"
    using 2(1)
  proof (induction rule: loop_invariant[where I = "\<lambda>(_, m'). same_shape m m'"])
    case (step s s')
    obtain a ms where s: "s = (a, ms)" "same_shape m ms" using step(1) by (cases s) auto
    show ?case using error_reset_round[OF assms(1) shape_in[OF s(2) assms(2)] step(2)[unfolded s(1)]] s(2) same_shape_trans by fast
  next
    case (exit s r)
    obtain a ms where s: "s = (a, ms)" "same_shape m ms" using exit(1) by (cases s) auto
    show ?case
      using error_reset_round[OF assms(1) shape_in[OF s(2) assms(2)] exit(2)[unfolded s(1)]] s(2) same_shape_trans
      by (cases r) fast+
  qed (use s1 in simp)
  then have "same_shape m m2" by simp
  moreover obtain ex m3 where 3: "timer_over o' t m2 = (ex, m3)" by (cases "timer_over o' t m2")
  ultimately have "same_shape m m3" using shape_bus_trans timer_over_bus[OF 3] by blast
  moreover from this have "same_shape m (ec_slave_reset o' i m3)" by (rule same_shape_trans[OF _ reset_shape])
  ultimately show ?thesis using 2(2) 3 by (auto split: if_splits)
qed

lemma transition_start_shape:
  assumes "ops_laws o'" "i < length (m_slaves m)" "transition_start o' i m = Some (ret, act, m')"
  shows "same_shape m m'"
proof -
  obtain r1 a1 al1 m1 where 1: "ec_slave_get_state o' i 0 (Some 0) m = (r1, a1, al1, m1)" by (metis prod_cases4)
  obtain w m2 where 2: "rewrite_fixed o' i (u16_of (o_uninit o' 2)) m1 = (w, m2)"
    by (cases "rewrite_fixed o' i (u16_of (o_uninit o' 2)) m1")
  obtain r3 a3 al3 m3 where 3: "ec_slave_get_state o' i a1 al1 m2 = (r3, a3, al3, m3)" by (metis prod_cases4)
  obtain r4 a4 al4 m4 where 4: "(if r1 \<noteq> EC_OK
      then if w = 0 then (EC_ERROR_SLAVE_NOT_RESPONDING, a1, al1, m2) else (r3, a3, al3, m3)
      else (r1, a1, al1, m1)) = (r4, a4, al4, m4)" by (metis prod_cases4)
  have "same_shape m m1" by (rule get_state_shape[OF 1])
  moreover have "same_shape m1 m2" using rewrite_shape[of m1 o' i "u16_of (o_uninit o' 2)"] by (simp add: 2)
  moreover have "same_shape m2 m3" by (rule get_state_shape[OF 3])
  ultimately have s: "same_shape m m4" using 4 same_shape_trans by (auto split: if_splits)
  have "transition_start o' i m = (if r4 = EC_OK \<and> a4 AND EC_STATE_ERROR \<noteq> 0 \<and> al4 \<noteq> Some 0
      then reset_error_first o' i a4 m4 else Some (r4, a4, m4))"
    unfolding transition_start_def Let_def by (simp only: prod.case 1 2 3 4 cong: if_cong)
  moreover have "same_shape m m'" if "reset_error_first o' i a4 m4 = Some (ret, act, m')"
    by (rule same_shape_trans[OF s reset_error_first_shape[OF assms(1) shape_in[OF s assms(2)] that]])
  ultimately show ?thesis
    using assms(3) s unfolding assms(3)
    by (cases "r4 = EC_OK \<and> a4 AND EC_STATE_ERROR \<noteq> 0 \<and> al4 \<noteq> Some 0") (simp_all only: if_P if_not_P simp_thms option.inject prod.inject)
qed

text \<open>The transitions the switch knows, with the old state in the high and the new one in the low byte.\<close>

definition known_transitions :: "u16 set" where
  "known_transitions = {INIT_2_BOOT, INIT_2_PREOP, INIT_2_SAFEOP, INIT_2_OP, PREOP_2_SAFEOP, PREOP_2_OP, SAFEOP_2_OP,
     OP_2_SAFEOP, OP_2_PREOP, OP_2_INIT, SAFEOP_2_PREOP, SAFEOP_2_INIT, PREOP_2_INIT, UNKNOWN_2_INIT, BOOT_2_INIT,
     INIT_2_INIT, PREOP_2_PREOP, SAFEOP_2_SAFEOP, OP_2_OP}"

lemma transition_target:
  assumes "real_state state"
  shows "transition_of act state AND EC_STATE_MASK = state"
proof -
  have "push_bit 8 x AND EC_STATE_MASK = 0" for x :: u16
  proof -
    have m: "EC_STATE_MASK = mask 4" by (simp add: mask_eq_exp_minus_1)
    then show ?thesis by (simp only: m take_bit_eq_mask[symmetric] take_bit_push_bit) simp
  qed
  moreover have "state AND EC_STATE_MASK = state" using assms by (auto simp: real_state_def)
  ultimately show ?thesis
    unfolding transition_of_def by (metis (no_types, opaque_lifting) bit.conj_disj_distrib2 or.left_neutral and.assoc and.idem)
qed

lemma switch_ends:
  assumes "ops_laws o'" "i < length (m_slaves m)" "real_state state" "tr AND EC_STATE_MASK = state"
    and "tr \<in> known_transitions"
  shows "ends_in i state m (transition_switch o' i tr state m)"
proof -
  have up: "up_state tr = state" if "tr \<in> {INIT_2_BOOT, INIT_2_PREOP, INIT_2_SAFEOP, INIT_2_OP, PREOP_2_SAFEOP, PREOP_2_OP}"
    using that assms(4) by (auto simp: up_state_def)
  consider "tr \<in> {INIT_2_BOOT, INIT_2_PREOP, INIT_2_SAFEOP, INIT_2_OP}" | "tr = PREOP_2_SAFEOP" | "tr = PREOP_2_OP"
    | "tr = SAFEOP_2_OP" | "tr \<in> {OP_2_SAFEOP, OP_2_PREOP}"
    | "tr \<in> {OP_2_INIT, SAFEOP_2_PREOP, SAFEOP_2_INIT, PREOP_2_INIT}" | "tr = UNKNOWN_2_INIT"
    | "tr \<in> {BOOT_2_INIT, INIT_2_INIT}" | "tr \<in> {PREOP_2_PREOP, SAFEOP_2_SAFEOP, OP_2_OP}"
    using assms(5) unfolding known_transitions_def by blast
  then show ?thesis
  proof cases
    case 1
    then have "transition_switch o' i tr state m = tr_init_up o' i tr m" by (auto simp: transition_switch_def)
    moreover have "up_state tr = state" using 1 by (intro up) auto
    ultimately show ?thesis using tr_init_up_ends[OF assms(1,2), of tr] by (simp only:)
  next
    case 2
    then show ?thesis using tr_preop_up_ends(1)[OF assms(1,2), of tr] assms(4) by (auto simp: transition_switch_def)
  next
    case 3
    then show ?thesis using tr_preop_up_ends(2)[OF assms(1,2), of tr] assms(4) by (auto simp: transition_switch_def)
  next
    case 4
    then show ?thesis using tr_safeop_op_ends[OF assms(1,2)] assms(4) by (auto simp: transition_switch_def)
  next
    case 5
    then show ?thesis using tr_down_ends(3)[OF assms(1-3), of tr] by (auto simp: transition_switch_def)
  next
    case 6
    then show ?thesis using tr_down_ends(2)[OF assms(1-3), of tr] by (auto simp: transition_switch_def)
  next
    case 7
    then show ?thesis using tr_down_ends(1)[OF assms(1-3)] by (auto simp: transition_switch_def)
  next
    case 8
    then show ?thesis using tr_init_init_ends[OF assms(1-3)] by (auto simp: transition_switch_def)
  next
    case 9
    then show ?thesis using set_state_ends[OF assms(1-3)] by (auto simp: transition_switch_def)
  qed
qed

lemma transition_reached:
  assumes "ops_laws o'" "i < m_slave_cnt m" "m_slave_cnt m \<le> length (m_slaves m)" "real_state state"
    and "transition_start o' i m = Some (EC_OK, act, m0)" "transition_of act state \<in> known_transitions"
    and "ec_slave_state_transition o' i state m = Some (EC_OK, m')"
  shows "sl_act_state (slv m' i) = state"
proof -
  have l: "i < length (m_slaves m)" using assms(2,3) by simp
  have l0: "i < length (m_slaves m0)" by (rule shape_in[OF transition_start_shape[OF assms(1) l assms(5)] l])
  have "transition_switch o' i (transition_of act state) state m0 = Some (EC_OK, m')"
    using assms(2,5,7) by (simp add: ec_slave_state_transition_def)
  then show ?thesis
    using switch_ends[OF assms(1) l0 assms(4) transition_target[OF assms(4)] assms(6)] by (simp add: ends_in_def)
qed

text \<open>
  C5: A transition that succeeds has brought the slave into the requested state, for each of the
  nineteen pairs of states that the switch knows.
\<close>

theorem transition_reaches_state:
  assumes "ops_laws o'" "i < m_slave_cnt m" "m_slave_cnt m \<le> length (m_slaves m)" "real_state state"
    and "transition_start o' i m = Some (EC_OK, act, m0)" "transition_of act state \<in> known_transitions"
    and "ec_slave_state_transition o' i state m = Some (EC_OK, m')"
  shows "sl_act_state (slv m' i) = state"
  by (rule transition_reached[OF assms])


section \<open>A slave that answers at once\<close>

text \<open>
  A bus with one slave whose state is the last one that was requested. The second component is
  the time; every access takes a microsecond.
\<close>

definition esc_bus :: "(u16 \<times> nat) bus" where
  "esc_bus = \<lparr>b_xcv = (\<lambda>c a d w (st, t).
       if c = EC_CMD_FPWR \<and> a = reg_adr 1000 EC_REG_ALCTL then (EC_OK, d, 1, (u16_of d, t + 1000))
       else if c = EC_CMD_FPRD \<and> a = reg_adr 1000 EC_REG_ALSTAT then (EC_OK, le16 st, 1, (st, t + 1000))
       else (EC_OK, d, 1, (st, t + 1000))),
     b_timer_init = (\<lambda>ns (st, t). (t + ns, (st, t))), b_timer_expired = (\<lambda>to (st, t). (to \<le> t, (st, t))),
     b_sleep = (\<lambda>ns (st, t). (st, t + ns))\<rparr>"

definition esc_ops :: "nat \<Rightarrow> (u16 \<times> nat, int) ops" where
  "esc_ops n = demo_ops esc_bus n"

lemma esc_laws: "ops_laws (esc_ops n)"
  by (auto simp: ops_laws_def writes_keep_def esc_ops_def demo_ops_def esc_bus_def ec_fpwr_def split: prod.splits)

definition esc_slave :: "u16 \<Rightarrow> (u16 \<times> nat, int) master" where
  "esc_slave st = demo_master [demo_ec_slave 0x03 [0, 0, 0, 0]] (st, 0)"

lemma esc_slave_simps:
  "m_slave_cnt (esc_slave st) = 1" "length (m_slaves (esc_slave st)) = 1" "sl_fixed_address (slv (esc_slave st) 0) = 1000"
  "m_bus (esc_slave st) = (st, 0)"
  by (simp_all add: esc_slave_def demo_master_def slv_def demo_ec_slave_def)

lemma esc_fpwr:
  "sl_fixed_address (slv m 0) = 1000 \<Longrightarrow> m_bus m = (st, t) \<Longrightarrow>
   slv_fpwr (esc_ops n) 0 EC_REG_ALCTL d w m = (EC_OK, d, 1, m\<lparr>m_bus := (u16_of d, t + 1000)\<rparr>)"
  by (simp only: slv_fpwr_def ec_fpwr_def esc_ops_def demo_ops_def ops.simps esc_bus_def bus.simps prod.case if_True simp_thms Let_def)

lemma esc_fprd:
  "sl_fixed_address (slv m 0) = 1000 \<Longrightarrow> m_bus m = (st, t) \<Longrightarrow>
   slv_fprd (esc_ops n) 0 EC_REG_ALSTAT d w m = (EC_OK, le16 st, 1, m\<lparr>m_bus := (st, t + 1000)\<rparr>)"
  by (simp add: slv_fprd_def ec_fprd_def esc_ops_def demo_ops_def esc_bus_def)

lemma esc_timers:
  "m_bus m = (st, t) \<Longrightarrow> timer_start (esc_ops n) ns m = (t + ns, m)"
  "m_bus m = (st, t) \<Longrightarrow> timer_over (esc_ops n) to m = (to \<le> t, m)"
  "m_bus m = (st, t) \<Longrightarrow> pause (esc_ops n) ns m = m\<lparr>m_bus := (st, t + ns)\<rparr>"
  by (simp_all add: timer_start_def timer_over_def pause_def esc_ops_def demo_ops_def esc_bus_def)

lemma esc_get_state:
  assumes "sl_fixed_address (slv m 0) = 1000" "m_bus m = (st, t)" "m_slave_cnt m = 1" "st AND 0x10 = 0"
  shows "ec_slave_get_state (esc_ops n) 0 a al m =
    (EC_OK, st, al, slv_upd 0 (\<lambda>s. s\<lparr>sl_act_state := st\<rparr>) (m\<lparr>m_bus := (st, t + 1000)\<rparr>))"
  unfolding ec_slave_get_state_def Let_def esc_fprd[OF assms(1,2)] prod.case using assms(3,4) by simp

lemma esc_set_state:
  assumes "sl_fixed_address (slv m 0) = 1000" "m_bus m = (st, t)" "m_slave_cnt m = 1" "length (m_slaves m) = 1"
    and "real_state state"
  shows "\<exists>m'. ec_slave_set_state (esc_ops (Suc n)) 0 state m = Some (EC_OK, m')"
proof -
  have r: "state AND EC_STATE_RESET = 0" "state AND EC_STATE_ERROR = 0" using assms(5) by (auto simp: real_state_def)
  let ?m1 = "slv_upd 0 (\<lambda>s. s\<lparr>sl_transition_active := True, sl_expected_state := state\<rparr>) (m\<lparr>m_bus := (state, t + 1000)\<rparr>)"
  let ?a = "?m1\<lparr>m_bus := (state, t + 1000 + 1000)\<rparr>"
  let ?m2 = "slv_upd 0 (\<lambda>s. s\<lparr>sl_act_state := state\<rparr>) (?a\<lparr>m_bus := (state, t + 1000 + 1000 + 1000)\<rparr>)"
  let ?m3 = "?m2\<lparr>m_bus := (state, t + 1000 + 1000 + 1000 + 1000000)\<rparr>" and ?to = "t + 1000 + 10000000000"
  let ?o = "esc_ops (Suc n)"
  have b: "sl_fixed_address (slv ?m1 0) = 1000" "m_bus ?m1 = (state, t + 1000)" "m_slave_cnt ?m1 = 1"
    using assms(1-4) by simp_all
  have g: "ec_slave_get_state ?o 0 0 None ?a = (EC_OK, state, None, ?m2)"
    by (rule esc_get_state) (use b r in simp_all)
  have w: "slv_fpwr ?o 0 EC_REG_ALCTL (le16 state) 0 ?m1 = (EC_OK, le16 state, 1, ?a)"
    unfolding esc_fpwr[OF b(1,2)] uint_of_le ..
  have p: "pause ?o 1000000 ?m2 = ?m3" by (rule esc_timers(3)) simp
  have body: "set_state_body ?o again 0 ?to (EC_OK, state, 0, v, ?m1) = Inr (Some (EC_OK, state, state, ?m3))" for again v
    unfolding set_state_body_def prod.case Let_def w uint_of_le g
    by (simp only: if_True if_False simp_thms prod.case r option.case p)
  have "ec_slave_set_state ?o 0 state m = Some (set_state_end ?o 0 ?to (EC_OK, state, state, ?m3))"
  proof -
    have f: "o_fuel ?o = Suc n" by (simp add: esc_ops_def demo_ops_def)
    have c: "\<not> 0 \<ge> m_slave_cnt m" using assms(3) by simp
    show ?thesis
      unfolding ec_slave_set_state_def f set_state_depth.simps(2)[of "Suc (Suc n)"] if_not_P[OF c]
        Let_def esc_fpwr[OF assms(1,2)] prod.case uint_of_le esc_timers(1)[OF b(2)]
      by (simp only: r simp_thms if_False esc_timers(1)[OF b(2)] prod.case loop.simps body sum.case bind.bind_lunit id_apply option.map)
  qed
  moreover have "timer_over ?o ?to ?m3 = (False, ?m3)"
    using esc_timers(2)[of ?m3 state "t + 1000 + 1000 + 1000 + 1000000" "Suc n" ?to] by simp
  then have "fst (set_state_end ?o 0 ?to (EC_OK, state, state, ?m3)) = EC_OK"
    by (simp only: set_state_end_def prod.case Let_def if_True if_False simp_thms fst_conv)
  ultimately show ?thesis by (metis prod.collapse)
qed

lemma esc_transition_start:
  assumes "real_state st" "sl_fixed_address (slv m 0) = 1000" "m_bus m = (st, t)" "m_slave_cnt m = 1"
  shows "transition_start (esc_ops n) 0 m = Some (EC_OK, st,
     slv_upd 0 (\<lambda>s. s\<lparr>sl_act_state := st\<rparr>) (m\<lparr>m_bus := (st, t + 1000)\<rparr>))"
proof -
  have "st AND EC_STATE_ERROR = 0" "st AND 0x10 = 0" using assms(1) by (auto simp: real_state_def)
  moreover note esc_get_state[OF assms(2-4) this(2), of n 0 "Some 0"]
  ultimately show ?thesis unfolding transition_start_def by (simp only: Let_def prod.case) simp
qed

lemma transition_steps:
  assumes "transition_start o' i m = Some (EC_OK, act, m0)" "i < m_slave_cnt m" "transition_of act state = tr"
    and "transition_switch o' i tr state m0 = r"
  shows "ec_slave_state_transition o' i state m = r"
  using assms by (simp add: ec_slave_state_transition_def)

lemma esc_safeop_op:
  assumes "sl_fixed_address (slv m 0) = 1000" "m_bus m = (EC_STATE_SAFEOP, t)" "m_slave_cnt m = 1" "length (m_slaves m) = 1"
  shows "\<exists>m'. ec_slave_state_transition (esc_ops 1) 0 EC_STATE_OP m = Some (EC_OK, m')"
    "transition_of EC_STATE_SAFEOP EC_STATE_OP \<in> known_transitions"
proof -
  let ?b = "slv_upd 0 (\<lambda>s. s\<lparr>sl_act_state := EC_STATE_SAFEOP\<rparr>) (m\<lparr>m_bus := (EC_STATE_SAFEOP, t + 1000)\<rparr>)"
  have r: "real_state EC_STATE_SAFEOP" "real_state EC_STATE_OP" by (simp_all add: real_state_def)
  have t: "transition_of EC_STATE_SAFEOP EC_STATE_OP = SAFEOP_2_OP" by (simp add: transition_of_def)
  note start = esc_transition_start[OF r(1) assms(1-3), of 1]
  obtain m' where "ec_slave_set_state (esc_ops (Suc 0)) 0 EC_STATE_OP ?b = Some (EC_OK, m')"
    using esc_set_state[OF _ _ _ _ r(2), of ?b EC_STATE_SAFEOP "t + 1000" 0] assms by auto
  then have "transition_switch (esc_ops 1) 0 SAFEOP_2_OP EC_STATE_OP ?b = Some (EC_OK, m')"
    by (simp add: transition_switch_def tr_safeop_op_def)
  then show "\<exists>m'. ec_slave_state_transition (esc_ops 1) 0 EC_STATE_OP m = Some (EC_OK, m')"
    using transition_steps[OF start _ t] assms(3) by fastforce
  show "transition_of EC_STATE_SAFEOP EC_STATE_OP \<in> known_transitions" unfolding t by (simp add: known_transitions_def)
qed

theorem transition_reaches_state_witness:
  "\<exists>m'. ec_slave_state_transition (esc_ops 1) 0 EC_STATE_OP (esc_slave EC_STATE_SAFEOP) = Some (EC_OK, m') \<and>
     sl_act_state (slv m' 0) = EC_STATE_OP"
proof -
  have r: "real_state EC_STATE_SAFEOP" "real_state EC_STATE_OP" by (simp_all add: real_state_def)
  note s = esc_slave_simps(3,4,1,2)[of EC_STATE_SAFEOP]
  obtain m' where m': "ec_slave_state_transition (esc_ops 1) 0 EC_STATE_OP (esc_slave EC_STATE_SAFEOP) = Some (EC_OK, m')"
    using esc_safeop_op(1)[OF s] by blast
  from transition_reaches_state[OF esc_laws _ _ r(2) esc_transition_start[OF r(1) s(1-3)] esc_safeop_op(2)[OF s] m']
  show ?thesis using m' by (simp add: esc_slave_simps)
qed


end
