(* ===== verification/Scan.thy ===== *)
theory Scan
  imports Slave_Transition
begin

text \<open>
  \<^verbatim>\<open>ec_scan\<close> of \<^verbatim>\<open>src/ec.c\<close>: finding the slaves, their links and the slave each one is
  connected to. A failing assertion and an access outside the array of the slaves are
  \<^term>\<open>None\<close>.
\<close>

section \<open>The memory of a slave set to zero\<close>

definition zero_eeprom :: eeprom_info where
  "zero_eeprom = \<lparr>ei_read_eeprom = False, ei_vendor_id = 0, ei_product_code = 0, ei_revision_numer = 0,
     ei_serial_number = 0, ei_mbx_supported = 0, ei_mbx_receive_offset = 0, ei_mbx_receive_size = 0,
     ei_mbx_send_offset = 0, ei_mbx_send_size = 0, ei_boot_mbx_receive_offset = 0,
     ei_boot_mbx_receive_size = 0, ei_boot_mbx_send_offset = 0, ei_boot_mbx_send_size = 0,
     ei_general = replicate 14 0, ei_strings_cnt = 0,
     ei_strings = replicate LEC_MAX_EEPROM_CAT_STRINGS (replicate LEC_MAX_STRING_LEN 0), ei_sms_cnt = 0,
     ei_sms = replicate LEC_MAX_EEPROM_CAT_SM (replicate sizeof_cat_sm 0), ei_fmmus_cnt = 0,
     ei_fmmus = replicate LEC_MAX_EEPROM_CAT_FMMU 0,
     ei_free_pdos = replicate LEC_MAX_EEPROM_CAT_PDO (pdo_of (replicate 8 0)), ei_txpdos = [], ei_rxpdos = [],
     ei_dcs_cnt = 0, ei_dcs = replicate LEC_MAX_EEPROM_CAT_DC (replicate sizeof_cat_dc 0),
     es_sm_ch = 0, es_sm = [], es_fmmu_ch = 0, es_fmmu_type = []\<rparr>"

definition zero_slave :: ec_slave where
  "zero_slave = \<lparr>sl_slave = 0, sl_auto_inc_address = 0, sl_fixed_address = 0, sl_type = 0,
     sl_sm_ch = 0, sl_fmmu_ch = 0, sl_ram_size = 0, sl_features = 0, sl_pdi_ctrl = 0, sl_link_cnt = 0,
     sl_active_ports = 0, sl_ptype = 0, sl_pdelay = 0, sl_entry_port = 0, sl_parent = 0, sl_port_on_parent = 0,
     sl_sm_set_by_user = False, sl_sm = replicate LEC_MAX_SLAVE_SM \<lparr>sm_adr = 0, sm_len = 0, sm_flags = 0\<rparr>,
     sl_fmmu = replicate LEC_MAX_SLAVE_FMMU \<lparr>fm_log = 0, fm_log_len = 0, fm_log_bit_start = 0,
       fm_log_bit_stop = 0, fm_phys = 0, fm_phys_bit_start = 0, fm_type = 0, fm_active = 0, fm_reserved = [0, 0, 0]\<rparr>,
     sl_assigned_pd_group = 0, sl_pdin = \<lparr>pd_ptr = 0, pd_len = 0\<rparr>, sl_pdout = \<lparr>pd_ptr = 0, pd_len = 0\<rparr>,
     sl_subdev_cnt = 0, sl_subdevs = replicate LEC_MAX_DS402_SUBDEVS
       \<lparr>sd_pdin = \<lparr>pd_ptr = 0, pd_len = 0\<rparr>, sd_pdout = \<lparr>pd_ptr = 0, pd_len = 0\<rparr>\<rparr>,
     sl_sm_state_bitno = 0, sl_sm_state_null = True, sl_handler_running = False, sl_eeprom = zero_eeprom,
     sl_dc = \<lparr>ds_use_dc = False, ds_next = 0, ds_prev = 0, ds_available_ports = 0, ds_receive_times = [0, 0, 0, 0],
       ds_t_delay_childs = 0, ds_t_delay_with_childs = 0, ds_t_delay_slave = 0, ds_t_delay_parent_previous = 0,
       ds_activation_reg = 0, ds_cycle_time_0 = 0, ds_cycle_time_1 = 0, ds_cycle_shift = 0\<rparr>,
     sl_eoe = \<lparr>eo_use_eoe = False, eo_mac = replicate 6 0, eo_ip_address = replicate 4 0,
       eo_subnet = replicate 4 0, eo_gateway = replicate 4 0, eo_dns = replicate 4 0, eo_dns_name = replicate 128 0\<rparr>,
     sl_expected_state = 0, sl_act_state = 0, sl_mutex = False, sl_transition_active = False, sl_init_cmds = []\<rparr>"

section \<open>Finding the slaves\<close>

text \<open>The slave at position \<open>i\<close> with the type \<open>val\<close>.\<close>

definition found_slave :: "nat \<Rightarrow> u16 \<Rightarrow> u16 \<Rightarrow> ec_slave" where
  "found_slave i fixed val = zero_slave\<lparr>sl_slave := i, sl_assigned_pd_group := -1, sl_auto_inc_address := - of_nat i,
     sl_fixed_address := fixed, sl_dc := (sl_dc zero_slave)\<lparr>ds_use_dc := True\<rparr>, sl_sm_set_by_user := False,
     sl_subdev_cnt := 0, sl_eeprom := zero_eeprom\<lparr>ei_read_eeprom := False, ei_txpdos := [], ei_rxpdos := []\<rparr>,
     sl_type := val, sl_init_cmds := []\<rparr>"

text \<open>
  A round of the first loop: the local variables are the next fixed address, the working counter
  and the type; the flag says that the loop ends because no slave answered.
\<close>

definition scan_slave ::
  "('s, 'd) ops \<Rightarrow> nat \<Rightarrow> u16 \<times> u16 \<times> bytes \<times> ('s, 'd) master \<Rightarrow> bool \<times> u16 \<times> u16 \<times> bytes \<times> ('s, 'd) master" where
  "scan_slave o' i = (\<lambda>(fixed, wkc, val, m).
     (let b = o_bus o'; auto_inc = - of_nat i :: u16;
          (ret, val, wkc, s) = ec_aprd b auto_inc EC_REG_TYPE val wkc (m_bus m);
          m = m\<lparr>m_bus := s\<rparr>
      in if ret \<noteq> EC_OK then (False, fixed, wkc, val, m)
         else if wkc = 0 then (True, fixed, wkc, val, m)
         else (let m = slv_upd i (\<lambda>_. found_slave i fixed (u16_of val)) (m\<lparr>m_bus := o_mbx_clear o' i (m_bus m)\<rparr>);
                   (_, f, wkc, s) = ec_apwr b auto_inc EC_REG_STADR (le16 fixed) wkc (m_bus m);
                   fixed = u16_of f;
                   (_, s) = ec_eeprom_to_pdi b (fixed_addresses m) i 0 s;
                   (_, _, wkc, s) = ec_fpwr b fixed EC_REG_ALCTL (le16 (EC_STATE_INIT OR EC_STATE_RESET)) wkc s
               in (False, fixed + 1, wkc, val, m\<lparr>m_bus := s\<rparr>))))"

fun scan_slaves ::
  "('s, 'd) ops \<Rightarrow> nat list \<Rightarrow> u16 \<times> u16 \<times> bytes \<times> ('s, 'd) master \<Rightarrow> u16 \<times> u16 \<times> bytes \<times> ('s, 'd) master" where
  "scan_slaves o' [] st = st"
| "scan_slaves o' (i # is) st =
     (let (stop, st) = scan_slave o' i st in if stop then st else scan_slaves o' is st)"

section \<open>Links and parents\<close>

text \<open>A port whose loop is open and which has a communication established.\<close>

definition port_linked :: "u16 \<Rightarrow> nat \<Rightarrow> bool" where
  "port_linked dlstat port \<longleftrightarrow> drop_bit (8 + 2 * port) dlstat AND 0x03 = 0x02"

definition scan_ports :: "u16 \<Rightarrow> ec_slave \<Rightarrow> ec_slave" where
  "scan_ports dlstat s =
     fold (\<lambda>port s. if port_linked dlstat port
                    then s\<lparr>sl_link_cnt := sl_link_cnt s + 1,
                           sl_active_ports := sl_active_ports s OR push_bit port 1\<rparr> else s) [0..<4] s"

text \<open>
  The search for the slave that this one is connected to, from the slave before it to the first;
  \<open>topology\<close> counts the branches that are still open.
\<close>

definition link_topology :: "u8 \<Rightarrow> int \<Rightarrow> int" where
  "link_topology link_cnt topology =
     (if link_cnt = 1 then topology - 1 else if link_cnt = 3 then topology + 1
      else if link_cnt = 4 then topology + 2 else topology)"

fun search_parent :: "ec_slave list \<Rightarrow> int \<Rightarrow> nat \<Rightarrow> int" where
  "search_parent slaves topology 0 = -1"
| "search_parent slaves topology (Suc tmp) =
     (let link_cnt = sl_link_cnt (slaves ! tmp); topology = link_topology link_cnt topology
      in if topology \<ge> 0 \<and> link_cnt > 1 \<or> tmp = 0 then int tmp else search_parent slaves topology tmp)"

definition scan_link :: "('s, 'd) ops \<Rightarrow> nat \<Rightarrow> ('s, 'd) master \<Rightarrow> ('s, 'd) master" where
  "scan_link o' i m =
     (let m = slv_upd i (\<lambda>s. s\<lparr>sl_link_cnt := 0, sl_active_ports := 0, sl_handler_running := False\<rparr>) m;
          (ret, dlstat, _, m) = slv_fprd o' i EC_REG_DLSTAT (le16 0) 0 m
      in if ret \<noteq> EC_OK then m
         else (let m = slv_upd i (scan_ports (u16_of dlstat)) m;
                   m = slv_upd i (\<lambda>s. s\<lparr>sl_parent := search_parent (m_slaves m) 0 i, sl_ptype := 0\<rparr>) m;
                   (_, ptype, _, m) = slv_fprd o' i EC_REG_PORTDES (le16 0) 0 m
               in slv_upd i (\<lambda>s. s\<lparr>sl_ptype := u16_of ptype\<rparr>) m))"

section \<open>The scan\<close>

definition ec_scan :: "('s, 'd) ops \<Rightarrow> ('s, 'd) master \<Rightarrow> ('s, 'd) master option" where
  "ec_scan o' m =
     (let (_, _, wkc, s) = ec_bwr (o_bus o') EC_REG_ALCTL (le16 (EC_STATE_INIT OR EC_STATE_RESET)) 0 (m_bus m);
          m = fold (ec_slave_free o') [0..<m_slave_cnt m] (m\<lparr>m_bus := s\<rparr>);
          m = m\<lparr>m_slave_cnt := 0\<rparr>;
          (ret, val, wkc, s) = ec_brd (o_bus o') EC_REG_TYPE (le16 0) wkc (m_bus m);
          m = m\<lparr>m_bus := s\<rparr>
      in if ret \<noteq> EC_OK then Some m
         else if unat wkc \<ge> LEC_MAX_SLAVES then None
         else (let m = m\<lparr>m_slave_cnt := unat wkc\<rparr>;
                   (_, _, _, m) = scan_slaves o' [0..<unat wkc] (1000, wkc, val, m)
               in Some (fold (scan_link o') [0..<unat wkc] m)))"

end
