(* ===== verification/Scan_Correct.thy ===== *)
theory Scan_Correct
  imports Scan Dc_Correct
begin

text \<open>
  What \<^verbatim>\<open>ec_scan\<close> finds on a bus: each slave gets its own fixed address and the slave that
  it is really connected to.
\<close>

section \<open>The search for the parent\<close>

text \<open>
  A bus is a tree of slaves. A frame visits a slave before those behind it, one branch after the
  other: this order numbers the slaves. \<open>parents\<close> is the reference: the list of the slaves that
  the slaves of the tree are connected to, in this order, where the root has the number \<open>k\<close> and
  is connected to \<open>p\<close>.
\<close>

datatype net = Net "net list"

fun nodes :: "net \<Rightarrow> nat" and nodes_all :: "net list \<Rightarrow> nat" where
  "nodes (Net ts) = Suc (nodes_all ts)"
| "nodes_all [] = 0"
| "nodes_all (t # ts) = nodes t + nodes_all ts"

fun parents :: "int \<Rightarrow> nat \<Rightarrow> net \<Rightarrow> int list" and parents_all :: "int \<Rightarrow> nat \<Rightarrow> net list \<Rightarrow> int list" where
  "parents p k (Net ts) = p # parents_all (int k) (Suc k) ts"
| "parents_all p k [] = []"
| "parents_all p k (t # ts) = parents p k t @ parents_all p (k + nodes t) ts"

text \<open>
  \<open>placed L k t\<close>: the numbers of links \<open>L\<close> are those of the tree \<open>t\<close> whose root has the number
  \<open>k\<close>: a slave has a link to the one before it and at most three others.
\<close>

fun placed :: "(nat \<Rightarrow> nat) \<Rightarrow> nat \<Rightarrow> net \<Rightarrow> bool" and placed_all :: "(nat \<Rightarrow> nat) \<Rightarrow> nat \<Rightarrow> net list \<Rightarrow> bool" where
  "placed L k (Net ts) \<longleftrightarrow> L k = Suc (length ts) \<and> length ts \<le> 3 \<and> placed_all L (Suc k) ts"
| "placed_all L k [] \<longleftrightarrow> True"
| "placed_all L k (t # ts) \<longleftrightarrow> placed L k t \<and> placed_all L (k + nodes t) ts"

text \<open>The slaves from \<open>a\<close> to \<open>b\<close> have these numbers of links.\<close>

definition links_at :: "ec_slave list \<Rightarrow> (nat \<Rightarrow> nat) \<Rightarrow> nat \<Rightarrow> nat \<Rightarrow> bool" where
  "links_at slaves L a b \<longleftrightarrow> (\<forall>j. a \<le> j \<and> j < b \<longrightarrow> sl_link_cnt (slaves ! j) = of_nat (L j))"

lemma links_at_sub: "links_at slaves L a b \<Longrightarrow> a \<le> a' \<Longrightarrow> b' \<le> b \<Longrightarrow> links_at slaves L a' b'"
  by (auto simp: links_at_def)

lemma link_topology_children:
  assumes "c \<le> 3"
  shows "link_topology (of_nat (Suc c)) tau = tau + (int c - 1)" "(of_nat (Suc c) :: u8) > 1 \<longleftrightarrow> c > 0"
proof -
  have "c = 0 \<or> c = 1 \<or> c = 2 \<or> c = 3" using assms by linarith
  then show "link_topology (of_nat (Suc c)) tau = tau + (int c - 1)" "(of_nat (Suc c) :: u8) > 1 \<longleftrightarrow> c > 0"
    by (auto simp: link_topology_def)
qed

text \<open>A complete branch closes one of the open branches; the search goes on before it.\<close>

lemma search_skip:
  shows "placed L k t \<Longrightarrow> links_at slaves L k (k + nodes t) \<Longrightarrow> 0 < k \<Longrightarrow> tau \<le> 0 \<Longrightarrow>
      search_parent slaves tau (k + nodes t) = search_parent slaves (tau - 1) k"
    and "placed_all L k ts \<Longrightarrow> links_at slaves L k (k + nodes_all ts) \<Longrightarrow> 0 < k \<Longrightarrow> tau \<le> 0 \<Longrightarrow>
      search_parent slaves tau (k + nodes_all ts) = search_parent slaves (tau - int (length ts)) k"
proof (induction t and ts arbitrary: k tau and k tau rule: nodes_nodes_all.induct)
  case (1 ts)
  have "search_parent slaves tau (Suc k + nodes_all ts) = search_parent slaves (tau - int (length ts)) (Suc k)"
    using 1 by (intro "1.IH") (auto intro: links_at_sub)
  moreover have "sl_link_cnt (slaves ! k) = of_nat (Suc (length ts))" "length ts \<le> 3"
    using 1(2,3) by (auto simp: links_at_def)
  ultimately show ?case
    using 1(4,5) link_topology_children[of "length ts"] by (simp add: Let_def)
next
  case (3 t ts)
  have "search_parent slaves tau (k + nodes t + nodes_all ts)
      = search_parent slaves (tau - int (length ts)) (k + nodes t)"
    using "3.prems" by (intro "3.IH"(2)) (auto intro: links_at_sub)
  also have "\<dots> = search_parent slaves (tau - int (length ts) - 1) k"
    using "3.prems" by (intro "3.IH"(1)) (auto intro: links_at_sub)
  finally show ?case by (simp add: algebra_simps)
qed simp

lemma search_finds_parent:
  shows "placed L k t \<Longrightarrow> links_at slaves L k (k + nodes t) \<Longrightarrow> search_parent slaves 0 k = p \<Longrightarrow>
      map (search_parent slaves 0) [k..<k + nodes t] = parents p k t"
    and "placed_all L k ts \<Longrightarrow> links_at slaves L q (k + nodes_all ts) \<Longrightarrow> q < k \<Longrightarrow>
      L q = Suc (j + length ts) \<Longrightarrow> j + length ts \<le> 3 \<Longrightarrow>
      (\<And>tau. tau \<le> 0 \<Longrightarrow> search_parent slaves tau k = search_parent slaves (tau - int j) (Suc q)) \<Longrightarrow>
      map (search_parent slaves 0) [k..<k + nodes_all ts] = parents_all (int q) k ts"
proof (induction t and ts arbitrary: k p and k j q rule: nodes_nodes_all.induct)
  case (1 ts)
  have "map (search_parent slaves 0) [Suc k..<Suc k + nodes_all ts] = parents_all (int k) (Suc k) ts"
    using 1(2,3) by (intro "1.IH"[where j = 0]) auto
  then show ?case using 1(4) by (simp add: upt_rec)
next
  case (3 t ts)
  have "sl_link_cnt (slaves ! q) = of_nat (Suc (Suc (j + length ts)))"
    using "3.prems"(2-4) by (simp add: links_at_def)
  then have "search_parent slaves (- int j) (Suc q) = int q"
    using link_topology_children[of "Suc (j + length ts)"] "3.prems"(5) by (simp add: Let_def)
  then have "search_parent slaves 0 k = int q" using "3.prems"(6)[of 0] by simp
  then have "map (search_parent slaves 0) [k..<k + nodes t] = parents (int q) k t"
    using "3.prems"(1-3) by (intro "3.IH"(1)) (auto intro: links_at_sub)
  moreover have "map (search_parent slaves 0) [k + nodes t..<k + nodes t + nodes_all ts] = parents_all (int q) (k + nodes t) ts"
  proof (rule "3.IH"(2)[where j = "Suc j"])
    show "search_parent slaves tau (k + nodes t) = search_parent slaves (tau - int (Suc j)) (Suc q)" if "tau \<le> 0" for tau
    proof -
      have "search_parent slaves tau (k + nodes t) = search_parent slaves (tau - 1) k"
        using "3.prems"(1-3) that by (intro search_skip(1)) (auto intro: links_at_sub)
      then show ?thesis using "3.prems"(6)[of "tau - 1"] that by (simp add: algebra_simps)
    qed
  qed (use "3.prems" in \<open>auto simp: add.assoc\<close>)
  moreover have "[k..<k + nodes_all (t # ts)] = [k..<k + nodes t] @ [k + nodes t..<k + nodes t + nodes_all ts]"
    using upt_add_eq_append[of k "k + nodes t" "nodes_all ts"] by (simp add: add.assoc)
  ultimately show ?case by simp
qed simp

section \<open>A bus of slaves\<close>

text \<open>
  What the slaves do. The register of slave \<open>i\<close> for its fixed address holds \<open>adr s i\<close>; it is
  written with the position of the slave, and no other command changes it. A broadcast counts the
  slaves, a slave whose fixed address is unique answers to it.
\<close>

definition scannable ::
  "('s, 'd) ops \<Rightarrow> ('s \<Rightarrow> nat \<Rightarrow> u16) \<Rightarrow> nat \<Rightarrow> (nat \<Rightarrow> u16) \<Rightarrow> (nat \<Rightarrow> u16) \<Rightarrow> bool" where
  "scannable o' adr n typ dl \<longleftrightarrow>
     (\<forall>c a d w s r d' w' s'. b_xcv (o_bus o') c a d w s = (r, d', w', s') \<longrightarrow> c \<noteq> EC_CMD_APWR \<longrightarrow> adr s' = adr s) \<and>
     (\<forall>i p s. adr (o_mbx_clear o' i s) = adr s \<and> adr (o_mbx_deinit o' i p s) = adr s) \<and>
     (\<forall>d w s. \<exists>d' s'. ec_brd (o_bus o') EC_REG_TYPE d w s = (EC_OK, d', of_nat n, s')) \<and>
     (\<forall>i<n. \<forall>d w s. \<exists>w' s'. ec_aprd (o_bus o') (- of_nat i) EC_REG_TYPE d w s = (EC_OK, le16 (typ i), w', s') \<and> w' \<noteq> 0) \<and>
     (\<forall>i<n. \<forall>x w s. \<exists>w' s'. ec_apwr (o_bus o') (- of_nat i) EC_REG_STADR (le16 x) w s = (EC_OK, le16 x, w', s') \<and>
        adr s' = (adr s)(i := x)) \<and>
     (\<forall>i<n. \<forall>d w s. (\<forall>j<n. j \<noteq> i \<longrightarrow> adr s j \<noteq> adr s i) \<longrightarrow>
        (\<exists>w' s'. ec_fprd (o_bus o') (adr s i) EC_REG_DLSTAT d w s = (EC_OK, le16 (dl i), w', s')))"

lemma scannableD:
  assumes "scannable o' adr n typ dl"
  shows "b_xcv (o_bus o') c a d w s = (r, d', w', s') \<Longrightarrow> c \<noteq> EC_CMD_APWR \<Longrightarrow> adr s' = adr s"
    "adr (o_mbx_clear o' i s) = adr s" "adr (o_mbx_deinit o' i p s) = adr s"
    "\<exists>d' s'. ec_brd (o_bus o') EC_REG_TYPE d w s = (EC_OK, d', of_nat n, s')"
    "i < n \<Longrightarrow> \<exists>w' s'. ec_aprd (o_bus o') (- of_nat i) EC_REG_TYPE d w s = (EC_OK, le16 (typ i), w', s') \<and> w' \<noteq> 0"
    "i < n \<Longrightarrow> \<exists>w' s'. ec_apwr (o_bus o') (- of_nat i) EC_REG_STADR (le16 x) w s = (EC_OK, le16 x, w', s') \<and>
       adr s' = (adr s)(i := x)"
    "i < n \<Longrightarrow> (\<And>j. j < n \<Longrightarrow> j \<noteq> i \<Longrightarrow> adr s j \<noteq> adr s i) \<Longrightarrow>
       \<exists>w' s'. ec_fprd (o_bus o') (adr s i) EC_REG_DLSTAT d w s = (EC_OK, le16 (dl i), w', s')"
proof -
  note S = assms[unfolded scannable_def]
  note T = S[THEN conjunct2] note U = T[THEN conjunct2] note V = U[THEN conjunct2] note W = V[THEN conjunct2]
  show "b_xcv (o_bus o') c a d w s = (r, d', w', s') \<Longrightarrow> c \<noteq> EC_CMD_APWR \<Longrightarrow> adr s' = adr s"
    by (rule S[THEN conjunct1, rule_format])
  show "adr (o_mbx_clear o' i s) = adr s" "adr (o_mbx_deinit o' i p s) = adr s"
    using T[THEN conjunct1] by (simp_all only: simp_thms)
  show "\<exists>d' s'. ec_brd (o_bus o') EC_REG_TYPE d w s = (EC_OK, d', of_nat n, s')"
    by (rule U[THEN conjunct1, rule_format])
  show "i < n \<Longrightarrow> \<exists>w' s'. ec_aprd (o_bus o') (- of_nat i) EC_REG_TYPE d w s = (EC_OK, le16 (typ i), w', s') \<and> w' \<noteq> 0"
    by (rule V[THEN conjunct1, rule_format])
  show "i < n \<Longrightarrow> \<exists>w' s'. ec_apwr (o_bus o') (- of_nat i) EC_REG_STADR (le16 x) w s = (EC_OK, le16 x, w', s') \<and>
       adr s' = (adr s)(i := x)" by (rule W[THEN conjunct1, rule_format])
  show "i < n \<Longrightarrow> (\<And>j. j < n \<Longrightarrow> j \<noteq> i \<Longrightarrow> adr s j \<noteq> adr s i) \<Longrightarrow>
       \<exists>w' s'. ec_fprd (o_bus o') (adr s i) EC_REG_DLSTAT d w s = (EC_OK, le16 (dl i), w', s')"
    by (rule W[THEN conjunct2, rule_format])
qed

lemma access_adr:
  assumes "scannable o' adr n typ dl"
  shows "ec_fprd (o_bus o') p ado d w s = (r, d', w', s') \<Longrightarrow> adr s' = adr s"
    "ec_fpwr (o_bus o') p ado d w s = (r, d', w', s') \<Longrightarrow> adr s' = adr s"
    "ec_aprd (o_bus o') p ado d w s = (r, d', w', s') \<Longrightarrow> adr s' = adr s"
    "ec_brd (o_bus o') ado d w s = (r, d', w', s') \<Longrightarrow> adr s' = adr s"
    "ec_bwr (o_bus o') ado d w s = (r, d', w', s') \<Longrightarrow> adr s' = adr s"
  unfolding access_defs by (rule scannableD(1)[OF assms], assumption, simp)+

lemma sii_reg_adr:
  assumes "\<And>v w s r v' w' s'. acc v w s = (r, v', w', s') \<Longrightarrow> adr s' = adr s"
    and "sii_reg acc n v w s = (r, cnt, v', w', s')"
  shows "adr s' = adr s"
  using assms(2)
proof (induction n arbitrary: v w s)
  case (Suc n)
  obtain r1 v1 w1 s1 where 1: "acc v w s = (r1, v1, w1, s1)" by (metis prod_cases4)
  then show ?case using Suc assms(1)[OF 1] by (auto split: if_splits)
qed simp

lemma to_pdi_adr:
  assumes "scannable o' adr n typ dl"
  shows "adr (snd (ec_eeprom_to_pdi (o_bus o') slaves i w s)) = adr s"
proof -
  obtain r c v w' s' where 1: "sii_reg (ec_fpwr (o_bus o') (slaves ! i) EC_REG_EEPCFG) 100 [1] w s = (r, c, v, w', s')"
    by (metis prod_cases5)
  have "adr s' = adr s" by (rule sii_reg_adr[OF _ 1]) (rule access_adr(2)[OF assms])
  then show ?thesis using 1 by (simp add: ec_eeprom_to_pdi_def)
qed

section \<open>The first loop\<close>

definition fixed_of :: "nat \<Rightarrow> u16" where
  "fixed_of i = 1000 + of_nat i"

text \<open>The first \<open>k\<close> slaves are entered, with their fixed addresses.\<close>

definition scanned ::
  "('s \<Rightarrow> nat \<Rightarrow> u16) \<Rightarrow> (nat \<Rightarrow> u16) \<Rightarrow> nat \<Rightarrow> nat \<Rightarrow> nat \<Rightarrow> u16 \<times> u16 \<times> bytes \<times> ('s, 'd) master \<Rightarrow> bool" where
  "scanned adr typ n len k = (\<lambda>(fixed, w, val, m). fixed = fixed_of k \<and> m_slave_cnt m = n \<and> length (m_slaves m) = len \<and>
     (\<forall>i<k. slv m i = found_slave i (fixed_of i) (typ i) \<and> adr (m_bus m) i = fixed_of i))"

lemma scan_slave_step:
  assumes "scannable o' adr n typ dl" "k < n" "n \<le> len" "scanned adr typ n len k st"
  shows "\<exists>st'. scan_slave o' k st = (False, st') \<and> scanned adr typ n len (Suc k) st'"
proof -
  obtain fixed w val m where st: "st = (fixed, w, val, m)" by (metis prod_cases4)
  have I: "fixed = fixed_of k" "m_slave_cnt m = n" "length (m_slaves m) = len"
    "\<And>i. i < k \<Longrightarrow> slv m i = found_slave i (fixed_of i) (typ i)" "\<And>i. i < k \<Longrightarrow> adr (m_bus m) i = fixed_of i"
    using assms(4) by (simp_all add: scanned_def st)
  obtain w1 s1 where 1: "ec_aprd (o_bus o') (- of_nat k) EC_REG_TYPE val w (m_bus m) = (EC_OK, le16 (typ k), w1, s1)" "w1 \<noteq> 0"
    using scannableD(5)[OF assms(1,2)] by blast
  have a1: "adr s1 = adr (m_bus m)" by (rule access_adr(3)[OF assms(1) 1(1)])
  define m2 where "m2 = slv_upd k (\<lambda>_. found_slave k fixed (typ k)) (m\<lparr>m_bus := s1, m_bus := o_mbx_clear o' k (m_bus (m\<lparr>m_bus := s1\<rparr>))\<rparr>)"
  obtain w3 s3 where 3: "ec_apwr (o_bus o') (- of_nat k) EC_REG_STADR (le16 fixed) w1 (m_bus m2) = (EC_OK, le16 fixed, w3, s3)"
    "adr s3 = (adr (m_bus m2))(k := fixed)" using scannableD(6)[OF assms(1,2)] by blast
  obtain r4 s4 where 4: "ec_eeprom_to_pdi (o_bus o') (fixed_addresses m2) k 0 s3 = (r4, s4)"
    by (cases "ec_eeprom_to_pdi (o_bus o') (fixed_addresses m2) k 0 s3")
  have a4: "adr s4 = adr s3" using to_pdi_adr[OF assms(1), of "fixed_addresses m2" k 0 s3] by (simp add: 4)
  obtain r5 d5 w5 s5 where 5: "ec_fpwr (o_bus o') fixed EC_REG_ALCTL (le16 (EC_STATE_INIT OR EC_STATE_RESET)) w3 s4 = (r5, d5, w5, s5)"
    by (metis prod_cases4)
  have a5: "adr s5 = adr s4" by (rule access_adr(2)[OF assms(1) 5])
  have "scan_slave o' k st = (False, fixed + 1, w5, le16 (typ k), m2\<lparr>m_bus := s5\<rparr>)"
    unfolding scan_slave_def st Let_def
    by (simp only: prod.case 1 if_False simp_thms uint_of_le m2_def[symmetric] 3 4 5)
  moreover have "scanned adr typ n len (Suc k) (fixed + 1, w5, le16 (typ k), m2\<lparr>m_bus := s5\<rparr>)"
  proof -
    have "adr s5 = (adr (m_bus m))(k := fixed)"
      using a5 a4 3(2) a1 scannableD(2)[OF assms(1)] by (simp add: m2_def)
    moreover have "slv m2 i = found_slave i (fixed_of i) (typ i)" if "i < Suc k" for i
      using that I assms(2,3) by (cases "i = k") (simp_all add: m2_def)
    ultimately show ?thesis using I by (simp add: scanned_def fixed_of_def m2_def less_Suc_eq)
  qed
  ultimately show ?thesis by blast
qed

lemma scan_slaves_all:
  assumes "scannable o' adr n typ dl" "n \<le> len" "scanned adr typ n len k st" "k \<le> n"
  shows "scanned adr typ n len n (scan_slaves o' [k..<n] st)"
  using assms(3,4)
proof (induction "n - k" arbitrary: k st)
  case (Suc d)
  then have k: "k < n" "[k..<n] = k # [Suc k..<n]" by (simp_all add: upt_rec)
  obtain st' where "scan_slave o' k st = (False, st')" "scanned adr typ n len (Suc k) st'"
    using scan_slave_step[OF assms(1) k(1) assms(2) Suc.prems(1)] by blast
  then show ?case using Suc.hyps(1)[of "Suc k" st'] Suc.hyps(2) k by simp
qed simp

section \<open>The second loop\<close>

definition link_count :: "u16 \<Rightarrow> nat" where
  "link_count dlstat = length (filter (port_linked dlstat) [0..<4])"

lemma scan_ports_fields:
  "sl_link_cnt (scan_ports d s) = sl_link_cnt s + of_nat (link_count d)"
  "sl_fixed_address (scan_ports d s) = sl_fixed_address s" "sl_type (scan_ports d s) = sl_type s"
proof -
  have ports: "[0..<4] = [0, 1, 2, 3 :: nat]" by (simp add: upt_rec)
  show "sl_link_cnt (scan_ports d s) = sl_link_cnt s + of_nat (link_count d)"
    "sl_fixed_address (scan_ports d s) = sl_fixed_address s" "sl_type (scan_ports d s) = sl_type s"
    by (simp_all add: scan_ports_def link_count_def ports)
qed

lemma search_parent_cong:
  "(\<And>j. j < k \<Longrightarrow> sl_link_cnt (as ! j) = sl_link_cnt (bs ! j)) \<Longrightarrow> search_parent as tau k = search_parent bs tau k"
  by (induction k arbitrary: tau) (simp_all add: Let_def)

text \<open>The links of the first \<open>k\<close> slaves are known, and their parents.\<close>

definition linked ::
  "('s \<Rightarrow> nat \<Rightarrow> u16) \<Rightarrow> (nat \<Rightarrow> u16) \<Rightarrow> (nat \<Rightarrow> u16) \<Rightarrow> nat \<Rightarrow> net \<Rightarrow> nat \<Rightarrow> ('s, 'd) master \<Rightarrow> bool" where
  "linked adr typ dl len t k m \<longleftrightarrow> m_slave_cnt m = nodes t \<and> length (m_slaves m) = len \<and>
     (\<forall>i<nodes t. adr (m_bus m) i = fixed_of i \<and> sl_fixed_address (slv m i) = fixed_of i \<and> sl_type (slv m i) = typ i) \<and>
     (\<forall>i<k. sl_link_cnt (slv m i) = of_nat (link_count (dl i)) \<and> sl_parent (slv m i) = parents (-1) 0 t ! i)"

lemma fixed_of_inj: "i < LEC_MAX_SLAVES \<Longrightarrow> j < LEC_MAX_SLAVES \<Longrightarrow> fixed_of i = fixed_of j \<Longrightarrow> i = j"
  by (simp add: fixed_of_def word_of_nat_eq_iff take_bit_nat_eq_self)

lemma tree_parent:
  assumes "placed L 0 t" "k < nodes t" "\<And>j. j < k \<Longrightarrow> sl_link_cnt (slaves ! j) = of_nat (L j)"
  shows "search_parent slaves 0 k = parents (-1) 0 t ! k"
proof -
  let ?ideal = "map (\<lambda>j. zero_slave\<lparr>sl_link_cnt := of_nat (L j)\<rparr>) [0..<nodes t]"
  have "map (search_parent ?ideal 0) [0..<0 + nodes t] = parents (-1) 0 t"
    by (rule search_finds_parent(1)[OF assms(1)]) (simp_all add: links_at_def del: upt_Suc)
  then have "search_parent ?ideal 0 k = parents (-1) 0 t ! k"
    using assms(2) nth_map[of k "[0..<nodes t]" "search_parent ?ideal 0"] by (simp only: add_0 length_upt diff_zero nth_upt)
  moreover have "search_parent slaves 0 k = search_parent ?ideal 0 k"
    using assms(2,3) by (intro search_parent_cong) simp
  ultimately show ?thesis by simp
qed

lemma scan_link_step:
  assumes "scannable o' adr (nodes t) typ dl" "k < nodes t" "nodes t \<le> len" "nodes t \<le> LEC_MAX_SLAVES"
    and "placed (\<lambda>i. link_count (dl i)) 0 t" "linked adr typ dl len t k m"
  shows "linked adr typ dl len t (Suc k) (scan_link o' k m)"
proof -
  have I: "m_slave_cnt m = nodes t" "length (m_slaves m) = len"
    "\<And>i. i < nodes t \<Longrightarrow> adr (m_bus m) i = fixed_of i \<and> sl_fixed_address (slv m i) = fixed_of i \<and> sl_type (slv m i) = typ i"
    "\<And>i. i < k \<Longrightarrow> sl_link_cnt (slv m i) = of_nat (link_count (dl i)) \<and> sl_parent (slv m i) = parents (-1) 0 t ! i"
    using assms(6) by (auto simp: linked_def)
  have k: "k < length (m_slaves m)" "k < nodes t" using assms(2,3) I(2) by simp_all
  define m1 where "m1 = slv_upd k (\<lambda>s. s\<lparr>sl_link_cnt := 0, sl_active_ports := 0, sl_handler_running := False\<rparr>) m"
  have "adr (m_bus m1) j \<noteq> adr (m_bus m1) k" if "j < nodes t" "j \<noteq> k" for j
    using that I(3)[of j] I(3)[of k] assms(2,4) fixed_of_inj[of j k] by (auto simp: m1_def)
  then obtain w2 s2 where "ec_fprd (o_bus o') (adr (m_bus m1) k) EC_REG_DLSTAT (le16 0) 0 (m_bus m1) = (EC_OK, le16 (dl k), w2, s2)"
    using scannableD(7)[OF assms(1,2), of "m_bus m1" "le16 0" 0] by blast
  moreover have "adr (m_bus m1) k = sl_fixed_address (slv m1 k)" using I(3) k by (simp add: m1_def)
  ultimately have f2: "ec_fprd (o_bus o') (sl_fixed_address (slv m1 k)) EC_REG_DLSTAT (le16 0) 0 (m_bus m1) = (EC_OK, le16 (dl k), w2, s2)"
    by simp
  then have 2: "slv_fprd o' k EC_REG_DLSTAT (le16 0) 0 m1 = (EC_OK, le16 (dl k), w2, m1\<lparr>m_bus := s2\<rparr>)"
    by (simp only: slv_fprd_def prod.case Let_def)
  define m3 where "m3 = slv_upd k (scan_ports (dl k)) (m1\<lparr>m_bus := s2\<rparr>)"
  define m4 where "m4 = slv_upd k (\<lambda>s. s\<lparr>sl_parent := search_parent (m_slaves m3) 0 k, sl_ptype := 0\<rparr>) m3"
  obtain r5 d5 w5 s5 where f5: "ec_fprd (o_bus o') (sl_fixed_address (slv m4 k)) EC_REG_PORTDES (le16 0) 0 (m_bus m4) = (r5, d5, w5, s5)"
    by (metis prod_cases4)
  then have 5: "slv_fprd o' k EC_REG_PORTDES (le16 0) 0 m4 = (r5, d5, w5, m4\<lparr>m_bus := s5\<rparr>)"
    by (simp only: slv_fprd_def prod.case Let_def)
  have m': "scan_link o' k m = slv_upd k (\<lambda>s. s\<lparr>sl_ptype := u16_of d5\<rparr>) (m4\<lparr>m_bus := s5\<rparr>)"
    unfolding scan_link_def Let_def m1_def[symmetric]
    by (simp only: 2 prod.case simp_thms if_False uint_of_le m3_def[symmetric] m4_def[symmetric] 5)
  have a: "adr s5 = adr (m_bus m)"
    using access_adr(1)[OF assms(1) f2] access_adr(1)[OF assms(1) f5] by (simp add: m4_def m3_def m1_def)
  have "search_parent (m_slaves m3) 0 k = parents (-1) 0 t ! k"
    using I(4) k by (intro tree_parent[OF assms(5)]) (simp_all add: m3_def m1_def slv_def[symmetric])
  moreover have "slv (scan_link o' k m) i = slv m i" if "i \<noteq> k" for i
    using that by (simp add: m' m4_def m3_def m1_def)
  moreover have "sl_fixed_address (slv (scan_link o' k m) k) = fixed_of k" "sl_type (slv (scan_link o' k m) k) = typ k"
    "sl_link_cnt (slv (scan_link o' k m) k) = of_nat (link_count (dl k))"
    "sl_parent (slv (scan_link o' k m) k) = search_parent (m_slaves m3) 0 k"
    using I(3)[OF k(2)] k(1) by (simp_all add: m' m4_def scan_ports_fields) (simp_all add: m3_def m1_def scan_ports_fields)
  moreover have "m_slave_cnt (scan_link o' k m) = nodes t" "length (m_slaves (scan_link o' k m)) = len"
    "adr (m_bus (scan_link o' k m)) = adr (m_bus m)"
    using I(1,2) a by (simp_all add: m' m4_def m3_def m1_def)
  ultimately show ?thesis
    unfolding linked_def using I(3,4) by (metis less_antisym)
qed

lemma frees_keep:
  assumes "scannable o' adr n typ dl"
  shows "adr (m_bus (fold (ec_slave_free o') ks m)) = adr (m_bus m) \<and>
     length (m_slaves (fold (ec_slave_free o') ks m)) = length (m_slaves m)"
  by (induction ks arbitrary: m) (simp_all add: ec_slave_free_def mbx_deinit_def scannableD(3)[OF assms])

text \<open>
  C3: On a bus whose slaves form the tree \<open>t\<close>, the scan finds every slave, gives each a fixed
  address of its own, programs it, and connects each slave to the one it is connected to in the
  tree.
\<close>

theorem scan_finds_topology:
  assumes "scannable o' adr (nodes t) typ dl" "nodes t < LEC_MAX_SLAVES" "nodes t \<le> length (m_slaves m)"
    and "placed (\<lambda>i. link_count (dl i)) 0 t"
  shows "\<exists>m'. ec_scan o' m = Some m' \<and> m_slave_cnt m' = nodes t \<and>
     (\<forall>i<nodes t. adr (m_bus m') i = fixed_of i \<and> sl_fixed_address (slv m' i) = fixed_of i \<and>
        sl_type (slv m' i) = typ i \<and> sl_parent (slv m' i) = parents (-1) 0 t ! i)"
proof -
  let ?n = "nodes t" and ?b = "o_bus o'"
  have n: "unat (of_nat ?n :: u16) = ?n" using assms(2) by (simp add: unat_of_nat)
  obtain r1 d1 w1 s1 where 1: "ec_bwr ?b EC_REG_ALCTL (le16 (EC_STATE_INIT OR EC_STATE_RESET)) 0 (m_bus m) = (r1, d1, w1, s1)"
    by (metis prod_cases4)
  define m2 where "m2 = (fold (ec_slave_free o') [0..<m_slave_cnt m] (m\<lparr>m_bus := s1\<rparr>))\<lparr>m_slave_cnt := 0\<rparr>"
  obtain d3 s3 where 3: "ec_brd ?b EC_REG_TYPE (le16 0) w1 (m_bus m2) = (EC_OK, d3, of_nat ?n, s3)"
    using scannableD(4)[OF assms(1)] by blast
  define m4 where "m4 = m2\<lparr>m_bus := s3, m_slave_cnt := unat (of_nat ?n :: u16)\<rparr>"
  have len: "length (m_slaves m4) = length (m_slaves m)"
    using frees_keep[OF assms(1)] by (simp add: m4_def m2_def)
  have "scanned adr typ ?n (length (m_slaves m)) 0 (1000, of_nat ?n, d3, m4)"
    using len n by (simp add: scanned_def m4_def fixed_of_def)
  then have "scanned adr typ ?n (length (m_slaves m)) ?n (scan_slaves o' [0..<?n] (1000, of_nat ?n, d3, m4))"
    by (intro scan_slaves_all[OF assms(1,3)]) simp_all
  moreover obtain f5 w5 v5 m5 where 5: "scan_slaves o' [0..<?n] (1000, of_nat ?n, d3, m4) = (f5, w5, v5, m5)"
    by (metis prod_cases4)
  ultimately have "linked adr typ dl (length (m_slaves m)) t 0 m5"
    by (simp add: scanned_def linked_def found_slave_def)
  then have "linked adr typ dl (length (m_slaves m)) t k (fold (scan_link o') [0..<k] m5)" if "k \<le> ?n" for k
    using that
  proof (induction k)
    case (Suc k)
    have "linked adr typ dl (length (m_slaves m)) t (Suc k) (scan_link o' k (fold (scan_link o') [0..<k] m5))"
      by (rule scan_link_step[OF assms(1) _ assms(3) _ assms(4)]) (use Suc assms(2) in simp_all)
    then show ?case by simp
  qed simp
  from this[of ?n] have "linked adr typ dl (length (m_slaves m)) t ?n (fold (scan_link o') [0..<?n] m5)" by simp
  moreover have "ec_scan o' m = Some (fold (scan_link o') [0..<?n] m5)"
  proof -
    have "\<not> ?n \<ge> LEC_MAX_SLAVES" using assms(2) by simp
    then show ?thesis
      unfolding ec_scan_def Let_def
      by (simp only: 1 prod.case m2_def[symmetric] 3 simp_thms if_False n m4_def[unfolded n, symmetric] 5 cong: if_cong)
  qed
  ultimately show ?thesis by (auto simp: linked_def)
qed

text \<open>Four slaves: behind the first there are a chain of two and a single one.\<close>

definition demo_net :: net where
  "demo_net = Net [Net [Net []], Net []]"

definition demo_dl :: "nat \<Rightarrow> u16" where
  "demo_dl i = [0x2A00, 0x0A00, 0x0200, 0x0200] ! i"

definition net_bus :: "(nat \<Rightarrow> u16) bus" where
  "net_bus = \<lparr>b_xcv = (\<lambda>c a d w s. let p = ucast a :: u16 in
       if c = EC_CMD_BRD then (EC_OK, d, 4, s)
       else if c = EC_CMD_APRD then (EC_OK, le16 0x11, 1, s)
       else if c = EC_CMD_APWR then (EC_OK, d, 1, s(unat (- p) := u16_of d))
       else if c = EC_CMD_FPRD then (case List.find (\<lambda>i. s i = p) [0..<4] of
              Some i \<Rightarrow> (EC_OK, le16 (demo_dl i), 1, s) | None \<Rightarrow> (EC_OK, d, 0, s))
       else (EC_OK, d, 1, s)),
     b_timer_init = (\<lambda>ns s. (0, s)), b_timer_expired = (\<lambda>to s. (True, s)), b_sleep = (\<lambda>ns s. s)\<rparr>"

lemma reg_adr_position: "ucast (reg_adr p r) = p"
proof -
  have m: "(0xFFFF :: u32) = mask 16" by (simp add: mask_eq_exp_minus_1)
  show ?thesis by (rule bit_word_eqI) (auto simp: reg_adr_def m bit_simps)
qed

lemma demo_scannable: "scannable (demo_ops net_bus 1) id 4 (\<lambda>_. 0x11) demo_dl"
proof -
  have f: "List.find (\<lambda>j. s j = s i) [0..<4] = Some i"
    if "i < 4" "\<forall>j<4. j \<noteq> i \<longrightarrow> s j \<noteq> s i" for s :: "nat \<Rightarrow> u16" and i
    unfolding find_Some_iff using that by (intro exI[of _ i]) auto
  have p: "unat (of_nat i :: u16) = i" if "i < 4" for i using that by (simp add: unat_of_nat)
  show ?thesis
    unfolding scannable_def access_defs
    by (auto simp: demo_ops_def net_bus_def Let_def reg_adr_position f p split: if_splits option.splits)
qed

lemma demo_placed: "placed (\<lambda>i. link_count (demo_dl i)) 0 demo_net"
proof -
  have ports: "[0..<4] = [0, 1, 2, 3 :: nat]" by (simp add: upt_rec)
  have "link_count 0x2A00 = 3" "link_count 0x0A00 = 2" "link_count 0x0200 = 1"
    unfolding link_count_def ports port_linked_def by (simp_all add: drop_bit_eq_div)
  then show ?thesis by (simp add: demo_net_def demo_dl_def)
qed

theorem scan_finds_topology_witness:
  "\<exists>m'. ec_scan (demo_ops net_bus 1) (demo_master (replicate 4 zero_slave) (\<lambda>_. 0)) = Some m' \<and> m_slave_cnt m' = 4 \<and>
     map (\<lambda>i. sl_parent (slv m' i)) [0..<4] = [-1, 0, 1, 0]"
proof -
  have n: "nodes demo_net = 4" "parents (-1) 0 demo_net = [-1, 0, 1, 0]" by (simp_all add: demo_net_def)
  have l: "length (m_slaves (demo_master (replicate 4 zero_slave) (\<lambda>_ :: nat. 0 :: u16))) = 4" by (simp add: demo_master_def)
  obtain m' where "ec_scan (demo_ops net_bus 1) (demo_master (replicate 4 zero_slave) (\<lambda>_. 0)) = Some m'"
      "m_slave_cnt m' = 4" "\<forall>i<4. sl_parent (slv m' i) = [-1, 0, 1, 0] ! i"
    using scan_finds_topology[of "demo_ops net_bus 1" id demo_net "\<lambda>_. 0x11" demo_dl
        "demo_master (replicate 4 zero_slave) (\<lambda>_. 0)"] demo_scannable demo_placed
    unfolding n l by auto
  moreover have "[0..<4] = [0, 1, 2, 3 :: nat]" by (simp add: upt_rec)
  ultimately show ?thesis by auto
qed

section \<open>A slave that does not answer\<close>

text \<open>The fields of the slaves from \<open>k\<close> on that identify them are those of \<open>m\<close>.\<close>

definition same_from :: "nat \<Rightarrow> ('s, 'd) master \<Rightarrow> ('s, 'd) master \<Rightarrow> bool" where
  "same_from k m m' \<longleftrightarrow> length (m_slaves m') = length (m_slaves m) \<and>
     (\<forall>i\<ge>k. i < length (m_slaves m) \<longrightarrow> sl_fixed_address (slv m' i) = sl_fixed_address (slv m i) \<and>
        sl_auto_inc_address (slv m' i) = sl_auto_inc_address (slv m i))"

lemma same_from_trans: "same_from k a b \<Longrightarrow> same_from k b c \<Longrightarrow> same_from k a c"
  by (auto simp: same_from_def)

lemma same_from_upd:
  assumes "\<And>s. sl_fixed_address (f s) = sl_fixed_address s \<and> sl_auto_inc_address (f s) = sl_auto_inc_address s"
  shows "same_from k m (slv_upd i f m)"
proof -
  have "sl_fixed_address (slv (slv_upd i f m) j) = sl_fixed_address (slv m j) \<and>
      sl_auto_inc_address (slv (slv_upd i f m) j) = sl_auto_inc_address (slv m j)" if "j < length (m_slaves m)" for j
    using assms that by (cases "j = i") simp_all
  then show ?thesis by (simp add: same_from_def)
qed

lemma same_from_refl [simp]: "same_from k m m"
  by (simp add: same_from_def)

lemma same_from_bus: "bus_only m m' \<Longrightarrow> same_from k m m'"
  by (simp add: same_from_def access_simps)

lemma frees_same: "same_from k m (fold (ec_slave_free o') is m)"
proof (induction "is" arbitrary: m)
  case (Cons i "is")
  have "same_from k m (slv_upd i (\<lambda>s. s\<lparr>sl_handler_running := False\<rparr>) m)" by (rule same_from_upd) simp
  then have "same_from k m (mbx_deinit o' i m)"
    by (simp add: mbx_deinit_def same_from_trans[OF _ same_from_bus[OF bus_only_upd]])
  moreover have "same_from k (mbx_deinit o' i m) (ec_slave_free o' i m)"
    unfolding ec_slave_free_def by (rule same_from_upd) simp
  ultimately have "same_from k m (ec_slave_free o' i m)" by (rule same_from_trans)
  then show ?case using same_from_trans[OF _ Cons[of "ec_slave_free o' i m"]] by simp
qed simp

lemma scan_link_same: "same_from k m (scan_link o' i m) \<and> m_slave_cnt (scan_link o' i m) = m_slave_cnt m"
proof -
  let ?m1 = "slv_upd i (\<lambda>s. s\<lparr>sl_link_cnt := 0, sl_active_ports := 0, sl_handler_running := False\<rparr>) m"
  obtain r d w m2 where 2: "slv_fprd o' i EC_REG_DLSTAT (le16 0) 0 ?m1 = (r, d, w, m2)" by (metis prod_cases4)
  let ?m3 = "slv_upd i (scan_ports (u16_of d)) m2"
  let ?m4 = "slv_upd i (\<lambda>s. s\<lparr>sl_parent := search_parent (m_slaves ?m3) 0 i, sl_ptype := 0\<rparr>) ?m3"
  obtain r5 d5 w5 m5 where 5: "slv_fprd o' i EC_REG_PORTDES (le16 0) 0 ?m4 = (r5, d5, w5, m5)" by (metis prod_cases4)
  have b: "bus_only ?m1 m2" "bus_only ?m4 m5" using slv_fprd_bus[OF 2] slv_fprd_bus[OF 5] .
  have ports: "sl_auto_inc_address (scan_ports v s) = sl_auto_inc_address s" for v s
    by (simp add: scan_ports_def upt_rec)
  have "same_from k m ?m1" by (rule same_from_upd) simp
  note s2 = same_from_trans[OF this same_from_bus[OF b(1)]]
  have "same_from k m2 ?m3" by (rule same_from_upd) (simp add: scan_ports_fields ports)
  note s3 = same_from_trans[OF s2 this]
  have "same_from k ?m3 ?m4" by (rule same_from_upd) simp
  note s5 = same_from_trans[OF same_from_trans[OF s3 this] same_from_bus[OF b(2)]]
  have "same_from k m5 (slv_upd i (\<lambda>s. s\<lparr>sl_ptype := u16_of d5\<rparr>) m5)" by (rule same_from_upd) simp
  note s6 = same_from_trans[OF s5 this]
  have "scan_link o' i m = (if r \<noteq> EC_OK then m2 else slv_upd i (\<lambda>s. s\<lparr>sl_ptype := u16_of d5\<rparr>) m5)"
    unfolding scan_link_def Let_def by (simp only: 2 5 prod.case cong: if_cong)
  moreover have "m_slave_cnt m2 = m_slave_cnt m" "m_slave_cnt m5 = m_slave_cnt m"
    using b by (simp_all add: access_simps)
  ultimately show ?thesis using s2 s6 by simp
qed

lemma scan_slave_same:
  assumes "scan_slave o' i (f, w, v, m) = (stop, f', w', v', m')" "i < k"
  shows "same_from k m m' \<and> m_slave_cnt m' = m_slave_cnt m"
proof -
  have "slv m' j = slv m j" if "j \<noteq> i" for j
    using assms(1) that by (auto simp: scan_slave_def Let_def split: prod.splits if_splits)
  moreover have "length (m_slaves m') = length (m_slaves m)" "m_slave_cnt m' = m_slave_cnt m"
    using assms(1) by (auto simp: scan_slave_def Let_def split: prod.splits if_splits)
  ultimately show ?thesis using assms(2) by (auto simp: same_from_def)
qed

lemma scan_slaves_stop:
  assumes "\<And>d w s. \<exists>d' s'. ec_aprd (o_bus o') (- of_nat k) EC_REG_TYPE d w s = (EC_OK, d', 0, s')"
    and "a \<le> k" "k < n" "scan_slaves o' [a..<n] (f, w, v, m) = (f', w', v', m')"
  shows "same_from k m m' \<and> m_slave_cnt m' = m_slave_cnt m"
  using assms(2,4)
proof (induction "k - a" arbitrary: a f w v m)
  case 0
  then have k: "[a..<n] = k # [Suc k..<n]" using assms(3) by (simp add: upt_rec)
  obtain d1 s1 where "ec_aprd (o_bus o') (- of_nat k) EC_REG_TYPE v w (m_bus m) = (EC_OK, d1, 0, s1)" using assms(1) by blast
  then have "scan_slave o' k (f, w, v, m) = (True, f, 0, d1, m\<lparr>m_bus := s1\<rparr>)" by (simp add: scan_slave_def Let_def)
  then show ?case using 0 k by (auto simp: same_from_def)
next
  case (Suc j)
  then have a: "a < k" "[a..<n] = a # [Suc a..<n]" using assms(3) by (simp_all add: upt_rec)
  obtain stop f1 w1 v1 m1 where 1: "scan_slave o' a (f, w, v, m) = (stop, f1, w1, v1, m1)" by (metis prod_cases5)
  note s = scan_slave_same[OF 1 a(1)]
  show ?case
  proof (cases stop)
    case False
    then have "scan_slaves o' [Suc a..<n] (f1, w1, v1, m1) = (f', w', v', m')" using Suc.prems(2) a(2) 1 by simp
    then show ?thesis using Suc.hyps(1)[of "Suc a" f1 w1 v1 m1] Suc.hyps(2) a(1) s same_from_trans by fastforce
  qed (use Suc.prems(2) a(2) 1 s in simp)
qed

text \<open>
  When the slave at position \<open>k\<close> does not answer to its position, the scan ends its loop there,
  but keeps the number of slaves that the broadcast counted: the slaves from \<open>k\<close> on are
  counted, with the addresses that were in the memory before.
\<close>

theorem scan_counts_lost_slaves:
  assumes "\<And>d w s. \<exists>d' s'. ec_brd (o_bus o') EC_REG_TYPE d w s = (EC_OK, d', of_nat n, s')"
    and "\<And>d w s. \<exists>d' s'. ec_aprd (o_bus o') (- of_nat k) EC_REG_TYPE d w s = (EC_OK, d', 0, s')"
    and "k < n" "n < LEC_MAX_SLAVES" "n \<le> length (m_slaves m)"
  shows "\<exists>m'. ec_scan o' m = Some m' \<and> m_slave_cnt m' = n \<and>
     (\<forall>i. k \<le> i \<and> i < n \<longrightarrow> sl_fixed_address (slv m' i) = sl_fixed_address (slv m i))"
proof -
  have n: "unat (of_nat n :: u16) = n" using assms(4) by (simp add: unat_of_nat)
  obtain r1 d1 w1 s1 where 1: "ec_bwr (o_bus o') EC_REG_ALCTL (le16 (EC_STATE_INIT OR EC_STATE_RESET)) 0 (m_bus m) = (r1, d1, w1, s1)"
    by (metis prod_cases4)
  define m2 where "m2 = (fold (ec_slave_free o') [0..<m_slave_cnt m] (m\<lparr>m_bus := s1\<rparr>))\<lparr>m_slave_cnt := 0\<rparr>"
  obtain d3 s3 where 3: "ec_brd (o_bus o') EC_REG_TYPE (le16 0) w1 (m_bus m2) = (EC_OK, d3, of_nat n, s3)"
    using assms(1) by blast
  define m4 where "m4 = m2\<lparr>m_bus := s3, m_slave_cnt := unat (of_nat n :: u16)\<rparr>"
  obtain f5 w5 v5 m5 where 5: "scan_slaves o' [0..<n] (1000, of_nat n, d3, m4) = (f5, w5, v5, m5)"
    by (metis prod_cases4)
  have "same_from k m m4" using frees_same[of k "m\<lparr>m_bus := s1\<rparr>" o' "[0..<m_slave_cnt m]"]
    by (simp add: same_from_def m4_def m2_def slv_def)
  moreover have "same_from k m4 m5 \<and> m_slave_cnt m5 = n"
    using scan_slaves_stop[OF assms(2) _ assms(3) 5] n by (simp add: m4_def)
  moreover have "same_from k m5 (fold (scan_link o') is m5) \<and> m_slave_cnt (fold (scan_link o') is m5) = m_slave_cnt m5" for "is"
    by (induction "is" rule: rev_induct) (auto simp: scan_link_same intro: same_from_trans[OF _ conjunct1[OF scan_link_same]])
  ultimately have "same_from k m (fold (scan_link o') [0..<n] m5)" "m_slave_cnt (fold (scan_link o') [0..<n] m5) = n"
    using same_from_trans by blast+
  moreover have "ec_scan o' m = Some (fold (scan_link o') [0..<n] m5)"
  proof -
    have "\<not> n \<ge> LEC_MAX_SLAVES" using assms(4) by simp
    then show ?thesis
      unfolding ec_scan_def Let_def
      by (simp only: 1 prod.case m2_def[symmetric] 3 simp_thms if_False n m4_def[unfolded n, symmetric] 5 cong: if_cong)
  qed
  ultimately show ?thesis using assms(5) by (auto simp: same_from_def)
qed

text \<open>Two slaves answer to the broadcast, none to its position.\<close>

definition lost_bus :: "unit bus" where
  "lost_bus = \<lparr>b_xcv = (\<lambda>c a d w s. (EC_OK, d, if c = EC_CMD_BRD then 2 else 0, s)),
     b_timer_init = (\<lambda>ns s. (0, s)), b_timer_expired = (\<lambda>to s. (True, s)), b_sleep = (\<lambda>ns s. s)\<rparr>"

theorem scan_counts_lost_slaves_witness:
  "\<exists>m'. ec_scan (demo_ops lost_bus 1) (demo_master (replicate 2 zero_slave) ()) = Some m' \<and> m_slave_cnt m' = 2 \<and>
     sl_fixed_address (slv m' 0) = 0 \<and> sl_fixed_address (slv m' 1) = 0"
proof -
  let ?o = "demo_ops lost_bus 1" and ?m = "demo_master (replicate 2 zero_slave) ()"
  have "\<exists>d' s'. ec_brd (o_bus ?o) EC_REG_TYPE d w s = (EC_OK, d', of_nat 2, s')"
    "\<exists>d' s'. ec_aprd (o_bus ?o) (- of_nat 0) EC_REG_TYPE d w s = (EC_OK, d', 0, s')" for d w s
    by (simp_all add: demo_ops_def lost_bus_def access_defs)
  moreover have "sl_fixed_address (slv ?m 0) = 0" "sl_fixed_address (slv ?m 1) = 0" "length (m_slaves ?m) = 2"
    by (simp_all add: demo_master_def slv_def zero_slave_def)
  ultimately show ?thesis using scan_counts_lost_slaves[of ?o 2 0 ?m] by fastforce
qed

end
