(* ===== verification/Master.thy ===== *)
theory Master
  imports Scan Dc ProcessData
begin

text \<open>
  The state of the master (\<^verbatim>\<open>ec_set_state\<close> of \<^verbatim>\<open>src/ec.c\<close>): bringing all slaves into
  a state, one part of the switch after the other, with the scan, the distributed clocks and the
  logical mapping on the way.
\<close>

section \<open>All slaves\<close>

definition prepare_slave :: "('s, 'd) ops \<Rightarrow> u16 \<Rightarrow> nat \<Rightarrow> ('s, 'd) master \<Rightarrow> ('s, 'd) master option" where
  "prepare_slave o' state i m =
     (let (_, m) = ec_slave_prepare_state_transition o' i state m in map_option snd (ec_slave_generate_mapping o' i m))"

text \<open>The slaves with a process data group.\<close>

definition grouped :: "('s, 'd) master \<Rightarrow> nat \<Rightarrow> bool" where
  "grouped m i \<longleftrightarrow> sl_assigned_pd_group (slv m i) \<noteq> -1"

text \<open>With threads, a worker is started for each slave, then all are waited for.\<close>

definition for_slaves ::
  "('s, 'd) ops \<Rightarrow> (('s, 'd) master \<Rightarrow> nat \<Rightarrow> bool) \<Rightarrow> (nat \<Rightarrow> ('s, 'd) master \<Rightarrow> ('s, 'd) master option) \<Rightarrow>
   ('s, 'd) master \<Rightarrow> ('s, 'd) master option" where
  "for_slaves o' P f m =
     (if m_threaded_startup m then o_threads o' (filter (P m) [0..<m_slave_cnt m]) f m
      else write_all (\<lambda>i m. if P m i then f i m else Some m) [0..<m_slave_cnt m] m)"

definition ec_prepare_state_transition_loop :: "('s, 'd) ops \<Rightarrow> u16 \<Rightarrow> ('s, 'd) master \<Rightarrow> ('s, 'd) master option" where
  "ec_prepare_state_transition_loop o' state m = for_slaves o' grouped (prepare_slave o' state) m"

definition ec_state_transition_loop :: "('s, 'd) ops \<Rightarrow> u16 \<Rightarrow> bool \<Rightarrow> ('s, 'd) master \<Rightarrow> ('s, 'd) master option" where
  "ec_state_transition_loop o' state with_group m =
     map_option (pause o' 100000000)
       (for_slaves o' (\<lambda>m i. \<not> with_group \<or> grouped m i)
          (\<lambda>i m. map_option snd (ec_slave_state_transition o' i state m)) m)"

section \<open>The logical mapping of all groups\<close>

text \<open>The fields of a slave for the mapping, and the slave with the fields the mapping gives back.\<close>

definition map_view :: "ec_slave \<Rightarrow> map_slave" where
  "map_view s = \<lparr>ms_assigned_pd_group = sl_assigned_pd_group s, ms_mbx_supported = ei_mbx_supported (sl_eeprom s),
     ms_sm_ch = sl_sm_ch s, ms_sm = sl_sm s, ms_fmmu_ch = sl_fmmu_ch s, ms_fmmu = sl_fmmu s, ms_pdin = sl_pdin s,
     ms_pdout = sl_pdout s, ms_subdevs = take (sl_subdev_cnt s) (sl_subdevs s),
     ms_sm_state_bitno = sl_sm_state_bitno s, ms_sm_state_null = sl_sm_state_null s\<rparr>"

definition map_back :: "ec_slave \<Rightarrow> map_slave \<Rightarrow> ec_slave" where
  "map_back s v = s\<lparr>sl_fmmu := ms_fmmu v, sl_pdin := ms_pdin v, sl_pdout := ms_pdout v,
     sl_subdevs := ms_subdevs v @ drop (sl_subdev_cnt s) (sl_subdevs s),
     sl_sm_state_bitno := ms_sm_state_bitno v, sl_sm_state_null := ms_sm_state_null v\<rparr>"

definition EC_REG_ESCSUP__NOT_SUPP_LRW :: u16 where [simp]: "EC_REG_ESCSUP__NOT_SUPP_LRW = 0x0200"

definition map_group :: "nat \<Rightarrow> ('s, 'd) master \<Rightarrow> ('s, 'd) master option" where
  "map_group g m =
     (let slaves = take (m_slave_cnt m) (m_slaves m); pd = m_pd_groups m ! g;
          lrw = (pg_use_lrw pd \<and> (\<forall>s\<in>set slaves. sl_assigned_pd_group s = int g \<longrightarrow>
                   sl_features s AND EC_REG_ESCSUP__NOT_SUPP_LRW \<noteq> EC_REG_ESCSUP__NOT_SUPP_LRW));
          pd = pd\<lparr>pg_use_lrw := lrw, pg_overlapping := (pg_overlapping pd \<and> lrw)\<rparr>
      in map_option (\<lambda>(views, pd). m\<lparr>m_slaves := map2 map_back slaves views @ drop (m_slave_cnt m) (m_slaves m),
                                      m_pd_groups := (m_pd_groups m)[g := pd]\<rparr>)
           ((if pg_overlapping pd then ec_create_logical_mapping_overlapping else ec_create_logical_mapping)
              g (map map_view slaves) pd))"

section \<open>The cyclic datagrams\<close>

text \<open>
  The index and the entry of a cyclic datagram are given back. A group has four of them: only
  the first one is.
\<close>

definition return_cdg :: "osal \<Rightarrow> cyclic_datagram \<Rightarrow> 'w xcv_state \<Rightarrow> cyclic_datagram \<times> 'w xcv_state" where
  "return_cdg os cdg x =
     (let x = (case cdg_p_idx cdg of None \<Rightarrow> x
               | Some i \<Rightarrow> x\<lparr>x_hw := (x_hw x)\<lparr>hw_tx_send := (hw_tx_send (x_hw x))(ie_idx (iq_entries (x_idx_q x) ! i) := None)\<rparr>,
                             x_idx_q := ec_index_put i (x_idx_q x)\<rparr>);
          x = (case cdg_p_entry cdg of None \<Rightarrow> x | Some p \<Rightarrow> x\<lparr>x_pool := pool_put os (x_pool x) p\<rparr>)
      in (\<lparr>cdg_p_entry = None, cdg_p_idx = None\<rparr>, x))"

fun return_groups :: "osal \<Rightarrow> pd_group_c list \<Rightarrow> 'w xcv_state \<Rightarrow> pd_group_c list \<times> 'w xcv_state" where
  "return_groups os [] x = ([], x)"
| "return_groups os (g # gs) x =
     (let (c, x) = return_cdg os (g_cdg g) x; (gs, x) = return_groups os gs x in (g\<lparr>g_cdg := c\<rparr> # gs, x))"

definition return_cyclic :: "osal \<Rightarrow> ('w, 'd) ec \<Rightarrow> ('w, 'd) ec" where
  "return_cyclic os s =
     (let (gs, x) = return_groups os (ec_pd_groups s) (ec_x s);
          (dc, x) = return_cdg os (dc_cdg (ec_dc s)) x;
          (st, x) = return_cdg os (ec_cdg_state s) x
      in s\<lparr>ec_pd_groups := gs, ec_x := x, ec_dc := (ec_dc s)\<lparr>dc_cdg := dc\<rparr>, ec_cdg_state := st\<rparr>)"

section \<open>The parts of the switch\<close>

definition user_cb :: "('s, 'd) ops \<Rightarrow> u16 \<Rightarrow> bool \<Rightarrow> ('s, 'd) master \<Rightarrow> ('s, 'd) master" where
  "user_cb o' target_state up m = (if m_user_cb m then o_user_cb o' target_state up m else m)"

definition boot_part :: "('s, 'd) ops \<Rightarrow> int \<Rightarrow> ('s, 'd) master \<Rightarrow> (int \<times> ('s, 'd) master) option" where
  "boot_part o' ret m = map_option (Pair ret) (ec_state_transition_loop o' EC_STATE_BOOT False m)"

definition op_up_part :: "('s, 'd) ops \<Rightarrow> ('s, 'd) master \<Rightarrow> (int \<times> ('s, 'd) master) option" where
  "op_up_part o' m =
     map_option (Pair EC_OK) (ec_state_transition_loop o' EC_STATE_OP True (user_cb o' EC_STATE_OP True m))"

definition safeop_up_part :: "('s, 'd) ops \<Rightarrow> u16 \<Rightarrow> ('s, 'd) master \<Rightarrow> (int \<times> ('s, 'd) master) option" where
  "safeop_up_part o' state m = do {
     (ret, m) \<leftarrow> ec_dc_config o' (user_cb o' EC_STATE_SAFEOP True m);
     m \<leftarrow> ec_prepare_state_transition_loop o' EC_STATE_SAFEOP m;
     m \<leftarrow> write_all map_group [0..<m_pd_group_cnt m] m;
     m \<leftarrow> ec_state_transition_loop o' EC_STATE_SAFEOP True m;
     if state = EC_STATE_SAFEOP then Some (ret, m) else op_up_part o' m
   }"

definition preop_up_part :: "('s, 'd) ops \<Rightarrow> u16 \<Rightarrow> ('s, 'd) master \<Rightarrow> (int \<times> ('s, 'd) master) option" where
  "preop_up_part o' state m = do {
     m \<leftarrow> ec_state_transition_loop o' EC_STATE_PREOP False (user_cb o' EC_STATE_PREOP True m);
     if state = EC_STATE_PREOP then Some (EC_OK, m) else safeop_up_part o' state m
   }"

definition init_up_part :: "('s, 'd) ops \<Rightarrow> u16 \<Rightarrow> ('s, 'd) master \<Rightarrow> (int \<times> ('s, 'd) master) option" where
  "init_up_part o' state m = do {
     m \<leftarrow> ec_state_transition_loop o' EC_STATE_INIT False (user_cb o' EC_STATE_INIT True m);
     m \<leftarrow> ec_scan o' m;
     if m_slave_cnt m = 0 then Some (EC_ERROR_UNAVAILABLE, m)
     else do {
       m \<leftarrow> ec_state_transition_loop o' EC_STATE_INIT False m;
       if state = EC_STATE_INIT then Some (EC_OK, m) else preop_up_part o' state m
     }
   }"

definition init_down_part :: "('s, 'd) ops \<Rightarrow> u16 \<Rightarrow> ('s, 'd) master \<Rightarrow> (int \<times> ('s, 'd) master) option" where
  "init_down_part o' state m = do {
     m \<leftarrow> ec_state_transition_loop o' EC_STATE_INIT False (user_cb o' EC_STATE_INIT False m);
     m \<leftarrow> ec_scan o' (m\<lparr>m_master_state := EC_STATE_INIT\<rparr>);
     m \<leftarrow> ec_state_transition_loop o' EC_STATE_INIT False m;
     if state = EC_STATE_INIT then Some (EC_OK, m) else boot_part o' EC_OK m
   }"

definition preop_down_part :: "('s, 'd) ops \<Rightarrow> u16 \<Rightarrow> ('s, 'd) master \<Rightarrow> (int \<times> ('s, 'd) master) option" where
  "preop_down_part o' state m = do {
     m \<leftarrow> ec_state_transition_loop o' EC_STATE_PREOP False (user_cb o' EC_STATE_PREOP False m);
     let m = m\<lparr>m_dc := (m_dc m)\<lparr>dc_dc_time := 0, dc_rtc_time := 0, dc_act_diff := 0\<rparr>,
               m_master_state := EC_STATE_PREOP, m_bus := o_return_cyclic o' (m_bus m)\<rparr>;
     if state = EC_STATE_PREOP then Some (EC_OK, m) else init_down_part o' state m
   }"

definition safeop_down_part :: "('s, 'd) ops \<Rightarrow> u16 \<Rightarrow> ('s, 'd) master \<Rightarrow> (int \<times> ('s, 'd) master) option" where
  "safeop_down_part o' state m = do {
     m \<leftarrow> ec_state_transition_loop o' EC_STATE_SAFEOP False (user_cb o' EC_STATE_SAFEOP False m);
     let m = m\<lparr>m_master_state := EC_STATE_SAFEOP\<rparr>;
     if state = EC_STATE_SAFEOP then Some (EC_OK, m) else preop_down_part o' state m
   }"

section \<open>Setting the state\<close>

definition init_up_transitions :: "u16 set" where
  "init_up_transitions = {BOOT_2_INIT, BOOT_2_PREOP, BOOT_2_SAFEOP, BOOT_2_OP, INIT_2_INIT, UNKNOWN_2_INIT,
     UNKNOWN_2_PREOP, UNKNOWN_2_SAFEOP, UNKNOWN_2_OP}"

definition master_switch ::
  "('s, 'd) ops \<Rightarrow> u16 \<Rightarrow> u16 \<Rightarrow> ('s, 'd) master \<Rightarrow> (int \<times> ('s, 'd) master) option" where
  "master_switch o' transition state m =
     (if transition \<in> init_up_transitions then init_up_part o' state m
      else if transition \<in> {INIT_2_OP, INIT_2_SAFEOP, INIT_2_PREOP, PREOP_2_PREOP} then preop_up_part o' state m
      else if transition \<in> {PREOP_2_SAFEOP, PREOP_2_OP, SAFEOP_2_SAFEOP} then safeop_up_part o' state m
      else if transition \<in> {SAFEOP_2_OP, OP_2_OP} then op_up_part o' m
      else if transition \<in> {OP_2_BOOT, OP_2_INIT, OP_2_PREOP, OP_2_SAFEOP} then safeop_down_part o' state m
      else if transition \<in> {SAFEOP_2_BOOT, SAFEOP_2_INIT, SAFEOP_2_PREOP} then preop_down_part o' state m
      else if transition \<in> {PREOP_2_BOOT, PREOP_2_INIT} then init_down_part o' state m
      else if transition \<in> {INIT_2_BOOT, BOOT_2_BOOT} then boot_part o' EC_OK m
      else Some (EC_OK, m))"

definition ec_set_state :: "('s, 'd) ops \<Rightarrow> u16 \<Rightarrow> ('s, 'd) master \<Rightarrow> (u16 \<times> ('s, 'd) master) option" where
  "ec_set_state o' state m =
     map_option (\<lambda>(ret, m). let m = (if ret = EC_OK then m\<lparr>m_master_state := state\<rparr> else m);
                                 m = m\<lparr>m_transition_pending := False\<rparr>
                             in (m_master_state m, m))
       (master_switch o' (transition_of (m_master_state m) state) state (m\<lparr>m_transition_pending := True\<rparr>))"

end
