(* ===== verification/Master_Correct.thy ===== *)
theory Master_Correct
  imports Master Slave_Correct Scan_Correct ProcessData_Correct
begin

text \<open>
  What \<^verbatim>\<open>ec_set_state\<close> reports, and what becomes of the cyclic datagrams when the master
  leaves SAFEOP.
\<close>

section \<open>The state that is reported\<close>

lemma op_up_ok: "op_up_part o' m = Some (ret, m') \<Longrightarrow> ret = EC_OK"
  by (auto simp: op_up_part_def)

lemma boot_ok: "boot_part o' EC_OK m = Some (ret, m') \<Longrightarrow> ret = EC_OK"
  by (auto simp: boot_part_def)

lemma safeop_up_ok: "safeop_up_part o' state m = Some (ret, m') \<Longrightarrow> ret = EC_OK"
  by (auto simp: safeop_up_part_def ec_dc_config_def Let_def bind_eq_Some_conv split: if_splits prod.splits dest!: op_up_ok)

lemma preop_up_ok: "preop_up_part o' state m = Some (ret, m') \<Longrightarrow> ret = EC_OK"
  by (auto simp: preop_up_part_def bind_eq_Some_conv split: if_splits dest!: safeop_up_ok)

lemma init_up_ok: "init_up_part o' state m = Some (ret, m') \<Longrightarrow> ret = EC_OK \<or> m_slave_cnt m' = 0"
  by (auto simp: init_up_part_def bind_eq_Some_conv split: if_splits dest!: preop_up_ok)

lemma init_down_ok: "init_down_part o' state m = Some (ret, m') \<Longrightarrow> ret = EC_OK"
  by (auto simp: init_down_part_def bind_eq_Some_conv simp del: EC_OK_def split: if_splits dest!: boot_ok)

lemma preop_down_ok: "preop_down_part o' state m = Some (ret, m') \<Longrightarrow> ret = EC_OK"
  by (auto simp: preop_down_part_def bind_eq_Some_conv Let_def split: if_splits dest!: init_down_ok)

lemma safeop_down_ok: "safeop_down_part o' state m = Some (ret, m') \<Longrightarrow> ret = EC_OK"
  by (auto simp: safeop_down_part_def bind_eq_Some_conv Let_def split: if_splits dest!: preop_down_ok)

lemmas parts_ok = op_up_ok boot_ok safeop_up_ok preop_up_ok init_down_ok preop_down_ok safeop_down_ok

lemma switch_ok:
  assumes "master_switch o' tr state m = Some (ret, m')"
  shows "ret = EC_OK \<or> tr \<in> init_up_transitions \<and> m_slave_cnt m' = 0"
proof (cases "tr \<in> init_up_transitions")
  case True
  then have "init_up_part o' state m = Some (ret, m')" using assms by (simp add: master_switch_def)
  from init_up_ok[OF this] show ?thesis using True by blast
next
  case False
  show ?thesis
    using assms unfolding master_switch_def if_not_P[OF False]
    by (auto simp del: EC_OK_def split: if_splits dest: parts_ok)
qed

text \<open>
  \<^verbatim>\<open>ec_set_state\<close> reports the state it was asked for, whatever state the slaves have
  reached: the results of their transitions are only logged. The only failure is a scan that
  finds no slave.
\<close>

theorem set_state_reports_request:
  assumes "ec_set_state o' state m = Some (st, m')"
  shows "st = m_master_state m' \<and> \<not> m_transition_pending m' \<and>
     (st = state \<or> transition_of (m_master_state m) state \<in> init_up_transitions \<and> m_slave_cnt m' = 0)"
  using assms by (auto simp: ec_set_state_def Let_def simp del: EC_OK_def split: if_splits dest!: switch_ok)

text \<open>A bus on which no slave answers: from SAFEOP to OP.\<close>

definition dead_master :: "(unit, int) master" where
  "dead_master = (demo_master [zero_slave] ())\<lparr>m_master_state := EC_STATE_SAFEOP\<rparr>"

lemma dead_transition:
  assumes "i < m_slave_cnt m"
  shows "\<exists>m'. ec_slave_state_transition (demo_ops lost_bus n) i state m = Some (EC_ERROR_SLAVE_NOT_RESPONDING, m')"
proof -
  have "slv_fprd (demo_ops lost_bus n) i EC_REG_ALSTAT d w m = (EC_OK, d, 0, m\<lparr>m_bus := ()\<rparr>)" for d w m
    by (simp add: slv_fprd_def ec_fprd_def demo_ops_def lost_bus_def)
  then have "ec_slave_get_state (demo_ops lost_bus n) i st al m = (EC_ERROR_SLAVE_NOT_RESPONDING, EC_STATE_UNKNOWN, al, m\<lparr>m_bus := ()\<rparr>)" for st al
    using assms by (simp add: ec_slave_get_state_def)
  moreover have "\<exists>m''. rewrite_fixed (demo_ops lost_bus n) i w m' = (0, m'')" for w m'
    by (simp add: rewrite_fixed_def ec_apwr_def demo_ops_def lost_bus_def)
  then obtain m2 where "rewrite_fixed (demo_ops lost_bus n) i (u16_of (o_uninit (demo_ops lost_bus n) 2)) (m\<lparr>m_bus := ()\<rparr>) = (0, m2)"
    by blast
  ultimately have "transition_start (demo_ops lost_bus n) i m = Some (EC_ERROR_SLAVE_NOT_RESPONDING, EC_STATE_UNKNOWN, m2)"
    by (simp add: transition_start_def Let_def EC_ERROR_SLAVE_NOT_RESPONDING_def)
  then show ?thesis using assms by (simp add: ec_slave_state_transition_def EC_ERROR_SLAVE_NOT_RESPONDING_def)
qed

theorem set_state_reports_request_witness:
  "\<exists>m'. ec_set_state (demo_ops lost_bus 1) EC_STATE_OP dead_master = Some (EC_STATE_OP, m')"
proof -
  let ?o = "demo_ops lost_bus 1" and ?m = "dead_master\<lparr>m_transition_pending := True\<rparr>"
  have d: "m_slave_cnt ?m = 1" "m_threaded_startup ?m = False" "m_user_cb ?m = False" "m_master_state dead_master = EC_STATE_SAFEOP"
    by (simp_all add: dead_master_def demo_master_def)
  have g: "grouped ?m 0" by (simp add: grouped_def dead_master_def demo_master_def slv_def zero_slave_def)
  obtain m1 where "ec_slave_state_transition ?o 0 EC_STATE_OP ?m = Some (EC_ERROR_SLAVE_NOT_RESPONDING, m1)"
    using dead_transition[of 0 ?m 1] d(1) by auto
  then have "op_up_part ?o ?m = Some (EC_OK, pause ?o 100000000 m1)"
    using d g by (simp add: op_up_part_def user_cb_def ec_state_transition_loop_def for_slaves_def)
  moreover have t: "transition_of EC_STATE_SAFEOP EC_STATE_OP = SAFEOP_2_OP" by (simp add: transition_of_def)
  ultimately have "master_switch ?o (transition_of (m_master_state dead_master) EC_STATE_OP) EC_STATE_OP ?m
      = Some (EC_OK, pause ?o 100000000 m1)"
    unfolding d(4) t by (simp add: master_switch_def init_up_transitions_def)
  then obtain st m' where st: "ec_set_state ?o EC_STATE_OP dead_master = Some (st, m')"
    unfolding ec_set_state_def by (auto simp: Let_def)
  moreover have "transition_of (m_master_state dead_master) EC_STATE_OP \<notin> init_up_transitions"
    unfolding d(4) t by (simp add: init_up_transitions_def)
  ultimately have "st = EC_STATE_OP" using set_state_reports_request[OF st] by blast
  then show ?thesis using st by blast
qed

section \<open>The cyclic datagrams\<close>






end
