(* ===== verification/Async.thy ===== *)
theory Async
  imports Slave_Transition Async_Queue
begin

text \<open>
  What the loop of \<^verbatim>\<open>src/async_loop.c\<close> does with a message: it looks after the slaves of a
  group, after one slave, or corrects the offset of the clock. A failing assertion and an access
  outside the array of the slaves are \<^term>\<open>None\<close>.
\<close>

section \<open>Looking after a slave\<close>

text \<open>\<open>if_ret c f\<close>: \<open>if ((ret == EC_OK) && c) { ret = f; }\<close>\<close>

definition if_ret ::
  "bool \<Rightarrow> (('s, 'd) master \<Rightarrow> (int \<times> ('s, 'd) master) option) \<Rightarrow> int \<times> ('s, 'd) master \<Rightarrow> (int \<times> ('s, 'd) master) option" where
  "if_ret c f = (\<lambda>(ret, m). if ret = EC_OK \<and> c then f m else Some (ret, m))"

text \<open>A slave that does not answer is brought to INIT and from there to the state expected of it.\<close>

definition restart_slave :: "('s, 'd) ops \<Rightarrow> nat \<Rightarrow> u16 \<Rightarrow> ('s, 'd) master \<Rightarrow> (int \<times> ('s, 'd) master) option" where
  "restart_slave o' i expected m = do {
     st \<leftarrow> ec_slave_state_transition o' i EC_STATE_INIT m;
     st \<leftarrow> if_ret (EC_STATE_PREOP \<le> expected) (ec_slave_state_transition o' i EC_STATE_PREOP) st;
     st \<leftarrow> if_ret (EC_STATE_SAFEOP \<le> expected) (\<lambda>m. do {
              st \<leftarrow> if_ret True (ec_slave_generate_mapping o' i) (ec_slave_prepare_state_transition o' i EC_STATE_SAFEOP m);
              if_ret True (ec_slave_state_transition o' i EC_STATE_SAFEOP) st
            }) st;
     if_ret (EC_STATE_OP \<le> expected) (ec_slave_state_transition o' i EC_STATE_OP) st
   }"

definition ec_async_check_slave :: "('s, 'd) ops \<Rightarrow> nat \<Rightarrow> ('s, 'd) master \<Rightarrow> ('s, 'd) master option" where
  "ec_async_check_slave o' i m =
     (if i = m_slave_cnt m \<or> i \<ge> length (m_slaves m) then None
      else (let (ret, state, _, m) = ec_slave_get_state o' i 0 (Some 0) m
            in if ret \<noteq> EC_OK \<or> state = EC_STATE_UNKNOWN
               then map_option snd (restart_slave o' i (sl_expected_state (slv m i)) m)
               else if state \<noteq> sl_expected_state (slv m i)
               then (let (ret, _, _, m) = slv_fprd o' i 0x300 (o_uninit o' 16) (u16_of (o_uninit o' 2)) m
                     in if ret = 0
                        then map_option snd (ec_slave_state_transition o' i (sl_expected_state (slv m i)) m)
                        else Some m)
               else Some m))"

section \<open>A message\<close>

text \<open>The correction is a signed number.\<close>

definition correct_offset :: "('s, 'd) ops \<Rightarrow> u32 \<Rightarrow> ('s, 'd) master \<Rightarrow> ('s, 'd) master" where
  "correct_offset o' payload m =
     (let adr = dc_master_address (m_dc m); wkc = u16_of (o_uninit o' 2);
          (_, d, wkc, s) = ec_fprd (o_bus o') adr EC_REG_DCSYSOFFSET (o_uninit o' 8) wkc (m_bus m);
          (_, _, _, s) = ec_fpwr (o_bus o') adr EC_REG_DCSYSOFFSET (le64 (u64_of d + scast payload)) wkc s
      in m\<lparr>m_bus := s\<rparr>)"

definition check_group_slave :: "('s, 'd) ops \<Rightarrow> u32 \<Rightarrow> nat \<Rightarrow> ('s, 'd) master \<Rightarrow> ('s, 'd) master option" where
  "check_group_slave o' payload i m =
     (if sl_assigned_pd_group (slv m i) = sint payload \<and> \<not> sl_transition_active (slv m i)
      then ec_async_check_slave o' i m else Some m)"

definition async_message :: "('s, 'd) ops \<Rightarrow> ec_message \<Rightarrow> ('s, 'd) master \<Rightarrow> ('s, 'd) master option" where
  "async_message o' msg m =
     (case am_id msg of
        EC_MSG_CHECK_GROUP \<Rightarrow> write_all (check_group_slave o' (am_payload msg)) [0..<m_slave_cnt m] m
      | EC_MSG_CHECK_SLAVE \<Rightarrow>
          (let i = unat (am_payload msg)
           in if i \<ge> length (m_slaves m) then None
              else if \<not> sl_transition_active (slv m i) then ec_async_check_slave o' (unat (ucast (am_payload msg) :: u16)) m
              else Some m)
      | EC_MSG_CHECK_DCSOFFSET \<Rightarrow> Some (correct_offset o' (am_payload msg) m)
      | EC_MSG_CHECK_ALL \<Rightarrow> Some m)"

definition ec_async_loop_step ::
  "osal \<Rightarrow> ('s, 'd) ops \<Rightarrow> nat option \<Rightarrow> ec_async_loop \<times> ('s, 'd) master \<Rightarrow> (ec_async_loop \<times> ('s, 'd) master) option" where
  "ec_async_loop_step os o' timeout = (\<lambda>(paml, m).
     (let (_, me, q) = ec_async_loop_get os timeout (al_exec paml); paml = paml\<lparr>al_exec := q\<rparr>
      in case me of
           None \<Rightarrow> Some (paml, m)
         | Some k \<Rightarrow>
             (if k < length (al_entries paml)
              then map_option (\<lambda>m. (paml\<lparr>al_avail := snd (ec_async_loop_put os k (al_avail paml))\<rparr>, m))
                     (async_message o' (al_entries paml ! k) m)
              else None)))"

end
