(* ===== verification/Async_Correct.thy ===== *)
theory Async_Correct
  imports Async Slave_Correct
begin

text \<open>
  The loop of the asynchronous messages is one of the threads of \<^verbatim>\<open>Async_Queue\<close>, and it
  brings a slave back into the state that is expected of it.
\<close>

section \<open>The queues\<close>

text \<open>
  C29: A step of the loop takes a message and gives it back: it is simulated by the steps of the
  queues, so that between two steps the loop holds no message.
\<close>

theorem async_loop_step_simulated:
  assumes "async_reach os tm (paml, [])" "ec_async_loop_step os o' (Some t) (paml, m) = Some (paml', m')"
  shows "async_reach os tm (paml', [])"
proof -
  obtain ret me q where g: "ec_async_loop_get os (Some t) (al_exec paml) = (ret, me, q)" by (metis prod_cases3)
  note taken = async_reach.step[OF assms(1) async_step.take[OF g]]
  show ?thesis
  proof (cases me)
    case None
    then show ?thesis using assms(2) taken g by (simp add: ec_async_loop_step_def)
  next
    case (Some k)
    let ?l = "paml\<lparr>al_exec := q\<rparr>"
    have "async_step os tm (?l, [k]) (?l\<lparr>al_avail := snd (ec_async_loop_put os k (al_avail ?l))\<rparr>, remove1 k [k])"
      by (rule async_step.give_back) simp
    then have "async_reach os tm (?l\<lparr>al_avail := snd (ec_async_loop_put os k (al_avail ?l))\<rparr>, remove1 k [k])"
      using async_reach.step taken Some by fastforce
    then show ?thesis using assms(2) g Some by (auto simp: ec_async_loop_step_def Let_def split: if_splits)
  qed
qed

text \<open>A new loop in which a correction of the clock was requested.\<close>

lemma created_loop:
  assumes "semaphore_laws os"
  shows "aq_queue (al_avail (snd (ec_async_loop_create os tm now l))) = [0..<EC_ASYNC_MESSAGE_LOOP_COUNT]"
    "aq_avail_cnt (al_avail (snd (ec_async_loop_create os tm now l))) = EC_ASYNC_MESSAGE_LOOP_COUNT"
    "al_exec (snd (ec_async_loop_create os tm now l)) = \<lparr>aq_queue = [], aq_avail_cnt = 0\<rparr>"
    "length (al_entries (snd (ec_async_loop_create os tm now l))) = length (al_entries l)"
proof -
  have "snd (fold (\<lambda>i (es, q). (es[i := m], q @ [i])) is (es, q0)) = q0 @ is \<and>
      length (fst (fold (\<lambda>i (es, q). (es[i := m], q @ [i])) is (es, q0))) = length es"
    for "is" and es :: "ec_message list" and q0 m
    by (induction "is" arbitrary: es q0) simp_all
  note q = this[of _ _ _ "[]"]
  have "osal_semaphore_init os n = n" for n using assms unfolding semaphore_laws_def by blast
  then show "aq_queue (al_avail (snd (ec_async_loop_create os tm now l))) = [0..<EC_ASYNC_MESSAGE_LOOP_COUNT]"
    "aq_avail_cnt (al_avail (snd (ec_async_loop_create os tm now l))) = EC_ASYNC_MESSAGE_LOOP_COUNT"
    "al_exec (snd (ec_async_loop_create os tm now l)) = \<lparr>aq_queue = [], aq_avail_cnt = 0\<rparr>"
    "length (al_entries (snd (ec_async_loop_create os tm now l))) = length (al_entries l)"
    using q by (simp_all add: ec_async_loop_create_def case_prod_beta del: upt_conv_Cons_Cons)
qed

theorem async_loop_step_simulated_witness:
  "\<exists>l' m'. ec_async_loop_step posix_osal (esc_ops 1) (Some 0)
       (ec_async_check_dcsoffset posix_osal posix_timers 5 20
          (snd (ec_async_loop_create posix_osal posix_timers 5 demo_loop)), esc_slave EC_STATE_OP) = Some (l', m') \<and>
     async_reach posix_osal posix_timers (l', [])"
proof -
  let ?l0 = "snd (ec_async_loop_create posix_osal posix_timers 5 demo_loop)"
  let ?l = "ec_async_check_dcsoffset posix_osal posix_timers 5 20 ?l0"
  note c = created_loop[OF posix_osal_laws(1), of posix_timers 5 demo_loop]
  have r: "async_reach posix_osal posix_timers (?l, [])" by (blast intro: async_reach.intros async_step.intros)
  have u: "[0..<EC_ASYNC_MESSAGE_LOOP_COUNT] = 0 # [1..<EC_ASYNC_MESSAGE_LOOP_COUNT]"
    by (simp add: EC_ASYNC_MESSAGE_LOOP_COUNT_def upt_conv_Cons)
  have "aq_queue (al_exec ?l) = [0]" "aq_avail_cnt (al_exec ?l) = 1" "length (al_entries ?l) = 100"
    using c u by (simp_all add: ec_async_check_dcsoffset_def async_post_def ec_async_loop_get_def ec_async_loop_put_def
        posix_osal_def demo_loop_def EC_ASYNC_MESSAGE_LOOP_COUNT_def Let_def del: upt_conv_Cons_Cons)
  moreover have "am_id (al_entries ?l ! 0) = EC_MSG_CHECK_DCSOFFSET"
    using c u by (simp add: ec_async_check_dcsoffset_def async_post_def ec_async_loop_get_def ec_async_loop_put_def
        posix_osal_def demo_loop_def EC_ASYNC_MESSAGE_LOOP_COUNT_def Let_def del: upt_conv_Cons_Cons)
  ultimately have "\<exists>l' m'. ec_async_loop_step posix_osal (esc_ops 1) (Some 0) (?l, esc_slave EC_STATE_OP) = Some (l', m')"
    by (simp add: ec_async_loop_step_def ec_async_loop_get_def posix_osal_def async_message_def Let_def)
  then show ?thesis using async_loop_step_simulated[OF r] by blast
qed

section \<open>Looking after a slave\<close>




text \<open>
  A slave that is expected in BOOT and does not answer ends in PREOP: the comparison of the
  states takes BOOT for a state above PREOP.
\<close>

theorem lost_boot_slave_gets_preop:
  "restart_slave o' i EC_STATE_BOOT m =
     Option.bind (ec_slave_state_transition o' i EC_STATE_INIT m)
       (if_ret True (ec_slave_state_transition o' i EC_STATE_PREOP))"
proof -
  have "Option.bind x (\<lambda>st. Option.bind (f st) Some) = Option.bind x f" for x f
    by (cases x) simp_all
  then show ?thesis by (simp add: restart_slave_def if_ret_def)
qed

end
