(* ===== verification/Mailbox.thy ===== *)
theory Mailbox
  imports Slave_State Pool
begin

text \<open>
  \<^verbatim>\<open>src/mbx.c\<close>, the part of the mailbox that the mailbox protocols use: buffers, the send
  queue, sequence counters, and the transfer of one message between the master and the memory
  of a slave. The state of the mailboxes is in the bus of the master, so that whatever happens
  while a thread waits (the other threads, \<open>o_cycle\<close>) may change all of it.
\<close>

section \<open>State\<close>

text \<open>\<^verbatim>\<open>ec_coe_emergency_message_t\<close> and \<^verbatim>\<open>ec_coe_t\<close> without the lock of the protocol.\<close>

record emergency_message =
  em_timestamp :: u64
  em_msg_len :: nat
  em_msg :: bytes

record ec_coe =
  co_recv_pool :: "nat pool"
  co_next_read :: nat
  co_next_write :: nat
  co_emergencies :: "emergency_message list"

text \<open>
  \<^verbatim>\<open>ec_eoe_t\<close> without its lock: the Ethernet frames are entries of pools of their own, of which
  \<open>eq_frame_size\<close> and \<open>eq_frame_data\<close> are the contents (\<^verbatim>\<open>eth_frame_t\<close>).
\<close>

record ec_eoe =
  eq_recv :: "nat pool"
  eq_response :: "nat pool"
  eq_free_frames :: "nat pool"
  eq_recv_frames :: "nat pool"
  eq_frame_size :: "nat \<Rightarrow> nat"
  eq_frame_data :: "nat \<Rightarrow> bytes"
  eq_send_sync :: nat

text \<open>
  \<^verbatim>\<open>ec_mbx_t\<close>: \<open>mx_sm_state\<close> is the byte that \<^verbatim>\<open>sm_state\<close> points to, if the pointer is not
  null (\<open>sl_sm_state_null\<close> of the slave).
\<close>

record ec_mbx =
  mx_handler_flags :: u32
  mx_sync_sem :: bool
  mx_seq_counter :: int
  mx_sm_state :: u8
  mx_send_queued :: "nat pool"
  mx_coe :: ec_coe
  mx_soe_recv :: "nat pool"
  mx_foe_recv :: "nat pool"
  mx_eoe :: ec_eoe

text \<open>
  A pool entry is a number; \<open>x_data\<close> is its data of \<^verbatim>\<open>LEC_MAX_POOL_DATA_SIZE\<close> bytes, and
  \<open>x_user_cb\<close> says whether its callback is set, \<open>x_user_arg\<close> is its argument. \<open>x_dev\<close> is the
  network and everything else.
\<close>

record 's mbx_sys =
  x_recv_free :: "nat pool"
  x_send_free :: "nat pool"
  x_gw_recv :: "nat pool"
  x_data :: "nat \<Rightarrow> bytes"
  x_user_cb :: "nat \<Rightarrow> bool"
  x_user_arg :: "nat \<Rightarrow> int"
  x_mbx :: "ec_mbx list"
  x_dev :: 's

type_synonym ('s, 'd) mmaster = "('s mbx_sys, 'd) master"
type_synonym ('s, 'd) mops = "('s mbx_sys, 'd) ops"

definition LEC_MAX_COE_EMERGENCIES :: nat where [simp]: "LEC_MAX_COE_EMERGENCIES = 10"
definition LEC_MAX_COE_EMERGENCY_MSG_LEN :: nat where [simp]: "LEC_MAX_COE_EMERGENCY_MSG_LEN = 32"
definition EC_DEFAULT_TIMEOUT_MBX :: nat where [simp]: "EC_DEFAULT_TIMEOUT_MBX = 1000000000"
definition EC_DEFAULT_DELAY :: nat where [simp]: "EC_DEFAULT_DELAY = 2000000"
definition HANDLER_SEND :: u32 where "HANDLER_SEND = 1"
definition HANDLER_RECV :: u32 where "HANDLER_RECV = 2"

definition EC_EEPROM_MBX_EOE :: u16 where [simp]: "EC_EEPROM_MBX_EOE = 0x02"
definition EC_EEPROM_MBX_FOE :: u16 where [simp]: "EC_EEPROM_MBX_FOE = 0x08"
definition EC_MBX_EOE :: int where [simp]: "EC_MBX_EOE = 2"
definition EC_MBX_FOE :: int where [simp]: "EC_MBX_FOE = 4"

text \<open>
  What is outside of these files: libosal, and the virtual network device. The mutex of the CoE
  mailbox is \<open>me_lock\<close>, with the result of \<^verbatim>\<open>osal_mutex_lock\<close>, and \<open>me_unlock\<close>.
  \<open>me_veth\<close> writes a frame to the device, if it is open.
\<close>

record 's mbx_env =
  me_os :: osal
  me_lock :: "nat \<Rightarrow> 's \<Rightarrow> osal_retval \<times> 's"
  me_unlock :: "nat \<Rightarrow> 's \<Rightarrow> 's"
  me_veth :: "(bytes \<Rightarrow> 's \<Rightarrow> int \<times> 's) option"

section \<open>Access to the state\<close>

definition sys_upd :: "('s mbx_sys \<Rightarrow> 's mbx_sys) \<Rightarrow> ('s, 'd) mmaster \<Rightarrow> ('s, 'd) mmaster" where
  "sys_upd f m = m\<lparr>m_bus := f (m_bus m)\<rparr>"

definition mbx_of :: "('s, 'd) mmaster \<Rightarrow> nat \<Rightarrow> ec_mbx" where
  "mbx_of m i = x_mbx (m_bus m) ! i"

definition mbx_upd :: "nat \<Rightarrow> (ec_mbx \<Rightarrow> ec_mbx) \<Rightarrow> ('s, 'd) mmaster \<Rightarrow> ('s, 'd) mmaster" where
  "mbx_upd i f = sys_upd (\<lambda>x. x\<lparr>x_mbx := (x_mbx x)[i := f (x_mbx x ! i)]\<rparr>)"

definition data_of :: "('s, 'd) mmaster \<Rightarrow> nat \<Rightarrow> bytes" where
  "data_of m e = x_data (m_bus m) e"

definition set_data :: "nat \<Rightarrow> bytes \<Rightarrow> ('s, 'd) mmaster \<Rightarrow> ('s, 'd) mmaster" where
  "set_data e d = sys_upd (\<lambda>x. x\<lparr>x_data := (x_data x)(e := d)\<rparr>)"

definition return_free_send :: "'s mbx_env \<Rightarrow> nat \<Rightarrow> ('s, 'd) mmaster \<Rightarrow> ('s, 'd) mmaster" where
  "return_free_send en e = sys_upd (\<lambda>x. x\<lparr>x_send_free := pool_put (me_os en) (x_send_free x) e\<rparr>)"

definition return_free_recv :: "'s mbx_env \<Rightarrow> nat \<Rightarrow> ('s, 'd) mmaster \<Rightarrow> ('s, 'd) mmaster" where
  "return_free_recv en e = sys_upd (\<lambda>x. x\<lparr>x_recv_free := pool_put (me_os en) (x_recv_free x) e\<rparr>)"

text \<open>
  Reading and writing the data of a message; \<^term>\<open>None\<close> is an access behind the end of the
  buffer.
\<close>

definition read_at :: "nat \<Rightarrow> nat \<Rightarrow> bytes \<Rightarrow> bytes option" where
  "read_at off n d = (if off + n \<le> length d then Some (slice off n d) else None)"

definition write_at :: "nat \<Rightarrow> bytes \<Rightarrow> bytes \<Rightarrow> bytes option" where
  "write_at off v d = (if off + length v \<le> length d then Some (put_at off v d) else None)"

section \<open>The mailbox header\<close>

text \<open>\<^verbatim>\<open>ec_mbx_header_t\<close>: length, address, priority, and a byte with the type and the counter.\<close>

definition hdr_length :: "bytes \<Rightarrow> u16" where "hdr_length d = u16_of (slice 0 2 d)"
definition hdr_address :: "bytes \<Rightarrow> u16" where "hdr_address d = u16_of (slice 2 2 d)"
definition hdr_mbxtype :: "bytes \<Rightarrow> int" where "hdr_mbxtype d = uint (d ! 5 AND 0x0F)"
definition hdr_counter :: "bytes \<Rightarrow> int" where "hdr_counter d = uint (drop_bit 4 (d ! 5))"

definition put_hdr :: "u16 \<Rightarrow> int \<Rightarrow> int \<Rightarrow> bytes \<Rightarrow> bytes" where
  "put_hdr len mbxtype counter d =
     put_at 5 [(of_int mbxtype AND 0x0F) OR push_bit 4 (of_int counter AND 0x0F)] (put_at 0 (le16 len) d)"

section \<open>Checks, buffers, counters\<close>

definition ec_mbx_check :: "('s, 'd) master \<Rightarrow> nat \<Rightarrow> u16 \<Rightarrow> int" where
  "ec_mbx_check m i mbx_flag =
     (let supported = ei_mbx_supported (sl_eeprom (slv m i))
      in if supported AND mbx_flag \<noteq> mbx_flag
         then EC_ERROR_MAILBOX_MASK OR uint ((supported AND mbx_flag) XOR mbx_flag)
         else EC_OK)"

text \<open>\<^verbatim>\<open>p_idx\<close> of an entry is not used by the mailboxes.\<close>

definition ec_mbx_get_free_send_buffer ::
  "'s mbx_env \<Rightarrow> nat \<Rightarrow> nat option \<Rightarrow> ('s, 'd) mmaster \<Rightarrow> int \<times> nat option \<times> ('s, 'd) mmaster" where
  "ec_mbx_get_free_send_buffer en i timeout m =
     (if i \<ge> m_slave_cnt m then (EC_ERROR_SLAVE_NOT_FOUND, None, m)
      else (let (ret, e, p) = pool_get (me_os en) (x_send_free (m_bus m)) timeout;
                m = sys_upd (\<lambda>x. x\<lparr>x_send_free := p\<rparr>) m
            in (ret, e, case e of None \<Rightarrow> m | Some e \<Rightarrow>
                  sys_upd (\<lambda>x. x\<lparr>x_user_cb := (x_user_cb x)(e := False), x_user_arg := (x_user_arg x)(e := 0),
                                 x_data := (x_data x)(e := replicate LEC_MAX_POOL_DATA_SIZE 0)\<rparr>) m)))"

definition ec_mbx_next_counter :: "nat \<Rightarrow> ('s, 'd) mmaster \<Rightarrow> int \<times> int option \<times> ('s, 'd) mmaster" where
  "ec_mbx_next_counter i m =
     (if i \<ge> m_slave_cnt m then (EC_ERROR_SLAVE_NOT_FOUND, None, m)
      else (let m = mbx_upd i (\<lambda>x. x\<lparr>mx_seq_counter := mx_seq_counter x + 1\<rparr>) m;
                m = (if mx_seq_counter (mbx_of m i) > 7 then mbx_upd i (\<lambda>x. x\<lparr>mx_seq_counter := 1\<rparr>) m else m)
            in (EC_OK, Some (mx_seq_counter (mbx_of m i)), m)))"

text \<open>The counter of a slave that exists.\<close>

definition next_counter :: "nat \<Rightarrow> ('s, 'd) mmaster \<Rightarrow> int \<times> ('s, 'd) mmaster" where
  "next_counter i m = (let (_, c, m) = ec_mbx_next_counter i m in (the c, m))"

section \<open>Waking up the handler\<close>

definition mbx_signal :: "'s mbx_env \<Rightarrow> u32 \<Rightarrow> nat \<Rightarrow> ('s, 'd) mmaster \<Rightarrow> ('s, 'd) mmaster" where
  "mbx_signal en flag i = mbx_upd i (\<lambda>x. x\<lparr>mx_handler_flags := mx_handler_flags x OR flag,
     mx_sync_sem := osal_binary_semaphore_post (me_os en) (mx_sync_sem x)\<rparr>)"

definition mbx_enqueue_head :: "'s mbx_env \<Rightarrow> nat \<Rightarrow> nat \<Rightarrow> ('s, 'd) mmaster \<Rightarrow> ('s, 'd) mmaster" where
  "mbx_enqueue_head en i e m = mbx_signal en HANDLER_SEND i
     (mbx_upd i (\<lambda>x. x\<lparr>mx_send_queued := pool_put_head (me_os en) (mx_send_queued x) e\<rparr>) m)"

definition mbx_enqueue_tail :: "'s mbx_env \<Rightarrow> nat \<Rightarrow> nat \<Rightarrow> ('s, 'd) mmaster \<Rightarrow> ('s, 'd) mmaster" where
  "mbx_enqueue_tail en i e m = mbx_signal en HANDLER_SEND i
     (mbx_upd i (\<lambda>x. x\<lparr>mx_send_queued := pool_put (me_os en) (mx_send_queued x) e\<rparr>) m)"

definition mbx_sched_read :: "'s mbx_env \<Rightarrow> nat \<Rightarrow> ('s, 'd) mmaster \<Rightarrow> ('s, 'd) mmaster" where
  "mbx_sched_read en = mbx_signal en HANDLER_RECV"

section \<open>The memory of the slave\<close>

text \<open>Sleep for a while; the other threads go on.\<close>

definition mbx_sleep :: "('s, 'd) mops \<Rightarrow> nat \<Rightarrow> ('s, 'd) mmaster \<Rightarrow> ('s, 'd) mmaster" where
  "mbx_sleep o' ns m = o_cycle o' (pause o' ns m)"

definition sm_mapped :: "nat \<Rightarrow> nat \<Rightarrow> ('s, 'd) mmaster \<Rightarrow> bool" where
  "sm_mapped i mbx_nr m \<longleftrightarrow> mbx_nr = MAILBOX_READ \<and> \<not> sl_sm_state_null (slv m i) \<and>
     (sl_act_state (slv m i) = EC_STATE_OP \<or> sl_act_state (slv m i) = EC_STATE_SAFEOP)"

definition read_sm_state ::
  "('s, 'd) mops \<Rightarrow> nat \<Rightarrow> nat \<Rightarrow> u8 \<Rightarrow> u16 \<Rightarrow> ('s, 'd) mmaster \<Rightarrow> u8 \<times> u16 \<times> ('s, 'd) mmaster" where
  "read_sm_state o' i mbx_nr sm_state wkc m =
     (let (_, d, w, m) = slv_fprd o' i (EC_REG_SM0STAT + mbx_nr * 8) [sm_state] wkc m in (d ! 0, w, m))"

text \<open>The loops of both checks: \<open>look\<close> is one look at the mailbox, with the working counter.\<close>

definition wait_mailbox_body ::
  "('s, 'd) mops \<Rightarrow> (u8 \<Rightarrow> u16 \<Rightarrow> ('s, 'd) mmaster \<Rightarrow> u8 \<times> u16 \<times> ('s, 'd) mmaster) \<Rightarrow> u8 \<Rightarrow> nat \<Rightarrow>
   u8 \<times> u16 \<times> ('s, 'd) mmaster \<Rightarrow> u8 \<times> u16 \<times> ('s, 'd) mmaster + int \<times> ('s, 'd) mmaster" where
  "wait_mailbox_body o' look wanted t = (\<lambda>(sm_state, wkc, m).
     let (sm_state, wkc, m) = look sm_state wkc m
     in if wkc \<noteq> 0 \<and> sm_state AND 0x08 = wanted then Inr (EC_OK, m)
        else (let (ex, m) = timer_over o' t (mbx_sleep o' EC_DEFAULT_DELAY m)
              in if ex then Inr (EC_ERROR_MAILBOX_TIMEOUT, m) else Inl (sm_state, wkc, m)))"

definition ec_mbx_is_full ::
  "('s, 'd) mops \<Rightarrow> nat \<Rightarrow> nat \<Rightarrow> nat \<Rightarrow> ('s, 'd) mmaster \<Rightarrow> (int \<times> ('s, 'd) mmaster) option" where
  "ec_mbx_is_full o' i mbx_nr nsec m =
     (if i \<ge> m_slave_cnt m then Some (EC_ERROR_SLAVE_NOT_FOUND, m)
      else (let (t, m) = timer_start o' nsec m
            in loop (o_fuel o') (wait_mailbox_body o' (\<lambda>sm_state wkc m.
                 if sm_mapped i mbx_nr m
                 then (mx_sm_state (mbx_of m i), 1, mbx_upd i (\<lambda>x. x\<lparr>mx_sm_state := 0\<rparr>) m)
                 else read_sm_state o' i mbx_nr sm_state wkc m) 0x08 t) (0, 0, m)))"

definition ec_mbx_is_empty ::
  "('s, 'd) mops \<Rightarrow> nat \<Rightarrow> nat \<Rightarrow> nat \<Rightarrow> ('s, 'd) mmaster \<Rightarrow> (int \<times> ('s, 'd) mmaster) option" where
  "ec_mbx_is_empty o' i mbx_nr nsec m =
     (if i \<ge> m_slave_cnt m then Some (EC_ERROR_SLAVE_NOT_FOUND, m)
      else (let (t, m) = timer_start o' nsec m
            in loop (o_fuel o') (wait_mailbox_body o' (read_sm_state o' i mbx_nr) 0 t) (0, 0, m)))"

text \<open>The buffer is written to the memory behind the sync manager until the slave answers.\<close>

definition mbx_send_body ::
  "('s, 'd) mops \<Rightarrow> nat \<Rightarrow> nat \<Rightarrow> bytes \<times> u16 \<times> ('s, 'd) mmaster \<Rightarrow>
   bytes \<times> u16 \<times> ('s, 'd) mmaster + int \<times> bytes \<times> ('s, 'd) mmaster" where
  "mbx_send_body o' i t = (\<lambda>(buf, wkc, m).
     let (_, buf, wkc, m) = slv_fpwr o' i (unat (sm_adr (sl_sm (slv m i) ! MAILBOX_WRITE))) buf wkc m
     in if wkc \<noteq> 0 then Inr (EC_OK, buf, m)
        else (let (ex, m) = timer_over o' t (mbx_sleep o' EC_DEFAULT_DELAY m)
              in if ex then Inr (EC_ERROR_MAILBOX_TIMEOUT, buf, m) else Inl (buf, wkc, m)))"

definition ec_mbx_send ::
  "('s, 'd) mops \<Rightarrow> nat \<Rightarrow> bytes \<Rightarrow> nat \<Rightarrow> ('s, 'd) mmaster \<Rightarrow> (int \<times> bytes \<times> ('s, 'd) mmaster) option" where
  "ec_mbx_send o' i buf nsec m =
     (if i \<ge> m_slave_cnt m then Some (EC_ERROR_SLAVE_NOT_FOUND, buf, m)
      else (let (t, m) = timer_start o' nsec m
            in do {
              (ret, m) \<leftarrow> ec_mbx_is_empty o' i MAILBOX_WRITE nsec m;
              if ret \<noteq> EC_OK then Some (ret, buf, m)
              else loop (o_fuel o') (mbx_send_body o' i t) (buf, 0, m) }))"

definition ec_mbx_receive ::
  "('s, 'd) mops \<Rightarrow> nat \<Rightarrow> bytes \<Rightarrow> nat \<Rightarrow> ('s, 'd) mmaster \<Rightarrow> (int \<times> bytes \<times> ('s, 'd) mmaster) option" where
  "ec_mbx_receive o' i buf nsec m =
     (if i \<ge> m_slave_cnt m then Some (EC_ERROR_SLAVE_NOT_FOUND, buf, m)
      else do {
        (ret, m) \<leftarrow> ec_mbx_is_full o' i MAILBOX_READ nsec m;
        if ret \<noteq> EC_OK then Some (EC_ERROR_MAILBOX_READ_EMPTY, buf, m)
        else (let (_, buf, wkc, m) = slv_fprd o' i (unat (sm_adr (sl_sm (slv m i) ! MAILBOX_READ))) buf 0 m
              in if wkc = 0 then Some (EC_ERROR_MAILBOX_READ_EMPTY, buf, m)
                 else Some (EC_OK, buf, if sl_sm_state_null (slv m i) then m
                                        else mbx_upd i (\<lambda>x. x\<lparr>mx_sm_state := 0\<rparr>) m)) })"

section \<open>Loops whose rounds wait themselves\<close>

text \<open>Like \<^const>\<open>loop\<close>, for a body that may not return.\<close>

fun loop_opt :: "nat \<Rightarrow> ('s \<Rightarrow> ('s + 'r) option) \<Rightarrow> 's \<Rightarrow> 'r option" where
  "loop_opt 0 body s = None"
| "loop_opt (Suc n) body s =
     (case body s of None \<Rightarrow> None | Some (Inl s') \<Rightarrow> loop_opt n body s' | Some (Inr r) \<Rightarrow> Some r)"

section \<open>Waiting for a message of a protocol\<close>

text \<open>
  The pool of a protocol, with its getter and setter; \<open>pool_wait\<close> is \<^verbatim>\<open>pool_get\<close> with a timeout:
  the other threads go on until the wait ends.
\<close>

definition pool_wait ::
  "'s mbx_env \<Rightarrow> ('s, 'd) mops \<Rightarrow> (('s, 'd) mmaster \<Rightarrow> nat pool) \<Rightarrow>
   (nat pool \<Rightarrow> ('s, 'd) mmaster \<Rightarrow> ('s, 'd) mmaster) \<Rightarrow> nat \<Rightarrow> ('s, 'd) mmaster \<Rightarrow> nat option \<times> ('s, 'd) mmaster" where
  "pool_wait en o' get put ns m =
     (let (t, m) = timer_start o' ns m;
          m = o_cycle o' m;
          (_, e, p) = pool_get (me_os en) (get m) (Some t)
      in (e, put p m))"

text \<open>
  The waits of some protocols: \<open>wake\<close> asks the handler to look at the mailbox, then the pool is
  waited for a short time, until there is a message or ten seconds have gone.
\<close>

definition mbx_wait_body ::
  "'s mbx_env \<Rightarrow> ('s, 'd) mops \<Rightarrow> (('s, 'd) mmaster \<Rightarrow> nat pool) \<Rightarrow>
   (nat pool \<Rightarrow> ('s, 'd) mmaster \<Rightarrow> ('s, 'd) mmaster) \<Rightarrow> (('s, 'd) mmaster \<Rightarrow> ('s, 'd) mmaster) \<Rightarrow> nat \<Rightarrow>
   ('s, 'd) mmaster \<Rightarrow> ('s, 'd) mmaster + nat option \<times> ('s, 'd) mmaster" where
  "mbx_wait_body en o' get put wake t m =
     (let (e, m) = pool_wait en o' get put 100000 (wake m);
          (ex, m) = timer_over o' t m
      in if \<not> ex \<and> e = None then Inl m else Inr (e, m))"

definition mbx_wait ::
  "'s mbx_env \<Rightarrow> ('s, 'd) mops \<Rightarrow> (('s, 'd) mmaster \<Rightarrow> nat pool) \<Rightarrow>
   (nat pool \<Rightarrow> ('s, 'd) mmaster \<Rightarrow> ('s, 'd) mmaster) \<Rightarrow> (('s, 'd) mmaster \<Rightarrow> ('s, 'd) mmaster) \<Rightarrow>
   ('s, 'd) mmaster \<Rightarrow> (nat option \<times> ('s, 'd) mmaster) option" where
  "mbx_wait en o' get put wake m =
     (let (t, m) = timer_start o' (EC_DEFAULT_TIMEOUT_MBX * 10) m
      in loop (o_fuel o') (mbx_wait_body en o' get put wake t) m)"

end
