(* ===== verification/Coe.thy ===== *)
theory Coe
  imports Mailbox
begin

text \<open>
  \<^verbatim>\<open>src/coe.c\<close>: CANopen over EtherCAT. Requests are written into a buffer that
  \<^const>\<open>ec_mbx_get_free_send_buffer\<close> has cleared, so that the bit fields which the code does not
  assign are zero. An access behind the end of a buffer is \<^term>\<open>None\<close>, as is a wait that the
  bound \<open>o_fuel\<close> does not see ending.
\<close>

section \<open>Messages\<close>

text \<open>
  Behind the mailbox header of 6 bytes: \<^verbatim>\<open>ec_coe_header_t\<close>, two bytes with the service in
  the upper four bits; then \<^verbatim>\<open>ec_sdo_init_download_header_t\<close>, a byte of flags, the index and
  the sub index, or \<^verbatim>\<open>ec_sdoinfoheader_t\<close>.
\<close>

definition EC_COE_EMERGENCY :: u16 where [simp]: "EC_COE_EMERGENCY = 1"
definition EC_COE_SDOREQ :: u16 where [simp]: "EC_COE_SDOREQ = 2"
definition EC_COE_SDORES :: u16 where [simp]: "EC_COE_SDORES = 3"
definition EC_COE_SDOINFO :: u16 where [simp]: "EC_COE_SDOINFO = 8"

definition EC_COE_SDO_DOWNLOAD_SEQ_REQ :: u8 where [simp]: "EC_COE_SDO_DOWNLOAD_SEQ_REQ = 0"
definition EC_COE_SDO_DOWNLOAD_REQ :: u8 where [simp]: "EC_COE_SDO_DOWNLOAD_REQ = 1"
definition EC_COE_SDO_UPLOAD_REQ :: u8 where [simp]: "EC_COE_SDO_UPLOAD_REQ = 2"
definition EC_COE_SDO_ABORT_REQ :: u8 where [simp]: "EC_COE_SDO_ABORT_REQ = 4"

definition EC_COE_SDO_INFO_ODLIST_REQ :: u8 where [simp]: "EC_COE_SDO_INFO_ODLIST_REQ = 1"
definition EC_COE_SDO_INFO_GET_OBJECT_DESC_REQ :: u8 where [simp]: "EC_COE_SDO_INFO_GET_OBJECT_DESC_REQ = 3"
definition EC_COE_SDO_INFO_GET_OBJECT_DESC_RESP :: u8 where [simp]: "EC_COE_SDO_INFO_GET_OBJECT_DESC_RESP = 4"
definition EC_COE_SDO_INFO_GET_ENTRY_DESC_REQ :: u8 where [simp]: "EC_COE_SDO_INFO_GET_ENTRY_DESC_REQ = 5"
definition EC_COE_SDO_INFO_GET_ENTRY_DESC_RESP :: u8 where [simp]: "EC_COE_SDO_INFO_GET_ENTRY_DESC_RESP = 6"
definition EC_COE_SDO_INFO_ERROR_REQUEST :: u8 where [simp]: "EC_COE_SDO_INFO_ERROR_REQUEST = 7"

definition EC_SDO_NORMAL_HDR_LEN :: nat where [simp]: "EC_SDO_NORMAL_HDR_LEN = 10"
definition EC_SDO_SEG_HDR_LEN :: nat where [simp]: "EC_SDO_SEG_HDR_LEN = 3"
definition CANOPEN_MAXNAME :: nat where [simp]: "CANOPEN_MAXNAME = 40"
definition CANOPEN_MAXDATA :: nat where [simp]: "CANOPEN_MAXDATA = 128"

definition coe_service :: "bytes \<Rightarrow> u16" where "coe_service d = drop_bit 12 (u16_of (slice 6 2 d))"
definition put_coe :: "u16 \<Rightarrow> bytes \<Rightarrow> bytes" where "put_coe service = put_at 6 (le16 (push_bit 12 service))"

definition sdo_command :: "bytes \<Rightarrow> u8" where "sdo_command d = drop_bit 5 (d ! 8)"
definition sdo_transfer_type :: "bytes \<Rightarrow> bool" where "sdo_transfer_type d = bit (d ! 8) 1"
definition sdo_data_set_size :: "bytes \<Rightarrow> nat" where "sdo_data_set_size d = unat (drop_bit 2 (d ! 8) AND 3)"
definition sdo_index :: "bytes \<Rightarrow> u16" where "sdo_index d = u16_of (slice 9 2 d)"
definition sdo_sub_index :: "bytes \<Rightarrow> u8" where "sdo_sub_index d = d ! 11"
definition sdo_complete_size :: "bytes \<Rightarrow> u32" where "sdo_complete_size d = u32_of (slice 12 4 d)"
definition sdo_abort_code :: "bytes \<Rightarrow> u32" where "sdo_abort_code d = u32_of (slice 12 4 d)"

text \<open>The flags: size indicator, transfer type, data set size, complete access, command.\<close>

definition sdo_flags :: "bool \<Rightarrow> bool \<Rightarrow> nat \<Rightarrow> int \<Rightarrow> u8 \<Rightarrow> u8" where
  "sdo_flags size_indicator transfer_type data_set_size complete command =
     of_bool size_indicator OR push_bit 1 (of_bool transfer_type) OR push_bit 2 (of_nat data_set_size AND 3) OR
     push_bit 4 (of_int complete AND 1) OR push_bit 5 command"

definition put_sdo :: "u8 \<Rightarrow> u16 \<Rightarrow> u8 \<Rightarrow> bytes \<Rightarrow> bytes" where
  "put_sdo flags index sub_index d = put_at 8 (flags # le16 index @ [sub_index]) d"

definition sdo_request :: "nat \<Rightarrow> int \<Rightarrow> u8 \<Rightarrow> u16 \<Rightarrow> u8 \<Rightarrow> bytes \<Rightarrow> bytes" where
  "sdo_request len counter flags index sub_index d =
     put_sdo flags index sub_index (put_coe EC_COE_SDOREQ (put_hdr (of_nat len) EC_MBX_COE counter d))"

text \<open>A segment: no more follows, size of the unused data, toggle, command.\<close>

definition seg_flags :: "nat \<Rightarrow> bool \<Rightarrow> u8 \<Rightarrow> u8" where
  "seg_flags seg_data_size toggle command =
     push_bit 1 (of_nat seg_data_size AND 7) OR push_bit 4 (of_bool toggle) OR push_bit 5 command"

definition seg_request :: "nat \<Rightarrow> int \<Rightarrow> u8 \<Rightarrow> bytes \<Rightarrow> bytes" where
  "seg_request len counter flags d =
     put_at 8 [flags] (put_coe EC_COE_SDOREQ (put_hdr (of_nat len) EC_MBX_COE counter d))"

definition sdo_info_opcode :: "bytes \<Rightarrow> u8" where "sdo_info_opcode d = d ! 8 AND 0x7F"
definition sdo_info_fragments_left :: "bytes \<Rightarrow> u16" where "sdo_info_fragments_left d = u16_of (slice 10 2 d)"

definition info_request :: "nat \<Rightarrow> int \<Rightarrow> u8 \<Rightarrow> bytes \<Rightarrow> bytes \<Rightarrow> bytes" where
  "info_request len counter opcode payload d =
     put_at 12 payload (put_at 8 [opcode] (put_coe EC_COE_SDOINFO (put_hdr (of_nat len) EC_MBX_COE counter d)))"

section \<open>Start and end\<close>

definition coe_upd :: "nat \<Rightarrow> (ec_coe \<Rightarrow> ec_coe) \<Rightarrow> ('s, 'd) mmaster \<Rightarrow> ('s, 'd) mmaster" where
  "coe_upd i f = mbx_upd i (\<lambda>x. x\<lparr>mx_coe := f (mx_coe x)\<rparr>)"

definition ec_coe_init :: "osal \<Rightarrow> ec_mbx \<Rightarrow> ec_mbx" where
  "ec_coe_init os x = x\<lparr>mx_coe := (mx_coe x)\<lparr>co_recv_pool := snd (pool_open os 0 []),
     co_next_read := 0, co_next_write := 0\<rparr>\<rparr>"

definition ec_coe_deinit :: "ec_mbx \<Rightarrow> ec_mbx" where
  "ec_coe_deinit x = x\<lparr>mx_coe := (mx_coe x)\<lparr>co_recv_pool := snd (pool_close (co_recv_pool (mx_coe x)))\<rparr>\<rparr>"

text \<open>What runs between locking and unlocking the mailbox; \<open>failed\<close> is the result without the lock.\<close>

definition coe_locked ::
  "'s mbx_env \<Rightarrow> nat \<Rightarrow> 'r \<Rightarrow> (('s, 'd) mmaster \<Rightarrow> ('r \<times> ('s, 'd) mmaster) option) \<Rightarrow>
   ('s, 'd) mmaster \<Rightarrow> ('r \<times> ('s, 'd) mmaster) option" where
  "coe_locked en i failed f m =
     (let (r, dev) = me_lock en i (x_dev (m_bus m));
          m = sys_upd (\<lambda>x. x\<lparr>x_dev := dev\<rparr>) m
      in if r \<noteq> OSAL_OK then Some (failed, m)
         else do {
           (res, m) \<leftarrow> f m;
           Some (res, sys_upd (\<lambda>x. x\<lparr>x_dev := me_unlock en i (x_dev x)\<rparr>) m) })"

section \<open>Messages of the slave\<close>

definition ec_coe_wait ::
  "'s mbx_env \<Rightarrow> ('s, 'd) mops \<Rightarrow> nat \<Rightarrow> ('s, 'd) mmaster \<Rightarrow> (nat option \<times> ('s, 'd) mmaster) option" where
  "ec_coe_wait en o' i =
     mbx_wait en o' (\<lambda>m. co_recv_pool (mx_coe (mbx_of m i))) (\<lambda>p. coe_upd i (\<lambda>c. c\<lparr>co_recv_pool := p\<rparr>))
       (mbx_sched_read en i)"

text \<open>
  The loop that all requests share: take the messages of the slave one by one, \<open>handle\<close> each
  (a result code and what the caller gets), give the buffer back, stop at a success or an abort.
\<close>

definition coe_answers_body ::
  "'s mbx_env \<Rightarrow> ('s, 'd) mops \<Rightarrow> nat \<Rightarrow> (bytes \<Rightarrow> int \<times> 'a \<Rightarrow> (int \<times> 'a) option) \<Rightarrow>
   (int \<times> 'a) \<times> ('s, 'd) mmaster \<Rightarrow>
   (((int \<times> 'a) \<times> ('s, 'd) mmaster) + ((int \<times> 'a) \<times> ('s, 'd) mmaster)) option" where
  "coe_answers_body en o' i handle = (\<lambda>(res, m). do {
     (e, m) \<leftarrow> ec_coe_wait en o' i m;
     (case e of
        None \<Rightarrow> Some (Inr (res, m))
      | Some e \<Rightarrow> do {
          (ret, a) \<leftarrow> handle (data_of m e) res;
          let m = return_free_recv en e m;
          Some (if ret = EC_OK \<or> ret = EC_ERROR_MAILBOX_ABORT then Inr ((ret, a), m) else Inl ((ret, a), m)) }) })"

definition coe_answers ::
  "'s mbx_env \<Rightarrow> ('s, 'd) mops \<Rightarrow> nat \<Rightarrow> (bytes \<Rightarrow> int \<times> 'a \<Rightarrow> (int \<times> 'a) option) \<Rightarrow>
   int \<times> 'a \<Rightarrow> ('s, 'd) mmaster \<Rightarrow> ((int \<times> 'a) \<times> ('s, 'd) mmaster) option" where
  "coe_answers en o' i handle res m = loop_opt (o_fuel o') (coe_answers_body en o' i handle) (res, m)"

text \<open>
  The head of all requests: is the protocol supported, is there a buffer? Then \<open>fill\<close> gets the
  counter and the cleared data, and the message is put at the head of the queue.
\<close>

definition coe_request ::
  "'s mbx_env \<Rightarrow> nat \<Rightarrow> (int \<Rightarrow> bytes \<Rightarrow> bytes option) \<Rightarrow> ('s, 'd) mmaster \<Rightarrow> (int \<times> ('s, 'd) mmaster) option" where
  "coe_request en i fill m =
     (if ec_mbx_check m i EC_EEPROM_MBX_COE \<noteq> EC_OK then Some (EC_ERROR_MAILBOX_NOT_SUPPORTED_COE, m)
      else (case ec_mbx_get_free_send_buffer en i None m of
              (ret, Some e, m) \<Rightarrow>
                if ret \<noteq> 0 then Some (EC_ERROR_MAILBOX_OUT_OF_SEND_BUFFERS, m)
                else (let (counter, m) = next_counter i m
                      in do {
                        d \<leftarrow> fill counter (data_of m e);
                        Some (EC_OK, mbx_enqueue_head en i e (set_data e d m)) })
            | (ret, None, m) \<Rightarrow> Some (EC_ERROR_MAILBOX_OUT_OF_SEND_BUFFERS, m)))"

section \<open>Reading and writing objects\<close>

text \<open>
  What \<^verbatim>\<open>ec_coe_sdo_read\<close> does with a message: the caller's buffer, its length and the abort
  code.
\<close>

fun sdo_read_answer :: "bytes \<Rightarrow> int \<times> bytes \<times> nat \<times> u32 \<Rightarrow> (int \<times> bytes \<times> nat \<times> u32) option" where
  "sdo_read_answer d (ret, buf, len, abort_code) =
     (if coe_service d = EC_COE_SDOREQ \<and> sdo_command d = EC_COE_SDO_ABORT_REQ
      then Some (EC_ERROR_MAILBOX_ABORT, buf, len, sdo_abort_code d)
      else if coe_service d = EC_COE_SDORES
      then (let (off, n) = (if sdo_transfer_type d then (12, 4 - sdo_data_set_size d)
                            else (16, unat (sdo_complete_size d)))
            in if len < n then Some (EC_ERROR_MAILBOX_BUFFER_TOO_SMALL, buf, n, 0)
               else do { v \<leftarrow> read_at off n d; buf \<leftarrow> write_at 0 v buf; Some (EC_OK, buf, n, 0) })
      else Some (EC_ERROR_MAILBOX_READ, buf, len, abort_code))"

definition ec_coe_sdo_read ::
  "'s mbx_env \<Rightarrow> ('s, 'd) mops \<Rightarrow> nat \<Rightarrow> u16 \<Rightarrow> u8 \<Rightarrow> int \<Rightarrow> bytes \<Rightarrow> nat \<Rightarrow> ('s, 'd) mmaster \<Rightarrow>
   ((int \<times> bytes \<times> nat \<times> u32) \<times> ('s, 'd) mmaster) option" where
  "ec_coe_sdo_read en o' i index sub_index complete buf len m =
     (if i \<ge> m_slave_cnt m then Some ((EC_ERROR_SLAVE_NOT_FOUND, buf, len, 0), m)
      else coe_locked en i (EC_ERROR_UNAVAILABLE, buf, len, 0) (\<lambda>m. do {
        (ret, m) \<leftarrow> coe_request en i (\<lambda>counter d. Some (sdo_request EC_SDO_NORMAL_HDR_LEN counter
            (sdo_flags False False 0 complete EC_COE_SDO_UPLOAD_REQ) index sub_index d)) m;
        if ret \<noteq> EC_OK then Some ((ret, buf, len, 0), m)
        else coe_answers en o' i sdo_read_answer (EC_ERROR_MAILBOX_TIMEOUT, buf, len, 0) m }) m)"

fun sdo_write_answer :: "bytes \<Rightarrow> int \<times> u32 \<Rightarrow> (int \<times> u32) option" where
  "sdo_write_answer d (ret, abort_code) =
     Some (if coe_service d = EC_COE_SDOREQ \<and> sdo_command d = EC_COE_SDO_ABORT_REQ
           then (EC_ERROR_MAILBOX_ABORT, sdo_abort_code d)
           else if coe_service d = EC_COE_SDORES then (EC_OK, abort_code)
           else (EC_ERROR_MAILBOX_READ, abort_code))"

definition ec_coe_sdo_write_expedited ::
  "'s mbx_env \<Rightarrow> ('s, 'd) mops \<Rightarrow> nat \<Rightarrow> u16 \<Rightarrow> u8 \<Rightarrow> int \<Rightarrow> bytes \<Rightarrow> nat \<Rightarrow> ('s, 'd) mmaster \<Rightarrow>
   ((int \<times> u32) \<times> ('s, 'd) mmaster) option" where
  "ec_coe_sdo_write_expedited en o' i index sub_index complete buf len m =
     (if i \<ge> m_slave_cnt m then Some ((EC_ERROR_SLAVE_NOT_FOUND, 0), m)
      else coe_locked en i (EC_ERROR_UNAVAILABLE, 0) (\<lambda>m. do {
        (ret, m) \<leftarrow> coe_request en i (\<lambda>counter d. do {
            v \<leftarrow> read_at 0 len buf;
            write_at 12 v (sdo_request EC_SDO_NORMAL_HDR_LEN counter
              (sdo_flags True True (4 - len) complete EC_COE_SDO_DOWNLOAD_REQ) index sub_index d) }) m;
        if ret \<noteq> EC_OK then Some ((ret, 0), m)
        else coe_answers en o' i sdo_write_answer (EC_ERROR_MAILBOX_TIMEOUT, 0) m }) m)"

text \<open>
  The segments behind the first message. The loop goes on whatever the answer to a segment
  was; only without a buffer it ends. \<open>pos\<close> is the place in the caller's data.
\<close>

definition sdo_segments_body ::
  "'s mbx_env \<Rightarrow> ('s, 'd) mops \<Rightarrow> nat \<Rightarrow> bytes \<Rightarrow>
   (int \<times> u32) \<times> nat \<times> nat \<times> nat \<times> bool \<times> ('s, 'd) mmaster \<Rightarrow>
   (((int \<times> u32) \<times> nat \<times> nat \<times> nat \<times> bool \<times> ('s, 'd) mmaster) + ((int \<times> u32) \<times> ('s, 'd) mmaster)) option" where
  "sdo_segments_body en o' i buf = (\<lambda>((ret, abort_code), rest_len, pos, seg_len, toggle, m).
     if rest_len = 0 then Some (Inr ((ret, abort_code), m))
     else (case ec_mbx_get_free_send_buffer en i None m of
             (r, Some e, m) \<Rightarrow>
               if r \<noteq> 0 then Some (Inr ((EC_ERROR_MAILBOX_OUT_OF_SEND_BUFFERS, abort_code), m))
               else (let (counter, m) = next_counter i m;
                         (len, unused, seg_len) =
                           (if rest_len < seg_len
                            then (if rest_len < 7 then (EC_SDO_NORMAL_HDR_LEN, 7 - rest_len, rest_len)
                                  else (EC_SDO_SEG_HDR_LEN + rest_len, 0, rest_len))
                            else (EC_SDO_SEG_HDR_LEN + seg_len, 0, seg_len))
                     in do {
                       v \<leftarrow> read_at pos seg_len buf;
                       d \<leftarrow> write_at 9 v (seg_request len counter
                              (seg_flags unused toggle EC_COE_SDO_DOWNLOAD_SEQ_REQ) (data_of m e));
                       ((ret, abort_code), m) \<leftarrow> coe_answers en o' i sdo_write_answer
                          (EC_ERROR_MAILBOX_TIMEOUT, abort_code) (mbx_enqueue_head en i e (set_data e d m));
                       Some (Inl ((ret, abort_code), rest_len - seg_len, pos + seg_len, seg_len, \<not> toggle, m)) })
           | (r, None, m) \<Rightarrow> Some (Inr ((EC_ERROR_MAILBOX_OUT_OF_SEND_BUFFERS, abort_code), m))))"

text \<open>\<open>max_len\<close> is computed with 32 bits.\<close>

definition ec_coe_sdo_write_normal ::
  "'s mbx_env \<Rightarrow> ('s, 'd) mops \<Rightarrow> nat \<Rightarrow> u16 \<Rightarrow> u8 \<Rightarrow> int \<Rightarrow> bytes \<Rightarrow> nat \<Rightarrow> ('s, 'd) mmaster \<Rightarrow>
   ((int \<times> u32) \<times> ('s, 'd) mmaster) option" where
  "ec_coe_sdo_write_normal en o' i index sub_index complete buf len m =
     (if i \<ge> m_slave_cnt m then Some ((EC_ERROR_SLAVE_NOT_FOUND, 0), m)
      else coe_locked en i (EC_ERROR_UNAVAILABLE, 0) (\<lambda>m.
        let max_len = unat (ucast (sm_len (sl_sm (slv m i) ! 0)) - 0x10 :: u32);
            seg_len = (if len > max_len then max_len else len)
        in do {
          (ret, m) \<leftarrow> coe_request en i (\<lambda>counter d. do {
              v \<leftarrow> read_at 0 seg_len buf;
              write_at 16 v (put_at 12 (le32 (of_nat len)) (sdo_request (EC_SDO_NORMAL_HDR_LEN + seg_len) counter
                (sdo_flags True False 0 complete EC_COE_SDO_DOWNLOAD_REQ) index sub_index d)) }) m;
          if ret \<noteq> EC_OK then Some ((ret, 0), m)
          else do {
            ((ret, abort_code), m) \<leftarrow> coe_answers en o' i sdo_write_answer (EC_ERROR_MAILBOX_TIMEOUT, 0) m;
            if ret \<noteq> EC_OK then Some ((ret, abort_code), m)
            else loop_opt (o_fuel o') (sdo_segments_body en o' i buf)
                   ((ret, abort_code), len - seg_len, seg_len,
                    seg_len + (EC_SDO_NORMAL_HDR_LEN - EC_SDO_SEG_HDR_LEN), True, m) } }) m)"

definition ec_coe_sdo_write ::
  "'s mbx_env \<Rightarrow> ('s, 'd) mops \<Rightarrow> nat \<Rightarrow> u16 \<Rightarrow> u8 \<Rightarrow> int \<Rightarrow> bytes \<Rightarrow> nat \<Rightarrow> ('s, 'd) mmaster \<Rightarrow>
   ((int \<times> u32) \<times> ('s, 'd) mmaster) option" where
  "ec_coe_sdo_write en o' i index sub_index complete buf len m =
     (if len \<le> 4 \<and> complete = 0 then ec_coe_sdo_write_expedited en o' i index sub_index complete buf len m
      else ec_coe_sdo_write_normal en o' i index sub_index complete buf len m)"

end
