(* ===== verification/Coe_Info.thy ===== *)
theory Coe_Info
  imports Coe
begin

text \<open>
  \<^verbatim>\<open>src/coe.c\<close>: the object dictionary of a slave, the mapping of its process data, and its
  emergency messages.
\<close>

section \<open>Texts of error codes\<close>

definition sdo_info_errors :: "(u32 \<times> string) list" where
  "sdo_info_errors = [
     (0x05030000, ''Toggle bit not changed''),
     (0x05040000, ''SDO protocol timeout''),
     (0x05040001, ''Client/Server command specifier not valid or unknown''),
     (0x05040005, ''Out of memory''),
     (0x06010000, ''Unsupported access to an object''),
     (0x06010001, ''Attempt to read to a write only object''),
     (0x06010002, ''Attempt to write to a read only object''),
     (0x06010003, ''Subindex cannot be written, SI0 must be 0 for write access''),
     (0x06010004, ''SDO Complete access not supported for objects of variable length such as ENUM object types''),
     (0x06010005, ''Object length exceeds mailbox size''),
     (0x06010006, ''Object mapped to RxPDO, SDO Download blocked''),
     (0x06020000, ''The object does not exist in the object directory''),
     (0x06040041, ''The object can not be mapped into the PDO''),
     (0x06040042, ''The number and length of the objects to be mapped would exceed the PDO length''),
     (0x06040043, ''General parameter incompatibility reason''),
     (0x06040047, ''General internal incompatibility in the device''),
     (0x06060000, ''Access failed due to a hardware error''),
     (0x06070010, ''Data type does not match, length of service parameter does not match''),
     (0x06070012, ''Data type does not match, length of service parameter too high''),
     (0x06070013, ''Data type does not match, length of service parameter too low''),
     (0x06090011, ''Subindex does not exist''),
     (0x06090030, ''Value range of parameter exceeded (only for write access)''),
     (0x06090031, ''Value of parameter written too high''),
     (0x06090032, ''Value of parameter written too low''),
     (0x06090036, ''Maximum value is less than minimum value''),
     (0x08000000, ''General error''),
     (0x08000020, ''Data cannot be transferred or stored to the application''),
     (0x08000021, ''Data cannot be transferred or stored to the application because of local control''),
     (0x08000022, ''Data cannot be transferred or stored to the application because of the present device state''),
     (0x08000023, ''Object dictionary dynamic generation fails or no object dictionary is present'')]"

definition get_sdo_info_error_string :: "u32 \<Rightarrow> string" where
  "get_sdo_info_error_string errorcode =
     (case map_of sdo_info_errors errorcode of None \<Rightarrow> ''UNKNOWN ERROR'' | Some t \<Rightarrow> t)"

section \<open>The list of objects\<close>

text \<open>
  A message with a fragment of the list. The state: result, bytes so far, length and contents
  of the caller's buffer. The lengths are computed with 32 bits.
\<close>

definition odlist_fragment :: "bytes \<Rightarrow> int \<times> nat \<times> nat \<times> bytes \<Rightarrow> (int \<times> nat \<times> nat \<times> bytes) option" where
  "odlist_fragment d = (\<lambda>(ret, val, len, buf).
     let l = (ucast (hdr_length d) :: u32);
         (ret, len) =
           (if ret = EC_OK \<and> val = 0
            then (let od_len = unat ((l - 8) + ucast (sdo_info_fragments_left d) * (l - 6))
                  in (if len < od_len then EC_ERROR_MAILBOX_BUFFER_TOO_SMALL else EC_OK, od_len))
            else (ret, len))
     in if ret \<noteq> EC_OK then Some (ret, val, len, buf)
        else (let from = (if val = 0 then 14 else 12);
                  act_len = (if val = 0 then unat (l - 8) else unat (l - 6));
                  act_len = (if val + act_len > len then len - val else act_len)
              in do {
                v \<leftarrow> read_at from act_len d;
                buf \<leftarrow> write_at val v buf;
                Some (ret, val + act_len, len, buf) }))"

text \<open>Without a message the number of fragments that are left stays what it was.\<close>

definition odlist_body ::
  "'s mbx_env \<Rightarrow> ('s, 'd) mops \<Rightarrow> nat \<Rightarrow> (int \<times> nat \<times> nat \<times> bytes) \<times> u16 \<times> ('s, 'd) mmaster \<Rightarrow>
   (((int \<times> nat \<times> nat \<times> bytes) \<times> u16 \<times> ('s, 'd) mmaster) + ((int \<times> nat \<times> nat \<times> bytes) \<times> ('s, 'd) mmaster)) option" where
  "odlist_body en o' i = (\<lambda>(st, frag_left, m). do {
     (e, m) \<leftarrow> ec_coe_wait en o' i m;
     (st, frag_left, m) \<leftarrow>
       (case e of
          None \<Rightarrow> Some (st, frag_left, m)
        | Some e \<Rightarrow> map_option (\<lambda>st. (st, sdo_info_fragments_left (data_of m e), return_free_recv en e m))
                      (odlist_fragment (data_of m e) st));
     Some (if frag_left \<noteq> 0 then Inl (st, frag_left, m) else Inr (st, m)) })"

definition ec_coe_odlist_read ::
  "'s mbx_env \<Rightarrow> ('s, 'd) mops \<Rightarrow> nat \<Rightarrow> bytes \<Rightarrow> nat \<Rightarrow> ('s, 'd) mmaster \<Rightarrow>
   ((int \<times> bytes \<times> nat) \<times> ('s, 'd) mmaster) option" where
  "ec_coe_odlist_read en o' i buf len m =
     (if i \<ge> m_slave_cnt m then Some ((EC_ERROR_SLAVE_NOT_FOUND, buf, len), m)
      else coe_locked en i (EC_ERROR_UNAVAILABLE, buf, len) (\<lambda>m. do {
        (ret, m) \<leftarrow> coe_request en i (\<lambda>counter d. Some (info_request 8 counter EC_COE_SDO_INFO_ODLIST_REQ (le16 1) d)) m;
        if ret \<noteq> EC_OK then Some ((ret, buf, len), m)
        else do {
          ((ret, val, len, buf), m) \<leftarrow> loop_opt (o_fuel o') (odlist_body en o' i) ((EC_OK, 0, len, buf), 0, m);
          Some ((ret, buf, if ret = EC_OK then val else len), m) } }) m)"

section \<open>Descriptions\<close>

record ec_coe_sdo_desc =
  cd_data_type :: u16
  cd_obj_code :: u8
  cd_max_subindices :: u8
  cd_name :: bytes
  cd_name_len :: nat

record ec_coe_sdo_entry_desc =
  ce_value_info :: u8
  ce_data_type :: u16
  ce_bit_length :: u16
  ce_obj_access :: u16
  ce_data :: bytes
  ce_data_len :: nat

definition zero_desc :: ec_coe_sdo_desc where
  "zero_desc = \<lparr>cd_data_type = 0, cd_obj_code = 0, cd_max_subindices = 0,
     cd_name = replicate CANOPEN_MAXNAME 0, cd_name_len = 0\<rparr>"

definition zero_entry_desc :: ec_coe_sdo_entry_desc where
  "zero_entry_desc = \<lparr>ce_value_info = 0, ce_data_type = 0, ce_bit_length = 0, ce_obj_access = 0,
     ce_data = replicate CANOPEN_MAXDATA 0, ce_data_len = 0\<rparr>"

text \<open>The answers; another opcode leaves everything as it was. The error code is the caller's variable.\<close>

fun desc_answer :: "bytes \<Rightarrow> int \<times> ec_coe_sdo_desc \<times> u32 \<Rightarrow> (int \<times> ec_coe_sdo_desc \<times> u32) option" where
  "desc_answer d (ret, desc, error_code) =
     (if coe_service d \<noteq> EC_COE_SDOINFO then Some (EC_ERROR_MAILBOX_READ, zero_desc, error_code)
      else if sdo_info_opcode d = EC_COE_SDO_INFO_GET_OBJECT_DESC_RESP
      then (let n = min CANOPEN_MAXNAME (unat (ucast (hdr_length d) - 6 - 6 :: u32))
            in do {
              v \<leftarrow> read_at 18 n d;
              name \<leftarrow> write_at 0 v (cd_name desc);
              Some (EC_OK, \<lparr>cd_data_type = u16_of (slice 14 2 d), cd_obj_code = d ! 17,
                cd_max_subindices = d ! 16, cd_name = name, cd_name_len = n\<rparr>, error_code) })
      else if sdo_info_opcode d = EC_COE_SDO_INFO_ERROR_REQUEST
      then Some (EC_ERROR_MAILBOX_ABORT, desc, u32_of (slice 12 4 d))
      else Some (ret, desc, error_code))"

definition ec_coe_sdo_desc_read ::
  "'s mbx_env \<Rightarrow> ('s, 'd) mops \<Rightarrow> nat \<Rightarrow> u16 \<Rightarrow> ec_coe_sdo_desc \<Rightarrow> u32 \<Rightarrow> ('s, 'd) mmaster \<Rightarrow>
   ((int \<times> ec_coe_sdo_desc \<times> u32) \<times> ('s, 'd) mmaster) option" where
  "ec_coe_sdo_desc_read en o' i index desc error_code m =
     (if i \<ge> m_slave_cnt m then Some ((EC_ERROR_SLAVE_NOT_FOUND, desc, error_code), m)
      else coe_locked en i (EC_ERROR_UNAVAILABLE, desc, error_code) (\<lambda>m. do {
        (ret, m) \<leftarrow> coe_request en i
          (\<lambda>counter d. Some (info_request 8 counter EC_COE_SDO_INFO_GET_OBJECT_DESC_REQ (le16 index) d)) m;
        if ret \<noteq> EC_OK then Some ((ret, desc, error_code), m)
        else coe_answers en o' i desc_answer (EC_OK, desc, error_code) m }) m)"

fun entry_desc_answer ::
  "bytes \<Rightarrow> int \<times> ec_coe_sdo_entry_desc \<times> u32 \<Rightarrow> (int \<times> ec_coe_sdo_entry_desc \<times> u32) option" where
  "entry_desc_answer d (ret, desc, error_code) =
     (if coe_service d \<noteq> EC_COE_SDOINFO then Some (EC_ERROR_MAILBOX_READ, zero_entry_desc, error_code)
      else if sdo_info_opcode d = EC_COE_SDO_INFO_GET_ENTRY_DESC_RESP
      then (let n = min CANOPEN_MAXDATA (unat (ucast (hdr_length d) - 6 - 10 :: u32))
            in do {
              v \<leftarrow> read_at 22 n d;
              data \<leftarrow> write_at 0 v (ce_data desc);
              Some (EC_OK, \<lparr>ce_value_info = d ! 15, ce_data_type = u16_of (slice 16 2 d),
                ce_bit_length = u16_of (slice 18 2 d), ce_obj_access = u16_of (slice 20 2 d),
                ce_data = data, ce_data_len = n\<rparr>, error_code) })
      else if sdo_info_opcode d = EC_COE_SDO_INFO_ERROR_REQUEST
      then Some (EC_ERROR_MAILBOX_ABORT, desc, u32_of (slice 12 4 d))
      else Some (ret, desc, error_code))"

definition ec_coe_sdo_entry_desc_read ::
  "'s mbx_env \<Rightarrow> ('s, 'd) mops \<Rightarrow> nat \<Rightarrow> u16 \<Rightarrow> u8 \<Rightarrow> u8 \<Rightarrow> ec_coe_sdo_entry_desc \<Rightarrow> u32 \<Rightarrow>
   ('s, 'd) mmaster \<Rightarrow> ((int \<times> ec_coe_sdo_entry_desc \<times> u32) \<times> ('s, 'd) mmaster) option" where
  "ec_coe_sdo_entry_desc_read en o' i index sub_index value_info desc error_code m =
     (if i \<ge> m_slave_cnt m then Some ((EC_ERROR_SLAVE_NOT_FOUND, desc, error_code), m)
      else coe_locked en i (EC_ERROR_UNAVAILABLE, desc, error_code) (\<lambda>m. do {
        (ret, m) \<leftarrow> coe_request en i (\<lambda>counter d. Some (info_request 10 counter
            EC_COE_SDO_INFO_GET_ENTRY_DESC_REQ (le16 index @ [sub_index, value_info]) d)) m;
        if ret \<noteq> EC_OK then Some ((ret, desc, error_code), m)
        else coe_answers en o' i entry_desc_answer (EC_ERROR_MAILBOX_READ, desc, error_code) m }) m)"

section \<open>The mapping of the process data\<close>

text \<open>
  The loops over the sub indices 1 to \<open>cnt\<close>: the counter is a \<^verbatim>\<open>osal_uint8_t\<close>, which never
  exceeds 255. \<open>n\<close> bounds the rounds.
\<close>

fun sub_indices :: "nat \<Rightarrow> (u8 \<Rightarrow> 'a \<Rightarrow> 'a option) \<Rightarrow> u8 \<Rightarrow> u8 \<Rightarrow> 'a \<Rightarrow> 'a option" where
  "sub_indices 0 f cnt i a = None"
| "sub_indices (Suc n) f cnt i a =
     (if i \<le> cnt then Option.bind (f i a) (sub_indices n f cnt (i + 1)) else Some a)"

text \<open>Read an object of \<open>n\<close> bytes: the result code, the abort code, the bytes.\<close>

definition map_read ::
  "'s mbx_env \<Rightarrow> ('s, 'd) mops \<Rightarrow> nat \<Rightarrow> u16 \<Rightarrow> u8 \<Rightarrow> bytes \<Rightarrow> ('s, 'd) mmaster \<Rightarrow>
   (int \<times> u32 \<times> bytes \<times> ('s, 'd) mmaster) option" where
  "map_read en o' i index sub_index buf m = do {
     ((ret, buf, _, abort_code), m) \<leftarrow> ec_coe_sdo_read en o' i index sub_index 0 buf (length buf) m;
     Some (ret, abort_code, buf, m) }"

text \<open>The entries of the PDO \<open>entry_idx\<close>: the state is the number of bits, the result code and the master.\<close>

definition map_pdo ::
  "'s mbx_env \<Rightarrow> ('s, 'd) mops \<Rightarrow> nat \<Rightarrow> u16 \<Rightarrow> u8 \<Rightarrow> u32 \<times> int \<times> ('s, 'd) mmaster \<Rightarrow>
   (u32 \<times> int \<times> ('s, 'd) mmaster) option" where
  "map_pdo en o' i entry_idx cnt = sub_indices (o_fuel o') (\<lambda>j (bit_len, _, m). do {
     (ret, _, entry, m) \<leftarrow> map_read en o' i entry_idx j (o_uninit o' 4) m;
     Some (if ret \<noteq> 0 then bit_len else bit_len + (u32_of entry AND 0xFF), ret, m) }) cnt 1"

text \<open>The PDOs that are assigned to the sync manager in the object \<open>idx\<close>.\<close>

definition map_pdos ::
  "'s mbx_env \<Rightarrow> ('s, 'd) mops \<Rightarrow> nat \<Rightarrow> u16 \<Rightarrow> u8 \<Rightarrow> u32 \<times> int \<times> u8 \<times> ('s, 'd) mmaster \<Rightarrow>
   (u32 \<times> int \<times> u8 \<times> ('s, 'd) mmaster) option" where
  "map_pdos en o' i idx cnt = sub_indices (o_fuel o') (\<lambda>k (bit_len, _, cnt2, m). do {
     (ret, _, pdo, m) \<leftarrow> map_read en o' i idx k (o_uninit o' 2) m;
     if ret \<noteq> 0 \<or> u16_of pdo = 0 then Some (bit_len, ret, cnt2, m)
     else do {
       (ret, _, c, m) \<leftarrow> map_read en o' i (u16_of pdo) 0 [cnt2] m;
       if ret \<noteq> 0 then Some (bit_len, ret, c ! 0, m)
       else do {
         (bit_len, ret, m) \<leftarrow> map_pdo en o' i (u16_of pdo) (c ! 0) (bit_len, ret, m);
         Some (bit_len, ret, c ! 0, m) } } }) cnt 1"

text \<open>A sync manager gets a length, and an address if it has none.\<close>

definition coe_map_sm :: "nat \<Rightarrow> nat \<Rightarrow> u32 \<Rightarrow> u16 \<Rightarrow> ('s, 'd) mmaster \<Rightarrow> u16 \<times> ('s, 'd) mmaster" where
  "coe_map_sm i sm_idx bit_len start_adr m =
     (if bit_len = 0 \<or> unat (sl_sm_ch (slv m i)) \<le> sm_idx then (start_adr, m)
      else (let len = (ucast ((bit_len + 7) div 8) :: u16);
                old = sm_adr (sl_sm (slv m i) ! sm_idx);
                flags = (if sm_idx = 2 then 0x10064 else 0x10020)
            in (if old = 0 then start_adr + len * 3 else start_adr,
                slv_upd i (\<lambda>s. s\<lparr>sl_sm := (sl_sm s)[sm_idx :=
                  \<lparr>sm_adr = (if old = 0 then start_adr else old), sm_len = len, sm_flags = flags\<rparr>]\<rparr>) m)))"

definition map_sync_manager ::
  "'s mbx_env \<Rightarrow> ('s, 'd) mops \<Rightarrow> nat \<Rightarrow> nat \<Rightarrow> int \<times> u16 \<times> ('s, 'd) mmaster \<Rightarrow>
   (int \<times> u16 \<times> ('s, 'd) mmaster) option" where
  "map_sync_manager en o' i sm_idx = (\<lambda>(_, start_adr, m). do {
     let idx = (of_nat (0x1c10 + sm_idx) :: u16);
     (ret, abort_code, cnt, m) \<leftarrow> map_read en o' i idx 0 [0] m;
     if ret \<noteq> 0
     then Some (if abort_code = 0x06020000
                then (0, start_adr, if unat (sl_sm_ch (slv m i)) > sm_idx
                                    then slv_upd i (\<lambda>s. s\<lparr>sl_sm := (sl_sm s)[sm_idx :=
                                           (sl_sm s ! sm_idx)\<lparr>sm_len := 0, sm_flags := 0\<rparr>]\<rparr>) m else m)
                else (ret, start_adr, m))
     else do {
       (bit_len, ret, _, m) \<leftarrow> map_pdos en o' i idx (cnt ! 0) (0, ret, 0, m);
       let (start_adr, m) = coe_map_sm i sm_idx bit_len start_adr m;
       Some (ret, start_adr, m) } })"

definition ec_coe_generate_mapping ::
  "'s mbx_env \<Rightarrow> ('s, 'd) mops \<Rightarrow> nat \<Rightarrow> ('s, 'd) mmaster \<Rightarrow> (int \<times> ('s, 'd) mmaster) option" where
  "ec_coe_generate_mapping en o' i m =
     (if i \<ge> m_slave_cnt m then Some (EC_ERROR_SLAVE_NOT_FOUND, m)
      else if ec_mbx_check m i EC_EEPROM_MBX_COE \<noteq> EC_OK then Some (EC_ERROR_MAILBOX_NOT_SUPPORTED_COE, m)
      else (let sm = (if sm_adr (sl_sm (slv m i) ! 0) > sm_adr (sl_sm (slv m i) ! 1)
                      then sl_sm (slv m i) ! 0 else sl_sm (slv m i) ! 1)
            in do {
              a \<leftarrow> map_sync_manager en o' i 2 (EC_ERROR_MAILBOX_TIMEOUT, sm_adr sm + sm_len sm, m);
              (ret, _, m) \<leftarrow> map_sync_manager en o' i 3 a;
              Some (ret, m) }))"

section \<open>Emergency messages\<close>

text \<open>The message in the receive buffer \<open>e\<close> is copied into the ring, without its headers.\<close>

definition ec_coe_emergency_enqueue ::
  "'s mbx_env \<Rightarrow> ('s, 'd) mops \<Rightarrow> nat \<Rightarrow> nat \<Rightarrow> ('s, 'd) mmaster \<Rightarrow> ('s, 'd) mmaster" where
  "ec_coe_emergency_enqueue en o' i e m =
     (let d = data_of m e;
          msg_len = min LEC_MAX_COE_EMERGENCY_MSG_LEN (unat (ucast (hdr_length d) - 2 :: u32));
          (r, dev) = me_lock en i (x_dev (m_bus m));
          m = sys_upd (\<lambda>x. x\<lparr>x_dev := dev\<rparr>) m;
          m = (if r \<noteq> OSAL_OK then m
               else (let (now, s) = o_now o' (m_bus m);
                         m = coe_upd i (\<lambda>c.
                           let w = co_next_write c;
                               w' = (w + 1) mod LEC_MAX_COE_EMERGENCIES
                           in c\<lparr>co_next_write := w',
                                co_next_read := (if w' = co_next_read c
                                  then (co_next_read c + 1) mod LEC_MAX_COE_EMERGENCIES else co_next_read c),
                                co_emergencies := (co_emergencies c)[w := \<lparr>em_timestamp = now, em_msg_len = msg_len,
                                  em_msg = put_at 0 (slice 8 msg_len d) (em_msg (co_emergencies c ! w))\<rparr>]\<rparr>) (m\<lparr>m_bus := s\<rparr>)
                     in sys_upd (\<lambda>x. x\<lparr>x_dev := me_unlock en i (x_dev x)\<rparr>) m))
      in return_free_recv en e m)"

text \<open>\<open>msg\<close> is the caller's message; \<^term>\<open>None\<close> is an access behind the end of the ring.\<close>

definition ec_coe_emergency_get_next ::
  "'s mbx_env \<Rightarrow> nat \<Rightarrow> emergency_message \<Rightarrow> ('s, 'd) mmaster \<Rightarrow>
   (int \<times> emergency_message \<times> ('s, 'd) mmaster) option" where
  "ec_coe_emergency_get_next en i msg m =
     (if i \<ge> m_slave_cnt m then Some (EC_ERROR_SLAVE_NOT_FOUND, msg, m)
      else (let (r, dev) = me_lock en i (x_dev (m_bus m));
                m = sys_upd (\<lambda>x. x\<lparr>x_dev := dev\<rparr>) m
            in if r \<noteq> OSAL_OK then Some (EC_ERROR_UNAVAILABLE, msg, m)
               else do {
                 (msg, m) \<leftarrow>
                   (let c = mx_coe (mbx_of m i)
                    in if co_next_write c = co_next_read c then Some (msg, m)
                       else if co_next_read c \<ge> length (co_emergencies c) then None
                       else (let t = co_emergencies c ! co_next_read c
                             in Some (msg\<lparr>em_timestamp := em_timestamp t, em_msg := em_msg t\<rparr>,
                                      coe_upd i (\<lambda>c. c\<lparr>co_next_read := co_next_read c + 1\<rparr>) m)));
                 Some (EC_OK, msg, sys_upd (\<lambda>x. x\<lparr>x_dev := me_unlock en i (x_dev x)\<rparr>) m) }))"

section \<open>Messages from the handler\<close>

definition ec_coe_enqueue ::
  "'s mbx_env \<Rightarrow> ('s, 'd) mops \<Rightarrow> nat \<Rightarrow> nat \<Rightarrow> ('s, 'd) mmaster \<Rightarrow> ('s, 'd) mmaster" where
  "ec_coe_enqueue en o' i e m =
     (let service = coe_service (data_of m e)
      in if service = EC_COE_EMERGENCY then ec_coe_emergency_enqueue en o' i e m
         else if 1 \<le> service \<and> service \<le> 8
         then coe_upd i (\<lambda>c. c\<lparr>co_recv_pool := pool_put (me_os en) (co_recv_pool c) e\<rparr>) m
         else return_free_recv en e m)"

end
