(* ===== verification/Coe_Master.thy ===== *)
theory Coe_Master
  imports Coe_Info
begin

text \<open>
  \<^verbatim>\<open>src/coe_master.c\<close>: the object dictionary of the master itself, which describes the process
  data groups and the slaves. The dictionary with the static data of its objects is a list that is
  passed explicitly; its last element in the source, with index 0xFFFF, is the end of the list
  here. \<^term>\<open>None\<close> is an access outside an array. No object of the source has a callback for
  writing, so that there is none here.
\<close>

section \<open>Descriptions\<close>

definition DEFTYPE_BOOLEAN :: u16 where "DEFTYPE_BOOLEAN = 0x0001"
definition DEFTYPE_INTEGER32 :: u16 where "DEFTYPE_INTEGER32 = 0x0004"
definition DEFTYPE_UNSIGNED8 :: u16 where "DEFTYPE_UNSIGNED8 = 0x0005"
definition DEFTYPE_UNSIGNED16 :: u16 where "DEFTYPE_UNSIGNED16 = 0x0006"
definition DEFTYPE_UNSIGNED32 :: u16 where "DEFTYPE_UNSIGNED32 = 0x0007"
definition DEFTYPE_VISIBLESTRING :: u16 where "DEFTYPE_VISIBLESTRING = 0x0009"
definition DEFTYPE_OCTETSTRING :: u16 where "DEFTYPE_OCTETSTRING = 0x000A"
definition DEFTYPE_BYTE :: u16 where "DEFTYPE_BYTE = 0x001E"
definition DEFTYPE_WORD :: u16 where "DEFTYPE_WORD = 0x001F"
definition DEFTYPE_DWORD :: u16 where "DEFTYPE_DWORD = 0x0020"
definition DEFTYPE_RECORD :: u16 where "DEFTYPE_RECORD = 0x002A"
definition DEFTYPE_ARRAY_OF_INT :: u16 where "DEFTYPE_ARRAY_OF_INT = 0x0260"

definition OBJCODE_VAR :: u8 where "OBJCODE_VAR = 0x07"
definition OBJCODE_ARR :: u8 where "OBJCODE_ARR = 0x08"
definition OBJCODE_REC :: u8 where "OBJCODE_REC = 0x09"

definition ACCESS_READWRITE :: u16 where "ACCESS_READWRITE = 0x003F"
definition ACCESS_READ :: u16 where "ACCESS_READ = 0x0007"
definition ACCESS_WRITE :: u16 where "ACCESS_WRITE = 0x0038"

text \<open>A string in an array of \<open>n\<close> bytes, filled up with zeros.\<close>

definition ascii :: "string \<Rightarrow> bytes" where "ascii s = map of_char s"

definition c_array :: "nat \<Rightarrow> string \<Rightarrow> bytes" where
  "c_array n s = ascii s @ replicate (n - length s) 0"

definition c_strlen :: "bytes \<Rightarrow> nat" where "c_strlen bs = length (takeWhile (\<lambda>b. b \<noteq> 0) bs)"

definition obj_desc :: "u16 \<Rightarrow> u8 \<Rightarrow> u8 \<Rightarrow> string \<Rightarrow> nat \<Rightarrow> ec_coe_sdo_desc" where
  "obj_desc data_type obj_code max_subindices name name_len =
     \<lparr>cd_data_type = data_type, cd_obj_code = obj_code, cd_max_subindices = max_subindices,
      cd_name = c_array CANOPEN_MAXNAME name, cd_name_len = name_len\<rparr>"

definition entry_desc :: "u16 \<Rightarrow> u16 \<Rightarrow> u16 \<Rightarrow> string \<Rightarrow> nat \<Rightarrow> ec_coe_sdo_entry_desc" where
  "entry_desc data_type bit_length obj_access data data_len =
     \<lparr>ce_value_info = 0, ce_data_type = data_type, ce_bit_length = bit_length, ce_obj_access = obj_access,
      ce_data = c_array CANOPEN_MAXDATA data, ce_data_len = data_len\<rparr>"

definition no_entry :: ec_coe_sdo_entry_desc where "no_entry = entry_desc 0 0 0 '''' 0"

datatype coe_callback = callback_20nn | callback_20nm | callback_3nnn | callback_8nnn | callback_9nnn |
  callback_Annn | callback_F0nn

record coe_object =
  ob_index :: u16
  ob_index_mask :: u16
  ob_desc :: ec_coe_sdo_desc
  ob_entries :: "ec_coe_sdo_entry_desc list"
  ob_data :: "bytes option"
  ob_read :: "coe_callback option"

definition EC_COE_OBJECT_INDEX_MASK_ALL :: u16 where "EC_COE_OBJECT_INDEX_MASK_ALL = 0xFFFF"

section \<open>The objects\<close>

text \<open>Objects with data of their own. The version of the library comes from the build.\<close>

definition master_0x1000 :: coe_object where
  "master_0x1000 = \<lparr>ob_index = 0x1000, ob_index_mask = EC_COE_OBJECT_INDEX_MASK_ALL,
     ob_desc = obj_desc DEFTYPE_UNSIGNED32 OBJCODE_VAR 0 ''Device Type'' 11,
     ob_entries = [entry_desc DEFTYPE_UNSIGNED32 32 ACCESS_READ ''Device Type'' 11],
     ob_data = Some (le32 0), ob_read = None\<rparr>"

definition LIBETHERCAT_PACKAGE_NAME :: string where "LIBETHERCAT_PACKAGE_NAME = ''libethercat''"
definition HW_VERSION :: string where "HW_VERSION = ''0.0.0''"

text \<open>Objects with a constant string: its end is part of the data, but not of the length.\<close>

definition string_object :: "u16 \<Rightarrow> string \<Rightarrow> nat \<Rightarrow> string \<Rightarrow> coe_object" where
  "string_object index name name_len val = \<lparr>ob_index = index, ob_index_mask = EC_COE_OBJECT_INDEX_MASK_ALL,
     ob_desc = obj_desc DEFTYPE_VISIBLESTRING OBJCODE_VAR 0 name name_len,
     ob_entries = [entry_desc DEFTYPE_VISIBLESTRING (of_nat (length val * 8)) ACCESS_READ name name_len],
     ob_data = Some (ascii val @ [0]), ob_read = None\<rparr>"

definition master_0x1008 :: coe_object where
  "master_0x1008 = string_object 0x1008 ''Device Name'' 11 LIBETHERCAT_PACKAGE_NAME"
definition master_0x1009 :: coe_object where
  "master_0x1009 = string_object 0x1009 ''Manufacturer Hardware Version'' 29 HW_VERSION"
definition master_0x100A :: "string \<Rightarrow> coe_object" where
  "master_0x100A version = string_object 0x100A ''Manufacturer Software Version'' 29 version"

definition master_0x1018 :: coe_object where
  "master_0x1018 = \<lparr>ob_index = 0x1018, ob_index_mask = EC_COE_OBJECT_INDEX_MASK_ALL,
     ob_desc = obj_desc DEFTYPE_RECORD OBJCODE_REC 4 ''Identity'' 8,
     ob_entries = [entry_desc DEFTYPE_UNSIGNED8 8 ACCESS_READ ''Subindex 0'' 10,
       entry_desc DEFTYPE_UNSIGNED32 32 ACCESS_READ ''Vendor ID'' 9,
       entry_desc DEFTYPE_UNSIGNED32 32 ACCESS_READ ''Product Code'' 12,
       entry_desc DEFTYPE_UNSIGNED32 32 ACCESS_READ ''Revision Number'' 15,
       entry_desc DEFTYPE_UNSIGNED32 32 ACCESS_READ ''Serial Number'' 13],
     ob_data = Some (le16 4 @ le32 0x1616 @ le32 0x11BECA7 @ le32 0 @ le32 0), ob_read = None\<rparr>"

definition master_0x20nn :: coe_object where
  "master_0x20nn = \<lparr>ob_index = 0x2000, ob_index_mask = 0xFF01,
     ob_desc = obj_desc DEFTYPE_RECORD OBJCODE_REC 13 ''Configuration Cyclic Group'' 26,
     ob_entries = [entry_desc DEFTYPE_UNSIGNED8 8 ACCESS_READ ''Subindex 0'' 10,
       entry_desc DEFTYPE_DWORD 32 ACCESS_READ ''Logical Address'' 15,
       entry_desc DEFTYPE_UNSIGNED32 32 ACCESS_READ ''Logical Length'' 14,
       entry_desc DEFTYPE_UNSIGNED32 32 ACCESS_READ ''Output Length'' 13,
       entry_desc DEFTYPE_UNSIGNED32 32 ACCESS_READ ''Input Length'' 12,
       entry_desc DEFTYPE_BOOLEAN 8 ACCESS_READ ''Overlapping'' 11,
       entry_desc DEFTYPE_BOOLEAN 8 ACCESS_READ ''Use LRW'' 7,
       entry_desc DEFTYPE_UNSIGNED16 16 ACCESS_READ ''Expected Working Counter LRW'' 28,
       entry_desc DEFTYPE_UNSIGNED16 16 ACCESS_READ ''Expected Working Counter LRD'' 28,
       entry_desc DEFTYPE_UNSIGNED16 16 ACCESS_READ ''Expected Working Counter LWR'' 28,
       entry_desc DEFTYPE_UNSIGNED32 32 ACCESS_READ ''Receive Missed LRW'' 18,
       entry_desc DEFTYPE_UNSIGNED32 32 ACCESS_READ ''Receive Missed LRD'' 18,
       entry_desc DEFTYPE_UNSIGNED32 32 ACCESS_READ ''Receive Missed LWR'' 18,
       entry_desc DEFTYPE_UNSIGNED32 32 ACCESS_READ ''Timer Divisor'' 13],
     ob_data = None, ob_read = Some callback_20nn\<rparr>"

text \<open>The two kinds of lists of slaves, which have a description for all their elements.\<close>

definition list_object :: "u16 \<Rightarrow> u16 \<Rightarrow> string \<Rightarrow> nat \<Rightarrow> coe_callback \<Rightarrow> coe_object" where
  "list_object index mask' name name_len cb = \<lparr>ob_index = index, ob_index_mask = mask',
     ob_desc = obj_desc DEFTYPE_ARRAY_OF_INT OBJCODE_ARR 255 name name_len,
     ob_entries = [entry_desc DEFTYPE_UNSIGNED8 8 ACCESS_READ ''Subindex 0'' 10,
       entry_desc DEFTYPE_UNSIGNED16 16 ACCESS_READ ''Slave'' 5],
     ob_data = None, ob_read = Some cb\<rparr>"

definition master_0x20nm :: coe_object where
  "master_0x20nm = list_object 0x2001 0xFF01 ''Assigned Slaves Cyclic Group'' 28 callback_20nm"

definition master_0x3nnn :: coe_object where
  "master_0x3nnn = \<lparr>ob_index = 0x3000, ob_index_mask = 0xF000,
     ob_desc = obj_desc DEFTYPE_RECORD OBJCODE_REC 13 ''Configuration Distributed Clock Slave'' 37,
     ob_entries = [entry_desc DEFTYPE_UNSIGNED8 8 ACCESS_READ ''Subindex 0'' 10,
       entry_desc DEFTYPE_BOOLEAN 8 ACCESS_READ ''Enabled'' 7,
       entry_desc DEFTYPE_INTEGER32 32 ACCESS_READ ''Next Slave'' 10,
       entry_desc DEFTYPE_INTEGER32 32 ACCESS_READ ''Previous Slave'' 14,
       entry_desc DEFTYPE_UNSIGNED8 8 ACCESS_READ ''Active Ports'' 12,
       entry_desc DEFTYPE_UNSIGNED32 32 ACCESS_READ ''Receive Time Port 0'' 19,
       entry_desc DEFTYPE_UNSIGNED32 32 ACCESS_READ ''Receive Time Port 1'' 19,
       entry_desc DEFTYPE_UNSIGNED32 32 ACCESS_READ ''Receive Time Port 2'' 19,
       entry_desc DEFTYPE_UNSIGNED32 32 ACCESS_READ ''Receive Time Port 3'' 19,
       entry_desc DEFTYPE_UNSIGNED8 8 ACCESS_READ ''Sync Type'' 9,
       entry_desc DEFTYPE_UNSIGNED32 32 ACCESS_READ ''Cycle Time 0'' 12,
       entry_desc DEFTYPE_UNSIGNED32 32 ACCESS_READ ''Cycle Time 1'' 12,
       entry_desc DEFTYPE_INTEGER32 32 ACCESS_READ ''Cycle Shift'' 11,
       entry_desc DEFTYPE_UNSIGNED32 32 ACCESS_READ ''System Delay'' 12],
     ob_data = None, ob_read = Some callback_3nnn\<rparr>"

definition master_0x8nnn :: coe_object where
  "master_0x8nnn = \<lparr>ob_index = 0x8000, ob_index_mask = 0xF000,
     ob_desc = obj_desc DEFTYPE_RECORD OBJCODE_REC 35 ''Configuration Data Slave'' 24,
     ob_entries = [entry_desc DEFTYPE_UNSIGNED8 8 ACCESS_READ ''Subindex 0'' 10,
       entry_desc DEFTYPE_UNSIGNED16 16 ACCESS_READ ''Fixed Station Address'' 21,
       entry_desc DEFTYPE_VISIBLESTRING 8 ACCESS_READ ''Type'' 4,
       entry_desc DEFTYPE_VISIBLESTRING 8 ACCESS_READ ''Name'' 4,
       entry_desc DEFTYPE_UNSIGNED32 32 ACCESS_READ ''Device Type'' 11,
       entry_desc DEFTYPE_DWORD 32 ACCESS_READ ''Vendor Id'' 9,
       entry_desc DEFTYPE_DWORD 32 ACCESS_READ ''Product Code'' 12,
       entry_desc DEFTYPE_UNSIGNED32 32 ACCESS_READ ''Revision Number'' 15,
       entry_desc DEFTYPE_UNSIGNED32 32 ACCESS_READ ''Serial Number'' 13] @ replicate 24 no_entry @
      [entry_desc DEFTYPE_UNSIGNED16 16 ACCESS_READ ''Mailbox Out Size'' 16,
       entry_desc DEFTYPE_UNSIGNED16 16 ACCESS_READ ''Mailbox In Size'' 15,
       entry_desc DEFTYPE_BYTE 8 ACCESS_READ ''Link Status'' 11],
     ob_data = None, ob_read = Some callback_8nnn\<rparr>"

definition master_0x9nnn :: coe_object where
  "master_0x9nnn = \<lparr>ob_index = 0x9000, ob_index_mask = 0xF000,
     ob_desc = obj_desc DEFTYPE_RECORD OBJCODE_REC 32 ''Information Data Slave'' 22,
     ob_entries = [entry_desc DEFTYPE_UNSIGNED8 8 ACCESS_READ ''Subindex 0'' 10,
       entry_desc DEFTYPE_UNSIGNED16 16 ACCESS_READ ''Fixed Station Address'' 21,
       no_entry, no_entry, no_entry,
       entry_desc DEFTYPE_DWORD 32 ACCESS_READ ''Vendor Id'' 9,
       entry_desc DEFTYPE_DWORD 32 ACCESS_READ ''Product Code'' 12,
       entry_desc DEFTYPE_UNSIGNED32 32 ACCESS_READ ''Revision Number'' 15,
       entry_desc DEFTYPE_UNSIGNED32 32 ACCESS_READ ''Serial Number'' 13] @ replicate 23 no_entry @
      [entry_desc DEFTYPE_WORD 16 ACCESS_READ ''DL Status Register'' 18],
     ob_data = None, ob_read = Some callback_9nnn\<rparr>"

definition master_0xAnnn :: coe_object where
  "master_0xAnnn = \<lparr>ob_index = 0xA000, ob_index_mask = 0xF000,
     ob_desc = obj_desc DEFTYPE_RECORD OBJCODE_REC 2 ''Diagnosis Data Slave'' 20,
     ob_entries = [entry_desc DEFTYPE_UNSIGNED8 8 ACCESS_READ ''Subindex 0'' 10,
       entry_desc DEFTYPE_UNSIGNED16 16 ACCESS_READ ''AL Status'' 9,
       entry_desc DEFTYPE_UNSIGNED16 16 ACCESS_READ ''AL Control'' 10],
     ob_data = None, ob_read = Some callback_Annn\<rparr>"

definition master_0xF000 :: coe_object where
  "master_0xF000 = \<lparr>ob_index = 0xF000, ob_index_mask = EC_COE_OBJECT_INDEX_MASK_ALL,
     ob_desc = obj_desc DEFTYPE_RECORD OBJCODE_REC 4 ''Modular Device Profile'' 22,
     ob_entries = [entry_desc DEFTYPE_UNSIGNED8 8 ACCESS_READ ''Subindex 0'' 10,
       entry_desc DEFTYPE_UNSIGNED16 16 ACCESS_READ ''Module Index Distance'' 21,
       entry_desc DEFTYPE_UNSIGNED16 16 ACCESS_READ ''Maximum Number of Modules'' 25,
       entry_desc DEFTYPE_UNSIGNED32 32 ACCESS_READ ''General Configuration'' 21,
       entry_desc DEFTYPE_UNSIGNED32 32 ACCESS_READ ''General Information'' 19],
     ob_data = Some (le16 4 @ le16 1 @ le16 4080 @ le32 0xFF @ le32 0xF1), ob_read = None\<rparr>"

definition master_0xF002 :: coe_object where
  "master_0xF002 = \<lparr>ob_index = 0xF002, ob_index_mask = EC_COE_OBJECT_INDEX_MASK_ALL,
     ob_desc = obj_desc DEFTYPE_RECORD OBJCODE_REC 3 ''Detect Modules Command'' 22,
     ob_entries = [entry_desc DEFTYPE_UNSIGNED8 8 ACCESS_READ ''Subindex 0'' 10,
       entry_desc DEFTYPE_OCTETSTRING 16 ACCESS_READWRITE ''Scan Command Request'' 20,
       entry_desc DEFTYPE_UNSIGNED8 8 ACCESS_READ ''Scan Command Status'' 19,
       entry_desc DEFTYPE_OCTETSTRING 48 ACCESS_READ ''Scan Command Response'' 21],
     ob_data = Some (le16 3 @ replicate 2 0 @ [0] @ replicate 6 0), ob_read = None\<rparr>"

definition master_0xF02n :: coe_object where
  "master_0xF02n = list_object 0xF020 0xFFF0 ''Configured Address List Slaves'' 30 callback_F0nn"
definition master_0xF04n :: coe_object where
  "master_0xF04n = list_object 0xF040 0xFFF0 ''Detected Address List Slaves'' 28 callback_F0nn"

definition ec_coe_master_dict :: "string \<Rightarrow> coe_object list" where
  "ec_coe_master_dict version = [master_0x1000, master_0x1008, master_0x1009, master_0x100A version,
     master_0x1018, master_0x20nn, master_0x20nm, master_0x3nnn, master_0x8nnn, master_0x9nnn,
     master_0xAnnn, master_0xF000, master_0xF002, master_0xF02n, master_0xF04n]"

section \<open>Values of an object\<close>

text \<open>
  \<^verbatim>\<open>BUF_PUT\<close>: a value of \<open>n\<close> bytes, if it fits into the caller's buffer \<open>buf\<close> of \<open>len\<close> bytes. \<open>v\<close>
  is where the value is; it is read only if it is copied.
\<close>

definition at_index :: "'a list \<Rightarrow> nat \<Rightarrow> 'a option" where
  "at_index xs i = (if i < length xs then Some (xs ! i) else None)"

definition buf_put :: "nat \<Rightarrow> bytes option \<Rightarrow> bytes \<times> nat \<Rightarrow> (bytes \<times> nat) option" where
  "buf_put n v = (\<lambda>(buf, len).
     if len < n then Some (buf, len) else do { v \<leftarrow> v; buf \<leftarrow> write_at 0 v buf; Some (buf, n) })"

text \<open>The fields of a group and of a slave that are sub indices of an object, with their sizes.\<close>

definition group_fields :: "(nat \<times> (pd_group \<Rightarrow> bytes)) list" where
  "group_fields = [
     (4, \<lambda>g. le32 (pg_log g)), (4, \<lambda>g. le32 (of_nat (pg_log_len g))),
     (4, \<lambda>g. le32 (of_nat (pg_pdout_len g))), (4, \<lambda>g. le32 (of_nat (pg_pdin_len g))),
     (1, \<lambda>g. [of_bool (pg_overlapping g)]), (1, \<lambda>g. [of_bool (pg_use_lrw g)]),
     (2, \<lambda>g. le16 (pg_wkc_expected_lrw g)), (2, \<lambda>g. le16 (pg_wkc_expected_lrd g)),
     (2, \<lambda>g. le16 (pg_wkc_expected_lwr g)), (4, \<lambda>g. le32 (of_nat (pg_recv_missed_lrw g))),
     (4, \<lambda>g. le32 (of_nat (pg_recv_missed_lrd g))), (4, \<lambda>g. le32 (of_nat (pg_recv_missed_lwr g))),
     (4, \<lambda>g. le32 (of_nat (pg_divisor g)))]"

definition dc_fields :: "(nat \<times> (ec_slave \<Rightarrow> bytes)) list" where
  "dc_fields = [
     (1, \<lambda>s. [of_bool (ds_use_dc (sl_dc s))]), (4, \<lambda>s. le32 (of_int (ds_next (sl_dc s)))),
     (4, \<lambda>s. le32 (of_int (ds_prev (sl_dc s)))), (1, \<lambda>s. [sl_active_ports s]),
     (4, \<lambda>s. le32 (ds_receive_times (sl_dc s) ! 0)), (4, \<lambda>s. le32 (ds_receive_times (sl_dc s) ! 1)),
     (4, \<lambda>s. le32 (ds_receive_times (sl_dc s) ! 2)), (4, \<lambda>s. le32 (ds_receive_times (sl_dc s) ! 3)),
     (1, \<lambda>s. [ucast (ds_activation_reg (sl_dc s))]), (4, \<lambda>s. le32 (ds_cycle_time_0 (sl_dc s))),
     (4, \<lambda>s. le32 (ds_cycle_time_1 (sl_dc s))), (4, \<lambda>s. le32 (ds_cycle_shift (sl_dc s))),
     (4, \<lambda>s. le32 (sl_pdelay s))]"

definition put_field ::
  "u8 \<Rightarrow> (nat \<times> ('a \<Rightarrow> bytes)) list \<Rightarrow> 'a option \<Rightarrow> u8 \<Rightarrow> bytes \<times> nat \<Rightarrow> (int \<times> bytes \<times> nat) option" where
  "put_field cnt fs a sub_index b =
     (if sub_index = 0 then map_option (\<lambda>b. (EC_OK, b)) (buf_put 1 (Some [cnt]) b)
      else (case at_index fs (unat sub_index - 1) of
              None \<Rightarrow> Some (EC_ERROR_MAILBOX_COE_SUBINDEX_NOT_FOUND, b)
            | Some (n, f) \<Rightarrow> map_option (\<lambda>b. (EC_OK, b)) (buf_put n (map_option f a) b)))"

definition group_of_index :: "u16 \<Rightarrow> nat" where
  "group_of_index index = unat (drop_bit 1 (index AND 0x00FE))"

definition slave_of_index :: "u16 \<Rightarrow> nat" where
  "slave_of_index index = unat (index AND 0x0FFF)"

definition callback_master_0x20nn ::
  "u16 \<Rightarrow> u8 \<Rightarrow> bytes \<times> nat \<Rightarrow> ('s, 'd) mmaster \<Rightarrow> (int \<times> bytes \<times> nat) option" where
  "callback_master_0x20nn index sub_index b m =
     put_field 11 group_fields (at_index (m_pd_groups m) (group_of_index index)) sub_index b"

text \<open>The slaves of the group, of which \<open>val\<close> is the number so far, less one.\<close>

fun assigned_slaves ::
  "nat list \<Rightarrow> ('s, 'd) mmaster \<Rightarrow> nat \<Rightarrow> u8 \<Rightarrow> int \<Rightarrow> bytes \<times> nat \<Rightarrow> (int \<times> bytes \<times> nat) option" where
  "assigned_slaves [] m grp sub_index val b = Some (val, b)"
| "assigned_slaves (s # ss) m grp sub_index val b =
     (if sl_assigned_pd_group (slv m s) \<noteq> int grp then assigned_slaves ss m grp sub_index val b
      else do {
        b \<leftarrow> (if sub_index > 0 \<and> val + 1 = uint sub_index - 1 then buf_put 2 (Some (le16 (of_nat s))) b else Some b);
        assigned_slaves ss m grp sub_index (val + 1) b })"

definition callback_master_0x20nm ::
  "u16 \<Rightarrow> u8 \<Rightarrow> bytes \<times> nat \<Rightarrow> ('s, 'd) mmaster \<Rightarrow> (int \<times> bytes \<times> nat) option" where
  "callback_master_0x20nm index sub_index b m = do {
     (val, b) \<leftarrow> assigned_slaves [0..<m_slave_cnt m] m (group_of_index index) sub_index (- 1) b;
     b \<leftarrow> (if sub_index = 0 then buf_put 1 (Some [of_int (val + 1)]) b else Some b);
     Some (EC_OK, b) }"

definition callback_master_0x3nnn ::
  "u16 \<Rightarrow> u8 \<Rightarrow> bytes \<times> nat \<Rightarrow> ('s, 'd) mmaster \<Rightarrow> (int \<times> bytes \<times> nat) option" where
  "callback_master_0x3nnn index sub_index b m =
     put_field 13 dc_fields (at_index (m_slaves m) (slave_of_index index)) sub_index b"

text \<open>What a callback returns: result code, buffer and length, abort code.\<close>

type_synonym ('s, 'd) coe_read = "((int \<times> bytes \<times> nat \<times> u32) \<times> ('s, 'd) mmaster) option"

definition coe_result :: "u32 \<Rightarrow> ('s, 'd) mmaster \<Rightarrow> (int \<times> bytes \<times> nat) option \<Rightarrow> ('s, 'd) coe_read" where
  "coe_result abort_code m = map_option (\<lambda>(ret, buf, len). ((ret, buf, len, abort_code), m))"

definition callback_master_0x8nnn ::
  "'s mbx_env \<Rightarrow> ('s, 'd) mops \<Rightarrow> u16 \<Rightarrow> u8 \<Rightarrow> int \<Rightarrow> bytes \<Rightarrow> nat \<Rightarrow> u32 \<Rightarrow> ('s, 'd) mmaster \<Rightarrow>
   ('s, 'd) coe_read" where
  "callback_master_0x8nnn en o' index sub_index complete buf len abort_code m =
     (let slave = slave_of_index index;
          put = (\<lambda>n v. coe_result abort_code m (map_option (\<lambda>b. (EC_OK, b)) (buf_put n v (buf, len))));
          from_slave = (\<lambda>index sub_index. ec_coe_sdo_read en o' slave index sub_index complete buf len m);
          if_mailbox = (\<lambda>index. do {
            s \<leftarrow> at_index (m_slaves m) slave;
            if ei_mbx_supported (sl_eeprom s) \<noteq> 0 then from_slave index 0
            else Some ((EC_OK, buf, 0, abort_code), m) })
      in if sub_index = 0 then put 1 (Some [35])
         else if sub_index = 1
         then (if len \<ge> 2 then put 2 (map_option (\<lambda>s. le16 (sl_fixed_address s)) (at_index (m_slaves m) slave))
               else Some ((EC_OK, buf, 0, abort_code), m))
         else if sub_index = 2 \<or> sub_index = 3 then if_mailbox 0x1008
         else if sub_index = 4 then if_mailbox 0x1000
         else if sub_index \<in> {5, 6, 7, 8} then from_slave 0x1018 (sub_index - 4)
         else if sub_index \<in> {33, 34}
         then put 2 (do {
           s \<leftarrow> at_index (m_slaves m) slave;
           if ei_mbx_supported (sl_eeprom s) \<noteq> 0
           then map_option (\<lambda>sm. le16 (sm_len sm)) (at_index (sl_sm s) (unat (sub_index - 33)))
           else Some (le16 0) })
         else Some ((EC_ERROR_MAILBOX_COE_SUBINDEX_NOT_FOUND, buf, len, abort_code), m))"

text \<open>A register of the slave, read into the caller's buffer.\<close>

definition put_register ::
  "('s, 'd) mops \<Rightarrow> nat \<Rightarrow> nat \<Rightarrow> bytes \<Rightarrow> nat \<Rightarrow> u32 \<Rightarrow> ('s, 'd) mmaster \<Rightarrow> ('s, 'd) coe_read" where
  "put_register o' slave reg buf len abort_code m =
     (if len < 2 then Some ((EC_OK, buf, len, abort_code), m)
      else do {
        s \<leftarrow> at_index (m_slaves m) slave;
        v \<leftarrow> read_at 0 2 buf;
        let (_, v, wkc, m) = slv_fprd o' slave reg v 0 m;
        buf \<leftarrow> write_at 0 v buf;
        Some ((EC_OK, buf, if wkc \<noteq> 0 then 2 else len, abort_code), m) })"

definition callback_master_0x9nnn ::
  "'s mbx_env \<Rightarrow> ('s, 'd) mops \<Rightarrow> u16 \<Rightarrow> u8 \<Rightarrow> int \<Rightarrow> bytes \<Rightarrow> nat \<Rightarrow> u32 \<Rightarrow> ('s, 'd) mmaster \<Rightarrow>
   ('s, 'd) coe_read" where
  "callback_master_0x9nnn en o' index sub_index complete buf len abort_code m =
     (let slave = slave_of_index index;
          put = (\<lambda>n v. coe_result abort_code m (map_option (\<lambda>b. (EC_OK, b)) (buf_put n v (buf, len))))
      in if sub_index = 0 then put 1 (Some [32])
         else if sub_index = 1
         then put 2 (map_option (\<lambda>s. le16 (sl_fixed_address s)) (at_index (m_slaves m) slave))
         else if sub_index \<in> {5, 6, 7, 8}
         then ec_coe_sdo_read en o' slave 0x1018 (sub_index - 4) complete buf len m
         else if sub_index = 32 then put_register o' slave 0x110 buf len abort_code m
         else Some ((EC_ERROR_MAILBOX_ABORT, buf, len, abort_code), m))"

definition callback_master_0xAnnn ::
  "('s, 'd) mops \<Rightarrow> u16 \<Rightarrow> u8 \<Rightarrow> bytes \<Rightarrow> nat \<Rightarrow> u32 \<Rightarrow> ('s, 'd) mmaster \<Rightarrow> ('s, 'd) coe_read" where
  "callback_master_0xAnnn o' index sub_index buf len abort_code m =
     (let slave = slave_of_index index
      in if sub_index = 0
         then coe_result abort_code m (map_option (\<lambda>b. (EC_OK, b)) (buf_put 1 (Some [2]) (buf, len)))
         else if sub_index = 1 then put_register o' slave 0x130 buf len abort_code m
         else if sub_index = 2 then put_register o' slave 0x120 buf len abort_code m
         else Some ((EC_ERROR_MAILBOX_ABORT, buf, len, abort_code), m))"

text \<open>Sub index 0 of the lists of slaves writes two bytes, of which it reports one.\<close>

definition callback_master_0xF0nn ::
  "u16 \<Rightarrow> u8 \<Rightarrow> bytes \<times> nat \<Rightarrow> ('s, 'd) mmaster \<Rightarrow> (int \<times> bytes \<times> nat) option" where
  "callback_master_0xF0nn index sub_index = (\<lambda>(buf, len) m.
     let slave = unat ((index AND 0x000F) * 255 + (ucast sub_index - 1) :: u16)
     in if len < 2 then Some (EC_OK, buf, len)
        else if sub_index = 0
        then map_option (\<lambda>buf. (EC_OK, buf, 1)) (write_at 0 (le16 (of_nat (m_slave_cnt m))) buf)
        else map_option (\<lambda>buf. (EC_OK, buf, 2))
               (write_at 0 (le16 (if slave < m_slave_cnt m then sl_fixed_address (slv m slave) else 0)) buf))"

definition coe_callback ::
  "coe_callback \<Rightarrow> 's mbx_env \<Rightarrow> ('s, 'd) mops \<Rightarrow> u16 \<Rightarrow> u8 \<Rightarrow> int \<Rightarrow> bytes \<Rightarrow> nat \<Rightarrow> u32 \<Rightarrow> ('s, 'd) mmaster \<Rightarrow>
   ('s, 'd) coe_read" where
  "coe_callback cb en o' index sub_index complete buf len abort_code m =
     (case cb of
        callback_20nn \<Rightarrow> coe_result abort_code m (callback_master_0x20nn index sub_index (buf, len) m)
      | callback_20nm \<Rightarrow> coe_result abort_code m (callback_master_0x20nm index sub_index (buf, len) m)
      | callback_3nnn \<Rightarrow> coe_result abort_code m (callback_master_0x3nnn index sub_index (buf, len) m)
      | callback_8nnn \<Rightarrow> callback_master_0x8nnn en o' index sub_index complete buf len abort_code m
      | callback_9nnn \<Rightarrow> callback_master_0x9nnn en o' index sub_index complete buf len abort_code m
      | callback_Annn \<Rightarrow> callback_master_0xAnnn o' index sub_index buf len abort_code m
      | callback_F0nn \<Rightarrow> coe_result abort_code m (callback_master_0xF0nn index sub_index (buf, len) m))"

section \<open>Finding an object and its data\<close>

text \<open>The position of the first object that the index belongs to.\<close>

fun ec_coe_master_get_object :: "coe_object list \<Rightarrow> u16 \<Rightarrow> nat option" where
  "ec_coe_master_get_object [] index = None"
| "ec_coe_master_get_object (ob # obs) index =
     (if ob_index ob = index AND ob_index_mask ob then Some 0
      else map_option Suc (ec_coe_master_get_object obs index))"

definition entry_bytes :: "coe_object \<Rightarrow> nat \<Rightarrow> nat option" where
  "entry_bytes ob i = map_option (\<lambda>e. unat (ce_bit_length e) div 8) (at_index (ob_entries ob) i)"

fun entries_bytes :: "coe_object \<Rightarrow> nat list \<Rightarrow> nat option" where
  "entries_bytes ob [] = Some 0"
| "entries_bytes ob (i # is') = do { n \<leftarrow> entry_bytes ob i; n' \<leftarrow> entries_bytes ob is'; Some (n + n') }"

definition ec_coe_master_get_object_length :: "coe_object \<Rightarrow> bool \<Rightarrow> nat option" where
  "ec_coe_master_get_object_length ob with_sub_index_0 =
     map_option (\<lambda>n. (if with_sub_index_0 then 2 else 0) + n)
       (entries_bytes ob [1..<Suc (unat (cd_max_subindices (ob_desc ob)))])"

text \<open>
  Place and length of the data of a sub index, or of the whole object. Sub index 0 is stored
  with two bytes, whatever its length is.
\<close>

definition ec_coe_master_get_object_data :: "coe_object \<Rightarrow> u8 \<Rightarrow> int \<Rightarrow> (int \<times> nat \<times> nat) option" where
  "ec_coe_master_get_object_data ob sub_index complete =
     (if complete = 0
      then (if sub_index > cd_max_subindices (ob_desc ob) \<or> ob_data ob = None
            then Some (EC_ERROR_MAILBOX_ABORT, 0, 0)
            else do {
              pos \<leftarrow> (if sub_index = 0 then Some 0
                      else map_option (\<lambda>n. 2 + n) (entries_bytes ob [1..<unat sub_index]));
              n \<leftarrow> entry_bytes ob (unat sub_index);
              Some (EC_OK, pos, n) })
      else map_option (\<lambda>n. (EC_OK, if sub_index \<noteq> 0 then 2 else 0, n))
             (ec_coe_master_get_object_length ob (sub_index = 0)))"

section \<open>Reading and writing\<close>

definition ec_coe_master_sdo_read ::
  "coe_object list \<Rightarrow> 's mbx_env \<Rightarrow> ('s, 'd) mops \<Rightarrow> u16 \<Rightarrow> u8 \<Rightarrow> int \<Rightarrow> bytes \<Rightarrow> nat \<Rightarrow> u32 \<Rightarrow>
   ('s, 'd) mmaster \<Rightarrow> ('s, 'd) coe_read" where
  "ec_coe_master_sdo_read dict en o' index sub_index complete buf len abort_code m =
     (case ec_coe_master_get_object dict index of
        None \<Rightarrow> Some ((EC_ERROR_MAILBOX_COE_INDEX_NOT_FOUND, buf, len, abort_code), m)
      | Some k \<Rightarrow>
          (case (ob_read (dict ! k), ob_data (dict ! k)) of
             (Some cb, _) \<Rightarrow> coe_callback cb en o' index sub_index complete buf len abort_code m
           | (None, Some data) \<Rightarrow> do {
               (ret, pos, data_len) \<leftarrow> ec_coe_master_get_object_data (dict ! k) sub_index complete;
               if ret \<noteq> EC_OK then Some ((ret, buf, len, abort_code), m)
               else do {
                 buf \<leftarrow> (if len \<ge> data_len then do { v \<leftarrow> read_at pos data_len data; write_at 0 v buf } else Some buf);
                 Some ((ret, buf, data_len, abort_code), m) } }
           | (None, None) \<Rightarrow> Some ((EC_ERROR_MAILBOX_ABORT, buf, len, abort_code), m)))"

text \<open>Writing returns the dictionary with the new data.\<close>

definition ec_coe_master_sdo_write ::
  "u16 \<Rightarrow> u8 \<Rightarrow> int \<Rightarrow> bytes \<Rightarrow> nat \<Rightarrow> coe_object list \<Rightarrow> (int \<times> coe_object list) option" where
  "ec_coe_master_sdo_write index sub_index complete buf len dict =
     (case ec_coe_master_get_object dict index of
        None \<Rightarrow> Some (EC_ERROR_MAILBOX_COE_INDEX_NOT_FOUND, dict)
      | Some k \<Rightarrow>
          (let ob = dict ! k
           in case ob_data ob of
                None \<Rightarrow> Some (EC_ERROR_MAILBOX_ABORT, dict)
              | Some data \<Rightarrow> do {
                  (ret, pos, data_len) \<leftarrow> ec_coe_master_get_object_data ob sub_index complete;
                  if ret \<noteq> EC_OK \<or> sub_index > cd_max_subindices (ob_desc ob) then Some (ret, dict)
                  else do {
                    e \<leftarrow> at_index (ob_entries ob) (unat sub_index);
                    if ce_obj_access e AND ACCESS_WRITE \<noteq> 0 \<and> len \<le> data_len
                    then do {
                      v \<leftarrow> read_at 0 len buf;
                      data \<leftarrow> write_at pos v data;
                      Some (ret, dict[k := ob\<lparr>ob_data := Some data\<rparr>]) }
                    else Some (ret, dict) } }))"

section \<open>The list of objects\<close>

definition odlist_indices :: "('s, 'd) mmaster \<Rightarrow> u16 list" where
  "odlist_indices m =
     [0x1000, 0x1008, 0x1009, 0x100A, 0x1018] @
     concat (map (\<lambda>i. [0x2000 OR push_bit 1 (of_nat i), 0x2001 OR push_bit 1 (of_nat i)]) [0..<m_pd_group_cnt m]) @
     concat (map (\<lambda>i. [0x3000 OR of_nat i, 0x8000 OR of_nat i, 0x9000 OR of_nat i, 0xA000 OR of_nat i])
       [0..<m_slave_cnt m]) @
     [0xF000, 0xF002] @
     concat (map (\<lambda>i. [0xF020 OR of_nat i, 0xF040 OR of_nat i]) [0..<m_slave_cnt m div 255 + 1])"

text \<open>\<^verbatim>\<open>BUF_ASSIGN\<close> for each of them: an index is written if its first byte is in the buffer.\<close>

fun assign_all :: "u16 list \<Rightarrow> nat \<Rightarrow> nat \<Rightarrow> bytes \<Rightarrow> (nat \<times> bytes) option" where
  "assign_all [] pos len buf = Some (pos, buf)"
| "assign_all (v # vs) pos len buf = do {
     buf \<leftarrow> (if pos < len then write_at pos (le16 v) buf else Some buf);
     assign_all vs (pos + 2) len buf }"

definition ec_coe_master_odlist_read ::
  "bytes \<Rightarrow> nat \<Rightarrow> ('s, 'd) mmaster \<Rightarrow> (int \<times> bytes \<times> nat) option" where
  "ec_coe_master_odlist_read buf len m =
     map_option (\<lambda>(pos, buf). (if pos > len then EC_ERROR_MAILBOX_BUFFER_TOO_SMALL else EC_OK, buf, pos))
       (assign_all (odlist_indices m) 0 len buf)"

section \<open>Reading descriptions\<close>

fun decimal :: "nat \<Rightarrow> bytes" where
  "decimal n = (if n < 10 then [48 + of_nat n] else decimal (n div 10) @ [48 + of_nat (n mod 10)])"

declare decimal.simps [simp del]

text \<open>\<^verbatim>\<open>snprintf\<close> of \<open>s\<close> behind the name, which has at most \<^const>\<open>CANOPEN_MAXNAME\<close> bytes with its end.\<close>

definition append_name :: "bytes \<Rightarrow> bytes \<Rightarrow> bytes" where
  "append_name s name =
     (let k = c_strlen name in put_at k (take (CANOPEN_MAXNAME - k - 1) s @ [0]) name)"

definition desc_append :: "bytes \<Rightarrow> ec_coe_sdo_desc \<Rightarrow> ec_coe_sdo_desc" where
  "desc_append s desc = (let name = append_name s (cd_name desc)
     in desc\<lparr>cd_name := name, cd_name_len := c_strlen name\<rparr>)"

definition ec_coe_master_sdo_desc_read ::
  "coe_object list \<Rightarrow> u16 \<Rightarrow> ec_coe_sdo_desc \<Rightarrow> ('s, 'd) mmaster \<Rightarrow> int \<times> ec_coe_sdo_desc" where
  "ec_coe_master_sdo_desc_read dict index desc m =
     (case ec_coe_master_get_object dict index of
        None \<Rightarrow> (EC_ERROR_MAILBOX_COE_INDEX_NOT_FOUND, desc)
      | Some k \<Rightarrow>
          (let ob = dict ! k; desc = ob_desc ob; numbered = (\<lambda>n. desc_append (0x20 # decimal n) desc)
           in (EC_OK,
               if index \<ge> 0xF000
               then (if index = 0xF000 \<or> index = 0xF002 then desc
                     else (let slave_begin = (index AND 0x000F) * 256; slave_end = slave_begin + 255
                           in (desc_append (0x20 # decimal (unat slave_begin) @ 0x2D # decimal (unat slave_end)) desc)
                                \<lparr>cd_max_subindices := (if unat slave_begin < m_slave_cnt m
                                   then of_nat (m_slave_cnt m - unat slave_begin) else 0)\<rparr>))
               else if index \<ge> 0x8000 \<or> index AND ob_index_mask ob = 0x3000
               then numbered (unat (index AND NOT (ob_index_mask ob)))
               else if index AND 0xFF01 = 0x2000 then numbered (group_of_index index)
               else if index AND 0xFF01 = 0x2001
               then (numbered (group_of_index index))\<lparr>cd_max_subindices := of_nat (length
                      (filter (\<lambda>s. sl_assigned_pd_group (slv m s) = int (group_of_index index)) [0..<m_slave_cnt m]))\<rparr>
               else desc)))"

definition ec_coe_master_sdo_entry_desc_read ::
  "coe_object list \<Rightarrow> u16 \<Rightarrow> u8 \<Rightarrow> ec_coe_sdo_entry_desc \<Rightarrow> (int \<times> ec_coe_sdo_entry_desc) option" where
  "ec_coe_master_sdo_entry_desc_read dict index sub_index desc =
     (case ec_coe_master_get_object dict index of
        None \<Rightarrow> Some (EC_ERROR_MAILBOX_COE_INDEX_NOT_FOUND, desc)
      | Some k \<Rightarrow>
          (let ob = dict ! k
           in if sub_index > cd_max_subindices (ob_desc ob) then Some (EC_OK, desc)
              else if sub_index \<noteq> 0 \<and> cd_obj_code (ob_desc ob) = OBJCODE_ARR
              then do {
                e \<leftarrow> at_index (ob_entries ob) 1;
                Some (EC_OK,
                  if index AND 0xFFF0 = 0xF020 \<or> index AND 0xFFF0 = 0xF040
                  then (let slave = unat ((index AND 0x000F) * 255 + (ucast sub_index - 1) :: u16);
                            data = append_name (0x20 # decimal slave) (ce_data e)
                        in e\<lparr>ce_data := data, ce_data_len := c_strlen data\<rparr>)
                  else e) }
              else map_option (\<lambda>e. (EC_OK, e)) (at_index (ob_entries ob) (unat sub_index))))"

end
