(* ===== verification/Foe.thy ===== *)
theory Foe
  imports Mailbox
begin

text \<open>
  \<^verbatim>\<open>src/foe.c\<close>: reading and writing files. The lock of the mailbox, whose result the code does
  not look at, is not modelled; nor are the texts for the log. A message of the slave is looked
  at in its receive buffer; an access behind the end of a buffer is \<^term>\<open>None\<close>, as is a loop that
  the bound \<open>o_fuel\<close> does not see ending.
\<close>

section \<open>Messages\<close>

text \<open>
  Behind the mailbox header: the op code, a reserved byte, then four bytes with the password,
  the number of the packet or the error code, then the file name, data or text.
\<close>

definition EC_FOE_OP_CODE_READ_REQUEST :: u8 where [simp]: "EC_FOE_OP_CODE_READ_REQUEST = 1"
definition EC_FOE_OP_CODE_WRITE_REQUEST :: u8 where [simp]: "EC_FOE_OP_CODE_WRITE_REQUEST = 2"
definition EC_FOE_OP_CODE_DATA_REQUEST :: u8 where [simp]: "EC_FOE_OP_CODE_DATA_REQUEST = 3"
definition EC_FOE_OP_CODE_ACK_REQUEST :: u8 where [simp]: "EC_FOE_OP_CODE_ACK_REQUEST = 4"
definition EC_FOE_OP_CODE_ERROR_REQUEST :: u8 where [simp]: "EC_FOE_OP_CODE_ERROR_REQUEST = 5"
definition MAX_FILE_NAME_SIZE :: nat where [simp]: "MAX_FILE_NAME_SIZE = 512"

definition foe_op_code :: "bytes \<Rightarrow> u8" where "foe_op_code d = d ! 6"
definition foe_packet_nr :: "bytes \<Rightarrow> u32" where "foe_packet_nr d = u32_of (slice 8 4 d)"
definition foe_error_code :: "bytes \<Rightarrow> u32" where "foe_error_code d = u32_of (slice 8 4 d)"

definition put_foe :: "u8 \<Rightarrow> u32 \<Rightarrow> bytes \<Rightarrow> bytes" where
  "put_foe op_code v d = put_at 8 (le32 v) (put_at 6 [op_code] d)"

text \<open>\<^verbatim>\<open>mbx_hdr.counter = counter\<close> on a message that is there already.\<close>

definition put_counter :: "int \<Rightarrow> bytes \<Rightarrow> bytes" where
  "put_counter counter d = put_at 5 [(d ! 5 AND 0x0F) OR push_bit 4 (of_int counter AND 0x0F)] d"

section \<open>Start, end, messages from the handler\<close>

definition ec_foe_init :: "osal \<Rightarrow> ec_mbx \<Rightarrow> ec_mbx" where
  "ec_foe_init os x = x\<lparr>mx_foe_recv := snd (pool_open os 0 [])\<rparr>"

definition ec_foe_deinit :: "ec_mbx \<Rightarrow> ec_mbx" where
  "ec_foe_deinit x = x\<lparr>mx_foe_recv := snd (pool_close (mx_foe_recv x))\<rparr>"

definition ec_foe_wait ::
  "'s mbx_env \<Rightarrow> ('s, 'd) mops \<Rightarrow> nat \<Rightarrow> ('s, 'd) mmaster \<Rightarrow> nat option \<times> ('s, 'd) mmaster" where
  "ec_foe_wait en o' i m =
     pool_wait en o' (\<lambda>m. mx_foe_recv (mbx_of m i)) (\<lambda>p. mbx_upd i (\<lambda>x. x\<lparr>mx_foe_recv := p\<rparr>))
       (30 * EC_DEFAULT_TIMEOUT_MBX) (mbx_sched_read en i m)"

definition ec_foe_enqueue :: "'s mbx_env \<Rightarrow> nat \<Rightarrow> nat \<Rightarrow> ('s, 'd) mmaster \<Rightarrow> ('s, 'd) mmaster" where
  "ec_foe_enqueue en i e = mbx_upd i (\<lambda>x. x\<lparr>mx_foe_recv := pool_put (me_os en) (mx_foe_recv x) e\<rparr>)"

section \<open>Errors\<close>

text \<open>The text for the caller, \<^term>\<open>None\<close> for the null pointer.\<close>

definition dump_foe_error_request :: "bytes \<Rightarrow> string option" where
  "dump_foe_error_request d =
     (if (ucast (hdr_length d) - 6 :: u32) > 0 then None
      else if foe_error_code d = 0x800D then Some ''File not found!'' else None)"

text \<open>What both functions do with the answer to something they sent.\<close>

definition foe_ack :: "bytes \<Rightarrow> string option \<Rightarrow> int \<times> string option" where
  "foe_ack d error_message =
     (if foe_op_code d = EC_FOE_OP_CODE_ACK_REQUEST then (EC_OK, error_message)
      else if foe_op_code d = EC_FOE_OP_CODE_ERROR_REQUEST
      then (EC_ERROR_MAILBOX_FOE_ERROR_REQ, dump_foe_error_request d)
      else (EC_ERROR_MAILBOX_FOE_NO_ACK, error_message))"

section \<open>Requests\<close>

text \<open>
  A request to read or write the file \<open>file_name\<close>, a string without its end. The space for the
  name is computed with 64 bits.
\<close>

definition foe_request ::
  "'s mbx_env \<Rightarrow> nat \<Rightarrow> u8 \<Rightarrow> u32 \<Rightarrow> bytes \<Rightarrow> nat \<Rightarrow> ('s, 'd) mmaster \<Rightarrow> ('s, 'd) mmaster option" where
  "foe_request en i op_code password file_name e m =
     (let foe_max_len = (of_nat (min (unat (sm_len (sl_sm (slv m i) ! 1))) MAX_FILE_NAME_SIZE) :: u64);
          n = min (length file_name) (unat (foe_max_len - 6));
          (counter, m) = next_counter i m
      in map_option (\<lambda>d. mbx_enqueue_head en i e (set_data e d m))
           (write_at 12 (take n file_name) (put_foe op_code password
              (put_hdr (of_nat (6 + n)) EC_MBX_FOE counter (data_of m e)))))"

section \<open>Reading a file\<close>

text \<open>
  One round: wait for a message, append the data, acknowledge. The counter of the
  acknowledgement is written into the buffer \<open>e0\<close> of the request, which is not the caller's any
  more. The state: the file, the error message.
\<close>

definition foe_read_body ::
  "'s mbx_env \<Rightarrow> ('s, 'd) mops \<Rightarrow> nat \<Rightarrow> nat \<Rightarrow> bytes \<times> string option \<times> ('s, 'd) mmaster \<Rightarrow>
   ((bytes \<times> string option \<times> ('s, 'd) mmaster) + (int \<times> bytes \<times> string option \<times> ('s, 'd) mmaster)) option" where
  "foe_read_body en o' i e0 = (\<lambda>(file, error_message, m).
     let (e, m) = ec_foe_wait en o' i m
     in (case e of
           None \<Rightarrow> Some (Inr (EC_ERROR_MAILBOX_TIMEOUT, file, error_message, m))
         | Some e \<Rightarrow>
             let d = data_of m e in
             if foe_op_code d = EC_FOE_OP_CODE_ERROR_REQUEST
             then Some (Inr (EC_ERROR_MAILBOX_FOE_ERROR_REQ, file, dump_foe_error_request d, return_free_recv en e m))
             else if foe_op_code d \<noteq> EC_FOE_OP_CODE_DATA_REQUEST
             then Some (Inl (file, error_message, return_free_recv en e m))
             else do {
               v \<leftarrow> read_at 12 (unat (ucast (hdr_length d) - 6 :: u32)) d;
               let file = file @ v;
               (case ec_mbx_get_free_send_buffer en i None m of
                  (ret, Some a, m) \<Rightarrow>
                    if ret \<noteq> EC_OK
                    then Some (Inr (EC_ERROR_MAILBOX_OUT_OF_SEND_BUFFERS, file, error_message, return_free_recv en e m))
                    else (let (counter, m) = next_counter i m;
                              ack = put_hdr 6 EC_MBX_FOE 0 (data_of m a);
                              m = set_data a ack m;
                              m = set_data e0 (put_counter counter (data_of m e0)) m;
                              m = set_data a (put_foe EC_FOE_OP_CODE_ACK_REQUEST (foe_packet_nr d) (data_of m a)) m;
                              m = return_free_recv en e (mbx_enqueue_head en i a m)
                          in Some (if (ucast (hdr_length d) + 6 :: u32) < ucast (sm_len (sl_sm (slv m i) ! 1))
                                   then Inr (EC_OK, file, error_message, m) else Inl (file, error_message, m)))
                | (ret, None, m) \<Rightarrow>
                    Some (Inr (EC_ERROR_MAILBOX_OUT_OF_SEND_BUFFERS, file, error_message, return_free_recv en e m))) }))"

definition ec_foe_read ::
  "'s mbx_env \<Rightarrow> ('s, 'd) mops \<Rightarrow> nat \<Rightarrow> u32 \<Rightarrow> bytes \<Rightarrow> bytes \<Rightarrow> string option \<Rightarrow> ('s, 'd) mmaster \<Rightarrow>
   (int \<times> bytes \<times> string option \<times> ('s, 'd) mmaster) option" where
  "ec_foe_read en o' i password file_name file error_message m =
     (if i \<ge> m_slave_cnt m then Some (EC_ERROR_SLAVE_NOT_FOUND, file, error_message, m)
      else if ec_mbx_check m i EC_EEPROM_MBX_FOE \<noteq> EC_OK
      then Some (EC_ERROR_MAILBOX_NOT_SUPPORTED_FOE, file, error_message, m)
      else (case ec_mbx_get_free_send_buffer en i None m of
              (ret, Some e, m) \<Rightarrow>
                if ret \<noteq> EC_OK then Some (EC_ERROR_MAILBOX_OUT_OF_SEND_BUFFERS, file, error_message, m)
                else do {
                  m \<leftarrow> foe_request en i EC_FOE_OP_CODE_READ_REQUEST password file_name e m;
                  loop_opt (o_fuel o') (foe_read_body en o' i e) ([], error_message, m) }
            | (ret, None, m) \<Rightarrow> Some (EC_ERROR_MAILBOX_OUT_OF_SEND_BUFFERS, file, error_message, m)))"

section \<open>Writing a file\<close>

definition foe_await_ack ::
  "'s mbx_env \<Rightarrow> ('s, 'd) mops \<Rightarrow> nat \<Rightarrow> int \<Rightarrow> string option \<Rightarrow> ('s, 'd) mmaster \<Rightarrow>
   int \<times> string option \<times> ('s, 'd) mmaster" where
  "foe_await_ack en o' i missing error_message m =
     (let (e, m) = ec_foe_wait en o' i m
      in (case e of
            None \<Rightarrow> (missing, error_message, m)
          | Some e \<Rightarrow> (let (ret, error_message) = foe_ack (data_of m e) error_message
                       in (ret, error_message, return_free_recv en e m))))"

text \<open>A packet; \<open>data_len\<close> is the space for data in the mailbox.\<close>

definition foe_write_body ::
  "'s mbx_env \<Rightarrow> ('s, 'd) mops \<Rightarrow> nat \<Rightarrow> nat \<Rightarrow> bytes \<Rightarrow> nat \<times> int \<times> string option \<times> ('s, 'd) mmaster \<Rightarrow>
   ((nat \<times> int \<times> string option \<times> ('s, 'd) mmaster) + (int \<times> string option \<times> ('s, 'd) mmaster)) option" where
  "foe_write_body en o' i data_len file = (\<lambda>(file_offset, packet_nr, error_message, m).
     case ec_mbx_get_free_send_buffer en i None m of
       (ret, Some e, m) \<Rightarrow>
         if ret \<noteq> EC_OK then Some (Inr (ret, error_message, m))
         else (let bytes_read = min (length file - file_offset) data_len;
                   (counter, m) = next_counter i m
               in do {
                 d \<leftarrow> write_at 12 (slice file_offset bytes_read file) (data_of m e);
                 let d = put_foe EC_FOE_OP_CODE_DATA_REQUEST (of_int (packet_nr + 1))
                           (put_hdr (of_nat (6 + bytes_read)) EC_MBX_FOE counter d);
                 let (ret, error_message, m) = foe_await_ack en o' i EC_ERROR_MAILBOX_FOE_NO_ACK error_message
                                                 (mbx_enqueue_head en i e (set_data e d m));
                 Some (if bytes_read < data_len \<or> ret \<noteq> EC_OK \<or> length file = file_offset + bytes_read
                       then Inr (ret, error_message, m)
                       else Inl (file_offset + bytes_read, packet_nr + 1, error_message, m)) })
     | (ret, None, m) \<Rightarrow> Some (Inr (ret, error_message, m)))"

definition ec_foe_write ::
  "'s mbx_env \<Rightarrow> ('s, 'd) mops \<Rightarrow> nat \<Rightarrow> u32 \<Rightarrow> bytes \<Rightarrow> bytes \<Rightarrow> string option \<Rightarrow> ('s, 'd) mmaster \<Rightarrow>
   (int \<times> string option \<times> ('s, 'd) mmaster) option" where
  "ec_foe_write en o' i password file_name file error_message m =
     (if i \<ge> m_slave_cnt m then Some (EC_ERROR_SLAVE_NOT_FOUND, error_message, m)
      else if ec_mbx_check m i EC_EEPROM_MBX_FOE \<noteq> EC_OK
      then Some (EC_ERROR_MAILBOX_NOT_SUPPORTED_FOE, error_message, m)
      else (case ec_mbx_get_free_send_buffer en i None m of
              (ret, Some e, m) \<Rightarrow>
                if ret \<noteq> EC_OK then Some (EC_ERROR_MAILBOX_OUT_OF_SEND_BUFFERS, error_message, m)
                else do {
                  m \<leftarrow> foe_request en i EC_FOE_OP_CODE_WRITE_REQUEST password file_name e m;
                  let (ret, error_message, m) = foe_await_ack en o' i EC_ERROR_MAILBOX_TIMEOUT error_message m;
                  if ret \<noteq> EC_OK then Some (ret, error_message, m)
                  else loop_opt (o_fuel o')
                         (foe_write_body en o' i (unat (ucast (sm_len (sl_sm (slv m i) ! 1)) - 6 - 6 :: u32)) file)
                         (0, 0, error_message, m) }
            | (ret, None, m) \<Rightarrow> Some (EC_ERROR_MAILBOX_OUT_OF_SEND_BUFFERS, error_message, m)))"

end
