(* ===== verification/Soe.thy ===== *)
theory Soe
  imports Mailbox
begin

text \<open>
  \<^verbatim>\<open>src/soe.c\<close>: the servo drive profile. The lock of the protocol is not modelled, since the code
  does not look at its result. Reading and writing behind the end of a buffer is \<^term>\<open>None\<close>, also
  for the static buffer of the log messages; so is a loop that the bound \<open>o_fuel\<close> does not see
  ending.
\<close>

section \<open>Messages\<close>

text \<open>
  \<^verbatim>\<open>ec_soe_header_t\<close>: op code (3 bits), incomplete, error, drive number (3 bits); elements; the
  identification number or the number of the fragments that are left. The data start at 10.
\<close>

definition EC_SOE_READ_REQ :: u8 where [simp]: "EC_SOE_READ_REQ = 1"
definition EC_SOE_READ_RES :: u8 where [simp]: "EC_SOE_READ_RES = 2"
definition EC_SOE_WRITE_REQ :: u8 where [simp]: "EC_SOE_WRITE_REQ = 3"
definition EC_SOE_WRITE_RES :: u8 where [simp]: "EC_SOE_WRITE_RES = 4"
definition EC_SOE_NOTIFICATION :: u8 where [simp]: "EC_SOE_NOTIFICATION = 5"
definition EC_SOE_ATTRIBUTE :: u8 where [simp]: "EC_SOE_ATTRIBUTE = 0x04"
definition EC_SOE_VALUE :: u8 where [simp]: "EC_SOE_VALUE = 0x40"
definition SOE_LOG_BUF_SIZE :: nat where [simp]: "SOE_LOG_BUF_SIZE = 1024"

definition soe_op_code :: "bytes \<Rightarrow> u8" where "soe_op_code d = d ! 6 AND 7"
definition soe_incomplete :: "bytes \<Rightarrow> bool" where "soe_incomplete d = bit (d ! 6) 3"
definition soe_error :: "bytes \<Rightarrow> bool" where "soe_error d = bit (d ! 6) 4"
definition soe_atn :: "bytes \<Rightarrow> u8" where "soe_atn d = drop_bit 5 (d ! 6)"
definition soe_elements :: "bytes \<Rightarrow> u8" where "soe_elements d = d ! 7"
definition soe_idn_fragments_left :: "bytes \<Rightarrow> u16" where "soe_idn_fragments_left d = u16_of (slice 8 2 d)"

definition soe_request :: "u16 \<Rightarrow> int \<Rightarrow> u8 \<Rightarrow> bool \<Rightarrow> u8 \<Rightarrow> u8 \<Rightarrow> u16 \<Rightarrow> bytes \<Rightarrow> bytes" where
  "soe_request len counter op_code incomplete atn elements idn d =
     put_at 6 ([op_code OR push_bit 3 (of_bool incomplete) OR push_bit 5 (atn AND 7), elements] @ le16 idn)
       (put_hdr len EC_MBX_SOE counter d)"

section \<open>Log messages\<close>

text \<open>
  Bytes are printed as two digits each into a buffer of \<^verbatim>\<open>SOE_LOG_BUF_SIZE\<close>: each
  \<^verbatim>\<open>snprintf\<close> gets the rest of the buffer as its size, computed with unsigned numbers, and the
  position grows by what would have been printed. Behind the end of the buffer the size wraps.
\<close>

fun soe_log_bytes :: "nat \<Rightarrow> nat \<Rightarrow> bool" where
  "soe_log_bytes pos 0 \<longleftrightarrow> True"
| "soe_log_bytes pos (Suc n) \<longleftrightarrow> pos \<le> SOE_LOG_BUF_SIZE \<and> soe_log_bytes (pos + 2) n"

fun decimals :: "nat \<Rightarrow> nat" where
  "decimals n = (if n < 10 then 1 else 1 + decimals (n div 10))"

declare decimals.simps [simp del]

text \<open>The length of a notification without its payload.\<close>

definition notification_length :: "bytes \<Rightarrow> nat" where
  "notification_length d =
     length ''SoE Notification: opcode , incomplete , error , atn , elements , idn '' +
     decimals (unat (soe_op_code d)) + 1 + 1 + decimals (unat (soe_atn d)) +
     decimals (unat (soe_elements d)) + decimals (unat (soe_idn_fragments_left d))"

section \<open>Start, end, messages from the handler\<close>

definition ec_soe_init :: "osal \<Rightarrow> ec_mbx \<Rightarrow> ec_mbx" where
  "ec_soe_init os x = x\<lparr>mx_soe_recv := snd (pool_open os 0 [])\<rparr>"

definition ec_soe_deinit :: "ec_mbx \<Rightarrow> ec_mbx" where
  "ec_soe_deinit x = x\<lparr>mx_soe_recv := snd (pool_close (mx_soe_recv x))\<rparr>"

definition ec_soe_wait ::
  "'s mbx_env \<Rightarrow> ('s, 'd) mops \<Rightarrow> nat \<Rightarrow> ('s, 'd) mmaster \<Rightarrow> nat option \<times> ('s, 'd) mmaster" where
  "ec_soe_wait en o' i m =
     pool_wait en o' (\<lambda>m. mx_soe_recv (mbx_of m i)) (\<lambda>p. mbx_upd i (\<lambda>x. x\<lparr>mx_soe_recv := p\<rparr>))
       EC_DEFAULT_TIMEOUT_MBX (mbx_sched_read en i m)"

text \<open>The length of the payload is computed with 64 bits.\<close>

definition soe_payload :: "bytes \<Rightarrow> u64" where
  "soe_payload d = ucast (hdr_length d) - 4"

definition ec_soe_enqueue ::
  "'s mbx_env \<Rightarrow> nat \<Rightarrow> nat \<Rightarrow> ('s, 'd) mmaster \<Rightarrow> ('s, 'd) mmaster option" where
  "ec_soe_enqueue en i e m =
     (let d = data_of m e
      in if soe_op_code d = EC_SOE_NOTIFICATION
         then (if unat (soe_payload d) = 0 \<or>
                  10 + unat (soe_payload d) \<le> length d \<and>
                  soe_log_bytes (notification_length d + length '', payload: '') (unat (soe_payload d))
               then Some (return_free_recv en e m) else None)
         else Some (mbx_upd i (\<lambda>x. x\<lparr>mx_soe_recv := pool_put (me_os en) (mx_soe_recv x) e\<rparr>) m))"

section \<open>Reading\<close>

text \<open>The caller's variables: elements, buffer, length; the bytes left, the position, the first fragment.\<close>

record soe_read_state =
  sr_elements :: u8
  sr_buf :: bytes
  sr_len :: nat
  sr_left_len :: int
  sr_pos :: int
  sr_first :: bool

text \<open>
  The lengths are computed with 64 bits; a fragment of less than four bytes has a negative
  length for the remaining bytes and the position.
\<close>

definition soe_read_first :: "bytes \<Rightarrow> soe_read_state \<Rightarrow> soe_read_state" where
  "soe_read_first d st =
     (if \<not> sr_first st then st
      else (let st = st\<lparr>sr_elements := soe_elements d, sr_first := False\<rparr>
            in if sr_left_len st \<noteq> 0 then st
               else if soe_idn_fragments_left d \<noteq> 0
               then (let n = unat ((ucast (soe_idn_fragments_left d) + 1) * soe_payload d)
                     in st\<lparr>sr_len := n, sr_left_len := int n\<rparr>)
               else st\<lparr>sr_len := unat (soe_payload d)\<rparr>))"

definition soe_read_fragment :: "bytes \<Rightarrow> soe_read_state \<Rightarrow> soe_read_state option" where
  "soe_read_fragment d st =
     (if sr_left_len st \<le> 0 then Some st
      else (let n = min (unat (soe_payload d)) (nat (sr_left_len st))
            in do {
              v \<leftarrow> read_at 10 n d;
              buf \<leftarrow> (if sr_pos st < 0 then None else write_at (nat (sr_pos st)) v (sr_buf st));
              Some (st\<lparr>sr_buf := buf, sr_pos := sr_pos st + sint (soe_payload d),
                       sr_left_len := sr_left_len st - sint (soe_payload d)\<rparr>) }))"

text \<open>
  The loop over the messages: with an unexpected op code the buffer goes back to the pool, but
  the pointer to it stays, and the next round looks at it again.
\<close>

definition soe_read_body ::
  "'s mbx_env \<Rightarrow> ('s, 'd) mops \<Rightarrow> nat \<Rightarrow> nat option \<times> soe_read_state \<times> ('s, 'd) mmaster \<Rightarrow>
   ((nat option \<times> soe_read_state \<times> ('s, 'd) mmaster) + (int \<times> soe_read_state \<times> ('s, 'd) mmaster)) option" where
  "soe_read_body en o' i = (\<lambda>(e, st, m). case e of
     None \<Rightarrow> Some (Inr (EC_ERROR_MAILBOX_TIMEOUT, st, m))
   | Some k \<Rightarrow>
       let d = data_of m k in
       if soe_op_code d \<noteq> EC_SOE_READ_RES then Some (Inl (e, st, return_free_recv en k m))
       else do {
         st \<leftarrow> soe_read_fragment d (soe_read_first d st);
         let m = return_free_recv en k m;
         if \<not> soe_incomplete d then Some (Inr (EC_OK, st, m))
         else (let (e, m) = ec_soe_wait en o' i m in Some (Inl (e, st, m))) })"

definition ec_soe_read ::
  "'s mbx_env \<Rightarrow> ('s, 'd) mops \<Rightarrow> nat \<Rightarrow> u8 \<Rightarrow> u16 \<Rightarrow> u8 \<Rightarrow> bytes \<Rightarrow> nat \<Rightarrow> ('s, 'd) mmaster \<Rightarrow>
   (int \<times> u8 \<times> bytes \<times> nat \<times> ('s, 'd) mmaster) option" where
  "ec_soe_read en o' i atn idn elements buf len m =
     (if i \<ge> m_slave_cnt m then Some (EC_ERROR_SLAVE_NOT_FOUND, elements, buf, len, m)
      else if ec_mbx_check m i EC_EEPROM_MBX_SOE \<noteq> EC_OK
      then Some (EC_ERROR_MAILBOX_NOT_SUPPORTED_SOE, elements, buf, len, m)
      else (case ec_mbx_get_free_send_buffer en i None m of
              (ret, Some e, m) \<Rightarrow>
                if ret \<noteq> EC_OK then Some (EC_ERROR_MAILBOX_OUT_OF_WRITE_BUFFERS, elements, buf, len, m)
                else (let (counter, m) = next_counter i m;
                          m = mbx_enqueue_head en i e (set_data e
                                (soe_request 4 counter EC_SOE_READ_REQ False atn elements idn (data_of m e)) m);
                          (e, m) = ec_soe_wait en o' i m
                      in do {
                        (ret, st, m) \<leftarrow> loop_opt (o_fuel o') (soe_read_body en o' i) (e,
                          \<lparr>sr_elements = elements, sr_buf = buf, sr_len = len, sr_left_len = int len, sr_pos = 0,
                           sr_first = True\<rparr>, m);
                        Some (ret, sr_elements st, sr_buf st, sr_len st, m) })
            | (ret, None, m) \<Rightarrow> Some (EC_ERROR_MAILBOX_OUT_OF_WRITE_BUFFERS, elements, buf, len, m)))"

section \<open>Writing\<close>

text \<open>Wait until a message has the op code of an answer to a write, or no message comes.\<close>

definition soe_write_wait_body ::
  "'s mbx_env \<Rightarrow> ('s, 'd) mops \<Rightarrow> nat \<Rightarrow> int \<Rightarrow> ('s, 'd) mmaster \<Rightarrow>
   ('s, 'd) mmaster + int \<times> ('s, 'd) mmaster" where
  "soe_write_wait_body en o' i ret m =
     (let (e, m) = ec_soe_wait en o' i m
      in (case e of
            None \<Rightarrow> Inr (ret, m)
          | Some e \<Rightarrow> if soe_op_code (data_of m e) \<noteq> EC_SOE_WRITE_RES then Inl (return_free_recv en e m)
                      else Inr (EC_OK, return_free_recv en e m)))"

text \<open>A fragment; \<open>mbx_len\<close> is the space in the mailbox. Dividing by a space of zero is \<^term>\<open>None\<close>.\<close>

definition soe_write_body ::
  "'s mbx_env \<Rightarrow> ('s, 'd) mops \<Rightarrow> nat \<Rightarrow> u8 \<Rightarrow> u16 \<Rightarrow> u8 \<Rightarrow> nat \<Rightarrow> bytes \<Rightarrow>
   int \<times> nat \<times> nat \<times> ('s, 'd) mmaster \<Rightarrow>
   ((int \<times> nat \<times> nat \<times> ('s, 'd) mmaster) + (int \<times> ('s, 'd) mmaster)) option" where
  "soe_write_body en o' i atn idn elements mbx_len buf = (\<lambda>(ret, left_len, pos, m).
     if left_len = 0 \<or> ret = EC_ERROR_MAILBOX_OUT_OF_WRITE_BUFFERS then Some (Inr (ret, m))
     else (case ec_mbx_get_free_send_buffer en i None m of
             (r, Some e, m) \<Rightarrow>
               if r \<noteq> EC_OK then Some (Inl (EC_ERROR_MAILBOX_OUT_OF_WRITE_BUFFERS, left_len, pos, m))
               else (let (counter, m) = next_counter i m;
                         send_len = min left_len mbx_len;
                         rest = left_len - send_len
                     in do {
                       v \<leftarrow> read_at pos send_len buf;
                       d \<leftarrow> write_at 10 v (data_of m e);
                       fragments \<leftarrow> (if rest = 0 then Some idn
                                     else if mbx_len = 0 then None else Some (of_nat (rest div mbx_len + 1)));
                       (ret, m) \<leftarrow> loop (o_fuel o') (soe_write_wait_body en o' i ret)
                         (mbx_enqueue_head en i e (set_data e (soe_request (of_nat (4 + send_len)) counter
                            EC_SOE_WRITE_REQ (rest \<noteq> 0) atn elements fragments d) m));
                       Some (Inl (ret, rest, pos + send_len, m)) })
           | (r, None, m) \<Rightarrow> Some (Inl (EC_ERROR_MAILBOX_OUT_OF_WRITE_BUFFERS, left_len, pos, m))))"

definition ec_soe_write ::
  "'s mbx_env \<Rightarrow> ('s, 'd) mops \<Rightarrow> nat \<Rightarrow> u8 \<Rightarrow> u16 \<Rightarrow> u8 \<Rightarrow> bytes \<Rightarrow> nat \<Rightarrow> ('s, 'd) mmaster \<Rightarrow>
   (int \<times> ('s, 'd) mmaster) option" where
  "ec_soe_write en o' i atn idn elements buf len m =
     (if i \<ge> m_slave_cnt m then Some (EC_ERROR_SLAVE_NOT_FOUND, m)
      else if ec_mbx_check m i EC_EEPROM_MBX_SOE \<noteq> EC_OK then Some (EC_ERROR_MAILBOX_NOT_SUPPORTED_SOE, m)
      else if \<not> soe_log_bytes 0 len then None
      else loop_opt (o_fuel o')
             (soe_write_body en o' i atn idn elements
                (unat (ucast (sm_len (sl_sm (slv m i) ! MAILBOX_WRITE)) - 6 - 4 :: u64)) buf)
             (EC_ERROR_MAILBOX_TIMEOUT, len, 0, m))"

section \<open>The mapping of the process data\<close>

text \<open>
  The length of the list \<open>idn\<close>, then the list itself, then the attributes of each of its
  members. \<open>idn_value\<close> has 512 words of which the second read fills at most 512 bytes.
\<close>

definition soe_map_member ::
  "'s mbx_env \<Rightarrow> ('s, 'd) mops \<Rightarrow> nat \<Rightarrow> u8 \<Rightarrow> bytes \<Rightarrow> nat \<Rightarrow> u32 \<times> ('s, 'd) mmaster \<Rightarrow>
   (u32 \<times> ('s, 'd) mmaster) option" where
  "soe_map_member en o' i atn idn_value k = (\<lambda>(bitsize, m). do {
     sub_idn \<leftarrow> read_at (2 * (k + 2)) 2 idn_value;
     (ret, _, attr, _, m) \<leftarrow> ec_soe_read en o' i atn (u16_of sub_idn) EC_SOE_ATTRIBUTE (o_uninit o' 4) 4 m;
     Some (if ret \<noteq> EC_OK then bitsize
           else bitsize + push_bit (unat (drop_bit 16 (u32_of attr) AND 3)) 8, m) })"

fun soe_map_members ::
  "'s mbx_env \<Rightarrow> ('s, 'd) mops \<Rightarrow> nat \<Rightarrow> u8 \<Rightarrow> bytes \<Rightarrow> nat list \<Rightarrow> u32 \<times> ('s, 'd) mmaster \<Rightarrow>
   (u32 \<times> ('s, 'd) mmaster) option" where
  "soe_map_members en o' i atn idn_value [] a = Some a"
| "soe_map_members en o' i atn idn_value (k # ks) a =
     Option.bind (soe_map_member en o' i atn idn_value k a) (soe_map_members en o' i atn idn_value ks)"

definition ec_soe_generate_mapping_local ::
  "'s mbx_env \<Rightarrow> ('s, 'd) mops \<Rightarrow> nat \<Rightarrow> u8 \<Rightarrow> u16 \<Rightarrow> ('s, 'd) mmaster \<Rightarrow>
   (int \<times> u32 \<times> ('s, 'd) mmaster) option" where
  "ec_soe_generate_mapping_local en o' i atn idn m =
     (if i \<ge> m_slave_cnt m then Some (EC_ERROR_SLAVE_NOT_FOUND, 0, m)
      else do {
        (ret, _, idn_len, _, m) \<leftarrow> ec_soe_read en o' i atn idn EC_SOE_VALUE (o_uninit o' 4) 4 m;
        if ret \<noteq> EC_OK then Some (ret, 16, m)
        else do {
          let n = unat (u16_of (slice 0 2 idn_len));
          (ret, _, idn_value, _, m) \<leftarrow> ec_soe_read en o' i atn idn EC_SOE_VALUE (o_uninit o' 1024) (min (n + 4) 512) m;
          if ret \<noteq> EC_OK then Some (ret, 16, m)
          else do {
            (bitsize, m) \<leftarrow> soe_map_members en o' i atn idn_value [0..<n div 2] (16, m);
            Some (ret, bitsize, m) } } })"

text \<open>The drives of a slave, for its inputs (\<open>idn\<close> 16) and its outputs (24).\<close>

fun soe_map_drives ::
  "'s mbx_env \<Rightarrow> ('s, 'd) mops \<Rightarrow> nat \<Rightarrow> u16 \<Rightarrow> (nat \<Rightarrow> subdev \<Rightarrow> subdev) \<Rightarrow> nat list \<Rightarrow>
   u32 \<times> ('s, 'd) mmaster \<Rightarrow> (u32 \<times> ('s, 'd) mmaster) option" where
  "soe_map_drives en o' i idn put [] a = Some a"
| "soe_map_drives en o' i idn put (atn # atns) (n, m) = do {
     (ret, bits, m) \<leftarrow> ec_soe_generate_mapping_local en o' i (of_nat atn) idn m;
     if ret \<noteq> EC_OK then soe_map_drives en o' i idn put atns (n, m)
     else if atn \<ge> length (sl_subdevs (slv m i)) then None
     else soe_map_drives en o' i idn put atns (n + bits, slv_upd i (\<lambda>s. s\<lparr>sl_subdevs :=
            (sl_subdevs s)[atn := put (unat (bits div 8)) (sl_subdevs s ! atn)]\<rparr>) m) }"

definition soe_map_sm :: "nat \<Rightarrow> nat \<Rightarrow> u32 \<Rightarrow> ('s, 'd) mmaster \<Rightarrow> ('s, 'd) mmaster" where
  "soe_map_sm i sm bits m =
     (if bits \<noteq> 0 \<and> unat (sl_sm_ch (slv m i)) > sm
      then slv_upd i (\<lambda>s. s\<lparr>sl_sm := (sl_sm s)[sm := (sl_sm s ! sm)\<lparr>sm_len := ucast ((bits + 7) div 8)\<rparr>]\<rparr>) m else m)"

definition ec_soe_generate_mapping ::
  "'s mbx_env \<Rightarrow> ('s, 'd) mops \<Rightarrow> nat \<Rightarrow> ('s, 'd) mmaster \<Rightarrow> (int \<times> ('s, 'd) mmaster) option" where
  "ec_soe_generate_mapping en o' i m =
     (if i \<ge> m_slave_cnt m then Some (EC_ERROR_SLAVE_NOT_FOUND, m)
      else if ec_mbx_check m i EC_EEPROM_MBX_SOE \<noteq> EC_OK then Some (EC_ERROR_MAILBOX_NOT_SUPPORTED_SOE, m)
      else (let drives = (\<lambda>m. [0..<unat (ei_general (sl_eeprom (slv m i)) ! 8)])
            in do {
              (bits, m) \<leftarrow> soe_map_drives en o' i 16 (\<lambda>n d. d\<lparr>sd_pdin := (sd_pdin d)\<lparr>pd_len := n\<rparr>\<rparr>) (drives m) (0, m);
              let m = soe_map_sm i 3 bits m;
              (bits, m) \<leftarrow> soe_map_drives en o' i 24 (\<lambda>n d. d\<lparr>sd_pdout := (sd_pdout d)\<lparr>pd_len := n\<rparr>\<rparr>) (drives m) (0, m);
              Some (EC_OK, soe_map_sm i 2 bits m) }))"

end
