(* ===== verification/Eoe.thy ===== *)
theory Eoe
  imports Mailbox
begin

text \<open>
  \<^verbatim>\<open>src/eoe.c\<close>: Ethernet over EtherCAT. The lock of the protocol, whose result the code does not
  look at, is not modelled. An access behind the end of a buffer or through a null pointer is
  \<^term>\<open>None\<close>, as is a loop that the bound \<open>o_fuel\<close> does not see ending.
\<close>

section \<open>Messages\<close>

text \<open>
  \<^verbatim>\<open>ec_eoe_header_t\<close>: the type of the frame (4 bits) and a port, the flag of the last fragment,
  then a word with the number of the fragment (6 bits), the complete size or the offset in
  blocks of 32 bytes (6 bits), and the number of the frame. The data start at 10.
\<close>

definition EOE_FRAME_TYPE_REQUEST :: u8 where [simp]: "EOE_FRAME_TYPE_REQUEST = 0"
definition EOE_FRAME_TYPE_SET_IP_ADDRESS_REQUEST :: u8 where [simp]: "EOE_FRAME_TYPE_SET_IP_ADDRESS_REQUEST = 2"
definition EOE_FRAME_TYPE_SET_IP_ADDRESS_RESPONSE :: u8 where [simp]: "EOE_FRAME_TYPE_SET_IP_ADDRESS_RESPONSE = 3"

definition eoe_frame_type :: "bytes \<Rightarrow> u8" where "eoe_frame_type d = d ! 6 AND 0x0F"
definition eoe_last_fragment :: "bytes \<Rightarrow> bool" where "eoe_last_fragment d = bit (d ! 7) 0"
definition eoe_fragment_number :: "bytes \<Rightarrow> u16" where "eoe_fragment_number d = u16_of (slice 8 2 d) AND 0x3F"
definition eoe_complete_size :: "bytes \<Rightarrow> nat" where
  "eoe_complete_size d = unat (drop_bit 6 (u16_of (slice 8 2 d)) AND 0x3F)"

definition put_eoe :: "u8 \<Rightarrow> bool \<Rightarrow> nat \<Rightarrow> nat \<Rightarrow> bytes \<Rightarrow> bytes" where
  "put_eoe frame_type last_fragment fragment_number complete_size d =
     put_at 6 ([frame_type, of_bool last_fragment] @
       le16 ((of_nat fragment_number AND 0x3F) OR push_bit 6 (of_nat complete_size AND 0x3F))) d"

section \<open>Start and end\<close>

definition EOE_FREE_FRAMES :: nat where [simp]: "EOE_FREE_FRAMES = 128"

definition eoe_upd :: "nat \<Rightarrow> (ec_eoe \<Rightarrow> ec_eoe) \<Rightarrow> ('s, 'd) mmaster \<Rightarrow> ('s, 'd) mmaster" where
  "eoe_upd i f = mbx_upd i (\<lambda>x. x\<lparr>mx_eoe := f (mx_eoe x)\<rparr>)"

abbreviation eoe_of :: "('s, 'd) mmaster \<Rightarrow> nat \<Rightarrow> ec_eoe" where
  "eoe_of m i \<equiv> mx_eoe (mbx_of m i)"

definition ec_eoe_init :: "osal \<Rightarrow> ec_mbx \<Rightarrow> ec_mbx" where
  "ec_eoe_init os x = x\<lparr>mx_eoe := (mx_eoe x)\<lparr>
     eq_recv := snd (pool_open os 0 []), eq_response := snd (pool_open os 0 []),
     eq_free_frames := snd (pool_open os EOE_FREE_FRAMES [0..<EOE_FREE_FRAMES]),
     eq_recv_frames := snd (pool_open os 0 []), eq_send_sync := osal_semaphore_init os 0\<rparr>\<rparr>"

definition ec_eoe_deinit :: "ec_mbx \<Rightarrow> ec_mbx" where
  "ec_eoe_deinit x = x\<lparr>mx_eoe := (mx_eoe x)\<lparr>
     eq_recv_frames := snd (pool_close (eq_recv_frames (mx_eoe x))),
     eq_free_frames := snd (pool_close (eq_free_frames (mx_eoe x))),
     eq_response := snd (pool_close (eq_response (mx_eoe x))),
     eq_recv := snd (pool_close (eq_recv (mx_eoe x)))\<rparr>\<rparr>"

section \<open>Waiting\<close>

definition ec_eoe_wait_response ::
  "'s mbx_env \<Rightarrow> ('s, 'd) mops \<Rightarrow> nat \<Rightarrow> ('s, 'd) mmaster \<Rightarrow> (nat option \<times> ('s, 'd) mmaster) option" where
  "ec_eoe_wait_response en o' i =
     mbx_wait en o' (\<lambda>m. eq_response (eoe_of m i)) (\<lambda>p. eoe_upd i (\<lambda>q. q\<lparr>eq_response := p\<rparr>)) (mbx_sched_read en i)"

definition ec_eoe_wait ::
  "'s mbx_env \<Rightarrow> ('s, 'd) mops \<Rightarrow> nat \<Rightarrow> ('s, 'd) mmaster \<Rightarrow> (nat option \<times> ('s, 'd) mmaster) option" where
  "ec_eoe_wait en o' i =
     mbx_wait en o' (\<lambda>m. eq_recv (eoe_of m i)) (\<lambda>p. eoe_upd i (\<lambda>q. q\<lparr>eq_recv := p\<rparr>)) (mbx_sched_read en i)"

section \<open>Receiving frames\<close>

text \<open>The first \<open>n\<close> bytes of the frame \<open>k\<close> go to the device, or the frame to those nobody cared for.\<close>

definition keep_frame :: "'s mbx_env \<Rightarrow> nat \<Rightarrow> nat \<Rightarrow> ('s, 'd) mmaster \<Rightarrow> ('s, 'd) mmaster" where
  "keep_frame en i k = eoe_upd i (\<lambda>q. q\<lparr>eq_recv_frames := pool_put (me_os en) (eq_recv_frames q) k\<rparr>)"

definition deliver_frame :: "'s mbx_env \<Rightarrow> nat \<Rightarrow> nat \<Rightarrow> nat \<Rightarrow> ('s, 'd) mmaster \<Rightarrow> ('s, 'd) mmaster option" where
  "deliver_frame en i k n m =
     (case me_veth en of
        None \<Rightarrow> Some (keep_frame en i k m)
      | Some write \<Rightarrow> do {
          v \<leftarrow> read_at 0 n (eq_frame_data (eoe_of m i) k);
          let m = sys_upd (\<lambda>x. x\<lparr>x_dev := snd (write v (x_dev x))\<rparr>) m;
          Some (eoe_upd i (\<lambda>q. q\<lparr>eq_free_frames := pool_put (me_os en) (eq_free_frames q) k\<rparr>) m) })"

text \<open>Copy the data of a message to the place \<open>off\<close> of the frame; the result is the next place.\<close>

definition copy_fragment :: "nat \<Rightarrow> nat \<Rightarrow> nat \<Rightarrow> bytes \<Rightarrow> ('s, 'd) mmaster \<Rightarrow> (nat \<times> ('s, 'd) mmaster) option" where
  "copy_fragment i k off d m =
     (let n = unat (ucast (hdr_length d) - 4 :: u32)
      in do {
        v \<leftarrow> read_at 10 n d;
        fr \<leftarrow> write_at off v (eq_frame_data (eoe_of m i) k);
        Some (off + n, eoe_upd i (\<lambda>q. q\<lparr>eq_frame_data := (eq_frame_data q)(k := fr)\<rparr>) m) })"

text \<open>
  The fragments behind the first. When none comes any more, what there is of the frame is kept
  as if it were complete. The mismatch of the offsets is only logged.
\<close>

definition next_fragments_body ::
  "'s mbx_env \<Rightarrow> ('s, 'd) mops \<Rightarrow> nat \<Rightarrow> nat \<Rightarrow> nat \<times> ('s, 'd) mmaster \<Rightarrow>
   (nat \<times> ('s, 'd) mmaster + ('s, 'd) mmaster) option" where
  "next_fragments_body en o' i k = (\<lambda>(off, m). do {
     (e, m) \<leftarrow> ec_eoe_wait en o' i m;
     (case e of
        None \<Rightarrow> Some (Inr (keep_frame en i k m))
      | Some e \<Rightarrow> do {
          (off, m) \<leftarrow> copy_fragment i k off (data_of m e) m;
          if eoe_last_fragment (data_of m e)
          then do {
            m \<leftarrow> deliver_frame en i k (eq_frame_size (eoe_of m i) k) m;
            Some (Inr (return_free_recv en e m)) }
          else Some (Inl (off, return_free_recv en e m)) }) })"

definition ec_eoe_process_recv ::
  "'s mbx_env \<Rightarrow> ('s, 'd) mops \<Rightarrow> nat \<Rightarrow> ('s, 'd) mmaster \<Rightarrow> (int \<times> ('s, 'd) mmaster) option" where
  "ec_eoe_process_recv en o' i m =
     (if i \<ge> m_slave_cnt m then Some (EC_ERROR_SLAVE_NOT_FOUND, m)
      else (case pool_get (me_os en) (eq_recv (eoe_of m i)) None of
              (_, None, p) \<Rightarrow> Some (EC_ERROR_UNAVAILABLE, eoe_upd i (\<lambda>q. q\<lparr>eq_recv := p\<rparr>) m)
            | (_, Some e, p) \<Rightarrow>
                let m = eoe_upd i (\<lambda>q. q\<lparr>eq_recv := p\<rparr>) m
                in (case pool_get (me_os en) (eq_free_frames (eoe_of m i)) None of
                      (_, None, p) \<Rightarrow> Some (EC_ERROR_OUT_OF_MEMORY,
                                            return_free_recv en e (eoe_upd i (\<lambda>q. q\<lparr>eq_free_frames := p\<rparr>) m))
                    | (_, Some k, p) \<Rightarrow>
                        let m = eoe_upd i (\<lambda>q. q\<lparr>eq_free_frames := p\<rparr>) m;
                            d = data_of m e
                        in if eoe_fragment_number d \<noteq> 0
                           then Some (EC_OK, return_free_recv en e (keep_frame en i k m))
                           else do {
                             let m = eoe_upd i (\<lambda>q. q\<lparr>eq_frame_size := (eq_frame_size q)(k := eoe_complete_size d * 32)\<rparr>) m;
                             (off, m) \<leftarrow> copy_fragment i k 0 d m;
                             m \<leftarrow> (if eoe_last_fragment d
                                   then map_option (return_free_recv en e) (deliver_frame en i k off m)
                                   else loop_opt (o_fuel o') (next_fragments_body en o' i k) (off, return_free_recv en e m));
                             Some (EC_OK, m) })))"

text \<open>Behind a last fragment, the handler processes all messages that are in the pool.\<close>

definition process_all_body ::
  "'s mbx_env \<Rightarrow> ('s, 'd) mops \<Rightarrow> nat \<Rightarrow> ('s, 'd) mmaster \<Rightarrow> (('s, 'd) mmaster + ('s, 'd) mmaster) option" where
  "process_all_body en o' i m =
     map_option (\<lambda>(ret, m). if ret = EC_OK then Inl m else Inr m) (ec_eoe_process_recv en o' i m)"

definition ec_eoe_enqueue ::
  "'s mbx_env \<Rightarrow> ('s, 'd) mops \<Rightarrow> nat \<Rightarrow> nat \<Rightarrow> ('s, 'd) mmaster \<Rightarrow> ('s, 'd) mmaster option" where
  "ec_eoe_enqueue en o' i e m =
     (let d = data_of m e
      in if eoe_frame_type d = EOE_FRAME_TYPE_SET_IP_ADDRESS_RESPONSE
         then Some (eoe_upd i (\<lambda>q. q\<lparr>eq_response := pool_put (me_os en) (eq_response q) e\<rparr>) m)
         else (let m = eoe_upd i (\<lambda>q. q\<lparr>eq_recv := pool_put (me_os en) (eq_recv q) e\<rparr>) m
               in if eoe_last_fragment d then loop_opt (o_fuel o') (process_all_body en o' i) m else Some m))"

section \<open>Setting the addresses of a slave\<close>

text \<open>
  The parameters that are there (not the null pointer), each with its bit and the number of bytes
  that are copied. The state: the bits, the data.
\<close>

definition ip_parameter :: "nat \<Rightarrow> nat \<Rightarrow> bytes option \<Rightarrow> u8 \<times> bytes \<Rightarrow> (u8 \<times> bytes) option" where
  "ip_parameter b n p = (\<lambda>(bits, data). case p of
     None \<Rightarrow> Some (bits, data)
   | Some v \<Rightarrow> map_option (\<lambda>v. (bits OR push_bit b 1, data @ v)) (read_at 0 n v))"

definition ip_parameters ::
  "bytes option \<Rightarrow> bytes option \<Rightarrow> bytes option \<Rightarrow> bytes option \<Rightarrow> bytes option \<Rightarrow> bytes option \<Rightarrow> (u8 \<times> bytes) option" where
  "ip_parameters mac ip_address subnet gateway dns dns_name = do {
     a \<leftarrow> ip_parameter 0 6 mac (0, []);
     a \<leftarrow> ip_parameter 1 4 ip_address a;
     a \<leftarrow> ip_parameter 2 4 subnet a;
     a \<leftarrow> ip_parameter 3 4 gateway a;
     a \<leftarrow> ip_parameter 4 4 dns a;
     ip_parameter 5 32 dns_name a }"

definition ec_eoe_set_ip_parameter ::
  "'s mbx_env \<Rightarrow> ('s, 'd) mops \<Rightarrow> nat \<Rightarrow> bytes option \<Rightarrow> bytes option \<Rightarrow> bytes option \<Rightarrow> bytes option \<Rightarrow>
   bytes option \<Rightarrow> bytes option \<Rightarrow> ('s, 'd) mmaster \<Rightarrow> (int \<times> ('s, 'd) mmaster) option" where
  "ec_eoe_set_ip_parameter en o' i mac ip_address subnet gateway dns dns_name m =
     (if i \<ge> m_slave_cnt m then Some (EC_ERROR_SLAVE_NOT_FOUND, m)
      else if ec_mbx_check m i EC_EEPROM_MBX_EOE \<noteq> EC_OK then Some (EC_ERROR_MAILBOX_NOT_SUPPORTED_EOE, m)
      else (case ec_mbx_get_free_send_buffer en i None m of
              (ret, Some e, m) \<Rightarrow>
                if ret \<noteq> 0 then Some (EC_ERROR_MAILBOX_OUT_OF_SEND_BUFFERS, m)
                else (let (counter, m) = next_counter i m
                      in do {
                        (bits, data) \<leftarrow> ip_parameters mac ip_address subnet gateway dns dns_name;
                        let d = put_at 14 data (put_at 10 [bits] (put_eoe EOE_FRAME_TYPE_SET_IP_ADDRESS_REQUEST True 0 0
                                  (put_hdr (of_nat (8 + length data)) EC_MBX_EOE counter (data_of m e))));
                        (a, m) \<leftarrow> ec_eoe_wait_response en o' i (mbx_enqueue_tail en i e (set_data e d m));
                        Some (case a of
                                None \<Rightarrow> (EC_ERROR_MAILBOX_TIMEOUT, m)
                              | Some a \<Rightarrow> (uint (u16_of (slice 8 2 (data_of m a))), return_free_recv en a m)) })
            | (ret, None, m) \<Rightarrow> Some (EC_ERROR_MAILBOX_OUT_OF_SEND_BUFFERS, m)))"

section \<open>Sending frames\<close>

text \<open>The callback of a buffer that has been sent.\<close>

definition ec_eoe_send_sync :: "'s mbx_env \<Rightarrow> nat \<Rightarrow> ('s, 'd) mmaster \<Rightarrow> ('s, 'd) mmaster" where
  "ec_eoe_send_sync en e m =
     eoe_upd (nat (x_user_arg (m_bus m) e)) (\<lambda>q. q\<lparr>eq_send_sync := osal_semaphore_post (me_os en) (eq_send_sync q)\<rparr>) m"

text \<open>\<^verbatim>\<open>osal_semaphore_wait\<close> has no timeout: the other threads go on until the semaphore is posted.\<close>

definition send_sync_body :: "('s, 'd) mops \<Rightarrow> nat \<Rightarrow> ('s, 'd) mmaster \<Rightarrow> ('s, 'd) mmaster + ('s, 'd) mmaster" where
  "send_sync_body o' i m =
     (case eq_send_sync (eoe_of m i) of
        0 \<Rightarrow> Inl (o_cycle o' m)
      | Suc c \<Rightarrow> Inr (eoe_upd i (\<lambda>q. q\<lparr>eq_send_sync := c\<rparr>) m))"

definition frame_fragment :: "nat \<Rightarrow> bytes \<Rightarrow> int \<Rightarrow> nat \<Rightarrow> nat \<Rightarrow> bytes \<Rightarrow> bytes option" where
  "frame_fragment max_frag_len frame counter frag_number off d =
     (let frag_len = min (length frame - off) max_frag_len
      in write_at 10 (slice off frag_len frame)
           (put_eoe EOE_FRAME_TYPE_REQUEST (frag_len < max_frag_len) frag_number
              (if frag_number = 0 then (length frame + 31) div 32 else off div 32)
              (put_hdr (of_nat (4 + frag_len)) EC_MBX_EOE counter d)))"

definition send_frame_body ::
  "'s mbx_env \<Rightarrow> ('s, 'd) mops \<Rightarrow> nat \<Rightarrow> nat \<Rightarrow> bytes \<Rightarrow> nat \<times> nat \<times> ('s, 'd) mmaster \<Rightarrow>
   (nat \<times> nat \<times> ('s, 'd) mmaster + ('s, 'd) mmaster) option" where
  "send_frame_body en o' i max_frag_len frame = (\<lambda>(off, frag_number, m).
     let (t, m) = timer_start o' 10000000000 m;
         (_, e, m) = ec_mbx_get_free_send_buffer en i (Some t) (o_cycle o' m)
     in (case e of
           None \<Rightarrow> None
         | Some e \<Rightarrow> do {
             let m = sys_upd (\<lambda>x. x\<lparr>x_user_cb := (x_user_cb x)(e := True), x_user_arg := (x_user_arg x)(e := int i)\<rparr>) m;
             let (counter, m) = next_counter i m;
             d \<leftarrow> frame_fragment max_frag_len frame counter frag_number off (data_of m e);
             m \<leftarrow> loop (o_fuel o') (send_sync_body o' i) (mbx_enqueue_tail en i e (set_data e d m));
             let off = off + min (length frame - off) max_frag_len;
             Some (if off < length frame then Inl (off, frag_number + 1, m) else Inr m) }))"

text \<open>The space in the mailbox, computed with 64 bits, in whole blocks of 32 bytes.\<close>

definition max_fragment :: "u16 \<Rightarrow> nat" where
  "max_fragment l = unat (push_bit 5 (drop_bit 5 (ucast l - 6 - 4 :: u64)))"

definition ec_eoe_send_frame ::
  "'s mbx_env \<Rightarrow> ('s, 'd) mops \<Rightarrow> nat \<Rightarrow> bytes \<Rightarrow> ('s, 'd) mmaster \<Rightarrow> (int \<times> ('s, 'd) mmaster) option" where
  "ec_eoe_send_frame en o' i frame m =
     (if i \<ge> m_slave_cnt m then Some (EC_ERROR_SLAVE_NOT_FOUND, m)
      else if ec_mbx_check m i EC_EEPROM_MBX_EOE \<noteq> EC_OK then Some (EC_ERROR_MAILBOX_NOT_SUPPORTED_EOE, m)
      else map_option (\<lambda>m. (EC_ERROR_MAILBOX_TIMEOUT, m))
             (loop_opt (o_fuel o')
                (send_frame_body en o' i (max_fragment (sm_len (sl_sm (slv m i) ! MAILBOX_WRITE))) frame) (0, 0, m)))"

end
