(* ===== verification/Mbx.thy ===== *)
theory Mbx
  imports Coe_Master Foe Soe Eoe
begin

text \<open>
  \<^verbatim>\<open>src/mbx.c\<close> and \<^verbatim>\<open>src/mbx_gateway.c\<close>: the start and the end of a mailbox, the
  handler that moves the messages between the queues and the slave, and the gateway.
\<close>

section \<open>Start and end\<close>

text \<open>
  \<^verbatim>\<open>ec_mbx_init\<close> and \<^verbatim>\<open>ec_mbx_deinit\<close> on the mailbox itself; the flag of the handler and the
  null pointer are in \<^const>\<open>mbx_init\<close> and \<^const>\<open>mbx_deinit\<close>.
\<close>

definition mbx_open :: "'s mbx_env \<Rightarrow> u16 \<Rightarrow> ec_mbx \<Rightarrow> ec_mbx" where
  "mbx_open en supported x =
     (let x = x\<lparr>mx_seq_counter := 1, mx_send_queued := snd (pool_open (me_os en) 0 []),
                mx_sync_sem := osal_binary_semaphore_init (me_os en)\<rparr>;
          x = (if supported AND EC_EEPROM_MBX_COE \<noteq> 0 then ec_coe_init (me_os en) x else x);
          x = (if supported AND EC_EEPROM_MBX_SOE \<noteq> 0 then ec_soe_init (me_os en) x else x);
          x = (if supported AND EC_EEPROM_MBX_FOE \<noteq> 0 then ec_foe_init (me_os en) x else x)
      in if supported AND EC_EEPROM_MBX_EOE \<noteq> 0 then ec_eoe_init (me_os en) x else x)"

definition mbx_close :: "u16 \<Rightarrow> ec_mbx \<Rightarrow> ec_mbx" where
  "mbx_close supported x =
     (let x = (if supported AND EC_EEPROM_MBX_COE = EC_EEPROM_MBX_COE then ec_coe_deinit x else x);
          x = (if supported AND EC_EEPROM_MBX_SOE = EC_EEPROM_MBX_SOE then ec_soe_deinit x else x);
          x = (if supported AND EC_EEPROM_MBX_FOE = EC_EEPROM_MBX_FOE then ec_foe_deinit x else x);
          x = (if supported AND EC_EEPROM_MBX_EOE = EC_EEPROM_MBX_EOE then ec_eoe_deinit x else x)
      in x\<lparr>mx_send_queued := snd (pool_close (mx_send_queued x))\<rparr>)"

text \<open>The operations that the state machine of the slaves uses.\<close>

definition mailbox_ops :: "'s mbx_env \<Rightarrow> ('s, 'd) mops \<Rightarrow> ('s, 'd) mops" where
  "mailbox_ops en o' = o'\<lparr>
     o_mbx_init := (\<lambda>i supported s. s\<lparr>x_mbx := (x_mbx s)[i := mbx_open en supported (x_mbx s ! i)]\<rparr>),
     o_mbx_deinit := (\<lambda>i supported s. s\<lparr>x_mbx := (x_mbx s)[i := mbx_close supported (x_mbx s ! i)]\<rparr>)\<rparr>"

section \<open>The handler\<close>

definition ec_mbx_gateway_enqueue :: "'s mbx_env \<Rightarrow> nat \<Rightarrow> ('s, 'd) mmaster \<Rightarrow> ('s, 'd) mmaster" where
  "ec_mbx_gateway_enqueue en e = sys_upd (\<lambda>x. x\<lparr>x_gw_recv := pool_put (me_os en) (x_gw_recv x) e\<rparr>)"

text \<open>A message goes to the protocol of its type, if the slave supports it.\<close>

definition mbx_dispatch ::
  "'s mbx_env \<Rightarrow> ('s, 'd) mops \<Rightarrow> nat \<Rightarrow> nat \<Rightarrow> ('s, 'd) mmaster \<Rightarrow>
   ('s, 'd) mmaster option" where
  "mbx_dispatch en o' i e m =
     (let d = data_of m e;
          supported = (\<lambda>flag. ei_mbx_supported (sl_eeprom (slv m i)) AND flag \<noteq> 0)
      in if hdr_address d AND 0x8000 \<noteq> 0 then Some (ec_mbx_gateway_enqueue en e m)
         else if hdr_mbxtype d = EC_MBX_COE \<and> supported EC_EEPROM_MBX_COE then Some (ec_coe_enqueue en o' i e m)
         else if hdr_mbxtype d = EC_MBX_SOE \<and> supported EC_EEPROM_MBX_SOE then ec_soe_enqueue en i e m
         else if hdr_mbxtype d = EC_MBX_FOE \<and> supported EC_EEPROM_MBX_FOE then Some (ec_foe_enqueue en i e m)
         else if hdr_mbxtype d = EC_MBX_EOE \<and> supported EC_EEPROM_MBX_EOE then ec_eoe_enqueue en o' i e m
         else Some (return_free_recv en e m))"

text \<open>The first \<open>n\<close> bytes of a buffer are handed to the transfer.\<close>

definition mbx_handle_recv ::
  "'s mbx_env \<Rightarrow> ('s, 'd) mops \<Rightarrow> nat \<Rightarrow> ('s, 'd) mmaster \<Rightarrow>
   ('s, 'd) mmaster option" where
  "mbx_handle_recv en o' i m =
     (let (_, e, p) = pool_get (me_os en) (x_recv_free (m_bus m)) None;
          m = sys_upd (\<lambda>x. x\<lparr>x_recv_free := p\<rparr>) m
      in (case e of
            None \<Rightarrow> Some m
          | Some e \<Rightarrow>
              (let m = set_data e (replicate LEC_MAX_POOL_DATA_SIZE 0) m;
                   n = min LEC_MAX_POOL_DATA_SIZE (unat (sm_len (sl_sm (slv m i) ! MAILBOX_READ)))
               in do {
                 (ret, buf, m) \<leftarrow> ec_mbx_receive o' i (take n (data_of m e)) 0 m;
                 let m = set_data e (put_at 0 buf (data_of m e)) m;
                 if ret = EC_OK then mbx_dispatch en o' i e m else Some (return_free_recv en e m) })))"

text \<open>At most \<open>retry_cnt\<close> attempts to send a message.\<close>

fun mbx_send_retry ::
  "('s, 'd) mops \<Rightarrow> nat \<Rightarrow> nat \<Rightarrow> bytes \<Rightarrow> ('s, 'd) mmaster \<Rightarrow> (int \<times> bytes \<times> ('s, 'd) mmaster) option" where
  "mbx_send_retry o' i 0 buf m = ec_mbx_send o' i buf EC_DEFAULT_TIMEOUT_MBX m"
| "mbx_send_retry o' i (Suc retry_cnt) buf m = do {
     (ret, buf, m) \<leftarrow> ec_mbx_send o' i buf EC_DEFAULT_TIMEOUT_MBX m;
     if ret \<noteq> EC_OK then mbx_send_retry o' i retry_cnt buf m else Some (ret, buf, m) }"

definition mbx_handle_send ::
  "'s mbx_env \<Rightarrow> ('s, 'd) mops \<Rightarrow> nat \<Rightarrow> ('s, 'd) mmaster \<Rightarrow> ('s, 'd) mmaster option" where
  "mbx_handle_send en o' i m =
     (let (_, e, p) = pool_get (me_os en) (mx_send_queued (mbx_of m i)) None;
          m = mbx_upd i (\<lambda>x. x\<lparr>mx_send_queued := p\<rparr>) m
      in (case e of
            None \<Rightarrow> Some m
          | Some e \<Rightarrow>
              (let n = min LEC_MAX_POOL_DATA_SIZE (unat (sm_len (sl_sm (slv m i) ! MAILBOX_WRITE)))
               in do {
                 (ret, buf, m) \<leftarrow> mbx_send_retry o' i 9 (take n (data_of m e)) m;
                 let m = set_data e (put_at 0 buf (data_of m e)) m;
                 Some (if ret \<noteq> EC_OK then mbx_enqueue_head en i e m
                       else (let m = (if x_user_cb (m_bus m) e
                                      then sys_upd (\<lambda>x. x\<lparr>x_user_cb := (x_user_cb x)(e := False),
                                                          x_user_arg := (x_user_arg x)(e := 0)\<rparr>) (ec_eoe_send_sync en e m)
                                      else m)
                             in return_free_send en e m)) })))"

definition ec_mbx_do_handle ::
  "'s mbx_env \<Rightarrow> ('s, 'd) mops \<Rightarrow> nat \<Rightarrow> ('s, 'd) mmaster \<Rightarrow>
   ('s, 'd) mmaster option" where
  "ec_mbx_do_handle en o' i m =
     (let flags = mx_handler_flags (mbx_of m i);
          m = mbx_upd i (\<lambda>x. x\<lparr>mx_handler_flags := 0\<rparr>) m
      in do {
        m \<leftarrow> (if flags AND HANDLER_RECV \<noteq> 0 then mbx_handle_recv en o' i m else Some m);
        if flags AND HANDLER_SEND \<noteq> 0 then mbx_handle_send en o' i m else Some m })"

text \<open>
  One round of the handler thread: it waits for its semaphore. A message to send is looked for
  after every timeout, a received one only if the state of the mailbox is not mapped.
\<close>

definition mbx_polls :: "nat \<Rightarrow> ('s, 'd) mmaster \<Rightarrow> bool" where
  "mbx_polls i m \<longleftrightarrow> sl_act_state (slv m i) \<noteq> EC_STATE_OP \<and> sl_act_state (slv m i) \<noteq> EC_STATE_SAFEOP \<or>
     sl_sm_state_null (slv m i)"

definition mbx_handler_body ::
  "'s mbx_env \<Rightarrow> ('s, 'd) mops \<Rightarrow> nat \<Rightarrow> ('s, 'd) mmaster \<Rightarrow>
   (('s, 'd) mmaster + ('s, 'd) mmaster) option" where
  "mbx_handler_body en o' i m =
     (if \<not> sl_handler_running (slv m i) then Some (Inr m)
      else (let (t, m) = timer_start o' (if mbx_polls i m then 1000000 else 100000000) m;
                m = o_cycle o' m;
                (ret, sem) = osal_binary_semaphore_timedwait (me_os en) t (mx_sync_sem (mbx_of m i));
                m = mbx_upd i (\<lambda>x. x\<lparr>mx_sync_sem := sem\<rparr>) m
            in if ret \<noteq> OSAL_OK \<and> ret \<noteq> OSAL_ERR_TIMEOUT then Some (Inl m)
               else (let m = (if ret = OSAL_OK then m
                              else mbx_upd i (\<lambda>x. x\<lparr>mx_handler_flags := mx_handler_flags x OR HANDLER_SEND OR
                                     (if mbx_polls i m then HANDLER_RECV else 0)\<rparr>) m)
                     in map_option Inl (ec_mbx_do_handle en o' i m))))"

definition ec_mbx_handler ::
  "'s mbx_env \<Rightarrow> ('s, 'd) mops \<Rightarrow> nat \<Rightarrow> ('s, 'd) mmaster \<Rightarrow>
   ('s, 'd) mmaster option" where
  "ec_mbx_handler en o' i m = loop_opt (o_fuel o') (mbx_handler_body en o' i) m"

section \<open>The gateway\<close>

definition ec_mbx_gateway_init :: "osal \<Rightarrow> 's mbx_sys \<Rightarrow> 's mbx_sys" where
  "ec_mbx_gateway_init os x = x\<lparr>x_gw_recv := snd (pool_open os 0 [])\<rparr>"

definition ec_mbx_gateway_deinit :: "'s mbx_sys \<Rightarrow> 's mbx_sys" where
  "ec_mbx_gateway_deinit x = x\<lparr>x_gw_recv := snd (pool_close (x_gw_recv x))\<rparr>"

definition ec_mbx_gateway_wait ::
  "'s mbx_env \<Rightarrow> ('s, 'd) mops \<Rightarrow> ('s, 'd) mmaster \<Rightarrow> (nat option \<times> ('s, 'd) mmaster) option" where
  "ec_mbx_gateway_wait en o' =
     mbx_wait en o' (\<lambda>m. x_gw_recv (m_bus m)) (\<lambda>p. sys_upd (\<lambda>x. x\<lparr>x_gw_recv := p\<rparr>)) (\<lambda>m. m)"

text \<open>
  A request of the gateway: a length of two bytes, then a mailbox message; \<open>fr\<close> is the buffer of
  the request, in which the answer is returned. A request for the master is answered from its
  dictionary \<open>dict\<close>; the buffer for the value is not initialised.
\<close>

definition gateway_master ::
  "coe_object list \<Rightarrow> 's mbx_env \<Rightarrow> ('s, 'd) mops \<Rightarrow> bytes \<Rightarrow> ('s, 'd) mmaster \<Rightarrow> (bytes \<times> ('s, 'd) mmaster) option" where
  "gateway_master dict en o' fr m =
     (let d = drop 2 fr
      in if hdr_mbxtype d \<noteq> EC_MBX_COE \<or> coe_service d \<noteq> EC_COE_SDOREQ then Some (fr, m)
         else do {
              ((_, v, n, _), m) \<leftarrow> ec_coe_master_sdo_read dict en o' (sdo_index d) (sdo_sub_index d)
                 (of_bool (bit (d ! 8) 4)) (o_uninit o' 256) 256 0 m;
              (let d = put_at 6 (le16 ((u16_of (slice 6 2 d) AND 0x0FFF) OR push_bit 12 EC_COE_SDORES)) d;
                   keep = (d ! 8 AND 0x10) OR push_bit 5 EC_COE_SDO_UPLOAD_REQ
               in if n \<le> 4
                  then do {
                    v \<leftarrow> read_at 0 n v;
                    d \<leftarrow> write_at 12 v (put_at 8 [keep OR (d ! 8 AND 1) OR 2 OR push_bit 2 (of_nat (4 - n) AND 3)] d);
                    Some (put_at 2 d fr, m) }
                  else do {
                    v \<leftarrow> read_at 0 n v;
                    d \<leftarrow> write_at 12 (le32 (of_nat n)) (put_at 8 [keep OR 1] d);
                    d \<leftarrow> write_at 16 v (put_at 0 (le16 (hdr_length d + of_nat n)) d);
                    let l = u16_of (slice 0 2 fr);
                    Some (put_at 2 d (put_at 0 (le16 ((l AND 0xF800) OR ((l AND 0x07FF) + of_nat n) AND 0x07FF)) fr), m) }) })"

definition gateway_slave ::
  "'s mbx_env \<Rightarrow> ('s, 'd) mops \<Rightarrow> nat \<Rightarrow> bytes \<Rightarrow> ('s, 'd) mmaster \<Rightarrow> (bytes \<times> ('s, 'd) mmaster) option" where
  "gateway_slave en o' i fr m =
     (case ec_mbx_get_free_send_buffer en i None m of
        (ret, Some e, m) \<Rightarrow>
          if ret \<noteq> 0 then Some (fr, m)
          else (let (counter, m) = next_counter i m;
                    d = drop 2 fr;
                    d = put_at 2 (le16 (hdr_address d OR 0x8000)) d;
                    d = put_at 5 [(d ! 5 AND 0x0F) OR push_bit 4 (of_int counter AND 0x0F)] d
                in do {
                  v \<leftarrow> read_at 0 (unat (u16_of (slice 0 2 fr) AND 0x07FF)) d;
                  b \<leftarrow> write_at 0 v (data_of m e);
                  (e, m) \<leftarrow> ec_mbx_gateway_wait en o' (mbx_enqueue_head en i e (set_data e b m));
                  (case e of
                     None \<Rightarrow> Some (put_at 2 d fr, m)
                   | Some e \<Rightarrow> do {
                       v \<leftarrow> read_at 0 (unat (hdr_length (data_of m e)) + 6) (data_of m e);
                       d \<leftarrow> write_at 0 v d;
                       let d = put_at 2 (le16 (hdr_address d AND 0x7FFF)) d;
                       let l = u16_of (slice 0 2 fr);
                       Some (put_at 2 d (put_at 0 (le16 ((l AND 0xF800) OR ((hdr_length d + 6) AND 0x07FF))) fr),
                             return_free_recv en e m) }) })
      | (ret, None, m) \<Rightarrow> Some (fr, m))"

text \<open>The first slave with the address of the request.\<close>

definition ec_mbx_gateway_handle ::
  "coe_object list \<Rightarrow> 's mbx_env \<Rightarrow> ('s, 'd) mops \<Rightarrow> bytes \<Rightarrow> ('s, 'd) mmaster \<Rightarrow> (int \<times> bytes \<times> ('s, 'd) mmaster) option" where
  "ec_mbx_gateway_handle dict en o' fr m =
     (let address = hdr_address (drop 2 fr)
      in map_option (\<lambda>(fr, m). (EC_OK, fr, m))
           (if address = 0 then gateway_master dict en o' fr m
            else (case filter (\<lambda>i. sl_fixed_address (slv m i) = address) [0..<m_slave_cnt m] of
                    [] \<Rightarrow> Some (fr, m)
                  | i # _ \<Rightarrow> gateway_slave en o' i fr m)))"

end
