(* ===== verification/Mbx_Correct.thy ===== *)
theory Mbx_Correct
  imports Mbx Dc_Correct
begin

text \<open>
  The receive and send buffers of the mailboxes: where they are, and that the handler moves
  them from one place to another without losing one or having it twice. \<open>moves E E' m m'\<close> says
  that a step that had the buffers \<open>E\<close> in hand has \<open>E'\<close> in hand afterwards.
\<close>

section \<open>Buffers on their way\<close>

definition mbx_buffers :: "ec_mbx \<Rightarrow> nat multiset" where
  "mbx_buffers x = mset (avail (mx_send_queued x)) + mset (avail (co_recv_pool (mx_coe x))) +
     mset (avail (mx_soe_recv x)) + mset (avail (mx_foe_recv x)) +
     mset (avail (eq_recv (mx_eoe x))) + mset (avail (eq_response (mx_eoe x)))"

definition sys_buffers :: "'s mbx_sys \<Rightarrow> nat multiset" where
  "sys_buffers s = mset (avail (x_recv_free s)) + mset (avail (x_send_free s)) + mset (avail (x_gw_recv s)) +
     sum_list (map mbx_buffers (x_mbx s))"

definition mbx_ok :: "ec_mbx \<Rightarrow> bool" where
  "mbx_ok x \<longleftrightarrow> 0 \<le> mx_seq_counter x \<and> mx_seq_counter x \<le> 7 \<and>
     co_next_write (mx_coe x) < LEC_MAX_COE_EMERGENCIES \<and>
     length (co_emergencies (mx_coe x)) = LEC_MAX_COE_EMERGENCIES \<and>
     (\<forall>em \<in> set (co_emergencies (mx_coe x)). length (em_msg em) = LEC_MAX_COE_EMERGENCY_MSG_LEN) \<and>
     (\<forall>k. length (eq_frame_data (mx_eoe x) k) = 1518)"

definition sys_ok :: "'s mbx_sys \<Rightarrow> bool" where
  "sys_ok s \<longleftrightarrow> (\<forall>e. length (x_data s e) = LEC_MAX_POOL_DATA_SIZE) \<and> (\<forall>x \<in> set (x_mbx s). mbx_ok x)"

definition moves :: "nat multiset \<Rightarrow> nat multiset \<Rightarrow> ('s, 'd) mmaster \<Rightarrow> ('s, 'd) mmaster \<Rightarrow> bool" where
  "moves E E' m m' \<longleftrightarrow> sys_buffers (m_bus m) + E = sys_buffers (m_bus m') + E' \<and>
     length (x_mbx (m_bus m')) = length (x_mbx (m_bus m)) \<and> (sys_ok (m_bus m) \<longrightarrow> sys_ok (m_bus m'))"

definition keeps :: "('s mbx_sys \<Rightarrow> 's mbx_sys) \<Rightarrow> bool" where
  "keeps f \<longleftrightarrow> (\<forall>s. sys_buffers (f s) = sys_buffers s \<and> length (x_mbx (f s)) = length (x_mbx s) \<and>
     (sys_ok s \<longrightarrow> sys_ok (f s)))"

definition mbx_laws :: "('s, 'd) mops \<Rightarrow> bool" where
  "mbx_laws o' \<longleftrightarrow> register_bus (o_bus o') \<and>
     (\<forall>c a d w. keeps (\<lambda>s. snd (snd (snd (b_xcv (o_bus o') c a d w s))))) \<and>
     (\<forall>n. keeps (\<lambda>s. snd (b_timer_init (o_bus o') n s)) \<and> keeps (\<lambda>s. snd (b_timer_expired (o_bus o') n s)) \<and>
       keeps (b_sleep (o_bus o') n)) \<and> keeps (\<lambda>s. snd (o_now o' s)) \<and>
     (\<forall>m. moves {#} {#} m (o_cycle o' m))"

named_theorems mv

lemma moves_refl [mv]: "moves E E m m"
  by (simp add: moves_def)

lemma moves_trans: "moves E F a b \<Longrightarrow> moves F G b c \<Longrightarrow> moves E G a c"
  by (auto simp: moves_def)

lemma moves_add: "moves E F a b \<Longrightarrow> moves (E + G) (F + G) a b"
  by (simp add: moves_def flip: add.assoc)

lemma moves_hold: "moves {#} {#} a b \<Longrightarrow> moves E E a b"
  using moves_add[of "{#}" "{#}" a b E] by simp

lemma moves_upd: "keeps f \<Longrightarrow> moves E E m (m\<lparr>m_bus := f (m_bus m)\<rparr>)"
  by (simp add: moves_def keeps_def)

lemma moves_bus: "moves E F m m' \<Longrightarrow> moves E F m (m'\<lparr>m_slaves := v\<rparr>)"
  by (simp add: moves_def)

text \<open>An update of one mailbox.\<close>

lemma sum_list_update_mset:
  assumes "i < length xs"
  shows "sum_list (map f (xs[i := y])) + f (xs ! i) = sum_list (map f xs) + (f y :: nat multiset)"
  using assms
proof (induction xs arbitrary: i)
  case (Cons a xs)
  then show ?case by (cases i) (auto simp: ac_simps)
qed simp

lemma moves_mbx:
  assumes "i < length (x_mbx (m_bus m))"
    and "mbx_buffers (mbx_of m i) + E = mbx_buffers (f (mbx_of m i)) + E'"
    and "mbx_ok (mbx_of m i) \<Longrightarrow> mbx_ok (f (mbx_of m i))"
  shows "moves E E' m (mbx_upd i f m)"
proof -
  let ?xs = "x_mbx (m_bus m)" and ?y = "f (mbx_of m i)"
  have s: "sum_list (map mbx_buffers (?xs[i := ?y])) + mbx_buffers (mbx_of m i) =
      sum_list (map mbx_buffers ?xs) + mbx_buffers ?y"
    using sum_list_update_mset[OF assms(1)] by (simp add: mbx_of_def)
  have "sum_list (map mbx_buffers ?xs) + E = sum_list (map mbx_buffers (?xs[i := ?y])) + E'"
  proof -
    have "sum_list (map mbx_buffers ?xs) + E + mbx_buffers ?y =
        sum_list (map mbx_buffers (?xs[i := ?y])) + (mbx_buffers (mbx_of m i) + E)"
      using s by (simp add: ac_simps)
    also have "\<dots> = sum_list (map mbx_buffers (?xs[i := ?y])) + E' + mbx_buffers ?y"
      using assms(2) by (simp add: ac_simps)
    finally show ?thesis by simp
  qed
  moreover have "sys_ok (m_bus m) \<Longrightarrow> sys_ok (m_bus (mbx_upd i f m))"
    using assms(1,3) by (auto simp: sys_ok_def mbx_upd_def sys_upd_def mbx_of_def dest!: set_update_subset_insert[THEN subsetD])
  ultimately show ?thesis
    by (simp add: moves_def mbx_upd_def sys_upd_def sys_buffers_def mbx_of_def add.assoc)
qed


lemma moves_mbx_same:
  assumes "\<And>x. mbx_buffers (f x) = mbx_buffers x" "\<And>x. mbx_ok x \<Longrightarrow> mbx_ok (f x)"
  shows "moves E E m (mbx_upd i f m)"
proof (cases "i < length (x_mbx (m_bus m))")
  case True
  then show ?thesis by (rule moves_mbx) (simp_all add: assms)
next
  case False
  then show ?thesis by (simp add: mbx_upd_def sys_upd_def moves_def sys_buffers_def sys_ok_def not_less list_update_beyond)
qed

section \<open>The steps\<close>

definition held :: "nat option \<Rightarrow> nat multiset" where
  "held e = (case e of None \<Rightarrow> {#} | Some e \<Rightarrow> {#e#})"

lemma held_simps [simp]: "held None = {#}" "held (Some e) = {#e#}"
  by (simp_all add: held_def)

lemma pool_take_mset: "pool_take p = (r, e, p') \<Longrightarrow> mset (avail p) = mset (avail p') + held e"
  by (cases "avail p") auto

lemma pool_get_mset: "pool_get os p t = (r, e, p') \<Longrightarrow> mset (avail p) = mset (avail p') + held e"
  by (cases t) (auto simp: pool_get_def Let_def dest!: pool_take_mset split: prod.splits if_splits)

lemma moves_sys_pool:
  "mset (avail (x_recv_free (m_bus m))) + E = mset (avail p) + E' \<Longrightarrow> moves E E' m (sys_upd (\<lambda>x. x\<lparr>x_recv_free := p\<rparr>) m)"
  "mset (avail (x_send_free (m_bus m))) + E = mset (avail p) + E' \<Longrightarrow> moves E E' m (sys_upd (\<lambda>x. x\<lparr>x_send_free := p\<rparr>) m)"
  "mset (avail (x_gw_recv (m_bus m))) + E = mset (avail p) + E' \<Longrightarrow> moves E E' m (sys_upd (\<lambda>x. x\<lparr>x_gw_recv := p\<rparr>) m)"
  by (auto simp: moves_def sys_upd_def sys_buffers_def sys_ok_def ac_simps)

lemma moves_return [mv]:
  "moves {#e#} {#} m (return_free_recv en e m)" "moves {#e#} {#} m (return_free_send en e m)"
  "moves {#e#} {#} m (ec_mbx_gateway_enqueue en e m)"
  by (simp_all add: return_free_recv_def return_free_send_def ec_mbx_gateway_enqueue_def moves_def sys_upd_def
      sys_buffers_def sys_ok_def)

lemma moves_data: "(sys_ok (m_bus m) \<Longrightarrow> length d = LEC_MAX_POOL_DATA_SIZE) \<Longrightarrow> moves E E m (set_data e d m)"
  by (simp add: moves_def set_data_def sys_upd_def sys_buffers_def sys_ok_def)

lemma moves_dev [mv]: "moves E E m (sys_upd (\<lambda>x. x\<lparr>x_dev := f x\<rparr>) m)"
  "moves E E m (sys_upd (\<lambda>x. x\<lparr>x_user_cb := g x, x_user_arg := h x\<rparr>) m)"
  by (simp_all add: moves_def sys_upd_def sys_buffers_def sys_ok_def)

lemma moves_slv [mv]: "moves E E m (slv_upd i f m)"
  by (simp add: moves_def slv_upd_def)

lemma moves_signal [mv]: "moves E E m (mbx_signal en flag i m)"
  unfolding mbx_signal_def by (rule moves_mbx_same) (simp_all add: mbx_buffers_def mbx_ok_def)

lemma moves_sched [mv]: "moves E E m (mbx_sched_read en i m)"
  by (simp add: mbx_sched_read_def moves_signal)

lemma moves_length: "moves E F a b \<Longrightarrow> length (x_mbx (m_bus b)) = length (x_mbx (m_bus a))"
  by (simp add: moves_def)

lemma moves_enqueue [mv]:
  assumes "i < length (x_mbx (m_bus m))"
  shows "moves {#e#} {#} m (mbx_enqueue_head en i e m)" "moves {#e#} {#} m (mbx_enqueue_tail en i e m)"
proof -
  have *: "moves {#e#} {#} m (mbx_upd i (\<lambda>x. x\<lparr>mx_send_queued := q (mx_send_queued x)\<rparr>) m)"
    if "\<And>p. mset (avail (q p)) = add_mset e (mset (avail p))" for q :: "nat pool \<Rightarrow> nat pool"
    using assms by (rule moves_mbx) (simp_all add: mbx_buffers_def mbx_ok_def that)
  show "moves {#e#} {#} m (mbx_enqueue_head en i e m)" "moves {#e#} {#} m (mbx_enqueue_tail en i e m)"
    unfolding mbx_enqueue_head_def mbx_enqueue_tail_def
    by (rule moves_trans[OF * moves_signal]; simp add: assms mbx_upd_def sys_upd_def)+
qed

lemma next_counter_upd:
  assumes "i < length (x_mbx (m_bus m))"
  shows "ec_mbx_next_counter i m =
    (if i \<ge> m_slave_cnt m then (EC_ERROR_SLAVE_NOT_FOUND, None, m)
     else (let c = (if mx_seq_counter (mbx_of m i) + 1 > 7 then 1 else mx_seq_counter (mbx_of m i) + 1)
           in (EC_OK, Some c, mbx_upd i (\<lambda>x. x\<lparr>mx_seq_counter := c\<rparr>) m)))"
  using assms by (simp add: ec_mbx_next_counter_def Let_def mbx_upd_def mbx_of_def sys_upd_def)

lemma moves_counter:
  assumes "ec_mbx_next_counter i m = (r, c, m')" "i < length (x_mbx (m_bus m))"
  shows "moves E E m m'"
  using assms by (auto simp: next_counter_upd Let_def moves_refl split: if_splits
      intro!: moves_mbx) (auto simp: mbx_buffers_def mbx_ok_def)

lemma moves_access:
  assumes "mbx_laws o'"
  shows "slv_fprd o' i ado d w m = (r, d', w', m') \<Longrightarrow> moves E E m m' \<and> length d' = length d"
    and "slv_fpwr o' i ado d w m = (r, d', w', m') \<Longrightarrow> moves E E m m' \<and> length d' = length d"
    and "timer_start o' n m = (t, m') \<Longrightarrow> moves E E m m'"
    and "timer_over o' n m = (ex, m') \<Longrightarrow> moves E E m m'"
    and "moves E E m (mbx_sleep o' n m)" "moves E E m (o_cycle o' m)"
proof -
  note L = assms[unfolded mbx_laws_def]
  have R: "register_bus (o_bus o')" using L by simp
  note xl = register_bus.xcv_length[OF R]
  have k: "keeps (\<lambda>s. snd (snd (snd (b_xcv (o_bus o') c a d w s))))" "keeps (\<lambda>s. snd (b_timer_init (o_bus o') n s))"
    "keeps (\<lambda>s. snd (b_timer_expired (o_bus o') n s))" "keeps (b_sleep (o_bus o') n)" for c a d w using L by simp_all
  show "slv_fprd o' i ado d w m = (r, d', w', m') \<Longrightarrow> moves E E m m' \<and> length d' = length d"
    using moves_upd[OF k(1)[of EC_CMD_FPRD "reg_adr (sl_fixed_address (slv m i)) ado" d w], of E m]
    by (auto simp: slv_fprd_def ec_fprd_def split: prod.splits dest: xl)
  show "slv_fpwr o' i ado d w m = (r, d', w', m') \<Longrightarrow> moves E E m m' \<and> length d' = length d"
    using moves_upd[OF k(1)[of EC_CMD_FPWR "reg_adr (sl_fixed_address (slv m i)) ado" d w], of E m]
    by (auto simp: slv_fpwr_def ec_fpwr_def split: prod.splits dest: xl)
  show "timer_start o' n m = (t, m') \<Longrightarrow> moves E E m m'"
    using moves_upd[OF k(2), of E m] by (auto simp: timer_start_def split: prod.splits)
  show "timer_over o' n m = (ex, m') \<Longrightarrow> moves E E m m'"
    using moves_upd[OF k(3), of E m] by (auto simp: timer_over_def split: prod.splits)
  have c: "moves E E m (o_cycle o' m)" for m
    using L[THEN conjunct2, THEN conjunct2, THEN conjunct2, THEN conjunct2, rule_format] by (rule moves_hold)
  show "moves E E m (o_cycle o' m)" by (rule c)
  show "moves E E m (mbx_sleep o' n m)"
    using moves_trans[OF moves_upd[OF k(4), of E m] c] by (simp add: mbx_sleep_def pause_def)
qed

lemma moves_wait_mailbox:
  assumes L: "mbx_laws o'"
    and look: "\<And>s w m s' w' m'. look s w m = (s', w', m') \<Longrightarrow> moves E E m m'"
    and lp: "loop k (wait_mailbox_body o' look wanted t) (s, w, m) = Some (r, m')"
  shows "moves E E m m'"
proof -
  have 1: "moves E E m m2" if "moves E E m m1" "look s1 w1 m1 = (s2, w2, m2)" for s1 w1 m1 s2 w2 m2
    using moves_trans[OF that(1)] look[OF that(2)] by simp
  have 2: "moves E E m m3" if "moves E E m m1" "look s1 w1 m1 = (s2, w2, m2)"
    "timer_over o' t (mbx_sleep o' EC_DEFAULT_DELAY m2) = (ex, m3)" for s1 w1 m1 s2 w2 m2 ex m3
    using moves_trans[OF moves_trans[OF 1[OF that(1,2)] moves_access(5)[OF L]] moves_access(4)[OF L that(3)]] .
  have "moves E E m (snd (r, m'))"
    using lp
  proof (induction rule: loop_invariant[where I = "\<lambda>s. moves E E m (snd (snd s))"])
    case (step a b)
    then show ?case by (auto simp: wait_mailbox_body_def split: prod.splits if_splits simp del: EC_DEFAULT_DELAY_def intro: 1 2)
  next
    case (exit a b)
    then show ?case by (auto simp: wait_mailbox_body_def split: prod.splits if_splits simp del: EC_DEFAULT_DELAY_def intro: 1 2)
  qed (simp add: moves_refl)
  then show ?thesis by simp
qed


lemma moves_read_sm:
  "mbx_laws o' \<Longrightarrow> read_sm_state o' i mbx_nr s w m = (s', w', m') \<Longrightarrow> moves E E m m'"
  by (auto simp: read_sm_state_def split: prod.splits dest: moves_access(1))

lemma moves_mapped: "moves E E m (mbx_upd i (\<lambda>x. x\<lparr>mx_sm_state := v\<rparr>) m)"
  by (rule moves_mbx_same) (simp_all add: mbx_buffers_def mbx_ok_def)

lemma moves_full:
  assumes L: "mbx_laws o'"
    and f: "ec_mbx_is_full o' i mbx_nr ns m = Some (r, m')"
  shows "moves E E m m'"
proof (cases "i \<ge> m_slave_cnt m")
  case True
  then show ?thesis using f by (simp add: ec_mbx_is_full_def moves_refl)
next
  case False
  obtain t m1 where t: "timer_start o' ns m = (t, m1)" by (cases "timer_start o' ns m")
  have "moves E E m1 m'"
    using f[unfolded ec_mbx_is_full_def Let_def t prod.case if_not_P[OF False]]
    by (rule moves_wait_mailbox[OF L, rotated]) (auto split: if_splits intro: moves_read_sm[OF L] moves_mapped)
  then show ?thesis by (rule moves_trans[OF moves_access(3)[OF L t]])
qed

lemma moves_empty:
  assumes L: "mbx_laws o'" and f: "ec_mbx_is_empty o' i mbx_nr ns m = Some (r, m')"
  shows "moves E E m m'"
proof (cases "i \<ge> m_slave_cnt m")
  case True
  then show ?thesis using f by (simp add: ec_mbx_is_empty_def moves_refl)
next
  case False
  obtain t m1 where t: "timer_start o' ns m = (t, m1)" by (cases "timer_start o' ns m")
  have "moves E E m1 m'"
    using f[unfolded ec_mbx_is_empty_def Let_def t prod.case if_not_P[OF False]]
    by (rule moves_wait_mailbox[OF L, rotated]) (rule moves_read_sm[OF L])
  then show ?thesis by (rule moves_trans[OF moves_access(3)[OF L t]])
qed

lemma moves_send_loop:
  assumes L: "mbx_laws o'" and lp: "loop k (mbx_send_body o' i t) (buf, w, m) = Some (r, buf', m')"
  shows "moves E E m m' \<and> length buf' = length buf"
proof -
  have 1: "moves E E m m2 \<and> length b2 = length b1"
    if "moves E E m m1" "slv_fpwr o' i a b1 w1 m1 = (r2, b2, w2, m2)" for r2 a w1 m1 b1 b2 w2 m2
    using moves_trans[OF that(1)] moves_access(2)[OF L that(2)] by simp
  have 2: "moves E E m m3" if "moves E E m m2" "timer_over o' t (mbx_sleep o' EC_DEFAULT_DELAY m2) = (ex, m3)" for m2 ex m3
    using moves_trans[OF moves_trans[OF that(1) moves_access(5)[OF L]] moves_access(4)[OF L that(2)]] .
  have "moves E E m (snd (snd (r, buf', m'))) \<and> length (fst (snd (r, buf', m'))) = length buf"
    using lp
  proof (induction rule: loop_invariant[where I = "\<lambda>s. moves E E m (snd (snd s)) \<and> length (fst s) = length buf"])
    case (step a b)
    obtain b1 w1 m1 where a: "a = (b1, w1, m1)" by (cases a)
    obtain r2 b2 w2 m2 where w: "slv_fpwr o' i (unat (sm_adr (sl_sm (slv m1 i) ! MAILBOX_WRITE))) b1 w1 m1 = (r2, b2, w2, m2)"
      by (metis prod_cases4)
    obtain ex m3 where t: "timer_over o' t (mbx_sleep o' EC_DEFAULT_DELAY m2) = (ex, m3)" by (cases "timer_over o' t (mbx_sleep o' EC_DEFAULT_DELAY m2)")
    show ?case using step a w t 1[OF _ w] 2[OF _ t]
      by (auto simp: mbx_send_body_def simp del: EC_DEFAULT_DELAY_def split: if_splits)
  next
    case (exit a b)
    obtain b1 w1 m1 where a: "a = (b1, w1, m1)" by (cases a)
    obtain r2 b2 w2 m2 where w: "slv_fpwr o' i (unat (sm_adr (sl_sm (slv m1 i) ! MAILBOX_WRITE))) b1 w1 m1 = (r2, b2, w2, m2)"
      by (metis prod_cases4)
    obtain ex m3 where t: "timer_over o' t (mbx_sleep o' EC_DEFAULT_DELAY m2) = (ex, m3)" by (cases "timer_over o' t (mbx_sleep o' EC_DEFAULT_DELAY m2)")
    show ?case using exit a w t 1[OF _ w] 2[OF _ t]
      by (auto simp: mbx_send_body_def simp del: EC_DEFAULT_DELAY_def split: if_splits)
  qed (simp add: moves_refl)
  then show ?thesis by simp
qed

lemma moves_send:
  assumes L: "mbx_laws o'" and f: "ec_mbx_send o' i buf ns m = Some (r, buf', m')"
  shows "moves E E m m' \<and> length buf' = length buf"
proof (cases "i \<ge> m_slave_cnt m")
  case True
  then show ?thesis using f by (simp add: ec_mbx_send_def moves_refl)
next
  case False
  obtain t m1 where t: "timer_start o' ns m = (t, m1)" by (cases "timer_start o' ns m")
  obtain r2 m2 where e: "ec_mbx_is_empty o' i MAILBOX_WRITE ns m1 = Some (r2, m2)"
    and s: "(if r2 \<noteq> EC_OK then Some (r2, buf, m2) else loop (o_fuel o') (mbx_send_body o' i t) (buf, 0, m2)) = Some (r, buf', m')"
    using f[unfolded ec_mbx_send_def Let_def t prod.case if_not_P[OF False]] by (auto simp: bind_eq_Some_conv)
  have "moves E E m2 m' \<and> length buf' = length buf"
    using s moves_send_loop[OF L, of _ i t buf 0 m2 r buf' m' E] by (auto simp: moves_refl split: if_splits)
  then show ?thesis
    using moves_trans[OF moves_trans[OF moves_access(3)[OF L t] moves_empty[OF L e]]] by simp
qed

lemma moves_receive:
  assumes L: "mbx_laws o'" and f: "ec_mbx_receive o' i buf ns m = Some (r, buf', m')"
  shows "moves E E m m' \<and> length buf' = length buf"
proof (cases "i \<ge> m_slave_cnt m")
  case True
  then show ?thesis using f by (simp add: ec_mbx_receive_def moves_refl)
next
  case False
  obtain r2 m2 where e: "ec_mbx_is_full o' i MAILBOX_READ ns m = Some (r2, m2)"
    using f False by (auto simp: ec_mbx_receive_def bind_eq_Some_conv)
  obtain r3 b3 w3 m3 where w: "slv_fprd o' i (unat (sm_adr (sl_sm (slv m2 i) ! MAILBOX_READ))) buf 0 m2 = (r3, b3, w3, m3)"
    by (metis prod_cases4)
  have 3: "moves E E m m3" "length b3 = length buf"
    using moves_trans[OF moves_full[OF L e]] moves_access(1)[OF L w] by simp_all
  show ?thesis using f False e w 3 moves_full[OF L e] moves_trans[OF 3(1) moves_mapped]
    by (auto simp: ec_mbx_receive_def split: if_splits)
qed


section \<open>The protocols\<close>

lemma moves_emergency:
  assumes L: "mbx_laws o'"
  shows "moves {#e#} {#} m (ec_coe_emergency_enqueue en o' i e m)"
proof -
  obtain r dev where l: "me_lock en i (x_dev (m_bus m)) = (r, dev)" by fastforce
  let ?m = "sys_upd (\<lambda>x. x\<lparr>x_dev := dev\<rparr>) m"
  obtain now s where w: "o_now o' (m_bus ?m) = (now, s)" by fastforce
  have "keeps (\<lambda>s. snd (o_now o' s))" using L[unfolded mbx_laws_def] by blast
  then have 1: "moves {#e#} {#e#} m (?m\<lparr>m_bus := s\<rparr>)"
    using moves_trans[OF moves_dev(1) moves_upd, of "\<lambda>s. snd (o_now o' s)" "{#e#}" m "\<lambda>_. dev"] w by simp
  have em: "length (put_at 0 (slice 8 (min 32 n) d) b) = 32" if "length b = 32" for n d and b :: bytes
    using that by (simp add: put_at_def slice_def)
  let ?f = "\<lambda>now n d c. let w = co_next_write c; w' = (w + 1) mod LEC_MAX_COE_EMERGENCIES
       in c\<lparr>co_next_write := w', co_next_read := (if w' = co_next_read c
              then (co_next_read c + 1) mod LEC_MAX_COE_EMERGENCIES else co_next_read c),
            co_emergencies := (co_emergencies c)[w := \<lparr>em_timestamp = now, em_msg_len = min LEC_MAX_COE_EMERGENCY_MSG_LEN n,
              em_msg = put_at 0 (slice 8 (min LEC_MAX_COE_EMERGENCY_MSG_LEN n) d) (em_msg (co_emergencies c ! w))\<rparr>]\<rparr>"
  have 2: "moves E E m' (coe_upd i (?f now n d) m')" for m' :: "('a, 'b) mmaster" and n d E
    unfolding coe_upd_def
    by (rule moves_mbx_same)
      (auto simp: mbx_buffers_def mbx_ok_def Let_def intro!: em dest!: set_update_subset_insert[THEN subsetD])
  show ?thesis
  proof (cases "r = OSAL_OK")
    case True
    have "ec_coe_emergency_enqueue en o' i e m = return_free_recv en e (sys_upd (\<lambda>x. x\<lparr>x_dev := me_unlock en i (x_dev x)\<rparr>)
       (coe_upd i (?f now (unat (ucast (hdr_length (data_of m e)) - 2 :: u32)) (data_of m e)) (?m\<lparr>m_bus := s\<rparr>)))"
      using w by (simp add: ec_coe_emergency_enqueue_def l True Let_def)
    then show ?thesis
      using moves_trans[OF moves_trans[OF moves_trans[OF 1 2] moves_dev(1)] moves_return(1)] by simp
  next
    case False
    show ?thesis using False
      by (simp add: ec_coe_emergency_enqueue_def Let_def l moves_trans[OF moves_dev(1) moves_return(1)])
  qed
qed

lemma moves_coe_enqueue:
  assumes "mbx_laws o'" "i < length (x_mbx (m_bus m))"
  shows "moves {#e#} {#} m (ec_coe_enqueue en o' i e m)"
  using assms
  by (auto simp: ec_coe_enqueue_def Let_def coe_upd_def mbx_buffers_def mbx_ok_def
      intro!: moves_emergency moves_return moves_mbx)

lemma moves_soe_enqueue:
  assumes "ec_soe_enqueue en i e m = Some m'" "i < length (x_mbx (m_bus m))"
  shows "moves {#e#} {#} m m'"
  using assms
  by (auto simp: ec_soe_enqueue_def Let_def mbx_buffers_def mbx_ok_def split: if_splits
      intro!: moves_return moves_mbx)

lemma moves_foe_enqueue:
  "i < length (x_mbx (m_bus m)) \<Longrightarrow> moves {#e#} {#} m (ec_foe_enqueue en i e m)"
  unfolding ec_foe_enqueue_def by (rule moves_mbx) (auto simp: mbx_buffers_def mbx_ok_def)


lemma moves_frames [mv]:
  "(\<And>q. eq_recv (f q) = eq_recv q) \<Longrightarrow> (\<And>q. eq_response (f q) = eq_response q) \<Longrightarrow>
   (\<And>q. (\<forall>k. length (eq_frame_data q k) = 1518) \<Longrightarrow> (\<forall>k. length (eq_frame_data (f q) k) = 1518)) \<Longrightarrow>
   moves E E m (eoe_upd i f m)"
  unfolding eoe_upd_def by (rule moves_mbx_same) (auto simp: mbx_buffers_def mbx_ok_def)

lemma moves_keep_frame: "moves E E m (keep_frame en i k m)"
  unfolding keep_frame_def by (rule moves_frames) auto

lemma moves_deliver:
  assumes "deliver_frame en i k n m = Some m'"
  shows "moves E E m m'"
  using assms
  by (auto simp: deliver_frame_def bind_eq_Some_conv split: option.splits
      intro!: moves_keep_frame moves_trans[OF moves_dev(1) moves_frames])

lemma moves_copy:
  assumes "copy_fragment i k off d m = Some (off', m')" "i < length (x_mbx (m_bus m))"
  shows "moves E E m m'"
  using assms
  by (auto simp: copy_fragment_def Let_def bind_eq_Some_conv write_at_def eoe_upd_def mbx_buffers_def mbx_ok_def length_put_at
      split: if_splits intro!: moves_mbx)

lemma moves_pool_wait:
  assumes L: "mbx_laws o'" and f: "pool_wait en o' get put ns m = (e, m')"
    and put: "\<And>m p E E'. mset (avail (get m)) + E = mset (avail p) + E' \<Longrightarrow> n = length (x_mbx (m_bus m)) \<Longrightarrow> moves E E' m (put p m)"
    and n: "n = length (x_mbx (m_bus m))"
  shows "moves {#} (held e) m m'"
proof -
  obtain t m1 where t: "timer_start o' ns m = (t, m1)" by (cases "timer_start o' ns m")
  have 1: "moves {#} {#} m (o_cycle o' m1)"
    by (rule moves_trans[OF moves_access(3)[OF L t] moves_access(6)[OF L]])
  obtain r e' p where g: "pool_get (me_os en) (get (o_cycle o' m1)) (Some t) = (r, e', p)" by (metis prod_cases3)
  have "moves {#} (held e') (o_cycle o' m1) (put p (o_cycle o' m1))"
    using pool_get_mset[OF g] moves_length[OF 1] n by (intro put) simp_all
  then show ?thesis using moves_trans[OF 1] f t g by (simp add: pool_wait_def)
qed

lemma moves_mbx_wait:
  assumes L: "mbx_laws o'" and f: "mbx_wait en o' get put wake m = Some (e, m')"
    and put: "\<And>m p E E'. mset (avail (get m)) + E = mset (avail p) + E' \<Longrightarrow> n = length (x_mbx (m_bus m)) \<Longrightarrow> moves E E' m (put p m)"
    and wake: "\<And>m E. moves E E m (wake m)"
    and n: "n = length (x_mbx (m_bus m))"
  shows "moves {#} (held e) m m'"
proof -
  obtain t m1 where t: "timer_start o' (EC_DEFAULT_TIMEOUT_MBX * 10) m = (t, m1)"
    by (cases "timer_start o' (EC_DEFAULT_TIMEOUT_MBX * 10) m")
  have 1: "moves {#} (held e2) m m3"
    if "moves {#} {#} m m0" "pool_wait en o' get put 100000 (wake m0) = (e2, m2)" "timer_over o' t m2 = (ex, m3)"
    for m0 e2 m2 ex m3
  proof -
    have a: "moves {#} {#} m (wake m0)" by (rule moves_trans[OF that(1) wake])
    have "moves {#} (held e2) (wake m0) m2"
      by (rule moves_pool_wait[OF L that(2) put]) (use moves_length[OF a] n in simp_all)
    then show ?thesis by (rule moves_trans[OF moves_trans[OF a] moves_access(4)[OF L that(3)]])
  qed
  have "moves {#} (held (fst (e, m'))) m (snd (e, m'))"
    using f[unfolded mbx_wait_def Let_def t prod.case]
  proof (induction rule: loop_invariant[where I = "\<lambda>m0. moves {#} {#} m m0"])
    case (step a b)
    then show ?case using 1[OF step(1)] by (force simp: mbx_wait_body_def split: prod.splits if_splits)
  next
    case (exit a b)
    then show ?case using 1[OF exit(1)] by (force simp: mbx_wait_body_def split: prod.splits if_splits)
  qed (rule moves_access(3)[OF L t])
  then show ?thesis by simp
qed


lemma moves_eoe_recv:
  "mset (avail (eq_recv (eoe_of m i))) + E = mset (avail p) + E' \<Longrightarrow> i < length (x_mbx (m_bus m)) \<Longrightarrow>
   moves E E' m (eoe_upd i (\<lambda>q. q\<lparr>eq_recv := p\<rparr>) m)"
  unfolding eoe_upd_def by (rule moves_mbx) (auto simp: mbx_buffers_def mbx_ok_def ac_simps)

lemma moves_eoe_wait:
  assumes L: "mbx_laws o'" and f: "ec_eoe_wait en o' i m = Some (e, m')" and i: "i < length (x_mbx (m_bus m))"
  shows "moves {#} (held e) m m'"
  by (rule moves_mbx_wait[OF L f[unfolded ec_eoe_wait_def] moves_eoe_recv moves_sched refl]) (use i in simp_all)

lemma moves_loop_opt:
  assumes "\<And>s x. body s = Some x \<Longrightarrow> i < length (x_mbx (m_bus (st s))) \<Longrightarrow>
      moves E E (st s) (case x of Inl y \<Rightarrow> st y | Inr y \<Rightarrow> fin y)"
    and "loop_opt n body s = Some r" and "i < length (x_mbx (m_bus (st s)))"
  shows "moves E E (st s) (fin r)"
  using assms(2,3)
proof (induction n arbitrary: s)
  case (Suc n)
  obtain x where x: "body s = Some x" using Suc(2) by (auto split: option.splits)
  note 1 = assms(1)[OF x Suc(3)]
  show ?case
  proof (cases x)
    case (Inl s')
    then have 2: "moves E E (st s) (st s')" using 1 by simp
    have "moves E E (st s') (fin r)" using Suc.IH[of s'] Suc.prems x Inl moves_length[OF 2] by simp
    then show ?thesis by (rule moves_trans[OF 2])
  next
    case (Inr y)
    then show ?thesis using 1 x Suc(2) by simp
  qed
qed simp

lemma moves_next_fragment:
  assumes L: "mbx_laws o'" and f: "next_fragments_body en o' i k (off, m) = Some x" and i: "i < length (x_mbx (m_bus m))"
  shows "moves {#} {#} m (case x of Inl y \<Rightarrow> snd y | Inr y \<Rightarrow> y)"
proof -
  obtain e m1 where w: "ec_eoe_wait en o' i m = Some (e, m1)"
    using f by (auto simp: next_fragments_body_def bind_eq_Some_conv)
  note 1 = moves_eoe_wait[OF L w i]
  show ?thesis
  proof (cases e)
    case None
    then show ?thesis using f w 1 moves_trans[OF _ moves_keep_frame, of "{#}" "{#}" m m1]
      by (auto simp: next_fragments_body_def)
  next
    case (Some e')
    obtain off' m2 where c: "copy_fragment i k off (data_of m1 e') m1 = Some (off', m2)"
      using f w Some by (auto simp: next_fragments_body_def bind_eq_Some_conv)
    have 2: "moves {#} {#e'#} m m2"
      using moves_trans[OF 1 moves_copy[OF c]] moves_length[OF 1] i Some by simp
    show ?thesis using f w c Some moves_trans[OF 2 moves_return(1)]
      by (auto simp: next_fragments_body_def bind_eq_Some_conv split: if_splits
          intro!: moves_trans[OF moves_trans[OF 2 moves_deliver] moves_return(1)])
  qed
qed

lemma moves_next_fragments:
  assumes L: "mbx_laws o'" and f: "loop_opt n (next_fragments_body en o' i k) (off, m) = Some m'"
    and i: "i < length (x_mbx (m_bus m))"
  shows "moves {#} {#} m m'"
  using moves_loop_opt[where st = snd and fin = "\<lambda>m. m" and E = "{#}", OF _ f] i moves_next_fragment[OF L]
  by (metis snd_conv surj_pair)

lemma moves_process_recv:
  assumes L: "mbx_laws o'" and f: "ec_eoe_process_recv en o' i m = Some (r, m')"
    and i: "i < length (x_mbx (m_bus m))"
  shows "moves {#} {#} m m'"
proof (cases "i \<ge> m_slave_cnt m")
  case True
  then show ?thesis using f by (simp add: ec_eoe_process_recv_def moves_refl)
next
  case False
  obtain r1 e1 p1 where g: "pool_get (me_os en) (eq_recv (eoe_of m i)) None = (r1, e1, p1)" by (metis prod_cases3)
  let ?m1 = "eoe_upd i (\<lambda>q. q\<lparr>eq_recv := p1\<rparr>) m"
  have 1: "moves {#} (held e1) m ?m1"
    by (rule moves_eoe_recv) (use pool_get_mset[OF g] i in simp_all)
  show ?thesis
  proof (cases e1)
    case None
    then show ?thesis using f False g 1 by (simp add: ec_eoe_process_recv_def)
  next
    case (Some e)
    obtain r2 k p2 where h: "pool_get (me_os en) (eq_free_frames (eoe_of ?m1 i)) None = (r2, k, p2)" by (metis prod_cases3)
    let ?m2 = "eoe_upd i (\<lambda>q. q\<lparr>eq_free_frames := p2\<rparr>) ?m1"
    have 2: "moves {#} {#e#} m ?m2"
      using moves_trans[OF 1 moves_frames] Some by simp
    have i2: "i < length (x_mbx (m_bus ?m2))" using moves_length[OF 2] i by simp
    show ?thesis
    proof (cases k)
      case None
      then show ?thesis using f False g h Some moves_trans[OF 2 moves_return(1)]
        by (auto simp: ec_eoe_process_recv_def Let_def)
    next
      case k: (Some k)
      let ?m3 = "eoe_upd i (\<lambda>q. q\<lparr>eq_frame_size := (eq_frame_size q)(k := eoe_complete_size (data_of ?m2 e) * 32)\<rparr>) ?m2"
      have 3: "moves {#} {#e#} m ?m3" by (rule moves_trans[OF 2 moves_frames]) auto
      have i3: "i < length (x_mbx (m_bus ?m3))" using moves_length[OF 3] i by simp
      show ?thesis
      proof (cases "eoe_fragment_number (data_of ?m2 e) = 0")
        case False
        then show ?thesis
          using f \<open>\<not> i \<ge> m_slave_cnt m\<close> g h k Some moves_trans[OF moves_trans[OF 2 moves_keep_frame] moves_return(1)]
          by (auto simp: ec_eoe_process_recv_def Let_def)
      next
        case True
        then obtain off m4 where c: "copy_fragment i k 0 (data_of ?m2 e) ?m3 = Some (off, m4)"
          and l: "(if eoe_last_fragment (data_of ?m2 e) then map_option (return_free_recv en e) (deliver_frame en i k off m4)
              else loop_opt (o_fuel o') (next_fragments_body en o' i k) (off, return_free_recv en e m4)) = Some m'"
          using f \<open>\<not> i \<ge> m_slave_cnt m\<close> g h k Some
          by (auto simp: ec_eoe_process_recv_def Let_def bind_eq_Some_conv)
        note 4 = moves_trans[OF 3 moves_copy[OF c i3]]
        have 5: "moves {#} {#} m (return_free_recv en e m4)" by (rule moves_trans[OF 4 moves_return(1)])
        show ?thesis
        proof (cases "eoe_last_fragment (data_of ?m2 e)")
          case True
          then show ?thesis using l moves_trans[OF moves_trans[OF 4 moves_deliver] moves_return(1)] by auto
        next
          case False
          then show ?thesis using l moves_trans[OF 5 moves_next_fragments[OF L]] moves_length[OF 5] i by simp
        qed
      qed
    qed
  qed
qed


lemma moves_eoe_enqueue:
  assumes L: "mbx_laws o'" and f: "ec_eoe_enqueue en o' i e m = Some m'" and i: "i < length (x_mbx (m_bus m))"
  shows "moves {#e#} {#} m m'"
proof (cases "eoe_frame_type (data_of m e) = EOE_FRAME_TYPE_SET_IP_ADDRESS_RESPONSE")
  case True
  then show ?thesis using f i
    by (auto simp: ec_eoe_enqueue_def Let_def eoe_upd_def mbx_buffers_def mbx_ok_def intro!: moves_mbx)
next
  case False
  let ?m = "eoe_upd i (\<lambda>q. q\<lparr>eq_recv := pool_put (me_os en) (eq_recv q) e\<rparr>) m"
  have 1: "moves {#e#} {#} m ?m"
    using i unfolding eoe_upd_def by (intro moves_mbx) (auto simp: mbx_buffers_def mbx_ok_def)
  have *: "moves {#} {#} s (case x of Inl y \<Rightarrow> y | Inr y \<Rightarrow> y)"
    if "process_all_body en o' i s = Some x" "i < length (x_mbx (m_bus s))" for s x
    using that moves_process_recv[OF L] by (auto simp: process_all_body_def split: if_splits)
  show ?thesis
    using f False 1 moves_loop_opt[where st = "\<lambda>m. m" and fin = "\<lambda>m. m", OF *] moves_length[OF 1] i
    by (auto simp: ec_eoe_enqueue_def Let_def split: if_splits intro: moves_trans)
qed

section \<open>The handler\<close>

lemma moves_dispatch:
  assumes L: "mbx_laws o'" and f: "mbx_dispatch en o' i e m = Some m'" and i: "i < length (x_mbx (m_bus m))"
  shows "moves {#e#} {#} m m'"
proof -
  have *: "hdr_address (data_of m e) AND 0x8000 \<noteq> 0 \<and> m' = ec_mbx_gateway_enqueue en e m \<or>
     m' = ec_coe_enqueue en o' i e m \<or> ec_soe_enqueue en i e m = Some m' \<or> m' = ec_foe_enqueue en i e m \<or>
     ec_eoe_enqueue en o' i e m = Some m' \<or> m' = return_free_recv en e m"
    using f by (auto simp: mbx_dispatch_def Let_def split: if_splits)
  then show ?thesis
    using moves_coe_enqueue[OF L i, of e en] moves_soe_enqueue[OF _ i] moves_foe_enqueue[OF i]
      moves_eoe_enqueue[OF L _ i] moves_return by metis
qed

lemma moves_put_buffer:
  "length buf \<le> LEC_MAX_POOL_DATA_SIZE \<Longrightarrow> moves E E m (set_data e (put_at 0 buf (data_of m e)) m)"
  by (rule moves_data) (auto simp: sys_ok_def data_of_def length_put_at)

lemma moves_handle_recv:
  assumes L: "mbx_laws o'" and f: "mbx_handle_recv en o' i m = Some m'" and i: "i < length (x_mbx (m_bus m))"
  shows "moves {#} {#} m m'"
proof -
  obtain r e p where g: "pool_get (me_os en) (x_recv_free (m_bus m)) None = (r, e, p)" by (metis prod_cases3)
  let ?m1 = "sys_upd (\<lambda>x. x\<lparr>x_recv_free := p\<rparr>) m"
  have 1: "moves {#} (held e) m ?m1" by (rule moves_sys_pool) (use pool_get_mset[OF g] in simp)
  show ?thesis
  proof (cases e)
    case None
    then show ?thesis using f g 1 by (simp add: mbx_handle_recv_def)
  next
    case (Some e)
    let ?m2 = "set_data e (replicate LEC_MAX_POOL_DATA_SIZE 0) ?m1"
    let ?n = "min LEC_MAX_POOL_DATA_SIZE (unat (sm_len (sl_sm (slv ?m2 i) ! MAILBOX_READ)))"
    have 2: "moves {#} {#e#} m ?m2" by (rule moves_trans[OF 1[unfolded Some held_simps] moves_data]) simp
    obtain r3 buf m3 where c: "ec_mbx_receive o' i (take ?n (data_of ?m2 e)) 0 ?m2 = Some (r3, buf, m3)"
      and l: "(if r3 = EC_OK then mbx_dispatch en o' i e (set_data e (put_at 0 buf (data_of m3 e)) m3)
               else Some (return_free_recv en e (set_data e (put_at 0 buf (data_of m3 e)) m3))) = Some m'"
      using f g Some by (auto simp: mbx_handle_recv_def Let_def bind_eq_Some_conv)
    have b: "length buf \<le> LEC_MAX_POOL_DATA_SIZE"
      using moves_receive[OF L c] by simp
    have 3: "moves {#} {#e#} m (set_data e (put_at 0 buf (data_of m3 e)) m3)"
      using moves_trans[OF moves_trans[OF 2] moves_put_buffer[OF b]] moves_receive[OF L c] by blast
    show ?thesis
      using l moves_trans[OF 3 moves_return(1)] moves_trans[OF 3 moves_dispatch[OF L]] moves_length[OF 3] i
      by (auto split: if_splits)
  qed
qed

lemma moves_retry:
  assumes L: "mbx_laws o'"
  shows "mbx_send_retry o' i n buf m = Some (r, buf', m') \<Longrightarrow> moves E E m m' \<and> length buf' = length buf"
proof (induction n arbitrary: buf m)
  case 0
  then show ?case using moves_send[OF L] by simp
next
  case (Suc n)
  obtain r1 b1 m1 where s: "ec_mbx_send o' i buf EC_DEFAULT_TIMEOUT_MBX m = Some (r1, b1, m1)"
    and l: "(if r1 \<noteq> EC_OK then mbx_send_retry o' i n b1 m1 else Some (r1, b1, m1)) = Some (r, buf', m')"
    using Suc.prems by (auto simp: bind_eq_Some_conv)
  show ?case using moves_send[OF L s] Suc.IH[of b1 m1] l by (auto split: if_splits intro: moves_trans)
qed

lemma moves_handle_send:
  assumes L: "mbx_laws o'" and f: "mbx_handle_send en o' i m = Some m'" and i: "i < length (x_mbx (m_bus m))"
  shows "moves {#} {#} m m'"
proof -
  obtain r e p where g: "pool_get (me_os en) (mx_send_queued (mbx_of m i)) None = (r, e, p)" by (metis prod_cases3)
  let ?m1 = "mbx_upd i (\<lambda>x. x\<lparr>mx_send_queued := p\<rparr>) m"
  have 1: "moves {#} (held e) m ?m1"
    using i by (rule moves_mbx) (use pool_get_mset[OF g] in \<open>auto simp: mbx_buffers_def mbx_ok_def ac_simps\<close>)
  show ?thesis
  proof (cases e)
    case None
    then show ?thesis using f g 1 by (simp add: mbx_handle_send_def)
  next
    case (Some e)
    let ?n = "min LEC_MAX_POOL_DATA_SIZE (unat (sm_len (sl_sm (slv ?m1 i) ! MAILBOX_WRITE)))"
    obtain r3 buf m3 where c: "mbx_send_retry o' i 9 (take ?n (data_of ?m1 e)) ?m1 = Some (r3, buf, m3)"
      and l: "m' = (let m = set_data e (put_at 0 buf (data_of m3 e)) m3
               in if r3 \<noteq> EC_OK then mbx_enqueue_head en i e m
                  else return_free_send en e (if x_user_cb (m_bus m) e
                    then sys_upd (\<lambda>x. x\<lparr>x_user_cb := (x_user_cb x)(e := False), x_user_arg := (x_user_arg x)(e := 0)\<rparr>)
                           (ec_eoe_send_sync en e m)
                    else m))"
      using f g Some by (auto simp: mbx_handle_send_def Let_def bind_eq_Some_conv)
    have b: "length buf \<le> LEC_MAX_POOL_DATA_SIZE" using moves_retry[OF L c] by simp
    let ?m4 = "set_data e (put_at 0 buf (data_of m3 e)) m3"
    have 3: "moves {#} {#e#} m ?m4"
      using moves_trans[OF moves_trans[OF 1[unfolded Some held_simps]] moves_put_buffer[OF b]] moves_retry[OF L c] by blast
    have 4: "moves E E m'' (ec_eoe_send_sync en e m'')" for E and m'' :: "('a, 'b) mmaster"
      unfolding ec_eoe_send_sync_def by (rule moves_frames) auto
    have 5: "moves {#} {#} m (mbx_enqueue_head en i e ?m4)"
      by (rule moves_trans[OF 3 moves_enqueue(1)]) (use moves_length[OF 3] i in simp)
    show ?thesis unfolding l Let_def
      using 5 moves_trans[OF 3 moves_return(2)] moves_trans[OF moves_trans[OF moves_trans[OF 3 4] moves_dev(2)] moves_return(2)]
      by simp
  qed
qed


lemma moves_do_handle:
  assumes L: "mbx_laws o'" and f: "ec_mbx_do_handle en o' i m = Some m'" and i: "i < length (x_mbx (m_bus m))"
  shows "moves {#} {#} m m'"
proof -
  let ?m1 = "mbx_upd i (\<lambda>x. x\<lparr>mx_handler_flags := 0\<rparr>) m"
  have 1: "moves {#} {#} m ?m1" by (rule moves_mbx_same) (auto simp: mbx_buffers_def mbx_ok_def)
  obtain m2 where r: "(if mx_handler_flags (mbx_of m i) AND HANDLER_RECV \<noteq> 0 then mbx_handle_recv en o' i ?m1 else Some ?m1) = Some m2"
    and s: "(if mx_handler_flags (mbx_of m i) AND HANDLER_SEND \<noteq> 0 then mbx_handle_send en o' i m2 else Some m2) = Some m'"
    using f by (auto simp: ec_mbx_do_handle_def Let_def bind_eq_Some_conv)
  have 2: "moves {#} {#} m m2"
    using r 1 moves_trans[OF 1 moves_handle_recv[OF L]] moves_length[OF 1] i by (auto split: if_splits)
  show ?thesis
    using s 2 moves_trans[OF 2 moves_handle_send[OF L]] moves_length[OF 2] i by (auto split: if_splits)
qed


lemma moves_handler_round:
  assumes L: "mbx_laws o'" and f: "mbx_handler_body en o' i m = Some x" and i: "i < length (x_mbx (m_bus m))"
  shows "moves {#} {#} m (case x of Inl y \<Rightarrow> y | Inr y \<Rightarrow> y)"
proof (cases "sl_handler_running (slv m i)")
  case False
  then show ?thesis using f by (auto simp: mbx_handler_body_def moves_refl)
next
  case True
  obtain t m1 where t: "timer_start o' (if mbx_polls i m then 1000000 else 100000000) m = (t, m1)" by fastforce
  have 1: "moves {#} {#} m (o_cycle o' m1)" by (rule moves_trans[OF moves_access(3)[OF L t] moves_access(6)[OF L]])
  have 2: "moves {#} {#} m (mbx_upd i (\<lambda>x. x\<lparr>mx_sync_sem := sem\<rparr>) (o_cycle o' m1))" for sem
    by (rule moves_trans[OF 1 moves_mbx_same]) (simp_all add: mbx_buffers_def mbx_ok_def)
  have 3: "moves {#} {#} m (mbx_upd i (\<lambda>x. x\<lparr>mx_handler_flags := fl x\<rparr>)
      (mbx_upd i (\<lambda>x. x\<lparr>mx_sync_sem := sem\<rparr>) (o_cycle o' m1)))" for sem fl
    by (rule moves_trans[OF 2 moves_mbx_same]) (simp_all add: mbx_buffers_def mbx_ok_def)
  have 4: "moves {#} {#} m m'" if "moves {#} {#} m a" "ec_mbx_do_handle en o' i a = Some m'" for a m'
    using moves_trans[OF that(1) moves_do_handle[OF L that(2)]] moves_length[OF that(1)] i by simp
  show ?thesis
  proof (cases "osal_binary_semaphore_timedwait (me_os en) t (mx_sync_sem (mbx_of (o_cycle o' m1) i))")
    case (Pair ret sem)
    let ?m1 = "mbx_upd i (\<lambda>x. x\<lparr>mx_sync_sem := sem\<rparr>) (o_cycle o' m1)"
    let ?fl = "\<lambda>x. mx_handler_flags x OR HANDLER_SEND OR (if mbx_polls i ?m1 then HANDLER_RECV else 0)"
    let ?m2 = "mbx_upd i (\<lambda>x. x\<lparr>mx_handler_flags := ?fl x\<rparr>) ?m1"
    have "x = Inl ?m1 \<or> map_option Inl (ec_mbx_do_handle en o' i ?m1) = Some x \<or>
        map_option Inl (ec_mbx_do_handle en o' i ?m2) = Some x"
      using f[unfolded mbx_handler_body_def Let_def t prod.case Pair] True
      by (cases "ret = OSAL_OK"; cases "ret = OSAL_ERR_TIMEOUT") simp_all
    then obtain m' where x: "x = Inl m'"
      and "m' = ?m1 \<or> ec_mbx_do_handle en o' i ?m1 = Some m' \<or> ec_mbx_do_handle en o' i ?m2 = Some m'" by blast
    then have "moves {#} {#} m m'" using 2[of sem] 4[OF 2[of sem]] 4[OF 3[of ?fl sem]] by blast
    then show ?thesis by (simp only: x sum.case)
  qed
qed

lemma moves_handler:
  assumes "mbx_laws o'" "ec_mbx_handler en o' i m = Some m'" "i < length (x_mbx (m_bus m))"
  shows "moves {#} {#} m m'"
  by (rule moves_loop_opt[where st = "\<lambda>m. m" and fin = "\<lambda>m. m", OF _ assms(2)[unfolded ec_mbx_handler_def] assms(3)])
    (rule moves_handler_round[OF assms(1)])

text \<open>
  C6: Whatever the handler of a mailbox finds to do (a message of the slave for one of the
  protocols or the gateway, a message to send, with or without success), each receive and send
  buffer is afterwards in exactly one of the pools and queues of the mailboxes, as before,
  if the bus and the other threads lose none.
\<close>

theorem handler_keeps_buffers:
  assumes "mbx_laws o'" "i < length (x_mbx (m_bus m))" "ec_mbx_do_handle en o' i m = Some m'"
  shows "sys_buffers (m_bus m') = sys_buffers (m_bus m)"
  using moves_do_handle[OF assms(1,3,2)] by (simp add: moves_def)


section \<open>A slave with a mailbox\<close>

text \<open>
  The messages that the slave has for the master, and those that the master has written; the
  mailboxes are at 0x1000 and 0x1080, \<open>answer\<close> gives the answers of the slave to a message. Time
  stands still: a timer of no length is over, all others are not.
\<close>

type_synonym mbx_dev = "bytes list \<times> bytes list"

definition mbx_dev_xcv :: "(bytes \<Rightarrow> bytes list) \<Rightarrow> u8 \<Rightarrow> u32 \<Rightarrow> bytes \<Rightarrow> mbx_dev \<Rightarrow> bytes \<times> u16 \<times> mbx_dev" where
  "mbx_dev_xcv answer c a d = (\<lambda>(up, down).
     if c = EC_CMD_FPRD \<and> a = reg_adr 1000 (EC_REG_SM0STAT + 8) then (map (\<lambda>_. if up = [] then 0 else 8) d, 1, (up, down))
     else if c = EC_CMD_FPRD \<and> a = reg_adr 1000 EC_REG_SM0STAT then (map (\<lambda>_. 0) d, 1, (up, down))
     else if c = EC_CMD_FPRD \<and> a = reg_adr 1000 0x1080 \<and> up \<noteq> []
     then (take (length d) (hd up @ replicate (length d) 0), 1, (tl up, down))
     else if c = EC_CMD_FPWR \<and> a = reg_adr 1000 0x1000 then (d, 1, (up @ answer d, down @ [d]))
     else (d, 0, (up, down)))"

definition mbx_bus :: "(bytes \<Rightarrow> bytes list) \<Rightarrow> mbx_dev mbx_sys bus" where
  "mbx_bus answer = \<lparr>b_xcv = (\<lambda>c a d w s. let (d, w, v) = mbx_dev_xcv answer c a d (x_dev s) in (EC_OK, d, w, s\<lparr>x_dev := v\<rparr>)),
     b_timer_init = (\<lambda>ns s. (ns, s)), b_timer_expired = (\<lambda>t s. (t = 0, s)), b_sleep = (\<lambda>ns s. s)\<rparr>"

lemma keeps_dev: "keeps (\<lambda>s. s\<lparr>x_dev := f s\<rparr>)" "keeps (\<lambda>s. s)"
  by (simp_all add: keeps_def sys_buffers_def sys_ok_def)

interpretation mbx_device: register_bus "mbx_bus answer"
  by unfold_locales (auto simp: mbx_bus_def mbx_dev_xcv_def split: prod.splits if_splits)

lemma mbx_demo_laws: "mbx_laws (demo_ops (mbx_bus answer) n)"
proof -
  have "keeps (\<lambda>s. snd (snd (snd (b_xcv (mbx_bus answer) c a d w s))))" for c a d w
    using keeps_dev(1)[of "\<lambda>s. snd (snd (mbx_dev_xcv answer c a d (x_dev s)))"] by (simp add: mbx_bus_def case_prod_unfold Let_def)
  moreover have "register_bus (mbx_bus answer)" ..
  ultimately show ?thesis
    unfolding mbx_laws_def demo_ops_def ops.simps
    by (intro conjI allI) (simp_all add: moves_refl, simp_all add: mbx_bus_def keeps_dev)
qed


definition mbx_demo_msg :: bytes where
  "mbx_demo_msg = [10, 0, 0, 0, 0, 0x13, 0, 0x30, 0x43, 0, 0x10, 0, 0x91, 1, 2, 0]"

definition empty_mbx :: ec_mbx where
  "empty_mbx = \<lparr>mx_handler_flags = HANDLER_RECV, mx_sync_sem = False, mx_seq_counter = 1, mx_sm_state = 0,
     mx_send_queued = \<lparr>avail = [], avail_cnt = 0\<rparr>,
     mx_coe = \<lparr>co_recv_pool = \<lparr>avail = [], avail_cnt = 0\<rparr>, co_next_read = 0, co_next_write = 0,
       co_emergencies = replicate 10 \<lparr>em_timestamp = 0, em_msg_len = 0, em_msg = replicate 32 0\<rparr>\<rparr>,
     mx_soe_recv = \<lparr>avail = [], avail_cnt = 0\<rparr>, mx_foe_recv = \<lparr>avail = [], avail_cnt = 0\<rparr>,
     mx_eoe = \<lparr>eq_recv = \<lparr>avail = [], avail_cnt = 0\<rparr>, eq_response = \<lparr>avail = [], avail_cnt = 0\<rparr>,
       eq_free_frames = \<lparr>avail = [0], avail_cnt = 1\<rparr>, eq_recv_frames = \<lparr>avail = [], avail_cnt = 0\<rparr>,
       eq_frame_size = (\<lambda>_. 0), eq_frame_data = (\<lambda>_. replicate 1518 0), eq_send_sync = 0\<rparr>\<rparr>"

definition mbx_demo_sys :: "bytes list \<Rightarrow> mbx_dev mbx_sys" where
  "mbx_demo_sys up = \<lparr>x_recv_free = \<lparr>avail = [7], avail_cnt = 1\<rparr>, x_send_free = \<lparr>avail = [8], avail_cnt = 1\<rparr>,
     x_gw_recv = \<lparr>avail = [], avail_cnt = 0\<rparr>, x_data = (\<lambda>_. replicate 1600 0), x_user_cb = (\<lambda>_. False),
     x_user_arg = (\<lambda>_. 0), x_mbx = [empty_mbx], x_dev = (up, [])\<rparr>"

definition mbx_demo_slave :: ec_slave where
  "mbx_demo_slave = (demo_ec_slave 0x03 [])\<lparr>
     sl_eeprom := demo_eeprom_info\<lparr>ei_mbx_supported := 0x1E\<rparr>,
     sl_sm := [\<lparr>sm_adr = 0x1000, sm_len = 16, sm_flags = 0\<rparr>, \<lparr>sm_adr = 0x1080, sm_len = 16, sm_flags = 0\<rparr>]\<rparr>"

definition mbx_demo_env :: "mbx_dev mbx_env" where
  "mbx_demo_env = \<lparr>me_os = posix_osal, me_lock = (\<lambda>_ s. (OSAL_OK, s)), me_unlock = (\<lambda>_ s. s), me_veth = None\<rparr>"

definition mbx_demo :: "bytes list \<Rightarrow> (mbx_dev mbx_sys, int) master" where
  "mbx_demo up = demo_master [mbx_demo_slave] (mbx_demo_sys up)"

lemma mbx_demo_msg_simps:
  "put_at 0 (take 16 mbx_demo_msg @ replicate (16 - length mbx_demo_msg) 0) (replicate 1600 0) =
     mbx_demo_msg @ replicate 1584 0"
  "hdr_address (mbx_demo_msg @ r) = 0" "hdr_mbxtype (mbx_demo_msg @ r) = EC_MBX_COE"
  "coe_service (mbx_demo_msg @ r) = EC_COE_SDORES"
  by (simp_all add: put_at_def mbx_demo_msg_def hdr_address_def hdr_mbxtype_def coe_service_def slice_def u16_of_def)

lemma mbx_demo_handle:
  "\<exists>m'. ec_mbx_do_handle mbx_demo_env (demo_ops (mbx_bus (\<lambda>_. [])) 1) 0 (mbx_demo [mbx_demo_msg]) = Some m' \<and>
     avail (co_recv_pool (mx_coe (mbx_of m' 0))) = [7]"
  by (simp add: ec_mbx_do_handle_def mbx_demo_def demo_master_def mbx_of_def mbx_upd_def sys_upd_def mbx_demo_sys_def
      empty_mbx_def HANDLER_SEND_def HANDLER_RECV_def mbx_handle_recv_def set_data_def data_of_def slv_def
      mbx_demo_slave_def demo_ec_slave_def ec_mbx_receive_def ec_mbx_is_full_def timer_start_def demo_ops_def
      mbx_bus_def Let_def)
    (simp add: wait_mailbox_body_def sm_mapped_def read_sm_state_def slv_fprd_def ec_fprd_def mbx_dev_xcv_def slv_def
      reg_adr_def mbx_demo_msg_simps,
     simp add: mbx_dispatch_def Let_def data_of_def mbx_demo_msg_simps slv_def demo_eeprom_info_def ec_coe_enqueue_def
      coe_upd_def mbx_upd_def sys_upd_def del: EC_MBX_COE_def)

lemma mbx_demo_state:
  "0 < length (x_mbx (m_bus (mbx_demo up)))" "sys_ok (m_bus (mbx_demo up))" "sys_buffers (m_bus (mbx_demo up)) = {#7, 8#}"
  by (simp_all add: mbx_demo_def demo_master_def mbx_demo_sys_def sys_ok_def mbx_ok_def empty_mbx_def sys_buffers_def
      mbx_buffers_def)

theorem handler_keeps_buffers_witness:
  "\<exists>m'. ec_mbx_do_handle mbx_demo_env (demo_ops (mbx_bus (\<lambda>_. [])) 1) 0 (mbx_demo [mbx_demo_msg]) = Some m' \<and>
     avail (co_recv_pool (mx_coe (mbx_of m' 0))) = [7] \<and> sys_buffers (m_bus m') = {#7, 8#}"
  using mbx_demo_handle handler_keeps_buffers[OF mbx_demo_laws mbx_demo_state(1)] mbx_demo_state(3) by metis


end
