(* ===== verification/Coe_Peer.thy ===== *)
theory Coe_Peer
  imports Mbx_Correct
begin

text \<open>
  What the CoE requests rely on when they send a message and wait for the answer, as a locale, and
  that the handler of the mailbox and a slave that answers provide it.
\<close>

section \<open>A slave that confirms everything it is sent\<close>

text \<open>
  The handler is the other thread, and the slave answers each message with an SDO response.
\<close>

definition confirm :: bytes where
  "confirm = [10, 0, 0, 0, 0, 0x13, 0, 0x30, 0x60, 0, 0x10, 0, 0, 0, 0, 0]"

abbreviation confirm_bus :: "mbx_dev mbx_sys bus" where
  "confirm_bus \<equiv> mbx_bus (\<lambda>_. [confirm])"

definition handler_ops :: "(mbx_dev mbx_sys, int) ops" where
  "handler_ops = demo_ops confirm_bus 1"

definition server_ops :: "nat \<Rightarrow> (mbx_dev mbx_sys, int) ops" where
  "server_ops n = (demo_ops confirm_bus n)\<lparr>o_cycle := (\<lambda>m. the (ec_mbx_do_handle mbx_demo_env handler_ops 0 m))\<rparr>"

text \<open>The mailboxes have \<open>n\<close> bytes; where the buffers are, and what is on its way.\<close>

definition server_slave :: "nat \<Rightarrow> ec_slave \<Rightarrow> bool" where
  "server_slave n s \<longleftrightarrow> sl_fixed_address s = 1000 \<and> sl_sm_state_null s \<and>
     ei_mbx_supported (sl_eeprom s) AND EC_EEPROM_MBX_COE = EC_EEPROM_MBX_COE \<and>
     sm_adr (sl_sm s ! 0) = 0x1000 \<and> sm_len (sl_sm s ! 0) = of_nat n \<and>
     sm_adr (sl_sm s ! 1) = 0x1080 \<and> sm_len (sl_sm s ! 1) = of_nat n"

definition server ::
  "nat \<Rightarrow> nat list \<Rightarrow> nat list \<Rightarrow> nat list \<Rightarrow> nat list \<Rightarrow> bytes list \<Rightarrow> bytes list \<Rightarrow>
   (mbx_dev mbx_sys, int) master \<Rightarrow> bool" where
  "server n recv_free send_free queued received up down m \<longleftrightarrow>
     m_slave_cnt m = 1 \<and> server_slave n (slv m 0) \<and> length (x_mbx (m_bus m)) = 1 \<and>
     avail (x_recv_free (m_bus m)) = recv_free \<and> avail (x_send_free (m_bus m)) = send_free \<and>
     avail (mx_send_queued (mbx_of m 0)) = queued \<and>
     avail (co_recv_pool (mx_coe (mbx_of m 0))) = received \<and>
     avail_cnt (co_recv_pool (mx_coe (mbx_of m 0))) = length received \<and>
     x_dev (m_bus m) = (up, down) \<and> (\<forall>e. length (x_data (m_bus m) e) = LEC_MAX_POOL_DATA_SIZE)"

lemma mbx_upd_simps [simp]:
  "m_slave_cnt (mbx_upd i f m) = m_slave_cnt m" "slv (mbx_upd i f m) = slv m"
  "x_recv_free (m_bus (mbx_upd i f m)) = x_recv_free (m_bus m)"
  "x_send_free (m_bus (mbx_upd i f m)) = x_send_free (m_bus m)"
  "x_data (m_bus (mbx_upd i f m)) = x_data (m_bus m)" "x_dev (m_bus (mbx_upd i f m)) = x_dev (m_bus m)"
  "x_user_cb (m_bus (mbx_upd i f m)) = x_user_cb (m_bus m)"
  "length (x_mbx (m_bus (mbx_upd i f m))) = length (x_mbx (m_bus m))"
  "i < length (x_mbx (m_bus m)) \<Longrightarrow> mbx_of (mbx_upd i f m) i = f (mbx_of m i)"
  "data_of (mbx_upd i f m) = data_of m"
  by (simp_all add: mbx_upd_def sys_upd_def mbx_of_def slv_def data_of_def fun_eq_iff)

lemma server_bus:
  "o_bus handler_ops = confirm_bus" "o_bus (server_ops k) = confirm_bus" "o_fuel handler_ops = 1" "o_fuel (server_ops k) = k"
  by (simp_all add: handler_ops_def server_ops_def demo_ops_def)

lemma server_timers:
  assumes "o_bus o' = confirm_bus"
  shows "timer_start o' n m = (n, m)" "timer_over o' n m = (n = 0, m)"
  using assms by (simp_all add: timer_start_def timer_over_def mbx_bus_def)

lemma server_access:
  assumes "server n rf sf q p up down m" "o_bus o' = confirm_bus"
  shows "slv_fprd o' 0 (EC_REG_SM0STAT + 8) d w m = (EC_OK, map (\<lambda>_. if up = [] then 0 else 8) d, 1, m)"
    and "slv_fprd o' 0 EC_REG_SM0STAT d w m = (EC_OK, map (\<lambda>_. 0) d, 1, m)"
    and "up \<noteq> [] \<Longrightarrow> slv_fprd o' 0 0x1080 d w m = (EC_OK, take (length d) (hd up @ replicate (length d) 0), 1,
           sys_upd (\<lambda>x. x\<lparr>x_dev := (tl up, down)\<rparr>) m)"
    and "slv_fpwr o' 0 0x1000 d w m = (EC_OK, d, 1, sys_upd (\<lambda>x. x\<lparr>x_dev := (up @ [confirm], down @ [d])\<rparr>) m)"
  using assms
  by (simp_all add: server_def server_slave_def slv_fprd_def slv_fpwr_def ec_fprd_def ec_fpwr_def mbx_bus_def
      mbx_dev_xcv_def reg_adr_def sys_upd_def)


lemma sys_upd_simps [simp]:
  "m_slave_cnt (sys_upd f m) = m_slave_cnt m" "slv (sys_upd f m) = slv m" "m_bus (sys_upd f m) = f (m_bus m)"
  by (simp_all add: sys_upd_def slv_def fun_eq_iff)

lemma server_sm_len:
  "server_slave n s \<Longrightarrow> n \<le> 1600 \<Longrightarrow> unat (sm_len (sl_sm s ! 0)) = n \<and> unat (sm_len (sl_sm s ! 1)) = n \<and>
     unat (sm_adr (sl_sm s ! 0)) = 0x1000 \<and> unat (sm_adr (sl_sm s ! 1)) = 0x1080"
  by (simp add: server_slave_def unat_of_nat)

lemma server_receive_nothing:
  assumes S: "server n rf sf q p [] down m"
  shows "ec_mbx_receive handler_ops 0 buf 0 m = Some (EC_ERROR_MAILBOX_READ_EMPTY, buf, m)"
proof -
  have "o_bus handler_ops = confirm_bus" by (simp add: server_bus)
  note a = server_access(1)[OF S this] and t = server_timers[OF this]
  have c: "\<not> 0 \<ge> m_slave_cnt m" "sl_sm_state_null (slv m 0)" using S by (simp_all add: server_def server_slave_def)
  have s: "mbx_sleep handler_ops n m = m" for n
    by (simp add: mbx_sleep_def pause_def handler_ops_def demo_ops_def mbx_bus_def)
  have "ec_mbx_is_full handler_ops 0 MAILBOX_READ 0 m = Some (EC_ERROR_MAILBOX_TIMEOUT, m)"
    using a c by (simp add: ec_mbx_is_full_def t server_bus wait_mailbox_body_def sm_mapped_def read_sm_state_def s)
  then show ?thesis using c by (simp add: ec_mbx_receive_def)
qed

lemma server_receive:
  assumes S: "server n rf sf q p (d # up) down m" and n: "n \<le> 1600"
  shows "ec_mbx_receive handler_ops 0 buf 0 m =
     Some (EC_OK, take (length buf) (d @ replicate (length buf) 0), sys_upd (\<lambda>x. x\<lparr>x_dev := (up, down)\<rparr>) m)"
proof -
  have o: "o_bus handler_ops = confirm_bus" by (simp add: server_bus)
  note a = server_access(1,3)[OF S o] and t = server_timers[OF o]
  have c: "\<not> 0 \<ge> m_slave_cnt m" "sl_sm_state_null (slv m 0)" using S by (simp_all add: server_def server_slave_def)
  have "ec_mbx_is_full handler_ops 0 MAILBOX_READ 0 m = Some (EC_OK, m)"
    using a c by (simp add: ec_mbx_is_full_def t server_bus wait_mailbox_body_def sm_mapped_def read_sm_state_def)
  then show ?thesis using c a server_sm_len[of n "slv m 0"] n S by (simp add: ec_mbx_receive_def server_def)
qed

lemma server_send:
  assumes S: "server n rf sf q p up down m" and n: "n \<le> 1600"
  shows "ec_mbx_send handler_ops 0 buf ns m =
     Some (EC_OK, buf, sys_upd (\<lambda>x. x\<lparr>x_dev := (up @ [confirm], down @ [buf])\<rparr>) m)"
proof -
  have o: "o_bus handler_ops = confirm_bus" by (simp add: server_bus)
  note a = server_access(2,4)[OF S o] and t = server_timers[OF o]
  have c: "\<not> 0 \<ge> m_slave_cnt m" using S by (simp_all add: server_def)
  have "ec_mbx_is_empty handler_ops 0 MAILBOX_WRITE ns m = Some (EC_OK, m)"
    using a c by (simp add: ec_mbx_is_empty_def t server_bus wait_mailbox_body_def read_sm_state_def)
  then show ?thesis using c a server_sm_len[of n "slv m 0"] n S
    by (simp add: ec_mbx_send_def t server_bus mbx_send_body_def server_def)
qed


text \<open>What the handler does with a message of the slave, and with one for it.\<close>

lemma confirm_length: "length confirm = 16"
  by (simp add: confirm_def)

lemma confirm_simps:
  "hdr_address (confirm @ r) = 0" "hdr_mbxtype (confirm @ r) = EC_MBX_COE" "coe_service (confirm @ r) = EC_COE_SDORES"
  by (simp_all add: confirm_def hdr_address_def hdr_mbxtype_def coe_service_def slice_def u16_of_def)

lemma confirm_take: "16 \<le> n \<Longrightarrow> take n (confirm @ replicate n 0) = confirm @ replicate (n - 16) 0"
  by (simp add: confirm_length)

lemma server_upd:
  assumes "server n rf sf q p up down m"
  shows "length d = LEC_MAX_POOL_DATA_SIZE \<Longrightarrow> server n rf sf q p up down (set_data e d m)"
    and "avail pl = rf' \<Longrightarrow> server n rf' sf q p up down (sys_upd (\<lambda>x. x\<lparr>x_recv_free := pl\<rparr>) m)"
    and "avail pl = sf' \<Longrightarrow> server n rf sf' q p up down (sys_upd (\<lambda>x. x\<lparr>x_send_free := pl\<rparr>) m)"
    and "avail pl = q' \<Longrightarrow> server n rf sf q' p up down (mbx_upd 0 (\<lambda>x. x\<lparr>mx_send_queued := pl\<rparr>) m)"
    and "avail pl = p' \<Longrightarrow> avail_cnt pl = length p' \<Longrightarrow>
      server n rf sf q p' up down (coe_upd 0 (\<lambda>c. c\<lparr>co_recv_pool := pl\<rparr>) m)"
    and "server n rf sf q p up' down' (sys_upd (\<lambda>x. x\<lparr>x_dev := (up', down')\<rparr>) m)"
    and "server n (rf @ [e]) sf q p up down (return_free_recv en e m)"
    and "server n rf (sf @ [e]) q p up down (return_free_send en e m)"
    and "(\<And>x. mx_send_queued (f x) = mx_send_queued x) \<Longrightarrow> (\<And>x. mx_coe (f x) = mx_coe x) \<Longrightarrow>
      server n rf sf q p up down (mbx_upd 0 f m)"
  using assms
  by (simp_all add: server_def set_data_def coe_upd_def return_free_recv_def return_free_send_def)
    (simp_all add: mbx_of_def)

lemma server_len:
  assumes "server n rf sf q p up down m" "n \<le> 1600"
  shows "unat (sm_len (sl_sm (slv m 0) ! Suc 0)) = n" "unat (sm_len (sl_sm (slv m 0) ! 0)) = n"
  using server_sm_len[of n "slv m 0"] assms by (simp_all add: server_def)

lemma server_data: "server n rf sf q p up down m \<Longrightarrow> length (data_of m e) = 1600"
  by (simp add: server_def data_of_def)

lemma server_handle_recv_nothing:
  assumes S: "server n [r] sf q p [] down m" and n: "16 \<le> n" "n \<le> 1600"
  shows "\<exists>m'. mbx_handle_recv mbx_demo_env handler_ops 0 m = Some m' \<and> server n [r] sf q p [] down m' \<and>
     (\<forall>e. e \<noteq> r \<longrightarrow> data_of m' e = data_of m e) \<and> x_user_cb (m_bus m') = x_user_cb (m_bus m)"
proof -
  let ?m1 = "sys_upd (\<lambda>x. x\<lparr>x_recv_free := (x_recv_free (m_bus m))\<lparr>avail := []\<rparr>\<rparr>) m"
  let ?m2 = "set_data r (replicate LEC_MAX_POOL_DATA_SIZE 0) ?m1"
  let ?buf = "take n (data_of ?m2 r)"
  let ?m3 = "set_data r (put_at 0 ?buf (data_of ?m2 r)) ?m2"
  have 1: "server n [] sf q p [] down ?m1" by (rule server_upd(2)[OF S]) simp
  have 2: "server n [] sf q p [] down ?m2" by (rule server_upd(1)[OF 1]) simp
  have 3: "server n [] sf q p [] down ?m3"
    by (rule server_upd(1)[OF 2]) (use server_data[OF 2] n in \<open>simp add: length_put_at\<close>)
  have a: "avail (x_recv_free (m_bus m)) = [r]" using S by (simp add: server_def)
  have l: "min LEC_MAX_POOL_DATA_SIZE (unat (sm_len (sl_sm (slv ?m2 0) ! MAILBOX_READ))) = n"
    using server_len[OF 2 n(2)] n by simp
  have "mbx_handle_recv mbx_demo_env handler_ops 0 m = Some (return_free_recv mbx_demo_env r ?m3)"
    unfolding mbx_handle_recv_def pool_get_None pool_take_simps(2)[OF a] Let_def prod.case option.case l
      server_receive_nothing[OF 2] by simp
  then show ?thesis
    using server_upd(7)[OF 3, of r mbx_demo_env] by (auto simp: return_free_recv_def set_data_def data_of_def)
qed

lemma server_dispatch:
  assumes S: "server n rf sf q [] up down m" and d: "data_of m r = confirm @ rest"
  shows "\<exists>m'. mbx_dispatch mbx_demo_env handler_ops 0 r m = Some m' \<and> server n rf sf q [r] up down m' \<and>
     coe_service (data_of m' r) = EC_COE_SDORES"
proof -
  have sup: "ei_mbx_supported (sl_eeprom (slv m 0)) AND 4 \<noteq> 0"
    using S by (auto simp: server_def server_slave_def)
  let ?p = "pool_put (me_os mbx_demo_env) (co_recv_pool (mx_coe (mbx_of m 0))) r"
  let ?m = "coe_upd 0 (\<lambda>c. c\<lparr>co_recv_pool := pool_put (me_os mbx_demo_env) (co_recv_pool c) r\<rparr>) m"
  have "mbx_dispatch mbx_demo_env handler_ops 0 r m = Some ?m"
    using sup confirm_simps[of rest] by (simp add: mbx_dispatch_def d ec_coe_enqueue_def Let_def del: EC_MBX_COE_def)
  moreover have "?m = coe_upd 0 (\<lambda>c. c\<lparr>co_recv_pool := ?p\<rparr>) m"
    by (simp add: coe_upd_def mbx_upd_def mbx_of_def sys_upd_def)
  moreover have "server n rf sf q [r] up down (coe_upd 0 (\<lambda>c. c\<lparr>co_recv_pool := ?p\<rparr>) m)"
    by (rule server_upd(5)[OF S]) (use S in \<open>simp_all add: server_def mbx_demo_env_def posix_osal_def\<close>)
  ultimately show ?thesis using confirm_simps(3)[of rest] d by (simp add: coe_upd_def)
qed

lemma server_handle_recv:
  assumes S: "server n [r] sf q [] (confirm # up) down m" and n: "16 \<le> n" "n \<le> 1600"
  shows "\<exists>m'. mbx_handle_recv mbx_demo_env handler_ops 0 m = Some m' \<and> server n [] sf q [r] up down m' \<and>
     coe_service (data_of m' r) = EC_COE_SDORES"
proof -
  let ?m1 = "sys_upd (\<lambda>x. x\<lparr>x_recv_free := (x_recv_free (m_bus m))\<lparr>avail := []\<rparr>\<rparr>) m"
  let ?m2 = "set_data r (replicate LEC_MAX_POOL_DATA_SIZE 0) ?m1"
  let ?m3 = "sys_upd (\<lambda>x. x\<lparr>x_dev := (up, down)\<rparr>) ?m2"
  let ?buf = "confirm @ replicate (n - 16) 0"
  let ?m4 = "set_data r (put_at 0 ?buf (data_of ?m3 r)) ?m3"
  have 1: "server n [] sf q [] (confirm # up) down ?m1" by (rule server_upd(2)[OF S]) simp
  have 2: "server n [] sf q [] (confirm # up) down ?m2" by (rule server_upd(1)[OF 1]) simp
  have 3: "server n [] sf q [] up down ?m3" by (rule server_upd(6)[OF 2])
  have 4: "server n [] sf q [] up down ?m4"
    by (rule server_upd(1)[OF 3]) (use server_data[OF 3] n in \<open>simp add: length_put_at confirm_length\<close>)
  have a: "avail (x_recv_free (m_bus m)) = [r]" using S by (simp add: server_def)
  have l: "min LEC_MAX_POOL_DATA_SIZE (unat (sm_len (sl_sm (slv ?m2 0) ! MAILBOX_READ))) = n"
    using server_len[OF 2 n(2)] n by simp
  have b: "length (take n (data_of ?m2 r)) = n" using server_data[OF 2, of r] n by simp
  have d: "data_of ?m4 r = confirm @ drop 16 (data_of ?m4 r)"
    by (simp add: data_of_def set_data_def put_at_def confirm_length)
  have "mbx_handle_recv mbx_demo_env handler_ops 0 m = mbx_dispatch mbx_demo_env handler_ops 0 r ?m4"
    unfolding mbx_handle_recv_def pool_get_None pool_take_simps(2)[OF a] Let_def prod.case option.case l
      server_receive[OF 2 n(2)] b confirm_take[OF n(1)] by simp
  then show ?thesis using server_dispatch[OF 4 d] by simp
qed


lemma server_handle_send:
  assumes S: "server n rf [] [e] p up down m" and n: "16 \<le> n" "n \<le> 1600" and cb: "\<not> x_user_cb (m_bus m) e"
  shows "\<exists>m'. mbx_handle_send mbx_demo_env handler_ops 0 m = Some m' \<and>
     server n rf [e] [] p (up @ [confirm]) (down @ [take n (data_of m e)]) m'"
proof -
  let ?m1 = "mbx_upd 0 (\<lambda>x. x\<lparr>mx_send_queued := (mx_send_queued (mbx_of m 0))\<lparr>avail := []\<rparr>\<rparr>) m"
  let ?d = "take n (data_of m e)"
  let ?m2 = "sys_upd (\<lambda>x. x\<lparr>x_dev := (up @ [confirm], down @ [?d])\<rparr>) ?m1"
  let ?m3 = "set_data e (put_at 0 ?d (data_of ?m2 e)) ?m2"
  have 1: "server n rf [] [] p up down ?m1" by (rule server_upd(4)[OF S]) simp
  have 2: "server n rf [] [] p (up @ [confirm]) (down @ [?d]) ?m2" by (rule server_upd(6)[OF 1])
  have 3: "server n rf [] [] p (up @ [confirm]) (down @ [?d]) ?m3"
    by (rule server_upd(1)[OF 2]) (use server_data[OF 2, of e] server_data[OF S] n in \<open>simp add: length_put_at\<close>)
  have a: "avail (mx_send_queued (mbx_of m 0)) = [e]" using S by (simp add: server_def)
  have l: "min LEC_MAX_POOL_DATA_SIZE (unat (sm_len (sl_sm (slv ?m1 0) ! MAILBOX_WRITE))) = n"
    using server_len[OF 1 n(2)] n by simp
  have d: "data_of ?m1 e = data_of m e" by simp
  have "mbx_send_retry handler_ops 0 (Suc 8) ?d ?m1 = Some (EC_OK, ?d, ?m2)"
    by (simp only: mbx_send_retry.simps(2) server_send[OF 1 n(2)] bind.bind_lunit prod.case simp_thms if_False)
  moreover have "Suc 8 = 9" by simp
  ultimately have r: "mbx_send_retry handler_ops 0 9 ?d ?m1 = Some (EC_OK, ?d, ?m2)" by (simp only:)
  have "x_user_cb (m_bus ?m3) e = False" using cb by (simp add: set_data_def)
  then have "mbx_handle_send mbx_demo_env handler_ops 0 m = Some (return_free_send mbx_demo_env e ?m3)"
    by (simp only: mbx_handle_send_def pool_get_None pool_take_simps(2)[OF a] Let_def prod.case option.case l d r
        bind.bind_lunit simp_thms if_False)
  then show ?thesis using server_upd(8)[OF 3, of e mbx_demo_env] by simp
qed

lemma server_handle_send_nothing:
  assumes S: "server n rf sf [] p up down m"
  shows "mbx_handle_send mbx_demo_env handler_ops 0 m = Some m"
proof -
  have a: "avail (mx_send_queued (mbx_of m 0)) = []" using S by (simp add: server_def)
  have "mbx_upd 0 (\<lambda>x. x\<lparr>mx_send_queued := mx_send_queued (mbx_of m 0)\<rparr>) m = m"
    by (simp add: mbx_upd_def sys_upd_def mbx_of_def)
  then show ?thesis
    by (simp add: mbx_handle_send_def pool_take_simps(1)[OF a])
qed

text \<open>
  The other thread runs twice while a request waits for its answer: in the first round it
  sends the request, in the second it receives the answer.
\<close>

lemma server_round_send:
  assumes S: "server n [r] [] [e] p [] down m" and n: "16 \<le> n" "n \<le> 1600" and cb: "\<not> x_user_cb (m_bus m) e"
    and e: "e \<noteq> r" and fl: "mx_handler_flags (mbx_of m 0) AND HANDLER_SEND \<noteq> 0"
  shows "server n [r] [e] [] p [confirm] (down @ [take n (data_of m e)]) (o_cycle (server_ops k) m)"
proof -
  let ?m1 = "mbx_upd 0 (\<lambda>x. x\<lparr>mx_handler_flags := 0\<rparr>) m"
  have 1: "server n [r] [] [e] p [] down ?m1" by (rule server_upd(9)[OF S]) simp_all
  obtain m2 where "(if mx_handler_flags (mbx_of m 0) AND HANDLER_RECV \<noteq> 0 then mbx_handle_recv mbx_demo_env handler_ops 0 ?m1
      else Some ?m1) = Some m2" and 2: "server n [r] [] [e] p [] down m2" "data_of m2 e = data_of m e"
      "x_user_cb (m_bus m2) = x_user_cb (m_bus m)"
    using server_handle_recv_nothing[OF 1 n] 1 e
    by (cases "mx_handler_flags (mbx_of m 0) AND HANDLER_RECV = 0") auto
  moreover obtain m3 where "mbx_handle_send mbx_demo_env handler_ops 0 m2 = Some m3"
    "server n [r] [e] [] p [confirm] (down @ [take n (data_of m e)]) m3"
    using server_handle_send[OF 2(1) n] 2 cb by auto
  ultimately show ?thesis using fl by (simp add: server_ops_def ec_mbx_do_handle_def)
qed

lemma server_round_recv:
  assumes S: "server n [r] sf [] [] [confirm] down m" and n: "16 \<le> n" "n \<le> 1600"
    and fl: "mx_handler_flags (mbx_of m 0) AND HANDLER_RECV \<noteq> 0"
  shows "server n [] sf [] [r] [] down (o_cycle (server_ops k) m) \<and>
    coe_service (data_of (o_cycle (server_ops k) m) r) = EC_COE_SDORES"
proof -
  let ?m1 = "mbx_upd 0 (\<lambda>x. x\<lparr>mx_handler_flags := 0\<rparr>) m"
  have 1: "server n [r] sf [] [] [confirm] down ?m1" by (rule server_upd(9)[OF S]) simp_all
  obtain m2 where "mbx_handle_recv mbx_demo_env handler_ops 0 ?m1 = Some m2" "server n [] sf [] [r] [] down m2"
    "coe_service (data_of m2 r) = EC_COE_SDORES"
    using server_handle_recv[OF 1 n] by auto
  then show ?thesis using fl server_handle_send_nothing[of n "[]" sf "[r]" "[]" down m2]
    by (simp add: server_ops_def ec_mbx_do_handle_def)
qed


section \<open>What a request relies on\<close>

text \<open>
  \<open>ready\<close> is the mailbox between two requests, \<open>got\<close> what the slave has received so far; its mailboxes
  have \<open>n\<close> bytes. A message that is put at the head of the send queue reaches the slave, and
  the wait that follows returns an SDO response.
\<close>

locale coe_peer =
  fixes en :: "'s mbx_env" and o' :: "('s, 'd) mops" and i n :: nat
    and ready :: "('s, 'd) mmaster \<Rightarrow> bool" and got :: "('s, 'd) mmaster \<Rightarrow> bytes list"
  assumes slave: "ready m \<Longrightarrow> i < m_slave_cnt m \<and> ec_mbx_check m i EC_EEPROM_MBX_COE = EC_OK \<and>
      unat (sm_len (sl_sm (slv m i) ! 0)) = n"
    and lock: "ready m \<Longrightarrow> \<exists>dev. me_lock en i (x_dev (m_bus m)) = (OSAL_OK, dev) \<and>
      ready (sys_upd (\<lambda>x. x\<lparr>x_dev := dev\<rparr>) m) \<and> got (sys_upd (\<lambda>x. x\<lparr>x_dev := dev\<rparr>) m) = got m"
    and unlock: "ready m \<Longrightarrow> ready (sys_upd (\<lambda>x. x\<lparr>x_dev := me_unlock en i (x_dev x)\<rparr>) m) \<and>
      got (sys_upd (\<lambda>x. x\<lparr>x_dev := me_unlock en i (x_dev x)\<rparr>) m) = got m"
    and free: "ready m \<Longrightarrow> \<exists>e m1. ec_mbx_get_free_send_buffer en i None m = (EC_OK, Some e, m1) \<and>
      data_of (snd (next_counter i m1)) e = replicate LEC_MAX_POOL_DATA_SIZE 0"
    and exchange: "ready m \<Longrightarrow> ec_mbx_get_free_send_buffer en i None m = (EC_OK, Some e, m1) \<Longrightarrow>
      length d = LEC_MAX_POOL_DATA_SIZE \<Longrightarrow>
      \<exists>a m2. ec_coe_wait en o' i (mbx_enqueue_head en i e (set_data e d (snd (next_counter i m1)))) = Some (Some a, m2) \<and>
        coe_service (data_of m2 a) = EC_COE_SDORES \<and> ready (return_free_recv en a m2) \<and>
        got (return_free_recv en a m2) = got m @ [take n d]"

text \<open>The slave above, with one buffer for each direction.\<close>

lemma server_get_buffer:
  assumes S: "server n [r] [e] [] [] [] down m"
  shows "\<exists>m1. ec_mbx_get_free_send_buffer mbx_demo_env 0 None m = (EC_OK, Some e, m1) \<and>
     server n [r] [] [] [] [] down m1 \<and> data_of m1 e = replicate LEC_MAX_POOL_DATA_SIZE 0 \<and> \<not> x_user_cb (m_bus m1) e"
proof -
  have a: "avail (x_send_free (m_bus m)) = [e]" "\<not> 0 \<ge> m_slave_cnt m" using S by (simp_all add: server_def)
  show ?thesis using S
    by (simp add: ec_mbx_get_free_send_buffer_def pool_take_simps(2)[OF a(1)] a(2) server_def data_of_def)
      (simp add: mbx_of_def)
qed

lemma server_next_counter:
  assumes S: "server n rf sf q p up down m"
  shows "server n rf sf q p up down (snd (next_counter 0 m)) \<and> data_of (snd (next_counter 0 m)) = data_of m \<and>
     x_user_cb (m_bus (snd (next_counter 0 m))) = x_user_cb (m_bus m)"
proof -
  have c: "0 < length (x_mbx (m_bus m))" "\<not> 0 \<ge> m_slave_cnt m" using S by (simp_all add: server_def)
  show ?thesis
    using server_upd(9)[OF S, of "\<lambda>x. x\<lparr>mx_seq_counter := v\<rparr>" for v] S
    by (simp add: next_counter_def next_counter_upd[OF c(1)] c(2) Let_def)
qed

lemma server_pool:
  assumes "server n rf sf q p up down m"
  shows "p = [] \<Longrightarrow> \<exists>r pl. pool_get (me_os mbx_demo_env) (co_recv_pool (mx_coe (mbx_of m 0))) (Some t) = (r, None, pl) \<and>
      avail pl = [] \<and> avail_cnt pl = 0"
    and "p = [e] \<Longrightarrow> \<exists>r pl. pool_get (me_os mbx_demo_env) (co_recv_pool (mx_coe (mbx_of m 0))) (Some t) = (r, Some e, pl) \<and>
      avail pl = [] \<and> avail_cnt pl = 0"
  using assms by (auto simp: pool_get_def mbx_demo_env_def posix_osal_def server_def Let_def)

lemma flag_set: "(x OR f) AND f = (f :: 'a::len word)" "x AND f \<noteq> 0 \<Longrightarrow> (x OR g) AND f \<noteq> (0 :: 'a::len word)"
proof -
  show "(x OR f) AND f = f" by (rule bit_word_eqI) (auto simp: bit_simps)
  have "x AND f = ((x OR g) AND f) AND x" by (rule bit_word_eqI) (auto simp: bit_simps)
  then show "x AND f \<noteq> 0 \<Longrightarrow> (x OR g) AND f \<noteq> 0" by auto
qed

lemma server_wake:
  assumes S: "server n rf sf q p up down m"
  shows "server n rf sf q p up down (mbx_sched_read mbx_demo_env 0 m) \<and>
     mx_handler_flags (mbx_of (mbx_sched_read mbx_demo_env 0 m) 0) = mx_handler_flags (mbx_of m 0) OR HANDLER_RECV \<and>
     data_of (mbx_sched_read mbx_demo_env 0 m) = data_of m \<and>
     x_user_cb (m_bus (mbx_sched_read mbx_demo_env 0 m)) = x_user_cb (m_bus m)"
  using server_upd(9)[OF S, of "\<lambda>x. x\<lparr>mx_handler_flags := mx_handler_flags x OR HANDLER_RECV,
      mx_sync_sem := osal_binary_semaphore_post (me_os mbx_demo_env) (mx_sync_sem x)\<rparr>"] S
  by (simp add: mbx_sched_read_def mbx_signal_def server_def)

lemma server_wait:
  assumes S: "server n [r] [] [e] [] [] down m" and n: "16 \<le> n" "n \<le> 1600" and cb: "\<not> x_user_cb (m_bus m) e"
    and e: "e \<noteq> r" and fl: "mx_handler_flags (mbx_of m 0) AND HANDLER_SEND \<noteq> 0" and k: "2 \<le> k"
  shows "\<exists>m'. ec_coe_wait mbx_demo_env (server_ops k) 0 m = Some (Some r, m') \<and>
     server n [] [e] [] [] [] (down @ [take n (data_of m e)]) m' \<and> coe_service (data_of m' r) = EC_COE_SDORES"
proof -
  let ?down = "down @ [take n (data_of m e)]" and ?w = "mbx_sched_read mbx_demo_env 0" and ?c = "o_cycle (server_ops k)"
  let ?get = "\<lambda>m. co_recv_pool (mx_coe (mbx_of m 0))" and ?put = "\<lambda>p. coe_upd 0 (\<lambda>c. c\<lparr>co_recv_pool := p\<rparr>)"
  note t = server_timers[OF server_bus(2)[of k]]
  note w1 = server_wake[OF S]
  have 1: "server n [r] [e] [] [] [confirm] ?down (?c (?w m))"
    using server_round_send[of n r e "[]" down "?w m" k] w1 n cb e flag_set(2)[OF fl, of HANDLER_RECV] by simp
  obtain x1 p1 where g1: "pool_get (me_os mbx_demo_env) (?get (?c (?w m))) (Some 100000) = (x1, None, p1)"
    "avail p1 = []" "avail_cnt p1 = 0" using server_pool(1)[OF 1] by blast
  let ?m1 = "?put p1 (?c (?w m))"
  have 2: "server n [r] [e] [] [] [confirm] ?down ?m1" by (rule server_upd(5)[OF 1]) (simp_all add: g1)
  note w2 = server_wake[OF 2]
  have 3: "server n [] [e] [] [r] [] ?down (?c (?w ?m1))" "coe_service (data_of (?c (?w ?m1)) r) = EC_COE_SDORES"
    using server_round_recv[of n r "[e]" ?down "?w ?m1" k] w2 n by (simp_all add: flag_set(1) HANDLER_RECV_def)
  obtain x2 p2 where g2: "pool_get (me_os mbx_demo_env) (?get (?c (?w ?m1))) (Some 100000) = (x2, Some r, p2)"
    "avail p2 = []" "avail_cnt p2 = 0" using server_pool(2)[OF 3(1)] by blast
  let ?m2 = "?put p2 (?c (?w ?m1))"
  have 4: "server n [] [e] [] [] [] ?down ?m2" by (rule server_upd(5)[OF 3(1)]) (simp_all add: g2)
  have b1: "mbx_wait_body mbx_demo_env (server_ops k) ?get ?put ?w (EC_DEFAULT_TIMEOUT_MBX * 10) m = Inl ?m1"
    by (simp add: mbx_wait_body_def pool_wait_def t g1(1))
  have b2: "mbx_wait_body mbx_demo_env (server_ops k) ?get ?put ?w (EC_DEFAULT_TIMEOUT_MBX * 10) ?m1 = Inr (Some r, ?m2)"
    by (simp add: mbx_wait_body_def pool_wait_def t g2(1))
  obtain j where j: "k = Suc (Suc j)" using k by (metis add_2_eq_Suc le_Suc_ex)
  have "ec_coe_wait mbx_demo_env (server_ops k) 0 m = Some (Some r, ?m2)"
    unfolding ec_coe_wait_def mbx_wait_def Let_def t prod.case server_bus(4)
    by (simp only: j loop.simps b1[unfolded j] b2[unfolded j] sum.case)
  then show ?thesis using 4 3(2) by (simp add: coe_upd_def)
qed


definition server_ready :: "nat \<Rightarrow> (mbx_dev mbx_sys, int) master \<Rightarrow> bool" where
  "server_ready n m \<longleftrightarrow> 16 \<le> n \<and> n \<le> 1600 \<and> server n [7] [8] [] [] [] (snd (x_dev (m_bus m))) m"

definition server_got :: "(mbx_dev mbx_sys, int) master \<Rightarrow> bytes list" where
  "server_got m = snd (x_dev (m_bus m))"

lemma server_readyI: "16 \<le> n \<Longrightarrow> n \<le> 1600 \<Longrightarrow> server n [7] [8] [] [] [] down m \<Longrightarrow> server_ready n m \<and> server_got m = down"
  by (simp add: server_ready_def server_got_def server_def)

lemma server_exchange:
  assumes R: "server_ready n m" and g: "ec_mbx_get_free_send_buffer mbx_demo_env 0 None m = (EC_OK, Some e, m1)"
    and d: "length d = LEC_MAX_POOL_DATA_SIZE" and k: "2 \<le> k"
  shows "\<exists>a m2. ec_coe_wait mbx_demo_env (server_ops k) 0
        (mbx_enqueue_head mbx_demo_env 0 e (set_data e d (snd (next_counter 0 m1)))) = Some (Some a, m2) \<and>
      coe_service (data_of m2 a) = EC_COE_SDORES \<and> server_ready n (return_free_recv mbx_demo_env a m2) \<and>
      server_got (return_free_recv mbx_demo_env a m2) = server_got m @ [take n d]"
proof -
  have n: "16 \<le> n" "n \<le> 1600" and S: "server n [7] [8] [] [] [] (server_got m) m"
    using R by (simp_all add: server_ready_def server_got_def)
  have e: "e = 8" and 1: "server n [7] [] [] [] [] (server_got m) m1" "\<not> x_user_cb (m_bus m1) 8"
    using server_get_buffer[OF S] g by auto
  let ?m2 = "snd (next_counter 0 m1)" and ?m3 = "set_data 8 d (snd (next_counter 0 m1))"
  let ?m4 = "mbx_enqueue_head mbx_demo_env 0 8 ?m3"
  have 2: "server n [7] [] [] [] [] (server_got m) ?m2" "x_user_cb (m_bus ?m2) = x_user_cb (m_bus m1)"
    using server_next_counter[OF 1(1)] by simp_all
  have 3: "server n [7] [] [] [] [] (server_got m) ?m3" by (rule server_upd(1)[OF 2(1) d])
  have 4: "server n [7] [] [8] [] [] (server_got m) ?m4" "data_of ?m4 8 = d" "x_user_cb (m_bus ?m4) = x_user_cb (m_bus m1)"
    "mx_handler_flags (mbx_of ?m4 0) AND HANDLER_SEND \<noteq> 0"
    using 3 2(2) flag_set(1)[of _ HANDLER_SEND]
    by (simp_all add: mbx_enqueue_head_def mbx_signal_def server_def HANDLER_SEND_def) (simp_all add: data_of_def set_data_def)
  obtain m5 where w: "ec_coe_wait mbx_demo_env (server_ops k) 0 ?m4 = Some (Some 7, m5)"
    "server n [] [8] [] [] [] (server_got m @ [take n d]) m5" "coe_service (data_of m5 7) = EC_COE_SDORES"
    using server_wait[OF 4(1) n _ _ 4(4) k] 4(2,3) 1(2) by auto
  have "server n ([] @ [7]) [8] [] [] [] (server_got m @ [take n d]) (return_free_recv mbx_demo_env 7 m5)"
    by (rule server_upd(7)[OF w(2)])
  then show ?thesis using w server_readyI[OF n, of "server_got m @ [take n d]"] by (auto simp: e)
qed

lemma server_keeps_dev:
  "server_ready n m \<Longrightarrow> server_ready n (sys_upd (\<lambda>x. x\<lparr>x_dev := x_dev (m_bus m)\<rparr>) m)"
  "server_ready n m \<Longrightarrow> server_ready n (sys_upd (\<lambda>x. x\<lparr>x_dev := x_dev x\<rparr>) m)"
  by (simp_all add: sys_upd_def)

interpretation server_peer: coe_peer mbx_demo_env "server_ops (Suc (Suc k))" 0 n "server_ready n" server_got
proof
  fix m :: "(mbx_dev mbx_sys, int) master"
  assume R: "server_ready n m"
  then have S: "server n [7] [8] [] [] [] (server_got m) m" and n: "n \<le> 1600"
    by (simp_all add: server_ready_def server_got_def)
  show "0 < m_slave_cnt m \<and> ec_mbx_check m 0 EC_EEPROM_MBX_COE = EC_OK \<and> unat (sm_len (sl_sm (slv m 0) ! 0)) = n"
    using S server_len(2)[OF S n] by (simp add: server_def server_slave_def ec_mbx_check_def Let_def)
  show "\<exists>dev. me_lock mbx_demo_env 0 (x_dev (m_bus m)) = (OSAL_OK, dev) \<and>
      server_ready n (sys_upd (\<lambda>x. x\<lparr>x_dev := dev\<rparr>) m) \<and> server_got (sys_upd (\<lambda>x. x\<lparr>x_dev := dev\<rparr>) m) = server_got m"
    using server_keeps_dev(1)[OF R] by (simp add: mbx_demo_env_def server_got_def)
  show "server_ready n (sys_upd (\<lambda>x. x\<lparr>x_dev := me_unlock mbx_demo_env 0 (x_dev x)\<rparr>) m) \<and>
      server_got (sys_upd (\<lambda>x. x\<lparr>x_dev := me_unlock mbx_demo_env 0 (x_dev x)\<rparr>) m) = server_got m"
    using server_keeps_dev(2)[OF R] by (simp add: mbx_demo_env_def server_got_def)
  obtain m1 where g: "ec_mbx_get_free_send_buffer mbx_demo_env 0 None m = (EC_OK, Some 8, m1)"
    "server n [7] [] [] [] [] (server_got m) m1" "data_of m1 8 = replicate LEC_MAX_POOL_DATA_SIZE 0"
    using server_get_buffer[OF S] by blast
  then show "\<exists>e m1. ec_mbx_get_free_send_buffer mbx_demo_env 0 None m = (EC_OK, Some e, m1) \<and>
      data_of (snd (next_counter 0 m1)) e = replicate LEC_MAX_POOL_DATA_SIZE 0"
    using server_next_counter[OF g(2)] by auto
  fix m1 e and d :: bytes
  assume "ec_mbx_get_free_send_buffer mbx_demo_env 0 None m = (EC_OK, Some e, m1)" "length d = LEC_MAX_POOL_DATA_SIZE"
  from server_exchange[OF R this, of "Suc (Suc k)"] show "\<exists>a m2. ec_coe_wait mbx_demo_env (server_ops (Suc (Suc k))) 0
      (mbx_enqueue_head mbx_demo_env 0 e (set_data e d (snd (next_counter 0 m1)))) = Some (Some a, m2) \<and>
      coe_service (data_of m2 a) = EC_COE_SDORES \<and> server_ready n (return_free_recv mbx_demo_env a m2) \<and>
      server_got (return_free_recv mbx_demo_env a m2) = server_got m @ [take n d]" by simp
qed

end
