(* ===== verification/Coe_Download.thy ===== *)
theory Coe_Download
  imports Coe_Peer
begin

text \<open>
  Writing an object: what the slave gets, in one message or in segments.
\<close>

section \<open>What a slave reads\<close>

text \<open>
  The data of a segment: behind the headers of 9 bytes; a message of length 10 may have unused
  bytes at its end.
\<close>

definition seg_payload :: "bytes \<Rightarrow> bytes" where
  "seg_payload d = slice 9 (if hdr_length d = 10 then 7 - unat (drop_bit 1 (d ! 8) AND 7)
                            else unat (hdr_length d) - EC_SDO_SEG_HDR_LEN) d"

text \<open>The segments of \<open>rest\<close> bytes, with alternating toggle bits.\<close>

fun sdo_assemble :: "bool \<Rightarrow> nat \<Rightarrow> bytes list \<Rightarrow> bytes option" where
  "sdo_assemble toggle rest [] = (if rest = 0 then Some [] else None)"
| "sdo_assemble toggle rest (d # ds) =
     (let v = seg_payload d
      in if hdr_mbxtype d = EC_MBX_COE \<and> coe_service d = EC_COE_SDOREQ \<and>
            sdo_command d = EC_COE_SDO_DOWNLOAD_SEQ_REQ \<and> bit (d ! 8) 4 = toggle \<and> 0 < length v \<and> length v \<le> rest
         then map_option ((@) v) (sdo_assemble (\<not> toggle) (rest - length v) ds) else None)"

text \<open>A download: index, sub index, and the data.\<close>

fun sdo_downloaded :: "bytes list \<Rightarrow> (u16 \<times> u8 \<times> bytes) option" where
  "sdo_downloaded [] = None"
| "sdo_downloaded (d # ds) =
     (if hdr_mbxtype d \<noteq> EC_MBX_COE \<or> coe_service d \<noteq> EC_COE_SDOREQ \<or> sdo_command d \<noteq> EC_COE_SDO_DOWNLOAD_REQ then None
      else if sdo_transfer_type d
      then (if ds = [] then Some (sdo_index d, sdo_sub_index d, slice 12 (4 - sdo_data_set_size d) d) else None)
      else (let v = slice 16 (unat (hdr_length d) - EC_SDO_NORMAL_HDR_LEN) d
            in if length v \<le> unat (sdo_complete_size d)
               then map_option (\<lambda>w. (sdo_index d, sdo_sub_index d, v @ w))
                      (sdo_assemble True (unat (sdo_complete_size d) - length v) ds)
               else None))"

section \<open>The fields of a message\<close>

lemma request_fields:
  assumes "length d = LEC_MAX_POOL_DATA_SIZE"
  shows "length (seg_request len c f d) = LEC_MAX_POOL_DATA_SIZE" "hdr_length (seg_request len c f d) = of_nat len"
    "coe_service (seg_request len c f d) = EC_COE_SDOREQ" "seg_request len c f d ! 8 = f"
    "hdr_mbxtype (seg_request len c f d) = EC_MBX_COE"
  using assms
  by (simp_all add: seg_request_def put_coe_def put_hdr_def hdr_length_def coe_service_def hdr_mbxtype_def buf_simps
      bit.conj_disj_distrib2 and.assoc)

lemma sdo_request_fields:
  assumes "length d = LEC_MAX_POOL_DATA_SIZE"
  shows "length (sdo_request len c f ix sx d) = LEC_MAX_POOL_DATA_SIZE" "hdr_length (sdo_request len c f ix sx d) = of_nat len"
    "coe_service (sdo_request len c f ix sx d) = EC_COE_SDOREQ" "sdo_request len c f ix sx d ! 8 = f"
    "hdr_mbxtype (sdo_request len c f ix sx d) = EC_MBX_COE" "sdo_index (sdo_request len c f ix sx d) = ix"
    "sdo_sub_index (sdo_request len c f ix sx d) = sx"
  using assms slice_put_at_same[of 8 "[f]" "put_coe EC_COE_SDOREQ (put_hdr (of_nat len) EC_MBX_COE c d)"]
  by (simp_all add: sdo_request_def put_sdo_def put_coe_def put_hdr_def hdr_length_def coe_service_def hdr_mbxtype_def
      sdo_index_def sdo_sub_index_def buf_simps bit.conj_disj_distrib2 and.assoc nth_append)
    (simp add: put_at_def slice_def)

lemma low_bits: "x AND 3 = take_bit 2 x" "x AND 7 = take_bit 3 x" "x AND 1 = take_bit 1 x" for x :: u8
  by (simp_all add: take_bit_eq_mask mask_eq_exp_minus_1)

lemma unused_size: "x < 8 \<Longrightarrow> unat (of_nat x AND 7 :: u8) = x" "x < 4 \<Longrightarrow> unat (of_nat x AND 3 :: u8) = x"
  by (simp_all add: low_bits unsigned_take_bit_eq unat_of_nat take_bit_nat_def)

lemma flag_fields:
  "drop_bit 5 (sdo_flags si tt dss co 1) = 1" "bit (sdo_flags si tt dss co 1) 1 = tt"
  "drop_bit 2 (sdo_flags si tt dss co 1) AND 3 = of_nat dss AND 3"
  "drop_bit 5 (seg_flags un tg 0) = 0" "bit (seg_flags un tg 0) 4 = tg" "drop_bit 1 (seg_flags un tg 0) AND 7 = of_nat un AND 7"
  unfolding sdo_flags_def seg_flags_def low_bits
  by (auto simp: bit_simps bit_1_iff mult.commute[of _ "2 :: u8"] intro!: bit_word_eqI)


lemma taken_fields:
  assumes "16 \<le> n" "n \<le> length d"
  shows "hdr_length (take n d) = hdr_length d" "hdr_mbxtype (take n d) = hdr_mbxtype d"
    "coe_service (take n d) = coe_service d" "take n d ! 8 = d ! 8" "sdo_index (take n d) = sdo_index d"
    "sdo_sub_index (take n d) = sdo_sub_index d" "sdo_complete_size (take n d) = sdo_complete_size d"
    "off + k \<le> n \<Longrightarrow> slice off k (take n d) = slice off k d"
  using assms
  by (simp_all add: hdr_length_def hdr_mbxtype_def coe_service_def sdo_index_def sdo_sub_index_def sdo_complete_size_def
      slice_def drop_take min_def)

section \<open>The segments\<close>

text \<open>A segment that carries the bytes \<open>v\<close>.\<close>

lemma segment_payload:
  assumes n: "16 \<le> n" "n \<le> LEC_MAX_POOL_DATA_SIZE" and v: "0 < length v" "length v \<le> n - 9"
    and d: "length d = LEC_MAX_POOL_DATA_SIZE"
    and msg: "msg = put_at 9 v (seg_request (if length v < 7 then EC_SDO_NORMAL_HDR_LEN else EC_SDO_SEG_HDR_LEN + length v) c
        (seg_flags (if length v < 7 then 7 - length v else 0) tog EC_COE_SDO_DOWNLOAD_SEQ_REQ) d)"
  shows "length msg = LEC_MAX_POOL_DATA_SIZE" "hdr_mbxtype (take n msg) = EC_MBX_COE"
    "coe_service (take n msg) = EC_COE_SDOREQ" "sdo_command (take n msg) = EC_COE_SDO_DOWNLOAD_SEQ_REQ"
    "bit (take n msg ! 8) 4 = tog" "seg_payload (take n msg) = v"
proof -
  let ?len = "if length v < 7 then EC_SDO_NORMAL_HDR_LEN else EC_SDO_SEG_HDR_LEN + length v"
  let ?f = "seg_flags (if length v < 7 then 7 - length v else 0) tog EC_COE_SDO_DOWNLOAD_SEQ_REQ"
  let ?r = "seg_request ?len c ?f d"
  note r = request_fields[OF d, of ?len c ?f]
  have l: "9 + length v \<le> length ?r" using r(1) v n by simp
  show len: "length msg = LEC_MAX_POOL_DATA_SIZE" using l r(1) by (simp add: msg length_put_at)
  note t = taken_fields[of n msg]
  have m: "hdr_length msg = of_nat ?len" "hdr_mbxtype msg = EC_MBX_COE" "coe_service msg = EC_COE_SDOREQ" "msg ! 8 = ?f"
    using l r by (simp_all add: msg hdr_length_def hdr_mbxtype_def coe_service_def buf_simps)
  show "hdr_mbxtype (take n msg) = EC_MBX_COE" "coe_service (take n msg) = EC_COE_SDOREQ"
    using t m len n by simp_all
  show "sdo_command (take n msg) = EC_COE_SDO_DOWNLOAD_SEQ_REQ" "bit (take n msg ! 8) 4 = tog"
    using t m len n flag_fields by (simp_all add: sdo_command_def)
  have u: "unat (of_nat ?len :: u16) = ?len" using v n by (simp add: unat_of_nat)
  have k: "(if hdr_length msg = 10 then 7 - unat (drop_bit 1 (msg ! 8) AND 7) else unat (hdr_length msg) - EC_SDO_SEG_HDR_LEN) = length v"
  proof (cases "length v < 7")
    case True
    then have "unat (of_nat (7 - length v) AND 7 :: u8) = 7 - length v"
      using unused_size[of "7 - length v"] by linarith
    then show ?thesis using m True flag_fields(6)[of "7 - length v" tog] v by simp
  next
    case False
    have "unat (of_nat 0 AND 7 :: u8) = 0" by simp
    moreover have "hdr_length msg = 10 \<longleftrightarrow> length v = 7"
      using u m(1) False by (simp add: word_unat_eq_iff)
    ultimately show ?thesis using m False flag_fields(6)[of 0 tog] u by auto
  qed
  have "slice 9 (length v) (take n msg) = slice 9 (length v) msg" using t(8)[of 9 "length v"] len n v by simp
  also have "\<dots> = v" unfolding msg using l by (simp add: buf_simps)
  finally show "seg_payload (take n msg) = v"
    unfolding seg_payload_def t(1)[OF n(1) n(2)[folded len]] t(4)[OF n(1) n(2)[folded len]] k .
qed

text \<open>The first message of a download, with the bytes \<open>v\<close> of \<open>len\<close>.\<close>

lemma first_message:
  assumes n: "16 + length v \<le> n" "n \<le> LEC_MAX_POOL_DATA_SIZE" and d: "length d = LEC_MAX_POOL_DATA_SIZE"
    and msg: "msg = put_at 16 v (put_at 12 (le32 len) (sdo_request (EC_SDO_NORMAL_HDR_LEN + length v) c
        (sdo_flags True False 0 complete EC_COE_SDO_DOWNLOAD_REQ) index sub_index d))"
  shows "length msg = LEC_MAX_POOL_DATA_SIZE"
    "sdo_downloaded (take n msg # ds) = (if length v \<le> unat len
       then map_option (\<lambda>w. (index, sub_index, v @ w)) (sdo_assemble True (unat len - length v) ds) else None)"
proof -
  let ?f = "sdo_flags True False 0 complete EC_COE_SDO_DOWNLOAD_REQ"
  let ?r = "sdo_request (EC_SDO_NORMAL_HDR_LEN + length v) c ?f index sub_index d"
  note r = sdo_request_fields[OF d, of "EC_SDO_NORMAL_HDR_LEN + length v" c ?f index sub_index]
  show len: "length msg = LEC_MAX_POOL_DATA_SIZE" using n r(1) by (simp add: msg length_put_at)
  have n': "16 \<le> n" "n \<le> length msg" using n len by simp_all
  note t = taken_fields[OF n']
  have m: "hdr_length msg = of_nat (EC_SDO_NORMAL_HDR_LEN + length v)" "hdr_mbxtype msg = EC_MBX_COE"
    "coe_service msg = EC_COE_SDOREQ" "msg ! 8 = ?f" "sdo_index msg = index" "sdo_sub_index msg = sub_index"
    "sdo_complete_size msg = len" "slice 16 (length v) msg = v"
    using n r by (simp_all add: msg hdr_length_def hdr_mbxtype_def coe_service_def sdo_index_def sdo_sub_index_def
        sdo_complete_size_def buf_simps)
  have u: "unat (hdr_length msg) - EC_SDO_NORMAL_HDR_LEN = length v" using n unfolding m(1) by (subst unat_of_nat) simp
  show "sdo_downloaded (take n msg # ds) = (if length v \<le> unat len
       then map_option (\<lambda>w. (index, sub_index, v @ w)) (sdo_assemble True (unat len - length v) ds) else None)"
    using t m flag_fields(1,2)[of True False 0 complete] u t(8)[of 16 "length v"] n(1)
    by (simp add: sdo_command_def sdo_transfer_type_def Let_def del: EC_SDO_NORMAL_HDR_LEN_def)
qed

context coe_peer
begin

lemma answered:
  assumes R: "ready m" and g: "ec_mbx_get_free_send_buffer en i None m = (EC_OK, Some e, m1)"
    and d: "length d = LEC_MAX_POOL_DATA_SIZE" and f: "0 < o_fuel o'"
  shows "\<exists>m'. coe_answers en o' i sdo_write_answer (r, ac)
      (mbx_enqueue_head en i e (set_data e d (snd (next_counter i m1)))) = Some ((EC_OK, ac), m') \<and>
    ready m' \<and> got m' = got m @ [take n d]"
proof -
  obtain a m2 where w: "ec_coe_wait en o' i (mbx_enqueue_head en i e (set_data e d (snd (next_counter i m1)))) = Some (Some a, m2)"
    "coe_service (data_of m2 a) = EC_COE_SDORES" "ready (return_free_recv en a m2)"
    "got (return_free_recv en a m2) = got m @ [take n d]"
    using exchange[OF R g d] by blast
  obtain k where k: "o_fuel o' = Suc k" using f gr0_implies_Suc by blast
  show ?thesis
    using w by (simp add: coe_answers_def k coe_answers_body_def)
qed

lemma segment_step:
  assumes R: "ready m" and rest: "0 < rest" "pos + rest \<le> length buf" and seg: "7 \<le> seg" "seg \<le> n - 9"
    and n: "16 \<le> n" "n \<le> LEC_MAX_POOL_DATA_SIZE" and f: "0 < o_fuel o'"
  shows "\<exists>m' d. sdo_segments_body en o' i buf ((r, ac), rest, pos, seg, tog, m) =
      Some (Inl ((EC_OK, ac), rest - min rest seg, pos + min rest seg, min rest seg, \<not> tog, m')) \<and>
    ready m' \<and> got m' = got m @ [d] \<and> hdr_mbxtype d = EC_MBX_COE \<and> coe_service d = EC_COE_SDOREQ \<and>
    sdo_command d = EC_COE_SDO_DOWNLOAD_SEQ_REQ \<and> bit (d ! 8) 4 = tog \<and> seg_payload d = slice pos (min rest seg) buf"
proof -
  obtain e m1 where g: "ec_mbx_get_free_send_buffer en i None m = (EC_OK, Some e, m1)"
    and z: "data_of (snd (next_counter i m1)) e = replicate LEC_MAX_POOL_DATA_SIZE 0" using free[OF R] by blast
  obtain c m2 where c: "next_counter i m1 = (c, m2)" by (cases "next_counter i m1")
  let ?v = "slice pos (min rest seg) buf"
  let ?d = "replicate LEC_MAX_POOL_DATA_SIZE 0 :: bytes"
  define msg where "msg = put_at 9 ?v (seg_request (if length ?v < 7 then EC_SDO_NORMAL_HDR_LEN else EC_SDO_SEG_HDR_LEN + length ?v) c
        (seg_flags (if length ?v < 7 then 7 - length ?v else 0) tog EC_COE_SDO_DOWNLOAD_SEQ_REQ) ?d)"
  have lv: "length ?v = min rest seg" using rest by (simp add: length_slice min_def)
  have v: "0 < length ?v" "length ?v \<le> n - 9" using rest seg by (simp_all add: lv)
  note P = segment_payload[OF n v _ msg_def]
  obtain m' where a: "coe_answers en o' i sdo_write_answer (EC_ERROR_MAILBOX_TIMEOUT, ac)
      (mbx_enqueue_head en i e (set_data e msg m2)) = Some ((EC_OK, ac), m')" "ready m'" "got m' = got m @ [take n msg]"
    using answered[OF R g P(1) f, of EC_ERROR_MAILBOX_TIMEOUT ac] c by auto
  have l: "(if rest < seg then (if rest < 7 then (EC_SDO_NORMAL_HDR_LEN, 7 - rest, rest) else (EC_SDO_SEG_HDR_LEN + rest, 0, rest))
      else (EC_SDO_SEG_HDR_LEN + seg, 0, seg)) =
      (if length ?v < 7 then EC_SDO_NORMAL_HDR_LEN else EC_SDO_SEG_HDR_LEN + length ?v,
       if length ?v < 7 then 7 - length ?v else 0, min rest seg)"
    unfolding lv using seg by auto
  have rd: "read_at pos (min rest seg) buf = Some ?v" using rest by (simp add: read_at_def min_def)
  have wr: "write_at 9 ?v (seg_request len c fl ?d) = Some (put_at 9 ?v (seg_request len c fl ?d))" for len fl
    using v n by (simp add: write_at_def request_fields(1)[unfolded LEC_MAX_POOL_DATA_SIZE_def])
  have "sdo_segments_body en o' i buf ((r, ac), rest, pos, seg, tog, m) =
      Some (Inl ((EC_OK, ac), rest - min rest seg, pos + min rest seg, min rest seg, \<not> tog, m'))"
    using rest g c z a(1)
    by (simp add: sdo_segments_body_def l rd wr msg_def[symmetric] del: EC_SDO_NORMAL_HDR_LEN_def EC_SDO_SEG_HDR_LEN_def
        EC_COE_SDO_DOWNLOAD_SEQ_REQ_def LEC_MAX_POOL_DATA_SIZE_def EC_ERROR_MAILBOX_TIMEOUT_def)
  then show ?thesis using a P by auto
qed

lemma segments:
  assumes n: "16 \<le> n" "n \<le> LEC_MAX_POOL_DATA_SIZE" and f: "0 < o_fuel o'"
  shows "ready m \<Longrightarrow> rest < k \<Longrightarrow> pos + rest \<le> length buf \<Longrightarrow> (0 < rest \<Longrightarrow> 7 \<le> seg \<and> seg \<le> n - 9) \<Longrightarrow>
    \<exists>m' ds. loop_opt k (sdo_segments_body en o' i buf) ((EC_OK, ac), rest, pos, seg, tog, m) = Some ((EC_OK, ac), m') \<and>
      ready m' \<and> got m' = got m @ ds \<and> sdo_assemble tog rest ds = Some (slice pos rest buf)"
proof (induction k arbitrary: m rest pos seg tog)
  case (Suc k)
  show ?case
  proof (cases "rest = 0")
    case True
    then show ?thesis using Suc.prems(1)
      by (intro exI[of _ m] exI[of _ "[]"]) (simp add: sdo_segments_body_def slice_def)
  next
    case False
    let ?v = "min rest seg"
    have seg: "7 \<le> seg" "seg \<le> n - 9" using Suc.prems(4) False by simp_all
    obtain m1 d where b: "sdo_segments_body en o' i buf ((EC_OK, ac), rest, pos, seg, tog, m) =
          Some (Inl ((EC_OK, ac), rest - ?v, pos + ?v, ?v, \<not> tog, m1))" "ready m1" "got m1 = got m @ [d]"
        "hdr_mbxtype d = EC_MBX_COE" "coe_service d = EC_COE_SDOREQ" "sdo_command d = EC_COE_SDO_DOWNLOAD_SEQ_REQ"
        "bit (d ! 8) 4 = tog" "seg_payload d = slice pos ?v buf"
      using segment_step[OF Suc.prems(1) _ Suc.prems(3) seg n f, of EC_OK ac tog] False by blast
    have "\<exists>m' ds. loop_opt k (sdo_segments_body en o' i buf) ((EC_OK, ac), rest - ?v, pos + ?v, ?v, \<not> tog, m1) =
          Some ((EC_OK, ac), m') \<and> ready m' \<and> got m' = got m1 @ ds \<and>
        sdo_assemble (\<not> tog) (rest - ?v) ds = Some (slice (pos + ?v) (rest - ?v) buf)"
      by (rule Suc.IH[OF b(2)]) (use Suc.prems False seg in auto)
    then obtain m' ds where l: "loop_opt k (sdo_segments_body en o' i buf) ((EC_OK, ac), rest - ?v, pos + ?v, ?v, \<not> tog, m1) =
        Some ((EC_OK, ac), m')" "ready m'" "got m' = got m @ d # ds"
        "sdo_assemble (\<not> tog) (rest - ?v) ds = Some (slice (pos + ?v) (rest - ?v) buf)" using b(3) by auto
    have lv: "length (slice pos ?v buf) = ?v" using Suc.prems(3) by (simp add: length_slice)
    then have ne: "slice pos ?v buf \<noteq> []" using False seg by auto
    have "slice pos ?v buf @ slice (pos + ?v) (rest - ?v) buf = slice pos rest buf"
      using take_add[of ?v "rest - ?v" "drop pos buf"] by (simp add: slice_def add.commute)
    then have "sdo_assemble tog rest (d # ds) = Some (slice pos rest buf)"
      using b(4-) lv l(4) False seg ne by (simp add: Let_def)
    then show ?thesis using l b(1) by (intro exI[of _ m'] exI[of _ "d # ds"]) simp
  qed
qed simp

lemma request_sent:
  assumes R: "ready m" and f: "0 < o_fuel o'"
    and fill: "\<And>c. fill c (replicate LEC_MAX_POOL_DATA_SIZE 0) = Some (msg c) \<and> length (msg c) = LEC_MAX_POOL_DATA_SIZE"
  shows "\<exists>m1 m' c. coe_request en i fill m = Some (EC_OK, m1) \<and>
    coe_answers en o' i sdo_write_answer (r, 0) m1 = Some ((EC_OK, 0), m') \<and> ready m' \<and> got m' = got m @ [take n (msg c)]"
proof -
  obtain e m1 where g: "ec_mbx_get_free_send_buffer en i None m = (EC_OK, Some e, m1)"
    and z: "data_of (snd (next_counter i m1)) e = replicate LEC_MAX_POOL_DATA_SIZE 0" using free[OF R] by blast
  obtain c m2 where c: "next_counter i m1 = (c, m2)" by (cases "next_counter i m1")
  have "coe_request en i fill m = Some (EC_OK, mbx_enqueue_head en i e (set_data e (msg c) m2))"
    using slave[OF R] g c z fill[of c] by (simp add: coe_request_def)
  moreover obtain m' where "coe_answers en o' i sdo_write_answer (r, 0) (mbx_enqueue_head en i e (set_data e (msg c) m2)) =
      Some ((EC_OK, 0), m')" "ready m'" "got m' = got m @ [take n (msg c)]"
    using answered[OF R g _ f, of "msg c" r 0] fill[of c] c by auto
  ultimately show ?thesis by blast
qed

lemma locked:
  assumes R: "ready m" and f: "\<And>m. ready m \<Longrightarrow> \<exists>m' ds. f m = Some (res, m') \<and> ready m' \<and> got m' = got m @ ds \<and> P ds"
  shows "\<exists>m' ds. coe_locked en i failed f m = Some (res, m') \<and> ready m' \<and> got m' = got m @ ds \<and> P ds"
proof -
  obtain dev where l: "me_lock en i (x_dev (m_bus m)) = (OSAL_OK, dev)" "ready (sys_upd (\<lambda>x. x\<lparr>x_dev := dev\<rparr>) m)"
    "got (sys_upd (\<lambda>x. x\<lparr>x_dev := dev\<rparr>) m) = got m" using lock[OF R] by blast
  obtain m' ds where "f (sys_upd (\<lambda>x. x\<lparr>x_dev := dev\<rparr>) m) = Some (res, m')" "ready m'" "got m' = got m @ ds" "P ds"
    using f[OF l(2)] l(3) by auto
  then show ?thesis using l unlock[of m'] by (auto simp: coe_locked_def)
qed

lemma write_normal:
  assumes R: "ready m" and n: "16 \<le> n" "n \<le> LEC_MAX_POOL_DATA_SIZE" and len: "len \<le> length buf" "len < 2 ^ 32"
    and f: "len < o_fuel o'"
  shows "\<exists>m' ds. ec_coe_sdo_write_normal en o' i index sub_index complete buf len m = Some ((EC_OK, 0), m') \<and>
    ready m' \<and> got m' = got m @ ds \<and> sdo_downloaded ds = Some (index, sub_index, take len buf)"
proof -
  have mx: "unat (ucast (sm_len (sl_sm (slv m i) ! 0)) - 0x10 :: u32) = n - 16" if "ready m" for m
  proof -
    have "unat (ucast (sm_len (sl_sm (slv m i) ! 0)) :: u32) = n"
      using slave[OF that] n by (simp add: unsigned_ucast_eq take_bit_nat_eq_self_iff)
    then show ?thesis using n by (subst unat_sub) (simp_all add: word_le_nat_alt)
  qed
  define seg where "seg = min len (n - 16)"
  have s: "(if len > n - 16 then n - 16 else len) = seg" by (simp add: seg_def)
  let ?z = "replicate LEC_MAX_POOL_DATA_SIZE 0 :: bytes"
  let ?flags = "sdo_flags True False 0 complete EC_COE_SDO_DOWNLOAD_REQ"
  let ?req = "\<lambda>c. sdo_request (EC_SDO_NORMAL_HDR_LEN + seg) c ?flags index sub_index"
  define msg where "msg c = put_at 16 (take seg buf) (put_at 12 (le32 (of_nat len)) (?req c ?z))" for c
  have lv: "length (take seg buf) = seg" and l16: "16 + seg \<le> n" "seg \<le> length buf" using n len by (simp_all add: seg_def)
  have z: "length ?z = LEC_MAX_POOL_DATA_SIZE" by simp
  note M = first_message[of "take seg buf", unfolded lv, OF l16(1) n(2) z msg_def]
  let ?fill = "\<lambda>counter d. do { v \<leftarrow> read_at 0 seg buf; write_at 16 v (put_at 12 (le32 (of_nat len)) (?req counter d)) }"
  have "length (put_at 12 (le32 (of_nat len)) (?req c ?z)) = LEC_MAX_POOL_DATA_SIZE" for c
    using sdo_request_fields(1)[OF z] by (simp add: length_put_at)
  then have fill: "?fill c ?z = Some (msg c) \<and> length (msg c) = LEC_MAX_POOL_DATA_SIZE" for c
    using l16 n M(1) by (simp add: read_at_def slice_def write_at_def lv msg_def)
  have "\<exists>m' ds. (let max_len = unat (ucast (sm_len (sl_sm (slv m i) ! 0)) - 0x10 :: u32);
          seg_len = (if len > max_len then max_len else len)
      in do { (ret, m) \<leftarrow> coe_request en i (\<lambda>counter d. do {
            v \<leftarrow> read_at 0 seg_len buf;
            write_at 16 v (put_at 12 (le32 (of_nat len)) (sdo_request (EC_SDO_NORMAL_HDR_LEN + seg_len) counter
              ?flags index sub_index d)) }) m;
        if ret \<noteq> EC_OK then Some ((ret, 0), m)
        else do { ((ret, abort_code), m) \<leftarrow> coe_answers en o' i sdo_write_answer (EC_ERROR_MAILBOX_TIMEOUT, 0) m;
          if ret \<noteq> EC_OK then Some ((ret, abort_code), m)
          else loop_opt (o_fuel o') (sdo_segments_body en o' i buf)
             ((ret, abort_code), len - seg_len, seg_len, seg_len + (EC_SDO_NORMAL_HDR_LEN - EC_SDO_SEG_HDR_LEN), True, m) } }) =
      Some ((EC_OK, 0), m') \<and> ready m' \<and> got m' = got m @ ds \<and> sdo_downloaded ds = Some (index, sub_index, take len buf)"
    if rm: "ready m" for m
  proof -
    obtain m1 m2 c where 1: "coe_request en i ?fill m = Some (EC_OK, m1)"
      "coe_answers en o' i sdo_write_answer (EC_ERROR_MAILBOX_TIMEOUT, 0) m1 = Some ((EC_OK, 0), m2)" "ready m2"
      "got m2 = got m @ [take n (msg c)]"
      using request_sent[where fill = ?fill and msg = msg and r = EC_ERROR_MAILBOX_TIMEOUT, OF rm _ fill] f by (metis gr0I not_less0)
    have f0: "0 < o_fuel o'" using f by simp
    have a: "len - seg < o_fuel o'" "seg + (len - seg) \<le> length buf"
      "0 < len - seg \<Longrightarrow> 7 \<le> seg + (EC_SDO_NORMAL_HDR_LEN - EC_SDO_SEG_HDR_LEN) \<and>
         seg + (EC_SDO_NORMAL_HDR_LEN - EC_SDO_SEG_HDR_LEN) \<le> n - 9"
      using f len n by (auto simp: seg_def)
    obtain m' ds where 2: "loop_opt (o_fuel o') (sdo_segments_body en o' i buf)
        ((EC_OK, 0), len - seg, seg, seg + (EC_SDO_NORMAL_HDR_LEN - EC_SDO_SEG_HDR_LEN), True, m2) = Some ((EC_OK, 0), m')"
      "ready m'" "got m' = got m2 @ ds" "sdo_assemble True (len - seg) ds = Some (slice seg (len - seg) buf)"
      using segments[OF n f0 1(3) a] by blast
    have "take seg buf @ slice seg (len - seg) buf = take len buf"
      using take_add[of seg "len - seg" buf] by (simp add: slice_def seg_def)
    moreover have "unat (of_nat len :: u32) = len" using len(2) by (simp add: unat_of_nat)
    ultimately have "sdo_downloaded (take n (msg c) # ds) = Some (index, sub_index, take len buf)"
      using M(2)[of c ds] 2(4) by (simp add: seg_def)
    then show ?thesis unfolding Let_def mx[OF rm] s
      using 1 2 by (intro exI[of _ m'] exI[of _ "take n (msg c) # ds"]) simp
  qed
  note body = locked[OF R this]
  have "\<not> i \<ge> m_slave_cnt m" using slave[OF R] by simp
  show ?thesis unfolding ec_coe_sdo_write_normal_def if_not_P[OF \<open>\<not> i \<ge> m_slave_cnt m\<close>] by (rule body)
qed

lemma write_expedited:
  assumes R: "ready m" and n: "16 \<le> n" "n \<le> LEC_MAX_POOL_DATA_SIZE" and len: "len \<le> length buf" "0 < len" "len \<le> 4"
    and f: "0 < o_fuel o'"
  shows "\<exists>m' ds. ec_coe_sdo_write_expedited en o' i index sub_index complete buf len m = Some ((EC_OK, 0), m') \<and>
    ready m' \<and> got m' = got m @ ds \<and> sdo_downloaded ds = Some (index, sub_index, take len buf)"
proof -
  let ?z = "replicate LEC_MAX_POOL_DATA_SIZE 0 :: bytes"
  let ?flags = "sdo_flags True True (4 - len) complete EC_COE_SDO_DOWNLOAD_REQ"
  let ?req = "\<lambda>c. sdo_request EC_SDO_NORMAL_HDR_LEN c ?flags index sub_index"
  have z: "length ?z = LEC_MAX_POOL_DATA_SIZE" by simp
  note r = sdo_request_fields[OF z, of EC_SDO_NORMAL_HDR_LEN _ ?flags index sub_index]
  define msg where "msg c = put_at 12 (take len buf) (?req c ?z)" for c
  let ?fill = "\<lambda>counter d. do { v \<leftarrow> read_at 0 len buf; write_at 12 v (?req counter d) }"
  have lm: "length (msg c) = LEC_MAX_POOL_DATA_SIZE" for c using len r(1) by (simp add: msg_def length_put_at)
  have fill: "?fill c ?z = Some (msg c) \<and> length (msg c) = LEC_MAX_POOL_DATA_SIZE" for c
    using len r(1) lm by (simp add: read_at_def slice_def write_at_def msg_def)
  have "sdo_downloaded [take n (msg c)] = Some (index, sub_index, take len buf)" for c
  proof -
    have n': "16 \<le> n" "n \<le> length (msg c)" using n lm by simp_all
    note t = taken_fields[OF n']
    have m: "hdr_mbxtype (msg c) = EC_MBX_COE" "coe_service (msg c) = EC_COE_SDOREQ" "msg c ! 8 = ?flags"
      "sdo_index (msg c) = index" "sdo_sub_index (msg c) = sub_index" "slice 12 len (msg c) = take len buf"
      using n len r[of c] by (simp_all add: msg_def hdr_mbxtype_def coe_service_def sdo_index_def sdo_sub_index_def buf_simps)
    have "4 - sdo_data_set_size (take n (msg c)) = len"
      using t(4) m(3) flag_fields(3)[of True True "4 - len" complete] unused_size(2)[of "4 - len"] len
      by (simp add: sdo_data_set_size_def)
    then show ?thesis
      using t m flag_fields(1,2)[of True True "4 - len" complete] t(8)[of 12 len] len n(1)
      by (simp add: sdo_command_def sdo_transfer_type_def)
  qed
  note dl = this
  have "\<exists>m' ds. (do { (ret, m) \<leftarrow> coe_request en i ?fill m;
        if ret \<noteq> EC_OK then Some ((ret, 0), m)
        else coe_answers en o' i sdo_write_answer (EC_ERROR_MAILBOX_TIMEOUT, 0) m }) = Some ((EC_OK, 0), m') \<and>
      ready m' \<and> got m' = got m @ ds \<and> sdo_downloaded ds = Some (index, sub_index, take len buf)"
    if rm: "ready m" for m
    using request_sent[where fill = ?fill and msg = msg and r = EC_ERROR_MAILBOX_TIMEOUT, OF rm f fill] dl by fastforce
  note body = locked[OF R this]
  have "\<not> i \<ge> m_slave_cnt m" using slave[OF R] by simp
  show ?thesis unfolding ec_coe_sdo_write_expedited_def if_not_P[OF \<open>\<not> i \<ge> m_slave_cnt m\<close>] by (rule body)
qed

lemma write_object:
  assumes "ready m" "16 \<le> n" "n \<le> LEC_MAX_POOL_DATA_SIZE" "len \<le> length buf" "0 < len" "len < 2 ^ 32" "len < o_fuel o'"
  shows "\<exists>m' ds. ec_coe_sdo_write en o' i index sub_index complete buf len m = Some ((EC_OK, 0), m') \<and>
    ready m' \<and> got m' = got m @ ds \<and> sdo_downloaded ds = Some (index, sub_index, take len buf)"
  using write_expedited[OF assms(1-5)] write_normal[OF assms(1-4,6,7)] assms(5,7) by (simp add: ec_coe_sdo_write_def)

end

section \<open>Downloads through the handler\<close>

text \<open>
  C4: A download of any length through the mailbox handler to a slave that confirms each message
  reports success, and the messages that reach the slave, each cut to the size of its mailbox,
  are an expedited download, or a first message and segments with alternating toggle bits, from
  which the slave reads back exactly the index, the sub index and the bytes that were to be
  written.
\<close>

theorem sdo_download_roundtrip:
  assumes "16 \<le> n" "n \<le> LEC_MAX_POOL_DATA_SIZE" "server n [7] [8] [] [] [] [] m"
    and "0 < len" "len \<le> length buf" "len < 2 ^ 32" "len \<le> k"
  shows "\<exists>m'. ec_coe_sdo_write mbx_demo_env (server_ops (Suc (Suc k))) 0 index sub_index complete buf len m =
      Some ((EC_OK, 0), m') \<and>
    sdo_downloaded (snd (x_dev (m_bus m'))) = Some (index, sub_index, take len buf)"
proof -
  have r: "server_ready n m \<and> server_got m = []" using server_readyI[OF assms(1) _ assms(3)] assms(2) by simp
  have "o_fuel (server_ops (Suc (Suc k))) = Suc (Suc k)" by (simp add: server_bus)
  then show ?thesis
    using server_peer.write_object[of n m len buf k index sub_index complete] r assms by (auto simp: server_got_def)
qed


text \<open>Twenty bytes through mailboxes of 16 bytes: a first message without data and three segments.\<close>

lemma demo_server: "server 16 [7] [8] [] [] [] [] (mbx_demo [])"
  by (simp add: server_def server_slave_def mbx_demo_def demo_master_def mbx_demo_slave_def mbx_demo_sys_def slv_def
      mbx_of_def empty_mbx_def demo_ec_slave_def demo_eeprom_info_def)

theorem sdo_download_roundtrip_witness:
  "\<exists>m'. ec_coe_sdo_write mbx_demo_env (server_ops (Suc (Suc 20))) 0 0x1018 1 0 (map of_nat [0..<20]) 20 (mbx_demo []) =
      Some ((EC_OK, 0), m') \<and>
    sdo_downloaded (snd (x_dev (m_bus m'))) = Some (0x1018, 1, take 20 (map of_nat [0..<20]))"
  by (rule sdo_download_roundtrip[OF _ _ demo_server]) simp_all

end
