(* ===== verification/Coe_Master_Correct.thy ===== *)
theory Coe_Master_Correct
  imports Coe_Download
begin

text \<open>
  The dictionary of the master: every index belongs to at most one object, every index of the
  list of objects to one that can be read and described; the parts of an object are disjoint
  pieces of its data, so that complete access reads them all and a write changes only its own.
  The gateway answers requests for missing objects, too.
\<close>

section \<open>The layout of an object\<close>

definition esize :: "coe_object \<Rightarrow> nat \<Rightarrow> nat" where
  "esize ob i = unat (ce_bit_length (ob_entries ob ! i)) div 8"

definition epos :: "coe_object \<Rightarrow> nat \<Rightarrow> nat" where
  "epos ob i = (if i = 0 then 0 else 2 + sum_list (map (esize ob) [1..<i]))"

abbreviation max_sub :: "coe_object \<Rightarrow> nat" where
  "max_sub ob \<equiv> unat (cd_max_subindices (ob_desc ob))"

text \<open>The data of an object have room for all its entries.\<close>

definition object_ok :: "coe_object \<Rightarrow> bool" where
  "object_ok ob \<longleftrightarrow> (case ob_data ob of None \<Rightarrow> True | Some data \<Rightarrow>
     max_sub ob < length (ob_entries ob) \<and> epos ob (Suc (max_sub ob)) \<le> length data \<and>
     esize ob 0 \<le> length data \<and> (0 < max_sub ob \<longrightarrow> esize ob 0 \<le> 2))"

definition dict_ok :: "coe_object list \<Rightarrow> bool" where
  "dict_ok dict \<longleftrightarrow> (\<forall>ob \<in> set dict. object_ok ob)"

lemma epos_Suc: "0 < i \<Longrightarrow> epos ob (Suc i) = epos ob i + esize ob i"
  by (simp add: epos_def)

lemma epos_1 [simp]: "epos ob (Suc 0) = 2" "epos ob 0 = 0"
  by (simp_all add: epos_def)

lemma epos_mono:
  assumes "i < j" "i = 0 \<Longrightarrow> esize ob 0 \<le> 2"
  shows "epos ob i + esize ob i \<le> epos ob j"
  using assms(1)
proof (induction j)
  case (Suc j)
  show ?case
  proof (cases "i = j")
    case True
    then show ?thesis using assms(2) by (cases "i = 0") (simp_all add: epos_Suc)
  next
    case False
    then show ?thesis using Suc by (simp add: epos_Suc)
  qed
qed simp

lemma object_okD:
  assumes "object_ok ob" "ob_data ob = Some data"
  shows "max_sub ob < length (ob_entries ob)" "i \<le> max_sub ob \<Longrightarrow> epos ob i + esize ob i \<le> length data"
    "i < j \<Longrightarrow> j \<le> max_sub ob \<Longrightarrow> epos ob i + esize ob i \<le> epos ob j" "2 \<le> length data"
    "epos ob (Suc (max_sub ob)) \<le> length data"
proof -
  have rm: "max_sub ob < length (ob_entries ob)" "epos ob (Suc (max_sub ob)) \<le> length data"
    "esize ob 0 \<le> length data" "0 < max_sub ob \<Longrightarrow> esize ob 0 \<le> 2"
    using assms by (simp_all add: object_ok_def)
  show "max_sub ob < length (ob_entries ob)" "epos ob (Suc (max_sub ob)) \<le> length data" by (fact rm)+
  show mono: "epos ob i + esize ob i \<le> epos ob j" if "i < j" "j \<le> max_sub ob" for i j
    using epos_mono[of i j ob] rm(4) that by fastforce
  show "epos ob i + esize ob i \<le> length data" if "i \<le> max_sub ob"
  proof (cases "i = 0")
    case True
    then show ?thesis using rm(3) by simp
  next
    case False
    then show ?thesis using epos_mono[of i "Suc (max_sub ob)" ob] rm(2) that by simp
  qed
  show "2 \<le> length data"
    using epos_mono[of "Suc 0" "Suc (max_sub ob)" ob] rm(2)
    by (cases "max_sub ob = 0") simp_all
qed

lemma entries_bytes_sum:
  "\<forall>i \<in> set is'. i < length (ob_entries ob) \<Longrightarrow> entries_bytes ob is' = Some (sum_list (map (esize ob) is'))"
  by (induction is') (simp_all add: entry_bytes_def at_index_def esize_def)

lemma get_object_data:
  assumes "object_ok ob" "ob_data ob = Some data"
  shows "unat sub \<le> max_sub ob \<Longrightarrow>
      ec_coe_master_get_object_data ob sub 0 = Some (EC_OK, epos ob (unat sub), esize ob (unat sub))"
    "complete \<noteq> 0 \<Longrightarrow> ec_coe_master_get_object_data ob sub complete =
      Some (EC_OK, if sub = 0 then 0 else 2, epos ob (Suc (max_sub ob)) - (if sub = 0 then 0 else 2))"
proof -
  note m = object_okD(1)[OF assms]
  assume s: "unat sub \<le> max_sub ob"
  have e: "entry_bytes ob (unat sub) = Some (esize ob (unat sub))"
    using s m by (simp add: entry_bytes_def at_index_def esize_def)
  have "sub \<noteq> 0 \<Longrightarrow> entries_bytes ob [Suc 0..<unat sub] = Some (sum_list (map (esize ob) [Suc 0..<unat sub]))"
    using s m by (intro entries_bytes_sum) auto
  then show "ec_coe_master_get_object_data ob sub 0 = Some (EC_OK, epos ob (unat sub), esize ob (unat sub))"
    using s e assms(2) by (simp add: ec_coe_master_get_object_data_def epos_def word_less_nat_alt unat_eq_zero)
next
  note m = object_okD(1)[OF assms]
  have "entries_bytes ob [1..<Suc (max_sub ob)] = Some (sum_list (map (esize ob) [1..<Suc (max_sub ob)]))"
    using m by (intro entries_bytes_sum) auto
  then show "complete \<noteq> 0 \<Longrightarrow> ec_coe_master_get_object_data ob sub complete =
      Some (EC_OK, if sub = 0 then 0 else 2, epos ob (Suc (max_sub ob)) - (if sub = 0 then 0 else 2))"
    by (simp add: ec_coe_master_get_object_data_def ec_coe_master_get_object_length_def epos_def del: upt_Suc)
qed



section \<open>Reading an object with data of its own\<close>

text \<open>What a caller with a large enough buffer gets, for every such buffer.\<close>

definition sdo_reads ::
  "coe_object list \<Rightarrow> 's mbx_env \<Rightarrow> ('s, 'd) mops \<Rightarrow> ('s, 'd) mmaster \<Rightarrow> u16 \<Rightarrow> u8 \<Rightarrow> int \<Rightarrow> bytes \<Rightarrow> bool" where
  "sdo_reads dict en o' m index sub_index complete v \<longleftrightarrow>
     (\<forall>buf len abort_code. length v \<le> len \<and> len \<le> length buf \<longrightarrow>
        ec_coe_master_sdo_read dict en o' index sub_index complete buf len abort_code m =
          Some ((EC_OK, put_at 0 v buf, length v, abort_code), m))"

lemma get_object_nth:
  "ec_coe_master_get_object dict index = Some k \<Longrightarrow>
     k < length dict \<and> ob_index (dict ! k) = index AND ob_index_mask (dict ! k)"
  by (induction dict index arbitrary: k rule: ec_coe_master_get_object.induct) (auto split: if_splits)

lemma data_read:
  assumes "ec_coe_master_get_object dict index = Some k" "ob_read (dict ! k) = None"
    and "ob_data (dict ! k) = Some data" "object_ok (dict ! k)"
  shows "unat sub \<le> max_sub (dict ! k) \<Longrightarrow>
      sdo_reads dict en o' m index sub 0 (slice (epos (dict ! k) (unat sub)) (esize (dict ! k) (unat sub)) data)"
    "complete \<noteq> 0 \<Longrightarrow> sdo_reads dict en o' m index sub complete
      (slice (if sub = 0 then 0 else 2) (epos (dict ! k) (Suc (max_sub (dict ! k))) - (if sub = 0 then 0 else 2)) data)"
proof -
  note ok = object_okD[OF assms(4,3)] and get = get_object_data[OF assms(4,3)]
  show "unat sub \<le> max_sub (dict ! k) \<Longrightarrow>
      sdo_reads dict en o' m index sub 0 (slice (epos (dict ! k) (unat sub)) (esize (dict ! k) (unat sub)) data)"
    using assms ok(2) get(1)
    by (simp add: sdo_reads_def ec_coe_master_sdo_read_def read_at_def write_at_def length_slice)
  show "complete \<noteq> 0 \<Longrightarrow> sdo_reads dict en o' m index sub complete
      (slice (if sub = 0 then 0 else 2) (epos (dict ! k) (Suc (max_sub (dict ! k))) - (if sub = 0 then 0 else 2)) data)"
    using assms ok(4,5) get(2)
    by (auto simp: sdo_reads_def ec_coe_master_sdo_read_def read_at_def write_at_def length_slice)
qed


lemma sdo_reads_unique:
  assumes "sdo_reads dict en o' m index sub complete v" "sdo_reads dict en o' m index sub complete w"
  shows "v = w"
proof -
  let ?n = "length v + length w"
  from assms[unfolded sdo_reads_def, rule_format, of ?n "replicate ?n 0" 0]
  have "put_at 0 v (replicate ?n 0) = put_at 0 w (replicate ?n 0)" "length v = length w" by auto
  then show ?thesis by (simp add: put_at_def)
qed

section \<open>The dictionary of the source\<close>


lemmas object_defs = master_0x1000_def master_0x1008_def master_0x1009_def master_0x100A_def master_0x1018_def
  master_0x20nn_def master_0x20nm_def master_0x3nnn_def master_0x8nnn_def master_0x9nnn_def master_0xAnnn_def
  master_0xF000_def master_0xF002_def master_0xF02n_def master_0xF04n_def string_object_def list_object_def
  EC_COE_OBJECT_INDEX_MASK_ALL_def




lemma dict_length [simp]: "length (ec_coe_master_dict version) = 15"
  by (simp add: ec_coe_master_dict_def)



lemma string_object_ok:
  assumes "val \<noteq> []"
  shows "object_ok (string_object index name n val)"
proof -
  have "unat (of_nat (length val * 8) :: u16) div 8 \<le> length val"
    by (simp add: unat_of_nat div_le_mono[of _ "length val * 8" 8, THEN order_trans] del: of_nat_mult)
  moreover have "1 \<le> length val" using assms by (cases val) simp_all
  ultimately show ?thesis
    by (simp add: object_ok_def string_object_def epos_def esize_def obj_desc_def entry_desc_def ascii_def
        del: of_nat_mult)
qed

lemma dict_ok:
  assumes "version \<noteq> []"
  shows "dict_ok (ec_coe_master_dict version)"
proof -
  have "object_ok ob" if "ob_data ob = None" for ob using that by (simp add: object_ok_def)
  moreover have "object_ok master_0x1000" "object_ok master_0x1018" "object_ok master_0xF000" "object_ok master_0xF002"
    by (simp_all add: object_ok_def master_0x1000_def master_0x1018_def master_0xF000_def master_0xF002_def
        epos_def esize_def obj_desc_def entry_desc_def upt_rec[of _ "numeral _"] upt_rec[of _ "Suc _"])
  ultimately show ?thesis
    using assms
    by (simp add: dict_ok_def ec_coe_master_dict_def string_object_ok master_0x1008_def master_0x1009_def
        master_0x100A_def LIBETHERCAT_PACKAGE_NAME_def HW_VERSION_def master_0x20nn_def master_0x20nm_def
        master_0x3nnn_def master_0x8nnn_def master_0x9nnn_def master_0xAnnn_def master_0xF02n_def
        master_0xF04n_def list_object_def)
qed

section \<open>The list of objects\<close>






lemma slice_concat_le16:
  "i < length vs \<Longrightarrow> slice (2 * i) 2 (concat (map le16 vs)) = le16 (vs ! i)"
proof (induction vs arbitrary: i)
  case (Cons v vs)
  then show ?case by (cases i) (simp_all add: slice_append_left slice_append_right slice_0_all[of "le16 v", simplified])
qed simp





section \<open>Writing\<close>

lemma get_object_update:
  "ob_index ob = ob_index (dict ! k) \<Longrightarrow> ob_index_mask ob = ob_index_mask (dict ! k) \<Longrightarrow>
     ec_coe_master_get_object (dict[k := ob]) index = ec_coe_master_get_object dict index"
  by (induction dict index arbitrary: k rule: ec_coe_master_get_object.induct) (auto split: nat.split)

lemma esize_data [simp]: "esize (ob\<lparr>ob_data := d\<rparr>) = esize ob"
  by (rule ext) (simp add: esize_def)

lemma epos_data [simp]: "epos (ob\<lparr>ob_data := d\<rparr>) = epos ob"
  by (rule ext) (simp add: epos_def)

lemma object_ok_data:
  "object_ok ob \<Longrightarrow> ob_data ob = Some data \<Longrightarrow> length data' = length data \<Longrightarrow> object_ok (ob\<lparr>ob_data := Some data'\<rparr>)"
  by (simp add: object_ok_def)

text \<open>
  C35: What is written to a writable sub index of the dictionary of the master is read back, and
  it is the only one that changes: all other sub indices of the object and all other objects read
  as before, and the data of the objects stay large enough.
\<close>

theorem write_read_sub_index:
  assumes "dict_ok dict" "ec_coe_master_get_object dict index = Some k"
    and "ob_read (dict ! k) = None" "ob_data (dict ! k) = Some data"
    and "sub \<le> cd_max_subindices (ob_desc (dict ! k))"
    and "ce_obj_access (ob_entries (dict ! k) ! unat sub) AND ACCESS_WRITE \<noteq> 0"
    and "length v = unat (ce_bit_length (ob_entries (dict ! k) ! unat sub)) div 8"
  shows "\<exists>dict'. ec_coe_master_sdo_write index sub 0 v (length v) dict = Some (EC_OK, dict') \<and> dict_ok dict' \<and>
    sdo_reads dict' en o' m index sub 0 v \<and>
    (\<forall>sub' w. sub' \<noteq> sub \<longrightarrow> sub' \<le> cd_max_subindices (ob_desc (dict ! k)) \<longrightarrow>
       sdo_reads dict en o' m index sub' 0 w \<longrightarrow> sdo_reads dict' en o' m index sub' 0 w) \<and>
    (\<forall>index' sub' complete buf len c. ec_coe_master_get_object dict index' \<noteq> Some k \<longrightarrow>
       ec_coe_master_sdo_read dict' en o' index' sub' complete buf len c m =
       ec_coe_master_sdo_read dict en o' index' sub' complete buf len c m)"
proof -
  let ?ob = "dict ! k" let ?p = "epos ?ob (unat sub)"
  define ob' where "ob' = ?ob\<lparr>ob_data := Some (put_at ?p v data)\<rparr>"
  define dict' where "dict' = dict[k := ob']"
  have k: "k < length dict" using get_object_nth[OF assms(2)] by simp
  have ok: "object_ok ?ob" using assms(1) k by (simp add: dict_ok_def)
  note okD = object_okD[OF ok assms(4)] and get = get_object_data[OF ok assms(4)]
  have s: "unat sub \<le> max_sub ?ob" using assms(5) by (simp add: word_le_nat_alt)
  have v: "length v = esize ?ob (unat sub)" using assms(7) by (simp add: esize_def)
  have fits: "?p + length v \<le> length data" using okD(2)[OF s] v by simp
  then have len: "length (put_at ?p v data) = length data" by (simp add: length_put_at)
  have ok': "object_ok ob'" unfolding ob'_def by (rule object_ok_data[OF ok assms(4) len])
  have written: "ec_coe_master_sdo_write index sub 0 v (length v) dict = Some (EC_OK, dict')"
    using assms(2,4,6) get(1)[OF s] okD(1) s v fits slice_0_all[of v] leD[OF assms(5)]
    by (simp add: ec_coe_master_sdo_write_def Let_def at_index_def read_at_def write_at_def dict'_def ob'_def)
  have found: "ec_coe_master_get_object dict' j = ec_coe_master_get_object dict j" for j
    unfolding dict'_def by (rule get_object_update) (simp_all add: ob'_def)
  have nth: "dict' ! k = ob'" using k by (simp add: dict'_def)
  have shape: "ob_read ob' = None" "ob_data ob' = Some (put_at ?p v data)" "epos ob' = epos ?ob" "esize ob' = esize ?ob"
    "max_sub ob' = max_sub ?ob" using assms(3) by (simp_all add: ob'_def)
  have reads': "sdo_reads dict' en o' m index j 0 (slice (epos ?ob (unat j)) (esize ?ob (unat j)) (put_at ?p v data))"
    if "unat j \<le> max_sub ?ob" for j
    using data_read(1)[of dict' index k "put_at ?p v data" j en o' m] that assms(2) ok' shape by (simp add: found nth)
  have "dict_ok dict'" using assms(1) ok' by (auto simp: dict_ok_def dict'_def dest: set_update_subset_insert[THEN subsetD])
  moreover have "sdo_reads dict' en o' m index sub 0 v" using reads'[OF s] fits v by (simp add: slice_put_at_same)
  moreover have "sdo_reads dict' en o' m index j 0 w"
    if "j \<noteq> sub" "j \<le> cd_max_subindices (ob_desc ?ob)" "sdo_reads dict en o' m index j 0 w" for j w
  proof -
    have j: "unat j \<le> max_sub ?ob" using that(2) by (simp add: word_le_nat_alt)
    have "unat j < unat sub \<or> unat sub < unat j" using that(1) by (metis nat_neq_iff word_unat_eq_iff)
    then have "slice (epos ?ob (unat j)) (esize ?ob (unat j)) (put_at ?p v data) =
        slice (epos ?ob (unat j)) (esize ?ob (unat j)) data"
      using okD(3)[of "unat j" "unat sub"] okD(3)[of "unat sub" "unat j"] s j fits v
      by (auto simp: slice_put_at_before slice_put_at_after)
    moreover have "w = slice (epos ?ob (unat j)) (esize ?ob (unat j)) data"
      using sdo_reads_unique[OF that(3) data_read(1)[OF assms(2-4) ok j]] .
    ultimately show ?thesis using reads'[OF j] by simp
  qed
  moreover have "ec_coe_master_sdo_read dict' en o' j sub' complete buf len c m =
      ec_coe_master_sdo_read dict en o' j sub' complete buf len c m"
    if "ec_coe_master_get_object dict j \<noteq> Some k" for j sub' complete buf len c
  proof (cases "ec_coe_master_get_object dict j")
    case (Some x)
    then have "dict' ! x = dict ! x" using that by (simp add: dict'_def)
    then show ?thesis by (simp add: ec_coe_master_sdo_read_def found Some cong: option.case_cong)
  qed (simp add: ec_coe_master_sdo_read_def found)
  ultimately show ?thesis using written by blast
qed

section \<open>Requests through the gateway\<close>

lemma answer_flags:
  fixes x :: u8 and n :: nat
  shows "bit ((x AND 0x10) OR push_bit 5 2 OR (x AND 1) OR 2 OR y) 1"
    "\<not> bit ((x AND 0x10) OR push_bit 5 2 OR 1) 1"
    "1 \<le> n \<Longrightarrow> n \<le> 4 \<Longrightarrow> unat (drop_bit 2 ((x AND 0x10) OR push_bit 5 2 OR (x AND 1) OR 2 OR
        push_bit 2 (of_nat (4 - n) AND 3)) AND 3) = 4 - n"
proof -
  show "bit ((x AND 0x10) OR push_bit 5 2 OR (x AND 1) OR 2 OR y) 1" by (simp add: bit_simps)
  show "\<not> bit ((x AND 0x10) OR push_bit 5 2 OR 1) 1" by (simp add: bit_simps)
  assume n: "1 \<le> n" "n \<le> 4"
  have "drop_bit 2 (x AND 0x10) AND 3 = drop_bit 2 x AND (0 :: u8)"
    by (simp add: drop_bit_and and.assoc)
  moreover have "drop_bit 2 (x AND 1) = 0" by (simp add: drop_bit_and)
  ultimately have "drop_bit 2 ((x AND 0x10) OR push_bit 5 2 OR (x AND 1) OR 2 OR push_bit 2 (of_nat (4 - n) AND 3)) AND 3
      = drop_bit 2 (push_bit 5 2 OR 2 OR push_bit 2 (of_nat (4 - n) AND 3)) AND 3"
    by (simp add: drop_bit_or bit.conj_disj_distrib2)
  also have "unat \<dots> = 4 - n"
  proof -
    consider "n = 1" | "n = 2" | "n = 3" | "n = 4" using n by linarith
    then show ?thesis by cases simp_all
  qed
  finally show "unat (drop_bit 2 ((x AND 0x10) OR push_bit 5 2 OR (x AND 1) OR 2 OR
      push_bit 2 (of_nat (4 - n) AND 3)) AND 3) = 4 - n" .
qed

lemma service_answer: "drop_bit 12 ((x AND 0x0FFF) OR push_bit 12 EC_COE_SDORES :: u16) = EC_COE_SDORES"
  by (simp add: drop_bit_or drop_bit_and)

text \<open>
  The answer of the gateway, whatever the dictionary has returned: a reader of objects finds the
  first \<open>n\<close> bytes of the buffer in it.
\<close>

lemma gateway_answer:
  assumes "hdr_address (drop 2 fr) = 0" "hdr_mbxtype (drop 2 fr) = EC_MBX_COE" "coe_service (drop 2 fr) = EC_COE_SDOREQ"
    and read: "ec_coe_master_sdo_read dict en o' (sdo_index (drop 2 fr)) (sdo_sub_index (drop 2 fr))
        (of_bool (bit (drop 2 fr ! 8) 4)) (o_uninit o' 256) 256 0 m = Some ((ret, v, n, c), m')"
    and "1 \<le> n" "n \<le> length v" "n \<le> 256" "18 + n \<le> length fr"
  shows "\<exists>fr'. ec_mbx_gateway_handle dict en o' fr m = Some (EC_OK, fr', m') \<and> length fr' = length fr \<and>
    (\<forall>r buf len a. n \<le> len \<longrightarrow> len \<le> length buf \<longrightarrow>
       sdo_read_answer (drop 2 fr') (r, buf, len, a) = Some (EC_OK, put_at 0 (take n v) buf, n, 0))"
proof -
  define d where "d = put_at 6 (le16 ((u16_of (slice 6 2 (drop 2 fr)) AND 0x0FFF) OR push_bit 12 EC_COE_SDORES)) (drop 2 fr)"
  have len: "length d = length fr - 2" "16 + n \<le> length d" using assms(8) by (simp_all add: d_def length_put_at)
  have service: "slice 6 2 d = le16 ((u16_of (slice 6 2 (drop 2 fr)) AND 0x0FFF) OR push_bit 12 EC_COE_SDORES)"
    using assms(8) by (simp add: d_def slice_put_at_same)
  define keep :: u8 where "keep = (d ! 8 AND 0x10) OR push_bit 5 EC_COE_SDO_UPLOAD_REQ"
  have rd: "read_at 0 n v = Some (take n v)" using assms(6) by (simp add: read_at_def slice_def)
  have answer: "sdo_read_answer d' (r, buf, k, a) = Some (EC_OK, put_at 0 (take n v) buf, n, 0)"
    if "slice 6 2 d' = slice 6 2 d" "n \<le> k" "k \<le> length buf"
      "sdo_transfer_type d' \<and> 4 - sdo_data_set_size d' = n \<and> slice 12 n d' = take n v \<and> 12 + n \<le> length d' \<or>
       \<not> sdo_transfer_type d' \<and> unat (sdo_complete_size d') = n \<and> slice 16 n d' = take n v \<and> 16 + n \<le> length d'"
    for d' r buf k a
  proof -
    have "coe_service d' = EC_COE_SDORES" using service_answer by (simp add: coe_service_def that(1) service)
    then show ?thesis using that(2-4) assms(6) by (auto simp: read_at_def write_at_def)
  qed
  define fl where "fl = (if n \<le> 4 then keep OR (d ! 8 AND 1) OR 2 OR push_bit 2 (of_nat (4 - n) AND 3) else keep OR 1)"
  define b where "b = put_at 8 [fl] d"
  have b: "length b = length d" "b ! 8 = fl" "slice 6 2 b = slice 6 2 d"
    using len(2) by (simp_all add: b_def length_put_at nth_put_at slice_put_at_before)
  note handle = ec_mbx_gateway_handle_def gateway_master_def
  show ?thesis
  proof (cases "n \<le> 4")
    case True
    define d' where "d' = put_at 12 (take n v) b"
    have d': "length d' = length d" "slice 6 2 d' = slice 6 2 d" "d' ! 8 = fl" "slice 12 n d' = take n v"
      using len(2) b assms(6) by (simp_all add: d'_def length_put_at nth_put_at slice_put_at_before slice_put_at_same)
    have f: "fl = (d ! 8 AND 0x10) OR push_bit 5 2 OR (d ! 8 AND 1) OR 2 OR push_bit 2 (of_nat (4 - n) AND 3)"
      using True by (simp add: fl_def keep_def or.assoc)
    have "sdo_transfer_type d'" "4 - sdo_data_set_size d' = n"
      using answer_flags(1)[of "d ! 8"] answer_flags(3)[of n "d ! 8", OF assms(5) True] True
      by (simp_all only: sdo_transfer_type_def sdo_data_set_size_def d'(3) f)
    moreover have "write_at 12 (take n v) b = Some d'" using len(2) b(1) assms(6) by (simp add: write_at_def d'_def)
    then have "ec_mbx_gateway_handle dict en o' fr m = Some (EC_OK, put_at 2 d' fr, m')"
      using assms(1-3) read rd True by (simp add: handle Let_def d_def keep_def b_def fl_def)
    moreover have "length (put_at 2 d' fr) = length fr" "drop 2 (put_at 2 d' fr) = d'"
      using d'(1) len assms(8) by (simp_all add: put_at_def)
    ultimately show ?thesis using answer[OF d'(2)] d' len(2) by (intro exI[of _ "put_at 2 d' fr"]) auto
  next
    case False
    define e where "e = put_at 12 (le32 (of_nat n)) b"
    define h where "h = put_at 0 (le16 (hdr_length e + of_nat n)) e"
    define d' where "d' = put_at 16 (take n v) h"
    define l where "l = u16_of (slice 0 2 fr)"
    define fr' where "fr' = put_at 2 d' (put_at 0 (le16 ((l AND 0xF800) OR ((l AND 0x07FF) + of_nat n) AND 0x07FF)) fr)"
    have e: "length e = length d" "slice 6 2 e = slice 6 2 d" "e ! 8 = fl" "slice 12 4 e = le32 (of_nat n)"
      using len(2) b assms(6) False by (simp_all add: e_def length_put_at nth_put_at slice_put_at_before slice_put_at_same)
    have h: "length h = length d" "slice 6 2 h = slice 6 2 d" "h ! 8 = fl" "slice 12 4 h = le32 (of_nat n)"
      using len(2) e assms(6) by (simp_all add: h_def length_put_at nth_put_at slice_put_at_after)
    have d': "length d' = length d" "slice 6 2 d' = slice 6 2 d" "d' ! 8 = fl" "slice 12 4 d' = le32 (of_nat n)"
      "slice 16 n d' = take n v"
      using len(2) h assms(6) by (simp_all add: d'_def length_put_at nth_put_at slice_put_at_before slice_put_at_same)
    have f: "fl = (d ! 8 AND 0x10) OR push_bit 5 2 OR 1" using False by (simp add: fl_def keep_def or.assoc)
    have "\<not> sdo_transfer_type d'" using answer_flags(2)[of "d ! 8"] by (simp only: sdo_transfer_type_def d'(3) f simp_thms)
    moreover have "unat (sdo_complete_size d') = n" using assms(7) d'(4) by (simp add: sdo_complete_size_def unat_of_nat)
    moreover have "write_at 12 (le32 (of_nat n)) b = Some e" "write_at 16 (take n v) h = Some d'"
      using len(2) b(1) h(1) assms(6) False by (simp_all add: write_at_def e_def d'_def)
    then have "ec_mbx_gateway_handle dict en o' fr m = Some (EC_OK, fr', m')"
      using assms(1-3) read rd False
      by (simp add: handle Let_def d_def keep_def b_def fl_def h_def fr'_def l_def)
    moreover have "length fr' = length fr" "drop 2 fr' = d'"
      using d'(1) len assms(8) by (simp_all add: put_at_def fr'_def)
    ultimately show ?thesis using answer[OF d'(2)] d' len(2) by (intro exI[of _ fr']) auto
  qed
qed

text \<open>
  C10: A request for the dictionary of the master through the mailbox gateway is answered so that
  the client's own reading of answers gets the value back: for any object with 1 to 256 bytes,
  in expedited or normal form.
\<close>

theorem gateway_read_roundtrip:
  assumes "hdr_address (drop 2 fr) = 0" "hdr_mbxtype (drop 2 fr) = EC_MBX_COE" "coe_service (drop 2 fr) = EC_COE_SDOREQ"
    and "sdo_reads dict en o' m (sdo_index (drop 2 fr)) (sdo_sub_index (drop 2 fr)) (of_bool (bit (drop 2 fr ! 8) 4)) v"
    and "1 \<le> length v" "length v \<le> 256" "length (o_uninit o' 256) = 256" "18 + length v \<le> length fr"
  shows "\<exists>fr'. ec_mbx_gateway_handle dict en o' fr m = Some (EC_OK, fr', m) \<and> length fr' = length fr \<and>
    (\<forall>r buf len a. length v \<le> len \<longrightarrow> len \<le> length buf \<longrightarrow>
       sdo_read_answer (drop 2 fr') (r, buf, len, a) = Some (EC_OK, put_at 0 v buf, length v, 0))"
proof -
  let ?b = "put_at 0 v (o_uninit o' 256)"
  have "ec_coe_master_sdo_read dict en o' (sdo_index (drop 2 fr)) (sdo_sub_index (drop 2 fr))
      (of_bool (bit (drop 2 fr ! 8) 4)) (o_uninit o' 256) 256 0 m = Some ((EC_OK, ?b, length v, 0), m)"
    using assms(4,6,7) by (simp add: sdo_reads_def)
  note answer = gateway_answer[OF assms(1-3) this assms(5)]
  have "length ?b = 256" "take (length v) ?b = v" using assms(6,7) by (simp_all add: put_at_def)
  then show ?thesis using answer assms(6,8) by simp
qed

text \<open>
  C38: A request for an object that the master does not have is not refused: the answer is a
  successful one whose value are the 256 bytes of a buffer on the stack that nothing was written to.
\<close>

theorem gateway_leaks_buffer:
  assumes "hdr_address (drop 2 fr) = 0" "hdr_mbxtype (drop 2 fr) = EC_MBX_COE" "coe_service (drop 2 fr) = EC_COE_SDOREQ"
    and "ec_coe_master_get_object dict (sdo_index (drop 2 fr)) = None"
    and "length (o_uninit o' 256) = 256" "274 \<le> length fr"
  shows "\<exists>fr'. ec_mbx_gateway_handle dict en o' fr m = Some (EC_OK, fr', m) \<and>
    (\<forall>r a. sdo_read_answer (drop 2 fr') (r, replicate 256 0, 256, a) = Some (EC_OK, o_uninit o' 256, 256, 0))"
proof -
  have "ec_coe_master_sdo_read dict en o' (sdo_index (drop 2 fr)) (sdo_sub_index (drop 2 fr))
      (of_bool (bit (drop 2 fr ! 8) 4)) (o_uninit o' 256) 256 0 m =
      Some ((EC_ERROR_MAILBOX_COE_INDEX_NOT_FOUND, o_uninit o' 256, 256, 0), m)"
    using assms(4) by (simp add: ec_coe_master_sdo_read_def)
  note answer = gateway_answer[OF assms(1-3) this]
  obtain fr' where fr': "ec_mbx_gateway_handle dict en o' fr m = Some (EC_OK, fr', m)"
    "\<And>r buf len a. 256 \<le> len \<Longrightarrow> len \<le> length buf \<Longrightarrow>
       sdo_read_answer (drop 2 fr') (r, buf, len, a) = Some (EC_OK, put_at 0 (take 256 (o_uninit o' 256)) buf, 256, 0)"
    using answer assms(5,6) by auto
  have "put_at 0 (take 256 (o_uninit o' 256)) (replicate 256 0) = o_uninit o' 256"
    using assms(5) by (simp add: put_at_def)
  then show ?thesis using fr'(1) fr'(2)[of 256 "replicate 256 0"] by (intro exI[of _ fr']) simp
qed

section \<open>Concrete requests\<close>

declare sdo_read_answer.simps [simp del]

text \<open>A frame of the gateway that asks the master for a sub index.\<close>

definition gateway_request :: "u16 \<Rightarrow> u8 \<Rightarrow> bytes" where
  "gateway_request index sub = le16 16 @ sdo_request EC_SDO_NORMAL_HDR_LEN 1
     (sdo_flags False False 0 0 EC_COE_SDO_UPLOAD_REQ) index sub (replicate LEC_MAX_POOL_DATA_SIZE 0)"

lemma gateway_request:
  "hdr_address (drop 2 (gateway_request index sub)) = 0" "hdr_mbxtype (drop 2 (gateway_request index sub)) = EC_MBX_COE"
  "coe_service (drop 2 (gateway_request index sub)) = EC_COE_SDOREQ" "sdo_index (drop 2 (gateway_request index sub)) = index"
  "sdo_sub_index (drop 2 (gateway_request index sub)) = sub" "bit (drop 2 (gateway_request index sub) ! 8) 4 = False"
  "length (gateway_request index sub) = 1602"
proof -
  let ?z = "replicate LEC_MAX_POOL_DATA_SIZE 0 :: bytes"
  have "slice 2 2 (sdo_request EC_SDO_NORMAL_HDR_LEN 1 f index sub ?z) = slice 2 2 ?z" for f
    by (simp add: sdo_request_def put_sdo_def put_coe_def put_hdr_def buf_simps)
  moreover have "slice 2 2 ?z = [0, 0]" by (simp add: slice_def numeral_2_eq_2)
  ultimately show "hdr_address (drop 2 (gateway_request index sub)) = 0"
    by (simp add: gateway_request_def hdr_address_def u16_of_def)
qed (simp_all add: gateway_request_def sdo_request_fields sdo_flags_def)

abbreviation demo_dict :: "coe_object list" where
  "demo_dict \<equiv> ec_coe_master_dict ''1.2.3''"

lemma demo_lookup:
  "ec_coe_master_get_object demo_dict 0x1018 = Some 4" "ec_coe_master_get_object demo_dict 0xF000 = Some 11"
  "ec_coe_master_get_object demo_dict 0xF002 = Some 12" "ec_coe_master_get_object demo_dict 0x5000 = None"
  by (simp_all add: ec_coe_master_dict_def object_defs)

lemma demo_objects:
  "demo_dict ! 4 = master_0x1018" "demo_dict ! 11 = master_0xF000" "demo_dict ! 12 = master_0xF002"
  by (simp_all add: ec_coe_master_dict_def)

lemma demo_dict_ok: "dict_ok demo_dict"
  by (rule dict_ok) simp



theorem write_read_sub_index_witness:
  "\<exists>dict'. ec_coe_master_sdo_write 0xF002 1 0 [0x12, 0x34] 2 demo_dict = Some (EC_OK, dict') \<and>
    sdo_reads dict' mbx_demo_env (demo_ops (mbx_bus (\<lambda>_. [])) 1) (mbx_demo []) 0xF002 1 0 [0x12, 0x34]"
proof -
  have "ob_read (demo_dict ! 12) = None" "(1 :: u8) \<le> cd_max_subindices (ob_desc (demo_dict ! 12))"
    "ce_obj_access (ob_entries (demo_dict ! 12) ! unat (1 :: u8)) AND ACCESS_WRITE \<noteq> 0"
    "length [0x12, 0x34 :: u8] = unat (ce_bit_length (ob_entries (demo_dict ! 12) ! unat (1 :: u8))) div 8"
    by (simp_all add: demo_objects master_0xF002_def obj_desc_def entry_desc_def ACCESS_READWRITE_def ACCESS_WRITE_def)
  moreover obtain data where "ob_data (demo_dict ! 12) = Some data" by (simp add: demo_objects master_0xF002_def)
  ultimately obtain dict' where
    "ec_coe_master_sdo_write 0xF002 1 0 [0x12, 0x34] (length [0x12, 0x34 :: u8]) demo_dict = Some (EC_OK, dict')"
    "sdo_reads dict' mbx_demo_env (demo_ops (mbx_bus (\<lambda>_. [])) 1) (mbx_demo []) 0xF002 1 0 [0x12, 0x34]"
    using write_read_sub_index[OF demo_dict_ok demo_lookup(3), of data 1 "[0x12, 0x34]" mbx_demo_env
      "demo_ops (mbx_bus (\<lambda>_. [])) 1" "mbx_demo []"] by blast
  then show ?thesis by (intro exI[of _ dict']) (simp add: numeral_2_eq_2)
qed

theorem gateway_read_roundtrip_witness:
  "\<exists>fr'. ec_mbx_gateway_handle demo_dict mbx_demo_env (demo_ops (mbx_bus (\<lambda>_. [])) 1) (gateway_request 0x1018 2) (mbx_demo []) =
      Some (EC_OK, fr', mbx_demo []) \<and>
    sdo_read_answer (drop 2 fr') (0, [0, 0, 0, 0], 4, 0) = Some (EC_OK, le32 0x11BECA7, 4, 0)"
proof -
  let ?o = "demo_ops (mbx_bus (\<lambda>_. [])) 1"
  have "slice (epos master_0x1018 2) (esize master_0x1018 2) (the (ob_data master_0x1018)) = le32 0x11BECA7"
    by (simp add: epos_def esize_def master_0x1018_def entry_desc_def slice_def le16_def le32_def
        upt_rec[of _ "numeral _"] upt_rec[of _ "Suc _"])
  moreover have "ob_read (demo_dict ! 4) = None" "ob_data (demo_dict ! 4) = Some (the (ob_data master_0x1018))"
    "unat (2 :: u8) \<le> max_sub (demo_dict ! 4)"
    by (simp_all add: demo_objects master_0x1018_def obj_desc_def)
  moreover have "object_ok (demo_dict ! 4)" using demo_dict_ok nth_mem[of 4 demo_dict] by (simp add: dict_ok_def)
  ultimately have "sdo_reads demo_dict mbx_demo_env ?o (mbx_demo []) 0x1018 2 0 (le32 0x11BECA7)"
    using data_read(1)[OF demo_lookup(1), of "the (ob_data master_0x1018)" 2 mbx_demo_env ?o "mbx_demo []"]
    by (simp add: demo_objects(1))
  then have reads: "sdo_reads demo_dict mbx_demo_env ?o (mbx_demo []) (sdo_index (drop 2 (gateway_request 0x1018 2)))
      (sdo_sub_index (drop 2 (gateway_request 0x1018 2))) (of_bool (bit (drop 2 (gateway_request 0x1018 2) ! 8) 4)) (le32 0x11BECA7)"
    by (simp only: gateway_request of_bool_eq)
  have "length (o_uninit ?o 256) = 256" by (simp add: demo_ops_def)
  then obtain fr' where
    "ec_mbx_gateway_handle demo_dict mbx_demo_env ?o (gateway_request 0x1018 2) (mbx_demo []) = Some (EC_OK, fr', mbx_demo [])"
    "\<And>r buf len a. 4 \<le> len \<Longrightarrow> len \<le> length buf \<Longrightarrow>
       sdo_read_answer (drop 2 fr') (r, buf, len, a) = Some (EC_OK, put_at 0 (le32 0x11BECA7) buf, 4, 0)"
    using gateway_read_roundtrip[OF gateway_request(1-3) reads] by (auto simp: gateway_request(7))
  then show ?thesis by (intro exI[of _ fr']) (simp add: put_at_def)
qed

theorem gateway_leaks_buffer_witness:
  "\<exists>fr'. ec_mbx_gateway_handle demo_dict mbx_demo_env (demo_ops (mbx_bus (\<lambda>_. [])) 1) (gateway_request 0x5000 0) (mbx_demo []) =
      Some (EC_OK, fr', mbx_demo []) \<and>
    sdo_read_answer (drop 2 fr') (0, replicate 256 0, 256, 0) =
      Some (EC_OK, o_uninit (demo_ops (mbx_bus (\<lambda>_. [])) 1) 256, 256, 0)"
proof -
  have "length (o_uninit (demo_ops (mbx_bus (\<lambda>_. [])) 1) 256) = 256" by (simp add: demo_ops_def)
  then show ?thesis
    using gateway_leaks_buffer[of "gateway_request 0x5000 0" demo_dict "demo_ops (mbx_bus (\<lambda>_. [])) 1" mbx_demo_env "mbx_demo []"]
    by (auto simp: gateway_request demo_lookup simp del: One_nat_def)
qed

end
