(* ===== verification/Coe_Emergency.thy ===== *)
theory Coe_Emergency
  imports Mbx_Correct
begin

text \<open>The ring of the emergency messages of a slave.\<close>

section \<open>Messages that are read as they come\<close>

text \<open>
  Each message, in the buffers \<open>es\<close>, is read by the application before the next comes.
\<close>

fun emergency_rounds ::
  "'s mbx_env \<Rightarrow> ('s, 'd) mops \<Rightarrow> nat \<Rightarrow> emergency_message \<Rightarrow> nat list \<Rightarrow> ('s, 'd) mmaster \<Rightarrow>
   ('s, 'd) mmaster option" where
  "emergency_rounds en o' i msg [] m = Some m"
| "emergency_rounds en o' i msg (e # es) m = do {
     (ret, msg, m) \<leftarrow> ec_coe_emergency_get_next en i msg (ec_coe_emergency_enqueue en o' i e m);
     if ret = EC_OK then emergency_rounds en o' i msg es m else None }"

definition ring_at :: "nat \<Rightarrow> nat \<Rightarrow> nat \<Rightarrow> ('s, 'd) mmaster \<Rightarrow> bool" where
  "ring_at i r w m \<longleftrightarrow> i < m_slave_cnt m \<and> i < length (x_mbx (m_bus m)) \<and>
     co_next_read (mx_coe (mbx_of m i)) = r \<and> co_next_write (mx_coe (mbx_of m i)) = w \<and>
     length (co_emergencies (mx_coe (mbx_of m i))) = LEC_MAX_COE_EMERGENCIES"

lemma ring_dev: "ring_at i r w (sys_upd (\<lambda>x. x\<lparr>x_dev := f x\<rparr>) m) = ring_at i r w m"
  by (simp add: ring_at_def sys_upd_def mbx_of_def)

lemma ring_return: "ring_at i r w (return_free_recv en e m) = ring_at i r w m"
  by (simp add: ring_at_def return_free_recv_def sys_upd_def mbx_of_def)

lemma ring_coe:
  assumes "ring_at i r w m" "co_next_read (f (mx_coe (mbx_of m i))) = r'" "co_next_write (f (mx_coe (mbx_of m i))) = w'"
    and "length (co_emergencies (f (mx_coe (mbx_of m i)))) = length (co_emergencies (mx_coe (mbx_of m i)))"
  shows "ring_at i r' w' (coe_upd i f m)"
  using assms by (simp add: ring_at_def coe_upd_def mbx_upd_def sys_upd_def mbx_of_def)

lemma ring_enqueue:
  assumes lock: "\<And>s. fst (me_lock en i s) = OSAL_OK" and now: "\<And>s. x_mbx (snd (o_now o' s)) = x_mbx s"
    and R: "ring_at i r w m" and w: "(w + 1) mod LEC_MAX_COE_EMERGENCIES \<noteq> r"
  shows "ring_at i r ((w + 1) mod LEC_MAX_COE_EMERGENCIES) (ec_coe_emergency_enqueue en o' i e m)"
proof -
  obtain dev where l: "me_lock en i (x_dev (m_bus m)) = (OSAL_OK, dev)"
    using lock[of "x_dev (m_bus m)"] by (cases "me_lock en i (x_dev (m_bus m))") auto
  let ?m = "sys_upd (\<lambda>x. x\<lparr>x_dev := dev\<rparr>) m"
  obtain t s where n: "o_now o' (m_bus ?m) = (t, s)" by (cases "o_now o' (m_bus ?m)")
  have "x_mbx s = x_mbx (m_bus ?m)" using now[of "m_bus ?m"] n by simp
  then have 1: "ring_at i r w (?m\<lparr>m_bus := s\<rparr>)"
    using ring_dev[THEN iffD2, OF R, of "\<lambda>_. dev"] by (simp add: ring_at_def mbx_of_def)
  show ?thesis
    unfolding ec_coe_emergency_enqueue_def Let_def l prod.case n
    by (simp only: simp_thms if_False ring_return ring_dev)
      (rule ring_coe[OF 1]; use 1 w in \<open>simp add: ring_at_def Let_def\<close>)
qed

lemma ring_get:
  assumes lock: "\<And>s. fst (me_lock en i s) = OSAL_OK" and R: "ring_at i r w m" and w: "w \<noteq> r"
  shows "r < LEC_MAX_COE_EMERGENCIES \<Longrightarrow>
      \<exists>msg' m'. ec_coe_emergency_get_next en i msg m = Some (EC_OK, msg', m') \<and> ring_at i (r + 1) w m'"
    and "r \<ge> LEC_MAX_COE_EMERGENCIES \<Longrightarrow> ec_coe_emergency_get_next en i msg m = None"
proof -
  obtain dev where l: "me_lock en i (x_dev (m_bus m)) = (OSAL_OK, dev)"
    using lock[of "x_dev (m_bus m)"] by (cases "me_lock en i (x_dev (m_bus m))") auto
  let ?m = "sys_upd (\<lambda>x. x\<lparr>x_dev := dev\<rparr>) m"
  have 1: "ring_at i r w ?m" using R by (simp only: ring_dev)
  have c: "\<not> i \<ge> m_slave_cnt m" using R by (simp add: ring_at_def)
  show "r \<ge> LEC_MAX_COE_EMERGENCIES \<Longrightarrow> ec_coe_emergency_get_next en i msg m = None"
    using 1 c w by (simp add: ec_coe_emergency_get_next_def l ring_at_def Let_def)
  assume r: "r < LEC_MAX_COE_EMERGENCIES"
  have 2: "ring_at i (r + 1) w (coe_upd i (\<lambda>c. c\<lparr>co_next_read := co_next_read c + 1\<rparr>) ?m)"
    by (rule ring_coe[OF 1]) (use 1 in \<open>simp_all add: ring_at_def Let_def\<close>)
  show "\<exists>msg' m'. ec_coe_emergency_get_next en i msg m = Some (EC_OK, msg', m') \<and> ring_at i (r + 1) w m'"
    using 1 c w r ring_dev[THEN iffD2, OF 2] by (simp add: ec_coe_emergency_get_next_def l ring_at_def Let_def)
qed

lemma emergency_rounds:
  assumes lock: "\<And>s. fst (me_lock en i s) = OSAL_OK" and now: "\<And>s. x_mbx (snd (o_now o' s)) = x_mbx s"
  shows "ring_at i r (r mod LEC_MAX_COE_EMERGENCIES) m \<Longrightarrow> r \<le> LEC_MAX_COE_EMERGENCIES \<Longrightarrow>
    (\<exists>m'. emergency_rounds en o' i msg es m = Some m') \<longleftrightarrow> r + length es \<le> LEC_MAX_COE_EMERGENCIES"
proof (induction es arbitrary: r m msg)
  case (Cons e es)
  let ?w = "(r mod LEC_MAX_COE_EMERGENCIES + 1) mod LEC_MAX_COE_EMERGENCIES"
  have w: "?w \<noteq> r" "?w = (r + 1) mod LEC_MAX_COE_EMERGENCIES"
    using Cons.prems(2) by (cases "r < LEC_MAX_COE_EMERGENCIES"; simp add: mod_Suc)+
  note 1 = ring_enqueue[OF lock now Cons.prems(1) w(1), of e]
  show ?case
  proof (cases "r < LEC_MAX_COE_EMERGENCIES")
    case True
    obtain msg' m' where g: "ec_coe_emergency_get_next en i msg (ec_coe_emergency_enqueue en o' i e m) = Some (EC_OK, msg', m')"
      "ring_at i (r + 1) ?w m'" using ring_get(1)[OF lock 1 w(1) True] by blast
    then show ?thesis using Cons.IH[of "r + 1" m' msg'] w(2) True by simp
  next
    case False
    then show ?thesis using ring_get(2)[OF lock 1 w(1), of msg] by simp
  qed
qed (simp del: LEC_MAX_COE_EMERGENCIES_def)

text \<open>
  C32: When each emergency message of a slave is read as it comes, the first ten are read; the
  eleventh is read behind the end of the ring, because the read position does not go back to its
  start like the write position does.
\<close>

theorem emergency_ring_overrun:
  assumes "\<And>s. fst (me_lock en i s) = OSAL_OK" "\<And>s. x_mbx (snd (o_now o' s)) = x_mbx s"
    and "i < m_slave_cnt m" "i < length (x_mbx (m_bus m))" "length (co_emergencies (mx_coe (mbx_of m i))) = LEC_MAX_COE_EMERGENCIES"
  shows "(\<exists>m'. emergency_rounds en o' i msg es (mbx_upd i (ec_coe_init (me_os en)) m) = Some m') \<longleftrightarrow>
    length es \<le> LEC_MAX_COE_EMERGENCIES"
proof -
  have "ring_at i 0 (0 mod LEC_MAX_COE_EMERGENCIES) (mbx_upd i (ec_coe_init (me_os en)) m)"
    using assms(3-5) by (simp add: ring_at_def ec_coe_init_def mbx_upd_def sys_upd_def mbx_of_def)
  from emergency_rounds[OF assms(1,2) this] show ?thesis by simp
qed

theorem emergency_ring_overrun_witness:
  "emergency_rounds mbx_demo_env (demo_ops (mbx_bus (\<lambda>_. [])) 1) 0 \<lparr>em_timestamp = 0, em_msg_len = 0, em_msg = []\<rparr> (replicate 11 7)
     (mbx_upd 0 (ec_coe_init posix_osal) (mbx_demo [])) = None"
proof -
  let ?o = "demo_ops (mbx_bus (\<lambda>_. [])) 1"
  have "\<And>s. fst (me_lock mbx_demo_env 0 s) = OSAL_OK" "\<And>s. x_mbx (snd (o_now ?o s)) = x_mbx s"
    "me_os mbx_demo_env = posix_osal" by (simp_all add: mbx_demo_env_def demo_ops_def)
  moreover have "0 < m_slave_cnt (mbx_demo [])" "length (co_emergencies (mx_coe (mbx_of (mbx_demo []) 0))) = LEC_MAX_COE_EMERGENCIES"
    by (simp_all add: mbx_demo_def demo_master_def mbx_of_def mbx_demo_sys_def empty_mbx_def)
  ultimately show ?thesis
    using emergency_ring_overrun[of mbx_demo_env 0 ?o "mbx_demo []" "\<lparr>em_timestamp = 0, em_msg_len = 0, em_msg = []\<rparr>" "replicate 11 7"] mbx_demo_state(1)
    by (simp del: One_nat_def)
qed

end
