(* ===== verification/Soe_Correct.thy ===== *)
theory Soe_Correct
  imports Mbx_Correct
begin

text \<open>A message that a read of the servo profile does not expect.\<close>

lemma read_goes_on:
  assumes "soe_op_code (data_of m e) \<noteq> EC_SOE_READ_RES"
  shows "loop_opt n (soe_read_body en o' i) (Some e, st, m) = None"
  using assms
proof (induction n arbitrary: m)
  case (Suc n)
  have "data_of (return_free_recv en e m) e = data_of m e"
    by (simp add: data_of_def return_free_recv_def sys_upd_def)
  then show ?case using Suc by (simp add: soe_read_body_def)
qed simp

text \<open>
  C33: When the first message that \<^verbatim>\<open>ec_soe_read\<close> gets has another op code than the answer to a
  read, it does not return, whatever the bound of its loop: the buffer goes back to the pool, and
  the loop looks at it again.
\<close>

theorem soe_read_never_returns:
  assumes "i < m_slave_cnt m" "ec_mbx_check m i EC_EEPROM_MBX_SOE = EC_OK"
    and "ec_mbx_get_free_send_buffer en i None m = (EC_OK, Some e, m1)" "next_counter i m1 = (counter, m2)"
    and "ec_soe_wait en o' i (mbx_enqueue_head en i e
           (set_data e (soe_request 4 counter EC_SOE_READ_REQ False atn elements idn (data_of m2 e)) m2)) = (Some a, m3)"
    and "soe_op_code (data_of m3 a) \<noteq> EC_SOE_READ_RES"
  shows "ec_soe_read en o' i atn idn elements buf len m = None"
  using assms read_goes_on[OF assms(6)] by (simp add: ec_soe_read_def)

text \<open>An answer to an earlier write is still in the queue.\<close>

definition late_answer :: "(mbx_dev mbx_sys, int) master" where
  "late_answer = (let m = mbx_upd 0 (\<lambda>x. x\<lparr>mx_soe_recv := \<lparr>avail = [5], avail_cnt = 1\<rparr>\<rparr>) (mbx_demo [])
     in set_data 5 (put_at 6 [4] (replicate 1600 0)) m)"

theorem soe_read_never_returns_witness:
  "ec_soe_read mbx_demo_env (demo_ops (mbx_bus (\<lambda>_. [])) 1000) 0 0 32 0x40 [0, 0, 0, 0] 4 late_answer = None"
proof -
  let ?o = "demo_ops (mbx_bus (\<lambda>_. [])) 1000" and ?en = mbx_demo_env
  define m1 where "m1 = snd (snd (ec_mbx_get_free_send_buffer ?en 0 None late_answer))"
  define c where "c = fst (next_counter 0 m1)"
  define m2 where "m2 = snd (next_counter 0 m1)"
  define d where "d = soe_request 4 c EC_SOE_READ_REQ False 0 0x40 32 (data_of m2 8)"
  define m3 where "m3 = snd (ec_soe_wait ?en ?o 0 (mbx_enqueue_head ?en 0 8 (set_data 8 d m2)))"
  note defs = late_answer_def mbx_demo_def demo_master_def mbx_demo_sys_def empty_mbx_def mbx_upd_def sys_upd_def set_data_def
    mbx_of_def data_of_def Let_def
  have s: "0 < m_slave_cnt late_answer" "ec_mbx_check late_answer 0 EC_EEPROM_MBX_SOE = EC_OK"
    by (simp_all add: defs ec_mbx_check_def slv_def mbx_demo_slave_def demo_ec_slave_def demo_eeprom_info_def)
  have g: "ec_mbx_get_free_send_buffer ?en 0 None late_answer = (EC_OK, Some 8, m1)"
    by (simp add: m1_def ec_mbx_get_free_send_buffer_def defs)
  have n: "next_counter 0 m1 = (c, m2)" by (simp add: c_def m2_def)
  have q: "mx_soe_recv (mbx_of m2 0) = \<lparr>avail = [5], avail_cnt = 1\<rparr>" "data_of m2 5 = put_at 6 [4] (replicate 1600 0)"
    "length (x_mbx (m_bus m2)) = 1"
    by (simp_all add: m2_def m1_def next_counter_def ec_mbx_next_counter_def ec_mbx_get_free_send_buffer_def defs)
  have w: "ec_soe_wait ?en ?o 0 (mbx_enqueue_head ?en 0 8 (set_data 8 d m2)) = (Some 5, m3)"
    "data_of m3 5 = put_at 6 [4] (replicate 1600 0)"
    using q by (simp_all add: m3_def ec_soe_wait_def pool_wait_def mbx_sched_read_def mbx_signal_def mbx_enqueue_head_def
        timer_start_def demo_ops_def mbx_bus_def mbx_upd_def sys_upd_def set_data_def mbx_of_def data_of_def
        mbx_demo_env_def posix_osal_def pool_get_def)
  have "soe_op_code (data_of m3 5) \<noteq> EC_SOE_READ_RES" by (simp add: w(2) soe_op_code_def buf_simps)
  from soe_read_never_returns[OF s g n w(1)[unfolded d_def] this] show ?thesis .
qed

end
