(* ===== verification/Veth.thy ===== *)
theory Veth
  imports Mbx
begin

text \<open>
  \<^verbatim>\<open>src/veth.c\<close>: the virtual network device of the master, on POSIX systems with a
  little-endian processor. It answers ARP requests and pings, hands UDP requests to the mailbox
  gateway, and forwards frames to the slaves with Ethernet over EtherCAT. A frame is in the
  buffer of an \<^verbatim>\<open>eth_frame_t\<close>; \<open>write\<close> is the system call on the device.
\<close>

section \<open>Fields of a frame\<close>

text \<open>
  The Ethernet header has 14 bytes, the destination first; the IP header 20 bytes, also when it
  is longer. Words are in network order.
\<close>

record ec_veth =
  ve_ip :: bytes
  ve_mac :: bytes

definition ETHERTYPE_ARP :: u16 where [simp]: "ETHERTYPE_ARP = 0x0806"
definition ETHERTYPE_IP :: u16 where [simp]: "ETHERTYPE_IP = 0x0800"
definition IPPROTO_ICMP :: u8 where [simp]: "IPPROTO_ICMP = 1"
definition IPPROTO_TCP :: u8 where [simp]: "IPPROTO_TCP = 6"
definition IPPROTO_UDP :: u8 where [simp]: "IPPROTO_UDP = 17"

definition be16 :: "u16 \<Rightarrow> bytes" where "be16 w = rev (le16 w)"
definition u16_be :: "bytes \<Rightarrow> u16" where "u16_be bs = u16_of (rev bs)"

definition ether_dhost :: "bytes \<Rightarrow> bytes" where "ether_dhost fr = slice 0 6 fr"
definition ether_shost :: "bytes \<Rightarrow> bytes" where "ether_shost fr = slice 6 6 fr"
definition ether_type :: "bytes \<Rightarrow> u16" where "ether_type fr = u16_be (slice 12 2 fr)"
definition ip_tot_len :: "bytes \<Rightarrow> u16" where "ip_tot_len fr = u16_be (slice 16 2 fr)"
definition ip_protocol :: "bytes \<Rightarrow> u8" where "ip_protocol fr = fr ! 23"
definition ip_saddr :: "bytes \<Rightarrow> bytes" where "ip_saddr fr = slice 26 4 fr"
definition ip_daddr :: "bytes \<Rightarrow> bytes" where "ip_daddr fr = slice 30 4 fr"
definition udp_len :: "bytes \<Rightarrow> u16" where "udp_len fr = u16_be (slice 38 2 fr)"

section \<open>Headers\<close>

text \<open>
  The addresses are given by the places they are at, since the callers pass pointers into the
  header itself: the destination is copied first, and the source is read after that.
\<close>

definition setup_ether_header :: "nat \<Rightarrow> nat \<Rightarrow> u16 \<Rightarrow> bytes \<Rightarrow> bytes" where
  "setup_ether_header shost dhost etype fr =
     (let fr = put_at 0 (slice dhost 6 fr) fr;
          fr = put_at 6 (slice shost 6 fr) fr
      in put_at 12 (be16 etype) fr)"

definition setup_iphdr :: "u8 \<Rightarrow> u16 \<Rightarrow> bytes \<Rightarrow> bytes \<Rightarrow> bytes \<Rightarrow> bytes" where
  "setup_iphdr protocol len src dst fr =
     put_at 14 ([0x45, 0] @ be16 len @ be16 12345 @ [0, 0, 64, protocol, 0, 0] @ src @ dst) fr"

definition setup_udphdr :: "u16 \<Rightarrow> u16 \<Rightarrow> u16 \<Rightarrow> bytes \<Rightarrow> bytes" where
  "setup_udphdr sport dport len fr = put_at 34 (be16 sport @ be16 dport @ be16 len @ [0, 0]) fr"

section \<open>Checksums\<close>

text \<open>The words of a list of bytes, as the processor reads them; an odd byte is padded.\<close>

fun words_of :: "bytes \<Rightarrow> nat list" where
  "words_of (a # b # bs) = (unat a + 256 * unat b) # words_of bs"
| "words_of [a] = [unat a]"
| "words_of [] = []"

text \<open>The upper half of the sum is added to the lower half until it is zero.\<close>

function fold16 :: "nat \<Rightarrow> nat" where
  "fold16 n = (if n < 65536 then n else fold16 (n mod 65536 + n div 65536))"
  by pat_completeness auto
termination
proof (relation "measure id")
  fix n :: nat
  assume "\<not> n < 65536"
  moreover have "65536 * (n div 65536) + n mod 65536 = n" by (rule mult_div_mod_eq)
  ultimately have "n mod 65536 + n div 65536 < n" by linarith
  then show "(n mod 65536 + n div 65536, n) \<in> measure id" by simp
qed simp

declare fold16.simps [simp del]

text \<open>
  The sums of at most 65535 bytes do not leave 32 bits. The checksum of the IP header is folded
  twice without a loop, into a word of 16 bits.
\<close>

definition calculate_icmp_checksum :: "nat \<Rightarrow> bytes \<Rightarrow> bytes option" where
  "calculate_icmp_checksum len fr =
     (let fr = put_at 36 [0, 0] fr
      in if 34 + len + len mod 2 \<le> length fr
         then Some (put_at 36 (le16 (NOT (of_nat (fold16 (sum_list (words_of (slice 34 len fr))))))) fr)
         else None)"

definition calculate_udp_checksum :: "bytes \<Rightarrow> bytes option" where
  "calculate_udp_checksum fr =
     (let len = unat (udp_len fr);
          pseudo = sum_list (words_of (ip_saddr fr)) + sum_list (words_of (ip_daddr fr)) +
                   256 * unat IPPROTO_UDP + sum_list (words_of (slice 38 2 fr));
          fr = put_at 40 [0, 0] fr
      in if 34 + len + len mod 2 \<le> length fr
         then (let c = (NOT (of_nat (fold16 (pseudo + sum_list (words_of (slice 34 len fr))))) :: u16)
               in Some (put_at 40 (le16 (if c = 0 then 0xFFFF else c)) fr))
         else None)"

definition calculate_ip_checksum :: "bytes \<Rightarrow> bytes" where
  "calculate_ip_checksum fr =
     (let fr = put_at 24 [0, 0] fr;
          s = sum_list (words_of (slice 14 20 fr));
          s = s div 65536 + s mod 65536;
          s = s + s div 65536
      in put_at 24 (le16 (NOT (of_nat s))) fr)"

section \<open>Frames for the master\<close>

definition ec_veth_send_frame ::
  "(bytes \<Rightarrow> 's \<Rightarrow> int \<times> 's) \<Rightarrow> bytes \<Rightarrow> ('s, 'd) mmaster \<Rightarrow> int \<times> ('s, 'd) mmaster" where
  "ec_veth_send_frame write fr m =
     (let (n, s) = write fr (x_dev (m_bus m)) in (n, sys_upd (\<lambda>x. x\<lparr>x_dev := s\<rparr>) m))"

text \<open>The ARP payload: addresses of the sender and of the target, MAC and IP address each.\<close>

definition arp_reply :: "ec_veth \<Rightarrow> bytes \<Rightarrow> bytes" where
  "arp_reply veth fr =
     (let fr = put_at 32 (slice 22 6 fr) fr;
          fr = put_at 22 (ve_mac veth) fr;
          fr = put_at 38 (slice 28 4 fr) fr;
          fr = put_at 28 (ve_ip veth) fr;
          fr = put_at 20 (be16 2) fr
      in setup_ether_header 0 6 ETHERTYPE_ARP fr)"

text \<open>The length of the message behind the header of the IP packet is computed with 64 bits.\<close>

definition ping_reply :: "bytes \<Rightarrow> bytes option" where
  "ping_reply fr = do {
     fr \<leftarrow> calculate_icmp_checksum (unat (ucast (ip_tot_len fr) - 20 :: u64)) (put_at 34 [0] fr);
     let fr = setup_ether_header 0 6 ETHERTYPE_IP fr;
     Some (calculate_ip_checksum (setup_iphdr IPPROTO_ICMP (ip_tot_len fr) (ip_daddr fr) (ip_saddr fr) fr)) }"

text \<open>
  The answer of the gateway: \<open>gw\<close> handles the request at its place in the buffer. The lengths of
  the packet come from the header of the answer; the result is how much of the buffer is sent.
\<close>

definition udp_reply ::
  "(bytes \<Rightarrow> ('s, 'd) mmaster \<Rightarrow> (int \<times> bytes \<times> ('s, 'd) mmaster) option) \<Rightarrow> bytes \<Rightarrow>
   ('s, 'd) mmaster \<Rightarrow> (nat option \<times> bytes \<times> ('s, 'd) mmaster) option" where
  "udp_reply gw fr m =
     (let src_port = u16_be (slice 34 2 fr); dst_port = u16_be (slice 36 2 fr)
      in if dst_port \<noteq> 0x88A4 then Some (None, fr, m)
         else do {
           (ret, v, m) \<leftarrow> gw (drop 42 fr) m;
           let fr = put_at 42 v fr;
           if ret \<noteq> EC_OK then Some (None, fr, m)
           else do {
             let fr = setup_ether_header 0 6 ETHERTYPE_IP fr;
             let fr = setup_udphdr dst_port src_port (udp_len fr) fr;
             let fr = setup_iphdr IPPROTO_UDP (ip_tot_len fr) (ip_daddr fr) (ip_saddr fr) fr;
             let n = u16_of (slice 42 2 fr) AND 0x07FF;
             let fr = put_at 38 (be16 (8 + 2 + n)) (put_at 16 (be16 (20 + 8 + 2 + n)) fr);
             fr \<leftarrow> calculate_udp_checksum (calculate_ip_checksum fr);
             _ \<leftarrow> read_at 0 (unat (ip_tot_len fr) + 14) fr;
             Some (Some (unat (ip_tot_len fr) + 14), fr, m) } })"

text \<open>The answer is written in the buffer of the request; the result is that buffer.\<close>

definition ec_veth_process_frame ::
  "ec_veth \<Rightarrow> (bytes \<Rightarrow> 's \<Rightarrow> int \<times> 's) \<Rightarrow>
   (bytes \<Rightarrow> ('s, 'd) mmaster \<Rightarrow> (int \<times> bytes \<times> ('s, 'd) mmaster) option) \<Rightarrow> nat \<Rightarrow> bytes \<Rightarrow>
   ('s, 'd) mmaster \<Rightarrow> (bytes \<times> ('s, 'd) mmaster) option" where
  "ec_veth_process_frame veth write gw len fr m =
     (let send = (\<lambda>n fr m. (fr, snd (ec_veth_send_frame write (take n fr) m)))
      in if ether_type fr = ETHERTYPE_ARP
         then Some (if slice 38 4 fr = ve_ip veth then send len (arp_reply veth fr) m else (fr, m))
         else if ether_type fr = ETHERTYPE_IP \<and> ip_protocol fr = IPPROTO_ICMP
         then map_option (\<lambda>fr. send len fr m) (ping_reply fr)
         else if ether_type fr = ETHERTYPE_IP \<and> ip_protocol fr = IPPROTO_UDP
         then map_option (\<lambda>(n, fr, m). case n of None \<Rightarrow> (fr, m) | Some n \<Rightarrow> send n fr m) (udp_reply gw fr m)
         else Some (fr, m))"

section \<open>The handler of the device\<close>

definition eoe_active :: "('s, 'd) mmaster \<Rightarrow> nat \<Rightarrow> bool" where
  "eoe_active m i \<longleftrightarrow> eo_use_eoe (sl_eoe (slv m i)) \<and> sl_act_state (slv m i) \<noteq> EC_STATE_INIT \<and>
     sl_act_state (slv m i) \<noteq> EC_STATE_BOOT"

fun forward_frame ::
  "(nat \<Rightarrow> bytes \<Rightarrow> ('s, 'd) mmaster \<Rightarrow> (int \<times> ('s, 'd) mmaster) option) \<Rightarrow> bool \<Rightarrow> bytes \<Rightarrow> nat list \<Rightarrow>
   ('s, 'd) mmaster \<Rightarrow> ('s, 'd) mmaster option" where
  "forward_frame send is_broadcast fr [] m = Some m"
| "forward_frame send is_broadcast fr (i # is') m =
     (if eoe_active m i \<and> (is_broadcast \<or> eo_mac (sl_eoe (slv m i)) = ether_dhost fr)
      then do {
        (_, m) \<leftarrow> send i fr m;
        if is_broadcast then forward_frame send is_broadcast fr is' m else Some m }
      else forward_frame send is_broadcast fr is' m)"

text \<open>
  What the handler does with \<open>rd\<close> bytes that were read into its buffer. The answer of the
  master is written in the same buffer, from which the frame is then forwarded.
\<close>

definition veth_frame_received ::
  "coe_object list \<Rightarrow> 's mbx_env \<Rightarrow> ('s, 'd) mops \<Rightarrow> ec_veth \<Rightarrow> (bytes \<Rightarrow> 's \<Rightarrow> int \<times> 's) \<Rightarrow> bytes \<Rightarrow> nat \<Rightarrow>
   ('s, 'd) mmaster \<Rightarrow> ('s, 'd) mmaster option" where
  "veth_frame_received dict en o' veth write fr rd m =
     (let is_broadcast = (ether_dhost fr = replicate 6 0xFF)
      in do {
        (fr, m) \<leftarrow> (if is_broadcast \<or> ether_dhost fr = ve_mac veth
                     then ec_veth_process_frame veth write (ec_mbx_gateway_handle dict en o') rd fr m
                     else Some (fr, m));
        forward_frame (ec_eoe_send_frame en o') is_broadcast (take rd fr) [0..<m_slave_cnt m] m })"

end
