(* ===== verification/Veth_Correct.thy ===== *)
theory Veth_Correct
  imports Veth
begin

text \<open>The answers of the virtual network device: checksums and addresses.\<close>

section \<open>Checksums\<close>

lemma fold16_mod: "fold16 n mod 65535 = n mod 65535"
proof (induction n rule: fold16.induct)
  case (1 n)
  show ?case
  proof (cases "n < 65536")
    case False
    have "n = 65536 * (n div 65536) + n mod 65536" by simp
    then have "n mod 65535 = (65536 * (n div 65536) + n mod 65536) mod 65535" by metis
    also have "\<dots> = (n mod 65536 + n div 65536) mod 65535"
      using mod_mult_self1[of "n mod 65536 + n div 65536" "n div 65536" 65535] by (simp add: algebra_simps)
    finally show ?thesis using 1 False by (simp add: fold16.simps[of n])
  qed (simp add: fold16.simps)
qed

lemma fold16_bounds: "fold16 n < 65536 \<and> (0 < n \<longrightarrow> 0 < fold16 n)"
proof (induction n rule: fold16.induct)
  case (1 n)
  show ?case
  proof (cases "n < 65536")
    case False
    then have "0 < n div 65536" by (simp add: div_greater_zero_iff)
    then show ?thesis using 1 False by (simp add: fold16.simps[of n])
  qed (simp add: fold16.simps)
qed

text \<open>The one's complement of a sum that is congruent to \<open>s\<close> makes the sum \<open>0xFFFF\<close>.\<close>

lemma fold16_complement:
  assumes "c mod 65535 = s mod 65535" "c < 65536" "s = 0 \<Longrightarrow> c = 0"
  shows "fold16 (s + unat (NOT (of_nat c) :: u16)) = 65535"
proof -
  have "(of_nat (65535 - c) :: u16) = NOT (of_nat c)"
    using assms(2) by (simp add: not_eq_complement of_nat_diff)
  then have c: "unat (NOT (of_nat c) :: u16) = 65535 - c"
    by (subst \<open>of_nat (65535 - c) = NOT (of_nat c)\<close>[symmetric], subst unat_of_nat) simp
  have "(s + (65535 - c)) mod 65535 = (s mod 65535 + (65535 - c)) mod 65535" by (simp add: mod_simps)
  also have "\<dots> = (c + (65535 - c)) mod 65535" unfolding assms(1)[symmetric] by (simp only: mod_simps)
  also have "\<dots> = 0" using assms(2) by simp
  finally have "65535 dvd fold16 (s + (65535 - c))" by (simp add: fold16_mod dvd_eq_mod_eq_0)
  moreover have "0 < s + (65535 - c)"
  proof (cases "s = 0")
    case True
    then show ?thesis using assms(3) by simp
  qed simp
  then have "0 < fold16 (s + (65535 - c))" by (rule fold16_bounds[THEN conjunct2, rule_format])
  moreover have "fold16 (s + (65535 - c)) < 65536" by (rule fold16_bounds[THEN conjunct1])
  ultimately have "65535 \<le> fold16 (s + (65535 - c)) \<and> fold16 (s + (65535 - c)) < Suc 65535"
    by (auto intro: dvd_imp_le)
  then show ?thesis unfolding c less_Suc_eq_le by (blast intro: le_antisym)
qed

lemma words_of_append: "even (length xs) \<Longrightarrow> words_of (xs @ ys) = words_of xs @ words_of ys"
  by (induction xs rule: words_of.induct) auto

lemma words_of_le16: "words_of (le16 w) = [unat w]"
proof -
  have "of_le (le16 w) = unat w" by simp
  then show ?thesis by (simp add: le16_def del: of_le_le16)
qed

lemma words_of_bound: "sum_list (words_of xs) \<le> 65535 * ((length xs + 1) div 2)"
proof (induction xs rule: words_of.induct)
  case (1 a b bs)
  have "unat a < 256" "unat b < 256" using unat_lt[of a] unat_lt[of b] by simp_all
  then show ?case using 1 by simp
next
  case (2 a)
  then show ?case using unat_lt[of a] by simp
qed simp

text \<open>A part of a frame with the checksum \<open>v\<close> at \<open>c\<close>.\<close>

lemma words_with_checksum:
  assumes "off \<le> c" "c + 2 \<le> off + n" "off + n \<le> length fr" "even (c - off)"
  shows "sum_list (words_of (slice off n (put_at c (le16 v) fr))) =
    sum_list (words_of (slice off (c - off) fr)) + unat v + sum_list (words_of (slice (c + 2) (off + n - c - 2) fr))"
proof -
  have "slice off n (put_at c (le16 v) fr) = slice off (c - off) fr @ le16 v @ slice (c + 2) (off + n - c - 2) fr"
    using assms by (simp add: slice_def put_at_def drop_take add.commute)
  moreover have "even (length (slice off (c - off) fr))" using assms by (simp add: length_slice)
  ultimately show ?thesis by (simp add: words_of_append words_of_le16)
qed


lemma icmp_checksum:
  assumes f: "calculate_icmp_checksum len fr = Some fr'" and len: "4 \<le> len" "38 \<le> length fr"
  shows "fold16 (sum_list (words_of (slice 34 len fr'))) = 65535 \<and> length fr' = length fr \<and>
    (\<forall>off n. off + n \<le> 36 \<longrightarrow> slice off n fr' = slice off n fr)"
proof -
  let ?z = "put_at 36 [0, 0] fr"
  let ?s = "sum_list (words_of (slice 34 len ?z))"
  have l: "34 + len \<le> length ?z" and fr': "fr' = put_at 36 (le16 (NOT (of_nat (fold16 ?s)))) ?z"
    using f by (auto simp: calculate_icmp_checksum_def Let_def split: if_splits)
  have lz: "length ?z = length fr"
    using len by (simp add: length_put_at)
  have z: "le16 0 = [0, 0]" by (simp add: le16_def)
  have "?z = put_at 36 (le16 0) ?z" using l len lz by (simp add: z put_at_def)
  then have s: "?s = sum_list (words_of (slice 34 2 ?z)) + unat (0 :: u16) + sum_list (words_of (slice 38 (len - 4) ?z))"
    using words_with_checksum[of 34 36 len ?z 0] l len by simp
  have "sum_list (words_of (slice 34 len fr')) = ?s + unat (NOT (of_nat (fold16 ?s)) :: u16)"
    unfolding fr' s using words_with_checksum[of 34 36 len ?z] l len by simp
  moreover have "fold16 0 = 0" by (simp add: fold16.simps)
  then have "?s = 0 \<Longrightarrow> fold16 ?s = 0" by (simp only:)
  note fold16_complement[OF fold16_mod conjunct1[OF fold16_bounds] this]
  ultimately have "fold16 (sum_list (words_of (slice 34 len fr'))) = 65535" by (simp only:)
  moreover have "length fr' = length fr" unfolding fr' using len lz by (subst length_put_at) simp_all
  moreover have "slice off n fr' = slice off n fr" if "off + n \<le> 36" for off n
    unfolding fr' using that len lz by (subst slice_put_at_before, simp, simp, subst slice_put_at_before) simp_all
  ultimately show ?thesis by blast
qed


lemma ip_checksum:
  assumes len: "34 \<le> length fr"
  shows "fold16 (sum_list (words_of (slice 14 20 (calculate_ip_checksum fr)))) = 65535"
    and "length (calculate_ip_checksum fr) = length fr"
    and "off + n \<le> 24 \<or> 26 \<le> off \<Longrightarrow> slice off n (calculate_ip_checksum fr) = slice off n fr"
proof -
  let ?z = "put_at 24 [0, 0] fr"
  let ?s = "sum_list (words_of (slice 14 20 ?z))"
  define s1 where "s1 = ?s div 65536 + ?s mod 65536"
  define s2 where "s2 = s1 + s1 div 65536"
  have c: "calculate_ip_checksum fr = put_at 24 (le16 (NOT (of_nat s2))) ?z"
    by (simp add: calculate_ip_checksum_def Let_def s1_def s2_def)
  have lz: "length ?z = length fr" using len by (simp add: length_put_at)
  show "length (calculate_ip_checksum fr) = length fr" unfolding c using len lz by (subst length_put_at) simp_all
  show "slice off n (calculate_ip_checksum fr) = slice off n fr" if "off + n \<le> 24 \<or> 26 \<le> off"
    using that
  proof
    assume "off + n \<le> 24"
    then show ?thesis
      unfolding c using len lz by (subst slice_put_at_before, simp, simp, subst slice_put_at_before) simp_all
  next
    assume "26 \<le> off"
    then show ?thesis
      unfolding c using len lz by (subst slice_put_at_after, simp, simp, subst slice_put_at_after) simp_all
  qed
  have z: "le16 0 = [0, 0]" by (simp add: le16_def)
  have "?z = put_at 24 (le16 0) ?z" using len by (simp add: z put_at_def)
  then have s: "?s = sum_list (words_of (slice 14 10 ?z)) + unat (0 :: u16) + sum_list (words_of (slice 26 8 ?z))"
    using words_with_checksum[of 14 24 20 ?z 0] len lz by simp
  have "sum_list (words_of (slice 14 10 ?z)) \<le> 65535 * 5" "sum_list (words_of (slice 26 8 ?z)) \<le> 65535 * 4"
    using words_of_bound[of "slice 14 10 ?z"] words_of_bound[of "slice 26 8 ?z"] len lz by (simp_all add: length_slice)
  then have b: "?s \<le> 65535 * 9" using s by simp
  have "sum_list (words_of (slice 14 20 (calculate_ip_checksum fr))) = ?s + unat (NOT (of_nat (s2 mod 65536)) :: u16)"
  proof -
    have "(of_nat (s2 mod 65536) :: u16) = of_nat s2" by (simp add: word_unat_eq_iff unat_of_nat)
    then show ?thesis
      unfolding c s using words_with_checksum[of 14 24 20 ?z "NOT (of_nat s2)"] len lz by simp
  qed
  moreover have "s2 mod 65536 mod 65535 = ?s mod 65535"
  proof -
    have d: "65536 * (?s div 65536) + ?s mod 65536 = ?s" by (rule mult_div_mod_eq)
    have "?s div 65536 \<le> 8" using b by (simp add: div_le_mono[of ?s "65535 * 9" 65536, simplified])
    then have s1: "s1 mod 65535 = ?s mod 65535" "s1 < 65536 + 8"
      using d mod_mult_self1[of s1 "?s div 65536" 65535] mod_less_divisor[of 65536 ?s]
      by (simp_all add: s1_def algebra_simps)
    show ?thesis
    proof (cases "s1 < 65536")
      case True
      then show ?thesis using s1 by (simp add: s2_def)
    next
      case False
      then obtain k where k: "s1 = 65536 + k" "k < 8" using s1(2) by (metis le_Suc_ex linorder_not_less nat_add_left_cancel_less)
      have "(65536 + k) div 65536 = 1" "(65537 + k) mod 65536 = k + 1"
        using k(2) by (simp_all add: div_add_self1 mod_if)
      then have "s2 mod 65536 = k + 1" by (simp add: s2_def k(1))
      moreover have "s1 mod 65535 = (k + 1) mod 65535" using mod_add_self1[of 65535 "k + 1"] by (simp add: k(1))
      ultimately show ?thesis using s1(1) by simp
    qed
  qed
  moreover have "s2 mod 65536 < 65536" by simp
  moreover have "s2 mod 65536 = 0" if "?s = 0" unfolding s2_def s1_def that by simp
  ultimately show "fold16 (sum_list (words_of (slice 14 20 (calculate_ip_checksum fr)))) = 65535"
    using fold16_complement[of "s2 mod 65536" ?s] by (simp only:)
qed


section \<open>The answer to a ping\<close>

lemma setup_ether_header_addresses:
  assumes "14 \<le> length fr"
  shows "ether_dhost (setup_ether_header 0 6 et fr) = ether_shost fr"
    "ether_shost (setup_ether_header 0 6 et fr) = ether_shost fr"
    "length (setup_ether_header 0 6 et fr) = length fr"
    "14 \<le> off \<Longrightarrow> slice off n (setup_ether_header 0 6 et fr) = slice off n fr"
proof -
  let ?a = "put_at 0 (slice 6 6 fr) fr"
  have a: "length ?a = length fr" "slice 0 6 ?a = slice 6 6 fr" using assms by (simp_all add: buf_simps)
  let ?b = "put_at 6 (slice 0 6 ?a) ?a"
  have b: "length ?b = length fr" "slice 0 6 ?b = slice 6 6 fr" "slice 6 6 ?b = slice 6 6 fr"
    using assms a by (simp_all add: buf_simps)
  have e: "length (be16 et) = 2" by (simp add: be16_def)
  have c: "setup_ether_header 0 6 et fr = put_at 12 (be16 et) ?b" by (simp add: setup_ether_header_def Let_def)
  show "length (setup_ether_header 0 6 et fr) = length fr" using assms b e by (simp add: c buf_simps)
  show "ether_dhost (setup_ether_header 0 6 et fr) = ether_shost fr"
    "ether_shost (setup_ether_header 0 6 et fr) = ether_shost fr"
    using assms b e by (simp_all add: c ether_dhost_def ether_shost_def slice_put_at_before)
  show "14 \<le> off \<Longrightarrow> slice off n (setup_ether_header 0 6 et fr) = slice off n fr"
    using assms a b e by (simp add: c slice_put_at_after length_slice)
qed

lemma setup_iphdr_fields:
  assumes "34 \<le> length fr" "length src = 4" "length dst = 4"
  shows "length (setup_iphdr pr len src dst fr) = length fr" "ip_saddr (setup_iphdr pr len src dst fr) = src"
    "ip_daddr (setup_iphdr pr len src dst fr) = dst"
    "off + n \<le> 14 \<or> 34 \<le> off \<Longrightarrow> slice off n (setup_iphdr pr len src dst fr) = slice off n fr"
proof -
  let ?h = "[0x45, 0] @ be16 len @ be16 12345 @ [0, 0, 64, pr, 0, 0] @ src @ dst"
  have h: "length ?h = 20" "slice 12 4 ?h = src" "slice 16 4 ?h = dst"
    using assms(2,3) by (simp_all add: be16_def slice_def)
  have c: "setup_iphdr pr len src dst fr = put_at 14 ?h fr" by (simp add: setup_iphdr_def)
  show "length (setup_iphdr pr len src dst fr) = length fr" unfolding c using assms(1) h(1) by (subst length_put_at) simp_all
  have "slice (14 + p) m (put_at 14 ?h fr) = slice p m ?h" if "p + m \<le> 20" for p m
  proof -
    have "slice 14 20 (put_at 14 ?h fr) = ?h" by (rule slice_put_at_same) (use assms(1) h(1) in simp_all)
    then show ?thesis using slice_slice[OF that, of 14 "put_at 14 ?h fr"] by simp
  qed
  from this[of 12 4] this[of 16 4] show "ip_saddr (setup_iphdr pr len src dst fr) = src"
    "ip_daddr (setup_iphdr pr len src dst fr) = dst"
    using h by (simp_all add: c ip_saddr_def ip_daddr_def)
  assume "off + n \<le> 14 \<or> 34 \<le> off"
  then show "slice off n (setup_iphdr pr len src dst fr) = slice off n fr"
  proof
    assume "off + n \<le> 14"
    then show ?thesis unfolding c using assms(1) by (subst slice_put_at_before) simp_all
  next
    assume "34 \<le> off"
    then show ?thesis unfolding c using assms(1) h(1) by (subst slice_put_at_after) simp_all
  qed
qed

text \<open>
  C34: The answer to an ICMP message has valid checksums of the IP header and of the ICMP message,
  the type of an echo reply, and the IP addresses of the request exchanged. Its destination is
  the MAC address the request came from, and so is its source, which should be that of the
  master.
\<close>

theorem ping_reply_addresses:
  assumes "ping_reply fr = Some fr'" "24 \<le> unat (ip_tot_len fr)" "38 \<le> length fr"
  shows "fold16 (sum_list (words_of (slice 14 20 fr'))) = 65535 \<and>
    fold16 (sum_list (words_of (slice 34 (unat (ip_tot_len fr) - 20) fr'))) = 65535 \<and>
    slice 34 1 fr' = [0] \<and> ip_saddr fr' = ip_daddr fr \<and> ip_daddr fr' = ip_saddr fr \<and>
    ether_dhost fr' = ether_shost fr \<and> ether_shost fr' = ether_shost fr"
proof -
  let ?n = "unat (ip_tot_len fr) - 20"
  have n: "unat (ucast (ip_tot_len fr) - 20 :: u64) = ?n"
  proof -
    have "unat (ucast (ip_tot_len fr) :: u64) = unat (ip_tot_len fr)"
      using unat_lt[of "ip_tot_len fr"] by (simp add: unsigned_ucast_eq take_bit_nat_eq_self_iff)
    then show ?thesis using assms(2) by (subst unat_sub) (simp_all add: word_le_nat_alt)
  qed
  let ?f0 = "put_at 34 [0] fr"
  obtain f1 where f1: "calculate_icmp_checksum ?n ?f0 = Some f1"
    and fr': "fr' = calculate_ip_checksum (setup_iphdr IPPROTO_ICMP (ip_tot_len (setup_ether_header 0 6 ETHERTYPE_IP f1))
        (ip_daddr (setup_ether_header 0 6 ETHERTYPE_IP f1)) (ip_saddr (setup_ether_header 0 6 ETHERTYPE_IP f1))
        (setup_ether_header 0 6 ETHERTYPE_IP f1))"
    using assms(1) by (auto simp: ping_reply_def n Let_def bind_eq_Some_conv)
  let ?f2 = "setup_ether_header 0 6 ETHERTYPE_IP f1"
  let ?f3 = "setup_iphdr IPPROTO_ICMP (ip_tot_len ?f2) (ip_daddr ?f2) (ip_saddr ?f2) ?f2"
  have l0: "length ?f0 = length fr" using assms(3) by (simp add: length_put_at)
  have "4 \<le> ?n" using assms(2) by simp
  from icmp_checksum[OF f1 this] have 1: "fold16 (sum_list (words_of (slice 34 ?n f1))) = 65535" "length f1 = length fr"
    "\<And>off n. off + n \<le> 36 \<Longrightarrow> slice off n f1 = slice off n ?f0" using l0 assms(3) by simp_all
  have b: "slice off k ?f0 = slice off k fr" if "off + k \<le> 34" for off k
    using that assms(3) by (subst slice_put_at_before) simp_all
  have l1: "14 \<le> length f1" using 1(2) assms(3) by simp
  note 2 = setup_ether_header_addresses[OF l1, where et = ETHERTYPE_IP]
  have l2: "34 \<le> length ?f2" using 2(3) 1(2) assms(3) by simp
  have la: "length (ip_daddr ?f2) = 4" "length (ip_saddr ?f2) = 4"
    using l2 by (simp_all add: ip_daddr_def ip_saddr_def length_slice)
  note 3 = setup_iphdr_fields[OF l2 la, where pr = IPPROTO_ICMP and len = "ip_tot_len ?f2"]
  have l3: "34 \<le> length ?f3" using 3(1) l2 by simp
  note 4 = ip_checksum[OF l3, folded fr']
  have s1: "ip_daddr ?f2 = ip_daddr fr" "ip_saddr ?f2 = ip_saddr fr"
    using 2(4)[where off = 30 and n = 4] 2(4)[where off = 26 and n = 4] 1(3)[of 30 4] 1(3)[of 26 4] b[of 30 4] b[of 26 4]
    by (simp_all add: ip_daddr_def ip_saddr_def)
  have s2: "ip_saddr fr' = ip_daddr fr" "ip_daddr fr' = ip_saddr fr"
    using 3(2,3) 4(3)[where off = 26 and n = 4] 4(3)[where off = 30 and n = 4] s1 by (simp_all add: ip_daddr_def ip_saddr_def)
  have i: "slice 34 k fr' = slice 34 k f1" for k
    using 4(3)[where off = 34 and n = k] 3(4)[where off = 34 and n = k] 2(4)[where off = 34 and n = k] by simp
  have t: "slice 34 1 fr' = [0]"
    using i[of 1] 1(3)[of 34 1] slice_put_at_same[of 34 "[0]" fr 1] assms(3) by simp
  have e: "slice off 6 fr' = slice off 6 ?f2" if "off \<le> 6" for off
    using 4(3)[where off = off and n = 6] 3(4)[where off = off and n = 6] that by simp
  have m: "ether_dhost fr' = ether_shost fr" "ether_shost fr' = ether_shost fr"
    using e[of 0] e[of 6] 2(1,2) 1(3)[of 6 6] b[of 6 6] by (simp_all add: ether_dhost_def ether_shost_def)
  show ?thesis using 4(1) 1(1) i[of ?n] t s2 m by simp
qed


definition demo_ping :: bytes where
  "demo_ping = [2, 0, 0, 0, 0, 1, 2, 0, 0, 0, 0, 9, 8, 0] @
     [0x45, 0, 0, 28, 0, 0, 0, 0, 64, 1, 0, 0, 10, 0, 0, 2, 10, 0, 0, 1] @ [8, 0, 0, 0, 0, 7, 0, 1]"

theorem ping_reply_addresses_witness:
  "\<exists>fr'. ping_reply demo_ping = Some fr' \<and> fold16 (sum_list (words_of (slice 14 20 fr'))) = 65535 \<and>
     ip_daddr fr' = [10, 0, 0, 2] \<and> ether_dhost fr' = [2, 0, 0, 0, 0, 9] \<and> ether_shost fr' = [2, 0, 0, 0, 0, 9]"
proof -
  have t: "unat (ip_tot_len demo_ping) = 28" "ip_saddr demo_ping = [10, 0, 0, 2]" "ether_shost demo_ping = [2, 0, 0, 0, 0, 9]"
    "38 \<le> length demo_ping" "length (put_at 34 [0] demo_ping) = 42"
    by (simp_all add: demo_ping_def ip_tot_len_def ip_saddr_def ether_shost_def slice_def u16_be_def u16_of_def put_at_def)
  have "unat (ucast (ip_tot_len demo_ping) - 20 :: u64) = 8"
    by (simp add: demo_ping_def ip_tot_len_def slice_def u16_be_def u16_of_def)
  moreover have "length (put_at 36 [0, 0] (put_at 34 [0] demo_ping)) = 42" using t(5) by (simp add: length_put_at)
  ultimately obtain fr' where p: "ping_reply demo_ping = Some fr'"
    by (simp add: ping_reply_def calculate_icmp_checksum_def Let_def)
  have "24 \<le> unat (ip_tot_len demo_ping)" using t(1) by simp
  from ping_reply_addresses[OF p this t(4)] show ?thesis using p t(2,3) by simp
qed

end
