(* ===== verification/Ethercat_Monitor.thy ===== *)
theory Ethercat_Monitor
  imports Prelude
begin

text \<open>
  \<^verbatim>\<open>src/linux/ethercat_monitor.c\<close>: the network interface of the kernel module that shows the frames
  of a bus to the tools of the system. The kernel is a parameter on the state \<open>'k\<close>. Left out: the
  interface's name, its addresses and the capabilities of the caller.
\<close>

record monitor_dev =
  mo_enabled :: bool
  mo_net_dev :: bool
  mo_flags :: u32
  mo_rx_packets :: u64
  mo_rx_bytes :: u64
  mo_rx_dropped :: u64
  mo_tx_packets :: u64
  mo_tx_bytes :: u64
  mo_tx_dropped :: u64

text \<open>
  The kernel: \<open>kn_alloc\<close> allocates a socket buffer and returns the room in it, \<open>kn_receive\<close> hands a
  frame to the network stack and says whether it was taken, \<open>kn_set_flags\<close> is \<^verbatim>\<open>devinet_ioctl\<close> with
  \<^verbatim>\<open>SIOCSIFFLAGS\<close>, which opens or closes the interface.
\<close>

record 'k kernel_net =
  kn_alloc :: "'k \<Rightarrow> nat option \<times> 'k"
  kn_receive :: "bytes \<Rightarrow> 'k \<Rightarrow> bool \<times> 'k"
  kn_set_flags :: "u32 \<Rightarrow> monitor_dev \<Rightarrow> 'k \<Rightarrow> int \<times> monitor_dev \<times> 'k"

definition IFF_UP :: u32 where "IFF_UP = 1"
definition IFF_RUNNING :: u32 where "IFF_RUNNING = 0x40"

definition ethercat_monitor_open :: "monitor_dev \<Rightarrow> monitor_dev" where
  "ethercat_monitor_open mo = mo\<lparr>mo_enabled := True\<rparr>"

definition ethercat_monitor_stop :: "monitor_dev \<Rightarrow> monitor_dev" where
  "ethercat_monitor_stop mo = mo\<lparr>mo_enabled := False\<rparr>"

definition ethercat_monitor_tx :: "monitor_dev \<Rightarrow> monitor_dev" where
  "ethercat_monitor_tx mo = mo\<lparr>mo_tx_dropped := mo_tx_dropped mo + 1\<rparr>"

text \<open>Received and sent packets, received and sent bytes, dropped ones.\<close>

definition ethercat_monitor_get_stats64 :: "monitor_dev \<Rightarrow> u64 list" where
  "ethercat_monitor_get_stats64 mo =
     [mo_rx_packets mo, mo_tx_packets mo, mo_rx_bytes mo, mo_tx_bytes mo, mo_tx_dropped mo, mo_rx_dropped mo]"

text \<open>\<open>alloc_ok\<close> and \<open>register_ok\<close>: whether the kernel could allocate and register the interface.\<close>

definition ethercat_monitor_create ::
  "('k, 'z) kernel_net_scheme \<Rightarrow> bool \<Rightarrow> bool \<Rightarrow> monitor_dev \<Rightarrow> 'k \<Rightarrow> int \<times> monitor_dev \<times> 'k" where
  "ethercat_monitor_create kn alloc_ok register_ok mo k =
     (let mo = mo\<lparr>mo_enabled := False, mo_net_dev := alloc_ok\<rparr>;
          (ret, mo, k) =
            (if \<not> alloc_ok then (- 1, mo, k)
             else (if register_ok then 0 else - 1,
                   snd (kn_set_flags kn (mo_flags mo AND NOT (IFF_UP OR IFF_RUNNING)) mo k)))
      in (ret, mo\<lparr>mo_rx_packets := 0, mo_rx_bytes := 0, mo_rx_dropped := 0,
                  mo_tx_packets := 0, mo_tx_bytes := 0, mo_tx_dropped := 0\<rparr>, k))"

definition ethercat_monitor_destroy :: "monitor_dev \<Rightarrow> monitor_dev" where
  "ethercat_monitor_destroy mo = (if mo_net_dev mo then mo\<lparr>mo_net_dev := False\<rparr> else mo)"

text \<open>\<^term>\<open>None\<close>: the frame does not fit into the socket buffer, \<^verbatim>\<open>skb_put\<close> stops the kernel.\<close>

definition ethercat_monitor_frame ::
  "('k, 'z) kernel_net_scheme \<Rightarrow> bytes \<Rightarrow> monitor_dev \<Rightarrow> 'k \<Rightarrow> (monitor_dev \<times> 'k) option" where
  "ethercat_monitor_frame kn data mo k =
     (if \<not> mo_enabled mo then Some (mo, k)
      else (case kn_alloc kn k of
              (None, k) \<Rightarrow> Some (mo\<lparr>mo_rx_dropped := mo_rx_dropped mo + 1\<rparr>, k)
            | (Some room, k) \<Rightarrow>
                if length data > room then None
                else (let mo = mo\<lparr>mo_rx_bytes := mo_rx_bytes mo + of_nat (length data),
                                  mo_rx_packets := mo_rx_packets mo + 1\<rparr>;
                          (taken, k) = kn_receive kn data k
                      in Some (if taken then mo else mo\<lparr>mo_rx_dropped := mo_rx_dropped mo + 1\<rparr>, k))))"

text \<open>\<^term>\<open>None\<close>: the interface does not exist and its null pointer is read.\<close>

definition ethercat_monitor_enable ::
  "('k, 'z) kernel_net_scheme \<Rightarrow> u32 \<Rightarrow> monitor_dev \<Rightarrow> 'k \<Rightarrow> (monitor_dev \<times> 'k) option" where
  "ethercat_monitor_enable kn enable mo k =
     (if \<not> mo_net_dev mo then None
      else Some (snd (kn_set_flags kn (if enable = 0 then mo_flags mo AND NOT (IFF_UP OR IFF_RUNNING)
                                       else mo_flags mo OR IFF_UP) mo k)))"

end
