(* ===== verification/Ethercat_Tun.thy ===== *)
theory Ethercat_Tun
  imports Ethercat_Monitor
begin

text \<open>
  \<^verbatim>\<open>src/linux/ethercat_tun.c\<close>: a network interface of the system and a character device whose reader
  gets the frames that are sent on the interface and whose writer puts frames into it. A socket
  buffer belongs to one frame here and is its bytes.
\<close>

text \<open>The pointer \<^verbatim>\<open>dev\<close>: not set yet, to a registered interface, or to one that was freed.\<close>

datatype tun_netdev = DevUnset | DevRegistered | DevFreed

record tun_dev =
  tn_cdev :: bool
  tn_dev :: tun_netdev
  tn_flags :: u32
  tn_started :: bool
  tn_rx :: "bytes list"
  tn_tx_packets :: u64
  tn_tx_bytes :: u64

definition tun_EFAULT :: int where "tun_EFAULT = 14"
definition tun_ENOMEM :: int where "tun_ENOMEM = 12"

text \<open>The result and the bytes for the reader; \<open>copy_ok\<close>: the kernel could write them.\<close>

definition ethercat_tun_chrdev_read :: "bool \<Rightarrow> nat \<Rightarrow> tun_dev \<Rightarrow> int \<times> bytes \<times> tun_dev" where
  "ethercat_tun_chrdev_read copy_ok len tun =
     (case tn_rx tun of
        [] \<Rightarrow> (0, [], tun)
      | skb # skbs \<Rightarrow>
          (let tun = tun\<lparr>tn_rx := skbs\<rparr>; len = min len (length skb)
           in if copy_ok then (int len, take len skb, tun) else (- tun_EFAULT, [], tun)))"

text \<open>The result and what the network stack receives.\<close>

definition ethercat_tun_chrdev_write :: "bool \<Rightarrow> bool \<Rightarrow> bytes \<Rightarrow> int \<times> bytes list" where
  "ethercat_tun_chrdev_write alloc_ok copy_ok buf =
     (if \<not> alloc_ok then (- tun_ENOMEM, [])
      else if \<not> copy_ok then (- tun_EFAULT, [])
      else (int (length buf), [buf]))"

definition ethercat_tun_chrdev_poll :: "tun_dev \<Rightarrow> bool" where
  "ethercat_tun_chrdev_poll tun \<longleftrightarrow> tn_rx tun \<noteq> []"

definition tun_open :: "tun_dev \<Rightarrow> tun_dev" where "tun_open tun = tun\<lparr>tn_started := True\<rparr>"
definition tun_stop :: "tun_dev \<Rightarrow> tun_dev" where "tun_stop tun = tun\<lparr>tn_started := False\<rparr>"

definition tun_start_xmit :: "bytes \<Rightarrow> tun_dev \<Rightarrow> tun_dev" where
  "tun_start_xmit skb tun =
     tun\<lparr>tn_rx := tn_rx tun @ [skb], tn_tx_packets := tn_tx_packets tun + 1,
         tn_tx_bytes := tn_tx_bytes tun + of_nat (length skb)\<rparr>"

text \<open>
  The results of the kernel's functions are arguments, in the order of the calls: \<open>cdev_err\<close> of
  \<^verbatim>\<open>cdev_add\<close>, \<open>alloc_ok\<close> of \<^verbatim>\<open>alloc_netdev\<close>, \<open>register_err\<close> of \<^verbatim>\<open>register_netdev\<close>, \<open>addr_err\<close> and
  \<open>mask_err\<close> of setting the address and its mask; \<open>up\<close> brings the interface up and opens it.
\<close>

definition ethercat_tun_device_create ::
  "int \<Rightarrow> bool \<Rightarrow> int \<Rightarrow> int \<Rightarrow> int \<Rightarrow> (u32 \<Rightarrow> tun_dev \<Rightarrow> int \<times> tun_dev) \<Rightarrow> tun_dev \<Rightarrow> int \<times> tun_dev" where
  "ethercat_tun_device_create cdev_err alloc_ok register_err addr_err mask_err up tun =
     (if cdev_err \<noteq> 0 then (cdev_err, tun)
      else let tun = tun\<lparr>tn_cdev := True\<rparr> in
      if \<not> alloc_ok then (- tun_ENOMEM, tun)
      else let tun = tun\<lparr>tn_rx := [], tn_tx_packets := 0, tn_tx_bytes := 0\<rparr> in
      if register_err \<noteq> 0 then (register_err, tun\<lparr>tn_dev := DevFreed\<rparr>)
      else let tun = tun\<lparr>tn_dev := DevRegistered\<rparr> in
      if addr_err \<noteq> 0 then (addr_err, tun\<lparr>tn_dev := DevFreed\<rparr>)
      else if mask_err \<noteq> 0 then (mask_err, tun\<lparr>tn_dev := DevFreed\<rparr>)
      else (let (err, tun) = up (tn_flags tun OR IFF_UP) tun
            in if err \<noteq> 0 then (err, tun\<lparr>tn_dev := DevFreed\<rparr>) else (0, tun)))"

text \<open>\<^term>\<open>None\<close>: a pointer that is not set or whose interface was freed is unregistered.\<close>

definition ethercat_tun_device_destroy :: "tun_dev \<Rightarrow> tun_dev option" where
  "ethercat_tun_device_destroy tun =
     (if tn_dev tun = DevRegistered then Some (tun\<lparr>tn_cdev := False, tn_dev := DevFreed\<rparr>)
      else None)"

end
