(* ===== verification/Ethercat_Device.thy ===== *)
theory Ethercat_Device
  imports Ethercat_Tun "HOL-Library.Multiset" "HOL-Library.Monad_Syntax"
begin

text \<open>
  \<^verbatim>\<open>src/linux/ethercat_device.c\<close>: the character device of the kernel module, between a network
  driver and the file back end of the library. A socket buffer (\<^verbatim>\<open>struct sk_buff\<close>) is a number;
  its length and data are in the device. The network driver and the kernel are a parameter on the
  state \<open>'n\<close>; what the driver calls back is in the results of its functions. The spin lock is
  transparent. Left out: the module's start, and \<^verbatim>\<open>struct cdev\<close>.
\<close>

section \<open>State\<close>

text \<open>\<open>ed_running\<close> is the bit \<^verbatim>\<open>__LINK_STATE_START\<close> of the network device (\<^verbatim>\<open>netif_running\<close>).\<close>

record 'n ecat_device =
  ed_free :: "nat list"
  ed_rx :: "nat list"
  ed_skb_len :: "nat \<Rightarrow> nat"
  ed_skb_data :: "nat \<Rightarrow> bytes"
  ed_link_state :: bool
  ed_running :: bool
  ed_poll_mask :: bool
  ed_polling :: bool
  ed_rx_timeout_ns :: u64
  ed_monitor :: monitor_dev
  ed_tun :: tun_dev
  ed_net :: 'n

text \<open>What a network driver does from its interrupt: its calls into the device.\<close>

datatype net_event = Sent_finished nat | Received bytes | Set_link bool

text \<open>
  The network driver: \<open>nd_xmit\<close> takes a buffer (if it returns \<^verbatim>\<open>NETDEV_TX_OK\<close>), \<open>nd_poll_tx\<close> returns
  those that were sent, \<open>nd_poll_rx\<close> the frames that were received, each with the result of the
  ioctl; \<open>nd_time\<close> is the clock, \<open>nd_irq\<close> an interrupt. \<open>nd_wait\<close> is what happens until the wait for
  a frame ends, and whether it was interrupted.
\<close>

record 'n net_driver = "'n kernel_net" +
  nd_xmit :: "nat \<Rightarrow> bytes \<Rightarrow> 'n \<Rightarrow> bool \<times> 'n"
  nd_poll_tx :: "'n \<Rightarrow> nat list \<times> int \<times> 'n"
  nd_poll_rx :: "'n \<Rightarrow> bytes list \<times> int \<times> 'n"
  nd_get_polling :: "'n \<Rightarrow> int"
  nd_set_polling :: "bool \<Rightarrow> 'n \<Rightarrow> 'n"
  nd_set_usecs :: "bool \<Rightarrow> u32 \<Rightarrow> 'n \<Rightarrow> 'n"
  nd_time :: "'n \<Rightarrow> u64 \<times> 'n"
  nd_irq :: "'n \<Rightarrow> net_event list \<times> 'n"
  nd_wait :: "'n \<Rightarrow> net_event list \<times> bool \<times> 'n"

definition ETH_FRAME_LEN :: nat where "ETH_FRAME_LEN = 1514"
definition ETH_FRAME_LEN_PAGE_SIZE :: nat where "ETH_FRAME_LEN_PAGE_SIZE = 4096"

definition ENOMEM :: int where "ENOMEM = 12"
definition EFAULT :: int where "EFAULT = 14"
definition EBUSY :: int where "EBUSY = 16"
definition EINVAL :: int where "EINVAL = 22"
definition ENETDOWN :: int where "ENETDOWN = 100"
definition ETIMEDOUT :: int where "ETIMEDOUT = 110"

section \<open>Buffers\<close>

definition queue_free :: "nat \<Rightarrow> 'n ecat_device \<Rightarrow> 'n ecat_device" where
  "queue_free skb d = d\<lparr>ed_skb_len := (ed_skb_len d)(skb := 0), ed_free := ed_free d @ [skb]\<rparr>"

definition dequeue_free :: "'n ecat_device \<Rightarrow> nat option \<times> 'n ecat_device" where
  "dequeue_free d = (case ed_free d of [] \<Rightarrow> (None, d) | s # ss \<Rightarrow> (Some s, d\<lparr>ed_free := ss\<rparr>))"

definition dequeue_rx :: "'n ecat_device \<Rightarrow> nat option \<times> 'n ecat_device" where
  "dequeue_rx d = (case ed_rx d of [] \<Rightarrow> (None, d) | s # ss \<Rightarrow> (Some s, d\<lparr>ed_rx := ss\<rparr>))"

text \<open>
  The buffers of the device: \<open>skb_ok i\<close> says whether the \<open>i\<close>-th one could be allocated, and the result
  whether all were.
\<close>

fun alloc_buffers :: "(nat \<Rightarrow> bool) \<Rightarrow> nat \<Rightarrow> nat \<Rightarrow> 'n ecat_device \<Rightarrow> bool \<times> 'n ecat_device" where
  "alloc_buffers skb_ok i 0 d = (True, d)"
| "alloc_buffers skb_ok i (Suc k) d =
     (if skb_ok i then alloc_buffers skb_ok (Suc i) k (queue_free i d) else (False, d))"

text \<open>
  \<open>d\<close> is the memory that \<^verbatim>\<open>kmalloc\<close> returned, with what it contained, and \<open>ndo_open\<close> opens the network
  device. The result: the buffers that were given back and the device, or \<^term>\<open>None\<close> for the null
  pointer. The outer \<^term>\<open>None\<close>: the queue of free buffers is emptied before it was initialised.
\<close>

definition ethercat_device_create ::
  "('n, 'z) net_driver_scheme \<Rightarrow> bool \<Rightarrow> bool \<Rightarrow> (nat \<Rightarrow> bool) \<Rightarrow> nat \<Rightarrow> ('n \<Rightarrow> 'n) \<Rightarrow> bool \<Rightarrow> bool \<Rightarrow>
     (tun_dev \<Rightarrow> tun_dev) \<Rightarrow> 'n ecat_device \<Rightarrow> (nat list \<times> 'n ecat_device option) option" where
  "ethercat_device_create drv kmalloc_ok cdev_ok skb_ok ecat_skb_buffers ndo_open mon_alloc mon_register tun_create d =
     (if \<not> kmalloc_ok then Some ([], None)
      else let d = d\<lparr>ed_link_state := False\<rparr> in
      if \<not> cdev_ok then None
      else (let (all, d) = alloc_buffers skb_ok 0 ecat_skb_buffers (d\<lparr>ed_rx := [], ed_free := []\<rparr>)
            in if \<not> all then Some (ed_free d, None)
               else (let n = ndo_open (ed_net d);
                         (_, mo, n) = ethercat_monitor_create drv mon_alloc mon_register (ed_monitor d) n
                     in Some ([], Some (d\<lparr>ed_net := n, ed_monitor := mo, ed_tun := tun_create (ed_tun d)\<rparr>)))))"

text \<open>The buffers that are given back to the kernel, and what is left in the queues.\<close>

definition ethercat_device_destroy ::
  "('n \<Rightarrow> 'n) \<Rightarrow> 'n ecat_device \<Rightarrow> (nat list \<times> 'n ecat_device) option" where
  "ethercat_device_destroy ndo_stop d =
     map_option
       (\<lambda>tun. (ed_rx d @ ed_free d,
               d\<lparr>ed_tun := tun, ed_monitor := ethercat_monitor_destroy (ed_monitor d),
                 ed_net := ndo_stop (ed_net d), ed_rx := [], ed_free := []\<rparr>))
       (ethercat_tun_device_destroy (ed_tun d))"

definition ethercat_device_set_link :: "bool \<Rightarrow> 'n ecat_device \<Rightarrow> 'n ecat_device" where
  "ethercat_device_set_link link d =
     (if ed_link_state d \<noteq> link then d\<lparr>ed_running := link, ed_link_state := link\<rparr> else d)"

definition ethercat_device_sent_finished :: "nat \<Rightarrow> 'n ecat_device \<Rightarrow> 'n ecat_device" where
  "ethercat_device_sent_finished skb d = queue_free skb d"

text \<open>\<^verbatim>\<open>ETHERCAT_DEVICE_NET_DEVICE_DO_POLL_TX\<close>: the driver returns the buffers that were sent.\<close>

definition poll_tx :: "('n, 'z) net_driver_scheme \<Rightarrow> 'n ecat_device \<Rightarrow> int \<times> 'n ecat_device" where
  "poll_tx drv d =
     (let (sent, ret, n) = nd_poll_tx drv (ed_net d)
      in (ret, fold ethercat_device_sent_finished sent (d\<lparr>ed_net := n\<rparr>)))"

text \<open>A copy of a frame for the monitor.\<close>

definition monitor_frame ::
  "('n, 'z) net_driver_scheme \<Rightarrow> bytes \<Rightarrow> 'n ecat_device \<Rightarrow> 'n ecat_device option" where
  "monitor_frame drv data d =
     map_option (\<lambda>(mo, n). d\<lparr>ed_monitor := mo, ed_net := n\<rparr>)
       (ethercat_monitor_frame drv data (ed_monitor d) (ed_net d))"

section \<open>Receiving\<close>

text \<open>\<^term>\<open>None\<close> is a frame that does not fit into a buffer.\<close>

definition ethercat_device_receive :: "('n, 'z) net_driver_scheme \<Rightarrow> bytes \<Rightarrow> 'n ecat_device \<Rightarrow> 'n ecat_device option" where
  "ethercat_device_receive drv data d =
     (let (skb, d) = dequeue_free d;
          (skb, d) = (if skb = None \<and> ed_polling d then dequeue_free (snd (poll_tx drv d)) else (skb, d))
      in case skb of
           None \<Rightarrow> monitor_frame drv data d
         | Some s \<Rightarrow>
             if length data > ETH_FRAME_LEN_PAGE_SIZE then None
             else (let d = d\<lparr>ed_skb_len := (ed_skb_len d)(s := length data),
                             ed_skb_data := (ed_skb_data d)(s := put_at 0 data (ed_skb_data d s)),
                             ed_rx := ed_rx d @ [s]\<rparr>
                   in monitor_frame drv data (if ed_polling d then d else d\<lparr>ed_poll_mask := True\<rparr>)))"

text \<open>The calls of a driver, one after the other.\<close>

fun run_event :: "('n, 'z) net_driver_scheme \<Rightarrow> net_event \<Rightarrow> 'n ecat_device \<Rightarrow> 'n ecat_device option" where
  "run_event drv (Sent_finished s) d = Some (ethercat_device_sent_finished s d)"
| "run_event drv (Received f) d = ethercat_device_receive drv f d"
| "run_event drv (Set_link l) d = Some (ethercat_device_set_link l d)"

fun run_events :: "('n, 'z) net_driver_scheme \<Rightarrow> net_event list \<Rightarrow> 'n ecat_device \<Rightarrow> 'n ecat_device option" where
  "run_events drv [] d = Some d"
| "run_events drv (e # es) d = Option.bind (run_event drv e d) (run_events drv es)"

definition net_irq :: "('n, 'z) net_driver_scheme \<Rightarrow> 'n ecat_device \<Rightarrow> 'n ecat_device option" where
  "net_irq drv d = (let (es, n) = nd_irq drv (ed_net d) in run_events drv es (d\<lparr>ed_net := n\<rparr>))"

text \<open>\<^verbatim>\<open>ETHERCAT_DEVICE_NET_DEVICE_DO_POLL_RX\<close>: the driver hands over the frames it has received.\<close>

definition poll_rx :: "('n, 'z) net_driver_scheme \<Rightarrow> 'n ecat_device \<Rightarrow> (int \<times> 'n ecat_device) option" where
  "poll_rx drv d =
     (let (frames, ret, n) = nd_poll_rx drv (ed_net d)
      in map_option (\<lambda>d. (ret, d)) (run_events drv (map Received frames) (d\<lparr>ed_net := n\<rparr>)))"

section \<open>Opening\<close>

definition poll_rx_body :: "('n, 'z) net_driver_scheme \<Rightarrow> 'n ecat_device \<Rightarrow> 'n ecat_device + 'n ecat_device option" where
  "poll_rx_body drv d =
     (case poll_rx drv d of None \<Rightarrow> Inr None | Some (ret, d) \<Rightarrow> if ret \<noteq> 0 then Inl d else Inr (Some d))"

definition poll_tx_body :: "('n, 'z) net_driver_scheme \<Rightarrow> 'n ecat_device \<Rightarrow> 'n ecat_device + 'n ecat_device" where
  "poll_tx_body drv d = (let (ret, d) = poll_tx drv d in if ret \<noteq> 0 then Inl d else Inr d)"

definition ethercat_device_open :: "('n, 'z) net_driver_scheme \<Rightarrow> nat \<Rightarrow> 'n ecat_device \<Rightarrow> (int \<times> 'n ecat_device) option" where
  "ethercat_device_open drv fuel d = do {
     let d = d\<lparr>ed_polling := nd_get_polling drv (ed_net d) > 0\<rparr>;
     d \<leftarrow> (if ed_polling d then Option.bind (loop fuel (poll_rx_body drv) d) id else Some d);
     let d = fold queue_free (ed_rx d) (d\<lparr>ed_rx := []\<rparr>);
     d \<leftarrow> (if ed_polling d then loop fuel (poll_tx_body drv) d else Some d);
     Some (0, d\<lparr>ed_rx_timeout_ns := 1000000\<rparr>) }"

section \<open>Reading\<close>

text \<open>The loop of the polling mode.\<close>

definition read_poll_body ::
  "('n, 'z) net_driver_scheme \<Rightarrow> bool \<Rightarrow> u64 \<Rightarrow> 'n ecat_device \<Rightarrow> 'n ecat_device + (nat option \<times> 'n ecat_device) option" where
  "read_poll_body drv nonblock start_ns d =
     (case poll_rx drv (snd (poll_tx drv d)) of
        None \<Rightarrow> Inr None
      | Some (_, d) \<Rightarrow>
          (let (skb, d) = dequeue_rx d;
               (now, n) = nd_time drv (ed_net d);
               d = d\<lparr>ed_net := n\<rparr>
           in if now - start_ns \<ge> ed_rx_timeout_ns d \<or> nonblock \<or> skb \<noteq> None then Inr (Some (skb, d)) else Inl d))"

text \<open>A frame for the reader, if there is one: polled for, or waited for at most a second.\<close>

definition read_frame ::
  "('n, 'z) net_driver_scheme \<Rightarrow> nat \<Rightarrow> bool \<Rightarrow> 'n ecat_device \<Rightarrow> (int \<times> nat option \<times> 'n ecat_device) option" where
  "read_frame drv fuel nonblock d =
     (case dequeue_rx d of
        (Some s, d) \<Rightarrow> Some (0, Some s, d)
      | (None, d) \<Rightarrow>
          if ed_polling d
          then (let (start_ns, n) = nd_time drv (ed_net d)
                in map_option (\<lambda>(skb, d). (- ETIMEDOUT, skb, d))
                     (Option.bind (loop fuel (read_poll_body drv nonblock start_ns) (d\<lparr>ed_net := n\<rparr>)) id))
          else (let (es, interrupted, n) = nd_wait drv (ed_net d)
                in map_option
                     (\<lambda>d. if ed_rx d \<noteq> [] \<or> interrupted then (0, dequeue_rx d) else (0, None, d))
                     (run_events drv es (d\<lparr>ed_net := n\<rparr>))))"

text \<open>
  The reader's buffer of \<open>len\<close> bytes: the result and the bytes written to it. \<open>access_ok\<close> and
  \<open>copy_ok\<close> say whether the kernel may use the buffer.
\<close>

definition ethercat_device_read ::
  "('n, 'z) net_driver_scheme \<Rightarrow> nat \<Rightarrow> bool \<Rightarrow> bool \<Rightarrow> bool \<Rightarrow> nat \<Rightarrow> 'n ecat_device \<Rightarrow> (int \<times> bytes \<times> 'n ecat_device) option" where
  "ethercat_device_read drv fuel nonblock access_ok copy_ok len d =
     (if \<not> ed_running d then Some (- ENETDOWN, [], d)
      else if \<not> access_ok then Some (- EFAULT, [], d)
      else do {
        (copy_len, skb, d) \<leftarrow> read_frame drv fuel nonblock d;
        (case skb of
           None \<Rightarrow> Some (copy_len, [], d)
         | Some s \<Rightarrow>
             let n = min len (ed_skb_len d s)
             in if copy_ok then Some (int n, take n (ed_skb_data d s), queue_free s d)
                else Some (- EFAULT, [], queue_free s d)) })"

section \<open>Writing\<close>

definition ethercat_device_write ::
  "('n, 'z) net_driver_scheme \<Rightarrow> bool \<Rightarrow> bool \<Rightarrow> bytes \<Rightarrow> 'n ecat_device \<Rightarrow> (int \<times> 'n ecat_device) option" where
  "ethercat_device_write drv access_ok copy_ok buff d =
     (if \<not> ed_running d then Some (- ENETDOWN, d)
      else if \<not> access_ok then Some (- EFAULT, d)
      else if length buff > ETH_FRAME_LEN then Some (- EINVAL, d)
      else (case dequeue_free d of
              (None, d) \<Rightarrow> Some (- ENOMEM, d)
            | (Some s, d) \<Rightarrow>
                (let len = length buff;
                     d = d\<lparr>ed_skb_len := (ed_skb_len d)(s := len)\<rparr>
                 in if \<not> copy_ok then Some (- EFAULT, queue_free s d)
                    else do {
                      let d = d\<lparr>ed_skb_data := (ed_skb_data d)(s := put_at 0 buff (ed_skb_data d s))\<rparr>;
                      let (sent, n) = nd_xmit drv s (take len (ed_skb_data d s)) (ed_net d);
                      d \<leftarrow> monitor_frame drv (take len (ed_skb_data d s)) (d\<lparr>ed_net := n\<rparr>);
                      let d = (if ed_polling d then snd (poll_tx drv d) else d);
                      Some (if sent then (int len, d) else (- EBUSY, queue_free s d)) })))"

section \<open>Control\<close>

datatype ecat_ioctl =
    MONITOR_ENABLE u32
  | SET_POLLING_RX_TIMEOUT u64
  | SET_POLLING u32
  | GET_POLLING
  | GET_LINK_STATE
  | SET_RX_USECS u32
  | SET_TX_USECS u32
  | OtherIoctl

text \<open>
  The result, and the value that is copied to the caller. \<open>copy_ok\<close>: the kernel could read or write
  the caller's memory.
\<close>

definition ethercat_device_unlocked_ioctl ::
  "('n, 'z) net_driver_scheme \<Rightarrow> bool \<Rightarrow> ecat_ioctl \<Rightarrow> 'n ecat_device \<Rightarrow>
     (int \<times> nat option \<times> 'n ecat_device) option" where
  "ethercat_device_unlocked_ioctl drv copy_ok num d =
     (if \<not> copy_ok \<and> num \<noteq> OtherIoctl then Some (- EFAULT, None, d)
      else (case num of
        MONITOR_ENABLE enable \<Rightarrow>
          map_option (\<lambda>(mo, n). (0, None, d\<lparr>ed_monitor := mo, ed_net := n\<rparr>))
            (ethercat_monitor_enable drv enable (ed_monitor d) (ed_net d))
      | SET_POLLING_RX_TIMEOUT t \<Rightarrow> Some (0, None, d\<lparr>ed_rx_timeout_ns := t\<rparr>)
      | SET_POLLING set_polling \<Rightarrow>
          (let n = nd_set_polling drv (set_polling \<noteq> 0) (ed_net d)
           in Some (0, None, d\<lparr>ed_net := n, ed_polling := nd_get_polling drv n > 0\<rparr>))
      | GET_POLLING \<Rightarrow> Some (0, Some (of_bool (ed_polling d)), d)
      | GET_LINK_STATE \<Rightarrow> Some (0, Some (of_bool (ed_link_state d)), d)
      | SET_RX_USECS u \<Rightarrow> Some (0, None, d\<lparr>ed_net := nd_set_usecs drv True u (ed_net d)\<rparr>)
      | SET_TX_USECS u \<Rightarrow> Some (0, None, d\<lparr>ed_net := nd_set_usecs drv False u (ed_net d)\<rparr>)
      | OtherIoctl \<Rightarrow> Some (0, None, d)))"

end
