(* ===== verification/Hw_File.thy ===== *)
theory Hw_File
  imports Hw_Frames Async_Queue Ethercat_Device
begin

text \<open>
  \<^verbatim>\<open>src/hw_file.c\<close>: the device of the library over the character device of the kernel module. The
  open file is the device of \<open>Ethercat_Device\<close>, so that a system call is its operation; an error of
  the kernel is \<open>- 1\<close>. Times are looked up in the kernel's clock, and \<open>tm\<close> are the timers of
  \<^verbatim>\<open>libosal\<close>. Left out: logging, the measured durations, and the priority of the receive thread.
\<close>

section \<open>State\<close>

record 'n hw_file =
  hf_dev :: "'n ecat_device"
  hf_open :: bool
  hf_nonblock :: bool
  hf_send_frame :: bytes
  hf_recv_frame :: bytes
  hf_polling_mode :: bool
  hf_rxthreadrunning :: bool
  hf_frames_send :: int
  hf_rx_timeout_ns :: u64
  hf_last_pool_type :: pooltype
  hf_bytes_sent :: int
  hf_bytes_last_sent :: int
  hf_exited :: bool

definition EC_ERROR_HW_NOT_SUPPORTED :: int where "EC_ERROR_HW_NOT_SUPPORTED = 0x00080001"
definition EC_ERROR_HW_NO_INTERFACE :: int where "EC_ERROR_HW_NO_INTERFACE = 0x00080002"
definition EC_ERROR_HW_NO_LINK :: int where "EC_ERROR_HW_NO_LINK = 0x00080004"

text \<open>A look at the clock.\<close>

definition hf_time :: "('n, 'z) net_driver_scheme \<Rightarrow> 'n hw_file \<Rightarrow> nat \<times> 'n hw_file" where
  "hf_time drv hf =
     (let (now, n) = nd_time drv (ed_net (hf_dev hf)) in (unat now, hf\<lparr>hf_dev := (hf_dev hf)\<lparr>ed_net := n\<rparr>\<rparr>))"

section \<open>Options\<close>

record file_options =
  fo_rx_timeout_ns :: u64
  fo_link_timeout_sec :: u64
  fo_rx_usecs :: u64
  fo_tx_usecs :: u64
  fo_monitor :: bool
  fo_polling :: bool
  fo_nonblock :: bool

text \<open>\<^verbatim>\<open>strtoull\<close> with the base 10: spaces, a sign, digits; too large a number is the largest one.\<close>

fun digits_value :: "string \<Rightarrow> nat \<Rightarrow> nat" where
  "digits_value [] v = v"
| "digits_value (c # s) v =
     (if 48 \<le> (of_char c :: nat) \<and> (of_char c :: nat) \<le> 57 then digits_value s (10 * v + (of_char c - 48)) else v)"

definition strtoull :: "string \<Rightarrow> u64" where
  "strtoull s =
     (let s = dropWhile (\<lambda>c. (of_char c :: nat) = 32 \<or> 9 \<le> (of_char c :: nat) \<and> (of_char c :: nat) \<le> 13) s;
          neg = (take 1 s = ''-'');
          v = digits_value (if neg \<or> take 1 s = ''+'' then tl s else s) 0
      in if v \<ge> 2 ^ 64 then - 1 else if neg then - of_nat v else of_nat v)"

text \<open>Splitting at the first \<open>c\<close>: \<^verbatim>\<open>strchr\<close> and the null byte that is written there.\<close>

definition cut_at :: "char \<Rightarrow> string \<Rightarrow> string \<times> string option" where
  "cut_at c s = (takeWhile (\<lambda>x. x \<noteq> c) s, case dropWhile (\<lambda>x. x \<noteq> c) s of [] \<Rightarrow> None | _ # r \<Rightarrow> Some r)"

definition file_option :: "string \<Rightarrow> file_options \<Rightarrow> file_options" where
  "file_option act fo =
     (case cut_at CHR ''='' act of
        (act, Some v) \<Rightarrow>
          if act = ''rx_timeout_nsec'' then fo\<lparr>fo_rx_timeout_ns := strtoull v\<rparr>
          else if act = ''link_timeout_sec'' then fo\<lparr>fo_link_timeout_sec := strtoull v\<rparr>
          else if act = ''rx_usecs'' then fo\<lparr>fo_rx_usecs := strtoull v\<rparr>
          else if act = ''tx_usecs'' then fo\<lparr>fo_tx_usecs := strtoull v\<rparr>
          else fo
      | (act, None) \<Rightarrow>
          if act = ''polling'' then fo\<lparr>fo_polling := True\<rparr>
          else if act = ''blocking'' then fo\<lparr>fo_nonblock := False\<rparr>
          else if act = ''monitor'' then fo\<lparr>fo_monitor := True\<rparr>
          else fo)"

lemma cut_at_shorter: "cut_at c s = (a, Some r) \<Longrightarrow> length r < length s"
proof -
  assume "cut_at c s = (a, Some r)"
  then obtain x where "dropWhile (\<lambda>x. x \<noteq> c) s = x # r" by (auto simp: cut_at_def split: list.splits)
  then show ?thesis using length_dropWhile_le[of "\<lambda>x. x \<noteq> c" s] by simp
qed

function file_options_from :: "string \<Rightarrow> file_options \<Rightarrow> file_options" where
  "file_options_from act fo =
     (case cut_at CHR '':'' act of
        (act, None) \<Rightarrow> file_option act fo
      | (act, Some next) \<Rightarrow>
          let fo = file_option act fo
          in if take 1 next \<noteq> ''0'' then file_options_from next fo else fo)"
  by pat_completeness auto
termination
  by (relation "measure (length \<circ> fst)") (auto dest: cut_at_shorter[OF sym])

text \<open>The name of the file and the options.\<close>

definition file_devname :: "string \<Rightarrow> bool \<Rightarrow> string \<times> file_options" where
  "file_devname devname polling_mode =
     (let fo = \<lparr>fo_rx_timeout_ns = 100000000, fo_link_timeout_sec = 5, fo_rx_usecs = 0, fo_tx_usecs = 0,
                fo_monitor = False, fo_polling = polling_mode, fo_nonblock = True\<rparr>
      in case cut_at CHR '':'' devname of
           (name, None) \<Rightarrow> (name, fo)
         | (name, Some opts) \<Rightarrow> (name, file_options_from opts fo))"

section \<open>Opening and closing\<close>

text \<open>\<^verbatim>\<open>ioctl\<close> on the open file; the memory of the caller is valid.\<close>

definition hf_ioctl ::
  "('n, 'z) net_driver_scheme \<Rightarrow> ecat_ioctl \<Rightarrow> 'n hw_file \<Rightarrow> (int \<times> nat option \<times> 'n hw_file) option" where
  "hf_ioctl drv num hf =
     (if \<not> hf_open hf then Some (- 1, None, hf)
      else map_option (\<lambda>(r, v, d). (if r < 0 then - 1 else r, v, hf\<lparr>hf_dev := d\<rparr>))
             (ethercat_device_unlocked_ioctl drv True num (hf_dev hf)))"

text \<open>A round of waiting for the link; while it sleeps the driver has interrupts.\<close>

definition link_body ::
  "('n, 'z) net_driver_scheme \<Rightarrow> osal_timers \<Rightarrow> nat \<Rightarrow> 'n hw_file \<Rightarrow> 'n hw_file + (int \<times> 'n hw_file) option" where
  "link_body drv tm timeout hf =
     (let (now, hf) = hf_time drv hf
      in if tm_expired tm now timeout then Inr (Some (EC_ERROR_HW_NO_LINK, hf))
         else (case hf_ioctl drv GET_LINK_STATE hf of
                 None \<Rightarrow> Inr None
               | Some (r, v, hf) \<Rightarrow>
                   if r \<ge> 0 \<and> v \<noteq> Some 0 then Inr (Some (EC_OK, hf))
                   else (case net_irq drv (hf_dev hf) of
                           None \<Rightarrow> Inr None
                         | Some d \<Rightarrow> Inl (hf\<lparr>hf_dev := d\<rparr>))))"

text \<open>\<open>kopen\<close>: whether the file exists and may be opened.\<close>

definition file_connect ::
  "('n, 'z) net_driver_scheme \<Rightarrow> osal_timers \<Rightarrow> nat \<Rightarrow> bool \<Rightarrow> u64 \<Rightarrow> 'n hw_file \<Rightarrow> (int \<times> 'n hw_file) option" where
  "file_connect drv tm fuel kopen link_timeout_sec hf =
     (if \<not> kopen then Some (EC_ERROR_HW_NO_INTERFACE, hf\<lparr>hf_open := False\<rparr>)
      else do {
        (_, d) \<leftarrow> ethercat_device_open drv fuel (hf_dev hf);
        (_, _, hf) \<leftarrow> hf_ioctl drv (SET_POLLING (of_bool (hf_polling_mode hf))) (hf\<lparr>hf_dev := d, hf_open := True\<rparr>);
        let (now, hf) = hf_time drv hf;
        Option.bind (loop fuel (link_body drv tm (tm_init tm now (unat (link_timeout_sec * 1000000000)))) hf) id })"

definition file_setup ::
  "('n, 'z) net_driver_scheme \<Rightarrow> bool \<Rightarrow> 'n hw_file \<Rightarrow> 'n hw_file option" where
  "file_setup drv monitor hf = do {
     let f = put_at 0 [0xFF, 0xFF, 0xFF, 0xFF, 0xFF, 0xFF] (hf_send_frame hf);
     let f = put_at 6 [0x00, 0x30, 0x64, 0x0F, 0x83, 0x35] f;
     (r, pollval, hf) \<leftarrow> hf_ioctl drv GET_POLLING (hf\<lparr>hf_send_frame := f\<rparr>);
     let hf = (if r \<ge> 0 then hf\<lparr>hf_polling_mode := (pollval \<noteq> Some 0)\<rparr> else hf);
     (_, _, hf) \<leftarrow> hf_ioctl drv (MONITOR_ENABLE (of_bool monitor)) hf;
     Some hf }"

definition hw_device_file_open ::
  "('n, 'z) net_driver_scheme \<Rightarrow> osal \<Rightarrow> osal_timers \<Rightarrow> nat \<Rightarrow> bool \<Rightarrow> string \<Rightarrow> 'c hw_common \<Rightarrow> 'n hw_file \<Rightarrow>
     (int \<times> 'c hw_common \<times> 'n hw_file) option" where
  "hw_device_file_open drv os tm fuel kopen devname hw hf = do {
     let hw = snd (hw_open os hw);
     let (name, fo) = file_devname devname (hf_polling_mode hf);
     let hf = hf\<lparr>hf_rx_timeout_ns := fo_rx_timeout_ns fo, hf_polling_mode := fo_polling fo,
                 hf_nonblock := fo_nonblock fo\<rparr>;
     (ret, hf) \<leftarrow> file_connect drv tm fuel kopen (fo_link_timeout_sec fo) hf;
     let hw = (if ret = EC_OK then hw\<lparr>hw_mtu_size := 1480\<rparr> else hw);
     hf \<leftarrow> (if ret = EC_OK then file_setup drv (fo_monitor fo) hf else Some hf);
     (_, _, hf) \<leftarrow> hf_ioctl drv (SET_RX_USECS (ucast (fo_rx_usecs fo))) hf;
     (_, _, hf) \<leftarrow> hf_ioctl drv (SET_TX_USECS (ucast (fo_tx_usecs fo))) hf;
     let hf = (if ret = EC_OK \<and> \<not> hf_polling_mode hf then hf\<lparr>hf_rxthreadrunning := True\<rparr> else hf);
     let hf = (if ret \<noteq> EC_OK then hf\<lparr>hf_open := False\<rparr> else hf);
     Some (ret, hw, hf\<lparr>hf_frames_send := 0\<rparr>) }"

definition hw_device_file_close :: "'n hw_file \<Rightarrow> 'n hw_file" where
  "hw_device_file_close hf =
     (if hf_polling_mode hf then hf else hf\<lparr>hf_rxthreadrunning := False\<rparr>)\<lparr>hf_open := False\<rparr>"

section \<open>Receiving\<close>

text \<open>
  The state of the callbacks is \<open>'w\<close>. A round reads a frame and processes it, until one has a
  datagram that was waited for or there is nothing to read.
\<close>

definition file_recv_body ::
  "('n, 'z) net_driver_scheme \<Rightarrow> nat \<Rightarrow> ('c \<Rightarrow> nat \<Rightarrow> bytes \<Rightarrow> 'c hw_common \<times> 'w \<Rightarrow> 'c hw_common \<times> 'w) \<Rightarrow>
     'n hw_file \<times> 'c hw_common \<times> 'w \<Rightarrow>
     ('n hw_file \<times> 'c hw_common \<times> 'w) + (bool \<times> 'n hw_file \<times> 'c hw_common \<times> 'w) option" where
  "file_recv_body drv fuel cb = (\<lambda>(hf, s).
     (case ethercat_device_read drv fuel (hf_nonblock hf) True True EC_ETH_FRAME_LEN (hf_dev hf) of
        None \<Rightarrow> Inr None
      | Some (bytesrx, out, d) \<Rightarrow>
          let hf = hf\<lparr>hf_dev := d, hf_recv_frame := put_at 0 out (hf_recv_frame hf)\<rparr>
          in if bytesrx > 0
             then (case hw_process_rx_frame cb (hf_recv_frame hf) s of
                     None \<Rightarrow> Inr None
                   | Some (ret, s) \<Rightarrow> if ret then Inr (Some (True, hf, s)) else Inl (hf, s))
             else Inr (Some (False, hf, s))))"

definition hw_device_file_recv_internal ::
  "('n, 'z) net_driver_scheme \<Rightarrow> nat \<Rightarrow> ('c \<Rightarrow> nat \<Rightarrow> bytes \<Rightarrow> 'c hw_common \<times> 'w \<Rightarrow> 'c hw_common \<times> 'w) \<Rightarrow>
     'n hw_file \<times> 'c hw_common \<times> 'w \<Rightarrow> (bool \<times> 'n hw_file \<times> 'c hw_common \<times> 'w) option" where
  "hw_device_file_recv_internal drv fuel cb s = Option.bind (loop fuel (file_recv_body drv fuel cb) s) id"

text \<open>The rounds of the receive thread until it is stopped or the bound is reached.\<close>

fun hw_device_file_rx_thread ::
  "('n, 'z) net_driver_scheme \<Rightarrow> nat \<Rightarrow> ('c \<Rightarrow> nat \<Rightarrow> bytes \<Rightarrow> 'c hw_common \<times> 'w \<Rightarrow> 'c hw_common \<times> 'w) \<Rightarrow> nat \<Rightarrow>
     'n hw_file \<times> 'c hw_common \<times> 'w \<Rightarrow> ('n hw_file \<times> 'c hw_common \<times> 'w) option" where
  "hw_device_file_rx_thread drv fuel cb 0 s = Some s"
| "hw_device_file_rx_thread drv fuel cb (Suc k) s =
     (if hf_rxthreadrunning (fst s)
      then (case hw_device_file_recv_internal drv fuel cb s of
              None \<Rightarrow> None | Some (_, s) \<Rightarrow> hw_device_file_rx_thread drv fuel cb k s)
      else Some s)"

definition hw_device_file_recv ::
  "('n, 'z) net_driver_scheme \<Rightarrow> nat \<Rightarrow> ('c \<Rightarrow> nat \<Rightarrow> bytes \<Rightarrow> 'c hw_common \<times> 'w \<Rightarrow> 'c hw_common \<times> 'w) \<Rightarrow>
     'n hw_file \<times> 'c hw_common \<times> 'w \<Rightarrow> (int \<times> 'n hw_file \<times> 'c hw_common \<times> 'w) option" where
  "hw_device_file_recv drv fuel cb s =
     (if hf_polling_mode (fst s) then Some (EC_ERROR_HW_NOT_SUPPORTED, s)
      else map_option (\<lambda>(_, s). (EC_OK, s)) (hw_device_file_recv_internal drv fuel cb s))"

section \<open>Sending\<close>

definition hw_device_file_get_tx_buffer :: "'n hw_file \<Rightarrow> int \<times> bytes \<times> 'n hw_file" where
  "hw_device_file_get_tx_buffer hf =
     (let b = put_at 12 ETH_P_ECAT (hf_send_frame hf);
          b = fr_set_len ec_frame_hdr_length (fr_set_type 1 b)
      in (EC_OK, b, hf\<lparr>hf_send_frame := b\<rparr>))"

text \<open>An error of \<^verbatim>\<open>write\<close> ends the process.\<close>

definition hw_device_file_send ::
  "('n, 'z) net_driver_scheme \<Rightarrow> bytes \<Rightarrow> pooltype \<Rightarrow> 'n hw_file \<Rightarrow> int \<times> 'n hw_file" where
  "hw_device_file_send drv pframe pool_type hf =
     (let hf = hf\<lparr>hf_last_pool_type := pool_type, hf_send_frame := pframe\<rparr>
      in case ethercat_device_write drv True True (take (ec_frame_length pframe) pframe) (hf_dev hf) of
           None \<Rightarrow> (EC_ERROR_HW_SEND, hf\<lparr>hf_exited := True\<rparr>)
         | Some (r, d) \<Rightarrow>
             (let hf = hf\<lparr>hf_dev := d\<rparr>
              in if r < 0 then (EC_ERROR_HW_SEND, hf\<lparr>hf_exited := True\<rparr>)
                 else if r \<noteq> int (ec_frame_length pframe) then (EC_ERROR_HW_SEND, hf)
                 else (EC_OK, hf\<lparr>hf_bytes_sent := hf_bytes_sent hf + r, hf_frames_send := hf_frames_send hf + 1\<rparr>)))"

text \<open>
  In the polling mode, as many frames are received as were sent: each is waited for until the timer
  has expired.
\<close>

definition file_wait_body ::
  "('n, 'z) net_driver_scheme \<Rightarrow> osal_timers \<Rightarrow> nat \<Rightarrow> ('c \<Rightarrow> nat \<Rightarrow> bytes \<Rightarrow> 'c hw_common \<times> 'w \<Rightarrow> 'c hw_common \<times> 'w) \<Rightarrow>
     nat \<Rightarrow> 'n hw_file \<times> 'c hw_common \<times> 'w \<Rightarrow>
     ('n hw_file \<times> 'c hw_common \<times> 'w) + (bool \<times> 'n hw_file \<times> 'c hw_common \<times> 'w) option" where
  "file_wait_body drv tm fuel cb timeout = (\<lambda>(hf, s).
     (let (now, hf) = hf_time drv hf
      in if tm_expired tm now timeout then Inr (Some (False, hf, s))
         else (case hw_device_file_recv_internal drv fuel cb (hf, s) of
                 None \<Rightarrow> Inr None
               | Some (ret, hf, s) \<Rightarrow>
                   if ret then Inr (Some (True, hf\<lparr>hf_frames_send := hf_frames_send hf - 1\<rparr>, s)) else Inl (hf, s))))"

definition file_finished_body ::
  "('n, 'z) net_driver_scheme \<Rightarrow> osal_timers \<Rightarrow> nat \<Rightarrow> ('c \<Rightarrow> nat \<Rightarrow> bytes \<Rightarrow> 'c hw_common \<times> 'w \<Rightarrow> 'c hw_common \<times> 'w) \<Rightarrow>
     'n hw_file \<times> 'c hw_common \<times> 'w \<Rightarrow>
     ('n hw_file \<times> 'c hw_common \<times> 'w) + ('n hw_file \<times> 'c hw_common \<times> 'w) option" where
  "file_finished_body drv tm fuel cb = (\<lambda>(hf, s).
     (if hf_frames_send hf > 0
      then (let (now, hf) = hf_time drv (hf\<lparr>hf_bytes_last_sent := hf_bytes_sent hf, hf_bytes_sent := 0\<rparr>)
            in case Option.bind (loop fuel (file_wait_body drv tm fuel cb (tm_init tm now (unat (hf_rx_timeout_ns hf)))) (hf, s)) id of
                 None \<Rightarrow> Inr None
               | Some (True, s) \<Rightarrow> Inl s
               | Some (False, s) \<Rightarrow> Inr (Some s))
      else Inr (Some (hf, s))))"

definition hw_device_file_send_finished ::
  "('n, 'z) net_driver_scheme \<Rightarrow> osal_timers \<Rightarrow> nat \<Rightarrow> ('c \<Rightarrow> nat \<Rightarrow> bytes \<Rightarrow> 'c hw_common \<times> 'w \<Rightarrow> 'c hw_common \<times> 'w) \<Rightarrow>
     'n hw_file \<times> 'c hw_common \<times> 'w \<Rightarrow> ('n hw_file \<times> 'c hw_common \<times> 'w) option" where
  "hw_device_file_send_finished drv tm fuel cb s =
     (if hf_polling_mode (fst s)
      then map_option (\<lambda>(hf, s). (if hf_frames_send hf > 0 then hf\<lparr>hf_frames_send := 0\<rparr> else hf, s))
             (Option.bind (loop fuel (file_finished_body drv tm fuel cb) s) id)
      else Some s)"

text \<open>
  What \<open>hw_tx_pool\<close> uses of the device. In the interrupt mode \<^verbatim>\<open>send_finished\<close> does nothing; in the
  polling mode it also runs callbacks, which the record cannot express, and is
  \<open>hw_device_file_send_finished\<close>.
\<close>

definition hw_file_device :: "('n, 'z) net_driver_scheme \<Rightarrow> 'n hw_file hw_device" where
  "hw_file_device drv =
     \<lparr>dev_get_tx_buffer = hw_device_file_get_tx_buffer,
      dev_send = hw_device_file_send drv,
      dev_send_finished = id,
      dev_close = Some hw_device_file_close\<rparr>"

end
