(* ===== verification/Ethercat_Device_Correct.thy ===== *)
theory Ethercat_Device_Correct
  imports Ethercat_Device "HOL-Library.Sublist"
begin

text \<open>
  Every socket buffer of the character device is at each moment free, received or held by the
  driver, and the device is a queue of frames between the driver and the reader. What the driver
  has to keep of the buffers is the predicate \<open>net_driver_ok\<close>.
\<close>

section \<open>Ownership of the buffers\<close>

text \<open>\<open>held n\<close> are the buffers that the driver has in the state \<open>n\<close>.\<close>

fun sent_events :: "net_event list \<Rightarrow> nat multiset" where
  "sent_events [] = {#}"
| "sent_events (Sent_finished s # es) = add_mset s (sent_events es)"
| "sent_events (_ # es) = sent_events es"

definition net_driver_ok :: "('n, 'z) net_driver_scheme \<Rightarrow> ('n \<Rightarrow> nat multiset) \<Rightarrow> bool" where
  "net_driver_ok drv held \<longleftrightarrow>
     (\<forall>n. held (snd (kn_alloc drv n)) = held n) \<and>
     (\<forall>f n. held (snd (kn_receive drv f n)) = held n) \<and>
     (\<forall>f mo n. held (snd (snd (kn_set_flags drv f mo n))) = held n) \<and>
     (\<forall>s b n. held (snd (nd_xmit drv s b n)) = (if fst (nd_xmit drv s b n) then add_mset s (held n) else held n)) \<and>
     (\<forall>n. held n = mset (fst (nd_poll_tx drv n)) + held (snd (snd (nd_poll_tx drv n)))) \<and>
     (\<forall>n. held (snd (snd (nd_poll_rx drv n))) = held n) \<and>
     (\<forall>b n. held (nd_set_polling drv b n) = held n) \<and>
     (\<forall>b u n. held (nd_set_usecs drv b u n) = held n) \<and>
     (\<forall>n. held (snd (nd_time drv n)) = held n) \<and>
     (\<forall>n. held n = sent_events (fst (nd_irq drv n)) + held (snd (nd_irq drv n))) \<and>
     (\<forall>n. held n = sent_events (fst (nd_wait drv n)) + held (snd (snd (nd_wait drv n))))"

text \<open>
  \<open>P\<close> are the buffers that the running function has taken out of a queue, and \<open>K\<close> all buffers of
  the device.
\<close>

definition owned :: "('n \<Rightarrow> nat multiset) \<Rightarrow> nat \<Rightarrow> nat multiset \<Rightarrow> 'n ecat_device \<Rightarrow> bool" where
  "owned held K P d \<longleftrightarrow>
     mset (ed_free d) + mset (ed_rx d) + held (ed_net d) + P = mset [0..<K] \<and>
     (\<forall>s \<in> set (ed_free d). ed_skb_len d s = 0) \<and>
     (\<forall>s \<in> set (ed_rx d). ed_skb_len d s \<le> ETH_FRAME_LEN_PAGE_SIZE \<and> ed_skb_len d s \<le> length (ed_skb_data d s))"

definition waiting_frames :: "'n ecat_device \<Rightarrow> bytes list" where
  "waiting_frames d = map (\<lambda>s. take (ed_skb_len d s) (ed_skb_data d s)) (ed_rx d)"

lemma waiting_frames_set_net: "waiting_frames (d\<lparr>ed_net := n\<rparr>) = waiting_frames d"
  by (simp add: waiting_frames_def)

lemma mset_upt_count: "count (mset [0..<K]) s \<le> 1"
  by (simp add: count_mset_set')

lemma count_le_1_distinct:
  assumes "\<And>s. count (mset xs) s \<le> 1"
  shows "distinct xs"
  unfolding distinct_count_atmost_1
proof
  fix s
  have "count (mset xs) s = 0 \<longleftrightarrow> s \<notin> set xs" using not_in_iff[of s "mset xs"] by simp
  then show "count (mset xs) s = (if s \<in> set xs then 1 else 0)"
    using assms[of s] by (cases "count (mset xs) s") auto
qed

lemma owned_disjoint:
  assumes "owned held K (add_mset s P) d"
  shows "s \<notin> set (ed_free d)" "s \<notin> set (ed_rx d)" "s \<notin># held (ed_net d)" "s \<notin># P"
proof -
  have "count (mset (ed_free d)) s + count (mset (ed_rx d)) s + count (held (ed_net d)) s + Suc (count P s) \<le> 1"
    using assms mset_upt_count[of K s] unfolding owned_def
    by (metis count_add_mset count_union)
  then show "s \<notin> set (ed_free d)" "s \<notin> set (ed_rx d)" "s \<notin># held (ed_net d)" "s \<notin># P"
    by (simp_all add: count_mset_0_iff not_in_iff)
qed

lemma owned_queue_free:
  assumes "owned held K (add_mset s P) d"
  shows "owned held K P (queue_free s d)" "waiting_frames (queue_free s d) = waiting_frames d"
  using assms owned_disjoint[OF assms]
  by (auto simp: owned_def queue_free_def waiting_frames_def)

lemma owned_queue_free_all:
  "owned held K (mset ss + P) d \<Longrightarrow>
     owned held K P (fold queue_free ss d) \<and> waiting_frames (fold queue_free ss d) = waiting_frames d"
proof (induction ss arbitrary: d)
  case (Cons s ss)
  have "owned held K (add_mset s (mset ss + P)) d" using Cons.prems by simp
  from owned_queue_free[OF this] Cons.IH[of "queue_free s d"] show ?case by simp
qed simp

lemma sent_finished_queue_free [simp]: "ethercat_device_sent_finished = queue_free"
  by (intro ext) (simp add: ethercat_device_sent_finished_def)

lemma owned_dequeue_free:
  assumes "owned held K P d" "dequeue_free d = (Some s, d')"
  shows "owned held K (add_mset s P) d'" "waiting_frames d' = waiting_frames d" "ed_net d' = ed_net d" "ed_skb_len d' s = 0"
  using assms by (auto simp: owned_def dequeue_free_def waiting_frames_def split: list.splits)

lemma dequeue_free_None: "dequeue_free d = (None, d') \<longleftrightarrow> ed_free d = [] \<and> d' = d"
  by (auto simp: dequeue_free_def split: list.splits)

lemma owned_dequeue_rx:
  assumes "owned held K P d" "dequeue_rx d = (Some s, d')"
  shows "owned held K (add_mset s P) d'"
    "waiting_frames d = take (ed_skb_len d' s) (ed_skb_data d' s) # waiting_frames d'" "ed_skb_len d' s \<le> length (ed_skb_data d' s)"
  using assms by (auto simp: owned_def dequeue_rx_def waiting_frames_def split: list.splits)

lemma dequeue_rx_None: "dequeue_rx d = (None, d') \<longleftrightarrow> ed_rx d = [] \<and> d' = d"
  by (auto simp: dequeue_rx_def split: list.splits)

text \<open>Changes that touch neither the queues nor the buffers.\<close>

lemma owned_cong:
  assumes "owned held K P d" "ed_free d' = ed_free d" "ed_rx d' = ed_rx d" "ed_skb_len d' = ed_skb_len d"
    "ed_skb_data d' = ed_skb_data d" "held (ed_net d') = held (ed_net d)"
  shows "owned held K P d'" "waiting_frames d' = waiting_frames d"
  using assms by (simp_all add: owned_def waiting_frames_def)


section \<open>The driver\<close>

text \<open>
  What an operation keeps: the buffers are owned as before, and the frames that wait for the reader
  are the earlier ones and some of \<open>fs\<close>.
\<close>

definition keeps :: "('n \<Rightarrow> nat multiset) \<Rightarrow> nat \<Rightarrow> nat multiset \<Rightarrow> bytes list \<Rightarrow> 'n ecat_device \<Rightarrow> 'n ecat_device \<Rightarrow> bool" where
  "keeps held K P fs d d' \<longleftrightarrow>
     owned held K P d' \<and> (\<exists>gs. subseq gs fs \<and> waiting_frames d' = waiting_frames d @ gs) \<and>
     ed_polling d' = ed_polling d \<and> ed_rx_timeout_ns d' = ed_rx_timeout_ns d"

lemma keepsI:
  assumes "owned held K P d'" "waiting_frames d' = waiting_frames d" "ed_polling d' = ed_polling d"
    "ed_rx_timeout_ns d' = ed_rx_timeout_ns d"
  shows "keeps held K P [] d d'"
  using assms by (simp add: keeps_def)

lemma keeps_trans:
  assumes "keeps held K P fs d d'" "keeps held K Q gs d' d''"
  shows "keeps held K Q (fs @ gs) d d''"
  using assms by (auto simp: keeps_def intro: list_emb_append_mono)

lemma keeps_owned: "keeps held K P fs d d' \<Longrightarrow> owned held K P d'"
  by (simp add: keeps_def)

lemma keeps_frames: "keeps held K P [] d d' \<Longrightarrow> waiting_frames d' = waiting_frames d"
  by (auto simp: keeps_def)

lemma monitor_frame_keeps:
  assumes ok: "net_driver_ok drv held" and own: "owned held K P d" and run: "monitor_frame drv data d = Some d'"
  shows "keeps held K P [] d d'"
proof -
  obtain mo n where m: "ethercat_monitor_frame drv data (ed_monitor d) (ed_net d) = Some (mo, n)"
    and d': "d' = d\<lparr>ed_monitor := mo, ed_net := n\<rparr>"
    using run by (auto simp: monitor_frame_def)
  have alloc: "held (snd (kn_alloc drv k)) = held k" and receive: "held (snd (kn_receive drv f k)) = held k" for f k
    using ok unfolding net_driver_ok_def by blast+
  have "held n = held (ed_net d)"
  proof (cases "mo_enabled (ed_monitor d)")
    case True
    obtain room k where k: "kn_alloc drv (ed_net d) = (room, k)" by fastforce
    obtain taken k' where k': "kn_receive drv data k = (taken, k')" by fastforce
    have "n = k \<or> n = k'"
      using m True by (auto simp: ethercat_monitor_frame_def Let_def k k' split: option.splits if_splits)
    moreover have "held k = held (ed_net d)" using alloc[of "ed_net d"] by (simp add: k)
    moreover have "held k' = held k" using receive[of data k] by (simp add: k')
    ultimately show ?thesis by auto
  next
    case False
    then show ?thesis using m by (simp add: ethercat_monitor_frame_def)
  qed
  then show ?thesis
    using own by (auto simp: d' intro!: keepsI owned_cong[OF own])
qed

lemma poll_tx_keeps:
  assumes ok: "net_driver_ok drv held" and own: "owned held K P d"
  shows "keeps held K P [] d (snd (poll_tx drv d))"
proof -
  obtain sent ret n where t: "nd_poll_tx drv (ed_net d) = (sent, ret, n)" by (metis prod_cases3)
  have "held (ed_net d) = mset (fst (nd_poll_tx drv (ed_net d))) + held (snd (snd (nd_poll_tx drv (ed_net d))))"
    using ok unfolding net_driver_ok_def by blast
  then have "held (ed_net d) = mset sent + held n" by (simp add: t)
  then have "owned held K (mset sent + P) (d\<lparr>ed_net := n\<rparr>)" using own by (simp add: owned_def ac_simps)
  from owned_queue_free_all[OF this]
  have "owned held K P (snd (poll_tx drv d))" "waiting_frames (snd (poll_tx drv d)) = waiting_frames d"
    by (simp_all add: poll_tx_def t waiting_frames_def)
  moreover have "ed_polling (fold queue_free ss d) = ed_polling d \<and>
      ed_rx_timeout_ns (fold queue_free ss d) = ed_rx_timeout_ns d" for ss and d :: "'a ecat_device"
    by (induction ss arbitrary: d) (simp_all add: queue_free_def)
  ultimately show ?thesis by (auto simp: poll_tx_def t intro!: keepsI)
qed

text \<open>A received frame is queued, or dropped because there is no buffer.\<close>

definition free_buffer :: "('n, 'z) net_driver_scheme \<Rightarrow> 'n ecat_device \<Rightarrow> nat option \<times> 'n ecat_device" where
  "free_buffer drv d =
     (if ed_free d = [] \<and> ed_polling d then dequeue_free (snd (poll_tx drv d)) else dequeue_free d)"

lemma receive_free_buffer:
  "ethercat_device_receive drv data d =
     (case free_buffer drv d of
        (None, d) \<Rightarrow> monitor_frame drv data d
      | (Some s, d) \<Rightarrow>
          if length data > ETH_FRAME_LEN_PAGE_SIZE then None
          else monitor_frame drv data
                 (d\<lparr>ed_skb_len := (ed_skb_len d)(s := length data),
                    ed_skb_data := (ed_skb_data d)(s := put_at 0 data (ed_skb_data d s)),
                    ed_rx := ed_rx d @ [s],
                    ed_poll_mask := ed_poll_mask d \<or> \<not> ed_polling d\<rparr>))"
  by (cases "ed_free d")
     (auto simp: ethercat_device_receive_def free_buffer_def dequeue_free_def Let_def split: list.splits)

lemma free_buffer_keeps:
  assumes ok: "net_driver_ok drv held" and own: "owned held K P d" and run: "free_buffer drv d = (skb, d')"
  shows "keeps held K (case skb of None \<Rightarrow> P | Some s \<Rightarrow> add_mset s P) [] d d'"
proof -
  define e where "e = (if ed_free d = [] \<and> ed_polling d then snd (poll_tx drv d) else d)"
  have e: "keeps held K P [] d e"
    using poll_tx_keeps[OF ok own] own by (simp add: e_def keepsI)
  have "dequeue_free e = (skb, d')"
    using run unfolding e_def free_buffer_def by (simp only: if_distrib[of dequeue_free])
  moreover have "ed_polling d' = ed_polling e" "ed_rx_timeout_ns d' = ed_rx_timeout_ns e"
    using calculation by (auto simp: dequeue_free_def split: list.splits)
  ultimately have "keeps held K (case skb of None \<Rightarrow> P | Some s \<Rightarrow> add_mset s P) [] e d'"
    using owned_dequeue_free[OF keeps_owned[OF e]] keeps_owned[OF e]
    by (cases skb) (auto simp: dequeue_free_None intro!: keepsI)
  from keeps_trans[OF e this] show ?thesis by simp
qed

lemma receive_keeps:
  assumes ok: "net_driver_ok drv held" and own: "owned held K P d"
    and run: "ethercat_device_receive drv data d = Some d'"
  shows "owned held K P d'"
    "waiting_frames d' = waiting_frames d @ (if fst (free_buffer drv d) = None then [] else [data])"
    "keeps held K P [data] d d'"
proof -
  obtain skb e where f: "free_buffer drv d = (skb, e)" by fastforce
  note e = free_buffer_keeps[OF ok own f]
  have *: "owned held K P d' \<and> waiting_frames d' = waiting_frames d @ (if skb = None then [] else [data]) \<and> keeps held K P [data] d d'"
  proof (cases skb)
    case None
    with run f have "monitor_frame drv data e = Some d'" by (simp add: receive_free_buffer)
    from monitor_frame_keeps[OF ok _ this, of K P] e None have k: "keeps held K P [] e d'" by (simp add: keeps_owned)
    have "keeps held K P [] d d'" using keeps_trans[OF e k] by simp
    then show ?thesis using None keeps_frames[of held K P d d'] by (auto simp: keeps_def)
  next
    case (Some s)
    let ?e = "e\<lparr>ed_skb_len := (ed_skb_len e)(s := length data),
                ed_skb_data := (ed_skb_data e)(s := put_at 0 data (ed_skb_data e s)),
                ed_rx := ed_rx e @ [s], ed_poll_mask := ed_poll_mask e \<or> \<not> ed_polling e\<rparr>"
    have fits: "length data \<le> ETH_FRAME_LEN_PAGE_SIZE" and run': "monitor_frame drv data ?e = Some d'"
      using run f Some by (auto simp: receive_free_buffer split: if_splits)
    have own_e: "owned held K (add_mset s P) e" using e Some by (simp add: keeps_owned)
    note away = owned_disjoint[OF own_e]
    have own': "owned held K P ?e"
      using own_e away fits by (auto simp: owned_def put_at_def)
    have frames: "waiting_frames ?e = waiting_frames e @ [data]"
      using away by (auto simp: waiting_frames_def put_at_def)
    have k: "keeps held K P [] ?e d'" by (rule monitor_frame_keeps[OF ok own' run'])
    have "keeps held K P [data] e ?e" using own' frames by (auto simp: keeps_def)
    from keeps_trans[OF keeps_trans[OF e this] k] have "keeps held K P [data] d d'" by simp
    moreover have "waiting_frames e = waiting_frames d" using e keeps_frames by blast
    ultimately show ?thesis using Some frames keeps_frames[OF k] by (simp add: keeps_owned)
  qed
  then show "owned held K P d'" "waiting_frames d' = waiting_frames d @ (if fst (free_buffer drv d) = None then [] else [data])"
    "keeps held K P [data] d d'" by (simp_all add: f)
qed

fun received_events :: "net_event list \<Rightarrow> bytes list" where
  "received_events [] = []"
| "received_events (Received f # es) = f # received_events es"
| "received_events (_ # es) = received_events es"

lemma received_events_map [simp]: "received_events (map Received fs) = fs" "sent_events (map Received fs) = {#}"
  by (induction fs) simp_all

lemma run_event_keeps:
  assumes ok: "net_driver_ok drv held" and own: "owned held K (sent_events [e] + P) d"
    and run: "run_event drv e d = Some d'"
  shows "keeps held K P (received_events [e]) d d'"
proof (cases e)
  case (Sent_finished s)
  then have o': "owned held K (add_mset s P) d" and d': "d' = queue_free s d" using own run by simp_all
  show ?thesis
    using owned_queue_free[OF o'] unfolding d' Sent_finished by (auto simp: queue_free_def intro!: keepsI)
next
  case (Received f)
  then show ?thesis using receive_keeps(3)[OF ok] own run by simp
next
  case (Set_link l)
  then have own': "owned held K P d" and d': "d' = ethercat_device_set_link l d" using own run by simp_all
  show ?thesis
    unfolding d' Set_link by (auto simp: ethercat_device_set_link_def intro!: keepsI owned_cong[OF own'])
qed

lemma run_events_keeps:
  assumes ok: "net_driver_ok drv held"
  shows "\<lbrakk>owned held K (sent_events es + P) d; run_events drv es d = Some d'\<rbrakk> \<Longrightarrow> keeps held K P (received_events es) d d'"
proof (induction es arbitrary: d)
  case Nil
  then show ?case by (simp add: keepsI)
next
  case (Cons e es)
  have split: "sent_events (e # es) = sent_events [e] + sent_events es"
    "received_events (e # es) = received_events [e] @ received_events es"
    by (cases e; simp)+
  obtain d1 where d1: "run_event drv e d = Some d1" "run_events drv es d1 = Some d'"
    using Cons.prems(2) by (auto simp: bind_eq_Some_conv)
  have "owned held K (sent_events [e] + (sent_events es + P)) d"
    using Cons.prems(1) unfolding split(1) by (simp add: ac_simps)
  from run_event_keeps[OF ok this d1(1)] have k: "keeps held K (sent_events es + P) (received_events [e]) d d1" .
  from keeps_trans[OF k Cons.IH[OF keeps_owned[OF k] d1(2)]] show ?case unfolding split(2) .
qed

lemma poll_rx_keeps:
  assumes ok: "net_driver_ok drv held" and own: "owned held K P d" and run: "poll_rx drv d = Some (ret, d')"
  shows "keeps held K P (fst (nd_poll_rx drv (ed_net d))) d d'"
proof -
  obtain frames r n where x: "nd_poll_rx drv (ed_net d) = (frames, r, n)" by (metis prod_cases3)
  have "held (snd (snd (nd_poll_rx drv (ed_net d)))) = held (ed_net d)"
    using ok unfolding net_driver_ok_def by blast
  then have n: "held n = held (ed_net d)" by (simp add: x)
  have run': "run_events drv (map Received frames) (d\<lparr>ed_net := n\<rparr>) = Some d'"
    using run by (auto simp: poll_rx_def x)
  have "owned held K P (d\<lparr>ed_net := n\<rparr>)" by (rule owned_cong[OF own]) (simp_all add: n)
  then have "keeps held K P frames (d\<lparr>ed_net := n\<rparr>) d'"
    using run_events_keeps[OF ok _ run', of K P] by simp
  then show ?thesis by (simp add: x keeps_def waiting_frames_def)
qed

lemma events_keeps:
  assumes ok: "net_driver_ok drv held" and own: "owned held K P d"
    and n: "held (ed_net d) = sent_events es + held n" and run: "run_events drv es (d\<lparr>ed_net := n\<rparr>) = Some d'"
  shows "keeps held K P (received_events es) d d'"
proof -
  have "owned held K (sent_events es + P) (d\<lparr>ed_net := n\<rparr>)" using own n by (simp add: owned_def ac_simps)
  from run_events_keeps[OF ok this run] show ?thesis by (simp add: keeps_def waiting_frames_def)
qed

section \<open>The operations\<close>

lemma net_irq_keeps:
  assumes ok: "net_driver_ok drv held" and own: "owned held K P d" and run: "net_irq drv d = Some d'"
  shows "keeps held K P (received_events (fst (nd_irq drv (ed_net d)))) d d'"
proof -
  obtain es n where i: "nd_irq drv (ed_net d) = (es, n)" by fastforce
  have "held (ed_net d) = sent_events (fst (nd_irq drv (ed_net d))) + held (snd (nd_irq drv (ed_net d)))"
    using ok unfolding net_driver_ok_def by blast
  then show ?thesis using events_keeps[OF ok own, of es n d'] run by (simp add: net_irq_def i)
qed

lemma poll_rx_loop_owned:
  assumes ok: "net_driver_ok drv held" and own: "owned held K P d"
    and run: "loop fuel (poll_rx_body drv) d = Some (Some d')"
  shows "owned held K P d'"
proof -
  have once: "case poll_rx_body drv s of Inl s' \<Rightarrow> owned held K P s' | Inr r \<Rightarrow> \<forall>e. r = Some e \<longrightarrow> owned held K P e"
    if "owned held K P s" for s
  proof (cases "poll_rx drv s")
    case None
    then show ?thesis by (simp add: poll_rx_body_def)
  next
    case (Some x)
    then obtain ret e where x: "poll_rx drv s = Some (ret, e)" by (cases x) auto
    from keeps_owned[OF poll_rx_keeps[OF ok that x]] show ?thesis by (simp add: poll_rx_body_def x)
  qed
  have "\<forall>e. Some d' = Some e \<longrightarrow> owned held K P e"
    using run
  proof (induction rule: loop_invariant[where I = "owned held K P" and Q = "\<lambda>r. \<forall>e. r = Some e \<longrightarrow> owned held K P e"])
    case (step s s')
    then show ?case using once[of s] by simp
  next
    case (exit s r)
    then show ?case using once[of s] by simp
  qed (rule own)
  then show ?thesis by simp
qed

lemma poll_tx_loop_owned:
  assumes ok: "net_driver_ok drv held" and own: "owned held K P d" and run: "loop fuel (poll_tx_body drv) d = Some d'"
  shows "owned held K P d' \<and> waiting_frames d' = waiting_frames d"
  using run
proof (induction rule: loop_invariant[where I = "\<lambda>e. owned held K P e \<and> waiting_frames e = waiting_frames d"])
  case (step s s')
  then show ?case using poll_tx_keeps[OF ok, of K P s] keeps_frames[of held K P s s']
    by (auto simp: poll_tx_body_def split: prod.splits if_splits dest: keeps_owned)
next
  case (exit s r)
  then show ?case using poll_tx_keeps[OF ok, of K P s] keeps_frames[of held K P s r]
    by (auto simp: poll_tx_body_def split: prod.splits if_splits dest: keeps_owned)
qed (simp add: own)

lemma open_owned:
  assumes ok: "net_driver_ok drv held" and own: "owned held K P d" and run: "ethercat_device_open drv fuel d = Some (r, d')"
  shows "owned held K P d' \<and> waiting_frames d' = [] \<and> ed_rx d' = []"
proof -
  let ?p = "nd_get_polling drv (ed_net d) > 0"
  let ?d = "d\<lparr>ed_polling := ?p\<rparr>"
  let ?clear = "\<lambda>e. fold queue_free (ed_rx e) (e\<lparr>ed_rx := []\<rparr>)"
  obtain d1 where d1: "(if ?p then Option.bind (loop fuel (poll_rx_body drv) ?d) id else Some ?d) = Some d1"
    and run1: "Option.bind (if ed_polling (?clear d1) then loop fuel (poll_tx_body drv) (?clear d1) else Some (?clear d1))
                 (\<lambda>d. Some (0, d\<lparr>ed_rx_timeout_ns := 1000000\<rparr>)) = Some (r, d')"
    using run unfolding ethercat_device_open_def Let_def bind_eq_Some_conv by auto
  have own0: "owned held K P ?d" by (rule owned_cong[OF own]) simp_all
  have "owned held K P d1"
    using d1 poll_rx_loop_owned[OF ok own0, of fuel d1] own0 by (auto simp: bind_eq_Some_conv split: if_splits)
  then have "owned held K (mset (ed_rx d1) + P) (d1\<lparr>ed_rx := []\<rparr>)" by (simp add: owned_def ac_simps)
  from owned_queue_free_all[OF this] have c: "owned held K P (?clear d1)" "waiting_frames (?clear d1) = []"
    by (simp_all add: waiting_frames_def)
  obtain d2 where d2: "(if ed_polling (?clear d1) then loop fuel (poll_tx_body drv) (?clear d1) else Some (?clear d1)) = Some d2"
    and d': "d' = d2\<lparr>ed_rx_timeout_ns := 1000000\<rparr>"
    using run1 by (auto simp: bind_eq_Some_conv)
  have "owned held K P d2 \<and> waiting_frames d2 = []"
    using d2 poll_tx_loop_owned[OF ok c(1), of fuel d2] c by (auto split: if_splits)
  then show ?thesis by (auto simp: d' owned_def waiting_frames_def)
qed

text \<open>The buffer that a reader gets, and what is left for the next one.\<close>

definition handed :: "nat option \<Rightarrow> nat multiset" where
  "handed skb = (case skb of None \<Rightarrow> {#} | Some s \<Rightarrow> {#s#})"

lemma dequeue_rx_handed:
  assumes "owned held K {#} d" "dequeue_rx d = (skb, e)"
  shows "owned held K (handed skb) e"
    "waiting_frames d = (case skb of None \<Rightarrow> [] | Some s \<Rightarrow> [take (ed_skb_len e s) (ed_skb_data e s)]) @ waiting_frames e"
    "skb = None \<longrightarrow> waiting_frames e = []"
    "\<forall>s. skb = Some s \<longrightarrow> ed_skb_len e s \<le> length (ed_skb_data e s)"
  using assms owned_dequeue_rx[of held K "{#}" d] dequeue_rx_None[of d e]
  by (auto simp: handed_def waiting_frames_def split: option.splits)

definition frame_taken :: "('n \<Rightarrow> nat multiset) \<Rightarrow> nat \<Rightarrow> bytes list \<Rightarrow> nat option \<Rightarrow> 'n ecat_device \<Rightarrow> bool" where
  "frame_taken held K fs skb e \<longleftrightarrow>
     owned held K (handed skb) e \<and>
     fs = (case skb of None \<Rightarrow> [] | Some s \<Rightarrow> [take (ed_skb_len e s) (ed_skb_data e s)]) @ waiting_frames e \<and>
     (skb = None \<longrightarrow> waiting_frames e = []) \<and> (\<forall>s. skb = Some s \<longrightarrow> ed_skb_len e s \<le> length (ed_skb_data e s))"

lemma dequeue_rx_taken:
  assumes "owned held K {#} d" "dequeue_rx d = (skb, e)"
  shows "frame_taken held K (waiting_frames d) skb e"
  unfolding frame_taken_def by (intro conjI dequeue_rx_handed[OF assms])

lemma frame_taken_cong:
  assumes "frame_taken held K fs skb e" "held n = held (ed_net e)"
  shows "frame_taken held K fs skb (e\<lparr>ed_net := n\<rparr>)"
  using assms by (cases skb) (auto simp: frame_taken_def owned_def waiting_frames_def)

lemma time_held:
  assumes "net_driver_ok drv held" "nd_time drv n = (now, n')"
  shows "held n' = held n"
  using assms unfolding net_driver_ok_def by (metis snd_conv)

lemma read_poll_taken:
  assumes ok: "net_driver_ok drv held" and own: "owned held K {#} d"
    and run: "loop fuel (read_poll_body drv nonblock start_ns) d = Some (Some (skb, e))"
    and none: "waiting_frames d = []"
  shows "\<exists>gs. frame_taken held K gs skb e"
proof -
  let ?I = "\<lambda>d. owned held K {#} d \<and> waiting_frames d = []"
  have once: "case read_poll_body drv nonblock start_ns s of Inl s' \<Rightarrow> ?I s'
              | Inr r \<Rightarrow> \<forall>skb e. r = Some (skb, e) \<longrightarrow> (\<exists>gs. frame_taken held K gs skb e)" if I: "?I s" for s
  proof (cases "poll_rx drv (snd (poll_tx drv s))")
    case None
    then show ?thesis by (simp add: read_poll_body_def)
  next
    case (Some x)
    then obtain ret s1 where x: "poll_rx drv (snd (poll_tx drv s)) = Some (ret, s1)" by (cases x) auto
    have o1: "owned held K {#} s1"
      using poll_tx_keeps[OF ok, of K "{#}" s] I poll_rx_keeps[OF ok _ x, of K "{#}"] by (auto dest: keeps_owned)
    obtain skb s2 where s2: "dequeue_rx s1 = (skb, s2)" by fastforce
    obtain now n where t: "nd_time drv (ed_net s2) = (now, n)" by fastforce
    have taken: "frame_taken held K (waiting_frames s1) skb (s2\<lparr>ed_net := n\<rparr>)"
      by (rule frame_taken_cong[OF dequeue_rx_taken[OF o1 s2] time_held[OF ok t]])
    let ?stop = "now - start_ns \<ge> ed_rx_timeout_ns s2 \<or> nonblock \<or> skb \<noteq> None"
    have body: "read_poll_body drv nonblock start_ns s =
        (if ?stop then Inr (Some (skb, s2\<lparr>ed_net := n\<rparr>)) else Inl (s2\<lparr>ed_net := n\<rparr>))"
      by (simp add: read_poll_body_def x s2 t Let_def)
    show ?thesis
    proof (cases ?stop)
      case True
      then show ?thesis using taken unfolding body by auto
    next
      case False
      then have "skb = None" by blast
      then show ?thesis using False taken unfolding body by (simp add: frame_taken_def handed_def)
    qed
  qed
  have "\<forall>skb' e'. Some (skb, e) = Some (skb', e') \<longrightarrow> (\<exists>gs. frame_taken held K gs skb' e')"
    using run
  proof (induction rule: loop_invariant[where I = ?I and Q = "\<lambda>r. \<forall>skb e. r = Some (skb, e) \<longrightarrow> (\<exists>gs. frame_taken held K gs skb e)"])
    case (step s s')
    then show ?case using once[of s] by simp
  next
    case (exit s r)
    then show ?case using once[of s] by simp
  qed (simp add: own none)
  then show ?thesis by simp
qed


lemma read_frame_taken:
  assumes ok: "net_driver_ok drv held" and own: "owned held K {#} d"
    and run: "read_frame drv fuel nonblock d = Some (c, skb, e)"
  shows "\<exists>gs. frame_taken held K (waiting_frames d @ gs) skb e"
proof (cases "ed_rx d")
  case (Cons s ss)
  then obtain s d1 where "dequeue_rx d = (Some s, d1)" by (simp add: dequeue_rx_def)
  then have "dequeue_rx d = (skb, e)" using run by (simp add: read_frame_def)
  from dequeue_rx_taken[OF own this] show ?thesis by (intro exI[of _ "[]"]) simp
next
  case Nil
  then have none: "waiting_frames d = []" and q: "dequeue_rx d = (None, d)" by (simp_all add: waiting_frames_def dequeue_rx_def)
  show ?thesis
  proof (cases "ed_polling d")
    case True
    obtain start n where t: "nd_time drv (ed_net d) = (start, n)" by fastforce
    have "loop fuel (read_poll_body drv nonblock start) (d\<lparr>ed_net := n\<rparr>) = Some (Some (skb, e))"
      using run True by (auto simp: read_frame_def q t bind_eq_Some_conv)
    moreover have "owned held K {#} (d\<lparr>ed_net := n\<rparr>)"
      by (rule owned_cong[OF own]) (simp_all add: time_held[OF ok t])
    moreover have "waiting_frames (d\<lparr>ed_net := n\<rparr>) = []" using none by (simp add: waiting_frames_def)
    ultimately show ?thesis using read_poll_taken[OF ok, of K "d\<lparr>ed_net := n\<rparr>"] none by simp
  next
    case False
    obtain es i n where w: "nd_wait drv (ed_net d) = (es, i, n)" by (metis prod_cases3)
    have "held (ed_net d) = sent_events (fst (nd_wait drv (ed_net d))) + held (snd (snd (nd_wait drv (ed_net d))))"
      using ok unfolding net_driver_ok_def by blast
    then have h: "held (ed_net d) = sent_events es + held n" by (simp add: w)
    obtain d1 where d1: "run_events drv es (d\<lparr>ed_net := n\<rparr>) = Some d1"
      and res: "(if ed_rx d1 \<noteq> [] \<or> i then (0, dequeue_rx d1) else (0, None, d1)) = (c, skb, e)"
      using run False by (auto simp: read_frame_def q w)
    have o1: "owned held K {#} d1" using events_keeps[OF ok own h d1] by (rule keeps_owned)
    have "dequeue_rx d1 = (skb, e)" using res by (auto simp: dequeue_rx_None split: if_splits)
    from dequeue_rx_taken[OF o1 this] none show ?thesis by auto
  qed
qed

text \<open>Reading: the oldest frame, cut to the reader's buffer, and its socket buffer is free again.\<close>

lemma read_keeps:
  assumes ok: "net_driver_ok drv held" and own: "owned held K {#} d"
    and run: "ethercat_device_read drv fuel nonblock access_ok copy_ok len d = Some (r, out, d')"
  shows "owned held K {#} d'"
    "ed_running d \<Longrightarrow> access_ok \<Longrightarrow> \<exists>gs. (waiting_frames d @ gs = [] \<and> out = [] \<and> waiting_frames d' = []) \<or>
       (\<exists>f. waiting_frames d @ gs = f # waiting_frames d' \<and>
            (if copy_ok then out = take len f \<and> r = int (length out) else out = [] \<and> r = - EFAULT))"
proof -
  have *: "owned held K {#} d' \<and> (ed_running d \<longrightarrow> access_ok \<longrightarrow> (\<exists>gs. (waiting_frames d @ gs = [] \<and> out = [] \<and> waiting_frames d' = []) \<or>
       (\<exists>f. waiting_frames d @ gs = f # waiting_frames d' \<and>
            (if copy_ok then out = take len f \<and> r = int (length out) else out = [] \<and> r = - EFAULT))))"
  proof (cases "ed_running d \<and> access_ok")
    case False
    then show ?thesis using own run by (auto simp: ethercat_device_read_def split: if_splits)
  next
    case True
    then obtain c skb e where f: "read_frame drv fuel nonblock d = Some (c, skb, e)"
      and res: "(case skb of None \<Rightarrow> Some (c, [], e)
         | Some s \<Rightarrow> let n = min len (ed_skb_len e s)
                    in if copy_ok then Some (int n, take n (ed_skb_data e s), queue_free s e)
                       else Some (- EFAULT, [], queue_free s e)) = Some (r, out, d')"
      using run by (auto simp: ethercat_device_read_def bind_eq_Some_conv)
    obtain gs where t: "frame_taken held K (waiting_frames d @ gs) skb e" using read_frame_taken[OF ok own f] by blast
    show ?thesis
    proof (cases skb)
      case None
      then show ?thesis using t res by (auto simp: frame_taken_def handed_def)
    next
      case (Some s)
      have o1: "owned held K (add_mset s {#}) e" and l: "ed_skb_len e s \<le> length (ed_skb_data e s)"
        and fr: "waiting_frames d @ gs = take (ed_skb_len e s) (ed_skb_data e s) # waiting_frames e"
        using t Some by (simp_all add: frame_taken_def handed_def)
      have d': "d' = queue_free s e" using res Some by (auto simp: Let_def split: if_splits)
      have "if copy_ok then out = take len (take (ed_skb_len e s) (ed_skb_data e s)) \<and> r = int (length out)
            else out = [] \<and> r = - EFAULT"
        using res l Some by (auto simp: Let_def min_def split: if_splits)
      then show ?thesis using owned_queue_free[OF o1] fr unfolding d' by metis
    qed
  qed
  then show "owned held K {#} d'"
    "ed_running d \<Longrightarrow> access_ok \<Longrightarrow> \<exists>gs. (waiting_frames d @ gs = [] \<and> out = [] \<and> waiting_frames d' = []) \<or>
       (\<exists>f. waiting_frames d @ gs = f # waiting_frames d' \<and>
            (if copy_ok then out = take len f \<and> r = int (length out) else out = [] \<and> r = - EFAULT))" by blast+
qed

text \<open>Writing: a buffer goes to the driver, or back.\<close>

lemma put_at_0: "take (length xs) (put_at 0 xs ys) = xs"
  by (simp add: put_at_def)

lemma owned_set_data:
  assumes "owned held K (add_mset s P) d"
  shows "owned held K (add_mset s P) (d\<lparr>ed_skb_len := (ed_skb_len d)(s := l), ed_skb_data := (ed_skb_data d)(s := b)\<rparr>)"
    "waiting_frames (d\<lparr>ed_skb_len := (ed_skb_len d)(s := l), ed_skb_data := (ed_skb_data d)(s := b)\<rparr>) = waiting_frames d"
  using assms owned_disjoint[OF assms] by (auto simp: owned_def waiting_frames_def)

lemma write_keeps:
  assumes ok: "net_driver_ok drv held" and own: "owned held K P d"
    and run: "ethercat_device_write drv access_ok copy_ok buff d = Some (r, d')"
  shows "owned held K P d' \<and> waiting_frames d' = waiting_frames d"
proof (cases "ed_running d \<and> access_ok \<and> length buff \<le> ETH_FRAME_LEN \<and> ed_free d \<noteq> []")
  case False
  then show ?thesis using own run
    by (auto simp: ethercat_device_write_def dequeue_free_def split: if_splits)
next
  case True
  then obtain s ss where ss: "ed_free d = s # ss" by (cases "ed_free d") auto
  define d0 where "d0 = d\<lparr>ed_free := ss\<rparr>"
  have q: "dequeue_free d = (Some s, d0)" by (simp add: dequeue_free_def ss d0_def)
  have own0: "owned held K (add_mset s P) d0" and fr0: "waiting_frames d0 = waiting_frames d"
    using owned_dequeue_free[OF own q] by blast+
  let ?d1 = "d0\<lparr>ed_skb_len := (ed_skb_len d0)(s := length buff)\<rparr>"
  let ?d2 = "d0\<lparr>ed_skb_len := (ed_skb_len d0)(s := length buff), ed_skb_data := (ed_skb_data d0)(s := put_at 0 buff (ed_skb_data d0 s))\<rparr>"
  show ?thesis
  proof (cases copy_ok)
    case False
    have "ed_skb_data d0 = (ed_skb_data d0)(s := ed_skb_data d0 s)" by simp
    then have own1: "owned held K (add_mset s P) ?d1" "waiting_frames ?d1 = waiting_frames d0"
      using owned_set_data[OF own0, where l = "length buff" and b = "ed_skb_data d0 s"] by simp_all
    have "d' = queue_free s ?d1" using run True False q by (auto simp: ethercat_device_write_def Let_def)
    then show ?thesis using owned_queue_free[OF own1(1)] own1(2) fr0 by simp
  next
    case copied: True
    obtain sent n where x: "nd_xmit drv s buff (ed_net d0) = (sent, n)" by fastforce
    have "Option.bind (monitor_frame drv buff (?d2\<lparr>ed_net := n\<rparr>))
            (\<lambda>d. let e = (if ed_polling d then snd (poll_tx drv d) else d)
                 in Some (if sent then (int (length buff), e) else (- EBUSY, queue_free s e))) = Some (r, d')"
      using run True copied q x by (simp add: ethercat_device_write_def Let_def put_at_0)
    then obtain d3 where d3: "monitor_frame drv buff (?d2\<lparr>ed_net := n\<rparr>) = Some d3"
      and res: "(if sent then (int (length buff), if ed_polling d3 then snd (poll_tx drv d3) else d3)
                 else (- EBUSY, queue_free s (if ed_polling d3 then snd (poll_tx drv d3) else d3))) = (r, d')"
      unfolding bind_eq_Some_conv Let_def option.inject by blast
    define e where "e = (if ed_polling d3 then snd (poll_tx drv d3) else d3)"
    have d': "d' = (if sent then e else queue_free s e)"
      using res unfolding e_def[symmetric] by (cases sent) simp_all
    define Q where "Q = (if sent then P else add_mset s P)"
    have "held (snd (nd_xmit drv s buff (ed_net d0))) =
        (if fst (nd_xmit drv s buff (ed_net d0)) then add_mset s (held (ed_net d0)) else held (ed_net d0))"
      using ok unfolding net_driver_ok_def by blast
    then have h: "held n = (if sent then add_mset s (held (ed_net d0)) else held (ed_net d0))" by (simp add: x)
    have own2: "owned held K Q (?d2\<lparr>ed_net := n\<rparr>)"
      using owned_set_data(1)[OF own0, where l = "length buff" and b = "put_at 0 buff (ed_skb_data d0 s)"] h
      by (auto simp: owned_def Q_def)
    have fr2: "waiting_frames (?d2\<lparr>ed_net := n\<rparr>) = waiting_frames d"
      using owned_set_data(2)[OF own0, where l = "length buff" and b = "put_at 0 buff (ed_skb_data d0 s)"] fr0
      by (simp only: waiting_frames_set_net)
    note k3 = monitor_frame_keeps[OF ok own2 d3]
    note own3 = keeps_owned[OF k3]
    have e: "owned held K Q e" "waiting_frames e = waiting_frames d3"
      using own3 poll_tx_keeps[OF ok own3] keeps_frames by (auto simp: e_def dest: keeps_owned)
    then show ?thesis
      using d' e owned_queue_free[of held K s P e] fr2 keeps_frames[OF k3] by (auto simp: Q_def split: if_splits)
  qed
qed

lemma set_flags_held:
  assumes "net_driver_ok drv held"
  shows "held (snd (snd (kn_set_flags drv f mo n))) = held n"
  using assms unfolding net_driver_ok_def by blast

lemma ioctl_keeps:
  assumes ok: "net_driver_ok drv held" and own: "owned held K P d"
    and run: "ethercat_device_unlocked_ioctl drv copy_ok num d = Some (r, v, d')"
  shows "owned held K P d' \<and> waiting_frames d' = waiting_frames d"
proof -
  have set: "held (nd_set_polling drv b n) = held n" "held (nd_set_usecs drv b u n) = held n" for b u n
    using ok unfolding net_driver_ok_def by blast+
  have q: "ed_free d' = ed_free d" "ed_rx d' = ed_rx d" "ed_skb_len d' = ed_skb_len d" "ed_skb_data d' = ed_skb_data d"
    using run by (cases num; auto simp: ethercat_device_unlocked_ioctl_def Let_def split: if_splits)+
  have "held (ed_net d') = held (ed_net d)"
  proof (cases num)
    case (MONITOR_ENABLE enable)
    then show ?thesis
      using run set_flags_held[OF ok]
      by (auto simp: ethercat_device_unlocked_ioctl_def ethercat_monitor_enable_def split: if_splits prod.splits)
        (metis snd_conv)+
  qed (use run set in \<open>auto simp: ethercat_device_unlocked_ioctl_def Let_def split: if_splits\<close>)
  with q owned_cong[OF own, of d'] show ?thesis by simp
qed

section \<open>All runs of the device\<close>

inductive ed_step :: "('n, 'z) net_driver_scheme \<Rightarrow> 'n ecat_device \<Rightarrow> 'n ecat_device \<Rightarrow> bool" for drv where
  opened: "ethercat_device_open drv fuel d = Some (r, d') \<Longrightarrow> ed_step drv d d'"
| was_read: "ethercat_device_read drv fuel nonblock access_ok copy_ok len d = Some (r, out, d') \<Longrightarrow> ed_step drv d d'"
| was_written: "ethercat_device_write drv access_ok copy_ok buff d = Some (r, d') \<Longrightarrow> ed_step drv d d'"
| controlled: "ethercat_device_unlocked_ioctl drv copy_ok num d = Some (r, v, d') \<Longrightarrow> ed_step drv d d'"
| interrupted: "net_irq drv d = Some d' \<Longrightarrow> ed_step drv d d'"

lemma ed_step_owned: "ed_step drv d d' \<Longrightarrow> net_driver_ok drv held \<Longrightarrow> owned held K {#} d \<Longrightarrow> owned held K {#} d'"
proof (induction rule: ed_step.induct)
  case (opened fuel d r d')
  then show ?case using open_owned by blast
next
  case (was_read fuel nonblock access_ok copy_ok len d r out d')
  then show ?case using read_keeps(1) by blast
next
  case (was_written access_ok copy_ok buff d r d')
  then show ?case using write_keeps by blast
next
  case (controlled copy_ok num d r v d')
  then show ?case using ioctl_keeps by blast
next
  case (interrupted d d')
  then show ?case using net_irq_keeps[of drv held K "{#}" d d'] keeps_owned by blast
qed

lemma ed_steps_owned:
  assumes "(ed_step drv)\<^sup>*\<^sup>* d d'" "net_driver_ok drv held" "owned held K {#} d"
  shows "owned held K {#} d'"
  using assms(1) by (induction rule: rtranclp_induct) (auto intro: assms ed_step_owned)

lemma alloc_buffers_free:
  "alloc_buffers skb_ok i k d = (True, d') \<Longrightarrow>
     ed_free d' = ed_free d @ [i..<i + k] \<and> (\<forall>s \<in> {i..<i + k}. ed_skb_len d' s = 0) \<and>
     (\<forall>s. s \<notin> {i..<i + k} \<longrightarrow> ed_skb_len d' s = ed_skb_len d s) \<and> ed_rx d' = ed_rx d \<and> ed_net d' = ed_net d"
proof (induction k arbitrary: i d)
  case (Suc k)
  from Suc.prems have "alloc_buffers skb_ok (Suc i) k (queue_free i d) = (True, d')" by (simp split: if_splits)
  from Suc.IH[OF this] show ?case by (auto simp: queue_free_def upt_conv_Cons)
qed simp

lemma create_owned:
  assumes ok: "net_driver_ok drv held" and none: "held (ndo_open (ed_net d0)) = {#}"
    and run: "ethercat_device_create drv kmalloc_ok cdev_ok skb_ok K ndo_open ma mr tc d0 = Some (freed, Some d)"
  shows "owned held K {#} d"
proof -
  obtain e where e: "alloc_buffers skb_ok 0 K (d0\<lparr>ed_link_state := False, ed_rx := [], ed_free := []\<rparr>) = (True, e)"
    and d: "d = (let n = ndo_open (ed_net e); (_, mo, n) = ethercat_monitor_create drv ma mr (ed_monitor e) n
                 in e\<lparr>ed_net := n, ed_monitor := mo, ed_tun := tc (ed_tun e)\<rparr>)"
    using run by (auto simp: ethercat_device_create_def Let_def split: if_splits prod.splits)
  note a = alloc_buffers_free[OF e]
  have "held (snd (snd (ethercat_monitor_create drv ma mr mo n))) = held n" for mo n
    using set_flags_held[OF ok]
    by (auto simp: ethercat_monitor_create_def Let_def split: prod.splits) (metis snd_conv)+
  then have "held (ed_net d) = {#}"
    using a none unfolding d by (auto simp: Let_def split: prod.splits) (metis snd_conv)+
  moreover have "ed_free d = [0..<K] \<and> ed_rx d = [] \<and> ed_skb_len d = ed_skb_len e"
    using a unfolding d by (auto simp: Let_def split: prod.splits)
  ultimately show ?thesis using a by (auto simp: owned_def)
qed

text \<open>The devices that a run can reach, from a driver that holds no buffer when it is opened.\<close>

definition ed_reachable :: "('n, 'z) net_driver_scheme \<Rightarrow> ('n \<Rightarrow> nat multiset) \<Rightarrow> nat \<Rightarrow> 'n ecat_device \<Rightarrow> bool" where
  "ed_reachable drv held K d \<longleftrightarrow>
     (\<exists>kmalloc_ok cdev_ok skb_ok ndo_open ma mr tc d0 freed dc.
        held (ndo_open (ed_net d0)) = {#} \<and>
        ethercat_device_create drv kmalloc_ok cdev_ok skb_ok K ndo_open ma mr tc d0 = Some (freed, Some dc) \<and>
        (ed_step drv)\<^sup>*\<^sup>* dc d)"

lemma reachable_owned: "ed_reachable drv held K d \<Longrightarrow> net_driver_ok drv held \<Longrightarrow> owned held K {#} d"
  unfolding ed_reachable_def using create_owned ed_steps_owned by metis

section \<open>The order of the frames\<close>

lemma monitor_frame_off: "\<not> mo_enabled (ed_monitor d) \<Longrightarrow> monitor_frame drv data d = Some d"
  by (simp add: monitor_frame_def ethercat_monitor_frame_def)

text \<open>While there are free buffers, or without polling, the driver is not asked for buffers.\<close>

lemma receive_events:
  assumes "\<not> mo_enabled (ed_monitor d)" "\<forall>f \<in> set fs. length f \<le> ETH_FRAME_LEN_PAGE_SIZE"
    and "length fs \<le> length (ed_free d) \<or> \<not> ed_polling d" and ok: "net_driver_ok drv held" and own: "owned held K {#} d"
  shows "\<exists>e. run_events drv (map Received fs) d = Some e \<and> owned held K {#} e \<and> ed_net e = ed_net d \<and>
     ed_running e = ed_running d \<and> waiting_frames e = waiting_frames d @ take (length (ed_free d)) fs"
  using assms(1-3) own
proof (induction fs arbitrary: d)
  case (Cons f fs)
  have off: "\<not> mo_enabled (ed_monitor d)" and fits: "length f \<le> ETH_FRAME_LEN_PAGE_SIZE" "\<forall>f \<in> set fs. length f \<le> ETH_FRAME_LEN_PAGE_SIZE"
    using Cons.prems by simp_all
  have "\<exists>e. ethercat_device_receive drv f d = Some e \<and> \<not> mo_enabled (ed_monitor e) \<and> ed_net e = ed_net d \<and>
       ed_running e = ed_running d \<and> ed_polling e = ed_polling d \<and> ed_free e = tl (ed_free d) \<and>
       fst (free_buffer drv d) = (case ed_free d of [] \<Rightarrow> None | s # _ \<Rightarrow> Some s)"
    using Cons.prems off fits(1)
    by (cases "ed_free d") (auto simp: receive_free_buffer free_buffer_def dequeue_free_def monitor_frame_off)
  then obtain e where e: "ethercat_device_receive drv f d = Some e" "\<not> mo_enabled (ed_monitor e)" "ed_net e = ed_net d"
    "ed_running e = ed_running d" "ed_polling e = ed_polling d" "ed_free e = tl (ed_free d)"
    "fst (free_buffer drv d) = (case ed_free d of [] \<Rightarrow> None | s # _ \<Rightarrow> Some s)" by blast
  note r = receive_keeps(1,2)[OF ok Cons.prems(4) e(1)]
  have room: "length fs \<le> length (ed_free e) \<or> \<not> ed_polling e" using Cons.prems(3) e(5,6) by auto
  obtain e' where e': "run_events drv (map Received fs) e = Some e'" "owned held K {#} e'" "ed_net e' = ed_net e"
    "ed_running e' = ed_running e" "waiting_frames e' = waiting_frames e @ take (length (ed_free e)) fs"
    using Cons.IH[OF e(2) fits(2) room r(1)] by blast
  have "waiting_frames e' = waiting_frames d @ take (length (ed_free d)) (f # fs)"
    using r(2) e(6,7) e'(5) by (cases "ed_free d") simp_all
  then show ?case using e(1,3,4) e'(1-4) by auto
qed simp

fun read_frames :: "('n, 'z) net_driver_scheme \<Rightarrow> nat \<Rightarrow> nat \<Rightarrow> nat \<Rightarrow> 'n ecat_device \<Rightarrow> ((int \<times> bytes) list \<times> 'n ecat_device) option" where
  "read_frames drv fuel len 0 d = Some ([], d)"
| "read_frames drv fuel len (Suc k) d = do {
     (r, out, d) \<leftarrow> ethercat_device_read drv fuel False True True len d;
     (outs, d) \<leftarrow> read_frames drv fuel len k d;
     Some ((r, out) # outs, d) }"

lemma read_waiting_frame:
  assumes own: "owned held K {#} d" and run: "ed_running d" and fr: "waiting_frames d = f # fs"
  shows "\<exists>e. ethercat_device_read drv fuel nonblock True True len d = Some (int (length (take len f)), take len f, e) \<and>
     owned held K {#} e \<and> ed_running e \<and> waiting_frames e = fs \<and> ed_net e = ed_net d"
proof -
  obtain s ss where rx: "ed_rx d = s # ss" using fr by (auto simp: waiting_frames_def)
  define e where "e = d\<lparr>ed_rx := ss\<rparr>"
  have q: "dequeue_rx d = (Some s, e)" by (simp add: dequeue_rx_def rx e_def)
  note t = owned_dequeue_rx[OF own q]
  have f: "f = take (ed_skb_len e s) (ed_skb_data e s)" "waiting_frames e = fs" using t(2) fr by simp_all
  have "ethercat_device_read drv fuel nonblock True True len d = Some (int (length (take len f)), take len f, queue_free s e)"
    using run t(3) by (simp add: ethercat_device_read_def read_frame_def q f(1) min_def Let_def)
  moreover have "ed_running (queue_free s e)" "ed_net (queue_free s e) = ed_net d"
    using run by (simp_all add: queue_free_def e_def)
  ultimately show ?thesis using owned_queue_free[OF t(1)] f(2) by auto
qed

lemma read_frames_all:
  "owned held K {#} d \<Longrightarrow> ed_running d \<Longrightarrow> waiting_frames d = fs \<Longrightarrow>
     \<exists>e. read_frames drv fuel len (length fs) d = Some (map (\<lambda>f. (int (length (take len f)), take len f)) fs, e) \<and>
       owned held K {#} e \<and> waiting_frames e = [] \<and> ed_net e = ed_net d"
proof (induction fs arbitrary: d)
  case (Cons f fs)
  obtain e where e: "ethercat_device_read drv fuel False True True len d = Some (int (length (take len f)), take len f, e)"
    "owned held K {#} e" "ed_running e" "waiting_frames e = fs" "ed_net e = ed_net d"
    using read_waiting_frame[OF Cons.prems] by blast
  show ?case using Cons.IH[OF e(2,3,4)] e(1,5) by auto
qed simp

section \<open>Polling ends\<close>

text \<open>
  A clock that goes on at each look at it, by at most \<open>2 ^ 32\<close> nanoseconds, and a driver and kernel
  that handle Ethernet frames.
\<close>

definition net_clock_ok :: "('n, 'z) net_driver_scheme \<Rightarrow> ('n \<Rightarrow> nat) \<Rightarrow> bool" where
  "net_clock_ok drv clk \<longleftrightarrow>
     (\<forall>n. fst (nd_time drv n) = of_nat (clk n)) \<and>
     (\<forall>n. clk n < clk (snd (nd_time drv n)) \<and> clk (snd (nd_time drv n)) \<le> clk n + 2 ^ 32) \<and>
     (\<forall>n. clk (snd (kn_alloc drv n)) = clk n) \<and>
     (\<forall>f n. clk (snd (kn_receive drv f n)) = clk n) \<and>
     (\<forall>n. clk (snd (snd (nd_poll_tx drv n))) = clk n) \<and>
     (\<forall>n. clk (snd (snd (nd_poll_rx drv n))) = clk n) \<and>
     (\<forall>n. \<forall>f \<in> set (fst (nd_poll_rx drv n)). length f \<le> ETH_FRAME_LEN) \<and>
     (\<forall>n room. fst (kn_alloc drv n) = Some room \<longrightarrow> ETH_FRAME_LEN \<le> room)"

lemma frame_len_page: "ETH_FRAME_LEN \<le> ETH_FRAME_LEN_PAGE_SIZE"
  by (simp add: ETH_FRAME_LEN_def ETH_FRAME_LEN_PAGE_SIZE_def)

text \<open>What polling does not change.\<close>

definition same_time :: "('n \<Rightarrow> nat) \<Rightarrow> 'n ecat_device \<Rightarrow> 'n ecat_device \<Rightarrow> bool" where
  "same_time clk d e \<longleftrightarrow> clk (ed_net e) = clk (ed_net d) \<and> ed_rx_timeout_ns e = ed_rx_timeout_ns d"

lemma same_time_trans: "same_time clk d e \<Longrightarrow> same_time clk e f \<Longrightarrow> same_time clk d f"
  by (simp add: same_time_def)

lemma fold_queue_free_same [simp]:
  "ed_net (fold queue_free ss d) = ed_net d" "ed_rx_timeout_ns (fold queue_free ss d) = ed_rx_timeout_ns d"
  by (induction ss arbitrary: d) (simp_all add: queue_free_def)

lemma poll_tx_same_time: "net_clock_ok drv clk \<Longrightarrow> same_time clk d (snd (poll_tx drv d))"
  unfolding net_clock_ok_def same_time_def poll_tx_def
  by (auto split: prod.splits) (metis snd_conv)

lemma free_buffer_same_time:
  assumes "net_clock_ok drv clk"
  shows "same_time clk d (snd (free_buffer drv d))"
proof -
  have "same_time clk e (snd (dequeue_free e))" for e
    by (simp add: same_time_def dequeue_free_def split: list.splits)
  then show ?thesis
    using poll_tx_same_time[OF assms] same_time_trans unfolding free_buffer_def by (metis (full_types))
qed

lemma monitor_frame_same_time:
  assumes ok: "net_clock_ok drv clk" and len: "length data \<le> ETH_FRAME_LEN"
  shows "\<exists>e. monitor_frame drv data d = Some e \<and> same_time clk d e"
proof (cases "mo_enabled (ed_monitor d)")
  case False
  then show ?thesis by (simp add: monitor_frame_off same_time_def)
next
  case True
  obtain room k where k: "kn_alloc drv (ed_net d) = (room, k)" by fastforce
  obtain taken k' where k': "kn_receive drv data k = (taken, k')" by fastforce
  have c: "clk k = clk (ed_net d)" "clk k' = clk k"
    using ok k k' unfolding net_clock_ok_def by (metis snd_conv)+
  have r: "length data \<le> x" if "room = Some x" for x
    using ok k len that unfolding net_clock_ok_def by (metis fst_conv le_trans)
  show ?thesis
    using True r c
    by (cases room) (auto simp: monitor_frame_def ethercat_monitor_frame_def k k' Let_def same_time_def)
qed

lemma receive_same_time:
  assumes ok: "net_clock_ok drv clk" and len: "length data \<le> ETH_FRAME_LEN"
  shows "\<exists>e. ethercat_device_receive drv data d = Some e \<and> same_time clk d e"
proof -
  obtain skb e where f: "free_buffer drv d = (skb, e)" by fastforce
  have e: "same_time clk d e" using free_buffer_same_time[OF ok, of d] by (simp add: f)
  define e1 where "e1 = (case skb of None \<Rightarrow> e | Some s \<Rightarrow> e\<lparr>ed_skb_len := (ed_skb_len e)(s := length data),
                ed_skb_data := (ed_skb_data e)(s := put_at 0 data (ed_skb_data e s)),
                ed_rx := ed_rx e @ [s], ed_poll_mask := ed_poll_mask e \<or> \<not> ed_polling e\<rparr>)"
  have e1: "same_time clk e e1" by (simp add: e1_def same_time_def split: option.split)
  have run: "ethercat_device_receive drv data d = monitor_frame drv data e1"
    using len frame_len_page by (simp add: receive_free_buffer f e1_def split: option.split)
  obtain e' where e': "monitor_frame drv data e1 = Some e'" "same_time clk e1 e'"
    using monitor_frame_same_time[OF ok len, of e1] by blast
  from same_time_trans[OF same_time_trans[OF e e1] e'(2)] show ?thesis by (simp add: run e'(1))
qed

lemma receive_all_same_time:
  assumes ok: "net_clock_ok drv clk"
  shows "\<forall>f \<in> set fs. length f \<le> ETH_FRAME_LEN \<Longrightarrow>
     \<exists>e. run_events drv (map Received fs) d = Some e \<and> same_time clk d e"
proof (induction fs arbitrary: d)
  case (Cons f fs)
  obtain e where e: "ethercat_device_receive drv f d = Some e" "same_time clk d e"
    using receive_same_time[OF ok, of f d] Cons.prems by auto
  obtain e' where "run_events drv (map Received fs) e = Some e'" "same_time clk e e'"
    using Cons.IH[of e] Cons.prems by auto
  then show ?case using e same_time_trans by auto
qed (simp add: same_time_def)

lemma poll_rx_same_time:
  assumes ok: "net_clock_ok drv clk"
  shows "\<exists>ret e. poll_rx drv d = Some (ret, e) \<and> same_time clk d e"
proof -
  obtain frames r n where x: "nd_poll_rx drv (ed_net d) = (frames, r, n)" by (metis prod_cases3)
  have "clk (snd (snd (nd_poll_rx drv (ed_net d)))) = clk (ed_net d)"
    "\<forall>f \<in> set (fst (nd_poll_rx drv (ed_net d))). length f \<le> ETH_FRAME_LEN"
    using ok unfolding net_clock_ok_def by blast+
  then have n: "clk n = clk (ed_net d)" and l: "\<forall>f \<in> set frames. length f \<le> ETH_FRAME_LEN" by (simp_all add: x)
  obtain e where e: "run_events drv (map Received frames) (d\<lparr>ed_net := n\<rparr>) = Some e" "same_time clk (d\<lparr>ed_net := n\<rparr>) e"
    using receive_all_same_time[OF ok l] by blast
  then show ?thesis using n by (auto simp: poll_rx_def x same_time_def)
qed

lemma dequeue_rx_same_time: "dequeue_rx d = (skb, e) \<Longrightarrow> same_time clk d e"
  by (auto simp: dequeue_rx_def same_time_def split: list.splits)

lemma read_poll_step:
  assumes ok: "net_clock_ok drv clk"
  shows "\<exists>skb e. same_time clk d (e :: 'n ecat_device) \<and>
     read_poll_body drv nonblock start_ns d =
       (if of_nat (clk (ed_net d)) - start_ns \<ge> ed_rx_timeout_ns d \<or> nonblock \<or> skb \<noteq> None
        then Inr (Some (skb, e\<lparr>ed_net := snd (nd_time drv (ed_net e))\<rparr>))
        else Inl (e\<lparr>ed_net := snd (nd_time drv (ed_net e))\<rparr>))"
proof -
  define d1 where "d1 = snd (poll_tx drv d)"
  have d1: "same_time clk d d1" using poll_tx_same_time[OF ok] by (simp add: d1_def)
  obtain ret d2 where d2: "poll_rx drv d1 = Some (ret, d2)" "same_time clk d1 d2"
    using poll_rx_same_time[OF ok, of d1] by blast
  obtain skb e where e: "dequeue_rx d2 = (skb, e)" by fastforce
  have t: "same_time clk d e"
    using same_time_trans[OF same_time_trans[OF d1 d2(2)] dequeue_rx_same_time[OF e]] .
  obtain now n where n: "nd_time drv (ed_net e) = (now, n)" by fastforce
  have "now = of_nat (clk (ed_net d))" using ok n t unfolding net_clock_ok_def same_time_def by (metis fst_conv)
  then show ?thesis
    using t by (intro exI[of _ skb] exI[of _ e])
      (simp add: read_poll_body_def d1_def[symmetric] d2(1) e n Let_def same_time_def)
qed

lemma word_diff_le:
  assumes "S \<le> c" "c - S < 2 ^ 64"
  shows "(t :: u64) \<le> of_nat c - of_nat S \<longleftrightarrow> unat t \<le> c - S"
proof -
  have "(of_nat c - of_nat S :: u64) = of_nat (c - S)" using assms(1) by (simp add: of_nat_diff)
  moreover have "unat (of_nat (c - S) :: u64) = c - S" using assms(2) by (simp add: unat_of_nat)
  ultimately show ?thesis by (simp add: word_le_nat_alt)
qed

text \<open>
  \<open>S\<close> is when polling began. A round is only repeated while the time since then is less than the
  timeout, so there are at most as many rounds as the timeout has nanoseconds.
\<close>

lemma read_poll_ends:
  fixes d :: "'n ecat_device"
  assumes ok: "net_clock_ok drv clk" and d: "S \<le> clk (ed_net d)" "clk (ed_net d) \<le> S + 2 ^ 32"
    and T: "unat (ed_rx_timeout_ns d) = T" "T < 2 ^ 63" and fuel: "T < fuel"
  shows "\<exists>skb e. loop fuel (read_poll_body drv nonblock (of_nat S)) d = Some (Some (skb, e)) \<and>
     (skb = None \<and> \<not> nonblock \<longrightarrow> S + T < clk (ed_net e)) \<and> clk (ed_net e) \<le> S + T + 2 ^ 33"
proof -
  let ?b = "read_poll_body drv nonblock (of_nat S)"
  let ?I = "\<lambda>e. S \<le> clk (ed_net e) \<and> clk (ed_net e) \<le> S + T + 2 ^ 32 \<and> unat (ed_rx_timeout_ns e) = T"
  have tick: "clk n < clk (snd (nd_time drv n)) \<and> clk (snd (nd_time drv n)) \<le> clk n + 2 ^ 32" for n
    using ok unfolding net_clock_ok_def by blast
  have once: "\<exists>skb f. same_time clk e f \<and> ?b e =
      (if T \<le> clk (ed_net e) - S \<or> nonblock \<or> skb \<noteq> None
       then Inr (Some (skb, f\<lparr>ed_net := snd (nd_time drv (ed_net f))\<rparr>))
       else Inl (f\<lparr>ed_net := snd (nd_time drv (ed_net f))\<rparr>))" if I: "?I e" for e :: "'n ecat_device"
  proof -
    have "clk (ed_net e) - S < 2 ^ 64" using I T(2) by auto
    from word_diff_le[OF conjunct1[OF I] this] I
    have "ed_rx_timeout_ns e \<le> of_nat (clk (ed_net e)) - of_nat S \<longleftrightarrow> T \<le> clk (ed_net e) - S" by simp
    then show ?thesis using read_poll_step[OF ok, of e nonblock "of_nat S"] by simp
  qed
  have I0: "?I d" using d T(1) by simp
  obtain r where r: "loop fuel ?b d = Some r"
  proof (atomize_elim, rule loop_terminates[where I = ?I and m = "\<lambda>e. S + T - clk (ed_net e)"])
    fix s s' assume I: "?I s" and step: "?b s = Inl s'"
    from once[OF I] obtain skb f where f: "same_time clk s f" "\<not> T \<le> clk (ed_net s) - S"
      "s' = f\<lparr>ed_net := snd (nd_time drv (ed_net f))\<rparr>"
      using step by (auto split: if_splits)
    have "clk (ed_net s') \<le> clk (ed_net s) + 2 ^ 32" "clk (ed_net s) < clk (ed_net s')"
      using tick[of "ed_net f"] f(1,3) by (simp_all add: same_time_def)
    then show "?I s' \<and> S + T - clk (ed_net s') < S + T - clk (ed_net s)"
      using f I by (auto simp: same_time_def)
  qed (use I0 d(1) fuel in auto)
  have "\<exists>skb e. r = Some (skb, e) \<and> (skb = None \<and> \<not> nonblock \<longrightarrow> S + T < clk (ed_net e)) \<and>
      clk (ed_net e) \<le> S + T + 2 ^ 33"
    using r
  proof (induction rule: loop_invariant[where I = ?I and Q = "\<lambda>r. \<exists>skb e. r = Some (skb, e) \<and>
      (skb = None \<and> \<not> nonblock \<longrightarrow> S + T < clk (ed_net e)) \<and> clk (ed_net e) \<le> S + T + 2 ^ 33"])
    case (step s s')
    from once[OF step(1)] obtain f where f: "same_time clk s f" "\<not> T \<le> clk (ed_net s) - S"
      "s' = f\<lparr>ed_net := snd (nd_time drv (ed_net f))\<rparr>"
      using step(2) by (auto split: if_splits)
    then show ?case using tick[of "ed_net f"] step(1) by (auto simp: same_time_def)
  next
    case (exit s r)
    from once[OF exit(1)] obtain skb f where f: "same_time clk s f"
      "T \<le> clk (ed_net s) - S \<or> nonblock \<or> skb \<noteq> None"
      "r = Some (skb, f\<lparr>ed_net := snd (nd_time drv (ed_net f))\<rparr>)"
      using exit(2) by (auto split: if_splits)
    have "clk (ed_net s) < clk (snd (nd_time drv (ed_net f)))"
      "clk (snd (nd_time drv (ed_net f))) \<le> clk (ed_net s) + 2 ^ 32"
      using tick[of "ed_net f"] f(1) by (simp_all add: same_time_def)
    then show ?case using f(2,3) exit(1) by auto
  qed (rule I0)
  with r show ?thesis by auto
qed

section \<open>Properties\<close>

text \<open>
  C9: No socket buffer of the character device is lost or used twice: after any sequence of opens,
  reads, writes, ioctls and interrupts of the driver, each of the \<open>K\<close> buffers that were allocated
  is exactly once in the queue of free buffers, in the queue of received frames or with the driver,
  a free buffer is empty, and destroying the device frees each buffer that the driver does not hold
  once.
\<close>

theorem device_buffers_conserved:
  assumes "net_driver_ok drv held" "ed_reachable drv held K d"
  shows "mset (ed_free d) + mset (ed_rx d) + held (ed_net d) = mset [0..<K] \<and>
     distinct (ed_free d @ ed_rx d) \<and> (\<forall>s \<in> set (ed_free d @ ed_rx d). s \<notin># held (ed_net d)) \<and>
     (\<forall>s \<in> set (ed_free d). ed_skb_len d s = 0) \<and>
     (\<forall>freed e. ethercat_device_destroy ndo_stop d = Some (freed, e) \<longrightarrow>
        mset freed + held (ed_net d) = mset [0..<K] \<and> ed_free e = [] \<and> ed_rx e = [])"
proof -
  have own: "owned held K {#} d" by (rule reachable_owned[OF assms(2,1)])
  have all: "mset (ed_free d @ ed_rx d) + held (ed_net d) = mset [0..<K]" using own by (simp add: owned_def)
  have one: "count (mset (ed_free d @ ed_rx d)) s + count (held (ed_net d)) s \<le> 1" for s
    using mset_upt_count[of K s] unfolding all[symmetric] by simp
  have "distinct (ed_free d @ ed_rx d)"
    using one by (intro count_le_1_distinct) (meson add_leD1)
  moreover have "s \<notin># held (ed_net d)" if "s \<in> set (ed_free d @ ed_rx d)" for s
  proof -
    have "0 < count (mset (ed_free d @ ed_rx d)) s" using that by (simp only: count_greater_zero_iff set_mset_mset)
    then have "count (held (ed_net d)) s = 0" using one[of s] by linarith
    then show ?thesis by (simp add: not_in_iff)
  qed
  moreover have "mset freed + held (ed_net d) = mset [0..<K] \<and> ed_free e = [] \<and> ed_rx e = []"
    if "ethercat_device_destroy ndo_stop d = Some (freed, e)" for freed e
    using that all by (auto simp: ethercat_device_destroy_def ac_simps)
  ultimately show ?thesis using own all unfolding owned_def by auto
qed

text \<open>
  C39: The character device keeps the order of the frames: of the frames that the driver hands over,
  as many as there are free buffers are read, after those that were waiting, in the order in which
  they came, each cut to the reader's buffer and with its length as result, and nothing else is read.
\<close>

theorem device_reads_in_order:
  assumes ok: "net_driver_ok drv held" and reach: "ed_reachable drv held K d"
    and up: "ed_running d" and off: "\<not> mo_enabled (ed_monitor d)"
    and fits: "\<forall>f \<in> set fs. length f \<le> ETH_FRAME_LEN_PAGE_SIZE"
    and room: "length fs \<le> length (ed_free d) \<or> \<not> ed_polling d"
    and got: "gs = waiting_frames d @ take (length (ed_free d)) fs"
  shows "\<exists>d1 d2. run_events drv (map Received fs) d = Some d1 \<and>
     read_frames drv fuel len (length gs) d1 = Some (map (\<lambda>f. (int (length (take len f)), take len f)) gs, d2) \<and>
     ed_rx d2 = [] \<and> mset (ed_free d2) = mset (ed_free d @ ed_rx d) \<and> ed_net d2 = ed_net d"
proof -
  have own: "owned held K {#} d" by (rule reachable_owned[OF reach ok])
  obtain d1 where d1: "run_events drv (map Received fs) d = Some d1" "owned held K {#} d1" "ed_net d1 = ed_net d"
    "ed_running d1" "waiting_frames d1 = gs"
    using receive_events[OF off fits room ok own] up got by metis
  obtain d2 where d2: "read_frames drv fuel len (length gs) d1 = Some (map (\<lambda>f. (int (length (take len f)), take len f)) gs, d2)"
    "owned held K {#} d2" "waiting_frames d2 = []" "ed_net d2 = ed_net d1"
    using read_frames_all[OF d1(2,4,5)] by blast
  have "ed_rx d2 = []" using d2(3) by (simp add: waiting_frames_def)
  moreover have "mset (ed_free d2) + held (ed_net d) = mset (ed_free d @ ed_rx d) + held (ed_net d)"
    using own d2(2,4) d1(3) calculation by (simp add: owned_def)
  ultimately show ?thesis using d1(1,3) d2(1,4) by auto
qed

text \<open>
  C40: A read in the polling mode ends: if the clock goes on, it returns after at most as many rounds
  as the timeout has nanoseconds, at most \<open>2 ^ 33\<close> nanoseconds after the timeout; it reports
  \<^verbatim>\<open>ETIMEDOUT\<close> with nothing read, and not before the timeout unless it must not wait.
\<close>

theorem device_polling_read_ends:
  fixes d :: "'n ecat_device"
  assumes ok: "net_clock_ok drv clk" and poll: "ed_polling d" and none: "ed_rx d = []"
    and up: "ed_running d" "access_ok"
    and T: "unat (ed_rx_timeout_ns d) < 2 ^ 63" and fuel: "unat (ed_rx_timeout_ns d) < fuel"
  shows "\<exists>r out d'. ethercat_device_read drv fuel nonblock access_ok copy_ok len d = Some (r, out, d') \<and>
     clk (ed_net d') \<le> clk (ed_net d) + unat (ed_rx_timeout_ns d) + 2 ^ 33 \<and>
     (r = - ETIMEDOUT \<longrightarrow> out = [] \<and> (nonblock \<or> clk (ed_net d) + unat (ed_rx_timeout_ns d) < clk (ed_net d')))"
proof -
  obtain n where t: "nd_time drv (ed_net d) = (of_nat (clk (ed_net d)), n)"
    using ok unfolding net_clock_ok_def by (metis prod.collapse)
  have n: "clk (ed_net d) \<le> clk n" "clk n \<le> clk (ed_net d) + 2 ^ 32"
    using ok t unfolding net_clock_ok_def by (metis less_imp_le snd_conv)+
  obtain skb e where e: "loop fuel (read_poll_body drv nonblock (of_nat (clk (ed_net d)))) (d\<lparr>ed_net := n\<rparr>) = Some (Some (skb, e))"
    "skb = None \<and> \<not> nonblock \<longrightarrow> clk (ed_net d) + unat (ed_rx_timeout_ns d) < clk (ed_net e)"
    "clk (ed_net e) \<le> clk (ed_net d) + unat (ed_rx_timeout_ns d) + 2 ^ 33"
    using read_poll_ends[OF ok, where S = "clk (ed_net d)" and d = "d\<lparr>ed_net := n\<rparr>" and fuel = fuel and nonblock = nonblock] n T fuel
    by auto
  have f: "read_frame drv fuel nonblock d = Some (- ETIMEDOUT, skb, e)"
    using e(1) none poll by (simp add: read_frame_def dequeue_rx_def t)
  show ?thesis
    using e(2,3) up
    by (cases skb) (auto simp: ethercat_device_read_def f Let_def queue_free_def ETIMEDOUT_def EFAULT_def)
qed

section \<open>A driver that returns what it sends\<close>

text \<open>The frames that are being sent, those to be received, and the time; \<open>p\<close>: whether it polls.\<close>

type_synonym loop_net = "(nat \<times> bytes) list \<times> bytes list \<times> nat"

definition loopback :: "int \<Rightarrow> loop_net net_driver" where
  "loopback p =
     \<lparr>kn_alloc = (\<lambda>n. (Some ETH_FRAME_LEN, n)), kn_receive = (\<lambda>_ n. (True, n)),
      kn_set_flags = (\<lambda>f mo n. (0, mo\<lparr>mo_flags := f\<rparr>, n)),
      nd_xmit = (\<lambda>s b (q, r, t). (True, (q @ [(s, b)], r @ [b], t))),
      nd_poll_tx = (\<lambda>(q, r, t). (map fst q, 0, ([], r, t))),
      nd_poll_rx = (\<lambda>(q, r, t). (filter (\<lambda>f. length f \<le> ETH_FRAME_LEN) r, 0, (q, [], t))),
      nd_get_polling = (\<lambda>_. p), nd_set_polling = (\<lambda>_ n. n), nd_set_usecs = (\<lambda>_ _ n. n),
      nd_time = (\<lambda>(q, r, t). (of_nat t, (q, r, t + 100))),
      nd_irq = (\<lambda>(q, r, t). (map (Sent_finished \<circ> fst) q @ map Received r, ([], [], t))),
      nd_wait = (\<lambda>(q, r, t). (map (Sent_finished \<circ> fst) q @ map Received r, False, ([], [], t)))\<rparr>"

definition loop_held :: "loop_net \<Rightarrow> nat multiset" where "loop_held n = mset (map fst (fst n))"

definition loop_clock :: "loop_net \<Rightarrow> nat" where "loop_clock n = snd (snd n)"

lemma sent_events_sent: "sent_events (map (Sent_finished \<circ> fst) q @ map Received r) = mset (map fst q)"
  by (induction q) simp_all

lemma loopback_ok: "net_driver_ok (loopback p) loop_held"
  by (simp add: net_driver_ok_def loopback_def loop_held_def sent_events_sent split: prod.split)

lemma loopback_clock_ok: "net_clock_ok (loopback p) loop_clock"
  by (simp add: net_clock_ok_def loopback_def loop_clock_def split: prod.split)

definition loop_memory :: "loop_net ecat_device" where
  "loop_memory =
     \<lparr>ed_free = [], ed_rx = [7], ed_skb_len = (\<lambda>_. 9), ed_skb_data = (\<lambda>_. []), ed_link_state = True,
      ed_running = True, ed_poll_mask = False, ed_polling = False, ed_rx_timeout_ns = 0,
      ed_monitor = \<lparr>mo_enabled = True, mo_net_dev = False, mo_flags = 0, mo_rx_packets = 0, mo_rx_bytes = 0,
        mo_rx_dropped = 0, mo_tx_packets = 0, mo_tx_bytes = 0, mo_tx_dropped = 0\<rparr>,
      ed_tun = \<lparr>tn_cdev = False, tn_dev = DevUnset, tn_flags = 0, tn_started = False, tn_rx = [],
        tn_tx_packets = 0, tn_tx_bytes = 0\<rparr>,
      ed_net = ([], [], 0)\<rparr>"

definition loop_created :: "int \<Rightarrow> loop_net ecat_device" where
  "loop_created p =
     (case ethercat_device_create (loopback p) True True (\<lambda>_. True) 3 id True True
             (snd \<circ> ethercat_tun_device_create 0 True 0 0 0 (\<lambda>_ t. (0, t))) loop_memory of
        Some (_, Some d) \<Rightarrow> d | _ \<Rightarrow> loop_memory)"

definition loop_opened :: "int \<Rightarrow> loop_net ecat_device" where
  "loop_opened p = snd (the (ethercat_device_open (loopback p) 1 (loop_created p)))"

definition loop_written :: "int \<Rightarrow> bytes \<Rightarrow> loop_net ecat_device" where
  "loop_written p b = snd (the (ethercat_device_write (loopback p) True True b (loop_opened p)))"

lemmas loop_eval = loop_created_def loop_opened_def loop_written_def loop_memory_def loopback_def
  ethercat_device_create_def ethercat_device_open_def ethercat_device_write_def ethercat_monitor_create_def
  ethercat_tun_device_create_def poll_rx_body_def poll_tx_body_def poll_rx_def poll_tx_def dequeue_free_def
  queue_free_def monitor_frame_def ethercat_monitor_frame_def Let_def put_at_def ETH_FRAME_LEN_def eval_nat_numeral

lemma loop_created_run:
  "ethercat_device_create (loopback p) True True (\<lambda>_. True) 3 id True True
     (snd \<circ> ethercat_tun_device_create 0 True 0 0 0 (\<lambda>_ t. (0, t))) loop_memory = Some ([], Some (loop_created p))"
  by (simp add: loop_eval)

lemma loop_opened_run: "ethercat_device_open (loopback p) 1 (loop_created p) = Some (0, loop_opened p)"
  by (simp add: loop_eval)

lemma loop_written_run:
  "length b \<le> 1514 \<Longrightarrow>
     ethercat_device_write (loopback 0) True True b (loop_opened 0) = Some (int (length b), loop_written 0 b)"
  by (simp add: loop_eval)

lemma loop_reachable:
  "ed_reachable (loopback p) loop_held 3 (loop_opened p)"
  "length b \<le> 1514 \<Longrightarrow> ed_reachable (loopback 0) loop_held 3 (loop_written 0 b)"
proof -
  have none: "loop_held (id (ed_net loop_memory)) = {#}" by (simp add: loop_held_def loop_memory_def)
  have o': "ed_step (loopback p) (loop_created p) (loop_opened p)" for p
    by (rule ed_step.opened[OF loop_opened_run])
  show "ed_reachable (loopback p) loop_held 3 (loop_opened p)"
    unfolding ed_reachable_def using none loop_created_run o' by blast
  assume b: "length b \<le> 1514"
  have "ed_step (loopback 0) (loop_opened 0) (loop_written 0 b)"
    by (rule ed_step.was_written[OF loop_written_run[OF b]])
  then have "(ed_step (loopback 0))\<^sup>*\<^sup>* (loop_created 0) (loop_written 0 b)" using o'[of 0] by auto
  then show "ed_reachable (loopback 0) loop_held 3 (loop_written 0 b)"
    unfolding ed_reachable_def using none loop_created_run by blast
qed

section \<open>The properties on this driver\<close>

lemma loop_written_net: "length b \<le> 1514 \<Longrightarrow> ed_net (loop_written 0 b) = ([(0, b)], [b], 0)"
  by (simp add: loop_eval)

lemma loop_opened_state:
  "ed_free (loop_opened p) = [0, 1, 2]" "ed_rx (loop_opened p) = []" "ed_running (loop_opened p)"
  "\<not> mo_enabled (ed_monitor (loop_opened p))" "ed_polling (loop_opened p) = (p > 0)"
  "ed_rx_timeout_ns (loop_opened p) = 1000000" "ed_net (loop_opened p) = ([], [], 0)"
  by (simp_all add: loop_eval)

lemma device_buffers_conserved_witness:
  "loop_held (ed_net (loop_written 0 [1, 2, 3])) = {#0#} \<and>
   mset (ed_free (loop_written 0 [1, 2, 3])) + mset (ed_rx (loop_written 0 [1, 2, 3])) + {#0#} = mset [0..<3]"
proof -
  have h: "loop_held (ed_net (loop_written 0 [1, 2, 3])) = {#0#}"
    by (simp add: loop_written_net loop_held_def)
  have "length [1, 2, 3 :: 8 word] \<le> 1514" by simp
  from conjunct1[OF device_buffers_conserved[OF loopback_ok loop_reachable(2)[OF this]]]
  show ?thesis unfolding h by (simp only: simp_thms)
qed

text \<open>Four frames for three buffers, and a reader with room for two bytes.\<close>

lemma device_reads_in_order_witness:
  "\<exists>d1 d2. run_events (loopback 0) (map Received [[1], [2, 3, 4], [5], [6]]) (loop_opened 0) = Some d1 \<and>
     read_frames (loopback 0) 1 2 3 d1 = Some ([(1, [1]), (2, [2, 3]), (1, [5])], d2)"
proof -
  let ?fs = "[[1], [2, 3, 4], [5], [6]] :: bytes list" and ?d = "loop_opened 0"
  have gs: "[[1], [2, 3, 4], [5]] = waiting_frames ?d @ take (length (ed_free ?d)) ?fs"
    by (simp add: loop_opened_state waiting_frames_def)
  have fits: "\<forall>f \<in> set ?fs. length f \<le> ETH_FRAME_LEN_PAGE_SIZE" by (simp add: ETH_FRAME_LEN_PAGE_SIZE_def)
  have room: "length ?fs \<le> length (ed_free ?d) \<or> \<not> ed_polling ?d" by (simp add: loop_opened_state)
  have "\<exists>d1 d2. run_events (loopback 0) (map Received ?fs) ?d = Some d1 \<and>
     read_frames (loopback 0) 1 2 (length [[1], [2, 3, 4], [5 :: 8 word]]) d1 =
       Some (map (\<lambda>f. (int (length (take 2 f)), take 2 f)) [[1], [2, 3, 4], [5]], d2) \<and>
     ed_rx d2 = [] \<and> mset (ed_free d2) = mset (ed_free ?d @ ed_rx ?d) \<and> ed_net d2 = ed_net ?d"
    by (rule device_reads_in_order[OF loopback_ok loop_reachable(1) loop_opened_state(3,4) fits room gs])
  then show ?thesis by (simp add: eval_nat_numeral del: map_map) blast
qed

lemma device_polling_read_ends_witness:
  "\<exists>r out d'. ethercat_device_read (loopback 1) 1000001 False True True 1514 (loop_opened 1) = Some (r, out, d') \<and>
     (r = - ETIMEDOUT \<longrightarrow> out = [] \<and> 1000000 < loop_clock (ed_net d'))"
proof -
  have u: "unat (ed_rx_timeout_ns (loop_opened 1)) = 1000000" by (simp add: loop_opened_state)
  have "ed_polling (loop_opened 1)" "unat (ed_rx_timeout_ns (loop_opened 1)) < 2 ^ 63"
    "unat (ed_rx_timeout_ns (loop_opened 1)) < 1000001"
    unfolding u by (simp_all add: loop_opened_state)
  from device_polling_read_ends[OF loopback_clock_ok[of 1] this(1) loop_opened_state(2,3) TrueI this(2,3),
    where nonblock = False and copy_ok = True and len = 1514]
  show ?thesis unfolding u by (auto simp: loop_opened_state loop_clock_def)
qed

end
