(* ===== verification/Hw_File_Correct.thy ===== *)
theory Hw_File_Correct
  imports Hw_File Ethercat_Device_Correct
begin

text \<open>
  The hardware layer over the file device over the kernel module: in the polling mode, the file
  device keeps what \<open>tx_device\<close> promises, and the frames that come back reach the callbacks.
\<close>

section \<open>A driver whose frames come back\<close>

text \<open>
  \<open>pend n\<close>: the frames that will be received. Every Ethernet frame is sent at once, and comes back.
\<close>

definition net_echo :: "('n, 'z) net_driver_scheme \<Rightarrow> ('n \<Rightarrow> nat multiset) \<Rightarrow> ('n \<Rightarrow> bytes list) \<Rightarrow> bool" where
  "net_echo drv held pend \<longleftrightarrow>
     (\<forall>s b n. length b \<le> ETH_FRAME_LEN \<longrightarrow> fst (nd_xmit drv s b n) \<and> pend (snd (nd_xmit drv s b n)) = pend n @ [b]) \<and>
     (\<forall>n. held (snd (snd (nd_poll_tx drv n))) = {#} \<and> pend (snd (snd (nd_poll_tx drv n))) = pend n) \<and>
     (\<forall>n. fst (nd_poll_rx drv n) = pend n \<and> pend (snd (snd (nd_poll_rx drv n))) = []) \<and>
     (\<forall>n. pend (snd (nd_time drv n)) = pend n)"

text \<open>The character device in the polling mode, with nothing at the driver.\<close>

definition polled :: "('n \<Rightarrow> nat multiset) \<Rightarrow> nat \<Rightarrow> 'n ecat_device \<Rightarrow> bool" where
  "polled held K d \<longleftrightarrow>
     owned held K {#} d \<and> held (ed_net d) = {#} \<and> ed_running d \<and> ed_polling d \<and> \<not> mo_enabled (ed_monitor d)"

lemma polled_free: "polled held K d \<Longrightarrow> length (ed_free d) + length (waiting_frames d) = K"
proof -
  assume "polled held K d"
  then have "mset (ed_free d) + mset (ed_rx d) = mset [0..<K]" by (auto simp: polled_def owned_def)
  then have "size (mset (ed_free d) + mset (ed_rx d)) = size (mset [0..<K])" by (rule arg_cong)
  then show ?thesis by (simp only: size_union size_mset length_upt diff_zero waiting_frames_def length_map)
qed

lemma poll_tx_fields [simp]:
  "ed_running (snd (poll_tx drv d)) = ed_running d" "ed_polling (snd (poll_tx drv d)) = ed_polling d"
  "ed_monitor (snd (poll_tx drv d)) = ed_monitor d" "ed_rx (snd (poll_tx drv d)) = ed_rx d"
  "ed_net (snd (poll_tx drv d)) = snd (snd (nd_poll_tx drv (ed_net d)))"
proof -
  have "ed_running (fold queue_free ss d) = ed_running d \<and> ed_polling (fold queue_free ss d) = ed_polling d \<and>
      ed_monitor (fold queue_free ss d) = ed_monitor d \<and> ed_rx (fold queue_free ss d) = ed_rx d" for ss and d :: "'a ecat_device"
    by (induction ss arbitrary: d) (simp_all add: queue_free_def)
  then show "ed_running (snd (poll_tx drv d)) = ed_running d" "ed_polling (snd (poll_tx drv d)) = ed_polling d"
    "ed_monitor (snd (poll_tx drv d)) = ed_monitor d" "ed_rx (snd (poll_tx drv d)) = ed_rx d"
    "ed_net (snd (poll_tx drv d)) = snd (snd (nd_poll_tx drv (ed_net d)))"
    by (simp_all add: poll_tx_def split: prod.split)
qed

lemma write_polled:
  assumes ok: "net_driver_ok drv held" "net_echo drv held pend" and d: "polled held K d" "ed_free d \<noteq> []"
    and len: "length b \<le> ETH_FRAME_LEN"
  shows "\<exists>e. ethercat_device_write drv True True b d = Some (int (length b), e) \<and> polled held K e \<and>
     waiting_frames e = waiting_frames d \<and> pend (ed_net e) = pend (ed_net d) @ [b]"
proof -
  obtain s ss where s: "ed_free d = s # ss" using d(2) by (cases "ed_free d") auto
  obtain n where x: "nd_xmit drv s b (ed_net d) = (True, n)" "pend n = pend (ed_net d) @ [b]"
  proof -
    have "fst (nd_xmit drv s b (ed_net d)) \<and> pend (snd (nd_xmit drv s b (ed_net d))) = pend (ed_net d) @ [b]"
      using ok(2) len unfolding net_echo_def by blast
    then show thesis using that by (cases "nd_xmit drv s b (ed_net d)") auto
  qed
  let ?d = "d\<lparr>ed_free := ss, ed_skb_len := (ed_skb_len d)(s := length b),
              ed_skb_data := (ed_skb_data d)(s := put_at 0 b (ed_skb_data d s)), ed_net := n\<rparr>"
  let ?e = "snd (poll_tx drv ?d)"
  have run: "ethercat_device_write drv True True b d = Some (int (length b), ?e)"
    using d(1) len
    by (simp add: ethercat_device_write_def dequeue_free_def s polled_def Let_def put_at_0 x(1) monitor_frame_off)
  have "owned held K {#} d" using d(1) by (simp add: polled_def)
  from write_keeps[OF ok(1) this run] have k: "owned held K {#} ?e" "waiting_frames ?e = waiting_frames d" by blast+
  have "held (ed_net ?e) = {#}" "pend (ed_net ?e) = pend n"
    using ok(2) unfolding net_echo_def by simp_all
  then show ?thesis
    using d(1) k x(2) by (intro exI[of _ ?e]) (simp add: run polled_def)
qed

text \<open>The frames that the reader will get, as long as there are buffers for them.\<close>

definition coming :: "('n \<Rightarrow> bytes list) \<Rightarrow> 'n ecat_device \<Rightarrow> bytes list" where
  "coming pend d = waiting_frames d @ pend (ed_net d)"

lemma read_polled_waiting:
  assumes d: "polled held K d" and w: "waiting_frames d = f # fs" and len: "length f \<le> l"
  shows "\<exists>e. ethercat_device_read drv fuel nonblock True True l d = Some (int (length f), f, e) \<and> polled held K e \<and>
     waiting_frames e = fs \<and> ed_net e = ed_net d"
proof -
  have own: "owned held K {#} d" and up: "ed_running d" using d by (simp_all add: polled_def)
  obtain e where e: "ethercat_device_read drv fuel nonblock True True l d = Some (int (length (take l f)), take l f, e)"
    "owned held K {#} e" "ed_running e" "waiting_frames e = fs" "ed_net e = ed_net d"
    using read_waiting_frame[OF own up w] by blast
  obtain s ss where rx: "ed_rx d = s # ss" using w by (auto simp: waiting_frames_def)
  have "ed_polling e = ed_polling d \<and> ed_monitor e = ed_monitor d"
    using e(1) up
    by (auto simp: ethercat_device_read_def read_frame_def dequeue_rx_def rx Let_def queue_free_def)
  then show ?thesis using e d len by (auto simp: polled_def)
qed

lemma receive_events_fields:
  assumes "\<not> mo_enabled (ed_monitor d)" "run_events drv (map Received fs) d = Some e" "length fs \<le> length (ed_free d)"
  shows "ed_polling e = ed_polling d \<and> ed_monitor e = ed_monitor d"
  using assms
proof (induction fs arbitrary: d)
  case (Cons f fs)
  then obtain s ss where s: "ed_free d = s # ss" by (cases "ed_free d") auto
  let ?d = "d\<lparr>ed_free := ss, ed_skb_len := (ed_skb_len d)(s := length f),
              ed_skb_data := (ed_skb_data d)(s := put_at 0 f (ed_skb_data d s)), ed_rx := ed_rx d @ [s],
              ed_poll_mask := ed_poll_mask d \<or> \<not> ed_polling d\<rparr>"
  have "run_events drv (map Received fs) ?d = Some e"
    using Cons.prems s
    by (auto simp: receive_free_buffer free_buffer_def dequeue_free_def monitor_frame_off bind_eq_Some_conv split: if_splits)
  from Cons.IH[OF _ this] Cons.prems s show ?case by simp
qed simp

lemma read_polled_new:
  assumes ok: "net_driver_ok drv held" "net_echo drv held pend" and d: "polled held K d" "waiting_frames d = []"
    and p: "pend (ed_net d) = f # fs" "length (f # fs) \<le> K" "\<forall>g \<in> set (f # fs). length g \<le> ETH_FRAME_LEN"
    and len: "length f \<le> l" "0 < fuel"
  shows "\<exists>e. ethercat_device_read drv fuel nonblock True True l d = Some (int (length f), f, e) \<and> polled held K e \<and>
     waiting_frames e = fs \<and> pend (ed_net e) = []"
proof -
  obtain start n where t: "nd_time drv (ed_net d) = (start, n)" by fastforce
  have n: "held n = {#}" "pend n = f # fs"
    using time_held[OF ok(1) t] d(1) ok(2) t p(1) unfolding net_echo_def polled_def by (metis snd_conv)+
  define d1 where "d1 = snd (poll_tx drv (d\<lparr>ed_net := n\<rparr>))"
  have "owned held K {#} (d\<lparr>ed_net := n\<rparr>)"
    using d(1) n(1) by (auto simp: polled_def intro: owned_cong)
  from poll_tx_keeps[OF ok(1) this] have k0: "keeps held K {#} [] (d\<lparr>ed_net := n\<rparr>) d1" by (simp add: d1_def)
  have k1: "owned held K {#} d1" "waiting_frames d1 = []"
    using keeps_owned[OF k0] keeps_frames[OF k0] d(2) by (simp_all add: waiting_frames_set_net)
  have n1: "held (ed_net d1) = {#}" "pend (ed_net d1) = f # fs"
    using ok(2) n(2) unfolding net_echo_def by (simp_all add: d1_def)
  have f1: "ed_running d1" "ed_polling d1" "\<not> mo_enabled (ed_monitor d1)"
    using d(1) by (simp_all add: d1_def polled_def)
  obtain frames r n2 where x: "nd_poll_rx drv (ed_net d1) = (frames, r, n2)" by (metis prod_cases3)
  have fr: "frames = f # fs" "pend n2 = []" "held n2 = {#}"
    using ok n1 x unfolding net_echo_def net_driver_ok_def by (metis fst_conv snd_conv)+
  have p1: "polled held K (d1\<lparr>ed_net := n2\<rparr>)"
    using k1(1) f1 fr(3) n1(1) by (auto simp: polled_def intro: owned_cong)
  have room: "length (f # fs) \<le> length (ed_free d1)"
    using polled_free[OF p1] p(2) k1(2) by (simp add: waiting_frames_set_net)
  have fits: "\<forall>g \<in> set (f # fs). length g \<le> ETH_FRAME_LEN_PAGE_SIZE" using p(3) frame_len_page by fastforce
  obtain d2 where d2: "run_events drv (map Received (f # fs)) (d1\<lparr>ed_net := n2\<rparr>) = Some d2" "owned held K {#} d2"
    "ed_net d2 = n2" "ed_running d2" "waiting_frames d2 = f # fs"
    using receive_events[of "d1\<lparr>ed_net := n2\<rparr>" "f # fs" drv held K] p1 ok(1) room fits f1 k1(2)
    by (auto simp: polled_def waiting_frames_set_net)
  have keep2: "ed_polling d2 \<and> ed_monitor d2 = ed_monitor d1"
    using receive_events_fields[OF _ d2(1)] f1 room by simp
  have prx: "poll_rx drv d1 = Some (r, d2)" using d2(1) by (simp add: poll_rx_def x fr(1))
  obtain s ss where rx: "ed_rx d2 = s # ss" using d2(5) by (auto simp: waiting_frames_def)
  define e where "e = d2\<lparr>ed_rx := ss\<rparr>"
  have q: "dequeue_rx d2 = (Some s, e)" by (simp add: dequeue_rx_def rx e_def)
  obtain now n3 where t3: "nd_time drv n2 = (now, n3)" by fastforce
  have n3: "held n3 = {#}" "pend n3 = []"
    using time_held[OF ok(1) t3] fr(2,3) ok(2) t3 unfolding net_echo_def by (metis snd_conv)+
  let ?e = "e\<lparr>ed_net := n3\<rparr>"
  have body: "read_poll_body drv nonblock start (d\<lparr>ed_net := n\<rparr>) = Inr (Some (Some s, ?e))"
    using t3 d2(3) by (simp add: read_poll_body_def d1_def[symmetric] prx q e_def)
  have lp: "loop fuel (read_poll_body drv nonblock start) (d\<lparr>ed_net := n\<rparr>) = Some (Some (Some s, ?e))"
    by (rule loop_once) (fact body, fact len(2))
  have none: "ed_rx d = []" using d(2) by (simp add: waiting_frames_def)
  have "read_frame drv fuel nonblock d = Some (- ETIMEDOUT, Some s, ?e)"
    using d(1) lp by (simp add: read_frame_def dequeue_rx_def none t polled_def)
  moreover note tk = dequeue_rx_taken[OF d2(2) q]
  have own_e: "owned held K (add_mset s {#}) ?e" and fe: "f = take (ed_skb_len e s) (ed_skb_data e s)" "waiting_frames e = fs"
    and le: "ed_skb_len e s \<le> length (ed_skb_data e s)"
    using tk n3(1) d2(3,5) fr(3) by (auto simp: frame_taken_def handed_def owned_def e_def)
  moreover have lf: "length f = ed_skb_len e s" using le by (simp add: fe(1))
  then have "min l (ed_skb_len e s) = ed_skb_len e s" using len(1) by simp
  ultimately have "ethercat_device_read drv fuel nonblock True True l d = Some (int (length f), f, queue_free s ?e)"
    using d(1) by (simp add: ethercat_device_read_def polled_def Let_def fe(1)[symmetric] lf)
  moreover have "polled held K (queue_free s ?e)"
    using owned_queue_free(1)[OF own_e] n3(1) d2(4) keep2 f1 by (simp add: polled_def queue_free_def e_def)
  moreover have "waiting_frames (queue_free s ?e) = fs" "pend (ed_net (queue_free s ?e)) = []"
    using owned_queue_free(2)[OF own_e] fe(2) n3(2) by (simp_all add: queue_free_def waiting_frames_set_net)
  ultimately show ?thesis by blast
qed

lemma read_polled:
  assumes ok: "net_driver_ok drv held" "net_echo drv held pend" and d: "polled held K d" "coming pend d = f # fs"
    and p: "length (pend (ed_net d)) + length (waiting_frames d) \<le> K" "\<forall>g \<in> set (f # fs). length g \<le> ETH_FRAME_LEN"
    and len: "ETH_FRAME_LEN \<le> l" "0 < fuel"
  shows "\<exists>e. ethercat_device_read drv fuel nonblock True True l d = Some (int (length f), f, e) \<and> polled held K e \<and>
     coming pend e = fs \<and> length (pend (ed_net e)) + length (waiting_frames e) \<le> K"
proof (cases "waiting_frames d")
  case Nil
  have l: "length f \<le> l" using p(2) len(1) by simp
  show ?thesis
    using read_polled_new[OF ok d(1) Nil, of f fs l fuel nonblock] d(2) p Nil l len(2) by (auto simp: coming_def)
next
  case (Cons g gs)
  then have g: "g = f" "fs = gs @ pend (ed_net d)" using d(2) by (simp_all add: coming_def)
  have l: "length f \<le> l" using p(2) len(1) by simp
  obtain e where "ethercat_device_read drv fuel nonblock True True l d = Some (int (length f), f, e)" "polled held K e"
    "waiting_frames e = gs" "ed_net e = ed_net d"
    using read_polled_waiting[OF d(1) _ l, of gs drv fuel nonblock] Cons g(1) by auto
  then show ?thesis using g(2) p(1) Cons by (auto simp: coming_def)
qed

section \<open>The file device keeps the promise\<close>

text \<open>
  \<open>file_ok\<close>: the device is open in the polling mode, has buffers, and counts the frames that will
  come back.
\<close>

definition file_ok ::
  "('n, 'z) net_driver_scheme \<Rightarrow> ('n \<Rightarrow> nat multiset) \<Rightarrow> ('n \<Rightarrow> bytes list) \<Rightarrow> nat \<Rightarrow> u64 \<Rightarrow> 'n hw_file \<Rightarrow> bool" where
  "file_ok drv held pend K ns hf \<longleftrightarrow>
     net_driver_ok drv held \<and> net_echo drv held pend \<and> polled held K (hf_dev hf) \<and> 0 < K \<and>
     waiting_frames (hf_dev hf) = [] \<and> length (hf_send_frame hf) = EC_ETH_FRAME_LEN \<and>
     length (hf_recv_frame hf) = EC_ETH_FRAME_LEN \<and> hf_polling_mode hf \<and> \<not> hf_exited hf \<and>
     hf_rx_timeout_ns hf = ns \<and> hf_frames_send hf = int (length (pend (ed_net (hf_dev hf))))"

lemma file_get_tx_buffer:
  assumes "file_ok drv held pend K ns hf"
  shows "\<exists>buf hf'. hw_device_file_get_tx_buffer hf = (EC_OK, buf, hf') \<and> file_ok drv held pend K ns hf' \<and>
     pend (ed_net (hf_dev hf')) = pend (ed_net (hf_dev hf)) \<and>
     length buf = EC_ETH_FRAME_LEN \<and> ec_frame_length buf = 16 \<and> fr_ethertype buf = ETH_P_ECAT"
proof -
  have "length ETH_P_ECAT = 2" by (simp add: ETH_P_ECAT_def)
  then show ?thesis
    using assms
    by (simp add: file_ok_def hw_device_file_get_tx_buffer_def Let_def buf_simps fr_ethertype_def[of "put_at _ _ _"])
qed

lemma file_send:
  assumes ok: "file_ok drv held pend K ns hf" and len: "length buf = EC_ETH_FRAME_LEN" "ec_frame_length buf \<le> ETH_FRAME_LEN"
  shows "\<exists>hf'. hw_device_file_send drv buf t hf = (EC_OK, hf') \<and> file_ok drv held pend K ns hf' \<and>
     pend (ed_net (hf_dev hf')) = pend (ed_net (hf_dev hf)) @ [take (ec_frame_length buf) buf]"
proof -
  let ?f = "take (ec_frame_length buf) buf"
  have lf: "length ?f = ec_frame_length buf" using len by (simp add: ETH_FRAME_LEN_def)
  have d: "polled held K (hf_dev hf)" "net_driver_ok drv held" "net_echo drv held pend" using ok by (simp_all add: file_ok_def)
  have free: "ed_free (hf_dev hf) \<noteq> []" using polled_free[OF d(1)] ok by (auto simp: file_ok_def)
  obtain e where e: "ethercat_device_write drv True True ?f (hf_dev hf) = Some (int (length ?f), e)" "polled held K e"
    "waiting_frames e = waiting_frames (hf_dev hf)" "pend (ed_net e) = pend (ed_net (hf_dev hf)) @ [?f]"
    using write_polled[OF d(2,3,1) free, of ?f] len(2) lf by auto
  show ?thesis
    using ok e(2-4) len(1) by (simp add: hw_device_file_send_def e(1)[unfolded lf] file_ok_def Let_def)
qed

interpretation kfile: tx_device "hw_file_device drv" "file_ok drv held pend K ns" "file_ok drv held pend K ns"
    "\<lambda>hf. pend (ed_net (hf_dev hf))" EC_ETH_FRAME_LEN ETH_FRAME_LEN for drv held pend K ns
proof (unfold_locales, goal_cases)
  case (1 hf)
  from file_get_tx_buffer[OF this] show ?case by (simp add: hw_file_device_def)
next
  case 2
  then show ?case .
next
  case (3 hf buf t)
  from file_send[OF this, of t] show ?case by (auto simp: hw_file_device_def)
next
  case (4 hf buf t)
  from file_send[OF this, of t] show ?case by (auto simp: hw_file_device_def)
qed

section \<open>Receiving in the polling mode\<close>

text \<open>\<open>fs\<close> are the frames to be received; a timer of \<open>ns\<close> nanoseconds does not expire at once.\<close>

definition timer_lasts :: "('n, 'z) net_driver_scheme \<Rightarrow> osal_timers \<Rightarrow> u64 \<Rightarrow> bool" where
  "timer_lasts drv tm ns \<longleftrightarrow>
     (\<forall>n. \<not> tm_expired tm (unat (fst (nd_time drv (snd (nd_time drv n)))))
             (tm_init tm (unat (fst (nd_time drv n))) (unat ns)))"

definition receiving ::
  "('n, 'z) net_driver_scheme \<Rightarrow> ('n \<Rightarrow> nat multiset) \<Rightarrow> ('n \<Rightarrow> bytes list) \<Rightarrow> nat \<Rightarrow> u64 \<Rightarrow> bytes list \<Rightarrow> 'n hw_file \<Rightarrow> bool" where
  "receiving drv held pend K ns fs hf \<longleftrightarrow>
     net_driver_ok drv held \<and> net_echo drv held pend \<and> polled held K (hf_dev hf) \<and>
     coming pend (hf_dev hf) = fs \<and> length (pend (ed_net (hf_dev hf))) + length (waiting_frames (hf_dev hf)) \<le> K \<and>
     length (hf_recv_frame hf) = EC_ETH_FRAME_LEN \<and> hf_polling_mode hf \<and>
     hf_rx_timeout_ns hf = ns \<and> hf_frames_send hf = int (length fs)"

lemma hf_time_receiving:
  assumes "receiving drv held pend K ns fs hf" "hf_time drv hf = (now, hf')"
  shows "receiving drv held pend K ns fs hf'" "now = unat (fst (nd_time drv (ed_net (hf_dev hf))))"
    "ed_net (hf_dev hf') = snd (nd_time drv (ed_net (hf_dev hf)))"
proof -
  obtain w n where t: "nd_time drv (ed_net (hf_dev hf)) = (w, n)" by fastforce
  have ok: "net_driver_ok drv held" "net_echo drv held pend" and d: "polled held K (hf_dev hf)"
    using assms(1) by (simp_all add: receiving_def)
  have "pend (snd (nd_time drv (ed_net (hf_dev hf)))) = pend (ed_net (hf_dev hf))"
    using ok(2) unfolding net_echo_def by blast
  then have n: "pend n = pend (ed_net (hf_dev hf))" "held n = held (ed_net (hf_dev hf))"
    using time_held[OF ok(1) t] by (simp_all add: t)
  have hf': "hf' = hf\<lparr>hf_dev := (hf_dev hf)\<lparr>ed_net := n\<rparr>\<rparr>" "now = unat w" using assms(2) t by (simp_all add: hf_time_def)
  have "polled held K ((hf_dev hf)\<lparr>ed_net := n\<rparr>)"
    using d n(2) by (auto simp: polled_def intro: owned_cong)
  then show "receiving drv held pend K ns fs hf'" "now = unat (fst (nd_time drv (ed_net (hf_dev hf))))"
    "ed_net (hf_dev hf') = snd (nd_time drv (ed_net (hf_dev hf)))"
    using assms(1) n t by (auto simp: hf' receiving_def coming_def waiting_frames_set_net)
qed

lemma recv_internal_log:
  assumes rec: "receiving drv held pend K ns (f # fs) hf" and fits: "\<forall>g \<in> set (f # fs). length g \<le> ETH_FRAME_LEN"
    and f: "frame_of c f" "c \<noteq> []" "\<forall>d\<in>set c. wf_dg d"
    and own: "marked hw own (c @ ms)" "distinct (map (\<lambda>m. dg_idx m 0) (c @ ms))" and fuel: "0 < fuel"
  shows "\<exists>hf' hw'. hw_device_file_recv_internal drv fuel rx_log (hf, hw, l) =
       Some (True, hf', hw', l @ map (\<lambda>m. (own (dg_idx m 0), dg_set_next False 0 m)) c) \<and>
     receiving drv held pend K ns fs (hf'\<lparr>hf_frames_send := hf_frames_send hf' - 1\<rparr>) \<and> marked hw' own ms"
proof -
  have ok: "net_driver_ok drv held" "net_echo drv held pend" and d: "polled held K (hf_dev hf)"
      "coming pend (hf_dev hf) = f # fs"
      "length (pend (ed_net (hf_dev hf))) + length (waiting_frames (hf_dev hf)) \<le> K"
    using rec by (simp_all add: receiving_def)
  obtain e where e: "ethercat_device_read drv fuel (hf_nonblock hf) True True EC_ETH_FRAME_LEN (hf_dev hf) = Some (int (length f), f, e)"
    "polled held K e" "coming pend e = fs" "length (pend (ed_net e)) + length (waiting_frames e) \<le> K"
    using read_polled[OF ok d(1,2,3) fits _ fuel, of EC_ETH_FRAME_LEN "hf_nonblock hf"] by (auto simp: ETH_FRAME_LEN_def)
  have "16 \<le> length f" using f(1) by (auto simp: frame_of_def)
  then have pos: "int (length f) > 0" by linarith
  have buf: "put_at 0 f (hf_recv_frame hf) = f @ drop (length f) (hf_recv_frame hf)"
    by (simp add: put_at_def)
  obtain hw' where hw': "hw_process_rx_frame rx_log (f @ drop (length f) (hf_recv_frame hf)) (hw, l)
       = Some (True, hw', l @ map (\<lambda>m. (own (dg_idx m 0), dg_set_next False 0 m)) c)" "marked hw' own ms"
    using rx_frame_log[OF f own] by blast
  let ?hf = "hf\<lparr>hf_dev := e, hf_recv_frame := f @ drop (length f) (hf_recv_frame hf)\<rparr>"
  have body: "file_recv_body drv fuel rx_log (hf, hw, l) =
      Inr (Some (True, ?hf, hw', l @ map (\<lambda>m. (own (dg_idx m 0), dg_set_next False 0 m)) c))"
    using pos by (simp add: file_recv_body_def e(1) buf hw'(1) del: EC_ETH_FRAME_LEN_def)
  have "loop fuel (file_recv_body drv fuel rx_log) (hf, hw, l) =
      Some (Some (True, ?hf, hw', l @ map (\<lambda>m. (own (dg_idx m 0), dg_set_next False 0 m)) c))"
    by (rule loop_once) (fact body, fact fuel)
  moreover have "length f \<le> EC_ETH_FRAME_LEN" using fits by (simp add: ETH_FRAME_LEN_def)
  then have "receiving drv held pend K ns fs (?hf\<lparr>hf_frames_send := hf_frames_send ?hf - 1\<rparr>)"
    using rec e(2-4) by (simp add: receiving_def)
  ultimately show ?thesis using hw'(2) by (simp add: hw_device_file_recv_internal_def)
qed

lemma finished_body_log:
  assumes rec: "receiving drv held pend K ns (f # fs) hf" and fits: "\<forall>g \<in> set (f # fs). length g \<le> ETH_FRAME_LEN"
    and f: "frame_of c f" "c \<noteq> []" "\<forall>d\<in>set c. wf_dg d"
    and own: "marked hw own (c @ ms)" "distinct (map (\<lambda>m. dg_idx m 0) (c @ ms))" and fuel: "0 < fuel"
    and tm: "timer_lasts drv tm ns"
  shows "\<exists>hf' hw'. file_finished_body drv tm fuel rx_log (hf, hw, l) =
       Inl (hf', hw', l @ map (\<lambda>m. (own (dg_idx m 0), dg_set_next False 0 m)) c) \<and>
     receiving drv held pend K ns fs hf' \<and> marked hw' own ms"
proof -
  let ?h0 = "hf\<lparr>hf_bytes_last_sent := hf_bytes_sent hf, hf_bytes_sent := 0\<rparr>"
  have r0: "receiving drv held pend K ns (f # fs) ?h0" using rec by (simp add: receiving_def)
  obtain now h1 where t1: "hf_time drv ?h0 = (now, h1)" by fastforce
  note r1 = hf_time_receiving[OF r0 t1]
  obtain now2 h2 where t2: "hf_time drv h1 = (now2, h2)" by fastforce
  note r2 = hf_time_receiving[OF r1(1) t2]
  have live: "\<not> tm_expired tm now2 (tm_init tm now (unat ns))"
    using tm unfolding timer_lasts_def r2(2) r1(2,3) by simp
  obtain h3 hw' where h3: "hw_device_file_recv_internal drv fuel rx_log (h2, hw, l) =
       Some (True, h3, hw', l @ map (\<lambda>m. (own (dg_idx m 0), dg_set_next False 0 m)) c)"
     "receiving drv held pend K ns fs (h3\<lparr>hf_frames_send := hf_frames_send h3 - 1\<rparr>)" "marked hw' own ms"
    using recv_internal_log[OF r2(1) fits f own fuel] by blast
  have ns: "hf_rx_timeout_ns h1 = ns" using r1(1) by (simp add: receiving_def)
  have body: "file_wait_body drv tm fuel rx_log (tm_init tm now (unat ns)) (h1, hw, l) =
      Inr (Some (True, h3\<lparr>hf_frames_send := hf_frames_send h3 - 1\<rparr>, hw', l @ map (\<lambda>m. (own (dg_idx m 0), dg_set_next False 0 m)) c))"
    by (simp add: file_wait_body_def t2 live h3(1))
  have "loop fuel (file_wait_body drv tm fuel rx_log (tm_init tm now (unat ns))) (h1, hw, l) =
      Some (Some (True, h3\<lparr>hf_frames_send := hf_frames_send h3 - 1\<rparr>, hw', l @ map (\<lambda>m. (own (dg_idx m 0), dg_set_next False 0 m)) c))"
    by (rule loop_once) (fact body, fact fuel)
  moreover have "hf_frames_send hf > 0" using rec by (simp add: receiving_def)
  ultimately show ?thesis
    using h3(2,3) by (simp add: file_finished_body_def t1 ns)
qed

lemma finished_loop_log:
  assumes "list_all2 frame_of cs fs" "receiving drv held pend K ns fs hf" "\<forall>g \<in> set fs. length g \<le> ETH_FRAME_LEN"
    and "\<forall>c\<in>set cs. c \<noteq> []" "\<forall>d\<in>set (concat cs). wf_dg d"
    and "marked hw own (concat cs)" "distinct (map (\<lambda>m. dg_idx m 0) (concat cs))"
    and "length fs < n" "0 < fuel" "timer_lasts drv tm ns"
  shows "\<exists>hf' hw'. loop n (file_finished_body drv tm fuel rx_log) (hf, hw, l) =
       Some (Some (hf', hw', l @ map (\<lambda>m. (own (dg_idx m 0), dg_set_next False 0 m)) (concat cs))) \<and>
     receiving drv held pend K ns [] hf'"
  using assms
proof (induction arbitrary: hf hw l n rule: list_all2_induct)
  case Nil
  then have "file_finished_body drv tm fuel rx_log (hf, hw, l) = Inr (Some (hf, hw, l))"
    by (simp add: file_finished_body_def receiving_def)
  then show ?case using Nil by (cases n) simp_all
next
  case (Cons c cs f fs)
  obtain k where n: "n = Suc k" "length fs < k" using Cons.prems(7) by (cases n) auto
  obtain h1 hw1 where b: "file_finished_body drv tm fuel rx_log (hf, hw, l) =
       Inl (h1, hw1, l @ map (\<lambda>m. (own (dg_idx m 0), dg_set_next False 0 m)) c)"
     "receiving drv held pend K ns fs h1" "marked hw1 own (concat cs)"
    using finished_body_log[OF Cons.prems(1,2) Cons.hyps(1), of hw own "concat cs" fuel tm l] Cons.prems
    by (auto simp del: EC_ETH_FRAME_LEN_def)
  from Cons.IH[OF b(2) _ _ _ b(3) _ n(2) Cons.prems(8,9), of "l @ map (\<lambda>m. (own (dg_idx m 0), dg_set_next False 0 m)) c"]
  show ?case using Cons.prems b(1) by (auto simp: n(1))
qed

section \<open>From the queue to the callbacks\<close>

text \<open>
  C7: The library over the kernel module: when the queued datagrams are sent through the file device
  in the polling mode and the driver receives back what it sent, no error ends the process, all
  frames are received before \<^verbatim>\<open>send_finished\<close> returns, and the callback of every entry is called
  exactly once, in the order of the queue, with its datagram.
\<close>

theorem file_device_roundtrip:
  assumes ok: "file_ok drv held pend K ns hf" and empty: "pend (ed_net (hf_dev hf)) = []"
    and snd: "\<forall>p\<in>set (avail (hw_pool t hw)). sendable hw p \<and> pe_user_cb (hw_entries hw p) \<noteq> None"
    and idx: "distinct (map (\<lambda>p. dg_idx (dg_of hw p) 0) (avail (hw_pool t hw)))"
    and mtu: "hw_mtu_size hw \<le> ETH_FRAME_LEN" and room: "length (avail (hw_pool t hw)) \<le> K"
    and tm: "timer_lasts drv tm ns" and fuel: "length (avail (hw_pool t hw)) < fuel"
  shows "\<exists>sent hw1 hf1 hw2 hf2. hw_tx_pool os (hw_file_device drv) t (hw, hf) = Some (sent, hw1, hf1) \<and>
     \<not> hf_exited hf1 \<and> avail (hw_pool t hw1) = [] \<and>
     hw_device_file_send_finished drv tm fuel rx_log (hf1, hw1, []) =
       Some (hf2, hw2, map (\<lambda>p. (p, dg_set_next False 0 (dg_of hw p))) (avail (hw_pool t hw))) \<and>
     hf_frames_send hf2 = 0 \<and> waiting_frames (hf_dev hf2) = [] \<and> pend (ed_net (hf_dev hf2)) = []"
proof -
  let ?ps = "avail (hw_pool t hw)" and ?g = "\<lambda>p. dg_idx (dg_of hw p) 0"
  let ?cs = "pack (hw_mtu_size hw) [] (map (dg_of hw) ?ps)"
  have dps: "distinct ?ps" using idx by (simp add: distinct_map)
  have lim: "hw_mtu_size hw \<le> EC_ETH_FRAME_LEN" "hw_mtu_size hw < 2048" using mtu by (simp_all add: ETH_FRAME_LEN_def)
  obtain sent hw1 hf1 fs where r: "hw_tx_pool os (hw_file_device drv) t (hw, hf) = Some (sent, hw1, hf1)"
      "file_ok drv held pend K ns hf1" "pend (ed_net (hf_dev hf1)) = fs" "list_all2 frame_of ?cs fs"
      "avail (hw_pool t hw1) = []" "hw_tx_send hw1 = mark_sent hw ?ps"
      "\<forall>q. pe_owner (hw_entries hw1 q) = pe_owner (hw_entries hw q)"
    using kfile.tx_pool_frames[OF ok dps _ lim mtu, of os] snd empty by auto
  have sendable: "\<forall>p\<in>set ?ps. sendable hw p" using snd by blast
  note fit = pool_frames_fit[OF sendable r(4)]
  obtain own where own: "\<And>p. p \<in> set ?ps \<Longrightarrow> own (?g p) = p" using own_index[OF idx] by blast
  have cc: "concat ?cs = map (dg_of hw) ?ps" by (simp add: concat_pack)
  have mk: "marked hw1 own (concat ?cs)"
    using fold_upd_distinct[OF idx] own snd r(6,7) by (auto simp: marked_def cc mark_sent_def pe_owner_def)
  have wf: "\<forall>d\<in>set (concat ?cs). wf_dg d" unfolding cc using dg_of_props(4) snd by auto
  have dist: "distinct (map (\<lambda>m. dg_idx m 0) (concat ?cs))" unfolding cc using idx by (simp add: comp_def)
  have "length fs = length ?cs" using r(4) by (simp add: list_all2_lengthD)
  also have "\<dots> \<le> length (concat ?cs)" by (rule length_concat_ge[OF fit(1)])
  finally have few: "length fs \<le> length ?ps" unfolding cc by simp
  have rec: "receiving drv held pend K ns fs hf1"
    using r(2,3) few room by (auto simp: file_ok_def receiving_def coming_def)
  have len: "\<forall>g \<in> set fs. length g \<le> ETH_FRAME_LEN" using fit(2) mtu by auto
  have n: "length fs < fuel" "0 < fuel" using few fuel by linarith+
  obtain hf2 hw2 where l: "loop fuel (file_finished_body drv tm fuel rx_log) (hf1, hw1, []) =
       Some (Some (hf2, hw2, [] @ map (\<lambda>m. (own (dg_idx m 0), dg_set_next False 0 m)) (concat ?cs)))"
     "receiving drv held pend K ns [] hf2"
    using finished_loop_log[OF r(4) rec len fit(1) wf mk dist n tm] by blast
  have "map (\<lambda>m. (own (dg_idx m 0), dg_set_next False 0 m)) (concat ?cs)
      = map (\<lambda>p. (p, dg_set_next False 0 (dg_of hw p))) ?ps"
    unfolding cc using own by simp
  then have "hw_device_file_send_finished drv tm fuel rx_log (hf1, hw1, []) =
       Some (hf2, hw2, map (\<lambda>p. (p, dg_set_next False 0 (dg_of hw p))) ?ps)"
    using l r(2) by (simp add: hw_device_file_send_finished_def file_ok_def receiving_def)
  then show ?thesis using r(1,2,5) l(2) by (auto simp: file_ok_def receiving_def coming_def)
qed

definition loop_pend :: "loop_net \<Rightarrow> bytes list" where
  "loop_pend n = filter (\<lambda>f. length f \<le> ETH_FRAME_LEN) (fst (snd n))"

lemma loopback_echo: "net_echo (loopback p) loop_held loop_pend"
  by (simp add: net_echo_def loopback_def loop_held_def loop_pend_def split: prod.split)

lemma loopback_timer: "timer_lasts (loopback p) posix_timers 100000000"
proof -
  have "unat (x + 100) < unat x + 100000000" for x :: u64
  proof -
    have "unat (x + 100) \<le> unat x + unat (100 :: u64)" unfolding unat_word_ariths(1) by (rule mod_less_eq_dividend)
    then show ?thesis by simp
  qed
  then show ?thesis
    by (simp add: timer_lasts_def loopback_def posix_timers_def not_le split: prod.split)
qed

definition loop_file :: "loop_net hw_file" where
  "loop_file =
     \<lparr>hf_dev = loop_opened 1, hf_open = True, hf_nonblock = True, hf_send_frame = replicate EC_ETH_FRAME_LEN 0,
      hf_recv_frame = replicate EC_ETH_FRAME_LEN 0, hf_polling_mode = True, hf_rxthreadrunning = False,
      hf_frames_send = 0, hf_rx_timeout_ns = 100000000, hf_last_pool_type = POOL_LOW, hf_bytes_sent = 0,
      hf_bytes_last_sent = 0, hf_exited = False\<rparr>"

lemma loop_file_ok: "file_ok (loopback 1) loop_held loop_pend 3 100000000 loop_file"
  using reachable_owned[OF loop_reachable(1)[of 1] loopback_ok]
  by (simp add: file_ok_def loop_file_def polled_def loopback_ok loopback_echo loop_opened_state loop_held_def
      loop_pend_def waiting_frames_def)

lemma file_device_roundtrip_witness:
  "\<exists>sent hw1 hf1 hw2 hf2.
     hw_tx_pool posix_osal (hw_file_device (loopback 1)) POOL_HIGH (two_queued, loop_file) = Some (sent, hw1, hf1) \<and>
     hw_device_file_send_finished (loopback 1) posix_timers 3 rx_log (hf1, hw1, []) =
       Some (hf2, hw2, map (\<lambda>p. (p, dg_set_next False 0 (dg_of two_queued p))) [0, 1])"
proof -
  have "loop_pend (ed_net (hf_dev loop_file)) = []" by (simp add: loop_file_def loop_opened_state loop_pend_def)
  from file_device_roundtrip[OF loop_file_ok this, of POOL_HIGH two_queued posix_timers 3 posix_osal] loopback_timer[of 1]
  show ?thesis by (auto simp: two_queued_props ETH_FRAME_LEN_def)
qed

end
