(* ===== verification/Hw_Socket.thy ===== *)
theory Hw_Socket
  imports Hw_Frames Async_Queue Ethercat_Monitor
begin

text \<open>
  Opening and closing a packet socket, which \<^verbatim>\<open>src/hw_sock_raw.c\<close> and
  \<^verbatim>\<open>src/hw_sock_raw_mmaped.c\<close> do in the same way, and the receive thread of
  \<^verbatim>\<open>src/hw_sock_raw.c\<close>. The system calls are a parameter on the state \<open>'k\<close> of the kernel. Left out:
  logging, the request for the capability (its result is only logged), the priority of the thread.
\<close>

section \<open>System calls\<close>

text \<open>A ring of the socket: size and number of its blocks, size and number of its frames.\<close>

datatype sock_opt =
  PACKET_RX_RING nat nat nat nat | PACKET_TX_RING nat nat nat nat |
  SO_RCVTIMEO nat | SO_SNDTIMEO nat | SO_DONTROUTE int

text \<open>
  What an \<^verbatim>\<open>ioctl\<close> leaves in the structure, whether or not it fails: \<open>sk_flags\<close> gets what was in
  there before. \<open>sk_time\<close> is the clock, and \<open>sk_sleep\<close> sleeps for so many nanoseconds.
\<close>

record 'k socket_calls =
  sk_socket :: "'k \<Rightarrow> int \<times> 'k"
  sk_setsockopt :: "sock_opt \<Rightarrow> 'k \<Rightarrow> int \<times> 'k"
  sk_ifindex :: "string \<Rightarrow> 'k \<Rightarrow> int \<times> 'k"
  sk_flags :: "string \<Rightarrow> u16 \<Rightarrow> 'k \<Rightarrow> u16 \<times> 'k"
  sk_set_flags :: "string \<Rightarrow> u16 \<Rightarrow> 'k \<Rightarrow> 'k"
  sk_mtu :: "string \<Rightarrow> 'k \<Rightarrow> nat \<times> 'k"
  sk_bind :: "int \<Rightarrow> 'k \<Rightarrow> 'k"
  sk_close :: "int \<Rightarrow> 'k \<Rightarrow> 'k"
  sk_time :: "'k \<Rightarrow> nat \<times> 'k"
  sk_sleep :: "nat \<Rightarrow> 'k \<Rightarrow> 'k"

definition IFNAMSIZ :: nat where [simp]: "IFNAMSIZ = 16"
definition IFF_PROMISC :: u16 where "IFF_PROMISC = 0x100"
definition IFF_BROADCAST :: u16 where "IFF_BROADCAST = 2"

definition iff_running :: "u16 \<Rightarrow> bool" where
  "iff_running flags \<longleftrightarrow> flags AND ucast IFF_RUNNING \<noteq> 0"

section \<open>The socket\<close>

record 'k packet_fd =
  pf_sockfd :: int
  pf_rxthreadrunning :: bool
  pf_kernel :: 'k

text \<open>A round of waiting for the interface; the result is whether it is running.\<close>

definition up_body ::
  "('k, 'z) socket_calls_scheme \<Rightarrow> osal_timers \<Rightarrow> string \<Rightarrow> nat \<Rightarrow> bool \<times> u16 \<times> 'k \<Rightarrow>
     (bool \<times> u16 \<times> 'k) + (bool \<times> 'k)" where
  "up_body sk tm name up_timeout = (\<lambda>(running, flags, k).
     (if running then Inr (True, k)
      else (let (flags, k) = sk_flags sk name flags k;
                running = iff_running flags;
                k = (if running then sk_sleep sk 1000000000 k else k);
                (now, k) = sk_time sk k
            in if tm_expired tm now up_timeout then Inr (running, k)
               else Inl (running, flags, sk_sleep sk 1000000000 k))))"

text \<open>
  The timeouts and the interface. The name is copied into \<open>IFNAMSIZ\<close> bytes: \<^term>\<open>None\<close> when it does
  not fit, or the interface was waited for longer than the bound.
\<close>

definition if_attach ::
  "('k, 'z) socket_calls_scheme \<Rightarrow> osal_timers \<Rightarrow> nat \<Rightarrow> string \<Rightarrow> 'k packet_fd \<Rightarrow>
     (int \<times> int \<times> 'k packet_fd) option" where
  "if_attach sk tm fuel devname pf =
     (let k = pf_kernel pf;
          (_, k) = sk_setsockopt sk (SO_RCVTIMEO 1) k;
          (_, k) = sk_setsockopt sk (SO_SNDTIMEO 1) k;
          (_, k) = sk_setsockopt sk (SO_DONTROUTE 1) k
      in if length devname \<ge> IFNAMSIZ then None
         else (let (ifindex, k) = sk_ifindex sk devname k;
                   (flags, k) = sk_flags sk devname 0 k;
                   running = iff_running flags;
                   flags = flags OR IFF_PROMISC OR IFF_BROADCAST OR ucast IFF_UP;
                   k = sk_set_flags sk devname flags k;
                   (now, k) = sk_time sk k
               in case loop fuel (up_body sk tm devname (tm_init tm now 10000000000)) (running, flags, k) of
                    None \<Rightarrow> None
                  | Some (True, k) \<Rightarrow> Some (EC_OK, ifindex, pf\<lparr>pf_kernel := k\<rparr>)
                  | Some (False, k) \<Rightarrow>
                      Some (EC_ERROR_UNAVAILABLE, ifindex, pf\<lparr>pf_kernel := sk_close sk (pf_sockfd pf) k, pf_sockfd := 0\<rparr>)))"

text \<open>The MTU of the interface, the binding and the start of the receive thread.\<close>

definition if_bind ::
  "('k, 'z) socket_calls_scheme \<Rightarrow> string \<Rightarrow> int \<Rightarrow> 'c hw_common \<Rightarrow> 'k packet_fd \<Rightarrow> 'c hw_common \<times> 'k packet_fd" where
  "if_bind sk devname ifindex hw pf =
     (let (mtu, k) = sk_mtu sk (take (IFNAMSIZ - 1) devname) (pf_kernel pf)
      in (hw\<lparr>hw_mtu_size := mtu\<rparr>, pf\<lparr>pf_kernel := sk_bind sk ifindex k, pf_rxthreadrunning := True\<rparr>))"

section \<open>The raw socket\<close>

definition hw_device_sock_raw_open ::
  "('k, 'z) socket_calls_scheme \<Rightarrow> osal \<Rightarrow> osal_timers \<Rightarrow> nat \<Rightarrow> string \<Rightarrow> 'c hw_common \<Rightarrow> 'k packet_fd \<Rightarrow>
     (int \<times> 'c hw_common \<times> 'k packet_fd) option" where
  "hw_device_sock_raw_open sk os tm fuel devname hw pf =
     (let hw = snd (hw_open os hw);
          (fd, k) = sk_socket sk (pf_kernel pf);
          pf = pf\<lparr>pf_sockfd := fd, pf_kernel := k\<rparr>
      in if fd \<le> 0 then Some (EC_ERROR_UNAVAILABLE, hw, pf)
         else map_option (\<lambda>(ret, ifindex, pf). (ret, if ret = EC_OK then if_bind sk devname ifindex hw pf else (hw, pf)))
                (if_attach sk tm fuel devname pf))"

definition hw_device_sock_raw_close ::
  "('k, 'z) socket_calls_scheme \<Rightarrow> 'k packet_fd \<Rightarrow> int \<times> 'k packet_fd" where
  "hw_device_sock_raw_close sk pf =
     (0, pf\<lparr>pf_rxthreadrunning := False, pf_kernel := sk_close sk (pf_sockfd pf) (pf_kernel pf)\<rparr>)"

text \<open>
  The rounds of the receive thread until it is stopped or the bound is reached; \<open>krecv\<close> is
  \<^verbatim>\<open>recv\<close>: its result and the bytes that it writes into the receive buffer.
\<close>

fun hw_device_sock_raw_rx_thread ::
  "('k \<Rightarrow> int \<times> bytes \<times> 'k) \<Rightarrow> ('c \<Rightarrow> nat \<Rightarrow> bytes \<Rightarrow> 'c hw_common \<times> 'w \<Rightarrow> 'c hw_common \<times> 'w) \<Rightarrow> nat \<Rightarrow>
     'k packet_fd \<times> bytes \<times> 'c hw_common \<times> 'w \<Rightarrow> ('k packet_fd \<times> bytes \<times> 'c hw_common \<times> 'w) option" where
  "hw_device_sock_raw_rx_thread krecv cb 0 s = Some s"
| "hw_device_sock_raw_rx_thread krecv cb (Suc n) (pf, recv_frame, s) =
     (if pf_rxthreadrunning pf
      then (let (bytesrx, out, k) = krecv (pf_kernel pf); recv_frame = put_at 0 out recv_frame
            in case hw_device_sock_raw_recv cb bytesrx recv_frame s of
                 None \<Rightarrow> None
               | Some (_, s) \<Rightarrow> hw_device_sock_raw_rx_thread krecv cb n (pf\<lparr>pf_kernel := k\<rparr>, recv_frame, s))
      else Some (pf, recv_frame, s))"

section \<open>What opening leaves\<close>

lemma if_attach_error:
  "if_attach sk tm fuel devname pf = Some (ret, ifindex, pf') \<Longrightarrow>
     ret \<in> {EC_OK, EC_ERROR_UNAVAILABLE} \<and> pf_rxthreadrunning pf' = pf_rxthreadrunning pf \<and>
     pf_sockfd pf' = (if ret = EC_OK then pf_sockfd pf else 0)"
  by (auto simp: if_attach_def Let_def split: prod.splits option.splits bool.splits if_splits)

lemma if_bind_result:
  "if_bind sk devname i hw pf = (hw', pf') \<Longrightarrow> hw_tx_high hw' = hw_tx_high hw \<and> hw_tx_low hw' = hw_tx_low hw \<and>
     pf_sockfd pf' = pf_sockfd pf \<and> pf_rxthreadrunning pf'"
  by (auto simp: if_bind_def split: prod.splits)

text \<open>
  An opened socket has its receive thread running and the MTU of the interface; after an error the
  thread is not started. On both paths the queues of the hardware layer are empty.
\<close>

lemma sock_raw_open_result:
  assumes run: "hw_device_sock_raw_open sk os tm fuel devname hw pf = Some (ret, hw', pf')"
  shows "ret \<in> {EC_OK, EC_ERROR_UNAVAILABLE} \<and> avail (hw_tx_high hw') = [] \<and> avail (hw_tx_low hw') = [] \<and>
    (if ret = EC_OK then pf_sockfd pf' > 0 \<and> pf_rxthreadrunning pf'
     else pf_sockfd pf' \<le> 0 \<and> pf_rxthreadrunning pf' = pf_rxthreadrunning pf)"
proof -
  obtain fd k where fd: "sk_socket sk (pf_kernel pf) = (fd, k)" by fastforce
  let ?hw = "snd (hw_open os hw)" and ?pf = "pf\<lparr>pf_sockfd := fd, pf_kernel := k\<rparr>"
  have q: "avail (hw_tx_high ?hw) = []" "avail (hw_tx_low ?hw) = []"
    by (simp_all add: hw_open_def pool_open_def)
  show ?thesis
  proof (cases "fd \<le> 0")
    case True
    then show ?thesis using run q by (auto simp: hw_device_sock_raw_open_def fd Let_def)
  next
    case False
    then obtain i pf1 where a: "if_attach sk tm fuel devname ?pf = Some (ret, i, pf1)"
      and r: "(hw', pf') = (if ret = EC_OK then if_bind sk devname i ?hw pf1 else (?hw, pf1))"
      using run by (auto simp: hw_device_sock_raw_open_def fd Let_def)
    show ?thesis
    proof (cases "ret = EC_OK")
      case True
      then have "if_bind sk devname i ?hw pf1 = (hw', pf')" using r by simp
      from if_bind_result[OF this] if_attach_error[OF a] True False q show ?thesis by simp
    next
      case e: False
      with r have "hw' = ?hw" "pf' = pf1" by simp_all
      with if_attach_error[OF a] e q show ?thesis by simp
    qed
  qed
qed

end
