(* ===== verification/Hw_Mmaped.thy ===== *)
theory Hw_Mmaped
  imports Hw_Socket
begin

text \<open>
  \<^verbatim>\<open>src/hw_sock_raw_mmaped.c\<close>: the packet socket whose frames are in two rings that the library
  shares with the kernel. A slot of a ring is a page: the fields of its header and its bytes. What the
  kernel does with the rings during a system call is a parameter. Left out: logging, the priority of the
  receive thread, the frames in the structure, which no function uses.
\<close>

section \<open>State\<close>

record tp_slot =
  tp_status :: u64
  tp_len :: nat
  tp_mac :: nat
  tp_page :: bytes

text \<open>
  \<open>mm_hung\<close>: waiting for a free slot has not ended within the bound, so that nothing after it happens.
\<close>

record 'k mmaped =
  mm_fd :: "'k packet_fd"
  mm_mmap_packets :: nat
  mm_rx_ring :: "tp_slot list"
  mm_tx_ring :: "tp_slot list"
  mm_rx_ring_offset :: nat
  mm_tx_ring_offset :: nat
  mm_hung :: bool

definition TP_STATUS_AVAILABLE :: u64 where [simp]: "TP_STATUS_AVAILABLE = 0"
definition TP_STATUS_SEND_REQUEST :: u64 where [simp]: "TP_STATUS_SEND_REQUEST = 1"
definition TP_STATUS_USER :: u64 where [simp]: "TP_STATUS_USER = 1"

text \<open>
  The distance of the frame to its header: \<open>TPACKET_HDRLEN - sizeof(struct sockaddr_ll)\<close> where the frame
  is built, \<open>sizeof(struct tpacket_hdr)\<close> where it is sent. On 64-bit hosts both are 32.
\<close>

definition tp_frame_offset :: nat where [simp]: "tp_frame_offset = 32"

text \<open>
  \<open>ps_send\<close> is \<^verbatim>\<open>send\<close> without data, \<open>ps_poll_out\<close> and \<open>ps_poll_in\<close> wait with \<^verbatim>\<open>poll\<close>; they get the ring that
  they work on. \<open>ps_fill\<close> is what the kernel does with the receive ring before a slot of it is looked at.
\<close>

record 'k packet_socket = "'k socket_calls" +
  ps_send :: "tp_slot list \<Rightarrow> 'k \<Rightarrow> int \<times> tp_slot list \<times> 'k"
  ps_poll_out :: "tp_slot list \<Rightarrow> 'k \<Rightarrow> int \<times> tp_slot list \<times> 'k"
  ps_poll_in :: "tp_slot list \<Rightarrow> 'k \<Rightarrow> int \<times> tp_slot list \<times> 'k"
  ps_fill :: "tp_slot list \<Rightarrow> 'k \<Rightarrow> tp_slot list \<times> 'k"

text \<open>A system call on one of the rings.\<close>

definition mm_kernel :: "'k mmaped \<Rightarrow> 'k" where "mm_kernel mm = pf_kernel (mm_fd mm)"

definition mm_tx_call ::
  "(tp_slot list \<Rightarrow> 'k \<Rightarrow> int \<times> tp_slot list \<times> 'k) \<Rightarrow> 'k mmaped \<Rightarrow> int \<times> 'k mmaped" where
  "mm_tx_call f mm =
     (let (r, ring, k) = f (mm_tx_ring mm) (mm_kernel mm)
      in (r, mm\<lparr>mm_tx_ring := ring, mm_fd := (mm_fd mm)\<lparr>pf_kernel := k\<rparr>\<rparr>))"

definition mm_rx_call ::
  "(tp_slot list \<Rightarrow> 'k \<Rightarrow> int \<times> tp_slot list \<times> 'k) \<Rightarrow> 'k mmaped \<Rightarrow> int \<times> 'k mmaped" where
  "mm_rx_call f mm =
     (let (r, ring, k) = f (mm_rx_ring mm) (mm_kernel mm)
      in (r, mm\<lparr>mm_rx_ring := ring, mm_fd := (mm_fd mm)\<lparr>pf_kernel := k\<rparr>\<rparr>))"

section \<open>Opening and closing\<close>

text \<open>
  The rings are what the kernel maps: \<open>rings\<close> gives the receive ring and the send ring. They are used
  without a look at the result of \<^verbatim>\<open>mmap\<close>, and \<^verbatim>\<open>hw_open\<close> is not called.
\<close>

definition mm_map ::
  "('k, 'z) packet_socket_scheme \<Rightarrow> ('k \<Rightarrow> tp_slot list \<times> tp_slot list \<times> 'k) \<Rightarrow> nat \<Rightarrow> 'k mmaped \<Rightarrow>
     int \<times> 'k mmaped" where
  "mm_map ps rings pagesize mm =
     (let n = mm_mmap_packets mm;
          (r, k) = sk_setsockopt ps (PACKET_RX_RING (n * pagesize) 1 pagesize n) (mm_kernel mm)
      in if r \<noteq> 0 then (EC_ERROR_UNAVAILABLE, mm\<lparr>mm_fd := (mm_fd mm)\<lparr>pf_kernel := k\<rparr>\<rparr>)
         else (let (r, k) = sk_setsockopt ps (PACKET_TX_RING (n * pagesize) 1 pagesize n) k
               in if r \<noteq> 0 then (EC_ERROR_UNAVAILABLE, mm\<lparr>mm_fd := (mm_fd mm)\<lparr>pf_kernel := k\<rparr>\<rparr>)
                  else (let (rx, tx, k) = rings k
                        in (EC_OK, mm\<lparr>mm_fd := (mm_fd mm)\<lparr>pf_kernel := k\<rparr>, mm_rx_ring := rx, mm_tx_ring := tx,
                                      mm_rx_ring_offset := 0, mm_tx_ring_offset := 0\<rparr>))))"

definition hw_device_sock_raw_mmaped_open ::
  "('k, 'z) packet_socket_scheme \<Rightarrow> ('k \<Rightarrow> tp_slot list \<times> tp_slot list \<times> 'k) \<Rightarrow> nat \<Rightarrow> osal_timers \<Rightarrow> nat \<Rightarrow>
     string \<Rightarrow> 'c hw_common \<Rightarrow> 'k mmaped \<Rightarrow> (int \<times> 'c hw_common \<times> 'k mmaped) option" where
  "hw_device_sock_raw_mmaped_open ps rings pagesize tm fuel devname hw mm =
     (let (fd, k) = sk_socket ps (mm_kernel mm);
          mm = mm\<lparr>mm_fd := (mm_fd mm)\<lparr>pf_sockfd := fd, pf_kernel := k\<rparr>, mm_mmap_packets := 100\<rparr>;
          (ret, mm) = (if fd \<le> 0 then (EC_ERROR_UNAVAILABLE, mm) else mm_map ps rings pagesize mm)
      in if ret \<noteq> EC_OK then Some (ret, hw, mm)
         else map_option (\<lambda>(ret, ifindex, pf).
                  let (hw, pf) = (if ret = EC_OK then if_bind ps devname ifindex hw pf else (hw, pf))
                  in (ret, hw, mm\<lparr>mm_fd := pf\<rparr>))
                (if_attach ps tm fuel devname (mm_fd mm)))"

definition hw_device_sock_raw_mmaped_close ::
  "('k, 'z) packet_socket_scheme \<Rightarrow> 'k mmaped \<Rightarrow> int \<times> 'k mmaped" where
  "hw_device_sock_raw_mmaped_close ps mm =
     (0, mm\<lparr>mm_fd := (mm_fd mm)\<lparr>pf_rxthreadrunning := False,
                                pf_kernel := sk_close ps (pf_sockfd (mm_fd mm)) (mm_kernel mm)\<rparr>\<rparr>)"

section \<open>Sending\<close>

text \<open>\<^verbatim>\<open>hw_get_next_tx_buffer\<close>: the kernel is notified and waited for until the slot is free.\<close>

definition next_tx_body ::
  "('k, 'z) packet_socket_scheme \<Rightarrow> 'k mmaped \<Rightarrow> 'k mmaped + 'k mmaped" where
  "next_tx_body ps mm =
     (if tp_status (mm_tx_ring mm ! mm_tx_ring_offset mm) = TP_STATUS_AVAILABLE then Inr mm
      else Inl (snd (mm_tx_call (ps_poll_out ps) (snd (mm_tx_call (ps_send ps) mm)))))"

definition hw_get_next_tx_buffer ::
  "('k, 'z) packet_socket_scheme \<Rightarrow> nat \<Rightarrow> 'k mmaped \<Rightarrow> 'k mmaped option" where
  "hw_get_next_tx_buffer ps fuel mm = loop fuel (next_tx_body ps) mm"

definition slot_upd :: "(tp_slot \<Rightarrow> tp_slot) \<Rightarrow> 'k mmaped \<Rightarrow> 'k mmaped" where
  "slot_upd f mm = mm\<lparr>mm_tx_ring := (mm_tx_ring mm)[mm_tx_ring_offset mm := f (mm_tx_ring mm ! mm_tx_ring_offset mm)]\<rparr>"

definition hw_device_sock_raw_mmaped_get_tx_buffer ::
  "('k, 'z) packet_socket_scheme \<Rightarrow> nat \<Rightarrow> 'k mmaped \<Rightarrow> int \<times> bytes \<times> 'k mmaped" where
  "hw_device_sock_raw_mmaped_get_tx_buffer ps fuel mm =
     (case hw_get_next_tx_buffer ps fuel mm of
        None \<Rightarrow> (EC_ERROR_UNAVAILABLE, [], mm\<lparr>mm_hung := True\<rparr>)
      | Some mm \<Rightarrow>
          (let b = drop tp_frame_offset (tp_page (mm_tx_ring mm ! mm_tx_ring_offset mm));
               b = put_at 0 [0xFF, 0xFF, 0xFF, 0xFF, 0xFF, 0xFF] b;
               b = put_at 6 [0x00, 0x30, 0x64, 0x0F, 0x83, 0x35] b;
               b = put_at 12 ETH_P_ECAT b;
               b = fr_set_len ec_frame_hdr_length (fr_set_type 1 b)
           in (EC_OK, b, slot_upd (\<lambda>s. s\<lparr>tp_page := put_at tp_frame_offset b (tp_page s)\<rparr>) mm)))"

text \<open>The frame is in the slot that was given out last, which is the one at the offset.\<close>

definition hw_device_sock_raw_mmaped_send ::
  "('k, 'z) packet_socket_scheme \<Rightarrow> bytes \<Rightarrow> pooltype \<Rightarrow> 'k mmaped \<Rightarrow> int \<times> 'k mmaped" where
  "hw_device_sock_raw_mmaped_send ps pframe pool_type mm =
     (let mm = slot_upd (\<lambda>s. s\<lparr>tp_page := put_at tp_frame_offset pframe (tp_page s), tp_len := ec_frame_length pframe,
                               tp_status := TP_STATUS_SEND_REQUEST\<rparr>) mm;
          (r, mm) = mm_tx_call (ps_send ps) mm
      in (if r < 0 then EC_ERROR_HW_SEND else EC_OK,
          mm\<lparr>mm_tx_ring_offset := Suc (mm_tx_ring_offset mm) mod mm_mmap_packets mm\<rparr>))"

definition sock_raw_mmaped_device :: "('k, 'z) packet_socket_scheme \<Rightarrow> nat \<Rightarrow> 'k mmaped hw_device" where
  "sock_raw_mmaped_device ps fuel =
     \<lparr>dev_get_tx_buffer = hw_device_sock_raw_mmaped_get_tx_buffer ps fuel,
      dev_send = hw_device_sock_raw_mmaped_send ps,
      dev_send_finished = id,
      dev_close = Some (snd \<circ> hw_device_sock_raw_mmaped_close ps)\<rparr>"

section \<open>Receiving\<close>

text \<open>
  A round of the loop: the frame of a slot that the kernel has filled is processed where it is, and the
  slot is given back.
\<close>

definition mmaped_recv_body ::
  "('k, 'z) packet_socket_scheme \<Rightarrow> ('c \<Rightarrow> nat \<Rightarrow> bytes \<Rightarrow> 'c hw_common \<times> 'w \<Rightarrow> 'c hw_common \<times> 'w) \<Rightarrow>
     'k mmaped \<times> 'c hw_common \<times> 'w \<Rightarrow>
     ('k mmaped \<times> 'c hw_common \<times> 'w) + ('k mmaped \<times> 'c hw_common \<times> 'w) option" where
  "mmaped_recv_body ps cb = (\<lambda>(mm, s).
     (let (_, mm) = mm_rx_call (\<lambda>ring k. (0, ps_fill ps ring k)) mm;
          header = mm_rx_ring mm ! mm_rx_ring_offset mm
      in if tp_status header AND TP_STATUS_USER \<noteq> 0
         then (case hw_process_rx_frame cb (drop (tp_mac header) (tp_page header)) s of
                 None \<Rightarrow> Inr None
               | Some (_, s) \<Rightarrow>
                   Inl (mm\<lparr>mm_rx_ring := (mm_rx_ring mm)[mm_rx_ring_offset mm := header\<lparr>tp_status := 0\<rparr>],
                          mm_rx_ring_offset := Suc (mm_rx_ring_offset mm) mod mm_mmap_packets mm\<rparr>, s))
         else Inr (Some (mm, s))))"

definition hw_device_sock_raw_mmaped_recv ::
  "('k, 'z) packet_socket_scheme \<Rightarrow> nat \<Rightarrow> ('c \<Rightarrow> nat \<Rightarrow> bytes \<Rightarrow> 'c hw_common \<times> 'w \<Rightarrow> 'c hw_common \<times> 'w) \<Rightarrow>
     'k mmaped \<times> 'c hw_common \<times> 'w \<Rightarrow> (int \<times> 'k mmaped \<times> 'c hw_common \<times> 'w) option" where
  "hw_device_sock_raw_mmaped_recv ps fuel cb = (\<lambda>(mm, s).
     (let (ret, mm) = mm_rx_call (ps_poll_in ps) mm
      in if ret > 0
         then map_option (Pair EC_OK) (Option.bind (loop fuel (mmaped_recv_body ps cb) (mm, s)) id)
         else Some (EC_OK, mm, s)))"

fun hw_device_sock_raw_mmaped_rx_thread ::
  "('k, 'z) packet_socket_scheme \<Rightarrow> nat \<Rightarrow> ('c \<Rightarrow> nat \<Rightarrow> bytes \<Rightarrow> 'c hw_common \<times> 'w \<Rightarrow> 'c hw_common \<times> 'w) \<Rightarrow> nat \<Rightarrow>
     'k mmaped \<times> 'c hw_common \<times> 'w \<Rightarrow> ('k mmaped \<times> 'c hw_common \<times> 'w) option" where
  "hw_device_sock_raw_mmaped_rx_thread ps fuel cb 0 s = Some s"
| "hw_device_sock_raw_mmaped_rx_thread ps fuel cb (Suc n) s =
     (if pf_rxthreadrunning (mm_fd (fst s))
      then (case hw_device_sock_raw_mmaped_recv ps fuel cb s of
              None \<Rightarrow> None | Some (_, s) \<Rightarrow> hw_device_sock_raw_mmaped_rx_thread ps fuel cb n s)
      else Some s)"

end
