(* ===== verification/Ring_Queue.thy ===== *)
theory Ring_Queue
  imports Prelude
begin

text \<open>
  A ring of slots that two parties share: the consumer works on the slot at \<open>c\<close>, the producer on the
  slot at \<open>p\<close>, each in its own pace. The ring is seen from the consumer: first the full slots, then the
  free ones, which makes it a queue. The facts are used with the kernel as one of the parties.
\<close>

definition ring_queue :: "nat \<Rightarrow> nat \<Rightarrow> 'a list \<Rightarrow> 'a list \<Rightarrow> 'a list \<Rightarrow> bool" where
  "ring_queue c p full free ring \<longleftrightarrow>
     c < length ring \<and> rotate c ring = full @ free \<and> p = (c + length full) mod length ring"

text \<open>One party has gone from \<open>i\<close> to \<open>j\<close> and replaced the slots \<open>old\<close> on its way by \<open>new\<close>.\<close>

definition ring_served :: "nat \<Rightarrow> nat \<Rightarrow> 'a list \<Rightarrow> 'a list \<Rightarrow> 'a list \<Rightarrow> 'a list \<Rightarrow> bool" where
  "ring_served i j old new ring ring' \<longleftrightarrow>
     length new = length old \<and> length ring' = length ring \<and> j = (i + length old) mod length ring \<and>
     (\<exists>rest. rotate i ring = old @ rest \<and> rotate i ring' = new @ rest)"

lemma ring_queue_length: "ring_queue c p full free ring \<Longrightarrow> length full + length free = length ring"
  unfolding ring_queue_def by (metis length_append length_rotate)

lemma rotate_past: "j = (i + length xs) mod length ring \<Longrightarrow> rotate i ring = xs @ ys \<Longrightarrow> rotate j ring = ys @ xs"
  by (metis add.commute rotate_append rotate_conv_mod rotate_rotate)

text \<open>The consumer takes full slots, and they become free.\<close>

lemma ring_consume:
  assumes q: "ring_queue c p full free ring" and s: "ring_served c c' old new ring ring'"
    and len: "length old \<le> length full"
  shows "old = take (length old) full" "ring_queue c' p (drop (length old) full) (free @ new) ring'"
proof -
  obtain rest where rest: "rotate c ring = old @ rest" "rotate c ring' = new @ rest"
    using s by (auto simp: ring_served_def)
  have eq: "old @ rest = full @ free" using q rest(1) by (simp add: ring_queue_def)
  have r: "rest = drop (length old) full @ free"
    using arg_cong[OF eq, of "drop (length old)"] len by simp
  have c': "c' = (c + length new) mod length ring'" "length ring' = length ring" "length new = length old"
    using s by (simp_all add: ring_served_def)
  show "old = take (length old) full" using arg_cong[OF eq, of "take (length old)"] len by simp
  have n: "0 < length ring" using q by (auto simp: ring_queue_def)
  have "rotate c' ring' = rest @ new" by (rule rotate_past[OF c'(1) rest(2)])
  moreover have "p = (c' + length (drop (length old) full)) mod length ring'"
  proof -
    have "length full = length old + length (drop (length old) full)" using len by simp
    then show ?thesis using q by (simp only: ring_queue_def c' mod_add_left_eq add.assoc)
  qed
  ultimately show "ring_queue c' p (drop (length old) full) (free @ new) ring'"
    using n c' by (simp add: ring_queue_def r)
qed

text \<open>The producer fills free slots, which wait behind the full ones.\<close>

lemma ring_produce:
  assumes q: "ring_queue c p full free ring" and s: "ring_served p p' old new ring ring'"
    and len: "length old \<le> length free"
  shows "old = take (length old) free" "ring_queue c p' (full @ new) (drop (length old) free) ring'"
proof -
  obtain rest where rest: "rotate p ring = old @ rest" "rotate p ring' = new @ rest"
    using s by (auto simp: ring_served_def)
  have c: "c < length ring" "rotate c ring = full @ free" "p = (c + length full) mod length ring"
    using q by (simp_all add: ring_queue_def)
  have l: "length ring' = length ring" "length new = length old" "p' = (p + length old) mod length ring"
    using s by (simp_all add: ring_served_def)
  have eq: "old @ rest = free @ full" using rest(1) rotate_past[OF c(3,2)] by simp
  show "old = take (length old) free" using arg_cong[OF eq, of "take (length old)"] len by simp
  have r: "rest = drop (length old) free @ full"
    using arg_cong[OF eq, of "drop (length old)"] len by simp
  let ?X = "rotate c ring'"
  have n: "length full + length free = length ring" by (rule ring_queue_length[OF q])
  have "rotate p ring' = drop (length full) ?X @ take (length full) ?X"
    using c(3) n l(1) by (intro rotate_past[of p c]) simp_all
  then have "drop (length full) ?X @ take (length full) ?X = (new @ drop (length old) free) @ full"
    using rest(2) r by simp
  moreover have "length (take (length full) ?X) = length full" using n l(1) by simp
  ultimately have "drop (length full) ?X = new @ drop (length old) free \<and> take (length full) ?X = full"
    using append_eq_append_conv[THEN iffD1, OF disjI2] by blast
  then have "?X = full @ new @ drop (length old) free" by (metis append_take_drop_id)
  then show "ring_queue c p' (full @ new) (drop (length old) free) ring'"
    using c l by (simp add: ring_queue_def mod_add_left_eq add.assoc)
qed

text \<open>A single slot.\<close>

lemma ring_served_update:
  assumes "i < length ring"
  shows "ring_served i (Suc i mod length ring) [ring ! i] [x] ring (ring[i := x])"
proof -
  have "rotate i ring = ring ! i # drop (Suc i) ring @ take i ring"
    using assms by (simp add: rotate_drop_take Cons_nth_drop_Suc)
  moreover have "rotate i (ring[i := x]) = x # drop (Suc i) ring @ take i ring"
    using assms by (simp add: rotate_drop_take Cons_nth_drop_Suc[symmetric])
  ultimately show ?thesis by (simp add: ring_served_def)
qed

lemma ring_at_producer:
  assumes "ring_queue c p full (f # free) ring"
  shows "p < length ring" "ring ! p = f" "ring_queue c p full (x # free) (ring[p := x])"
    "ring_queue c (Suc p mod length ring) (full @ [f]) free ring"
proof -
  have n: "0 < length ring" using assms by (auto simp: ring_queue_def)
  then show p: "p < length ring" using assms by (simp add: ring_queue_def)
  from ring_produce[OF assms ring_served_update[OF p, of x]]
  have s: "ring ! p = f" "ring_queue c (Suc p mod length ring) (full @ [x]) free (ring[p := x])" by simp_all
  then show "ring ! p = f" "ring_queue c p full (x # free) (ring[p := x])"
    using assms by (simp_all add: ring_queue_def)
  show "ring_queue c (Suc p mod length ring) (full @ [f]) free ring"
    using assms by (simp add: ring_queue_def mod_Suc_eq)
qed

lemma ring_at_consumer:
  assumes "ring_queue c p (f # full) free ring"
  shows "ring ! c = f" "ring_queue (Suc c mod length ring) p full (free @ [x]) (ring[c := x])"
proof -
  have c: "c < length ring" using assms by (simp add: ring_queue_def)
  from ring_consume[OF assms ring_served_update[OF c, of x]]
  show "ring ! c = f" "ring_queue (Suc c mod length ring) p full (free @ [x]) (ring[c := x])" by simp_all
qed

lemma ring_empty_consumer: "ring_queue c p [] (f # free) ring \<Longrightarrow> ring ! c = f"
  using ring_at_producer(2)[of c p "[]" f free ring] by (auto simp: ring_queue_def)

end
