(* ===== verification/Hw_Mmaped_Correct.thy ===== *)
theory Hw_Mmaped_Correct
  imports Hw_Mmaped Ring_Queue
begin

text \<open>
  The mapped packet socket keeps what \<open>tx_device\<close> promises, whenever the kernel sends the frames of the
  ring; and the frames that the kernel puts into the receive ring reach the callbacks in their order.
\<close>

section \<open>What the kernel does with the rings\<close>

definition tx_frame :: "tp_slot \<Rightarrow> bytes" where
  "tx_frame s = take (tp_len s) (drop tp_frame_offset (tp_page s))"

definition requested :: "tp_slot \<Rightarrow> bool" where "requested s \<longleftrightarrow> tp_status s = TP_STATUS_SEND_REQUEST"
definition available :: "tp_slot \<Rightarrow> bool" where "available s \<longleftrightarrow> tp_status s = TP_STATUS_AVAILABLE"
definition filled :: "tp_slot \<Rightarrow> bool" where "filled s \<longleftrightarrow> tp_status s AND TP_STATUS_USER \<noteq> 0"

text \<open>
  From \<open>head\<close> on, the kernel takes requested slots, sends their frames and makes the slots available:
  any number of them during a call. \<open>sent\<close> are the frames on the wire.
\<close>

definition kernel_sends ::
  "('k \<Rightarrow> nat) \<Rightarrow> ('k \<Rightarrow> bytes list) \<Rightarrow> tp_slot list \<Rightarrow> 'k \<Rightarrow> tp_slot list \<Rightarrow> 'k \<Rightarrow> bool" where
  "kernel_sends head sent ring k ring' k' \<longleftrightarrow>
     (\<exists>old. ring_served (head k) (head k') old (map (\<lambda>s. s\<lparr>tp_status := TP_STATUS_AVAILABLE\<rparr>) old) ring ring' \<and>
            (\<forall>s\<in>set old. requested s) \<and> sent k' = sent k @ map tx_frame old)"

text \<open>
  While all slots are requested, a notification and a \<^verbatim>\<open>poll\<close> make one available, or bring the kernel
  closer to it: \<open>lag\<close> counts down.
\<close>

definition tx_kernel_ok ::
  "('k, 'z) packet_socket_scheme \<Rightarrow> ('k \<Rightarrow> nat) \<Rightarrow> ('k \<Rightarrow> bytes list) \<Rightarrow> ('k \<Rightarrow> nat) \<Rightarrow> bool" where
  "tx_kernel_ok ps head sent lag \<longleftrightarrow>
     (\<forall>ring k r ring' k'. head k < length ring \<longrightarrow> ps_send ps ring k = (r, ring', k') \<longrightarrow> kernel_sends head sent ring k ring' k') \<and>
     (\<forall>ring k r ring' k'. head k < length ring \<longrightarrow> ps_poll_out ps ring k = (r, ring', k') \<longrightarrow> kernel_sends head sent ring k ring' k') \<and>
     (\<forall>ring k r1 ring1 k1 r2 ring2 k2. head k < length ring \<longrightarrow> (\<forall>s\<in>set ring. requested s) \<longrightarrow>
        ps_send ps ring k = (r1, ring1, k1) \<longrightarrow> ps_poll_out ps ring1 k1 = (r2, ring2, k2) \<longrightarrow>
        (\<exists>s\<in>set ring2. \<not> requested s) \<or> lag k2 < lag k)"

text \<open>
  From \<open>rxh\<close> on, the kernel puts the next of the frames that are \<open>due\<close> into free slots: any number of
  them during a call.
\<close>

definition rx_holds :: "tp_slot \<Rightarrow> bytes \<Rightarrow> bool" where
  "rx_holds s f \<longleftrightarrow> filled s \<and> (\<exists>rest. drop (tp_mac s) (tp_page s) = f @ rest)"

definition kernel_fills ::
  "('k \<Rightarrow> nat) \<Rightarrow> ('k \<Rightarrow> bytes list) \<Rightarrow> tp_slot list \<Rightarrow> 'k \<Rightarrow> tp_slot list \<Rightarrow> 'k \<Rightarrow> bool" where
  "kernel_fills rxh due ring k ring' k' \<longleftrightarrow>
     (\<exists>old new fs. ring_served (rxh k) (rxh k') old new ring ring' \<and> (\<forall>s\<in>set old. available s) \<and>
        list_all2 rx_holds new fs \<and> due k = fs @ due k')"

text \<open>\<^verbatim>\<open>poll\<close> reports that there is something to receive, if a slot is filled afterwards.\<close>

definition rx_kernel_ok :: "('k, 'z) packet_socket_scheme \<Rightarrow> ('k \<Rightarrow> nat) \<Rightarrow> ('k \<Rightarrow> bytes list) \<Rightarrow> bool" where
  "rx_kernel_ok ps rxh due \<longleftrightarrow>
     (\<forall>ring k r ring' k'. rxh k < length ring \<longrightarrow> ps_poll_in ps ring k = (r, ring', k') \<longrightarrow>
        kernel_fills rxh due ring k ring' k' \<and> ((\<exists>s\<in>set ring'. filled s) \<longrightarrow> r > 0)) \<and>
     (\<forall>ring k ring' k'. rxh k < length ring \<longrightarrow> ps_fill ps ring k = (ring', k') \<longrightarrow> kernel_fills rxh due ring k ring' k')"

section \<open>The send ring is a queue\<close>

definition page_size :: nat where [simp]: "page_size = 4096"

definition tx_ring_ok :: "('k \<Rightarrow> nat) \<Rightarrow> 'k mmaped \<Rightarrow> tp_slot list \<Rightarrow> tp_slot list \<Rightarrow> bool" where
  "tx_ring_ok head mm full free \<longleftrightarrow>
     ring_queue (head (mm_kernel mm)) (mm_tx_ring_offset mm) full free (mm_tx_ring mm) \<and>
     mm_mmap_packets mm = length (mm_tx_ring mm) \<and> (\<forall>s\<in>set full. requested s) \<and> (\<forall>s\<in>set free. available s) \<and>
     (\<forall>s\<in>set full \<union> set free. length (tp_page s) = page_size) \<and> \<not> mm_hung mm"

text \<open>The frames on the wire and those that wait in the ring.\<close>

definition mm_wire :: "('k \<Rightarrow> nat) \<Rightarrow> ('k \<Rightarrow> bytes list) \<Rightarrow> 'k mmaped \<Rightarrow> bytes list" where
  "mm_wire head sent mm =
     sent (mm_kernel mm) @ map tx_frame (takeWhile requested (rotate (head (mm_kernel mm)) (mm_tx_ring mm)))"

lemma available_not_requested: "available s \<Longrightarrow> \<not> requested s"
  by (simp add: available_def requested_def)

lemma mm_wire_queue:
  assumes "tx_ring_ok head mm full free"
  shows "mm_wire head sent mm = sent (mm_kernel mm) @ map tx_frame full"
proof -
  have "rotate (head (mm_kernel mm)) (mm_tx_ring mm) = full @ free"
    using assms by (simp add: tx_ring_ok_def ring_queue_def)
  moreover have "takeWhile requested (full @ free) = full"
  proof (cases free)
    case (Cons f fs)
    then have "\<not> requested f" using assms available_not_requested by (simp add: tx_ring_ok_def)
    then show ?thesis using assms Cons by (simp add: tx_ring_ok_def takeWhile_append2)
  qed (use assms in \<open>simp add: tx_ring_ok_def takeWhile_eq_all_conv\<close>)
  ultimately show ?thesis by (simp add: mm_wire_def)
qed

text \<open>A party can only take as much as there is.\<close>

lemma prefix_le:
  assumes "old @ rest = full @ free" "\<forall>s\<in>set old. P s" "\<forall>s\<in>set free. \<not> P s"
  shows "length old \<le> length full"
proof (rule ccontr)
  assume "\<not> length old \<le> length full"
  then obtain s os where s: "drop (length full) old = s # os" by (cases "drop (length full) old") auto
  then have "s \<in> set old" by (metis in_set_dropD list.set_intros(1))
  moreover have "drop (length full) old @ rest = free"
    using arg_cong[OF assms(1), of "drop (length full)"] \<open>\<not> length old \<le> length full\<close> by simp
  then have "s \<in> set free" using s by auto
  ultimately show False using assms(2,3) by blast
qed

lemma tx_call_eq:
  assumes "f (mm_tx_ring mm) (mm_kernel mm) = (r, ring, k)"
  shows "mm_kernel (snd (mm_tx_call f mm)) = k" "mm_tx_ring (snd (mm_tx_call f mm)) = ring"
    "mm_tx_ring_offset (snd (mm_tx_call f mm)) = mm_tx_ring_offset mm"
    "mm_mmap_packets (snd (mm_tx_call f mm)) = mm_mmap_packets mm" "mm_hung (snd (mm_tx_call f mm)) = mm_hung mm"
proof -
  have "mm_tx_call f mm = (r, mm\<lparr>mm_tx_ring := ring, mm_fd := (mm_fd mm)\<lparr>pf_kernel := k\<rparr>\<rparr>)"
    by (simp add: mm_tx_call_def assms)
  then show "mm_kernel (snd (mm_tx_call f mm)) = k" "mm_tx_ring (snd (mm_tx_call f mm)) = ring"
    "mm_tx_ring_offset (snd (mm_tx_call f mm)) = mm_tx_ring_offset mm"
    "mm_mmap_packets (snd (mm_tx_call f mm)) = mm_mmap_packets mm" "mm_hung (snd (mm_tx_call f mm)) = mm_hung mm"
    by (simp_all add: mm_kernel_def)
qed

lemma tx_call_keeps:
  assumes ok: "tx_ring_ok head mm full free"
    and k: "f (mm_tx_ring mm) (mm_kernel mm) = (r, ring', k')" "kernel_sends head sent (mm_tx_ring mm) (mm_kernel mm) ring' k'"
  shows "\<exists>full' free'. tx_ring_ok head (snd (mm_tx_call f mm)) full' free'"
    "mm_wire head sent (snd (mm_tx_call f mm)) = mm_wire head sent mm"
proof -
  let ?rel = "\<lambda>s. s\<lparr>tp_status := TP_STATUS_AVAILABLE\<rparr>" and ?mm = "snd (mm_tx_call f mm)"
  obtain old where old: "ring_served (head (mm_kernel mm)) (head k') old (map ?rel old) (mm_tx_ring mm) ring'"
    "\<forall>s\<in>set old. requested s" "sent k' = sent (mm_kernel mm) @ map tx_frame old"
    using k(2) by (auto simp: kernel_sends_def)
  have q: "ring_queue (head (mm_kernel mm)) (mm_tx_ring_offset mm) full free (mm_tx_ring mm)"
    using ok by (simp add: tx_ring_ok_def)
  obtain rest where "rotate (head (mm_kernel mm)) (mm_tx_ring mm) = old @ rest"
    using old(1) by (auto simp: ring_served_def)
  then have "old @ rest = full @ free" using q by (simp add: ring_queue_def)
  then have "length old \<le> length full"
    by (rule prefix_le) (use old(2) ok available_not_requested in \<open>auto simp: tx_ring_ok_def\<close>)
  note c = ring_consume[OF q old(1) this]
  note mm = tx_call_eq[where f = f, OF k(1)]
  have sub: "set old \<subseteq> set full" using c(1) set_take_subset by metis
  have "length ring' = length (mm_tx_ring mm)" using old(1) by (simp add: ring_served_def)
  then have ok': "tx_ring_ok head ?mm (drop (length old) full) (free @ map ?rel old)"
    using ok c(2) sub unfolding tx_ring_ok_def mm
    by (auto simp: available_def dest: in_set_dropD)
  then show "\<exists>full' free'. tx_ring_ok head ?mm full' free'" by blast
  have "map tx_frame old @ map tx_frame (drop (length old) full) = map tx_frame full"
    using c(1) by (metis append_take_drop_id map_append)
  then show "mm_wire head sent ?mm = mm_wire head sent mm"
    by (simp add: mm_wire_queue[OF ok] mm_wire_queue[OF ok'] mm old(3))
qed

section \<open>Sending\<close>

definition mm_sending ::
  "('k, 'z) packet_socket_scheme \<Rightarrow> ('k \<Rightarrow> nat) \<Rightarrow> ('k \<Rightarrow> bytes list) \<Rightarrow> ('k \<Rightarrow> nat) \<Rightarrow> nat \<Rightarrow> 'k mmaped \<Rightarrow> bool" where
  "mm_sending ps head sent lag fuel mm \<longleftrightarrow>
     tx_kernel_ok ps head sent lag \<and> (\<forall>k. lag k + 2 \<le> fuel) \<and> (\<exists>full free. tx_ring_ok head mm full free)"

definition mm_ready ::
  "('k, 'z) packet_socket_scheme \<Rightarrow> ('k \<Rightarrow> nat) \<Rightarrow> ('k \<Rightarrow> bytes list) \<Rightarrow> ('k \<Rightarrow> nat) \<Rightarrow> nat \<Rightarrow> 'k mmaped \<Rightarrow> bool" where
  "mm_ready ps head sent lag fuel mm \<longleftrightarrow>
     tx_kernel_ok ps head sent lag \<and> (\<forall>k. lag k + 2 \<le> fuel) \<and> (\<exists>full s free. tx_ring_ok head mm full (s # free))"

lemma head_less: "tx_ring_ok head mm full free \<Longrightarrow> head (mm_kernel mm) < length (mm_tx_ring mm)"
  by (simp add: tx_ring_ok_def ring_queue_def)

lemma send_call:
  assumes "tx_kernel_ok ps head sent lag" "tx_ring_ok head mm full free"
  shows "\<exists>full' free'. tx_ring_ok head (snd (mm_tx_call (ps_send ps) mm)) full' free'"
    "mm_wire head sent (snd (mm_tx_call (ps_send ps) mm)) = mm_wire head sent mm"
proof -
  obtain r ring k where c: "ps_send ps (mm_tx_ring mm) (mm_kernel mm) = (r, ring, k)" by (metis prod_cases3)
  have s: "kernel_sends head sent (mm_tx_ring mm) (mm_kernel mm) ring k"
    using assms(1) head_less[OF assms(2)] c unfolding tx_kernel_ok_def by blast
  show "\<exists>full' free'. tx_ring_ok head (snd (mm_tx_call (ps_send ps) mm)) full' free'"
    by (rule tx_call_keeps(1)[where f = "ps_send ps", OF assms(2) c s])
  show "mm_wire head sent (snd (mm_tx_call (ps_send ps) mm)) = mm_wire head sent mm"
    by (rule tx_call_keeps(2)[where f = "ps_send ps", OF assms(2) c s])
qed

lemma poll_call:
  assumes "tx_kernel_ok ps head sent lag" "tx_ring_ok head mm full free"
  shows "\<exists>full' free'. tx_ring_ok head (snd (mm_tx_call (ps_poll_out ps) mm)) full' free'"
    "mm_wire head sent (snd (mm_tx_call (ps_poll_out ps) mm)) = mm_wire head sent mm"
proof -
  obtain r ring k where c: "ps_poll_out ps (mm_tx_ring mm) (mm_kernel mm) = (r, ring, k)" by (metis prod_cases3)
  have s: "kernel_sends head sent (mm_tx_ring mm) (mm_kernel mm) ring k"
    using assms(1) head_less[OF assms(2)] c unfolding tx_kernel_ok_def by blast
  show "\<exists>full' free'. tx_ring_ok head (snd (mm_tx_call (ps_poll_out ps) mm)) full' free'"
    by (rule tx_call_keeps(1)[where f = "ps_poll_out ps", OF assms(2) c s])
  show "mm_wire head sent (snd (mm_tx_call (ps_poll_out ps) mm)) = mm_wire head sent mm"
    by (rule tx_call_keeps(2)[where f = "ps_poll_out ps", OF assms(2) c s])
qed

text \<open>The slot at the offset is free as soon as any slot is.\<close>

lemma next_tx_free:
  assumes "tx_ring_ok head mm full (s # free)" "0 < n"
  shows "hw_get_next_tx_buffer ps n mm = Some mm"
proof -
  have "ring_queue (head (mm_kernel mm)) (mm_tx_ring_offset mm) full (s # free) (mm_tx_ring mm)" "available s"
    using assms(1) by (simp_all add: tx_ring_ok_def)
  from ring_at_producer(2)[OF this(1)] this(2) have "next_tx_body ps mm = Inr mm"
    by (simp add: next_tx_body_def available_def)
  then show ?thesis unfolding hw_get_next_tx_buffer_def by (rule loop_once) (fact assms(2))
qed

lemma full_requested:
  assumes "tx_ring_ok head mm full []"
  shows "\<forall>s\<in>set (mm_tx_ring mm). requested s" "requested (mm_tx_ring mm ! mm_tx_ring_offset mm)"
proof -
  have q: "ring_queue (head (mm_kernel mm)) (mm_tx_ring_offset mm) full [] (mm_tx_ring mm)" "\<forall>s\<in>set full. requested s"
    using assms by (simp_all add: tx_ring_ok_def)
  then have "set (mm_tx_ring mm) = set full" by (metis append_Nil2 ring_queue_def set_rotate)
  then show r: "\<forall>s\<in>set (mm_tx_ring mm). requested s" using q(2) by simp
  have "mm_tx_ring_offset mm < length (mm_tx_ring mm)"
    using q(1) by (auto simp: ring_queue_def intro: mod_less_divisor)
  then show "requested (mm_tx_ring mm ! mm_tx_ring_offset mm)" using r by simp
qed

lemma next_tx_returns:
  assumes "tx_kernel_ok ps head sent lag" "tx_ring_ok head mm full free" "lag (mm_kernel mm) + 2 \<le> n"
  shows "\<exists>mm' full' s free'. hw_get_next_tx_buffer ps n mm = Some mm' \<and> tx_ring_ok head mm' full' (s # free') \<and>
     mm_wire head sent mm' = mm_wire head sent mm"
  using assms(2,3)
proof (induction "lag (mm_kernel mm)" arbitrary: mm full free n rule: less_induct)
  case less
  show ?case
  proof (cases free)
    case (Cons s ss)
    then show ?thesis using next_tx_free[of head mm full s ss n ps] less.prems by auto
  next
    case Nil
    let ?m1 = "snd (mm_tx_call (ps_send ps) mm)"
    let ?m2 = "snd (mm_tx_call (ps_poll_out ps) ?m1)"
    have ok: "tx_ring_ok head mm full []" using less.prems Nil by simp
    note req = full_requested[OF ok]
    obtain k where n: "n = Suc k" "lag (mm_kernel mm) + 1 \<le> k" using less.prems(2) by (cases n) auto
    have "next_tx_body ps mm = Inl ?m2" using req(2) by (simp add: next_tx_body_def requested_def)
    then have step: "hw_get_next_tx_buffer ps n mm = hw_get_next_tx_buffer ps k ?m2"
      by (simp add: hw_get_next_tx_buffer_def n(1))
    obtain full1 free1 where m1: "tx_ring_ok head ?m1 full1 free1" using send_call(1)[OF assms(1) ok] by blast
    obtain full2 free2 where m2: "tx_ring_ok head ?m2 full2 free2" using poll_call(1)[OF assms(1) m1] by blast
    have wire: "mm_wire head sent ?m2 = mm_wire head sent mm"
      using send_call(2)[OF assms(1) ok] poll_call(2)[OF assms(1) m1] by simp
    obtain r1 ring1 k1 where c1: "ps_send ps (mm_tx_ring mm) (mm_kernel mm) = (r1, ring1, k1)" by (metis prod_cases3)
    obtain r2 ring2 k2 where c2: "ps_poll_out ps ring1 k1 = (r2, ring2, k2)" by (metis prod_cases3)
    note s1 = tx_call_eq[where f = "ps_send ps", OF c1]
    have "ps_poll_out ps (mm_tx_ring ?m1) (mm_kernel ?m1) = (r2, ring2, k2)" using c2 s1 by simp
    note s2 = tx_call_eq[where f = "ps_poll_out ps", OF this]
    have prog: "(\<exists>s\<in>set ring2. \<not> requested s) \<or> lag k2 < lag (mm_kernel mm)"
      using assms(1) head_less[OF ok] req(1) c1 c2 unfolding tx_kernel_ok_def by blast
    show ?thesis
    proof (cases free2)
      case (Cons s ss)
      then show ?thesis
        using next_tx_free[of head ?m2 full2 s ss k ps] m2 n(2) wire unfolding step by auto
    next
      case Nil
      then have "\<forall>s\<in>set ring2. requested s" using full_requested(1)[of head ?m2 full2] m2 s2(2) by simp
      then have "lag (mm_kernel ?m2) < lag (mm_kernel mm)" using prog s2(1) by simp
      from less.hyps[OF this m2, of k] this n(2) show ?thesis unfolding step wire by auto
    qed
  qed
qed

text \<open>The frame is built in the page of the slot at the offset.\<close>

lemma slot_upd_ok:
  assumes ok: "tx_ring_ok head mm full (s # free)" and u: "available (u s)" "length (tp_page (u s)) = page_size"
  shows "tx_ring_ok head (slot_upd u mm) full (u s # free)"
proof -
  have q: "ring_queue (head (mm_kernel mm)) (mm_tx_ring_offset mm) full (s # free) (mm_tx_ring mm)"
    using ok by (simp add: tx_ring_ok_def)
  show ?thesis
    using ring_at_producer(2)[OF q] ring_at_producer(3)[OF q, of "u s"] ok u by (simp add: tx_ring_ok_def slot_upd_def mm_kernel_def)
qed

lemma put_at_page: "length p = page_size \<Longrightarrow> length b + tp_frame_offset = page_size \<Longrightarrow>
  drop tp_frame_offset (put_at tp_frame_offset b p) = b \<and> length (put_at tp_frame_offset b p) = page_size"
  by (simp add: put_at_def)

lemma mmaped_get_tx_buffer:
  assumes "mm_sending ps head sent lag fuel mm"
  shows "\<exists>buf mm'. hw_device_sock_raw_mmaped_get_tx_buffer ps fuel mm = (EC_OK, buf, mm') \<and>
     mm_ready ps head sent lag fuel mm' \<and> mm_wire head sent mm' = mm_wire head sent mm \<and>
     length buf = page_size - tp_frame_offset \<and> ec_frame_length buf = 16 \<and> fr_ethertype buf = ETH_P_ECAT"
proof -
  obtain full0 free0 where k: "tx_kernel_ok ps head sent lag" "\<forall>k. lag k + 2 \<le> fuel" "tx_ring_ok head mm full0 free0"
    using assms by (auto simp: mm_sending_def)
  obtain m full s free where m: "hw_get_next_tx_buffer ps fuel mm = Some m" "tx_ring_ok head m full (s # free)"
    "mm_wire head sent m = mm_wire head sent mm"
    using next_tx_returns[OF k(1,3)] k(2) by blast
  have at: "mm_tx_ring m ! mm_tx_ring_offset m = s" "available s" "length (tp_page s) = page_size"
    using ring_at_producer(2)[of "head (mm_kernel m)" "mm_tx_ring_offset m" full s free] m(2)
    by (simp_all add: tx_ring_ok_def)
  let ?b0 = "put_at 12 ETH_P_ECAT (put_at 6 [0x00, 0x30, 0x64, 0x0F, 0x83, 0x35]
      (put_at 0 [0xFF, 0xFF, 0xFF, 0xFF, 0xFF, 0xFF] (drop tp_frame_offset (tp_page s))))"
  let ?b = "fr_set_len ec_frame_hdr_length (fr_set_type 1 ?b0)"
  let ?u = "\<lambda>s. s\<lparr>tp_page := put_at tp_frame_offset ?b (tp_page s)\<rparr>"
  have ETH: "length ETH_P_ECAT = 2" by (simp add: ETH_P_ECAT_def)
  have b: "length ?b = page_size - tp_frame_offset" "ec_frame_length ?b = 16" "fr_ethertype ?b = ETH_P_ECAT"
    using at(3) ETH by (simp_all add: buf_simps fr_ethertype_def[of "put_at _ _ _"])
  have u: "available (?u s)" "length (tp_page (?u s)) = page_size"
    using at b(1) put_at_page[of "tp_page s" ?b] by (simp_all add: available_def)
  have ok: "tx_ring_ok head (slot_upd ?u m) full (?u s # free)" by (rule slot_upd_ok) (fact m(2), fact u(1), fact u(2))
  have w: "mm_wire head sent (slot_upd ?u m) = mm_wire head sent mm"
    unfolding m(3)[symmetric] mm_wire_queue[OF ok] mm_wire_queue[OF m(2)] by (simp add: slot_upd_def mm_kernel_def)
  have run: "hw_device_sock_raw_mmaped_get_tx_buffer ps fuel mm = (EC_OK, ?b, slot_upd ?u m)"
    by (simp only: hw_device_sock_raw_mmaped_get_tx_buffer_def m(1) option.case Let_def at(1))
  have rdy: "mm_ready ps head sent lag fuel (slot_upd ?u m)" using ok k(1,2) unfolding mm_ready_def by blast
  show ?thesis by (intro exI[of _ ?b] exI[of _ "slot_upd ?u m"] conjI) (fact run rdy w b)+
qed

text \<open>The frame joins the queue of the ring, and the kernel sends some of it.\<close>

lemma mmaped_send:
  assumes ok: "mm_ready ps head sent lag fuel mm"
    and buf: "length buf = page_size - tp_frame_offset" "ec_frame_length buf \<le> page_size - tp_frame_offset"
  shows "mm_sending ps head sent lag fuel (snd (hw_device_sock_raw_mmaped_send ps buf t mm))"
    "mm_wire head sent (snd (hw_device_sock_raw_mmaped_send ps buf t mm)) =
       mm_wire head sent mm @ [take (ec_frame_length buf) buf]"
proof -
  obtain full s free where k: "tx_kernel_ok ps head sent lag" "\<forall>k. lag k + 2 \<le> fuel" "tx_ring_ok head mm full (s # free)"
    using ok by (auto simp: mm_ready_def)
  let ?u = "\<lambda>s. s\<lparr>tp_page := put_at tp_frame_offset buf (tp_page s), tp_len := ec_frame_length buf,
                 tp_status := TP_STATUS_SEND_REQUEST\<rparr>"
  let ?m = "(slot_upd ?u mm)\<lparr>mm_tx_ring_offset := Suc (mm_tx_ring_offset mm) mod mm_mmap_packets mm\<rparr>"
  have q: "ring_queue (head (mm_kernel mm)) (mm_tx_ring_offset mm) full (s # free) (mm_tx_ring mm)"
    "mm_mmap_packets mm = length (mm_tx_ring mm)" "length (tp_page s) = page_size"
    using k(3) by (simp_all add: tx_ring_ok_def)
  have page: "drop tp_frame_offset (tp_page (?u s)) = buf" "length (tp_page (?u s)) = page_size" "requested (?u s)"
    using put_at_page[OF q(3), of buf] buf(1) by (simp_all add: requested_def)
  have at: "mm_tx_ring mm ! mm_tx_ring_offset mm = s" by (rule ring_at_producer(2)[OF q(1)])
  from ring_at_producer(4)[OF ring_at_producer(3)[OF q(1), of "?u s"]]
  have m: "tx_ring_ok head ?m (full @ [?u s]) free"
    using k(3) page q(2) by (simp add: tx_ring_ok_def slot_upd_def mm_kernel_def at)
  have run: "snd (hw_device_sock_raw_mmaped_send ps buf t mm) = snd (mm_tx_call (ps_send ps) ?m)"
    by (simp add: hw_device_sock_raw_mmaped_send_def mm_tx_call_def slot_upd_def mm_kernel_def split: prod.split)
  show "mm_sending ps head sent lag fuel (snd (hw_device_sock_raw_mmaped_send ps buf t mm))"
    using send_call(1)[OF k(1) m] k(1,2) by (simp add: run mm_sending_def)
  have "mm_wire head sent ?m = mm_wire head sent mm @ [tx_frame (?u s)]"
    unfolding mm_wire_queue[OF m] mm_wire_queue[OF k(3)] by (simp add: slot_upd_def mm_kernel_def)
  then show "mm_wire head sent (snd (hw_device_sock_raw_mmaped_send ps buf t mm)) =
       mm_wire head sent mm @ [take (ec_frame_length buf) buf]"
    using send_call(2)[OF k(1) m] page(1) by (simp add: run tx_frame_def)
qed

interpretation mmaped: tx_device "sock_raw_mmaped_device ps fuel" "mm_sending ps head sent lag fuel"
    "mm_ready ps head sent lag fuel" "mm_wire head sent" "page_size - tp_frame_offset" "page_size - tp_frame_offset"
  for ps fuel head sent lag
proof (unfold_locales, goal_cases)
  case (1 mm)
  from mmaped_get_tx_buffer[OF this] show ?case by (simp add: sock_raw_mmaped_device_def)
next
  case 2
  then show ?case by (auto simp: mm_sending_def mm_ready_def)
next
  case (3 mm buf t)
  from mmaped_send(1)[OF this, of t] show ?case by (simp add: sock_raw_mmaped_device_def)
next
  case (4 mm buf t)
  from mmaped_send(2)[OF this, of t] show ?case by (simp add: sock_raw_mmaped_device_def)
qed

section \<open>Receiving\<close>

text \<open>\<open>fs\<close> are the frames to be received: those in the ring, then those that are due.\<close>

definition receiving_ring ::
  "('k \<Rightarrow> nat) \<Rightarrow> ('k \<Rightarrow> bytes list) \<Rightarrow> 'k mmaped \<Rightarrow> tp_slot list \<Rightarrow> bytes list \<Rightarrow> bool" where
  "receiving_ring rxh due mm full fs \<longleftrightarrow>
     (\<exists>free gs. ring_queue (mm_rx_ring_offset mm) (rxh (mm_kernel mm)) full free (mm_rx_ring mm) \<and>
        mm_mmap_packets mm = length (mm_rx_ring mm) \<and> (\<forall>s\<in>set free. available s) \<and>
        list_all2 rx_holds full gs \<and> fs = gs @ due (mm_kernel mm))"

lemma filled_not_available: "filled s \<Longrightarrow> \<not> available s"
  by (auto simp: filled_def available_def)

lemma holds_filled: "list_all2 rx_holds ss fs \<Longrightarrow> \<forall>s\<in>set ss. filled s"
  by (induction rule: list_all2_induct) (auto simp: rx_holds_def)

lemma rx_call_eq:
  assumes "f (mm_rx_ring mm) (mm_kernel mm) = (r, ring, k)"
  shows "fst (mm_rx_call f mm) = r"
    "mm_kernel (snd (mm_rx_call f mm)) = k" "mm_rx_ring (snd (mm_rx_call f mm)) = ring"
    "mm_rx_ring_offset (snd (mm_rx_call f mm)) = mm_rx_ring_offset mm"
    "mm_mmap_packets (snd (mm_rx_call f mm)) = mm_mmap_packets mm"
proof -
  have "mm_rx_call f mm = (r, mm\<lparr>mm_rx_ring := ring, mm_fd := (mm_fd mm)\<lparr>pf_kernel := k\<rparr>\<rparr>)"
    by (simp add: mm_rx_call_def assms)
  then show "fst (mm_rx_call f mm) = r"
    "mm_kernel (snd (mm_rx_call f mm)) = k" "mm_rx_ring (snd (mm_rx_call f mm)) = ring"
    "mm_rx_ring_offset (snd (mm_rx_call f mm)) = mm_rx_ring_offset mm"
    "mm_mmap_packets (snd (mm_rx_call f mm)) = mm_mmap_packets mm"
    by (simp_all add: mm_kernel_def)
qed

text \<open>Whatever the kernel puts into the ring was due: the frames to be received stay the same.\<close>

lemma rx_call_keeps:
  assumes rec: "receiving_ring rxh due mm full fs"
    and k: "f (mm_rx_ring mm) (mm_kernel mm) = (r, ring', k')" "kernel_fills rxh due (mm_rx_ring mm) (mm_kernel mm) ring' k'"
  shows "\<exists>full'. receiving_ring rxh due (snd (mm_rx_call f mm)) full' fs"
proof -
  obtain free gs where q: "ring_queue (mm_rx_ring_offset mm) (rxh (mm_kernel mm)) full free (mm_rx_ring mm)"
    "mm_mmap_packets mm = length (mm_rx_ring mm)" "\<forall>s\<in>set free. available s"
    "list_all2 rx_holds full gs" "fs = gs @ due (mm_kernel mm)"
    using rec by (auto simp: receiving_ring_def)
  obtain old new hs where s: "ring_served (rxh (mm_kernel mm)) (rxh k') old new (mm_rx_ring mm) ring'"
    "\<forall>s\<in>set old. available s" "list_all2 rx_holds new hs" "due (mm_kernel mm) = hs @ due k'"
    using k(2) by (auto simp: kernel_fills_def)
  obtain rest where "rotate (rxh (mm_kernel mm)) (mm_rx_ring mm) = old @ rest"
    using s(1) by (auto simp: ring_served_def)
  moreover have "rotate (rxh (mm_kernel mm)) (mm_rx_ring mm) = free @ full"
    by (rule rotate_past) (use q(1) in \<open>auto simp: ring_queue_def\<close>)
  ultimately have "old @ rest = free @ full" by simp
  then have "length old \<le> length free"
    by (rule prefix_le) (use s(2) holds_filled[OF q(4)] filled_not_available in auto)
  note p = ring_produce[OF q(1) s(1) this]
  note mm = rx_call_eq[where f = f, OF k(1)]
  have "length ring' = length (mm_rx_ring mm)" using s(1) by (simp add: ring_served_def)
  moreover have "\<forall>s\<in>set (drop (length old) free). available s" using q(3) by (auto dest: in_set_dropD)
  moreover have "list_all2 rx_holds (full @ new) (gs @ hs)" by (rule list_all2_appendI[OF q(4) s(3)])
  moreover have "fs = (gs @ hs) @ due k'" using q(5) s(4) by simp
  ultimately have "receiving_ring rxh due (snd (mm_rx_call f mm)) (full @ new) fs"
    using p(2) q(2) unfolding receiving_ring_def mm by metis
  then show ?thesis by blast
qed

lemma receiving_less: "receiving_ring rxh due mm full fs \<Longrightarrow> rxh (mm_kernel mm) < length (mm_rx_ring mm)"
proof -
  assume "receiving_ring rxh due mm full fs"
  then obtain free where "ring_queue (mm_rx_ring_offset mm) (rxh (mm_kernel mm)) full free (mm_rx_ring mm)"
    by (auto simp: receiving_ring_def)
  then show ?thesis by (auto simp: ring_queue_def intro: mod_less_divisor)
qed

lemma fill_call:
  assumes "rx_kernel_ok ps rxh due" "receiving_ring rxh due mm full fs"
  obtains mm' full' where "snd (mm_rx_call (\<lambda>ring k. (0, ps_fill ps ring k)) mm) = mm'"
    "receiving_ring rxh due mm' full' fs" "due (mm_kernel mm) = [] \<Longrightarrow> due (mm_kernel mm') = []"
proof -
  let ?f = "\<lambda>ring k. (0, ps_fill ps ring k)"
  obtain ring k where c: "ps_fill ps (mm_rx_ring mm) (mm_kernel mm) = (ring, k)" by fastforce
  have f: "kernel_fills rxh due (mm_rx_ring mm) (mm_kernel mm) ring k"
    using assms(1) receiving_less[OF assms(2)] c unfolding rx_kernel_ok_def by blast
  have e: "?f (mm_rx_ring mm) (mm_kernel mm) = (0, ring, k)" by (simp add: c)
  obtain full' where "receiving_ring rxh due (snd (mm_rx_call ?f mm)) full' fs"
    using rx_call_keeps[where f = ?f, OF assms(2) e f] by blast
  moreover have "due (mm_kernel mm) = [] \<Longrightarrow> due k = []" using f by (auto simp: kernel_fills_def)
  ultimately show thesis using that rx_call_eq(2)[where f = ?f, OF e] by metis
qed

lemma receiving_empty:
  assumes "receiving_ring rxh due mm full []"
  shows "full = []" "available (mm_rx_ring mm ! mm_rx_ring_offset mm)"
proof -
  obtain free gs where q: "ring_queue (mm_rx_ring_offset mm) (rxh (mm_kernel mm)) full free (mm_rx_ring mm)"
    "\<forall>s\<in>set free. available s" "list_all2 rx_holds full gs" "gs @ due (mm_kernel mm) = []"
    using assms by (auto simp: receiving_ring_def)
  then show e: "full = []" by simp
  have "length free = length (mm_rx_ring mm)" using ring_queue_length[OF q(1)] e by simp
  moreover have "0 < length (mm_rx_ring mm)" using q(1) by (auto simp: ring_queue_def)
  ultimately obtain s ss where "free = s # ss" by (cases free) auto
  then show "available (mm_rx_ring mm ! mm_rx_ring_offset mm)"
    using ring_empty_consumer[of "mm_rx_ring_offset mm" _ s ss "mm_rx_ring mm"] q(1,2) e by auto
qed

lemma receiving_next:
  assumes "receiving_ring rxh due mm full (f # fs)" "due (mm_kernel mm) = []"
  obtains rest ss where "filled (mm_rx_ring mm ! mm_rx_ring_offset mm)"
    "drop (tp_mac (mm_rx_ring mm ! mm_rx_ring_offset mm)) (tp_page (mm_rx_ring mm ! mm_rx_ring_offset mm)) = f @ rest"
    "receiving_ring rxh due
       (mm\<lparr>mm_rx_ring := (mm_rx_ring mm)[mm_rx_ring_offset mm := (mm_rx_ring mm ! mm_rx_ring_offset mm)\<lparr>tp_status := 0\<rparr>],
          mm_rx_ring_offset := Suc (mm_rx_ring_offset mm) mod mm_mmap_packets mm\<rparr>) ss fs"
proof -
  obtain free gs where q: "ring_queue (mm_rx_ring_offset mm) (rxh (mm_kernel mm)) full free (mm_rx_ring mm)"
    "mm_mmap_packets mm = length (mm_rx_ring mm)" "\<forall>s\<in>set free. available s"
    "list_all2 rx_holds full gs" "f # fs = gs @ due (mm_kernel mm)"
    using assms(1) by (auto simp: receiving_ring_def)
  then have "gs = f # fs" using assms(2) by simp
  then obtain s ss where full: "full = s # ss" "rx_holds s f" "list_all2 rx_holds ss fs"
    using q(4) by (auto simp: list_all2_Cons2)
  let ?s = "s\<lparr>tp_status := 0\<rparr>"
  note c = ring_at_consumer(1)[OF q(1)[unfolded full(1)]] ring_at_consumer(2)[OF q(1)[unfolded full(1)], of ?s]
  have "receiving_ring rxh due (mm\<lparr>mm_rx_ring := (mm_rx_ring mm)[mm_rx_ring_offset mm := ?s],
      mm_rx_ring_offset := Suc (mm_rx_ring_offset mm) mod mm_mmap_packets mm\<rparr>) ss fs"
    unfolding receiving_ring_def using c(2) q(2,3) full(3) assms(2)
    by (intro exI[of _ "free @ [?s]"] exI[of _ fs]) (auto simp: mm_kernel_def available_def)
  moreover obtain rest where "filled s" "drop (tp_mac s) (tp_page s) = f @ rest"
    using full(2) by (auto simp: rx_holds_def)
  ultimately show thesis using that c(1) by simp
qed

text \<open>All frames of the ring are processed, in the order in which they arrived.\<close>

lemma mmaped_recv_loop:
  assumes "list_all2 frame_of cs fs" and ps: "rx_kernel_ok ps rxh due"
    and "receiving_ring rxh due mm full fs" "due (mm_kernel mm) = []"
    and "\<forall>c\<in>set cs. c \<noteq> []" "\<forall>d\<in>set (concat cs). wf_dg d"
    and "marked hw own (concat cs)" "distinct (map (\<lambda>m. dg_idx m 0) (concat cs))" and "length fs < n"
  shows "\<exists>mm' hw'. loop n (mmaped_recv_body ps rx_log) (mm, hw, l) =
       Some (Some (mm', hw', l @ map (\<lambda>m. (own (dg_idx m 0), dg_set_next False 0 m)) (concat cs))) \<and>
     receiving_ring rxh due mm' [] []"
  using assms(1,3-)
proof (induction arbitrary: mm full hw l n rule: list_all2_induct)
  case Nil
  obtain m full' where m: "snd (mm_rx_call (\<lambda>ring k. (0, ps_fill ps ring k)) mm) = m" "receiving_ring rxh due m full' []"
    using fill_call[OF ps Nil.prems(1)] by metis
  note e = receiving_empty[OF m(2)]
  have "mmaped_recv_body ps rx_log (mm, hw, l) = Inr (Some (m, hw, l))"
    using m(1) e(2) by (simp add: mmaped_recv_body_def available_def split_def Let_def)
  then have "loop n (mmaped_recv_body ps rx_log) (mm, hw, l) = Some (Some (m, hw, l))"
    by (rule loop_once) (use Nil.prems in simp)
  then show ?case using m(2) e(1) by simp
next
  case (Cons c cs f fs)
  obtain k where n: "n = Suc k" "length fs < k" using Cons.prems(7) by (cases n) auto
  obtain m full' where m: "snd (mm_rx_call (\<lambda>ring k. (0, ps_fill ps ring k)) mm) = m"
    "receiving_ring rxh due m full' (f # fs)" "due (mm_kernel m) = []"
    using fill_call[OF ps Cons.prems(1)] Cons.prems(2) by metis
  let ?s = "mm_rx_ring m ! mm_rx_ring_offset m"
  let ?m = "m\<lparr>mm_rx_ring := (mm_rx_ring m)[mm_rx_ring_offset m := ?s\<lparr>tp_status := 0\<rparr>],
              mm_rx_ring_offset := Suc (mm_rx_ring_offset m) mod mm_mmap_packets m\<rparr>"
  obtain rest ss where s: "filled ?s" "drop (tp_mac ?s) (tp_page ?s) = f @ rest" "receiving_ring rxh due ?m ss fs"
    using receiving_next[OF m(2,3)] by blast
  obtain hw' where hw': "hw_process_rx_frame rx_log (f @ rest) (hw, l)
       = Some (True, hw', l @ map (\<lambda>m. (own (dg_idx m 0), dg_set_next False 0 m)) c)" "marked hw' own (concat cs)"
    using rx_frame_log[OF Cons.hyps(1), of hw own "concat cs" rest l] Cons.prems by auto
  have body: "mmaped_recv_body ps rx_log (mm, hw, l) =
      Inl (?m, hw', l @ map (\<lambda>m. (own (dg_idx m 0), dg_set_next False 0 m)) c)"
    using s(1) by (simp add: mmaped_recv_body_def split_def Let_def m(1) s(2) hw'(1) filled_def)
  have "due (mm_kernel ?m) = []" using m(3) by (simp add: mm_kernel_def)
  from Cons.IH[OF s(3) this _ _ hw'(2) _ n(2), of "l @ map (\<lambda>m. (own (dg_idx m 0), dg_set_next False 0 m)) c"] Cons.prems
  show ?case by (auto simp: n(1) body)
qed

lemma mmaped_recv_log:
  assumes fs: "list_all2 frame_of cs fs" and ps: "rx_kernel_ok ps rxh due" and rec: "receiving_ring rxh due mm full fs"
    and all: "due (mm_kernel (snd (mm_rx_call (ps_poll_in ps) mm))) = []"
    and cs: "\<forall>c\<in>set cs. c \<noteq> []" "\<forall>d\<in>set (concat cs). wf_dg d"
    and mk: "marked hw own (concat cs)" "distinct (map (\<lambda>m. dg_idx m 0) (concat cs))" and n: "length fs < n"
  shows "\<exists>mm' hw'. hw_device_sock_raw_mmaped_recv ps n rx_log (mm, hw, l) =
       Some (EC_OK, mm', hw', l @ map (\<lambda>m. (own (dg_idx m 0), dg_set_next False 0 m)) (concat cs)) \<and>
     receiving_ring rxh due mm' [] []"
proof -
  obtain r ring k where c: "ps_poll_in ps (mm_rx_ring mm) (mm_kernel mm) = (r, ring, k)" by (metis prod_cases3)
  have f: "kernel_fills rxh due (mm_rx_ring mm) (mm_kernel mm) ring k" "(\<exists>s\<in>set ring. filled s) \<longrightarrow> r > 0"
    using ps receiving_less[OF rec] c unfolding rx_kernel_ok_def by blast+
  note eq = rx_call_eq[where f = "ps_poll_in ps", OF c]
  obtain m where m: "mm_rx_call (ps_poll_in ps) mm = (r, m)" using eq(1) by (cases "mm_rx_call (ps_poll_in ps) mm") simp
  obtain full' where rec': "receiving_ring rxh due m full' fs"
    using rx_call_keeps[where f = "ps_poll_in ps", OF rec c f(1)] m by auto
  have due: "due (mm_kernel m) = []" using all m by simp
  obtain mm' hw' where l: "loop n (mmaped_recv_body ps rx_log) (m, hw, l) =
       Some (Some (mm', hw', l @ map (\<lambda>m. (own (dg_idx m 0), dg_set_next False 0 m)) (concat cs)))"
     "receiving_ring rxh due mm' [] []"
    using mmaped_recv_loop[OF fs ps rec' due cs mk n] by blast
  show ?thesis
  proof (cases "r > 0")
    case True
    then show ?thesis using l by (simp add: hw_device_sock_raw_mmaped_recv_def m)
  next
    case False
    have "fs = []"
    proof (rule ccontr)
      assume "fs \<noteq> []"
      then obtain g gs where "fs = g # gs" by (cases fs) auto
      then obtain rest ss where s: "filled (mm_rx_ring m ! mm_rx_ring_offset m)"
        using receiving_next[OF rec'[unfolded \<open>fs = g # gs\<close>] due] by blast
      have "mm_rx_ring m = ring" using eq(3) m by simp
      moreover have "mm_rx_ring_offset m < length (mm_rx_ring m)"
        using rec' by (auto simp: receiving_ring_def ring_queue_def)
      ultimately show False using s f(2) False nth_mem by metis
    qed
    then have "cs = []" "receiving_ring rxh due m [] []" using fs rec' receiving_empty(1) by auto
    then show ?thesis using False by (simp add: hw_device_sock_raw_mmaped_recv_def m)
  qed
qed

section \<open>From the queue to the callbacks\<close>

text \<open>
  C8: The mapped socket, for any kernel that sends the requested slots of the ring in order and in its
  own pace: \<^verbatim>\<open>hw_tx_pool\<close> returns, the frames that it built are on the wire or wait in the
  ring behind those of earlier calls, none overwritten; and when they have come back into the receive
  ring, one call of \<^verbatim>\<open>recv\<close> hands the datagram of every queued entry to its callback,
  exactly once and in the order of the queue.
\<close>

theorem mmaped_device_roundtrip:
  assumes ok: "mm_sending ps head sent lag fuel mm"
    and snd: "\<forall>p\<in>set (avail (hw_pool t hw)). sendable hw p \<and> pe_user_cb (hw_entries hw p) \<noteq> None"
    and idx: "distinct (map (\<lambda>p. dg_idx (dg_of hw p) 0) (avail (hw_pool t hw)))"
    and mtu: "hw_mtu_size hw < 2048" and ps: "rx_kernel_ok ps rxh due"
    and n: "length (avail (hw_pool t hw)) < n"
  shows "\<exists>sent_any hw1 mm1 fs. hw_tx_pool os (sock_raw_mmaped_device ps fuel) t (hw, mm) = Some (sent_any, hw1, mm1) \<and>
     mm_sending ps head sent lag fuel mm1 \<and> mm_wire head sent mm1 = mm_wire head sent mm @ fs \<and>
     (\<forall>mm2 full. receiving_ring rxh due mm2 full fs \<and> due (mm_kernel (snd (mm_rx_call (ps_poll_in ps) mm2))) = [] \<longrightarrow>
        (\<exists>mm3 hw2. hw_device_sock_raw_mmaped_recv ps n rx_log (mm2, hw1, []) =
           Some (EC_OK, mm3, hw2, map (\<lambda>p. (p, dg_set_next False 0 (dg_of hw p))) (avail (hw_pool t hw))) \<and>
         receiving_ring rxh due mm3 [] []))"
proof -
  let ?ps = "avail (hw_pool t hw)" and ?g = "\<lambda>p. dg_idx (dg_of hw p) 0"
  let ?cs = "pack (hw_mtu_size hw) [] (map (dg_of hw) ?ps)"
  have dps: "distinct ?ps" using idx by (simp add: distinct_map)
  have lim: "hw_mtu_size hw \<le> page_size - tp_frame_offset" using mtu by simp
  obtain sent_any hw1 mm1 fs where r: "hw_tx_pool os (sock_raw_mmaped_device ps fuel) t (hw, mm) = Some (sent_any, hw1, mm1)"
      "mm_sending ps head sent lag fuel mm1" "mm_wire head sent mm1 = mm_wire head sent mm @ fs"
      "list_all2 frame_of ?cs fs" "hw_tx_send hw1 = mark_sent hw ?ps"
      "\<forall>q. pe_owner (hw_entries hw1 q) = pe_owner (hw_entries hw q)"
    using mmaped.tx_pool_frames[OF ok dps _ lim mtu lim, of os] snd by blast
  have sendable: "\<forall>p\<in>set ?ps. sendable hw p" using snd by blast
  note fit = pool_frames_fit(1)[OF sendable r(4)]
  obtain own where own: "\<And>p. p \<in> set ?ps \<Longrightarrow> own (?g p) = p" using own_index[OF idx] by blast
  have cc: "concat ?cs = map (dg_of hw) ?ps" by (simp add: concat_pack)
  have mk: "marked hw1 own (concat ?cs)"
    using fold_upd_distinct[OF idx] own snd r(5,6) by (auto simp: marked_def cc mark_sent_def pe_owner_def)
  have wf: "\<forall>d\<in>set (concat ?cs). wf_dg d" unfolding cc using dg_of_props(4) snd by auto
  have dist: "distinct (map (\<lambda>m. dg_idx m 0) (concat ?cs))" unfolding cc using idx by (simp add: comp_def)
  have "length fs = length ?cs" using r(4) by (simp add: list_all2_lengthD)
  also have "\<dots> \<le> length (concat ?cs)" by (rule length_concat_ge[OF fit])
  finally have few: "length fs < n" unfolding cc using n by simp
  have log: "map (\<lambda>m. (own (dg_idx m 0), dg_set_next False 0 m)) (concat ?cs)
      = map (\<lambda>p. (p, dg_set_next False 0 (dg_of hw p))) ?ps"
    unfolding cc using own by simp
  have "\<exists>mm3 hw2. hw_device_sock_raw_mmaped_recv ps n rx_log (mm2, hw1, []) =
           Some (EC_OK, mm3, hw2, map (\<lambda>p. (p, dg_set_next False 0 (dg_of hw p))) ?ps) \<and>
         receiving_ring rxh due mm3 [] []"
    if "receiving_ring rxh due mm2 full fs" "due (mm_kernel (snd (mm_rx_call (ps_poll_in ps) mm2))) = []" for mm2 full
    using mmaped_recv_log[OF r(4) ps that fit wf mk dist few, of "[]"] unfolding log append_Nil .
  with r show ?thesis by blast
qed

text \<open>
  A kernel that sends one slot in every call of \<^verbatim>\<open>send\<close> and puts one frame into the receive ring in
  every call of \<^verbatim>\<open>poll\<close>: its places in the rings, the frames that it sent and those that are due.
\<close>

type_synonym ring_kernel = "nat \<times> bytes list \<times> nat \<times> bytes list"

definition send_one :: "tp_slot list \<Rightarrow> ring_kernel \<Rightarrow> int \<times> tp_slot list \<times> ring_kernel" where
  "send_one ring = (\<lambda>(h, fs, r, d).
     (if requested (ring ! h)
      then (0, ring[h := (ring ! h)\<lparr>tp_status := TP_STATUS_AVAILABLE\<rparr>], (Suc h mod length ring, fs @ [tx_frame (ring ! h)], r, d))
      else (0, ring, (h, fs, r, d))))"

definition fill_one :: "tp_slot list \<Rightarrow> ring_kernel \<Rightarrow> int \<times> tp_slot list \<times> ring_kernel" where
  "fill_one ring = (\<lambda>(h, fs, r, d).
     (case d of
        [] \<Rightarrow> (1, ring, (h, fs, r, d))
      | f # d' \<Rightarrow>
          (if available (ring ! r)
           then (1, ring[r := \<lparr>tp_status = TP_STATUS_USER, tp_len = length f, tp_mac = 66, tp_page = replicate 66 0 @ f\<rparr>],
                 (h, fs, Suc r mod length ring, d'))
           else (1, ring, (h, fs, r, d)))))"

definition one_socket :: "ring_kernel packet_socket" where
  "one_socket =
     \<lparr>sk_socket = Pair 3, sk_setsockopt = (\<lambda>_. Pair 0), sk_ifindex = (\<lambda>_. Pair 2), sk_flags = (\<lambda>_ _. Pair 0x40),
      sk_set_flags = (\<lambda>_ _. id), sk_mtu = (\<lambda>_. Pair 1500), sk_bind = (\<lambda>_. id), sk_close = (\<lambda>_. id), sk_time = Pair 0,
      sk_sleep = (\<lambda>_. id), ps_send = send_one, ps_poll_out = (\<lambda>ring k. (1, ring, k)), ps_poll_in = fill_one,
      ps_fill = Pair\<rparr>"

lemma ring_served_none: "i < length ring \<Longrightarrow> ring_served i i [] [] ring ring"
  by (simp add: ring_served_def)

lemma send_one_sends:
  assumes "fst k < length ring" "send_one ring k = (r, ring', k')"
  shows "kernel_sends fst (\<lambda>(h, fs, r, d). fs) ring k ring' k'"
proof -
  obtain h fs r d where k: "k = (h, fs, r, d)" by (cases k)
  show ?thesis
  proof (cases "requested (ring ! h)")
    case True
    then show ?thesis
      using assms ring_served_update[of h ring "(ring ! h)\<lparr>tp_status := TP_STATUS_AVAILABLE\<rparr>"]
      by (auto simp: send_one_def k kernel_sends_def intro!: exI[of _ "[ring ! h]"])
  next
    case False
    then show ?thesis
      using assms ring_served_none[of h ring] by (auto simp: send_one_def k kernel_sends_def intro!: exI[of _ "[]"])
  qed
qed

lemma one_socket_tx: "tx_kernel_ok one_socket fst (\<lambda>(h, fs, r, d). fs) (\<lambda>_. 0)"
proof -
  have "kernel_sends fst (\<lambda>(h, fs, r, d). fs) ring k ring k" if "fst k < length ring" for ring and k :: ring_kernel
    using ring_served_none[OF that] by (auto simp: kernel_sends_def intro!: exI[of _ "[]"])
  moreover have "\<exists>s\<in>set ring1. \<not> requested s"
    if "fst k < length ring" "\<forall>s\<in>set ring. requested s" "send_one ring k = (r, ring1, k1)" for ring k r ring1 k1
  proof -
    obtain h fs q d where k: "k = (h, fs, q, d)" by (cases k)
    have "requested (ring ! h)" using that(1,2) k by simp
    then have "ring1 = ring[h := (ring ! h)\<lparr>tp_status := TP_STATUS_AVAILABLE\<rparr>]" using that(3) by (simp add: send_one_def k)
    moreover have "\<not> requested ((ring ! h)\<lparr>tp_status := TP_STATUS_AVAILABLE\<rparr>)" by (simp add: requested_def)
    ultimately show ?thesis using that(1) k set_update_memI by fastforce
  qed
  ultimately show ?thesis
    unfolding tx_kernel_ok_def one_socket_def by (auto simp: send_one_sends)
qed

lemma one_socket_rx: "rx_kernel_ok one_socket (\<lambda>(h, fs, r, d). r) (\<lambda>(h, fs, r, d). d)"
proof -
  have none: "kernel_fills (\<lambda>(h, fs, r, d). r) (\<lambda>(h, fs, r, d). d) ring (h, fs, r, d) ring (h, fs, r, d)"
    if "r < length ring" for ring h fs r d
    using ring_served_none[OF that] by (auto simp: kernel_fills_def intro!: exI[of _ "[]"])
  have fill: "kernel_fills (\<lambda>(h, fs, r, d). r) (\<lambda>(h, fs, r, d). d) ring k ring' k'"
    if "(\<lambda>(h, fs, r, d). r) k < length ring" "fill_one ring k = (q, ring', k')" for ring k q ring' k'
  proof -
    obtain h fs r d where k: "k = (h, fs, r, d)" by (cases k)
    have r: "r < length ring" using that(1) k by simp
    show ?thesis
    proof (cases "d = [] \<or> \<not> available (ring ! r)")
      case True
      then show ?thesis using that(2) none[OF r] by (auto simp: fill_one_def k split: list.splits)
    next
      case False
      then obtain f d' where d: "d = f # d'" "available (ring ! r)" by (cases d) auto
      let ?s = "\<lparr>tp_status = TP_STATUS_USER, tp_len = length f, tp_mac = 66, tp_page = replicate 66 0 @ f\<rparr>"
      have "rx_holds ?s f" by (simp add: rx_holds_def filled_def)
      moreover have "ring' = ring[r := ?s]" "k' = (h, fs, Suc r mod length ring, d')"
        using that(2) d by (simp_all add: fill_one_def k)
      ultimately show ?thesis
        unfolding kernel_fills_def using ring_served_update[OF r, of ?s] d
        by (intro exI[of _ "[ring ! r]"] exI[of _ "[?s]"] exI[of _ "[f]"]) (simp add: k)
    qed
  qed
  have pos: "fst (fill_one ring k) > 0" for ring k by (auto simp: fill_one_def split: prod.split list.split)
  have poll: "ps_poll_in one_socket = fill_one" "ps_fill one_socket = Pair" by (simp_all add: one_socket_def)
  show ?thesis unfolding rx_kernel_ok_def poll
  proof (intro conjI allI impI)
    fix ring ring' :: "tp_slot list" and k k' q
    assume a: "(\<lambda>(h, fs, r, d). r) k < length ring" "fill_one ring k = (q, ring', k')"
    show "kernel_fills (\<lambda>(h, fs, r, d). r) (\<lambda>(h, fs, r, d). d) ring k ring' k'" by (rule fill[OF a])
    show "0 < q" using pos[of ring k] a(2) by simp
  next
    fix ring ring' :: "tp_slot list" and k k' :: ring_kernel
    assume a: "(\<lambda>(h, fs, r, d). r) k < length ring" "(ring, k) = (ring', k')"
    obtain h fs r d where k: "k = (h, fs, r, d)" by (cases k)
    show "kernel_fills (\<lambda>(h, fs, r, d). r) (\<lambda>(h, fs, r, d). d) ring k ring' k'"
      using none[of r ring h fs d] a by (simp add: k)
  qed
qed

definition idle_slot :: tp_slot where
  "idle_slot = \<lparr>tp_status = TP_STATUS_AVAILABLE, tp_len = 0, tp_mac = 0, tp_page = replicate page_size 0\<rparr>"

text \<open>A device with two free slots to send, and with the frames \<open>fs\<close> in the receive ring.\<close>

definition arrived :: "bytes list \<Rightarrow> ring_kernel mmaped" where
  "arrived fs =
     \<lparr>mm_fd = \<lparr>pf_sockfd = 3, pf_rxthreadrunning = True, pf_kernel = (0, [], length fs, [])\<rparr>,
      mm_mmap_packets = Suc (length fs),
      mm_rx_ring = map (\<lambda>f. \<lparr>tp_status = TP_STATUS_USER, tp_len = length f, tp_mac = 66, tp_page = replicate 66 0 @ f\<rparr>) fs @ [idle_slot],
      mm_tx_ring = replicate (Suc (length fs)) idle_slot, mm_rx_ring_offset = 0, mm_tx_ring_offset = 0, mm_hung = False\<rparr>"

lemma arrived_sending: "mm_sending one_socket fst (\<lambda>(h, fs, r, d). fs) (\<lambda>_. 0) 2 (arrived fs)"
proof -
  have "tx_ring_ok fst (arrived fs) [] (replicate (Suc (length fs)) idle_slot)"
    by (auto simp: tx_ring_ok_def arrived_def ring_queue_def mm_kernel_def idle_slot_def available_def)
  then show ?thesis using one_socket_tx by (auto simp: mm_sending_def)
qed

lemma arrived_receiving:
  "\<exists>full. receiving_ring (\<lambda>(h, fs, r, d). r) (\<lambda>(h, fs, r, d). d) (arrived fs) full fs"
proof -
  let ?slot = "\<lambda>f. \<lparr>tp_status = TP_STATUS_USER, tp_len = length f, tp_mac = 66, tp_page = replicate 66 0 @ f\<rparr>"
  have "list_all2 rx_holds (map ?slot fs) fs"
    by (simp add: list_all2_map1 list_all2_same rx_holds_def filled_def)
  then have "receiving_ring (\<lambda>(h, fs, r, d). r) (\<lambda>(h, fs, r, d). d) (arrived fs) (map ?slot fs) fs"
    unfolding receiving_ring_def
    by (intro exI[of _ "[idle_slot]"] exI[of _ fs])
       (simp add: arrived_def ring_queue_def mm_kernel_def idle_slot_def available_def)
  then show ?thesis by blast
qed

theorem mmaped_device_roundtrip_witness:
  "\<exists>sent_any hw1 mm1 fs mm3 hw2.
     hw_tx_pool posix_osal (sock_raw_mmaped_device one_socket 2) POOL_HIGH (two_queued, arrived []) = Some (sent_any, hw1, mm1) \<and>
     mm_wire fst (\<lambda>(h, fs, r, d). fs) mm1 = fs \<and>
     hw_device_sock_raw_mmaped_recv one_socket 3 rx_log (arrived fs, hw1, []) =
       Some (EC_OK, mm3, hw2, map (\<lambda>p. (p, dg_set_next False 0 (dg_of two_queued p))) [0, 1])"
proof -
  have empty: "mm_wire fst (\<lambda>(h, fs, r, d). fs) (arrived []) = []"
    by (simp add: mm_wire_def arrived_def mm_kernel_def idle_slot_def requested_def)
  have polled: "(\<lambda>(h, fs, r, d). d) (mm_kernel (snd (mm_rx_call (ps_poll_in one_socket) (arrived fs)))) = []" for fs
    by (simp add: one_socket_def mm_rx_call_def arrived_def mm_kernel_def fill_one_def)
  from mmaped_device_roundtrip[where t = POOL_HIGH and hw = two_queued and n = 3 and os = posix_osal,
      OF arrived_sending[of "[]"] _ _ _ one_socket_rx] empty
  obtain sent_any hw1 mm1 fs where r: "hw_tx_pool posix_osal (sock_raw_mmaped_device one_socket 2) POOL_HIGH (two_queued, arrived []) = Some (sent_any, hw1, mm1)"
    "mm_wire fst (\<lambda>(h, fs, r, d). fs) mm1 = fs"
    "\<forall>mm2 full. receiving_ring (\<lambda>(h, fs, r, d). r) (\<lambda>(h, fs, r, d). d) mm2 full fs \<and>
        (\<lambda>(h, fs, r, d). d) (mm_kernel (snd (mm_rx_call (ps_poll_in one_socket) mm2))) = [] \<longrightarrow>
        (\<exists>mm3 hw2. hw_device_sock_raw_mmaped_recv one_socket 3 rx_log (mm2, hw1, []) =
           Some (EC_OK, mm3, hw2, map (\<lambda>p. (p, dg_set_next False 0 (dg_of two_queued p))) [0, 1]) \<and>
         receiving_ring (\<lambda>(h, fs, r, d). r) (\<lambda>(h, fs, r, d). d) mm3 [] [])"
    by (auto simp: two_queued_props)
  from arrived_receiving[of fs] polled[of fs] r show ?thesis by blast
qed

end
