(* ===== verification/Hw_Embedded.thy ===== *)
theory Hw_Embedded
  imports Hw_Frames Async_Queue
begin

text \<open>
  The back ends for two embedded systems: \<^verbatim>\<open>src/hw_stm32.c\<close> over the Ethernet driver of the
  STM32 HAL and \<^verbatim>\<open>src/hw_pikeos.c\<close> over the files and shared buffers of PikeOS. The drivers are
  parameters on the state \<open>'k\<close>. Left out: critical sections, caches, logging, the configuration of the
  checksums, and opening the file of PikeOS.
\<close>

section \<open>STM32\<close>

text \<open>
  \<open>hal_read\<close>: the buffer of a received frame, if there is one; \<open>hal_transmit\<close>: the answer to a frame;
  \<open>hal_time\<close>: the clock.
\<close>

datatype hal_answer = HAL_OK | HAL_ETH_ERROR_BUSY | HAL_ERROR

record 'k stm32_hal =
  hal_read :: "'k \<Rightarrow> bytes option \<times> 'k"
  hal_transmit :: "bytes \<Rightarrow> 'k \<Rightarrow> hal_answer \<times> 'k"
  hal_time :: "'k \<Rightarrow> nat \<times> 'k"

text \<open>\<open>st_hung\<close>: sending has not ended within the bound.\<close>

record 'k hw_stm32 =
  st_frames_sent :: int
  st_send_frame :: bytes
  st_bytes_sent :: int
  st_bytes_last_sent :: int
  st_kernel :: 'k
  st_hung :: bool

definition hw_device_stm32_open :: "osal \<Rightarrow> 'c hw_common \<Rightarrow> 'k hw_stm32 \<Rightarrow> int \<times> 'c hw_common \<times> 'k hw_stm32" where
  "hw_device_stm32_open os hw st =
     (EC_OK, (snd (hw_open os hw))\<lparr>hw_mtu_size := 1480\<rparr>,
      st\<lparr>st_frames_sent := 0,
         st_send_frame := put_at 6 [0x00, 0x80, 0xC1, 0xC0, 0xFF, 0xEE]
                            (put_at 0 [0xFF, 0xFF, 0xFF, 0xFF, 0xFF, 0xFF] (st_send_frame st))\<rparr>)"

definition hw_device_stm32_get_tx_buffer :: "'k hw_stm32 \<Rightarrow> int \<times> bytes \<times> 'k hw_stm32" where
  "hw_device_stm32_get_tx_buffer st =
     (let b = put_at 12 ETH_P_ECAT (st_send_frame st);
          b = fr_set_len ec_frame_hdr_length (fr_set_type 1 b)
      in (EC_OK, b, st\<lparr>st_send_frame := b\<rparr>))"

text \<open>A frame is offered to the driver until it is not busy.\<close>

definition stm32_send_body ::
  "('k, 'z) stm32_hal_scheme \<Rightarrow> bytes \<Rightarrow> 'k hw_stm32 \<Rightarrow> 'k hw_stm32 + int \<times> 'k hw_stm32" where
  "stm32_send_body hal f st =
     (let (a, k) = hal_transmit hal f (st_kernel st); st = st\<lparr>st_kernel := k\<rparr>
      in case a of HAL_OK \<Rightarrow> Inr (EC_OK, st) | HAL_ETH_ERROR_BUSY \<Rightarrow> Inl st | HAL_ERROR \<Rightarrow> Inr (EC_ERROR_HW_SEND, st))"

definition hw_device_stm32_send ::
  "('k, 'z) stm32_hal_scheme \<Rightarrow> nat \<Rightarrow> bytes \<Rightarrow> pooltype \<Rightarrow> 'k hw_stm32 \<Rightarrow> int \<times> 'k hw_stm32" where
  "hw_device_stm32_send hal fuel pframe pool_type st =
     (let st = st\<lparr>st_send_frame := pframe\<rparr>; n = ec_frame_length pframe
      in case loop fuel (stm32_send_body hal (take n pframe)) st of
           None \<Rightarrow> (EC_ERROR_HW_SEND, st\<lparr>st_hung := True\<rparr>)
         | Some (ret, st) \<Rightarrow>
             (ret, st\<lparr>st_bytes_sent := st_bytes_sent st + int n, st_frames_sent := st_frames_sent st + 1\<rparr>))"

text \<open>At most one frame is received, within 100 microseconds.\<close>

definition stm32_recv_body ::
  "('k, 'z) stm32_hal_scheme \<Rightarrow> osal_timers \<Rightarrow> ('c \<Rightarrow> nat \<Rightarrow> bytes \<Rightarrow> 'c hw_common \<times> 'w \<Rightarrow> 'c hw_common \<times> 'w) \<Rightarrow>
     nat \<Rightarrow> 'k hw_stm32 \<times> 'c hw_common \<times> 'w \<Rightarrow>
     ('k hw_stm32 \<times> 'c hw_common \<times> 'w) + (int \<times> 'k hw_stm32 \<times> 'c hw_common \<times> 'w) option" where
  "stm32_recv_body hal tm cb timeout = (\<lambda>(st, s).
     (let (r, k) = hal_read hal (st_kernel st); st = st\<lparr>st_kernel := k\<rparr>
      in case r of
           Some app_buff \<Rightarrow> Inr (map_option (\<lambda>(_, s). (EC_OK, st, s)) (hw_process_rx_frame cb app_buff s))
         | None \<Rightarrow>
             (let (now, k) = hal_time hal (st_kernel st); st = st\<lparr>st_kernel := k\<rparr>
              in if tm_expired tm now timeout then Inr (Some (EC_ERROR_UNAVAILABLE, st, s)) else Inl (st, s))))"

definition hw_device_stm32_recv ::
  "('k, 'z) stm32_hal_scheme \<Rightarrow> osal_timers \<Rightarrow> nat \<Rightarrow> ('c \<Rightarrow> nat \<Rightarrow> bytes \<Rightarrow> 'c hw_common \<times> 'w \<Rightarrow> 'c hw_common \<times> 'w) \<Rightarrow>
     'k hw_stm32 \<times> 'c hw_common \<times> 'w \<Rightarrow> (int \<times> 'k hw_stm32 \<times> 'c hw_common \<times> 'w) option" where
  "hw_device_stm32_recv hal tm fuel cb = (\<lambda>(st, s).
     (let (now, k) = hal_time hal (st_kernel st)
      in Option.bind (loop fuel (stm32_recv_body hal tm cb (tm_init tm now 100000)) (st\<lparr>st_kernel := k\<rparr>, s)) id))"

definition stm32_finished_body ::
  "('k, 'z) stm32_hal_scheme \<Rightarrow> osal_timers \<Rightarrow> nat \<Rightarrow> ('c \<Rightarrow> nat \<Rightarrow> bytes \<Rightarrow> 'c hw_common \<times> 'w \<Rightarrow> 'c hw_common \<times> 'w) \<Rightarrow>
     'k hw_stm32 \<times> 'c hw_common \<times> 'w \<Rightarrow>
     ('k hw_stm32 \<times> 'c hw_common \<times> 'w) + ('k hw_stm32 \<times> 'c hw_common \<times> 'w) option" where
  "stm32_finished_body hal tm fuel cb = (\<lambda>(st, s).
     (if st_frames_sent st > 0
      then (case hw_device_stm32_recv hal tm fuel cb (st\<lparr>st_bytes_last_sent := st_bytes_sent st, st_bytes_sent := 0\<rparr>, s) of
              None \<Rightarrow> Inr None
            | Some (ret, st, s) \<Rightarrow>
                if ret = EC_ERROR_UNAVAILABLE then Inr (Some (st, s))
                else Inl (st\<lparr>st_frames_sent := st_frames_sent st - 1\<rparr>, s))
      else Inr (Some (st, s))))"

definition hw_device_stm32_send_finished ::
  "('k, 'z) stm32_hal_scheme \<Rightarrow> osal_timers \<Rightarrow> nat \<Rightarrow> ('c \<Rightarrow> nat \<Rightarrow> bytes \<Rightarrow> 'c hw_common \<times> 'w \<Rightarrow> 'c hw_common \<times> 'w) \<Rightarrow>
     'k hw_stm32 \<times> 'c hw_common \<times> 'w \<Rightarrow> ('k hw_stm32 \<times> 'c hw_common \<times> 'w) option" where
  "hw_device_stm32_send_finished hal tm fuel cb s = Option.bind (loop fuel (stm32_finished_body hal tm fuel cb) s) id"

text \<open>\<^verbatim>\<open>send_finished\<close> runs callbacks, which the record cannot express: it is the function above.\<close>

definition stm32_device :: "('k, 'z) stm32_hal_scheme \<Rightarrow> nat \<Rightarrow> 'k hw_stm32 hw_device" where
  "stm32_device hal fuel =
     \<lparr>dev_get_tx_buffer = hw_device_stm32_get_tx_buffer, dev_send = hw_device_stm32_send hal fuel,
      dev_send_finished = id, dev_close = Some id\<rparr>"

text \<open>
  A driver that takes every frame in the end: while it is busy, \<open>lag\<close> counts down.
\<close>

definition hal_sends :: "('k, 'z) stm32_hal_scheme \<Rightarrow> ('k \<Rightarrow> bytes list) \<Rightarrow> ('k \<Rightarrow> nat) \<Rightarrow> bool" where
  "hal_sends hal sent lag \<longleftrightarrow>
     (\<forall>f k a k'. hal_transmit hal f k = (a, k') \<longrightarrow>
        a = HAL_OK \<and> sent k' = sent k @ [f] \<or> a = HAL_ETH_ERROR_BUSY \<and> sent k' = sent k \<and> lag k' < lag k)"

definition stm32_ok :: "('k, 'z) stm32_hal_scheme \<Rightarrow> ('k \<Rightarrow> bytes list) \<Rightarrow> ('k \<Rightarrow> nat) \<Rightarrow> nat \<Rightarrow> 'k hw_stm32 \<Rightarrow> bool" where
  "stm32_ok hal sent lag fuel st \<longleftrightarrow>
     hal_sends hal sent lag \<and> (\<forall>k. lag k < fuel) \<and> length (st_send_frame st) = EC_ETH_FRAME_LEN \<and> \<not> st_hung st"

lemma stm32_send_loop:
  assumes "hal_sends hal sent lag" "lag (st_kernel st) < n"
  shows "\<exists>k. loop n (stm32_send_body hal f) st = Some (EC_OK, st\<lparr>st_kernel := k\<rparr>) \<and> sent k = sent (st_kernel st) @ [f]"
  using assms(2)
proof (induction n arbitrary: st)
  case (Suc n)
  obtain a k where t: "hal_transmit hal f (st_kernel st) = (a, k)" by fastforce
  from assms(1) t consider "a = HAL_OK" "sent k = sent (st_kernel st) @ [f]"
    | "a = HAL_ETH_ERROR_BUSY" "sent k = sent (st_kernel st)" "lag k < lag (st_kernel st)"
    unfolding hal_sends_def by blast
  then show ?case
  proof cases
    case 1
    then show ?thesis by (intro exI[of _ k]) (simp add: stm32_send_body_def t)
  next
    case 2
    then show ?thesis using Suc.IH[of "st\<lparr>st_kernel := k\<rparr>"] Suc.prems by (simp add: stm32_send_body_def t)
  qed
qed simp

lemma stm32_send:
  assumes "stm32_ok hal sent lag fuel st" "length buf = EC_ETH_FRAME_LEN"
  shows "stm32_ok hal sent lag fuel (snd (hw_device_stm32_send hal fuel buf t st))"
    "sent (st_kernel (snd (hw_device_stm32_send hal fuel buf t st))) = sent (st_kernel st) @ [take (ec_frame_length buf) buf]"
    "st_frames_sent (snd (hw_device_stm32_send hal fuel buf t st)) = st_frames_sent st + 1"
proof -
  have h: "hal_sends hal sent lag" "lag (st_kernel (st\<lparr>st_send_frame := buf\<rparr>)) < fuel"
    using assms(1) by (simp_all add: stm32_ok_def)
  obtain k where k: "loop fuel (stm32_send_body hal (take (ec_frame_length buf) buf)) (st\<lparr>st_send_frame := buf\<rparr>) =
      Some (EC_OK, (st\<lparr>st_send_frame := buf\<rparr>)\<lparr>st_kernel := k\<rparr>)" "sent k = sent (st_kernel st) @ [take (ec_frame_length buf) buf]"
    using stm32_send_loop[OF h, of "take (ec_frame_length buf) buf"] by auto
  show "stm32_ok hal sent lag fuel (snd (hw_device_stm32_send hal fuel buf t st))"
    "sent (st_kernel (snd (hw_device_stm32_send hal fuel buf t st))) = sent (st_kernel st) @ [take (ec_frame_length buf) buf]"
    "st_frames_sent (snd (hw_device_stm32_send hal fuel buf t st)) = st_frames_sent st + 1"
    using assms k by (simp_all add: hw_device_stm32_send_def Let_def stm32_ok_def)
qed

lemma stm32_get_tx_buffer:
  assumes "length (st_send_frame st) = EC_ETH_FRAME_LEN"
  shows "\<exists>b. hw_device_stm32_get_tx_buffer st = (EC_OK, b, st\<lparr>st_send_frame := b\<rparr>) \<and> length b = EC_ETH_FRAME_LEN \<and>
     ec_frame_length b = 16 \<and> fr_ethertype b = ETH_P_ECAT"
proof -
  have "length ETH_P_ECAT = 2" by (simp add: ETH_P_ECAT_def)
  then show ?thesis
    using assms by (simp add: hw_device_stm32_get_tx_buffer_def Let_def buf_simps fr_ethertype_def[of "put_at _ _ _"])
qed

interpretation stm32: tx_device "stm32_device hal fuel" "stm32_ok hal sent lag fuel" "stm32_ok hal sent lag fuel"
    "\<lambda>st. sent (st_kernel st)" EC_ETH_FRAME_LEN EC_ETH_FRAME_LEN for hal fuel sent lag
proof (unfold_locales, goal_cases)
  case (1 st)
  then have "length (st_send_frame st) = EC_ETH_FRAME_LEN" by (simp add: stm32_ok_def)
  from stm32_get_tx_buffer[OF this] 1 show ?case by (auto simp: stm32_device_def stm32_ok_def)
next
  case 2
  then show ?case .
next
  case (3 st buf t)
  from stm32_send(1)[OF this(1,2), of t] show ?case by (simp add: stm32_device_def)
next
  case (4 st buf t)
  from stm32_send(2)[OF this(1,2), of t] show ?case by (simp add: stm32_device_def)
qed

section \<open>PikeOS\<close>

text \<open>
  The calls of PikeOS. A received frame is a shared buffer (its size and bytes, unless it has no
  address), or the bytes that were read; a frame that is sent is taken or not.
\<close>

record 'k pikeos_calls =
  po_sbuf_rx_get :: "'k \<Rightarrow> (int \<times> bytes) option option \<times> 'k"
  po_read :: "nat \<Rightarrow> 'k \<Rightarrow> bytes option \<times> 'k"
  po_sbuf_tx :: "bytes \<Rightarrow> 'k \<Rightarrow> bool \<times> 'k"
  po_write :: "bytes \<Rightarrow> 'k \<Rightarrow> bool \<times> 'k"
  po_sleep :: "nat \<Rightarrow> 'k \<Rightarrow> 'k"
  po_close :: "'k \<Rightarrow> 'k"

record 'k hw_pikeos =
  po_use_sbuf :: bool
  po_send_frame :: bytes
  po_recv_frame :: bytes
  po_rxthreadrunning :: bool
  po_kernel :: 'k

definition hw_device_pikeos_recv ::
  "('k, 'z) pikeos_calls_scheme \<Rightarrow> ('c \<Rightarrow> nat \<Rightarrow> bytes \<Rightarrow> 'c hw_common \<times> 'w \<Rightarrow> 'c hw_common \<times> 'w) \<Rightarrow>
     'k hw_pikeos \<times> 'c hw_common \<times> 'w \<Rightarrow> (int \<times> 'k hw_pikeos \<times> 'c hw_common \<times> 'w) option" where
  "hw_device_pikeos_recv po cb = (\<lambda>(st, s).
     (if po_use_sbuf st
      then (let (r, k) = po_sbuf_rx_get po (po_kernel st)
            in case r of
                 None \<Rightarrow> Some (EC_ERROR_UNAVAILABLE, st\<lparr>po_kernel := po_sleep po 1000000 k\<rparr>, s)
               | Some None \<Rightarrow> Some (EC_ERROR_UNAVAILABLE, st\<lparr>po_kernel := k\<rparr>, s)
               | Some (Some (bytesrx, f)) \<Rightarrow>
                   (let st = st\<lparr>po_kernel := k\<rparr>
                    in if bytesrx > 0 then map_option (\<lambda>(_, s). (EC_OK, st, s)) (hw_process_rx_frame cb f s)
                       else Some (EC_OK, st, s)))
      else (let (r, k) = po_read po EC_ETH_FRAME_LEN (po_kernel st); st = st\<lparr>po_kernel := k\<rparr>
            in case r of
                 None \<Rightarrow> Some (EC_ERROR_UNAVAILABLE, st, s)
               | Some out \<Rightarrow>
                   (let st = st\<lparr>po_recv_frame := put_at 0 out (po_recv_frame st)\<rparr>
                    in if length out > 0 then map_option (\<lambda>(_, s). (EC_OK, st, s)) (hw_process_rx_frame cb (po_recv_frame st) s)
                       else Some (EC_OK, st, s)))))"

fun hw_device_pikeos_rx_thread ::
  "('k, 'z) pikeos_calls_scheme \<Rightarrow> ('c \<Rightarrow> nat \<Rightarrow> bytes \<Rightarrow> 'c hw_common \<times> 'w \<Rightarrow> 'c hw_common \<times> 'w) \<Rightarrow> nat \<Rightarrow>
     'k hw_pikeos \<times> 'c hw_common \<times> 'w \<Rightarrow> ('k hw_pikeos \<times> 'c hw_common \<times> 'w) option" where
  "hw_device_pikeos_rx_thread po cb 0 s = Some s"
| "hw_device_pikeos_rx_thread po cb (Suc n) s =
     (if po_rxthreadrunning (fst s)
      then (case hw_device_pikeos_recv po cb s of
              None \<Rightarrow> None | Some (_, s) \<Rightarrow> hw_device_pikeos_rx_thread po cb n s)
      else Some s)"

definition hw_device_pikeos_get_tx_buffer :: "'k hw_pikeos \<Rightarrow> int \<times> bytes \<times> 'k hw_pikeos" where
  "hw_device_pikeos_get_tx_buffer st =
     (let b = put_at 0 [0xFF, 0xFF, 0xFF, 0xFF, 0xFF, 0xFF] (po_send_frame st);
          b = put_at 6 [0x00, 0x30, 0x64, 0x0F, 0x83, 0x35] b;
          b = put_at 12 ETH_P_ECAT b;
          b = fr_set_len ec_frame_hdr_length (fr_set_type 1 b)
      in (EC_ERROR_UNAVAILABLE, b, st\<lparr>po_send_frame := b\<rparr>))"

definition hw_device_pikeos_send ::
  "('k, 'z) pikeos_calls_scheme \<Rightarrow> bytes \<Rightarrow> pooltype \<Rightarrow> 'k hw_pikeos \<Rightarrow> int \<times> 'k hw_pikeos" where
  "hw_device_pikeos_send po pframe pool_type st =
     (let (r, k) = (if po_use_sbuf st then po_sbuf_tx else po_write) po (take (ec_frame_length pframe) pframe) (po_kernel st)
      in (if r then EC_OK else EC_ERROR_UNAVAILABLE, st\<lparr>po_send_frame := pframe, po_kernel := k\<rparr>))"

definition hw_device_pikeos_close :: "('k, 'z) pikeos_calls_scheme \<Rightarrow> 'k hw_pikeos \<Rightarrow> int \<times> 'k hw_pikeos" where
  "hw_device_pikeos_close po st = (0, st\<lparr>po_kernel := po_close po (po_kernel st)\<rparr>)"

definition pikeos_device :: "('k, 'z) pikeos_calls_scheme \<Rightarrow> 'k hw_pikeos hw_device" where
  "pikeos_device po =
     \<lparr>dev_get_tx_buffer = hw_device_pikeos_get_tx_buffer, dev_send = hw_device_pikeos_send po,
      dev_send_finished = id, dev_close = Some (snd \<circ> hw_device_pikeos_close po)\<rparr>"

text \<open>Nothing is ever sent on PikeOS: every call takes one datagram out of the queue and loses it.\<close>

lemma pikeos_sends_nothing:
  assumes "hw_tx_pool os (pikeos_device po) t (hw, st) = Some (sent, hw', st')"
  shows "\<not> sent" "po_kernel st' = po_kernel st" "avail (hw_pool t hw') = tl (avail (hw_pool t hw))"
    "hw_tx_send hw' = hw_tx_send hw"
  using assms
  by (cases "avail (hw_pool t hw)";
      auto simp: hw_tx_pool_def tx_body_def tx_flush_def Let_def pikeos_device_def hw_device_pikeos_get_tx_buffer_def)+

end
