(* ===== verification/Dc_Duration.thy ===== *)
theory Dc_Duration
  imports Transceive "HOL-Library.Monad_Syntax"
begin

text \<open>
  \<^verbatim>\<open>get_packet_duration\<close> of \<^verbatim>\<open>src/dc.c\<close>: a datagram of its own, put directly into the queue of
  high priority, and the time until it is back. \<open>now\<close> is the clock.
\<close>

section \<open>Sending\<close>

text \<open>
  The datagram gets the index 0, whichever index was taken. The result is the start time;
  \<^term>\<open>None\<close>: out of a buffer.
\<close>

definition duration_send ::
  "osal \<Rightarrow> 'w hw_device \<Rightarrow> ('w xcv_state \<Rightarrow> u64 \<times> 'w xcv_state) \<Rightarrow> nat \<Rightarrow> nat \<Rightarrow> 'w xcv_state \<Rightarrow>
     (u64 \<times> 'w xcv_state) option" where
  "duration_send os dev now p_entry p_idx s = do {
     dg \<leftarrow> fill_datagram 2 EC_CMD_BRD 0 0 2 [] (entry_data p_entry s);
     let s = entry_upd p_entry (\<lambda>pe. pe\<lparr>pe_data := dg, pe_p_idx := p_idx, pe_user_cb := Some CB_ANON\<rparr>) s;
     let s = s\<lparr>x_hw := (x_hw s)\<lparr>hw_tx_high := pool_put os (hw_tx_high (x_hw s)) p_entry\<rparr>\<rparr>;
     let (start, s) = now s;
     (sent, hw, w) \<leftarrow> hw_tx os dev (x_hw s, x_dev s);
     let (hw, w) = (if sent then snd (hw_rx dev (hw, w)) else (hw, w));
     Some (start, s\<lparr>x_hw := hw, x_dev := w\<rparr>) }"

definition duration_wait ::
  "osal \<Rightarrow> 'w xcv_env \<Rightarrow> ('w xcv_state \<Rightarrow> u64 \<times> 'w xcv_state) \<Rightarrow> nat \<Rightarrow> nat \<Rightarrow> u64 \<Rightarrow> 'w xcv_state \<Rightarrow>
     u64 \<times> 'w xcv_state" where
  "duration_wait os env now p_entry p_idx start s =
     (let s = others env s;
          (local_ret, b) = osal_binary_semaphore_timedwait os 100000000 (ie_waiter (iq_entries (x_idx_q s) ! p_idx));
          s = s\<lparr>x_idx_q := idx_waiter_upd (\<lambda>_. b) p_idx (x_idx_q s)\<rparr>;
          (duration, s) = (if local_ret = OSAL_OK then (let (t, s) = now s in (t - start, s)) else (0, s))
      in (duration, s\<lparr>x_pool := pool_put os (x_pool s) p_entry, x_idx_q := ec_index_put p_idx (x_idx_q s)\<rparr>))"

definition get_packet_duration ::
  "osal \<Rightarrow> 'w hw_device \<Rightarrow> 'w xcv_env \<Rightarrow> ('w xcv_state \<Rightarrow> u64 \<times> 'w xcv_state) \<Rightarrow> 'w xcv_state \<Rightarrow>
     (u64 \<times> 'w xcv_state) option" where
  "get_packet_duration os dev env now s =
     (case ec_index_get os (x_idx_q s) of
        (_, None, iq) \<Rightarrow> Some (0, s\<lparr>x_idx_q := iq\<rparr>)
      | (_, Some p_idx, iq) \<Rightarrow>
          (case pool_get os (x_pool s) None of
             (_, None, pl) \<Rightarrow> Some (0, s\<lparr>x_pool := pl, x_idx_q := ec_index_put p_idx iq\<rparr>)
           | (_, Some p_entry, pl) \<Rightarrow>
               map_option (\<lambda>(start, s). duration_wait os env now p_entry p_idx start s)
                 (duration_send os dev now p_entry p_idx (s\<lparr>x_idx_q := iq, x_pool := pl\<rparr>))))"

section \<open>The mark of another transaction\<close>

lemma tx_high_keeps_low:
  assumes "hw_tx_pool os dev POOL_HIGH (hw, w) = Some (sent, hw', w')"
  shows "hw_tx_low hw' = hw_tx_low hw"
proof -
  have flush: "hw_tx_low (tl_hw (tx_flush dev POOL_HIGH n st)) = hw_tx_low (tl_hw st)" for n and st :: "('a, 'b) tx_loop"
    by (simp add: tx_flush_def split: option.split)
  have append: "tx_append p n f st = Some st' \<Longrightarrow> hw_tx_low (tl_hw st') = hw_tx_low (tl_hw st)"
    for p n f and st st' :: "('a, 'b) tx_loop"
    by (auto simp: tx_append_def Let_def split: option.splits if_splits)
  have upd: "hw_tx_low (hw_pool_upd POOL_HIGH p h) = hw_tx_low h" for p and h :: "'a hw_common"
    by (simp add: hw_pool_upd_def)
  have body: "(case tx_body os dev POOL_HIGH st of Inl st' \<Rightarrow> hw_tx_low (tl_hw st') = hw_tx_low (tl_hw st)
      | Inr None \<Rightarrow> True | Inr (Some (b, h, v)) \<Rightarrow> hw_tx_low h = hw_tx_low (tl_hw st))" for st :: "('a, 'b) tx_loop"
    by (auto simp: tx_body_def Let_def flush upd split: prod.splits option.splits sum.splits dest!: append)
  have keep: "loop n (tx_body os dev POOL_HIGH) st = Some (Some (b, h, v)) \<Longrightarrow> hw_tx_low h = hw_tx_low (tl_hw st)"
    for n b h v and st :: "('a, 'b) tx_loop"
  proof (induction n arbitrary: st)
    case (Suc n)
    then show ?case using body[of st] by (cases "tx_body os dev POOL_HIGH st") auto
  qed simp
  show ?thesis using assms by (auto simp: hw_tx_pool_def bind_eq_Some_conv simp del: loop.simps dest: keep)
qed

lemma tx_empty:
  assumes "avail (hw_pool t hw) = []"
  shows "hw_tx_pool os dev t (hw, w) = Some (False, hw, w)"
  using assms by (cases t) (simp_all add: hw_tx_pool_def tx_body_def tx_flush_def hw_pool_def hw_pool_upd_def)

text \<open>
  Whichever transaction waits for its answer under the index 0: after the measurement has sent its
  datagram, the answer goes to the entry of the measurement.
\<close>

lemma duration_takes_index_0:
  assumes len: "length (entry_data p s) = LEC_MAX_POOL_DATA_SIZE" and now: "\<And>s. \<exists>t. now s = (t, s)"
    and idle: "avail (hw_tx_high (x_hw s)) = []" "avail (hw_tx_low (x_hw s)) = []"
    and dev: "length (sr_send_frame (x_dev s)) = EC_ETH_FRAME_LEN"
    and mtu: "30 \<le> hw_mtu_size (x_hw s)" "hw_mtu_size (x_hw s) < 2048"
  shows "\<exists>start s'. duration_send os (sock_raw_device k) now p i s = Some (start, s') \<and>
     hw_tx_send (x_hw s') = (hw_tx_send (x_hw s))(0 := Some p)"
proof -
  obtain dg where dg: "fill_datagram 2 EC_CMD_BRD 0 0 2 [] (entry_data p s) = Some dg"
    using fill_datagram_fits[of 2 "entry_data p s" "[]" EC_CMD_BRD 0 0 2] len by auto
  note d = fill_datagram_props[OF dg, simplified]
  let ?s1 = "entry_upd p (\<lambda>pe. pe\<lparr>pe_data := dg, pe_p_idx := i, pe_user_cb := Some CB_ANON\<rparr>) s"
  define s2 where "s2 = ?s1\<lparr>x_hw := (x_hw ?s1)\<lparr>hw_tx_high := pool_put os (hw_tx_high (x_hw ?s1)) p\<rparr>\<rparr>"
  let ?hw = "x_hw s2"
  have hw: "avail (hw_pool POOL_HIGH ?hw) = [p]" "hw_mtu_size ?hw = hw_mtu_size (x_hw s)"
    "pe_data (hw_entries ?hw p) = dg" "hw_tx_send ?hw = hw_tx_send (x_hw s)" "hw_tx_low ?hw = hw_tx_low (x_hw s)"
    "x_dev s2 = x_dev s"
    using idle(1) by (simp_all add: s2_def entry_upd_def hw_pool_def pool_put_def)
  have snd: "sendable ?hw p" using d(1,3) len mtu(1) by (simp add: sendable_def hw(2,3))
  have idx: "dg_idx (dg_of ?hw p) 0 = 0" using d(1,3,4) len by (simp add: dg_of_def hw(3) dg_idx_def)
  obtain sent hw1 w1 where t: "hw_tx_pool os (sock_raw_device k) POOL_HIGH (?hw, x_dev s) = Some (sent, hw1, w1)"
    "hw_tx_send hw1 = mark_sent ?hw [p]"
    using raw.tx_pool_frames[OF dev, of POOL_HIGH ?hw os k] hw(1,2) snd mtu(2) by auto
  have "avail (hw_pool POOL_LOW hw1) = []" using tx_high_keeps_low[OF t(1)] hw(5) idle(2) by (simp add: hw_pool_def)
  note low = tx_empty[OF this, of os "sock_raw_device k" w1]
  have tx: "hw_tx os (sock_raw_device k) (?hw, x_dev s) = Some (sent, hw1, w1)"
    by (simp add: hw_tx_def t(1) low)
  have mk: "hw_tx_send hw1 = (hw_tx_send (x_hw s))(0 := Some p)" by (simp add: t(2) mark_sent_def idx hw(4))
  obtain start where n: "now s2 = (start, s2)" using now by blast
  have rx: "snd (hw_rx (sock_raw_device k) (hw1, w1)) = (hw1, w1)" by (simp add: hw_rx_def sock_raw_device_def)
  then have "duration_send os (sock_raw_device k) now p i s = Some (start, s2\<lparr>x_hw := hw1, x_dev := w1\<rparr>)"
    unfolding duration_send_def dg bind.bind_lunit Let_def s2_def[symmetric] by (simp add: n hw(6) tx)
  with mk show ?thesis by (intro exI[of _ start] exI[of _ "s2\<lparr>x_hw := hw1, x_dev := w1\<rparr>"]) simp
qed

end
