(* ===== verification/Slave_Config.thy ===== *)
theory Slave_Config
  imports Slave
begin

text \<open>
  What an application configures of a slave before its transitions (\<^verbatim>\<open>src/slave.c\<close>): init
  commands and the settings of the distributed clocks, and the two functions of
  \<^verbatim>\<open>src/datagram.c\<close> on cyclic datagrams, whose lock is transparent.
\<close>

section \<open>Init commands\<close>

definition LEC_MAX_INIT_CMD_DATA :: nat where [simp]: "LEC_MAX_INIT_CMD_DATA = 2048"

text \<open>\<^term>\<open>None\<close>: the assertion fails, or \<^verbatim>\<open>data\<close> has fewer than \<^verbatim>\<open>datalen\<close> bytes.\<close>

definition init_cmd_init :: "int \<Rightarrow> int \<Rightarrow> int \<Rightarrow> int \<Rightarrow> int \<Rightarrow> bytes \<Rightarrow> nat \<Rightarrow> init_cmd option" where
  "init_cmd_init type' transition id' si_el ca_atn data datalen =
     (if datalen < LEC_MAX_INIT_CMD_DATA \<and> datalen \<le> length data
      then Some \<lparr>ic_type = type', ic_transition = transition, ic_id = id', ic_si_el = si_el, ic_ca_atn = ca_atn,
                 ic_data = take datalen data\<rparr>
      else None)"

definition ec_slave_mailbox_coe_init_cmd_init :: "int \<Rightarrow> int \<Rightarrow> int \<Rightarrow> int \<Rightarrow> bytes \<Rightarrow> nat \<Rightarrow> init_cmd option" where
  "ec_slave_mailbox_coe_init_cmd_init = init_cmd_init EC_MBX_COE"

definition ec_slave_mailbox_soe_init_cmd_init :: "int \<Rightarrow> int \<Rightarrow> int \<Rightarrow> int \<Rightarrow> bytes \<Rightarrow> nat \<Rightarrow> init_cmd option" where
  "ec_slave_mailbox_soe_init_cmd_init = init_cmd_init EC_MBX_SOE"

text \<open>The walk to the last command, and the insertion behind it.\<close>

fun insert_after_last :: "'a list \<Rightarrow> 'a \<Rightarrow> 'a list" where
  "insert_after_last [] cmd = [cmd]"
| "insert_after_last [last_cmd] cmd = [last_cmd, cmd]"
| "insert_after_last (c # next # cs) cmd = c # insert_after_last (next # cs) cmd"

definition ec_slave_add_init_cmd :: "nat \<Rightarrow> init_cmd \<Rightarrow> ('s, 'd) master \<Rightarrow> ('s, 'd) master option" where
  "ec_slave_add_init_cmd slave cmd m =
     (if slave < m_slave_cnt m
      then Some (slv_upd slave (\<lambda>s. s\<lparr>sl_init_cmds := insert_after_last (sl_init_cmds s) cmd\<rparr>) m)
      else None)"

definition ec_slave_set_dc_config ::
  "nat \<Rightarrow> int \<Rightarrow> u32 \<Rightarrow> u32 \<Rightarrow> u32 \<Rightarrow> u32 \<Rightarrow> ('s, 'd) master \<Rightarrow> ('s, 'd) master option" where
  "ec_slave_set_dc_config slave use_dc activation_reg cycle_time_0 cycle_time_1 cycle_shift m =
     (if slave < m_slave_cnt m
      then Some (slv_upd slave (\<lambda>s. s\<lparr>sl_dc := (sl_dc s)\<lparr>ds_use_dc := (use_dc \<noteq> 0), ds_activation_reg := activation_reg,
                    ds_cycle_time_0 := cycle_time_0, ds_cycle_time_1 := cycle_time_1, ds_cycle_shift := cycle_shift\<rparr>\<rparr>) m)
      else None)"

section \<open>Cyclic datagrams\<close>

definition ec_cyclic_datagram_init :: "cyclic_datagram \<Rightarrow> int \<times> cyclic_datagram" where
  "ec_cyclic_datagram_init cdg = (EC_OK, cdg\<lparr>cdg_p_entry := None, cdg_p_idx := None\<rparr>)"

definition ec_cyclic_datagram_destroy :: "cyclic_datagram \<Rightarrow> int \<times> cyclic_datagram" where
  "ec_cyclic_datagram_destroy cdg = (EC_OK, cdg)"

section \<open>The order of the commands\<close>

lemma insert_after_last_snoc: "insert_after_last cs cmd = cs @ [cmd]"
  by (induction cs cmd rule: insert_after_last.induct) simp_all

lemma send_init_cmds_append:
  "send_init_cmds o' i (cs @ ds) s = send_init_cmds o' i ds (send_init_cmds o' i cs s)"
  by (induction cs arbitrary: s) simp_all

text \<open>A command that is added is sent after all others, from its own type and with its own data.\<close>

lemma added_command_sent_last:
  assumes "ec_slave_mailbox_coe_init_cmd_init 0x24 id' si ca data n = Some cmd"
    and "ec_slave_add_init_cmd slave cmd m = Some m'" "slave < length (m_slaves m)"
  shows "send_init_cmds o' slave (sl_init_cmds (slv m' slave)) s =
     snd (o_coe_sdo_write o' slave cmd (send_init_cmds o' slave (sl_init_cmds (slv m slave)) s))"
    "ic_data cmd = take n data" "ic_id cmd = id'"
  using assms
  by (auto simp: ec_slave_add_init_cmd_def ec_slave_mailbox_coe_init_cmd_init_def init_cmd_init_def slv_upd_def
      slv_def insert_after_last_snoc send_init_cmds_append split: if_splits)

end
