(* ===== verification/Master_Open.thy ===== *)
theory Master_Open
  imports Master Mbx Slave_Config
begin

text \<open>
  Opening and closing a master (\<^verbatim>\<open>ec_open\<close> and \<^verbatim>\<open>ec_close\<close> of \<^verbatim>\<open>src/ec.c\<close>): the parts
  that are initialised, in their order. The device of the mailboxes is here the rest of the master: the
  state of the transactions, with the index queue, the datagrams and the hardware layer, and the
  asynchronous loop. Left out: logging and the settings that no operation of the model reads.
\<close>

section \<open>The whole master\<close>

record 'w em_sys = "'w xcv_state" +
  em_async :: ec_async_loop
  em_cdg_state :: cyclic_datagram
  em_lost_datagrams :: u64

type_synonym ('w, 'd) em_master = "('w em_sys mbx_sys, 'd) master"

definition LEC_MAX_DATAGRAMS :: nat where "LEC_MAX_DATAGRAMS = 100"
definition LEC_MAX_MBX_ENTRIES :: nat where "LEC_MAX_MBX_ENTRIES = 16"

text \<open>The mailbox buffers of both directions are numbered one after the other.\<close>

definition recv_entries :: "nat list" where "recv_entries = [0..<LEC_MAX_MBX_ENTRIES]"
definition send_entries :: "nat list" where "send_entries = [LEC_MAX_MBX_ENTRIES..<2 * LEC_MAX_MBX_ENTRIES]"

definition em_upd :: "('w em_sys \<Rightarrow> 'w em_sys) \<Rightarrow> ('w, 'd) em_master \<Rightarrow> ('w, 'd) em_master" where
  "em_upd f m = m\<lparr>m_bus := (m_bus m)\<lparr>x_dev := f (Mailbox.x_dev (m_bus m))\<rparr>\<rparr>"

section \<open>Opening\<close>

text \<open>The limit of the integrator and the two gains: 100, 0.001 and 0.00001.\<close>

definition dc_initial :: "'d \<Rightarrow> 'd \<Rightarrow> 'd \<Rightarrow> 'd \<Rightarrow> 'd dc_info \<Rightarrow> 'd dc_info" where
  "dc_initial zero limit kp ki dc =
     dc\<lparr>dc_have_dc := False, dc_dc_time := 0, dc_rtc_time := 0, dc_rtc_sto := 0, dc_act_diff := 0,
        dc_ctl := \<lparr>dcc_p_part = zero, dcc_i_part = zero, dcc_i_part_limit = limit, dcc_kp = kp, dcc_ki = ki\<rparr>,
        dc_cdg := snd (ec_cyclic_datagram_init (dc_cdg dc))\<rparr>"

definition zero_entry :: "ec_cb pool_entry" where
  "zero_entry = \<lparr>pe_user_cb = None, pe_user_arg = 0, pe_p_idx = 0, pe_send_idx = 0,
                 pe_data = replicate LEC_MAX_POOL_DATA_SIZE 0\<rparr>"

text \<open>The state of the master, once the indices are there.\<close>

definition open_parts ::
  "osal \<Rightarrow> ('d dc_info \<Rightarrow> 'd dc_info) \<Rightarrow> ('w, 'd) em_master \<Rightarrow> int \<times> ('w, 'd) em_master" where
  "open_parts os dc_init m =
     (let m = m\<lparr>m_master_state := EC_STATE_UNKNOWN, m_user_cb := False, m_slave_cnt := 0, m_pd_group_cnt := 0,
                m_threaded_startup := False, m_transition_pending := False, m_dc := dc_init (m_dc m)\<rparr>;
          (ret, pl) = pool_open os LEC_MAX_DATAGRAMS [0..<LEC_MAX_DATAGRAMS]
      in (ret, em_upd (\<lambda>x. x\<lparr>x_master_state := EC_STATE_UNKNOWN, em_lost_datagrams := 0,
                             em_cdg_state := snd (ec_cyclic_datagram_init (em_cdg_state x)),
                             x_hw := (x_hw x)\<lparr>hw_entries := (\<lambda>p. if p < LEC_MAX_DATAGRAMS then zero_entry else hw_entries (x_hw x) p)\<rparr>,
                             x_pool := pl\<rparr>) m))"

text \<open>Closing the hardware and taking the datagrams and the indices back.\<close>

definition close_hw :: "'w hw_device \<Rightarrow> ('w, 'd) em_master \<Rightarrow> ('w, 'd) em_master" where
  "close_hw dev =
     em_upd (\<lambda>x. let (_, hw, w) = hw_close dev (x_hw x, Transceive.x_dev x)
                  in Transceive.x_dev_update (\<lambda>_. w) (x\<lparr>x_hw := hw, x_pool := snd (pool_close (x_pool x))\<rparr>))"

definition close_indices :: "('w, 'd) em_master \<Rightarrow> ('w, 'd) em_master" where
  "close_indices = em_upd (\<lambda>x. x\<lparr>x_idx_q := ec_index_deinit (x_idx_q x)\<rparr>)"

text \<open>\<open>phw\<close> and \<open>w\<close> are the hardware layer and its device, which the application has opened.\<close>

definition ec_open ::
  "osal \<Rightarrow> osal_timers \<Rightarrow> nat \<Rightarrow> ('d dc_info \<Rightarrow> 'd dc_info) \<Rightarrow> 'w hw_device \<Rightarrow> ec_cb hw_common \<Rightarrow> 'w \<Rightarrow>
     ('w, 'd) em_master \<Rightarrow> int \<times> ('w, 'd) em_master" where
  "ec_open os tm now dc_init dev phw w m =
     (let (ret, iq) = ec_index_init os (x_idx_q (Mailbox.x_dev (m_bus m)));
          m = em_upd (\<lambda>x. x\<lparr>x_idx_q := iq\<rparr>) m;
          (ret, m) = (if ret = EC_OK then open_parts os dc_init m else (ret, m));
          b = (m_bus m)\<lparr>x_recv_free := snd (pool_open os LEC_MAX_MBX_ENTRIES recv_entries),
                        x_send_free := snd (pool_open os LEC_MAX_MBX_ENTRIES send_entries)\<rparr>;
          m = m\<lparr>m_bus := ec_mbx_gateway_init os b\<rparr>;
          m = em_upd (\<lambda>x. Transceive.x_dev_update (\<lambda>_. w) (x\<lparr>x_hw := phw\<lparr>hw_entries := hw_entries (x_hw x)\<rparr>\<rparr>)) m;
          (ret, m) = (if ret = EC_OK
                      then (let (r, al) = ec_async_loop_create os tm now (em_async (Mailbox.x_dev (m_bus m)))
                            in (r, em_upd (\<lambda>x. x\<lparr>em_async := al\<rparr>) m))
                      else (ret, m))
      in if ret \<noteq> EC_OK then (ret, close_indices (close_hw dev m)) else (ret, m))"

section \<open>Closing\<close>

text \<open>The groups: their locks, then their number.\<close>

definition ec_destroy_pd_groups :: "('s, 'd) master \<Rightarrow> int \<times> ('s, 'd) master" where
  "ec_destroy_pd_groups m = (0, m\<lparr>m_pd_group_cnt := 0\<rparr>)"

definition ec_close ::
  "(('w em_sys mbx_sys, 'd) ops) \<Rightarrow> 'w hw_device \<Rightarrow> ('w, 'd) em_master \<Rightarrow> (int \<times> ('w, 'd) em_master) option" where
  "ec_close o' dev m =
     map_option (\<lambda>(_, m).
       let m = snd (ec_destroy_pd_groups (close_indices m));
           m = (fold (ec_slave_free o') [0..<m_slave_cnt m] m)\<lparr>m_slave_cnt := 0\<rparr>;
           m = em_upd (\<lambda>x. x\<lparr>em_async := snd (ec_async_loop_destroy (em_async x))\<rparr>) m;
           m = close_hw dev m;
           b = ec_mbx_gateway_deinit (m_bus m);
           b = b\<lparr>x_recv_free := snd (pool_close (x_recv_free b)), x_send_free := snd (pool_close (x_send_free b))\<rparr>;
           m = em_upd (\<lambda>x. x\<lparr>em_cdg_state := snd (ec_cyclic_datagram_destroy (em_cdg_state x))\<rparr>) (m\<lparr>m_bus := b\<rparr>)
       in (0, m)) (ec_set_state o' EC_STATE_INIT m)"

section \<open>What is there after opening and after closing\<close>

abbreviation em :: "('w, 'd) em_master \<Rightarrow> 'w em_sys" where "em m \<equiv> Mailbox.x_dev (m_bus m)"

lemma em_upd_simps [simp]:
  "em (em_upd f m) = f (em m)" "x_recv_free (m_bus (em_upd f m)) = x_recv_free (m_bus m)"
  "x_send_free (m_bus (em_upd f m)) = x_send_free (m_bus m)" "x_gw_recv (m_bus (em_upd f m)) = x_gw_recv (m_bus m)"
  "m_slave_cnt (em_upd f m) = m_slave_cnt m" "m_pd_group_cnt (em_upd f m) = m_pd_group_cnt m" "m_master_state (em_upd f m) = m_master_state m"
  by (simp_all add: em_upd_def)

lemma gateway_init_simps [simp]:
  "Mailbox.x_dev (ec_mbx_gateway_init os b) = Mailbox.x_dev b"
  "x_recv_free (ec_mbx_gateway_init os b) = x_recv_free b" "x_send_free (ec_mbx_gateway_init os b) = x_send_free b"
  by (simp_all add: ec_mbx_gateway_init_def)

text \<open>The parts of the master that have been initialised before the asynchronous loop.\<close>

lemma open_parts_result:
  assumes "open_parts os dc_init m = (ret, m')"
  shows "ret = EC_OK" "x_idx_q (em m') = x_idx_q (em m)" "avail (x_pool (em m')) = [0..<LEC_MAX_DATAGRAMS]"
    "em_async (em m') = em_async (em m)" "m_slave_cnt m' = 0" "m_master_state m' = EC_STATE_UNKNOWN"
proof -
  obtain pl where po: "pool_open os LEC_MAX_DATAGRAMS [0..<LEC_MAX_DATAGRAMS] = (EC_OK, pl)"
    by (simp add: pool_open_def)
  have "avail (snd (pool_open os LEC_MAX_DATAGRAMS [0..<LEC_MAX_DATAGRAMS])) = [0..<LEC_MAX_DATAGRAMS]"
    by (simp add: pool_open_avail)
  then have "avail pl = [0..<LEC_MAX_DATAGRAMS]" by (simp add: po)
  then show "ret = EC_OK" "x_idx_q (em m') = x_idx_q (em m)" "avail (x_pool (em m')) = [0..<LEC_MAX_DATAGRAMS]"
    "em_async (em m') = em_async (em m)" "m_slave_cnt m' = 0" "m_master_state m' = EC_STATE_UNKNOWN"
    using assms by (auto simp: open_parts_def po Let_def simp del: LEC_MAX_POOL_DATA_SIZE_def upt_rec_numeral)
qed

lemma async_loop_created:
  "fst (ec_async_loop_create os tm now al) = EC_OK"
  "aq_queue (al_avail (snd (ec_async_loop_create os tm now al))) = [0..<EC_ASYNC_MESSAGE_LOOP_COUNT]"
  "aq_queue (al_exec (snd (ec_async_loop_create os tm now al))) = []"
proof -
  have "snd (fold (\<lambda>i (es, q). (es[i := \<lparr>am_id = EC_MSG_CHECK_GROUP, am_payload = 0\<rparr>], q @ [i])) is (es, q)) = q @ is"
    for "is" q and es :: "ec_message list"
    by (induction "is" arbitrary: es q) auto
  then show "fst (ec_async_loop_create os tm now al) = EC_OK"
    "aq_queue (al_avail (snd (ec_async_loop_create os tm now al))) = [0..<EC_ASYNC_MESSAGE_LOOP_COUNT]"
    "aq_queue (al_exec (snd (ec_async_loop_create os tm now al))) = []"
    by (simp_all add: ec_async_loop_create_def Let_def split_def)
qed

text \<open>Every index, datagram, mailbox buffer and message is free, and the hardware layer is the given one.\<close>

lemma opened_all_free:
  assumes len: "length (iq_entries (x_idx_q (em m))) = LEC_MAX_INDEX"
    and run: "ec_open os tm now dc_init dev phw w m = (ret, m')"
  shows "ret = EC_OK \<and> iq_q (x_idx_q (em m')) = [0..<LEC_MAX_INDEX] \<and> avail (x_pool (em m')) = [0..<LEC_MAX_DATAGRAMS] \<and>
    avail (x_recv_free (m_bus m')) = recv_entries \<and> avail (x_send_free (m_bus m')) = send_entries \<and>
    aq_queue (al_avail (em_async (em m'))) = [0..<EC_ASYNC_MESSAGE_LOOP_COUNT] \<and>
    x_hw (em m') = phw\<lparr>hw_entries := hw_entries (x_hw (em m'))\<rparr> \<and> m_slave_cnt m' = 0 \<and> m_master_state m' = EC_STATE_UNKNOWN"
proof -
  obtain iq where ii: "ec_index_init os (x_idx_q (em m)) = (EC_OK, iq)" by (simp add: ec_index_init_def)
  define m1 where "m1 = em_upd (\<lambda>x. x\<lparr>x_idx_q := iq\<rparr>) m"
  obtain r2 m2 where p: "open_parts os dc_init m1 = (r2, m2)" by fastforce
  note p2 = open_parts_result[OF p]
  define b where "b = (m_bus m2)\<lparr>x_recv_free := snd (pool_open os LEC_MAX_MBX_ENTRIES recv_entries),
                                x_send_free := snd (pool_open os LEC_MAX_MBX_ENTRIES send_entries)\<rparr>"
  define m3 where "m3 = em_upd (\<lambda>x. Transceive.x_dev_update (\<lambda>_. w) (x\<lparr>x_hw := phw\<lparr>hw_entries := hw_entries (x_hw x)\<rparr>\<rparr>))
                          (m2\<lparr>m_bus := ec_mbx_gateway_init os b\<rparr>)"
  have m3: "x_idx_q (em m3) = iq" "avail (x_pool (em m3)) = [0..<LEC_MAX_DATAGRAMS]"
    "avail (x_recv_free (m_bus m3)) = recv_entries" "avail (x_send_free (m_bus m3)) = send_entries"
    "x_hw (em m3) = phw\<lparr>hw_entries := hw_entries (x_hw (em m3))\<rparr>" "m_slave_cnt m3 = 0" "m_master_state m3 = EC_STATE_UNKNOWN"
    using p2 by (simp_all add: m3_def b_def m1_def pool_open_avail recv_entries_def send_entries_def)
  obtain r al where al: "ec_async_loop_create os tm now (em_async (em m2)) = (r, al)" by fastforce
  note c = async_loop_created[of os tm now "em_async (em m2)", unfolded al fst_conv snd_conv]
  have "ec_open os tm now dc_init dev phw w m = (EC_OK, em_upd (\<lambda>x. x\<lparr>em_async := al\<rparr>) m3)"
    unfolding ec_open_def ii Let_def prod.case m1_def[symmetric] using p p2(1) al c(1)
    by (simp add: b_def[symmetric] m3_def[symmetric])
  then have "ret = EC_OK" "m' = em_upd (\<lambda>x. x\<lparr>em_async := al\<rparr>) m3" using run by simp_all
  then show ?thesis using m3 c(2) ec_index_init_q[OF len, of os] ii by simp
qed

lemma slave_free_keeps_groups: "m_pd_group_cnt (fold (ec_slave_free o') ks m) = m_pd_group_cnt m"
  by (induction ks arbitrary: m) (simp_all add: ec_slave_free_def mbx_deinit_def slv_upd_def)

text \<open>After closing, every queue is empty and no slave is left, whatever the state before.\<close>

lemma closed_all_empty:
  assumes "ec_close o' dev m = Some (ret, m')"
  shows "m_slave_cnt m' = 0 \<and> m_pd_group_cnt m' = 0 \<and> avail (x_recv_free (m_bus m')) = [] \<and>
    avail (x_send_free (m_bus m')) = [] \<and> avail (x_gw_recv (m_bus m')) = []"
  using assms
  by (auto simp: ec_close_def Let_def ec_destroy_pd_groups_def pool_close_def ec_mbx_gateway_deinit_def close_hw_def
      slave_free_keeps_groups)

end
