(* ===== verification/Spec2Isabelle.thy ===== *)
theory Spec2Isabelle
  imports Eeprom_Correct ProcessData_Correct Slave_Correct Scan_Correct Master_Correct Async_Correct Coe_Master_Correct
    Coe_Emergency Soe_Correct Veth_Correct Hw_File_Correct Hw_Mmaped_Correct Hw_Embedded
    Dc_Duration Master_Open
begin

text \<open>
  libethercat, an EtherCAT master in C, and what makes its parts correct.

  The program. A master sends Ethernet frames of datagrams around a ring of slaves and reads the
  answers when they come back. From the bottom up:
  \<^item> The hardware layer (\<^verbatim>\<open>src/hw.c\<close> over a device such as \<^verbatim>\<open>src/hw_sock_raw.c\<close>) packs queued datagrams
    into frames and hands received ones to the callbacks of their pool entries, which it finds by
    the 8-bit index of the datagram.
  \<^item> Buffers come from pools (\<^verbatim>\<open>src/pool.c\<close>), datagram indices from an index queue (\<^verbatim>\<open>src/idx.c\<close>);
    both are FIFO queues guarded by semaphores that many threads use.
  \<^item> \<^verbatim>\<open>ec_transceive\<close> of \<^verbatim>\<open>src/ec.c\<close> makes one register access of it: take an index and an entry, queue
    the datagram, wait for the callback, give both back. All of the configuration code uses it:
    the EEPROM and PHY access (\<^verbatim>\<open>src/eeprom.c\<close>, \<^verbatim>\<open>src/mii.c\<close>), the distributed clocks (\<^verbatim>\<open>src/dc.c\<close>), the
    states of the slaves (\<^verbatim>\<open>src/slave.c\<close>), the scan of the bus and the state of the master (\<^verbatim>\<open>src/ec.c\<close>).
  \<^item> The cyclic part of \<^verbatim>\<open>src/ec.c\<close> lays out a logical process image per group of slaves, sends it in
    every cycle and copies the answers back.
  \<^item> The mailbox (\<^verbatim>\<open>src/mbx.c\<close>) moves messages between queues and the memory of a slave; the protocols
    CoE, FoE, SoE and EoE are on top of it, and a gateway and a virtual network device use them.
  \<^item> A loop of its own (\<^verbatim>\<open>src/async_loop.c\<close>) looks after slaves that got lost.
  \<^item> On Linux the library may bring its own kernel module (\<^verbatim>\<open>linux/ethercat_device.c\<close>): a character
    device between a network driver and \<^verbatim>\<open>src/hw_file.c\<close>, with a pool of socket buffers, a queue of
    received frames, a monitor and a tunnel interface.

  How the code is modelled. A C struct is a record with the fields that the code uses, in the
  order of the source; a C function is a definition with the same name that gets the state and
  returns the new one, with the results of its out parameters. Return codes are the integers of
  \<^verbatim>\<open>error_codes.h\<close>. Integers whose width matters are words. A buffer is a list of bytes; an access
  outside it, a division by zero and a null pointer are \<^term>\<open>None\<close>, not an arbitrary value. Code
  outside the repository is a parameter: libosal (semaphores, timers, mutexes), the network
  device, the clock, floating-point arithmetic, the application's callbacks. Where a part of the
  library waits, what other threads do meanwhile is a parameter too (\<open>o_cycle\<close>, \<open>o_threads\<close>).

  Loops that wait for a timer or a slave run on fuel (\<^const>\<open>loop\<close>, \<open>o_fuel\<close>), and \<^term>\<open>None\<close> says that the
  fuel was not enough. No theorem rests on that silently: those that promise a result state how
  much fuel gives it (\<open>loop_terminates\<close> with a measure, or a clock that moves on, as in
  \<open>Slave_Correct\<close> and \<open>Coe_Peer\<close>), and those that say that a loop does not end hold for every fuel
  (\<open>Soe_Correct\<close>, \<open>Eeprom_Correct\<close>). Loops over lists and sub indices are structural; the parser of the
  EEPROM ends for each image (\<open>Eeprom_Cat\<close>). The bounds are those of \<^verbatim>\<open>common.h\<close>: 256 slaves, 8 groups,
  256 indices, 1600 bytes per pool entry, 1500 bytes per frame.
\<close>

section \<open>The theories\<close>

text \<open>
  \<^item> \<^verbatim>\<open>Prelude\<close>: byte buffers, little-endian fields, bounded loops, return codes, the interface of
    libosal with its documented laws. \<^verbatim>\<open>Regs\<close>: commands, registers and states, with their names.
  \<^item> \<^verbatim>\<open>Queue_Interface\<close>: the contract of a FIFO queue whose elements are in the queue or with a
    thread, as a locale. It is interpreted for \<^verbatim>\<open>Pool\<close>, \<^verbatim>\<open>Idx\<close> and \<^verbatim>\<open>Async_Queue\<close>; from it follow that
    no element is lost or owned twice, whatever the interleaving of the threads.
  \<^item> \<^verbatim>\<open>Datagram\<close>, \<^verbatim>\<open>Hw\<close>, \<^verbatim>\<open>Hw_Frames\<close>: frames, sending and receiving. Sending refines the greedy packing
    of a list of datagrams, and what is sent and comes back reaches the entries it was sent for;
    the contract of a device is a locale, interpreted for the raw socket, the mapped socket, the file device and the
    STM32. \<^verbatim>\<open>Hw_Embedded\<close>: STM32 and PikeOS, on which nothing is ever sent.
  \<^item> \<^verbatim>\<open>Hw_Socket\<close>, \<^verbatim>\<open>Hw_Mmaped\<close>: opening packet sockets, and the socket whose rings of frames are shared
    with the kernel, a parameter of which only the order is assumed that it serves them in.
    \<^verbatim>\<open>Ring_Queue\<close>: a ring of a producer and a consumer is a queue. \<^verbatim>\<open>Hw_Mmaped_Correct\<close>: waiting for a
    free slot ends, no frame in the ring is overwritten, what comes back reaches the callbacks.
  \<^item> \<^verbatim>\<open>Ethercat_Monitor\<close>, \<^verbatim>\<open>Ethercat_Tun\<close>, \<^verbatim>\<open>Ethercat_Device\<close>: the kernel module; the network driver is a
    record of functions on its own state. \<^verbatim>\<open>Ethercat_Device_Correct\<close>: in all runs each socket buffer
    has one owner, frames are read in order, and reading in the polling mode ends. \<^verbatim>\<open>Hw_File\<close>,
    \<^verbatim>\<open>Hw_File_Correct\<close>: the file device over it, and the way of datagrams from the queue through the
    library and the kernel to a driver and back to the callbacks.
  \<^item> \<^verbatim>\<open>Bus\<close>, \<^verbatim>\<open>Transceive\<close>: the contract of a register access as a locale and that \<^verbatim>\<open>ec_transceive\<close> over
    the hardware layer provides it.
  \<^item> \<^verbatim>\<open>Eeprom\<close>, \<^verbatim>\<open>Eeprom_Cat\<close>, \<^verbatim>\<open>Eeprom_Correct\<close>: a burst read is the part of the image asked for; strings
    are read back as they were encoded; the parser ends on any image.
  \<^item> \<^verbatim>\<open>PdMapping\<close>, \<^verbatim>\<open>ProcessData\<close>, \<^verbatim>\<open>ProcessData_Correct\<close>: the layout of the process image without gaps and
    overlaps, the working counters expected, the schedule of the groups, outputs on their way out
    and inputs on their way in, differences of clocks.
  \<^item> \<^verbatim>\<open>Slave_State\<close>, \<^verbatim>\<open>Dc\<close>, \<^verbatim>\<open>Slave\<close>, \<^verbatim>\<open>Slave_Transition\<close>, \<^verbatim>\<open>Scan\<close>, \<^verbatim>\<open>Master\<close>, \<^verbatim>\<open>Async\<close> with their \<^verbatim>\<open>_Correct\<close>
    theories: the state of master and slaves; ports, delays and sync signals of the distributed
    clocks (\<^verbatim>\<open>Dc_Duration\<close>: the measurement of a datagram); transitions reach their states
    (\<^verbatim>\<open>Slave_Config\<close>: what they are configured with); the scan computes the tree that is on the bus; what
    \<^verbatim>\<open>ec_set_state\<close> reports; the asynchronous loop simulates the message queues and repairs slaves.
    \<^verbatim>\<open>Master_Open\<close>: opening and closing over all parts.
  \<^item> \<^verbatim>\<open>Mailbox\<close>, \<^verbatim>\<open>Coe\<close>, \<^verbatim>\<open>Coe_Info\<close>, \<^verbatim>\<open>Coe_Master\<close>, \<^verbatim>\<open>Foe\<close>, \<^verbatim>\<open>Soe\<close>, \<^verbatim>\<open>Eoe\<close>, \<^verbatim>\<open>Mbx\<close>, \<^verbatim>\<open>Veth\<close>: the mailbox and its users.
    \<^verbatim>\<open>Mbx_Correct\<close>: the handler conserves the buffers and keeps lengths, counters and ring positions
    in range. \<^verbatim>\<open>Coe_Peer\<close>: what a request relies on, as a locale, provided by the handler and a slave
    that answers; \<^verbatim>\<open>Coe_Download\<close>: the slave reads back what was to be written. \<^verbatim>\<open>Coe_Emergency\<close>,
    \<^verbatim>\<open>Soe_Correct\<close>, \<^verbatim>\<open>Veth_Correct\<close>: the emergency ring, a read that never returns, checksums and
    addresses of answers. \<^verbatim>\<open>Coe_Master_Correct\<close>: the dictionary of the master: the layout of its
    objects, writing and reading back, the list of objects, requests through the gateway.
\<close>

section \<open>Not modelled\<close>

text \<open>
  Logging and the printing of messages (no effect on the state); locks, which are transparent but
  for the mutex of the CoE mailbox, whose result the code looks at; the start and end of threads;
  opening the file of PikeOS with its options; the back end for BPF, which does not compile; the registration of the kernel module and the copies of the
  drivers of the Linux kernel with small changes under \<^verbatim>\<open>linux/drivers\<close>; and the command line tools,
  which only call the library.
\<close>

end
